(* ===== verification/Prelude.thy ===== *)
theory Prelude
  imports Main "HOL-Library.Word"
begin

text \<open>
  The prelude of the development: bytes and C strings, the two faults a run of the C code can
  have in the model, sequencing of calls that report an \<open>int\<close> status, and the generic lemmas
  that the components share.
\<close>

section \<open>Bytes and C strings\<close>

text \<open>
  A C \<open>char\<close> is a \<^typ>\<open>char\<close> (eight bits), a block of memory or a C string is a list of them.
  A C string ends at its first zero byte; where a list holds none, its end stands for the
  terminator.
\<close>

type_synonym byte = char
type_synonym bytes = string

abbreviation NUL :: byte where "NUL \<equiv> CHR 0x00"

definition byte_val :: "byte \<Rightarrow> nat" where
  "byte_val b = of_char b"

definition c_string :: "bytes \<Rightarrow> bytes" where
  "c_string s = takeWhile (\<lambda>b. b \<noteq> NUL) s"

definition strlen :: "bytes \<Rightarrow> nat" where
  "strlen s = length (c_string s)"

definition no_nul :: "bytes \<Rightarrow> bool" where
  "no_nul s \<longleftrightarrow> NUL \<notin> set s"

lemma byte_val_less [simp]: "byte_val b < 256"
  by (simp add: byte_val_def)

lemma byte_val_Char [simp]:
  "byte_val (Char b0 b1 b2 b3 b4 b5 b6 b7) =
     of_bool b0 + 2 * (of_bool b1 + 2 * (of_bool b2 + 2 * (of_bool b3 + 2 * (of_bool b4 +
     2 * (of_bool b5 + 2 * (of_bool b6 + 2 * of_bool b7))))))"
  by (simp add: byte_val_def)

lemma byte_val_inject: "byte_val a = byte_val b \<longleftrightarrow> a = b"
  by (simp add: byte_val_def)

lemma c_string_id [simp]: "no_nul s \<Longrightarrow> c_string s = s"
  by (auto simp: c_string_def no_nul_def takeWhile_eq_all_conv)

lemma no_nul_c_string [simp]: "no_nul (c_string s)"
  by (auto simp: c_string_def no_nul_def dest: set_takeWhileD)

lemma c_string_idem [simp]: "c_string (c_string s) = c_string s"
  by simp

lemma strlen_le: "strlen s \<le> length s"
  by (simp add: strlen_def c_string_def length_takeWhile_le)

lemma strlen_no_nul [simp]: "no_nul s \<Longrightarrow> strlen s = length s"
  by (simp add: strlen_def)

lemma no_nul_append [simp]: "no_nul (a @ b) \<longleftrightarrow> no_nul a \<and> no_nul b"
  by (auto simp: no_nul_def)

lemma no_nul_Nil [simp]: "no_nul []"
  by (simp add: no_nul_def)

lemma no_nul_Cons [simp]: "no_nul (b # s) \<longleftrightarrow> b \<noteq> NUL \<and> no_nul s"
  by (auto simp: no_nul_def)

section \<open>Faults\<close>

text \<open>
  A run either returns or meets a fault. \<open>UndefinedBehaviour\<close> is an access the C code makes
  outside the object it points into (the model never invents a value for it); \<open>OutOfFuel\<close> is
  the model's own, for recursions whose fuel ran out, and every component proves how much
  fuel is enough.
\<close>

datatype fault = UndefinedBehaviour | OutOfFuel

type_synonym 'a run = "fault + 'a"

definition bind_run :: "'a run \<Rightarrow> ('a \<Rightarrow> 'b run) \<Rightarrow> 'b run" where
  "bind_run m f = (case m of Inl e \<Rightarrow> Inl e | Inr x \<Rightarrow> f x)"

lemma bind_run_simps [simp]:
  "bind_run (Inl e) f = Inl e"
  "bind_run (Inr x) f = f x"
  by (simp_all add: bind_run_def)

lemma bind_run_eq_Inr: "bind_run m f = Inr y \<longleftrightarrow> (\<exists>x. m = Inr x \<and> f x = Inr y)"
  by (cases m) simp_all

lemma bind_run_eq_Inl: "bind_run m f = Inl e \<longleftrightarrow> m = Inl e \<or> (\<exists>x. m = Inr x \<and> f x = Inl e)"
  by (cases m) auto

lemma bind_run_assoc: "bind_run (bind_run m f) g = bind_run m (\<lambda>x. bind_run (f x) g)"
  by (cases m) simp_all

text \<open>A read inside a block of memory: outside it the behaviour is undefined.\<close>

definition read_at :: "'a list \<Rightarrow> nat \<Rightarrow> 'a run" where
  "read_at xs i = (if i < length xs then Inr (xs ! i) else Inl UndefinedBehaviour)"

lemma read_at_in [simp]: "i < length xs \<Longrightarrow> read_at xs i = Inr (xs ! i)"
  by (simp add: read_at_def)

lemma read_at_out [simp]: "length xs \<le> i \<Longrightarrow> read_at xs i = Inl UndefinedBehaviour"
  by (simp add: read_at_def)

lemma read_at_eq_Inr: "read_at xs i = Inr x \<longleftrightarrow> i < length xs \<and> xs ! i = x"
  by (auto simp: read_at_def)

section \<open>Calls that report a status\<close>

text \<open>
  Most of the C code's operations return an \<open>int\<close> that is zero on success, and their callers
  pass a non-zero status on at once (\<open>if ((result = f(...)) != OK) return result;\<close>).
  A call is a state transformer with a status; \<open>steps\<close> is a sequence of calls with that early
  return after each.
\<close>

type_synonym 's call = "'s \<Rightarrow> (int \<times> 's) run"

definition ok :: "'s call" where
  "ok s = Inr (0, s)"

definition fail :: "int \<Rightarrow> 's call" where
  "fail r s = Inr (r, s)"

fun steps :: "'s call list \<Rightarrow> 's call" where
  "steps [] s = Inr (0, s)"
| "steps (f # fs) s =
     (case f s of Inl e \<Rightarrow> Inl e
      | Inr (r, s') \<Rightarrow> if r \<noteq> 0 then Inr (r, s') else steps fs s')"

lemma ok_eq [simp]: "ok s = Inr (r, t) \<longleftrightarrow> r = 0 \<and> t = s"
  by (auto simp: ok_def)

lemma ok_not_Inl [simp]: "ok s \<noteq> Inl e"
  by (simp add: ok_def)

lemma fail_eq [simp]: "fail q s = Inr (r, t) \<longleftrightarrow> r = q \<and> t = s"
  by (auto simp: fail_def)

lemma fail_not_Inl [simp]: "fail q s \<noteq> Inl e"
  by (simp add: fail_def)

lemma steps_Cons_ok: "f s = Inr (0, s') \<Longrightarrow> steps (f # fs) s = steps fs s'"
  by simp

lemma steps_Cons_OK_iff:
  "steps (f # fs) s = Inr (0, t) \<longleftrightarrow> (\<exists>u. f s = Inr (0, u) \<and> steps fs u = Inr (0, t))"
  by (auto split: sum.splits prod.splits)

lemma steps_append:
  "steps (fs @ gs) s =
     (case steps fs s of Inl e \<Rightarrow> Inl e
      | Inr (r, s') \<Rightarrow> if r \<noteq> 0 then Inr (r, s') else steps gs s')"
  by (induction fs arbitrary: s) (auto split: sum.splits prod.splits)

text \<open>An invariant that every call of a sequence keeps, whatever its status, is kept.\<close>

definition keeps :: "('s \<Rightarrow> bool) \<Rightarrow> 's call \<Rightarrow> bool" where
  "keeps P f \<longleftrightarrow> (\<forall>s r t. P s \<longrightarrow> f s = Inr (r, t) \<longrightarrow> P t)"

lemma keepsI: "(\<And>s r t. P s \<Longrightarrow> f s = Inr (r, t) \<Longrightarrow> P t) \<Longrightarrow> keeps P f"
  by (auto simp: keeps_def)

lemma keepsD: "keeps P f \<Longrightarrow> P s \<Longrightarrow> f s = Inr (r, t) \<Longrightarrow> P t"
  by (auto simp: keeps_def)

lemma keeps_ok [simp, intro]: "keeps P ok"
  by (simp add: keeps_def)

lemma keeps_fail [simp, intro]: "keeps P (fail r)"
  by (simp add: keeps_def)

lemma keeps_steps [intro]: "(\<And>f. f \<in> set fs \<Longrightarrow> keeps P f) \<Longrightarrow> keeps P (steps fs)"
proof (induction fs)
  case Nil
  show ?case by (simp add: keeps_def)
next
  case (Cons f fs)
  then have f: "keeps P f" and fs: "keeps P (steps fs)" by auto
  show ?case
  proof (rule keepsI)
    fix s r t
    assume P: "P s" and run: "steps (f # fs) s = Inr (r, t)"
    from run obtain q u where u: "f s = Inr (q, u)"
      and rest: "if q \<noteq> 0 then Inr (q, u) = Inr (r, t) else steps fs u = Inr (r, t)"
      by (auto split: sum.splits prod.splits if_splits)
    have "P u" using f P u by (rule keepsD)
    with fs rest show "P t" by (auto dest: keepsD split: if_splits)
  qed
qed

text \<open>A call that never faults where an invariant holds.\<close>

definition safe :: "('s \<Rightarrow> bool) \<Rightarrow> 's call \<Rightarrow> bool" where
  "safe P f \<longleftrightarrow> (\<forall>s. P s \<longrightarrow> (\<exists>r t. f s = Inr (r, t) \<and> P t))"

lemma safeI: "(\<And>s. P s \<Longrightarrow> \<exists>r t. f s = Inr (r, t) \<and> P t) \<Longrightarrow> safe P f"
  by (auto simp: safe_def)

lemma safeE:
  assumes "safe P f" "P s"
  obtains r t where "f s = Inr (r, t)" "P t"
  using assms by (auto simp: safe_def)

lemma safe_ok [simp, intro]: "safe P ok"
  by (simp add: safe_def ok_def)

lemma safe_fail [simp, intro]: "safe P (fail r)"
  by (simp add: safe_def fail_def)

lemma safe_steps [intro]: "(\<And>f. f \<in> set fs \<Longrightarrow> safe P f) \<Longrightarrow> safe P (steps fs)"
proof (induction fs)
  case Nil
  show ?case by (simp add: safe_def)
next
  case (Cons f fs)
  then have f: "safe P f" and fs: "safe P (steps fs)" by auto
  show ?case
  proof (rule safeI)
    fix s
    assume "P s"
    from f this obtain r t where t: "f s = Inr (r, t)" "P t" by (rule safeE)
    show "\<exists>r t. steps (f # fs) s = Inr (r, t) \<and> P t"
    proof (cases "r = 0")
      case True
      from fs t(2) obtain q u where "steps fs t = Inr (q, u)" "P u" by (rule safeE)
      with t True show ?thesis by simp
    next
      case False
      with t show ?thesis by simp
    qed
  qed
qed

section \<open>Decimal digits\<close>

text \<open>What \<open>printf\<close>'s \<open>%d\<close> and \<open>%u\<close> conversions write for a number.\<close>

definition digit_char :: "nat \<Rightarrow> byte" where
  "digit_char d = char_of (48 + d)"

fun show_nat :: "nat \<Rightarrow> bytes" where
  "show_nat n = (if n < 10 then [digit_char n] else show_nat (n div 10) @ [digit_char (n mod 10)])"

declare show_nat.simps [simp del]

definition show_int :: "int \<Rightarrow> bytes" where
  "show_int i = (if i < 0 then ''-'' @ show_nat (nat (- i)) else show_nat (nat i))"

definition is_digit :: "byte \<Rightarrow> bool" where
  "is_digit b \<longleftrightarrow> 48 \<le> byte_val b \<and> byte_val b \<le> 57"

lemma length_show_nat: "0 < k \<Longrightarrow> n < 10 ^ k \<Longrightarrow> length (show_nat n) \<le> k"
proof (induction k arbitrary: n)
  case (Suc k)
  show ?case
  proof (cases "n < 10")
    case True
    then show ?thesis by (simp add: show_nat.simps [of n])
  next
    case False
    with Suc.prems have "0 < k" by (cases k) auto
    moreover have "n div 10 < 10 ^ k" using Suc.prems by (simp add: less_mult_imp_div_less mult.commute)
    ultimately have "length (show_nat (n div 10)) \<le> k" by (rule Suc.IH)
    with False show ?thesis by (simp add: show_nat.simps [of n])
  qed
qed simp

lemma show_nat_not_Nil [simp]: "show_nat n \<noteq> []"
  by (simp add: show_nat.simps [of n])

lemma digit_char_val: "d < 10 \<Longrightarrow> byte_val (digit_char d) = 48 + d"
  by (simp add: digit_char_def byte_val_def)

lemma is_digit_digit_char [simp]: "d < 10 \<Longrightarrow> is_digit (digit_char d)"
  by (simp add: is_digit_def digit_char_val)

lemma show_nat_digits: "list_all is_digit (show_nat n)"
  by (induction n rule: show_nat.induct) (subst show_nat.simps, simp)

lemma length_show_uint64: "length (show_nat (unat (w :: 64 word))) \<le> 20"
proof (rule length_show_nat)
  have "unat w < 2 ^ 64" using unsigned_less [of w] by simp
  then show "unat w < 10 ^ 20" by simp
qed simp

lemma length_show_int64: "length (show_int (sint (w :: 64 word))) \<le> 20"
proof -
  have lo: "- (2 ^ 63) \<le> sint w" and hi: "sint w < 2 ^ 63"
    using sint_range_size [of w] by (simp_all add: word_size)
  have "nat (- sint w) < 10 ^ 19" "nat (sint w) < 10 ^ 19" using lo hi by simp_all
  then have "length (show_nat (nat (- sint w))) \<le> 19" "length (show_nat (nat (sint w))) \<le> 19"
    by (simp_all only: length_show_nat zero_less_numeral)
  then show ?thesis by (simp add: show_int_def)
qed


section \<open>Words in memory\<close>

text \<open>All the targets keep the least byte of a word first.\<close>

fun le_word :: "bytes \<Rightarrow> 64 word" where
  "le_word [] = 0"
| "le_word (b # bs) = or (of_nat (byte_val b)) (push_bit 8 (le_word bs))"

fun le_bytes :: "nat \<Rightarrow> 64 word \<Rightarrow> bytes" where
  "le_bytes 0 w = []"
| "le_bytes (Suc n) w = char_of (unat (take_bit 8 w)) # le_bytes n (drop_bit 8 w)"

lemma length_le_bytes [simp]: "length (le_bytes n w) = n"
  by (induction n arbitrary: w) simp_all

lemma le_word_bytes: "le_word (le_bytes n w) = take_bit (8 * n) w"
proof (induction n arbitrary: w)
  case (Suc n)
  have "unat (take_bit 8 w) < 256"
    using take_bit_nat_less_exp [of 8 "unat w"] by (simp add: unsigned_take_bit_eq)
  then have "of_nat (byte_val (char_of (unat (take_bit 8 w)))) = take_bit 8 w"
    by (simp add: byte_val_def)
  then have "le_word (le_bytes (Suc n) w) = or (take_bit 8 w) (push_bit 8 (take_bit (8 * n) (drop_bit 8 w)))"
    by (simp only: le_word.simps le_bytes.simps Suc.IH)
  also have "\<dots> = take_bit (8 * Suc n) w"
    by (rule bit_word_eqI) (auto simp: bit_simps)
  finally show ?case .
qed simp

lemma le_word_bytes8 [simp]: "le_word (le_bytes 8 w) = w"
  by (simp add: le_word_bytes take_bit_word_eq_self)

end
