(* ===== verification/Json_Encode.thy ===== *)
theory Json_Encode
  imports Prelude
begin

text \<open>
  The encoding half of \<open>Recording/Tools/SentryCrashJSONCodec.c\<close>: the context that counts the
  open containers, escaping of strings through a fixed work buffer, and one operation per kind of
  element. What receives the text is the caller's \<open>addJSONData\<close> function; the model keeps it in
  the context, as the code does, with the state it works on.
\<close>

section \<open>Status codes\<close>

definition SentryCrashJSON_OK :: int where "SentryCrashJSON_OK = 0"
definition SentryCrashJSON_ERROR_INVALID_CHARACTER :: int where
  "SentryCrashJSON_ERROR_INVALID_CHARACTER = 1"
definition SentryCrashJSON_ERROR_DATA_TOO_LONG :: int where
  "SentryCrashJSON_ERROR_DATA_TOO_LONG = 2"
definition SentryCrashJSON_ERROR_CANNOT_ADD_DATA :: int where
  "SentryCrashJSON_ERROR_CANNOT_ADD_DATA = 3"
definition SentryCrashJSON_ERROR_INCOMPLETE :: int where
  "SentryCrashJSON_ERROR_INCOMPLETE = 4"
definition SentryCrashJSON_ERROR_INVALID_DATA :: int where
  "SentryCrashJSON_ERROR_INVALID_DATA = 5"

lemmas json_codes = SentryCrashJSON_OK_def SentryCrashJSON_ERROR_INVALID_CHARACTER_def
  SentryCrashJSON_ERROR_DATA_TOO_LONG_def SentryCrashJSON_ERROR_CANNOT_ADD_DATA_def
  SentryCrashJSON_ERROR_INCOMPLETE_def SentryCrashJSON_ERROR_INVALID_DATA_def

definition sentrycrashjson_stringForError :: "int \<Rightarrow> bytes" where
  "sentrycrashjson_stringForError e =
     (if e = SentryCrashJSON_ERROR_INVALID_CHARACTER then ''Invalid character''
      else if e = SentryCrashJSON_ERROR_DATA_TOO_LONG then ''Data too long''
      else if e = SentryCrashJSON_ERROR_CANNOT_ADD_DATA then ''Cannot add data''
      else if e = SentryCrashJSON_ERROR_INCOMPLETE then ''Incomplete data''
      else if e = SentryCrashJSON_ERROR_INVALID_DATA then ''Invalid data''
      else ''(unknown error)'')"

section \<open>The encoding context\<close>

text \<open>
  \<open>SentryCrashJSONEncodeContext\<close>. The array \<open>isObject\<close> has 200 entries and no operation checks
  the level against that length, so a container opened at level 199 writes past it: an access
  the model reports as undefined.
\<close>

record 'u json_encode_context =
  addJSONData_fn :: "bytes \<Rightarrow> 'u call"
  userData :: 'u
  containerLevel :: int
  isObject :: "bool list"
  containerFirstEntry :: bool
  prettyPrint :: bool

type_synonym 'u enc = "'u json_encode_context call"

definition addJSONData :: "bytes \<Rightarrow> 'u enc" where
  "addJSONData data c =
     bind_run (addJSONData_fn c data (userData c)) (\<lambda>(r, u). Inr (r, c\<lparr>userData := u\<rparr>))"

definition get_isObject :: "'u json_encode_context \<Rightarrow> bool run" where
  "get_isObject c =
     (if containerLevel c < 0 then Inl UndefinedBehaviour
      else read_at (isObject c) (nat (containerLevel c)))"

definition set_isObject :: "bool \<Rightarrow> 'u enc" where
  "set_isObject b c =
     (if containerLevel c < 0 \<or> int (length (isObject c)) \<le> containerLevel c
      then Inl UndefinedBehaviour
      else Inr (0, c\<lparr>isObject := (isObject c)[nat (containerLevel c) := b]\<rparr>))"

section \<open>Strings\<close>

text \<open>
  Escaping goes through a work buffer of 512 bytes on the stack; \<open>put\<close> is a write at its end,
  undefined once the buffer is full. The first loop copies characters that need no escape, the
  second one handles the rest of the portion.
\<close>

definition SentryCrashJSONCODEC_WorkBufferSize :: nat where
  "SentryCrashJSONCODEC_WorkBufferSize = 512"

definition put :: "byte \<Rightarrow> bytes \<Rightarrow> bytes run" where
  "put b dst = (if length dst < SentryCrashJSONCODEC_WorkBufferSize then Inr (dst @ [b])
                else Inl UndefinedBehaviour)"

definition plain_char :: "byte \<Rightarrow> bool" where
  "plain_char b \<longleftrightarrow> b \<noteq> CHR 0x5C \<and> b \<noteq> CHR 0x22 \<and> 32 \<le> byte_val b"

fun copy_plain :: "bytes \<Rightarrow> bytes \<Rightarrow> (bytes \<times> bytes) run" where
  "copy_plain [] dst = Inr ([], dst)"
| "copy_plain (b # src) dst =
     (if plain_char b then bind_run (put b dst) (copy_plain src) else Inr (b # src, dst))"

definition put_escape :: "byte \<Rightarrow> bytes \<Rightarrow> bytes run" where
  "put_escape b dst = bind_run (put (CHR 0x5C) dst) (put b)"

fun copy_escaping :: "bytes \<Rightarrow> bytes \<Rightarrow> (int \<times> bytes) run" where
  "copy_escaping [] dst = Inr (SentryCrashJSON_OK, dst)"
| "copy_escaping (b # src) dst =
     (if b = CHR 0x5C \<or> b = CHR 0x22 then bind_run (put_escape b dst) (copy_escaping src)
      else if b = CHR 0x08 then bind_run (put_escape CHR ''b'' dst) (copy_escaping src)
      else if b = CHR 0x0C then bind_run (put_escape CHR ''f'' dst) (copy_escaping src)
      else if b = CHR 0x0A then bind_run (put_escape CHR ''n'' dst) (copy_escaping src)
      else if b = CHR 0x0D then bind_run (put_escape CHR ''r'' dst) (copy_escaping src)
      else if b = CHR 0x09 then bind_run (put_escape CHR ''t'' dst) (copy_escaping src)
      else if byte_val b < 32 then Inr (SentryCrashJSON_ERROR_INVALID_CHARACTER, dst)
      else bind_run (put b dst) (copy_escaping src))"

definition appendEscapedString :: "bytes \<Rightarrow> 'u enc" where
  "appendEscapedString string c =
     bind_run (copy_plain string []) (\<lambda>(src, dst).
     bind_run (copy_escaping src dst) (\<lambda>(result, dst).
       if result \<noteq> SentryCrashJSON_OK then Inr (result, c) else addJSONData dst c))"

text \<open>
  \<open>addEscapedString\<close> cuts the string into portions of half the buffer. Its argument is the bytes
  still to add (\<open>string + offset\<close> up to \<open>length\<close>).
\<close>

function addEscapedString :: "bytes \<Rightarrow> 'u enc" where
  "addEscapedString string c =
     (if string = [] then Inr (SentryCrashJSON_OK, c)
      else let toAdd = min (length string) (SentryCrashJSONCODEC_WorkBufferSize div 2) in
        bind_run (appendEscapedString (take toAdd string) c) (\<lambda>(result, c).
          if result \<noteq> SentryCrashJSON_OK then Inr (result, c)
          else addEscapedString (drop toAdd string) c))"
  by pat_completeness auto
termination
  by (relation "measure (\<lambda>(string, c). length string)")
     (auto simp: SentryCrashJSONCODEC_WorkBufferSize_def)

declare addEscapedString.simps [simp del]

text \<open>
  The status of a quoted string is \<open>result || closeResult\<close>, a truth value: any failure of the
  content or of the closing quote is reported as 1.
\<close>

definition addQuotedEscapedString :: "bytes \<Rightarrow> 'u enc" where
  "addQuotedEscapedString string c =
     bind_run (addJSONData ''\"'' c) (\<lambda>(result, c).
       if result \<noteq> SentryCrashJSON_OK then Inr (result, c)
       else bind_run (addEscapedString string c) (\<lambda>(result, c).
         bind_run (addJSONData ''\"'' c) (\<lambda>(closeResult, c).
           Inr (if result \<noteq> 0 \<or> closeResult \<noteq> 0 then 1 else 0, c))))"

section \<open>Elements\<close>

definition indent :: "'u enc" where
  "indent c = steps (addJSONData ''\<newline>'' #
                     replicate (nat (containerLevel c)) (addJSONData ''    '')) c"

definition sentrycrashjson_beginElement :: "bytes option \<Rightarrow> 'u enc" where
  "sentrycrashjson_beginElement name =
     steps
      [\<lambda>c. if containerFirstEntry c then Inr (0, c\<lparr>containerFirstEntry := False\<rparr>)
           else addJSONData '','' c,
       \<lambda>c. if prettyPrint c \<and> containerLevel c > 0 then indent c else ok c,
       \<lambda>c. bind_run (get_isObject c) (\<lambda>inObject.
             if \<not> inObject then ok c
             else case name of
                 None \<Rightarrow> fail SentryCrashJSON_ERROR_INVALID_DATA c
               | Some n \<Rightarrow>
                   steps [addQuotedEscapedString (c_string n),
                          \<lambda>c. addJSONData (if prettyPrint c then '': '' else '':'') c] c)]"

definition sentrycrashjson_addRawJSONData :: "bytes \<Rightarrow> 'u enc" where
  "sentrycrashjson_addRawJSONData data = addJSONData data"

definition sentrycrashjson_addBooleanElement :: "bytes option \<Rightarrow> bool \<Rightarrow> 'u enc" where
  "sentrycrashjson_addBooleanElement name value =
     steps [sentrycrashjson_beginElement name,
            if value then addJSONData ''true'' else addJSONData ''false'']"

definition sentrycrashjson_addNullElement :: "bytes option \<Rightarrow> 'u enc" where
  "sentrycrashjson_addNullElement name =
     steps [sentrycrashjson_beginElement name, addJSONData ''null'']"

text \<open>
  A C \<open>double\<close> is a type parameter \<open>'d\<close>; \<open>isnan\<close> and the \<open>%lg\<close> conversions of the C library,
  which the code calls, come as a record of functions.
\<close>

record 'd fp_ops =
  fp_isnan :: "'d \<Rightarrow> bool"
  fp_print :: "'d \<Rightarrow> bytes"
  fp_scan :: "bytes \<Rightarrow> 'd"
  fp_neg :: "'d \<Rightarrow> 'd"

text \<open>\<open>snprintf\<close> into a buffer of \<open>n\<close> bytes keeps at most \<open>n - 1\<close> characters.\<close>

definition snprintf :: "nat \<Rightarrow> bytes \<Rightarrow> bytes" where
  "snprintf n s = take (n - 1) s"

definition sentrycrashjson_addFloatingPointElement ::
    "'d fp_ops \<Rightarrow> bytes option \<Rightarrow> 'd \<Rightarrow> 'u enc" where
  "sentrycrashjson_addFloatingPointElement fp name value =
     (if fp_isnan fp value then sentrycrashjson_addNullElement name
      else steps [sentrycrashjson_beginElement name,
                  addJSONData (c_string (snprintf 50 (fp_print fp value)))])"

definition sentrycrashjson_addIntegerElement :: "bytes option \<Rightarrow> 64 word \<Rightarrow> 'u enc" where
  "sentrycrashjson_addIntegerElement name value =
     steps [sentrycrashjson_beginElement name,
            addJSONData (snprintf 30 (show_int (sint value)))]"

definition sentrycrashjson_addUIntegerElement :: "bytes option \<Rightarrow> 64 word \<Rightarrow> 'u enc" where
  "sentrycrashjson_addUIntegerElement name value =
     steps [sentrycrashjson_beginElement name,
            addJSONData (snprintf 30 (show_nat (unat value)))]"

text \<open>
  A string value is a pointer and a length, or \<open>SentryCrashJSON_SIZE_AUTOMATIC\<close>. The pointer is
  given by the memory that can be read through it.
\<close>

definition SentryCrashJSON_SIZE_AUTOMATIC :: int where "SentryCrashJSON_SIZE_AUTOMATIC = -1"

definition portion :: "bytes \<Rightarrow> int \<Rightarrow> bytes run" where
  "portion string len =
     (if int (length string) < len then Inl UndefinedBehaviour else Inr (take (nat len) string))"

definition sentrycrashjson_addStringElement ::
    "bytes option \<Rightarrow> bytes option \<Rightarrow> int \<Rightarrow> 'u enc" where
  "sentrycrashjson_addStringElement name value len =
     (case value of
        None \<Rightarrow> sentrycrashjson_addNullElement name
      | Some v \<Rightarrow>
          steps [sentrycrashjson_beginElement name,
                 \<lambda>c. bind_run
                   (portion v (if len = SentryCrashJSON_SIZE_AUTOMATIC then int (strlen v) else len))
                   (\<lambda>s. addQuotedEscapedString s c)])"

definition sentrycrashjson_beginStringElement :: "bytes option \<Rightarrow> 'u enc" where
  "sentrycrashjson_beginStringElement name =
     steps [sentrycrashjson_beginElement name, addJSONData ''\"'']"

definition sentrycrashjson_appendStringElement :: "bytes \<Rightarrow> int \<Rightarrow> 'u enc" where
  "sentrycrashjson_appendStringElement value len c =
     bind_run (portion value len) (\<lambda>s. addEscapedString s c)"

definition sentrycrashjson_endStringElement :: "'u enc" where
  "sentrycrashjson_endStringElement = addJSONData ''\"''"

definition g_hexNybbles :: bytes where
  "g_hexNybbles = ''0123456789ABCDEF''"

definition hex_byte :: "byte \<Rightarrow> bytes" where
  "hex_byte b = [g_hexNybbles ! (byte_val b div 16 mod 16), g_hexNybbles ! (byte_val b mod 16)]"

definition sentrycrashjson_appendDataElement :: "bytes \<Rightarrow> int \<Rightarrow> 'u enc" where
  "sentrycrashjson_appendDataElement value len c =
     bind_run (portion value len) (\<lambda>s. steps (map (\<lambda>b. addJSONData (hex_byte b)) s) c)"

definition sentrycrashjson_beginDataElement :: "bytes option \<Rightarrow> 'u enc" where
  "sentrycrashjson_beginDataElement name = sentrycrashjson_beginStringElement name"

definition sentrycrashjson_endDataElement :: "'u enc" where
  "sentrycrashjson_endDataElement = sentrycrashjson_endStringElement"

definition sentrycrashjson_addDataElement ::
    "bytes option \<Rightarrow> bytes \<Rightarrow> int \<Rightarrow> 'u enc" where
  "sentrycrashjson_addDataElement name value len =
     steps [sentrycrashjson_beginDataElement name,
            sentrycrashjson_appendDataElement value len,
            sentrycrashjson_endDataElement]"

section \<open>Containers\<close>

definition begin_container :: "bool \<Rightarrow> bytes \<Rightarrow> bytes option \<Rightarrow> 'u enc" where
  "begin_container object bracket name =
     steps
      [\<lambda>c. if containerLevel c \<ge> 0 then sentrycrashjson_beginElement name c else ok c,
       \<lambda>c. ok (c\<lparr>containerLevel := containerLevel c + 1\<rparr>),
       set_isObject object,
       \<lambda>c. ok (c\<lparr>containerFirstEntry := True\<rparr>),
       addJSONData bracket]"

definition sentrycrashjson_beginArray :: "bytes option \<Rightarrow> 'u enc" where
  "sentrycrashjson_beginArray name = begin_container False ''['' name"

definition sentrycrashjson_beginObject :: "bytes option \<Rightarrow> 'u enc" where
  "sentrycrashjson_beginObject name = begin_container True ''{'' name"

definition sentrycrashjson_endContainer :: "'u enc" where
  "sentrycrashjson_endContainer c =
     (if containerLevel c \<le> 0 then Inr (SentryCrashJSON_OK, c)
      else bind_run (get_isObject c) (\<lambda>object.
        steps
         [\<lambda>c. ok (c\<lparr>containerLevel := containerLevel c - 1\<rparr>),
          \<lambda>c. if prettyPrint c \<and> \<not> containerFirstEntry c then indent c else ok c,
          \<lambda>c. ok (c\<lparr>containerFirstEntry := False\<rparr>),
          addJSONData (if object then ''}'' else '']'')] c))"

definition sentrycrashjson_beginEncode ::
    "bool \<Rightarrow> (bytes \<Rightarrow> 'u call) \<Rightarrow> 'u \<Rightarrow> 'u json_encode_context" where
  "sentrycrashjson_beginEncode pretty fn u =
     \<lparr>addJSONData_fn = fn, userData = u, containerLevel = 0, isObject = replicate 200 False,
      containerFirstEntry = True, prettyPrint = pretty\<rparr>"

text \<open>
  The loop of \<open>endEncode\<close> closes one container per round; the level it starts from bounds the
  rounds, so that many are enough (\<open>endEncode_closes_all\<close> below).
\<close>

fun end_encode_loop :: "nat \<Rightarrow> 'u enc" where
  "end_encode_loop 0 c =
     (if containerLevel c > 0 then Inl OutOfFuel else Inr (SentryCrashJSON_OK, c))"
| "end_encode_loop (Suc n) c =
     (if containerLevel c > 0
      then bind_run (sentrycrashjson_endContainer c) (\<lambda>(result, c).
             if result \<noteq> SentryCrashJSON_OK then Inr (result, c) else end_encode_loop n c)
      else Inr (SentryCrashJSON_OK, c))"

definition sentrycrashjson_endEncode :: "'u enc" where
  "sentrycrashjson_endEncode c = end_encode_loop (nat (containerLevel c)) c"

end
