(* ===== verification/Json_Encode_Spec.thy ===== *)
theory Json_Encode_Spec
  imports Json_Encode
begin

text \<open>
  What the encoder promises. The context is abstracted to a \<open>shape\<close>: pretty printing or not, the
  stack of open containers (innermost first, true for an object) and whether the innermost one
  is still empty. A reference text is given for each operation, and \<open>emits\<close> says that a call
  sends exactly that text to the sink and moves from one shape to another.
\<close>

section \<open>Escaping, specified\<close>

definition escapable :: "byte \<Rightarrow> bool" where
  "escapable b \<longleftrightarrow> 32 \<le> byte_val b \<or> b \<in> {CHR 0x08, CHR 0x09, CHR 0x0A, CHR 0x0C, CHR 0x0D}"

definition escape :: "byte \<Rightarrow> bytes" where
  "escape b =
     (if b = CHR 0x5C \<or> b = CHR 0x22 then [CHR 0x5C, b]
      else if b = CHR 0x08 then [CHR 0x5C, CHR ''b'']
      else if b = CHR 0x0C then [CHR 0x5C, CHR ''f'']
      else if b = CHR 0x0A then [CHR 0x5C, CHR ''n'']
      else if b = CHR 0x0D then [CHR 0x5C, CHR ''r'']
      else if b = CHR 0x09 then [CHR 0x5C, CHR ''t'']
      else [b])"

definition escape_string :: "bytes \<Rightarrow> bytes" where
  "escape_string s = concat (map escape s)"

definition escapable_string :: "bytes \<Rightarrow> bool" where
  "escapable_string s \<longleftrightarrow> list_all escapable s"

definition quoted :: "bytes \<Rightarrow> bytes" where
  "quoted s = ''\"'' @ escape_string s @ ''\"''"

lemma escape_string_simps [simp]:
  "escape_string [] = []"
  "escape_string (b # s) = escape b @ escape_string s"
  "escape_string (s @ t) = escape_string s @ escape_string t"
  by (simp_all add: escape_string_def)

lemma escapable_string_simps [simp]:
  "escapable_string []"
  "escapable_string (b # s) \<longleftrightarrow> escapable b \<and> escapable_string s"
  "escapable_string (s @ t) \<longleftrightarrow> escapable_string s \<and> escapable_string t"
  by (simp_all add: escapable_string_def)

lemma length_escape: "1 \<le> length (escape b) \<and> length (escape b) \<le> 2"
  by (simp add: escape_def)

lemma length_escape_string: "length s \<le> length (escape_string s)
    \<and> length (escape_string s) \<le> 2 * length s"
proof (induction s)
  case (Cons b s)
  then show ?case using length_escape [of b] by simp
qed simp

lemma plain_escape: "plain_char b \<Longrightarrow> escapable b \<and> escape b = [b]"
  by (auto simp: plain_char_def escapable_def escape_def)

lemma not_escapable:
  assumes "\<not> escapable b"
  shows "byte_val b < 32"
    and "b \<noteq> CHR 0x5C" "b \<noteq> CHR 0x22" "b \<noteq> CHR 0x08" "b \<noteq> CHR 0x0C" "b \<noteq> CHR 0x0A"
      "b \<noteq> CHR 0x0D" "b \<noteq> CHR 0x09"
proof -
  show small: "byte_val b < 32" using assms by (simp add: escapable_def)
  show "b \<noteq> CHR 0x5C" using small by (cases "b = CHR 0x5C") simp_all
  show "b \<noteq> CHR 0x22" using small by (cases "b = CHR 0x22") simp_all
  show "b \<noteq> CHR 0x08" "b \<noteq> CHR 0x0C" "b \<noteq> CHR 0x0A" "b \<noteq> CHR 0x0D" "b \<noteq> CHR 0x09"
    using assms by (simp_all add: escapable_def)
qed

section \<open>The work buffer is large enough\<close>

lemma put_room: "length dst < 512 \<Longrightarrow> put b dst = Inr (dst @ [b])"
  by (simp add: put_def SentryCrashJSONCODEC_WorkBufferSize_def)

lemma put_escape_room: "length dst < 511 \<Longrightarrow> put_escape b dst = Inr (dst @ [CHR 0x5C, b])"
  by (simp add: put_escape_def put_room)

lemma copy_plain_takeWhile:
  "length dst + length src \<le> 512 \<Longrightarrow>
   copy_plain src dst = Inr (dropWhile plain_char src, dst @ takeWhile plain_char src)"
  by (induction src arbitrary: dst) (simp_all add: put_room)

lemma copy_escaping_Cons:
  assumes "length dst < 511" "escapable b"
  shows "copy_escaping (b # src) dst = copy_escaping src (dst @ escape b)"
  using assms
  by (auto simp: escape_def escapable_def put_escape_room put_room)

lemma copy_escaping_all:
  "length dst + 2 * length src \<le> 512 \<Longrightarrow> escapable_string src \<Longrightarrow>
   copy_escaping src dst = Inr (SentryCrashJSON_OK, dst @ escape_string src)"
proof (induction src arbitrary: dst)
  case (Cons b src)
  then have "copy_escaping (b # src) dst = copy_escaping src (dst @ escape b)"
    by (intro copy_escaping_Cons) simp_all
  also have "\<dots> = Inr (SentryCrashJSON_OK, (dst @ escape b) @ escape_string src)"
    using Cons.prems length_escape [of b] by (intro Cons.IH) simp_all
  finally show ?case by simp
qed simp

lemma copy_escaping_bad:
  "length dst + 2 * length src \<le> 512 \<Longrightarrow> \<not> escapable_string src \<Longrightarrow>
   \<exists>dst'. copy_escaping src dst = Inr (SentryCrashJSON_ERROR_INVALID_CHARACTER, dst')"
proof (induction src arbitrary: dst)
  case (Cons b src)
  show ?case
  proof (cases "escapable b")
    case True
    with Cons.prems have "copy_escaping (b # src) dst = copy_escaping src (dst @ escape b)"
      by (intro copy_escaping_Cons) simp_all
    with Cons True length_escape [of b] show ?thesis by simp
  next
    case False
    then show ?thesis by (simp add: not_escapable)
  qed
qed simp

lemma escape_string_plain: "list_all plain_char s \<Longrightarrow> escapable_string s \<and> escape_string s = s"
  by (induction s) (auto dest: plain_escape)

lemma escape_plain_prefix:
  "takeWhile plain_char s @ escape_string (dropWhile plain_char s) = escape_string s"
  "escapable_string (dropWhile plain_char s) = escapable_string s"
  by (induction s) (auto simp: plain_escape)

text \<open>Both loops together are the reference escaping; no write goes past the work buffer.\<close>

lemma appendEscapedString_eq:
  assumes "length s \<le> 256"
  shows "appendEscapedString s c =
    (if escapable_string s then addJSONData (escape_string s) c
     else Inr (SentryCrashJSON_ERROR_INVALID_CHARACTER, c))"
proof -
  let ?p = "takeWhile plain_char s" and ?r = "dropWhile plain_char s"
  have "length ?p + length ?r = length s"
    by (metis length_append takeWhile_dropWhile_id)
  then have len: "length ?p + 2 * length ?r \<le> 512" using assms by simp
  have plain: "copy_plain s [] = Inr (?r, ?p)"
    using assms copy_plain_takeWhile [of "[]" s] by simp
  show ?thesis
  proof (cases "escapable_string s")
    case True
    then have "copy_escaping ?r ?p = Inr (SentryCrashJSON_OK, escape_string s)"
      using copy_escaping_all [OF len] by (simp add: escape_plain_prefix)
    with plain True show ?thesis by (simp add: appendEscapedString_def)
  next
    case False
    then obtain d where "copy_escaping ?r ?p = Inr (SentryCrashJSON_ERROR_INVALID_CHARACTER, d)"
      using copy_escaping_bad [OF len] by (auto simp: escape_plain_prefix)
    with plain False show ?thesis by (simp add: appendEscapedString_def json_codes)
  qed
qed

lemma addEscapedString_eq:
  "addEscapedString s c =
    (if s = [] then Inr (SentryCrashJSON_OK, c)
     else if escapable_string (take 256 s)
     then steps [addJSONData (escape_string (take 256 s)), addEscapedString (drop 256 s)] c
     else Inr (SentryCrashJSON_ERROR_INVALID_CHARACTER, c))"
proof (cases "s = []")
  case True
  then show ?thesis by (simp add: addEscapedString.simps)
next
  case False
  have t: "take (min (length s) (SentryCrashJSONCODEC_WorkBufferSize div 2)) s = take 256 s"
    and d: "drop (min (length s) (SentryCrashJSONCODEC_WorkBufferSize div 2)) s = drop 256 s"
    by (simp_all add: SentryCrashJSONCODEC_WorkBufferSize_def min_def)
  show ?thesis
    using False appendEscapedString_eq [of "take 256 s" c]
    by (auto simp: addEscapedString.simps [of s] t d Let_def json_codes bind_run_def
        split: sum.splits prod.splits)
qed

section \<open>Shapes and reference texts\<close>

text \<open>
  The abstract state of the encoder. \<open>sh_stack\<close> holds one entry per level, innermost first; the
  last entry is the top level, which is no container.
\<close>

record shape =
  sh_pretty :: bool
  sh_stack :: "bool list"
  sh_first :: bool

definition has_shape :: "(bytes \<Rightarrow> 'u call) \<Rightarrow> shape \<Rightarrow> 'u json_encode_context \<Rightarrow> bool" where
  "has_shape fn sh c \<longleftrightarrow>
     addJSONData_fn c = fn \<and> prettyPrint c = sh_pretty sh \<and> containerFirstEntry c = sh_first sh \<and>
     length (isObject c) = 200 \<and> 0 \<le> containerLevel c \<and> containerLevel c < 200 \<and>
     sh_stack sh = rev (take (Suc (nat (containerLevel c))) (isObject c))"

definition indent_text :: "nat \<Rightarrow> bytes" where
  "indent_text level = ''\<newline>'' @ concat (replicate level ''    '')"

definition name_text :: "shape \<Rightarrow> bytes option \<Rightarrow> bytes" where
  "name_text sh name =
     (if hd (sh_stack sh)
      then quoted (c_string (the name)) @ (if sh_pretty sh then '': '' else '':'')
      else [])"

definition begin_text :: "shape \<Rightarrow> bytes option \<Rightarrow> bytes" where
  "begin_text sh name =
     (if sh_first sh then [] else '','') @
     (if sh_pretty sh \<and> 1 < length (sh_stack sh) then indent_text (length (sh_stack sh) - 1) else []) @
     name_text sh name"

definition end_text :: "shape \<Rightarrow> bytes" where
  "end_text sh =
     (if sh_pretty sh \<and> \<not> sh_first sh then indent_text (length (sh_stack sh) - 2) else []) @
     (if hd (sh_stack sh) then ''}'' else '']'')"

text \<open>A name an element can have where it is added: any in an array, an escapable one in an object.\<close>

definition name_fits :: "shape \<Rightarrow> bytes option \<Rightarrow> bool" where
  "name_fits sh name \<longleftrightarrow>
     (hd (sh_stack sh) \<longrightarrow> (\<exists>n. name = Some n \<and> escapable_string (c_string n)))"

abbreviation after_element :: "shape \<Rightarrow> shape" where
  "after_element sh \<equiv> sh\<lparr>sh_first := False\<rparr>"

definition push_container :: "bool \<Rightarrow> shape \<Rightarrow> shape" where
  "push_container object sh = sh\<lparr>sh_stack := object # sh_stack sh, sh_first := True\<rparr>"

definition pop_container :: "shape \<Rightarrow> shape" where
  "pop_container sh = sh\<lparr>sh_stack := tl (sh_stack sh), sh_first := False\<rparr>"

lemma shape_update_simps [simp]:
  "sh_pretty (push_container b sh) = sh_pretty sh"
  "sh_stack (push_container b sh) = b # sh_stack sh"
  "sh_first (push_container b sh) = True"
  "sh_pretty (pop_container sh) = sh_pretty sh"
  "sh_stack (pop_container sh) = tl (sh_stack sh)"
  "sh_first (pop_container sh) = False"
  by (simp_all add: push_container_def pop_container_def)

lemma has_shape_level:
  assumes "has_shape fn sh c"
  shows "length (sh_stack sh) = Suc (nat (containerLevel c))"
    and "containerLevel c = int (length (sh_stack sh)) - 1"
  using assms by (auto simp: has_shape_def)

lemma has_shape_isObject:
  assumes "has_shape fn sh c"
  shows "get_isObject c = Inr (hd (sh_stack sh))"
proof -
  let ?l = "nat (containerLevel c)"
  from assms have l: "?l < length (isObject c)" "0 \<le> containerLevel c"
    by (auto simp: has_shape_def)
  then have "take (Suc ?l) (isObject c) = take ?l (isObject c) @ [isObject c ! ?l]"
    by (simp add: take_Suc_conv_app_nth)
  with assms l show ?thesis by (simp add: has_shape_def get_isObject_def)
qed

lemma has_shape_userData [simp]: "has_shape fn sh (c\<lparr>userData := u\<rparr>) = has_shape fn sh c"
  by (simp add: has_shape_def)

lemma has_shape_first [simp]:
  "has_shape fn sh c \<Longrightarrow> has_shape fn (sh\<lparr>sh_first := b\<rparr>) (c\<lparr>containerFirstEntry := b\<rparr>)"
  by (simp add: has_shape_def)

lemma has_shape_beginEncode:
  "has_shape fn \<lparr>sh_pretty = p, sh_stack = [False], sh_first = True\<rparr>
     (sentrycrashjson_beginEncode p fn u)"
  by (simp add: has_shape_def sentrycrashjson_beginEncode_def)

lemma has_shape_push:
  assumes "has_shape fn sh c" "length (sh_stack sh) < 200"
  shows "set_isObject b (c\<lparr>containerLevel := containerLevel c + 1\<rparr>) =
           Inr (0, c\<lparr>containerLevel := containerLevel c + 1,
                    isObject := (isObject c)[nat (containerLevel c + 1) := b]\<rparr>)"
    and "has_shape fn (sh\<lparr>sh_stack := b # sh_stack sh\<rparr>)
           (c\<lparr>containerLevel := containerLevel c + 1,
              isObject := (isObject c)[nat (containerLevel c + 1) := b]\<rparr>)"
proof -
  let ?l = "nat (containerLevel c)"
  from assms have l: "containerLevel c + 1 < 200" "0 \<le> containerLevel c"
    "length (isObject c) = 200" and st: "sh_stack sh = rev (take (Suc ?l) (isObject c))"
    by (auto simp: has_shape_def)
  show "set_isObject b (c\<lparr>containerLevel := containerLevel c + 1\<rparr>) =
           Inr (0, c\<lparr>containerLevel := containerLevel c + 1,
                    isObject := (isObject c)[nat (containerLevel c + 1) := b]\<rparr>)"
    using l by (simp add: set_isObject_def)
  have n: "nat (containerLevel c + 1) = Suc ?l" using l by simp
  have "take (Suc (Suc ?l)) ((isObject c)[Suc ?l := b]) = take (Suc ?l) (isObject c) @ [b]"
    using l by (simp add: take_Suc_conv_app_nth [of "Suc ?l"])
  with assms l st n show "has_shape fn (sh\<lparr>sh_stack := b # sh_stack sh\<rparr>)
           (c\<lparr>containerLevel := containerLevel c + 1,
              isObject := (isObject c)[nat (containerLevel c + 1) := b]\<rparr>)"
    by (simp add: has_shape_def)
qed

lemma has_shape_pop:
  assumes "has_shape fn sh c" "1 < length (sh_stack sh)"
  shows "has_shape fn (sh\<lparr>sh_stack := tl (sh_stack sh)\<rparr>) (c\<lparr>containerLevel := containerLevel c - 1\<rparr>)"
proof -
  let ?l = "nat (containerLevel c)"
  from assms have l: "1 \<le> containerLevel c" "containerLevel c < 200" "length (isObject c) = 200"
    and st: "sh_stack sh = rev (take (Suc ?l) (isObject c))"
    by (auto simp: has_shape_def)
  have n: "Suc (nat (containerLevel c - 1)) = ?l" using l by simp
  have "take (Suc ?l) (isObject c) = take ?l (isObject c) @ [isObject c ! ?l]"
    using l by (simp add: take_Suc_conv_app_nth)
  with assms l st n show ?thesis by (simp add: has_shape_def)
qed

end
