(* ===== verification/Json_Sink.thy ===== *)
theory Json_Sink
  imports Json_Encode_Spec
begin

text \<open>
  The interface between the encoder and the function that receives its text. The provider of an
  \<open>addJSONData\<close> function says which text a state of it holds and how much more it takes for
  certain; the encoder's correctness is then proved once, for every provider.
\<close>

section \<open>Calls that emit a text\<close>

text \<open>
  A call \<open>emits\<close> a text from one shape to another when, in any context of the first shape whose sink
  has a state that satisfies the invariant: it never faults, leaves the sink function alone and
  keeps the invariant; success means exactly that text was appended and the context has the second
  shape; and it succeeds whenever the sink has room for the text.
\<close>

definition emits :: "(bytes \<Rightarrow> 'u call) \<Rightarrow> ('u \<Rightarrow> bool) \<Rightarrow> ('u \<Rightarrow> bytes) \<Rightarrow> ('u \<Rightarrow> nat) \<Rightarrow>
    'u enc \<Rightarrow> shape \<Rightarrow> bytes \<Rightarrow> shape \<Rightarrow> bool" where
  "emits fn valid written room f sh text sh' \<longleftrightarrow>
     (\<forall>c. has_shape fn sh c \<longrightarrow> valid (userData c) \<longrightarrow>
       (\<exists>r c'. f c = Inr (r, c') \<and> addJSONData_fn c' = fn \<and> valid (userData c') \<and>
          (r = 0 \<longrightarrow> has_shape fn sh' c' \<and>
             written (userData c') = written (userData c) @ text) \<and>
          (length text \<le> room (userData c) \<longrightarrow>
             r = 0 \<and> room (userData c) \<le> room (userData c') + length text)))"

lemma emitsI:
  assumes "\<And>c. has_shape fn sh c \<Longrightarrow> valid (userData c) \<Longrightarrow>
    \<exists>r c'. f c = Inr (r, c') \<and> addJSONData_fn c' = fn \<and> valid (userData c') \<and>
      (r = 0 \<longrightarrow> has_shape fn sh' c' \<and> written (userData c') = written (userData c) @ text) \<and>
      (length text \<le> room (userData c) \<longrightarrow>
         r = 0 \<and> room (userData c) \<le> room (userData c') + length text)"
  shows "emits fn valid written room f sh text sh'"
  using assms by (simp add: emits_def)

lemma emitsE:
  assumes "emits fn valid written room f sh text sh'" "has_shape fn sh c" "valid (userData c)"
  obtains r c' where "f c = Inr (r, c')"
    "r = 0 \<Longrightarrow> has_shape fn sh' c' \<and> written (userData c') = written (userData c) @ text"
    "length text \<le> room (userData c) \<Longrightarrow>
       r = 0 \<and> room (userData c) \<le> room (userData c') + length text"
    "addJSONData_fn c' = fn" "valid (userData c')"
  using assms unfolding emits_def by blast

lemma emits_cong:
  assumes "emits fn valid written room g sh t sh'" "\<And>c. has_shape fn sh c \<Longrightarrow> f c = g c"
  shows "emits fn valid written room f sh t sh'"
  using assms by (simp add: emits_def)

lemma emits_sound:
  assumes "emits fn valid written room f sh text sh'" "has_shape fn sh c" "valid (userData c)" "f c = Inr (0, c')"
  shows "has_shape fn sh' c'" and "written (userData c') = written (userData c) @ text"
  using assms by (auto elim: emitsE)

lemma emits_total:
  assumes "emits fn valid written room f sh text sh'" "has_shape fn sh c" "valid (userData c)"
  shows "\<exists>r c'. f c = Inr (r, c')"
  using assms by (auto elim: emitsE)

lemma emits_succeeds:
  assumes "emits fn valid written room f sh text sh'" "has_shape fn sh c" "valid (userData c)"
    "length text \<le> room (userData c)"
  shows "\<exists>c'. f c = Inr (0, c') \<and> has_shape fn sh' c' \<and>
    written (userData c') = written (userData c) @ text \<and>
    room (userData c) \<le> room (userData c') + length text \<and> valid (userData c')"
  using assms by (auto elim: emitsE)

lemma emits_silent:
  assumes "\<And>c. has_shape fn sh c \<Longrightarrow> f c = Inr (0, F c)"
    "\<And>c. has_shape fn sh c \<Longrightarrow> has_shape fn sh' (F c)"
    "\<And>c. has_shape fn sh c \<Longrightarrow> userData (F c) = userData c"
  shows "emits fn valid written room f sh [] sh'"
  using assms by (intro emitsI) (auto simp: has_shape_def)

lemma emits_ok: "emits fn valid written room ok sh [] sh"
  by (rule emits_silent [where F = "\<lambda>c. c"]) (simp_all add: ok_def)

lemma emits_Nil: "emits fn valid written room (steps []) sh [] sh"
  by (rule emits_silent [where F = "\<lambda>c. c"]) simp_all

lemma emits_Cons:
  assumes f: "emits fn valid written room f sh t sh'"
    and fs: "emits fn valid written room (steps fs) sh' ts sh''"
    and split: "text = t @ ts"
  shows "emits fn valid written room (steps (f # fs)) sh text sh''"
proof (rule emitsI)
  fix c
  assume "has_shape fn sh c" "valid (userData c)"
  with f obtain r c1 where c1: "f c = Inr (r, c1)"
    "r = 0 \<Longrightarrow> has_shape fn sh' c1 \<and> written (userData c1) = written (userData c) @ t"
    "length t \<le> room (userData c) \<Longrightarrow>
       r = 0 \<and> room (userData c) \<le> room (userData c1) + length t"
    "addJSONData_fn c1 = fn" "valid (userData c1)"
    by (rule emitsE) blast
  show "\<exists>r c'. steps (f # fs) c = Inr (r, c') \<and> addJSONData_fn c' = fn \<and> valid (userData c') \<and>
      (r = 0 \<longrightarrow> has_shape fn sh'' c' \<and> written (userData c') = written (userData c) @ text) \<and>
      (length text \<le> room (userData c) \<longrightarrow>
         r = 0 \<and> room (userData c) \<le> room (userData c') + length text)"
  proof (cases "r = 0")
    case True
    with c1 have sh': "has_shape fn sh' c1" by simp
    from fs sh' c1(5) obtain q c2 where "steps fs c1 = Inr (q, c2)"
      "q = 0 \<Longrightarrow> has_shape fn sh'' c2 \<and> written (userData c2) = written (userData c1) @ ts"
      "length ts \<le> room (userData c1) \<Longrightarrow>
         q = 0 \<and> room (userData c1) \<le> room (userData c2) + length ts"
      "addJSONData_fn c2 = fn" "valid (userData c2)"
      by (rule emitsE) blast
    with c1 True split show ?thesis by fastforce
  next
    case False
    with c1 split show ?thesis by auto
  qed
qed

lemma emits_append:
  assumes "emits fn valid written room (steps fs) sh t sh1" "emits fn valid written room (steps gs) sh1 t' sh2"
  shows "emits fn valid written room (steps (fs @ gs)) sh (t @ t') sh2"
proof -
  have "emits fn valid written room (steps [steps fs, steps gs]) sh (t @ t') sh2"
    using emits_Cons [OF assms(1) emits_Cons [OF assms(2) emits_Nil]] by simp
  then show ?thesis
    by (rule emits_cong) (auto simp: steps_append split: sum.splits)
qed

lemma emits_one:
  "emits fn valid written room f sh t sh' \<Longrightarrow> emits fn valid written room (steps [f]) sh t sh'"
  by (rule emits_Cons [OF _ emits_Nil]) simp_all

lemma emits_steps2:
  assumes "emits fn valid written room f sh t sh1" "emits fn valid written room g sh1 t' sh2"
  shows "emits fn valid written room (steps [f, g]) sh (t @ t') sh2"
  using emits_Cons [OF assms(1) emits_one [OF assms(2)]] by simp

lemma emits_replicate:
  assumes "emits fn valid written room f sh t sh"
  shows "emits fn valid written room (steps (replicate n f)) sh (concat (replicate n t)) sh"
proof (induction n)
  case 0
  show ?case by (simp add: emits_Nil del: steps.simps)
next
  case (Suc n)
  show ?case by (simp add: emits_Cons [OF assms Suc] del: steps.simps)
qed

text \<open>What \<open>endEncode\<close> writes for the open containers, the innermost first.\<close>

fun closed_shape :: "nat \<Rightarrow> shape \<Rightarrow> shape" where
  "closed_shape 0 sh = sh"
| "closed_shape (Suc n) sh = closed_shape n (pop_container sh)"

fun closing_text :: "nat \<Rightarrow> shape \<Rightarrow> bytes" where
  "closing_text 0 sh = []"
| "closing_text (Suc n) sh = end_text sh @ closing_text n (pop_container sh)"

section \<open>The sink\<close>

locale json_sink =
  fixes sink :: "bytes \<Rightarrow> 'u call"
    and valid :: "'u \<Rightarrow> bool"
    and written :: "'u \<Rightarrow> bytes"
    and room :: "'u \<Rightarrow> nat"
  assumes sink_returns: "valid u \<Longrightarrow> \<exists>r u'. sink data u = Inr (r, u') \<and> valid u'"
    and sink_appends: "valid u \<Longrightarrow> sink data u = Inr (0, u') \<Longrightarrow> written u' = written u @ data"
    and sink_room: "valid u \<Longrightarrow> length data \<le> room u \<Longrightarrow>
      \<exists>u'. sink data u = Inr (0, u') \<and> room u \<le> room u' + length data"
begin

abbreviation em :: "'u enc \<Rightarrow> shape \<Rightarrow> bytes \<Rightarrow> shape \<Rightarrow> bool" where
  "em \<equiv> emits sink valid written room"

lemma emits_addJSONData: "em (addJSONData data) sh data sh"
proof (rule emitsI)
  fix c
  assume sh: "has_shape sink sh c" and valid: "valid (userData c)"
  obtain r u where ru: "sink data (userData c) = Inr (r, u)" "valid u" using sink_returns [OF valid] by blast
  have fn: "addJSONData_fn c = sink" using sh by (simp add: has_shape_def)
  have "addJSONData data c = Inr (r, c\<lparr>userData := u\<rparr>)"
    by (simp add: addJSONData_def fn ru)
  then show "\<exists>r c'. addJSONData data c = Inr (r, c') \<and> addJSONData_fn c' = sink \<and> valid (userData c') \<and>
      (r = 0 \<longrightarrow> has_shape sink sh c' \<and> written (userData c') = written (userData c) @ data) \<and>
      (length data \<le> room (userData c) \<longrightarrow>
         r = 0 \<and> room (userData c) \<le> room (userData c') + length data)"
    using sh fn sink_appends [OF valid, of data u] sink_room [OF valid, of data] ru by auto
qed

lemma emits_indent: "em indent sh (indent_text (length (sh_stack sh) - 1)) sh"
proof (rule emits_cong)
  show "em (steps (addJSONData ''\<newline>'' # replicate (length (sh_stack sh) - 1) (addJSONData ''    '')))
          sh (indent_text (length (sh_stack sh) - 1)) sh"
    unfolding indent_text_def
    by (rule emits_Cons [OF emits_addJSONData emits_replicate [OF emits_addJSONData]]) simp
  show "indent c = steps (addJSONData ''\<newline>'' #
          replicate (length (sh_stack sh) - 1) (addJSONData ''    '')) c"
    if "has_shape sink sh c" for c
  proof -
    have "nat (containerLevel c) = length (sh_stack sh) - 1"
      using has_shape_level [OF that] by simp
    then show ?thesis by (simp add: indent_def del: steps.simps)
  qed
qed

lemma emits_escaped:
  "escapable_string s \<Longrightarrow> em (addEscapedString s) sh (escape_string s) sh"
proof (induction "length s" arbitrary: s rule: less_induct)
  case less
  show ?case
  proof (cases "s = []")
    case True
    have "em (addEscapedString []) sh [] sh"
      by (rule emits_silent [where F = "\<lambda>c. c"]) (simp_all add: addEscapedString_eq [of "[]"] json_codes)
    with True show ?thesis by simp
  next
    case False
    have esc: "escapable_string (take 256 s)" "escapable_string (drop 256 s)"
      using less.prems by (metis append_take_drop_id escapable_string_simps(3))+
    have "em (addEscapedString (drop 256 s)) sh (escape_string (drop 256 s)) sh"
      using False esc by (intro less.hyps) simp_all
    with emits_addJSONData
    have "em (steps [addJSONData (escape_string (take 256 s)), addEscapedString (drop 256 s)]) sh
            (escape_string (take 256 s) @ escape_string (drop 256 s)) sh"
      by (rule emits_steps2)
    moreover have "escape_string (take 256 s) @ escape_string (drop 256 s) = escape_string s"
      by (metis append_take_drop_id escape_string_simps(3))
    ultimately show ?thesis
      using False esc by (auto intro: emits_cong simp: addEscapedString_eq [of s])
  qed
qed

lemma addJSONData_total:
  "addJSONData_fn c = sink \<Longrightarrow> valid (userData c) \<Longrightarrow>
    \<exists>r c'. addJSONData data c = Inr (r, c') \<and> addJSONData_fn c' = sink \<and> valid (userData c')"
  using sink_returns [of "userData c" data] by (auto simp: addJSONData_def)

lemma emits_close:
  assumes f: "em f sh t sh1" and g: "em g sh1 t' sh2" 
    and total: "\<And>c. addJSONData_fn c = sink \<Longrightarrow> valid (userData c) \<Longrightarrow>
      \<exists>r c'. g c = Inr (r, c') \<and> addJSONData_fn c' = sink \<and> valid (userData c')"
  shows "em (\<lambda>c. bind_run (f c) (\<lambda>(r, c). bind_run (g c) (\<lambda>(q, c).
           Inr (if r \<noteq> 0 \<or> q \<noteq> 0 then 1 else 0, c)))) sh (t @ t') sh2"
proof (rule emitsI)
  fix c
  assume "has_shape sink sh c" "valid (userData c)"
  with f obtain r c1 where c1: "f c = Inr (r, c1)"
    "r = 0 \<Longrightarrow> has_shape sink sh1 c1 \<and> written (userData c1) = written (userData c) @ t"
    "length t \<le> room (userData c) \<Longrightarrow>
       r = 0 \<and> room (userData c) \<le> room (userData c1) + length t"
    "addJSONData_fn c1 = sink" "valid (userData c1)"
    by (rule emitsE) blast
  obtain q c2 where c2: "g c1 = Inr (q, c2)" "addJSONData_fn c2 = sink" "valid (userData c2)"
    using total c1(4,5) by blast
  have "r = 0 \<Longrightarrow>
      (q = 0 \<longrightarrow> has_shape sink sh2 c2 \<and> written (userData c2) = written (userData c1) @ t') \<and>
      (length t' \<le> room (userData c1) \<longrightarrow>
        q = 0 \<and> room (userData c1) \<le> room (userData c2) + length t')"
    using c1 c2 emitsE [OF g, of c1] by auto
  moreover have eq: "bind_run (f c) (\<lambda>(r, c). bind_run (g c) (\<lambda>(q, c).
      Inr (if r \<noteq> 0 \<or> q \<noteq> 0 then 1 else 0, c))) = Inr (if r \<noteq> 0 \<or> q \<noteq> 0 then 1 else (0::int), c2)"
    using c1(1) c2(1) by simp
  ultimately show "\<exists>r' c'. bind_run (f c) (\<lambda>(r, c). bind_run (g c) (\<lambda>(q, c).
           Inr (if r \<noteq> 0 \<or> q \<noteq> 0 then 1 else (0::int), c))) = Inr (r', c') \<and> addJSONData_fn c' = sink \<and>
      valid (userData c') \<and>
      (r' = 0 \<longrightarrow> has_shape sink sh2 c' \<and>
        written (userData c') = written (userData c) @ (t @ t')) \<and>
      (length (t @ t') \<le> room (userData c) \<longrightarrow>
         r' = 0 \<and> room (userData c) \<le> room (userData c') + length (t @ t'))"
    unfolding eq using c1 c2(2,3) by auto
qed

lemma emits_quoted:
  assumes "escapable_string s"
  shows "em (addQuotedEscapedString s) sh (quoted s) sh"
proof (rule emits_cong)
  let ?body = "\<lambda>c. bind_run (addEscapedString s c) (\<lambda>(r, c).
      bind_run (addJSONData ''\"'' c) (\<lambda>(q, c). Inr (if r \<noteq> 0 \<or> q \<noteq> 0 then 1 else 0, c)))"
  have "em ?body sh (escape_string s @ ''\"'') sh"
    by (rule emits_close [OF emits_escaped [OF assms] emits_addJSONData])
       (rule addJSONData_total)
  with emits_addJSONData show "em (steps [addJSONData ''\"'', ?body]) sh (quoted s) sh"
    unfolding quoted_def by (rule emits_steps2)
  show "addQuotedEscapedString s c = steps [addJSONData ''\"'', ?body] c" for c
    by (auto simp: addQuotedEscapedString_def json_codes bind_run_def split: sum.splits prod.splits)
qed

text \<open>Beginning an element: separator, indentation and, inside an object, the name.\<close>

lemma emits_name:
  assumes "name_fits sh name"
  shows "em (\<lambda>c. bind_run (get_isObject c) (\<lambda>inObject.
             if \<not> inObject then ok c
             else case name of
                 None \<Rightarrow> fail SentryCrashJSON_ERROR_INVALID_DATA c
               | Some n \<Rightarrow>
                   steps [addQuotedEscapedString (c_string n),
                          \<lambda>c. addJSONData (if prettyPrint c then '': '' else '':'') c] c))
           sh (name_text sh name) sh" (is "em ?f sh _ sh")
proof (cases "hd (sh_stack sh)")
  case False
  then have "name_text sh name = []" by (simp add: name_text_def)
  then show ?thesis
    by (simp only:) (rule emits_cong [OF emits_ok], simp add: has_shape_isObject False)
next
  case True
  with assms obtain n where n: "name = Some n" "escapable_string (c_string n)"
    by (auto simp: name_fits_def)
  let ?colon = "if sh_pretty sh then '': '' else '':''"
  have colon: "em (\<lambda>c. addJSONData (if prettyPrint c then '': '' else '':'') c) sh ?colon sh"
    by (rule emits_cong [OF emits_addJSONData]) (simp add: has_shape_def)
  have "em (steps [addQuotedEscapedString (c_string n),
                   \<lambda>c. addJSONData (if prettyPrint c then '': '' else '':'') c]) sh
          (quoted (c_string n) @ ?colon) sh"
    by (rule emits_steps2 [OF emits_quoted [OF n(2)] colon])
  moreover have "name_text sh name = quoted (c_string n) @ ?colon"
    by (simp add: name_text_def n True)
  ultimately show ?thesis
    by (simp only:) (rule emits_cong, assumption, simp add: n True has_shape_isObject)
qed

lemma emits_beginElement:
  assumes "name_fits sh name"
  shows "em (sentrycrashjson_beginElement name) sh (begin_text sh name) (after_element sh)"
  unfolding sentrycrashjson_beginElement_def
proof (rule emits_Cons [OF _ emits_steps2])
  show "em (\<lambda>c. if containerFirstEntry c then Inr (0, c\<lparr>containerFirstEntry := False\<rparr>)
               else addJSONData '','' c) sh (if sh_first sh then [] else '','') (after_element sh)"
  proof (cases "sh_first sh")
    case True
    have "em (\<lambda>c. Inr (0, c\<lparr>containerFirstEntry := False\<rparr>)) sh [] (after_element sh)"
      by (rule emits_silent [where F = "\<lambda>c. c\<lparr>containerFirstEntry := False\<rparr>"]) auto
    with True show ?thesis by (auto intro: emits_cong simp: has_shape_def)
  next
    case False
    then have same: "after_element sh = sh" by simp
    have "em (\<lambda>c. if containerFirstEntry c then Inr (0, c\<lparr>containerFirstEntry := False\<rparr>)
               else addJSONData '','' c) sh '','' sh"
      by (rule emits_cong [OF emits_addJSONData]) (simp add: has_shape_def False)
    with False show ?thesis by (simp only: same if_False)
  qed
  let ?ind = "if sh_pretty sh \<and> 1 < length (sh_stack sh)
    then indent_text (length (sh_stack sh) - 1) else []"
  show "em (\<lambda>c. if prettyPrint c \<and> containerLevel c > 0 then indent c else ok c)
          (after_element sh) ?ind (after_element sh)"
  proof (cases "sh_pretty sh \<and> 1 < length (sh_stack sh)")
    case True
    have "em indent (after_element sh) (indent_text (length (sh_stack sh) - 1)) (after_element sh)"
      using emits_indent [of "after_element sh"] by simp
    then have "em (\<lambda>c. if prettyPrint c \<and> containerLevel c > 0 then indent c else ok c)
        (after_element sh) (indent_text (length (sh_stack sh) - 1)) (after_element sh)"
      using True by (elim emits_cong) (auto simp: has_shape_def)
    with True show ?thesis by simp
  next
    case False
    have "em (\<lambda>c. if prettyPrint c \<and> containerLevel c > 0 then indent c else ok c)
        (after_element sh) [] (after_element sh)"
      by (rule emits_cong [OF emits_ok]) (use False in \<open>auto simp: has_shape_def\<close>)
    with False show ?thesis by auto
  qed
  show "begin_text sh name = (if sh_first sh then [] else '','') @ ?ind @ name_text (after_element sh) name"
    by (simp add: begin_text_def name_text_def)
qed (rule emits_name, use assms in \<open>simp add: name_fits_def\<close>)

lemma emits_value:
  assumes "name_fits sh name" "em f (after_element sh) t sh'"
  shows "em (steps [sentrycrashjson_beginElement name, f]) sh (begin_text sh name @ t) sh'"
  by (rule emits_steps2 [OF emits_beginElement]) (use assms in simp_all)

lemma emits_boolean:
  assumes "name_fits sh name"
  shows "em (sentrycrashjson_addBooleanElement name b) sh
    (begin_text sh name @ (if b then ''true'' else ''false'')) (after_element sh)"
  unfolding sentrycrashjson_addBooleanElement_def
  by (cases b) (auto intro!: emits_value [OF assms] emits_addJSONData simp del: steps.simps)

lemma emits_null:
  assumes "name_fits sh name"
  shows "em (sentrycrashjson_addNullElement name) sh (begin_text sh name @ ''null'')
    (after_element sh)"
  unfolding sentrycrashjson_addNullElement_def by (intro emits_value [OF assms] emits_addJSONData)

lemma emits_integer:
  assumes "name_fits sh name"
  shows "em (sentrycrashjson_addIntegerElement name v) sh
    (begin_text sh name @ show_int (sint v)) (after_element sh)"
proof -
  have "snprintf 30 (show_int (sint v)) = show_int (sint v)"
    using length_show_int64 [of v] by (simp add: snprintf_def)
  then show ?thesis
    unfolding sentrycrashjson_addIntegerElement_def
    by (simp only:) (intro emits_value [OF assms] emits_addJSONData)
qed

lemma emits_uinteger:
  assumes "name_fits sh name"
  shows "em (sentrycrashjson_addUIntegerElement name v) sh
    (begin_text sh name @ show_nat (unat v)) (after_element sh)"
proof -
  have "snprintf 30 (show_nat (unat v)) = show_nat (unat v)"
    using length_show_uint64 [of v] by (simp add: snprintf_def)
  then show ?thesis
    unfolding sentrycrashjson_addUIntegerElement_def
    by (simp only:) (intro emits_value [OF assms] emits_addJSONData)
qed

lemma emits_floating:
  assumes "name_fits sh name"
  shows "em (sentrycrashjson_addFloatingPointElement fp name v) sh
    (begin_text sh name @ (if fp_isnan fp v then ''null'' else c_string (snprintf 50 (fp_print fp v))))
    (after_element sh)"
  unfolding sentrycrashjson_addFloatingPointElement_def
  by (auto intro!: emits_null emits_value emits_addJSONData assms simp del: steps.simps)

text \<open>A string of explicit length, as every caller in the crash reporter adds it.\<close>

lemma emits_string:
  assumes "name_fits sh name" "escapable_string v"
  shows "em (sentrycrashjson_addStringElement name (Some v) (int (length v))) sh
    (begin_text sh name @ quoted v) (after_element sh)"
proof -
  have "em (addQuotedEscapedString v) (after_element sh) (quoted v) (after_element sh)"
    by (rule emits_quoted [OF assms(2)])
  then have "em (\<lambda>c. bind_run (portion v (if int (length v) = SentryCrashJSON_SIZE_AUTOMATIC
                 then int (strlen v) else int (length v))) (\<lambda>s. addQuotedEscapedString s c))
      (after_element sh) (quoted v) (after_element sh)"
    by (rule emits_cong) (simp add: portion_def SentryCrashJSON_SIZE_AUTOMATIC_def)
  then show ?thesis
    unfolding sentrycrashjson_addStringElement_def option.case by (rule emits_value [OF assms(1)])
qed

lemma emits_no_string:
  assumes "name_fits sh name"
  shows "em (sentrycrashjson_addStringElement name None n) sh (begin_text sh name @ ''null'')
    (after_element sh)"
  using emits_null [OF assms] by (simp add: sentrycrashjson_addStringElement_def)

lemma emits_begin_container:
  assumes "name_fits sh name" "length (sh_stack sh) < 200"
  shows "em (begin_container b bracket name) sh (begin_text sh name @ bracket)
    (push_container b sh)"
proof -
  let ?up = "\<lambda>c. c\<lparr>containerLevel := containerLevel c + 1\<rparr>"
  let ?set = "\<lambda>c. (?up c)\<lparr>isObject := (isObject c)[nat (containerLevel c + 1) := b]\<rparr>"
  let ?sh1 = "after_element sh"
  let ?push = "\<lambda>c. steps [\<lambda>c. ok (?up c), set_isObject b, \<lambda>c. ok (c\<lparr>containerFirstEntry := True\<rparr>)] c"
  have push: "?push c = Inr (0, (?set c)\<lparr>containerFirstEntry := True\<rparr>)"
    if "has_shape sink ?sh1 c" for c
    using has_shape_push(1) [OF that, of b] assms(2) by (simp add: ok_def)
  have "em ?push ?sh1 [] (push_container b sh)"
  proof (rule emits_silent [OF push])
    show "has_shape sink (push_container b sh) ((?set c)\<lparr>containerFirstEntry := True\<rparr>)"
      if "has_shape sink ?sh1 c" for c
      using has_shape_first [OF has_shape_push(2) [OF that, of b], of True] assms(2)
      by (simp add: push_container_def)
  qed simp_all
  then have "em (steps [?push, addJSONData bracket]) ?sh1 ([] @ bracket) (push_container b sh)"
    by (rule emits_steps2 [OF _ emits_addJSONData])
  then have rest: "em (steps [\<lambda>c. ok (?up c), set_isObject b,
      \<lambda>c. ok (c\<lparr>containerFirstEntry := True\<rparr>), addJSONData bracket]) ?sh1 ([] @ bracket)
      (push_container b sh)"
    by (rule emits_cong) (auto split: sum.splits prod.splits)
  have start: "em (\<lambda>c. if containerLevel c \<ge> 0 then sentrycrashjson_beginElement name c else ok c)
      sh (begin_text sh name) ?sh1"
    by (rule emits_cong [OF emits_beginElement [OF assms(1)]]) (simp add: has_shape_def)
  show ?thesis
    unfolding begin_container_def by (rule emits_Cons [OF start rest]) simp
qed

lemma emits_endContainer:
  assumes "1 < length (sh_stack sh)"
  shows "em sentrycrashjson_endContainer sh (end_text sh) (pop_container sh)"
proof -
  let ?sh1 = "sh\<lparr>sh_stack := tl (sh_stack sh)\<rparr>"
  let ?ind = "if sh_pretty sh \<and> \<not> sh_first sh then indent_text (length (sh_stack sh) - 2) else []"
  let ?close = "if hd (sh_stack sh) then ''}'' else '']''"
  have down: "em (\<lambda>c. ok (c\<lparr>containerLevel := containerLevel c - 1\<rparr>)) sh [] ?sh1"
    by (rule emits_silent [where F = "\<lambda>c. c\<lparr>containerLevel := containerLevel c - 1\<rparr>"])
       (auto simp: ok_def intro: has_shape_pop assms)
  have ind: "em (\<lambda>c. if prettyPrint c \<and> \<not> containerFirstEntry c then indent c else ok c) ?sh1 ?ind ?sh1"
  proof (cases "sh_pretty sh \<and> \<not> sh_first sh")
    case True
    have "length (tl (sh_stack sh)) - 1 = length (sh_stack sh) - 2" by simp
    then have "em indent ?sh1 (indent_text (length (sh_stack sh) - 2)) ?sh1"
      using emits_indent [of ?sh1] by simp
    then show ?thesis
      using True by (simp, elim emits_cong) (auto simp: has_shape_def)
  next
    case False
    have "em (\<lambda>c. if prettyPrint c \<and> \<not> containerFirstEntry c then indent c else ok c) ?sh1 [] ?sh1"
      by (rule emits_cong [OF emits_ok]) (use False in \<open>auto simp: has_shape_def\<close>)
    with False show ?thesis by auto
  qed
  have first: "em (\<lambda>c. ok (c\<lparr>containerFirstEntry := False\<rparr>)) ?sh1 [] (pop_container sh)"
    by (rule emits_silent [where F = "\<lambda>c. c\<lparr>containerFirstEntry := False\<rparr>"])
       (auto simp: ok_def pop_container_def)
  have "em (steps [\<lambda>c. ok (c\<lparr>containerLevel := containerLevel c - 1\<rparr>),
      \<lambda>c. if prettyPrint c \<and> \<not> containerFirstEntry c then indent c else ok c,
      \<lambda>c. ok (c\<lparr>containerFirstEntry := False\<rparr>), addJSONData ?close]) sh (end_text sh) (pop_container sh)"
    by (rule emits_Cons [OF down emits_Cons [OF ind emits_steps2 [OF first emits_addJSONData]]])
       (simp_all add: end_text_def)
  then show ?thesis
  proof (rule emits_cong)
    fix c assume c: "has_shape sink sh c"
    then have "\<not> containerLevel c \<le> 0" using has_shape_level(2) [OF c] assms by simp
    then show "sentrycrashjson_endContainer c = steps [\<lambda>c. ok (c\<lparr>containerLevel := containerLevel c - 1\<rparr>),
      \<lambda>c. if prettyPrint c \<and> \<not> containerFirstEntry c then indent c else ok c,
      \<lambda>c. ok (c\<lparr>containerFirstEntry := False\<rparr>), addJSONData ?close] c"
      by (simp add: sentrycrashjson_endContainer_def has_shape_isObject [OF c] del: steps.simps)
  qed
qed

lemma emits_end_encode_loop:
  "length (sh_stack sh) = Suc n \<Longrightarrow> em (end_encode_loop n) sh (closing_text n sh) (closed_shape n sh)"
proof (induction n arbitrary: sh)
  case 0
  have "em (end_encode_loop 0) sh [] sh"
  proof (rule emits_cong [OF emits_ok])
    fix c
    assume "has_shape sink sh c"
    with 0 show "end_encode_loop 0 c = ok c" by (simp add: has_shape_level(2) ok_def json_codes)
  qed
  then show ?case by (simp del: end_encode_loop.simps)
next
  case (Suc n)
  have "em (end_encode_loop (Suc n)) sh (end_text sh @ closing_text n (pop_container sh))
      (closed_shape n (pop_container sh))"
  proof (rule emits_cong)
    show "em (steps [sentrycrashjson_endContainer, end_encode_loop n]) sh
        (end_text sh @ closing_text n (pop_container sh)) (closed_shape n (pop_container sh))"
      by (intro emits_steps2 [OF emits_endContainer Suc.IH]) (use Suc.prems in simp_all)
    fix c
    assume "has_shape sink sh c"
    then have "containerLevel c > 0" using Suc.prems by (simp add: has_shape_level(2))
    then show "end_encode_loop (Suc n) c = steps [sentrycrashjson_endContainer, end_encode_loop n] c"
      by (simp add: json_codes bind_run_def split: sum.splits)
  qed
  then show ?case by (simp del: end_encode_loop.simps)
qed

lemma emits_endEncode:
  assumes "length (sh_stack sh) = Suc n"
  shows "em sentrycrashjson_endEncode sh (closing_text n sh) (closed_shape n sh)"
proof (rule emits_cong [OF emits_end_encode_loop [OF assms]])
  fix c
  assume "has_shape sink sh c"
  with assms show "sentrycrashjson_endEncode c = end_encode_loop n c"
    by (simp add: sentrycrashjson_endEncode_def has_shape_level(2))
qed

end

end
