(* ===== verification/Json_Decode.thy ===== *)
theory Json_Decode
  imports Json_Encode
begin

unbundle bit_operations_syntax

text \<open>
  The decoding half of \<open>Recording/Tools/SentryCrashJSONCodec.c\<close>: a recursive descent over a
  buffer that calls back for every element it meets. Reads through a pointer are reads of the
  memory block that holds the buffer, so a read past what the caller provided is an undefined
  access and not an invented byte.
\<close>

section \<open>The decoding context and its callbacks\<close>

text \<open>
  \<open>bufferPtr\<close> and \<open>bufferEnd\<close> are offsets into \<open>buffer\<close>, the readable memory that starts where the
  data start. It may be longer than \<open>bufferEnd\<close> (a terminator after the data, say). The contents
  of the name and string buffers live only from a call of \<open>decodeString\<close> to the callback that
  reads them, so the model passes them as values and keeps only the lengths.
\<close>

record json_decode_context =
  buffer :: bytes
  bufferPtr :: nat
  bufferEnd :: nat
  nameBufferLength :: int
  stringBufferLength :: int

definition unread :: "json_decode_context \<Rightarrow> bytes" where
  "unread d = drop (bufferPtr d) (take (bufferEnd d) (buffer d))"

definition advance :: "nat \<Rightarrow> json_decode_context \<Rightarrow> json_decode_context" where
  "advance n d = d\<lparr>bufferPtr := bufferPtr d + n\<rparr>"

definition at_end :: "json_decode_context \<Rightarrow> bool" where
  "at_end d \<longleftrightarrow> bufferEnd d \<le> bufferPtr d"

definition current :: "json_decode_context \<Rightarrow> byte run" where
  "current d = read_at (buffer d) (bufferPtr d)"

record ('d, 's) decode_callbacks =
  onBooleanElement :: "bytes option \<Rightarrow> bool \<Rightarrow> 's call"
  onFloatingPointElement :: "bytes option \<Rightarrow> 'd \<Rightarrow> 's call"
  onIntegerElement :: "bytes option \<Rightarrow> 64 word \<Rightarrow> 's call"
  onUIntegerElement :: "bytes option \<Rightarrow> 64 word \<Rightarrow> 's call"
  onNullElement :: "bytes option \<Rightarrow> 's call"
  onStringElement :: "bytes option \<Rightarrow> bytes \<Rightarrow> 's call"
  onBeginObject :: "bytes option \<Rightarrow> 's call"
  onBeginArray :: "bytes option \<Rightarrow> 's call"
  onEndContainer :: "'s call"
  onEndData :: "'s call"

section \<open>Character classes\<close>

text \<open>\<open>isspace\<close> and \<open>isdigit\<close> of the C locale.\<close>

definition isspace :: "byte \<Rightarrow> bool" where
  "isspace b \<longleftrightarrow> b = CHR 0x20 \<or> (9 \<le> byte_val b \<and> byte_val b \<le> 13)"

abbreviation isdigit :: "byte \<Rightarrow> bool" where "isdigit \<equiv> is_digit"

definition isFPChar :: "byte \<Rightarrow> bool" where
  "isFPChar b \<longleftrightarrow> is_digit b \<or> b = CHR ''.'' \<or> b = CHR ''e'' \<or> b = CHR ''E'' \<or> b = CHR ''+'' \<or> b = CHR ''-''"

definition skip_whitespace :: "json_decode_context \<Rightarrow> json_decode_context" where
  "skip_whitespace d = advance (length (takeWhile isspace (unread d))) d"

section \<open>Hexadecimal digits and UTF-8\<close>

definition INV :: "32 word" where "INV = 0x11111"

definition g_hexConversion :: "nat \<Rightarrow> 32 word" where
  "g_hexConversion n =
     (if 48 \<le> n \<and> n \<le> 57 then of_nat (n - 48)
      else if 65 \<le> n \<and> n \<le> 70 then of_nat (n - 55)
      else if 97 \<le> n \<and> n \<le> 102 then of_nat (n - 87)
      else INV)"

text \<open>
  The table is indexed with a \<open>char\<close>, which is signed on every platform this code is built for: a
  byte above 127 is a negative index, an access before the table.
\<close>

definition hex_nybble :: "byte \<Rightarrow> 32 word run" where
  "hex_nybble b = (if 128 \<le> byte_val b then Inl UndefinedBehaviour
                   else Inr (g_hexConversion (byte_val b)))"

definition hex_accum :: "bytes \<Rightarrow> 32 word run" where
  "hex_accum src =
     bind_run (hex_nybble (src ! 0)) (\<lambda>a.
     bind_run (hex_nybble (src ! 1)) (\<lambda>b.
     bind_run (hex_nybble (src ! 2)) (\<lambda>c.
     bind_run (hex_nybble (src ! 3)) (\<lambda>e.
       Inr (push_bit 12 a OR push_bit 8 b OR push_bit 4 c OR e)))))"

definition char_cast :: "32 word \<Rightarrow> byte" where
  "char_cast w = char_of (unat w mod 256)"

text \<open>\<open>writeUTF8\<close> appends to what \<open>dst\<close> already holds.\<close>

definition writeUTF8 :: "32 word \<Rightarrow> bytes \<Rightarrow> int \<times> bytes" where
  "writeUTF8 character dst =
     (if character \<le> 0x7f then (SentryCrashJSON_OK, dst @ [char_cast character])
      else if character \<le> 0x7ff then
        (SentryCrashJSON_OK, dst @
          [char_cast (0xc0 OR drop_bit 6 character),
           char_cast (0x80 OR (character AND 0x3f))])
      else if character \<le> 0xffff then
        (SentryCrashJSON_OK, dst @
          [char_cast (0xe0 OR drop_bit 12 character),
           char_cast (0x80 OR (drop_bit 6 character AND 0x3f)),
           char_cast (0x80 OR (character AND 0x3f))])
      else if character \<le> 0x10ffff then
        (SentryCrashJSON_OK, dst @
          [char_cast (0xf0 OR drop_bit 18 character),
           char_cast (0x80 OR (drop_bit 12 character AND 0x3f)),
           char_cast (0x80 OR (drop_bit 6 character AND 0x3f)),
           char_cast (0x80 OR (character AND 0x3f))])
      else (SentryCrashJSON_ERROR_INVALID_CHARACTER, dst))"

section \<open>Strings\<close>

text \<open>
  \<open>scan_string\<close> is the first loop of \<open>decodeString\<close>, over the bytes after the opening quote: how far
  the closing quote is (or a number past the end of the data) and whether no escape was met.
\<close>

fun scan_string :: "bytes \<Rightarrow> nat \<Rightarrow> bool \<Rightarrow> nat \<times> bool" where
  "scan_string [] n fastCopy = (n, fastCopy)"
| "scan_string (b # s) n fastCopy =
     (if b = CHR 0x22 then (n, fastCopy)
      else if b = CHR 0x5C then
        (case s of [] \<Rightarrow> (n + 2, False) | _ # s' \<Rightarrow> scan_string s' (n + 2) False)
      else scan_string s (n + 1) fastCopy)"

text \<open>
  \<open>decode_unicode\<close> is the case \<open>'u'\<close>; \<open>s\<close> is what follows the \<open>u\<close> up to the closing quote. It gives
  the new \<open>dst\<close> and how many bytes of \<open>s\<close> it used.
\<close>

definition decode_unicode :: "bytes \<Rightarrow> bytes \<Rightarrow> (int \<times> bytes \<times> nat) run" where
  "decode_unicode s dst =
     (if length s < 4 then Inr (SentryCrashJSON_ERROR_INCOMPLETE, dst, 0)
      else bind_run (hex_accum s) (\<lambda>accum.
        if accum > 0xffff then Inr (SentryCrashJSON_ERROR_INVALID_CHARACTER, dst, 0)
        else if accum \<ge> 0xdc00 \<and> accum \<le> 0xdfff
        then Inr (SentryCrashJSON_ERROR_INVALID_CHARACTER, dst, 0)
        else if accum \<ge> 0xd800 \<and> accum \<le> 0xdbff then
          (if length s < 10 then Inr (SentryCrashJSON_ERROR_INCOMPLETE, dst, 0)
           else if s ! 4 \<noteq> CHR 0x5C \<or> s ! 5 \<noteq> CHR ''u''
           then Inr (SentryCrashJSON_ERROR_INVALID_CHARACTER, dst, 0)
           else bind_run (hex_accum (drop 6 s)) (\<lambda>accum2.
             if accum2 < 0xdc00 \<or> accum2 > 0xdfff
             then Inr (SentryCrashJSON_ERROR_INVALID_CHARACTER, dst, 0)
             else let (result, dst) =
                    writeUTF8 (push_bit 10 (accum - 0xd800) OR (accum2 - 0xdc00)) dst
                  in Inr (result, dst, 10)))
        else let (result, dst) = writeUTF8 accum dst in Inr (result, dst, 4)))"

text \<open>
  The second loop, over the bytes between the quotes. A backslash right before the closing quote
  cannot be in its input (the first loop skips what follows a backslash); were it there, the
  byte read next would be that quote.
\<close>

function decode_escapes :: "bytes \<Rightarrow> bytes \<Rightarrow> (int \<times> bytes) run" where
  "decode_escapes [] dst = Inr (SentryCrashJSON_OK, dst)"
| "decode_escapes (b # s) dst =
     (if b \<noteq> CHR 0x5C then decode_escapes s (dst @ [b])
      else case s of
          [] \<Rightarrow> Inr (SentryCrashJSON_OK, dst @ [CHR 0x22])
        | e # s' \<Rightarrow>
            if e = CHR 0x22 then decode_escapes s' (dst @ [CHR 0x22])
            else if e = CHR 0x5C then decode_escapes s' (dst @ [CHR 0x5C])
            else if e = CHR ''n'' then decode_escapes s' (dst @ [CHR 0x0A])
            else if e = CHR ''r'' then decode_escapes s' (dst @ [CHR 0x0D])
            else if e = CHR ''/'' then decode_escapes s' (dst @ [CHR ''/''])
            else if e = CHR ''t'' then decode_escapes s' (dst @ [CHR 0x09])
            else if e = CHR ''b'' then decode_escapes s' (dst @ [CHR 0x08])
            else if e = CHR ''f'' then decode_escapes s' (dst @ [CHR 0x0C])
            else if e = CHR ''u'' then
              bind_run (decode_unicode s' dst) (\<lambda>(result, dst, used).
                if result \<noteq> SentryCrashJSON_OK then Inr (result, dst)
                else decode_escapes (drop used s') dst)
            else Inr (SentryCrashJSON_ERROR_INVALID_CHARACTER, dst))"
  by pat_completeness auto
termination
  by (relation "measure (\<lambda>(s, dst). length s)") auto

text \<open>
  \<open>decodeString\<close> gives its status, the context and what the destination buffer then holds before
  its terminator.
\<close>

definition decodeString ::
    "json_decode_context \<Rightarrow> int \<Rightarrow> (int \<times> bytes \<times> json_decode_context) run" where
  "decodeString d dstBufferLength =
     bind_run (current d) (\<lambda>ch.
       if ch \<noteq> CHR 0x22 then Inr (SentryCrashJSON_ERROR_INVALID_CHARACTER, [], d)
       else
         let body = unread (advance 1 d);
             (len, fastCopy) = scan_string body 0 True
         in if length body \<le> len then Inr (SentryCrashJSON_ERROR_INCOMPLETE, [], d)
            else if int len \<ge> dstBufferLength then Inr (SentryCrashJSON_ERROR_DATA_TOO_LONG, [], d)
            else
              let d' = advance (len + 2) d;
                  src = take len body
              in if fastCopy then Inr (SentryCrashJSON_OK, src, d')
                 else bind_run (decode_escapes src []) (\<lambda>(result, dst). Inr (result, dst, d')))"

section \<open>Numbers\<close>

definition ULLONG_MAX :: "64 word" where "ULLONG_MAX = - 1"

text \<open>
  The integer loop over the bytes from \<open>start\<close>: the accumulated value, the digits passed and
  whether the next digit would overflow 64 bits.
\<close>

fun scan_digits :: "bytes \<Rightarrow> 64 word \<Rightarrow> nat \<Rightarrow> 64 word \<times> nat \<times> bool" where
  "scan_digits [] accum n = (accum, n, False)"
| "scan_digits (b # s) accum n =
     (if \<not> isdigit b then (accum, n, False)
      else if accum > ULLONG_MAX div 10 then (accum, n, True)
      else
        let accum = accum * 10; nextDigit = of_nat (byte_val b - 48)
        in if accum > ULLONG_MAX - nextDigit then (accum, n, True)
           else scan_digits s (accum + nextDigit) (n + 1))"

definition decode_number ::
    "'d fp_ops \<Rightarrow> ('d, json_decode_context \<times> 'u) decode_callbacks \<Rightarrow> bytes option \<Rightarrow> int \<Rightarrow>
     (json_decode_context \<times> 'u) call" where
  "decode_number fp callbacks name sign = (\<lambda>(d, u).
     let start = unread d;
         (accum, n, isOverflow) = scan_digits start 0 0;
         d = advance n d
     in if at_end d then Inr (SentryCrashJSON_ERROR_INCOMPLETE, (d, u))
        else bind_run (current d) (\<lambda>ch.
          if \<not> isFPChar ch \<and> \<not> isOverflow \<and>
             ((sign = -1 \<and> accum \<le> 0x8000000000000000) \<or> accum \<le> 0x7fffffffffffffff)
          then onIntegerElement callbacks name (accum * of_int sign) (d, u)
          else if \<not> isFPChar ch \<and> \<not> isOverflow \<and> sign = 1
          then onUIntegerElement callbacks name accum (d, u)
          else
            let d = advance (length (takeWhile isFPChar (unread d))) d;
                len = length start - length (unread d)
            in if at_end d then Inr (SentryCrashJSON_ERROR_INCOMPLETE, (d, u))
               else if int len \<ge> stringBufferLength d
               then Inr (SentryCrashJSON_ERROR_DATA_TOO_LONG, (d, u))
               else
                 let value = fp_scan fp (c_string (take len start));
                     value = (if sign = -1 then fp_neg fp value else value)
                 in onFloatingPointElement callbacks name value (d, u)))"

section \<open>Elements\<close>

definition decode_literal ::
    "bytes \<Rightarrow> (json_decode_context \<times> 'u) call \<Rightarrow> (json_decode_context \<times> 'u) call" where
  "decode_literal word callback = (\<lambda>(d, u).
     if length (unread d) < length word then Inr (SentryCrashJSON_ERROR_INCOMPLETE, (d, u))
     else if take (length word) (unread d) \<noteq> word
     then Inr (SentryCrashJSON_ERROR_INVALID_CHARACTER, (d, u))
     else callback (advance (length word) d, u))"

text \<open>
  Element, rest of an array and rest of an object call each other; each call spends one unit of
  fuel (\<open>2 * n + 2\<close> units are enough for \<open>n\<close> unread bytes when the callbacks leave the decoding
  context alone).
\<close>

fun decodeElement ::
    "nat \<Rightarrow> 'd fp_ops \<Rightarrow> ('d, json_decode_context \<times> 'u) decode_callbacks \<Rightarrow> bytes option \<Rightarrow>
     (json_decode_context \<times> 'u) call"
  and decode_array ::
    "nat \<Rightarrow> 'd fp_ops \<Rightarrow> ('d, json_decode_context \<times> 'u) decode_callbacks \<Rightarrow>
     (json_decode_context \<times> 'u) call"
  and decode_object ::
    "nat \<Rightarrow> 'd fp_ops \<Rightarrow> ('d, json_decode_context \<times> 'u) decode_callbacks \<Rightarrow>
     (json_decode_context \<times> 'u) call"
where
  "decodeElement 0 fp callbacks name s = Inl OutOfFuel"
| "decodeElement (Suc fuel) fp callbacks name s =
     (let (d, u) = s; d = skip_whitespace d
      in if at_end d then Inr (SentryCrashJSON_ERROR_INCOMPLETE, (d, u))
         else bind_run (current d) (\<lambda>ch.
           if ch = CHR ''['' then
             steps [onBeginArray callbacks name, decode_array fuel fp callbacks] (advance 1 d, u)
           else if ch = CHR ''{'' then
             steps [onBeginObject callbacks name, decode_object fuel fp callbacks] (advance 1 d, u)
           else if ch = CHR 0x22 then
             bind_run (decodeString d (stringBufferLength d)) (\<lambda>(result, value, d).
               if result \<noteq> SentryCrashJSON_OK then Inr (result, (d, u))
               else onStringElement callbacks name (c_string value) (d, u))
           else if ch = CHR ''f'' then
             decode_literal ''false'' (onBooleanElement callbacks name False) (d, u)
           else if ch = CHR ''t'' then
             decode_literal ''true'' (onBooleanElement callbacks name True) (d, u)
           else if ch = CHR ''n'' then
             decode_literal ''null'' (onNullElement callbacks name) (d, u)
           else if ch = CHR ''-'' then
             let d = advance 1 d
             in bind_run (current d) (\<lambda>ch.
                  if \<not> isdigit ch then Inr (SentryCrashJSON_ERROR_INVALID_CHARACTER, (d, u))
                  else decode_number fp callbacks name (-1) (d, u))
           else if isdigit ch then decode_number fp callbacks name 1 (d, u)
           else Inr (SentryCrashJSON_ERROR_INVALID_CHARACTER, (d, u))))"
| "decode_array 0 fp callbacks s = Inl OutOfFuel"
| "decode_array (Suc fuel) fp callbacks s =
     (let (d, u) = s; d = skip_whitespace d
      in if at_end d then Inr (SentryCrashJSON_ERROR_INCOMPLETE, (d, u))
         else bind_run (current d) (\<lambda>ch.
           if ch = CHR '']'' then onEndContainer callbacks (advance 1 d, u)
           else
             bind_run (decodeElement fuel fp callbacks None (d, u)) (\<lambda>(result, (d, u)).
               if result \<noteq> SentryCrashJSON_OK then Inr (result, (d, u))
               else
                 let d = skip_whitespace d
                 in if at_end d then Inr (SentryCrashJSON_ERROR_INCOMPLETE, (d, u))
                    else bind_run (current d) (\<lambda>ch.
                      decode_array fuel fp callbacks
                        (if ch = CHR '','' then advance 1 d else d, u)))))"
| "decode_object 0 fp callbacks s = Inl OutOfFuel"
| "decode_object (Suc fuel) fp callbacks s =
     (let (d, u) = s; d = skip_whitespace d
      in if at_end d then Inr (SentryCrashJSON_ERROR_INCOMPLETE, (d, u))
         else bind_run (current d) (\<lambda>ch.
           if ch = CHR ''}'' then onEndContainer callbacks (advance 1 d, u)
           else
             bind_run (decodeString d (nameBufferLength d)) (\<lambda>(result, nameBuffer, d).
               if result \<noteq> SentryCrashJSON_OK then Inr (result, (d, u))
               else
                 let d = skip_whitespace d
                 in if at_end d then Inr (SentryCrashJSON_ERROR_INCOMPLETE, (d, u))
                    else bind_run (current d) (\<lambda>ch.
                      if ch \<noteq> CHR '':'' then Inr (SentryCrashJSON_ERROR_INVALID_CHARACTER, (d, u))
                      else
                        let d = skip_whitespace (advance 1 d)
                        in bind_run (decodeElement fuel fp callbacks (Some (c_string nameBuffer)) (d, u))
                             (\<lambda>(result, (d, u)).
                               if result \<noteq> SentryCrashJSON_OK then Inr (result, (d, u))
                               else
                                 let d = skip_whitespace d
                                 in if at_end d then Inr (SentryCrashJSON_ERROR_INCOMPLETE, (d, u))
                                    else bind_run (current d) (\<lambda>ch.
                                      decode_object fuel fp callbacks
                                        (if ch = CHR '','' then advance 1 d else d, u)))))))"

section \<open>The entry point\<close>

text \<open>
  Callbacks of a client work on the client's own data; the decoding context is out of their
  reach. \<open>lift_callbacks\<close> lets the decoder carry its context past them.
\<close>

definition lift_call :: "'u call \<Rightarrow> ('c \<times> 'u) call" where
  "lift_call f = (\<lambda>(d, u). bind_run (f u) (\<lambda>(r, u). Inr (r, (d, u))))"

definition lift_callbacks ::
    "('d, 'u) decode_callbacks \<Rightarrow> ('d, 'c \<times> 'u) decode_callbacks" where
  "lift_callbacks cb =
     \<lparr>onBooleanElement = (\<lambda>name v. lift_call (onBooleanElement cb name v)),
      onFloatingPointElement = (\<lambda>name v. lift_call (onFloatingPointElement cb name v)),
      onIntegerElement = (\<lambda>name v. lift_call (onIntegerElement cb name v)),
      onUIntegerElement = (\<lambda>name v. lift_call (onUIntegerElement cb name v)),
      onNullElement = (\<lambda>name. lift_call (onNullElement cb name)),
      onStringElement = (\<lambda>name v. lift_call (onStringElement cb name v)),
      onBeginObject = (\<lambda>name. lift_call (onBeginObject cb name)),
      onBeginArray = (\<lambda>name. lift_call (onBeginArray cb name)),
      onEndContainer = lift_call (onEndContainer cb),
      onEndData = lift_call (onEndData cb)\<rparr>"

text \<open>
  \<open>data\<close> is the readable memory from the data's address on, \<open>len\<close> the length the caller names. A
  quarter of the string buffer becomes the name buffer. The result is the status, the client's
  data and the value left in \<open>*errorOffset\<close>: the code computes it from a pointer it never moves.
\<close>

definition sentrycrashjson_decode ::
    "'d fp_ops \<Rightarrow> bytes \<Rightarrow> nat \<Rightarrow> int \<Rightarrow> ('d, 'u) decode_callbacks \<Rightarrow> 'u \<Rightarrow> int \<Rightarrow>
     (int \<times> 'u \<times> int) run" where
  "sentrycrashjson_decode fp data len stringBufferLen callbacks u errorOffset =
     (let nameLen = stringBufferLen div 4;
          d = \<lparr>buffer = data, bufferPtr = 0, bufferEnd = len, nameBufferLength = nameLen,
               stringBufferLength = stringBufferLen - nameLen\<rparr>;
          ptr = 0
      in bind_run (decodeElement (2 * len + 2) fp (lift_callbacks callbacks) None (d, u))
           (\<lambda>(result, (d, u)).
              bind_run (if result = SentryCrashJSON_OK then onEndData callbacks u else Inr (result, u))
                (\<lambda>(result, u).
                   Inr (result, u, if result \<noteq> SentryCrashJSON_OK then ptr - 0 else errorOffset))))"

end
