(* ===== verification/Json_Text.thy ===== *)
theory Json_Text
  imports Json_Encode_Spec Json_Decode
begin

text \<open>
  The abstract side of the codec: JSON values, the JSON texts that stand for a value (a grammar,
  with free whitespace), and the sequence of callbacks a value amounts to. The decoder is
  specified against the grammar in \<open>Json_Decode_Spec\<close>, the encoder writes into it.
\<close>

section \<open>Values and their callbacks\<close>

datatype 'd json =
    JNull
  | JBool bool
  | JInt "64 word"
  | JUInt "64 word"
  | JFloat 'd
  | JString bytes
  | JArray "'d json list"
  | JObject "(bytes \<times> 'd json) list"

datatype 'd event =
    EvNull "bytes option"
  | EvBool "bytes option" bool
  | EvInt "bytes option" "64 word"
  | EvUInt "bytes option" "64 word"
  | EvFloat "bytes option" 'd
  | EvString "bytes option" bytes
  | EvBeginArray "bytes option"
  | EvBeginObject "bytes option"
  | EvEnd

fun dispatch :: "('d, 's) decode_callbacks \<Rightarrow> 'd event \<Rightarrow> 's call" where
  "dispatch cb (EvNull n) = onNullElement cb n"
| "dispatch cb (EvBool n b) = onBooleanElement cb n b"
| "dispatch cb (EvInt n w) = onIntegerElement cb n w"
| "dispatch cb (EvUInt n w) = onUIntegerElement cb n w"
| "dispatch cb (EvFloat n x) = onFloatingPointElement cb n x"
| "dispatch cb (EvString n s) = onStringElement cb n s"
| "dispatch cb (EvBeginArray n) = onBeginArray cb n"
| "dispatch cb (EvBeginObject n) = onBeginObject cb n"
| "dispatch cb EvEnd = onEndContainer cb"

definition run_events :: "('d, 's) decode_callbacks \<Rightarrow> 'd event list \<Rightarrow> 's call" where
  "run_events cb evs = steps (map (dispatch cb) evs)"

fun events :: "bytes option \<Rightarrow> 'd json \<Rightarrow> 'd event list" where
  "events n JNull = [EvNull n]"
| "events n (JBool b) = [EvBool n b]"
| "events n (JInt w) = [EvInt n w]"
| "events n (JUInt w) = [EvUInt n w]"
| "events n (JFloat x) = [EvFloat n x]"
| "events n (JString s) = [EvString n (c_string s)]"
| "events n (JArray ts) = EvBeginArray n # concat (map (events None) ts) @ [EvEnd]"
| "events n (JObject ms) =
     EvBeginObject n # concat (map (\<lambda>(k, t). events (Some (c_string k)) t) ms) @ [EvEnd]"

section \<open>String texts\<close>

definition utf8 :: "32 word \<Rightarrow> bytes" where
  "utf8 w = snd (writeUTF8 w [])"

definition escape_pairs :: "(byte \<times> byte) list" where
  "escape_pairs =
     [(CHR 0x22, CHR 0x22), (CHR 0x5C, CHR 0x5C), (CHR ''n'', CHR 0x0A), (CHR ''r'', CHR 0x0D),
      (CHR ''/'', CHR ''/''), (CHR ''t'', CHR 0x09), (CHR ''b'', CHR 0x08), (CHR ''f'', CHR 0x0C)]"

text \<open>\<open>string_text s t\<close>: between quotes, the text \<open>t\<close> stands for the bytes \<open>s\<close>.\<close>

inductive string_text :: "bytes \<Rightarrow> bytes \<Rightarrow> bool" where
  st_Nil: "string_text [] []"
| st_plain: "string_text s t \<Longrightarrow> b \<noteq> CHR 0x22 \<Longrightarrow> b \<noteq> CHR 0x5C \<Longrightarrow>
    string_text (b # s) (b # t)"
| st_escape: "string_text s t \<Longrightarrow> (e, b) \<in> set escape_pairs \<Longrightarrow>
    string_text (b # s) (CHR 0x5C # e # t)"
| st_unicode: "string_text s t \<Longrightarrow> length h = 4 \<Longrightarrow> hex_accum h = Inr w \<Longrightarrow> w \<le> 0xffff \<Longrightarrow>
    \<not> (0xd800 \<le> w \<and> w \<le> 0xdfff) \<Longrightarrow>
    string_text (utf8 w @ s) (CHR 0x5C # CHR ''u'' # h @ t)"

lemma escape_string_text: "string_text s (escape_string s)"
proof (induction s)
  case Nil
  show ?case by (simp add: st_Nil)
next
  case (Cons b s)
  show ?case
  proof (cases "escape b = [b]")
    case True
    then have "b \<noteq> CHR 0x22" "b \<noteq> CHR 0x5C" by (auto simp: escape_def)
    with True Cons show ?thesis by (simp add: st_plain)
  next
    case False
    then obtain e where "escape b = [CHR 0x5C, e]" "(e, b) \<in> set escape_pairs"
      by (auto simp: escape_def escape_pairs_def split: if_splits)
    with Cons show ?thesis by (simp add: st_escape)
  qed
qed

section \<open>Number texts\<close>

definition digits_value :: "bytes \<Rightarrow> nat" where
  "digits_value ds = foldl (\<lambda>v b. v * 10 + (byte_val b - 48)) 0 ds"

definition is_digits :: "bytes \<Rightarrow> bool" where
  "is_digits ds \<longleftrightarrow> ds \<noteq> [] \<and> list_all is_digit ds"

definition sign_text :: "bool \<Rightarrow> bytes" where
  "sign_text neg = (if neg then ''-'' else [])"

lemma digits_value_snoc [simp]: "digits_value (ds @ [b]) = digits_value ds * 10 + (byte_val b - 48)"
  by (simp add: digits_value_def)

lemma digits_value_Nil [simp]: "digits_value [] = 0"
  by (simp add: digits_value_def)

lemma digits_value_show_nat [simp]: "digits_value (show_nat n) = n"
proof (induction n rule: show_nat.induct)
  case (1 n)
  show ?case
  proof (cases "n < 10")
    case True
    then show ?thesis
      by (subst show_nat.simps) (simp add: digits_value_def digit_char_val)
  next
    case False
    with 1 show ?thesis by (subst show_nat.simps) (simp add: digit_char_val)
  qed
qed

lemma is_digits_show_nat [simp]: "is_digits (show_nat n)"
  by (simp add: is_digits_def show_nat_digits)

text \<open>
  What a number text stands for. Digits alone are an integer while they fit; other texts of
  floating point characters, and digits that do not fit, are read as floating point numbers.
\<close>

definition number_value :: "'d fp_ops \<Rightarrow> bool \<Rightarrow> bytes \<Rightarrow> 'd json" where
  "number_value fp neg f =
     (if is_digits f \<and> digits_value f < 2 ^ 63 \<or> neg \<and> is_digits f \<and> digits_value f = 2 ^ 63
      then JInt (if neg then - of_nat (digits_value f) else of_nat (digits_value f))
      else if \<not> neg \<and> is_digits f \<and> digits_value f < 2 ^ 64
      then JUInt (of_nat (digits_value f))
      else JFloat (if neg then fp_neg fp (fp_scan fp f) else fp_scan fp f))"

definition is_float :: "'d json \<Rightarrow> bool" where
  "is_float t \<longleftrightarrow> (\<exists>x. t = JFloat x)"

definition number_text :: "'d fp_ops \<Rightarrow> int \<Rightarrow> 'd json \<Rightarrow> bytes \<Rightarrow> bool" where
  "number_text fp maxs t tx \<longleftrightarrow>
     (\<exists>neg f. tx = sign_text neg @ f \<and> f \<noteq> [] \<and> is_digit (hd f) \<and> list_all isFPChar f \<and>
        t = number_value fp neg f \<and> (is_float t \<longrightarrow> int (length f) < maxs))"

section \<open>The grammar\<close>

abbreviation blank :: "bytes \<Rightarrow> bool" where "blank w \<equiv> list_all isspace w"

definition comma_between :: "'a list \<Rightarrow> bytes" where
  "comma_between rest = (if rest = [] then [] else '','')"

text \<open>
  \<open>json_text fp maxn maxs t tx\<close>: the text \<open>tx\<close> stands for the value \<open>t\<close>, with member names of less
  than \<open>maxn\<close> and strings of less than \<open>maxs\<close> text bytes. \<open>array_text\<close> and \<open>object_text\<close> are what
  follows an opening bracket.
\<close>

inductive json_text :: "'d fp_ops \<Rightarrow> int \<Rightarrow> int \<Rightarrow> 'd json \<Rightarrow> bytes \<Rightarrow> bool"
  and array_text :: "'d fp_ops \<Rightarrow> int \<Rightarrow> int \<Rightarrow> 'd json list \<Rightarrow> bytes \<Rightarrow> bool"
  and object_text :: "'d fp_ops \<Rightarrow> int \<Rightarrow> int \<Rightarrow> (bytes \<times> 'd json) list \<Rightarrow> bytes \<Rightarrow> bool"
  for fp maxn maxs
where
  jt_null: "json_text fp maxn maxs JNull ''null''"
| jt_true: "json_text fp maxn maxs (JBool True) ''true''"
| jt_false: "json_text fp maxn maxs (JBool False) ''false''"
| jt_number: "number_text fp maxs t tx \<Longrightarrow> json_text fp maxn maxs t tx"
| jt_string: "string_text s tx \<Longrightarrow> int (length tx) < maxs \<Longrightarrow>
    json_text fp maxn maxs (JString s) (''\"'' @ tx @ ''\"'')"
| jt_array: "array_text fp maxn maxs ts tx \<Longrightarrow>
    json_text fp maxn maxs (JArray ts) (''['' @ tx)"
| jt_object: "object_text fp maxn maxs ms tx \<Longrightarrow>
    json_text fp maxn maxs (JObject ms) (''{'' @ tx)"
| at_Nil: "blank w \<Longrightarrow> array_text fp maxn maxs [] (w @ '']'')"
| at_Cons: "blank w1 \<Longrightarrow> json_text fp maxn maxs t tx \<Longrightarrow> blank w2 \<Longrightarrow>
    array_text fp maxn maxs ts rest \<Longrightarrow>
    array_text fp maxn maxs (t # ts) (w1 @ tx @ w2 @ comma_between ts @ rest)"
| ot_Nil: "blank w \<Longrightarrow> object_text fp maxn maxs [] (w @ ''}'')"
| ot_Cons: "blank w1 \<Longrightarrow> string_text k ktx \<Longrightarrow> int (length ktx) < maxn \<Longrightarrow> blank w2 \<Longrightarrow>
    blank w3 \<Longrightarrow> json_text fp maxn maxs t tx \<Longrightarrow> blank w4 \<Longrightarrow>
    object_text fp maxn maxs ms rest \<Longrightarrow>
    object_text fp maxn maxs ((k, t) # ms)
      (w1 @ ''\"'' @ ktx @ ''\"'' @ w2 @ '':'' @ w3 @ tx @ w4 @ comma_between ms @ rest)"

end
