(* ===== verification/Json_Decode_Spec.thy ===== *)
theory Json_Decode_Spec
  imports Json_Text
begin

text \<open>
  What the decoder promises: on a text of the grammar it makes exactly the callbacks of the value
  the text stands for, in order, until one of them reports an error, and it ends right behind
  the text.
\<close>

section \<open>The cursor\<close>

definition wf_ctx :: "json_decode_context \<Rightarrow> bool" where
  "wf_ctx d \<longleftrightarrow> bufferEnd d \<le> length (buffer d)"

named_theorems cursor

lemma wf_ctx_advance [simp]: "wf_ctx (advance n d) = wf_ctx d"
  by (simp add: wf_ctx_def advance_def)

lemma advance_lengths [simp]:
  "nameBufferLength (advance n d) = nameBufferLength d"
  "stringBufferLength (advance n d) = stringBufferLength d"
  by (simp_all add: advance_def)

lemma advance_0 [simp]: "advance 0 d = d"
  by (simp add: advance_def)

lemma advance_advance [simp]: "advance m (advance n d) = advance (n + m) d"
  by (simp add: advance_def add.assoc)

lemma unread_advance [simp]: "unread (advance n d) = drop n (unread d)"
  by (simp add: unread_def advance_def add.commute)

lemma at_end_unread: "wf_ctx d \<Longrightarrow> at_end d \<longleftrightarrow> unread d = []"
  by (auto simp: wf_ctx_def at_end_def unread_def)

lemma current_unread:
  assumes "wf_ctx d" "unread d = b # s"
  shows "current d = Inr b"
proof -
  have "bufferPtr d < bufferEnd d"
    using assms by (metis drop_eq_Nil length_take linorder_not_less list.distinct(1) min.coboundedI1
      min.commute unread_def)
  moreover from this assms have "buffer d ! bufferPtr d = b"
    unfolding unread_def wf_ctx_def
    by (metis drop_eq_Nil le_trans linorder_not_less list.distinct(1) length_take min.absorb2
        nth_take nth_via_drop)
  ultimately show ?thesis using assms by (simp add: current_def wf_ctx_def)
qed

lemma takeWhile_blank:
  "blank w \<Longrightarrow> \<not> isspace b \<Longrightarrow> takeWhile isspace (w @ b # s) = w"
  by (induction w) simp_all

lemma skip_whitespace_unread:
  assumes "unread d = w @ b # s" "blank w" "\<not> isspace b"
  shows "skip_whitespace d = advance (length w) d"
  using assms by (simp add: skip_whitespace_def takeWhile_blank)

lemma skip_whitespace_none: "unread d = b # s \<Longrightarrow> \<not> isspace b \<Longrightarrow> skip_whitespace d = d"
  using skip_whitespace_unread [of d "[]"] by simp

section \<open>Strings\<close>

lemma hex_accum_valid:
  assumes acc: "hex_accum h = Inr w" "w \<le> 0xffff" and i: "i < 4"
  shows "hex_nybble (h ! i) \<noteq> Inr INV"
proof
  assume inv: "hex_nybble (h ! i) = Inr INV"
  from acc(1) obtain a b c e where n: "hex_nybble (h ! 0) = Inr a" "hex_nybble (h ! 1) = Inr b"
      "hex_nybble (h ! 2) = Inr c" "hex_nybble (h ! 3) = Inr e"
    and w: "w = push_bit 12 a OR push_bit 8 b OR push_bit 4 c OR e"
    by (auto simp: hex_accum_def bind_run_eq_Inr)
  have le: "push_bit 12 a \<le> w" "push_bit 8 b \<le> w" "push_bit 4 c \<le> w" "e \<le> w"
    unfolding w by (metis le_word_or1 le_word_or2 order_trans)+
  have "i = 0 \<or> i = 1 \<or> i = 2 \<or> i = 3" using i by auto
  then have "push_bit 12 INV \<le> w \<or> push_bit 8 INV \<le> w \<or> push_bit 4 INV \<le> w \<or> INV \<le> w"
    using inv n le by auto
  then have "INV \<le> 0xffff \<or> push_bit 4 INV \<le> 0xffff \<or> push_bit 8 INV \<le> 0xffff \<or>
      push_bit 12 INV \<le> 0xffff"
    using acc(2) by (meson order_trans)
  then show False by (simp add: INV_def)
qed

lemma hex_char_not_special:
  assumes "hex_accum h = Inr w" "w \<le> 0xffff" "i < 4"
  shows "h ! i \<noteq> CHR 0x22" "h ! i \<noteq> CHR 0x5C"
  using hex_accum_valid [OF assms] by (auto simp: hex_nybble_def g_hexConversion_def)

lemma length_4: "length h = 4 \<Longrightarrow> h = [h ! 0, h ! 1, h ! 2, h ! 3]"
  by (auto simp: numeral_eq_Suc length_Suc_conv)

lemma hex_accum_append: "length h = 4 \<Longrightarrow> hex_accum (h @ t) = hex_accum h"
  by (simp add: hex_accum_def nth_append)

lemma scan_string_text:
  "string_text s t \<Longrightarrow>
   scan_string (t @ CHR 0x22 # rest) n fc = (n + length t, fc \<and> CHR 0x5C \<notin> set t)"
proof (induction arbitrary: n fc rule: string_text.induct)
  case (st_unicode s t h w)
  let ?a = "h ! 0" and ?b = "h ! 1" and ?c = "h ! 2" and ?e = "h ! 3"
  have "?a \<noteq> CHR 0x22 \<and> ?a \<noteq> CHR 0x5C" "?b \<noteq> CHR 0x22 \<and> ?b \<noteq> CHR 0x5C"
    "?c \<noteq> CHR 0x22 \<and> ?c \<noteq> CHR 0x5C" "?e \<noteq> CHR 0x22 \<and> ?e \<noteq> CHR 0x5C"
    using hex_char_not_special [OF st_unicode.hyps(3,4)] by simp_all
  then have "scan_string ([?a, ?b, ?c, ?e] @ t @ CHR 0x22 # rest) (n + 2) False =
      (n + 6 + length t, False)"
    using st_unicode.IH [of "Suc (Suc (Suc (Suc (Suc (Suc n)))))" False] by simp
  moreover have "h @ t @ CHR 0x22 # rest = [?a, ?b, ?c, ?e] @ t @ CHR 0x22 # rest"
    by (metis length_4 [OF st_unicode.hyps(2)])
  ultimately have "scan_string (h @ t @ CHR 0x22 # rest) (n + 2) False = (n + 6 + length t, False)"
    by (simp only:)
  then show ?case using st_unicode.hyps(2) by simp
qed (auto simp: escape_pairs_def)

lemma writeUTF8_utf8: "w \<le> 0xffff \<Longrightarrow> writeUTF8 w dst = (SentryCrashJSON_OK, dst @ utf8 w)"
  by (simp add: writeUTF8_def utf8_def)

lemma decode_unicode_ok:
  assumes "length h = 4" "hex_accum h = Inr w" "w \<le> 0xffff" "\<not> (0xd800 \<le> w \<and> w \<le> 0xdfff)"
  shows "decode_unicode (h @ t) dst = Inr (SentryCrashJSON_OK, dst @ utf8 w, 4)"
proof -
  have "\<not> (w \<ge> 0xdc00 \<and> w \<le> 0xdfff)"
    using assms(4) by unat_arith
  moreover have "\<not> (w \<ge> 0xd800 \<and> w \<le> 0xdbff)"
    using assms(4) by unat_arith
  moreover have "\<not> 0xffff < w" using assms(3) by simp
  ultimately show ?thesis
    using assms(1-3) by (auto simp: decode_unicode_def hex_accum_append writeUTF8_utf8)
qed

lemma decode_escapes_text:
  "string_text s t \<Longrightarrow> decode_escapes t dst = Inr (SentryCrashJSON_OK, dst @ s)"
proof (induction arbitrary: dst rule: string_text.induct)
  case (st_unicode s t h w)
  then show ?case by (simp add: decode_unicode_ok)
qed (auto simp: escape_pairs_def)

lemma string_text_fast: "string_text s t \<Longrightarrow> CHR 0x5C \<notin> set t \<Longrightarrow> s = t"
  by (induction rule: string_text.induct) auto

lemma decodeString_text:
  assumes wf: "wf_ctx d" and un: "unread d = CHR 0x22 # t @ CHR 0x22 # rest"
    and st: "string_text s t" and len: "int (length t) < n"
  shows "decodeString d n = Inr (SentryCrashJSON_OK, s, advance (length t + 2) d)"
proof -
  have cur: "current d = Inr (CHR 0x22)" by (rule current_unread [OF wf un])
  have body: "unread (advance 1 d) = t @ CHR 0x22 # rest" by (simp add: un)
  show ?thesis
    using len decode_escapes_text [OF st, of "[]"] string_text_fast [OF st]
    by (auto simp: decodeString_def cur un scan_string_text [OF st] Let_def)
qed

section \<open>Numbers\<close>

definition digits_from :: "nat \<Rightarrow> bytes \<Rightarrow> nat" where
  "digits_from v ds = foldl (\<lambda>v b. v * 10 + (byte_val b - 48)) v ds"

lemma digits_from_Cons: "digits_from v (b # ds) = digits_from (v * 10 + (byte_val b - 48)) ds"
  by (simp add: digits_from_def)

lemma digits_from_mono: "v \<le> digits_from v ds"
proof (induction ds arbitrary: v)
  case (Cons b ds)
  have "v \<le> v * 10 + (byte_val b - 48)" by simp
  also have "\<dots> \<le> digits_from v (b # ds)" using Cons by (simp add: digits_from_Cons)
  finally show ?case .
qed (simp add: digits_from_def)

lemma unat_ULLONG_MAX: "unat ULLONG_MAX = 2 ^ 64 - 1"
  by (simp add: ULLONG_MAX_def unsigned_minus_1_eq_mask mask_eq_exp_minus_1)

lemma scan_digits_step:
  assumes v: "v < 2 ^ 64" and b: "is_digit b"
  defines "v' \<equiv> v * 10 + (byte_val b - 48)"
  shows "v' < 2 ^ 64 \<Longrightarrow> scan_digits (b # s) (of_nat v) n = scan_digits s (of_nat v') (n + 1)"
    and "2 ^ 64 \<le> v' \<Longrightarrow> \<exists>acc. scan_digits (b # s) (of_nat v) n = (acc, n, True)"
proof -
  have d: "byte_val b - 48 < 10" using b by (auto simp: is_digit_def)
  have uv: "unat (of_nat v :: 64 word) = v" using v by (simp add: unat_of_nat)
  have ud: "unat (of_nat (byte_val b - 48) :: 64 word) = byte_val b - 48"
    using d by (simp add: unat_of_nat)
  have c1: "(of_nat v :: 64 word) > ULLONG_MAX div 10 \<longleftrightarrow> (2 ^ 64 - 1) div 10 < v"
    by (simp add: word_less_nat_alt uv unat_div unat_ULLONG_MAX)
  have "of_nat (byte_val b - 48) \<le> ULLONG_MAX"
    by (simp add: word_le_nat_alt ud unat_ULLONG_MAX) (use d in simp)
  then have sub: "unat (ULLONG_MAX - of_nat (byte_val b - 48)) = 2 ^ 64 - 1 - (byte_val b - 48)"
    by (simp add: unat_sub ud unat_ULLONG_MAX)
  have mul: "of_nat v * 10 = (of_nat (v * 10) :: 64 word)" by simp
  have um: "unat (of_nat (v * 10) :: 64 word) = v * 10" if "\<not> (2 ^ 64 - 1) div 10 < v"
  proof -
    have "v * 10 < 2 ^ 64" using that by simp
    then show ?thesis by (subst unat_of_nat) simp
  qed
  have c2: "(of_nat (v * 10) :: 64 word) > ULLONG_MAX - of_nat (byte_val b - 48) \<longleftrightarrow> 2 ^ 64 \<le> v'"
    if "\<not> (2 ^ 64 - 1) div 10 < v"
    unfolding word_less_nat_alt sub um [OF that] v'_def using d by auto
  have add: "of_nat (v * 10) + of_nat (byte_val b - 48) = (of_nat v' :: 64 word)"
    by (simp add: v'_def)
  show "scan_digits (b # s) (of_nat v) n = scan_digits s (of_nat v') (n + 1)" if "v' < 2 ^ 64"
  proof -
    have "\<not> (2 ^ 64 - 1) div 10 < v" using that by (simp add: v'_def)
    then show ?thesis using that b c1 c2 by (simp add: mul add Let_def del: of_nat_mult)
  qed
  show "\<exists>acc. scan_digits (b # s) (of_nat v) n = (acc, n, True)" if "2 ^ 64 \<le> v'"
    using that b c1 c2 by (auto simp add: mul Let_def simp del: of_nat_mult)
qed

lemma scan_digits_text:
  assumes "rest = [] \<or> \<not> is_digit (hd rest)" "v < 2 ^ 64"
  shows "if list_all is_digit f \<and> digits_from v f < 2 ^ 64
    then scan_digits (f @ rest) (of_nat v) n = (of_nat (digits_from v f), n + length f, False)
    else \<exists>acc m ov. scan_digits (f @ rest) (of_nat v) n = (acc, n + m, ov) \<and> m < length f"
  using assms(2)
proof (induction f arbitrary: v n)
  case Nil
  with assms(1) show ?case by (cases rest) (auto simp: digits_from_def)
next
  case (Cons b f)
  let ?v = "v * 10 + (byte_val b - 48)"
  show ?case
  proof (cases "is_digit b")
    case False
    then have "scan_digits ((b # f) @ rest) (of_nat v) n = (of_nat v, n + 0, False)" by simp
    with False show ?thesis by (auto intro: exI [of _ "0 :: nat"])
  next
    case b: True
    show ?thesis
    proof (cases "?v < 2 ^ 64")
      case True
      with scan_digits_step(1) [OF Cons.prems b] Cons.IH [OF True, of "n + 1"] b
      show ?thesis
        by (auto simp: digits_from_Cons add.assoc split: if_splits)
    next
      case False
      then have "\<not> digits_from v (b # f) < 2 ^ 64"
        using digits_from_mono [of ?v f] by (simp add: digits_from_Cons)
      moreover obtain acc where "scan_digits (b # (f @ rest)) (of_nat v) n = (acc, n + 0, True)"
        using scan_digits_step(2) [OF Cons.prems b, of "f @ rest" n] False by auto
      ultimately show ?thesis by (auto intro: exI [of _ "0 :: nat"])
    qed
  qed
qed

section \<open>Outcomes\<close>

text \<open>
  \<open>decodes d' m res\<close>: the decoder's outcome \<open>res\<close> is the client's outcome \<open>m\<close>, with the cursor at
  \<open>d'\<close> on success and anywhere after an error.
\<close>

definition decodes :: "'c \<Rightarrow> (int \<times> 'u) run \<Rightarrow> (int \<times> 'c \<times> 'u) run \<Rightarrow> bool" where
  "decodes d' m res \<longleftrightarrow>
     (case m of Inl e \<Rightarrow> res = Inl e
      | Inr (r, u) \<Rightarrow> if r = 0 then res = Inr (0, (d', u)) else (\<exists>d''. res = Inr (r, (d'', u))))"

lemma decodes_lift_call: "decodes d (f u) (lift_call f (d, u))"
  by (auto simp: decodes_def lift_call_def split: sum.splits)

lemma decodes_lift_dispatch:
  "decodes d (dispatch cb ev u) (dispatch (lift_callbacks cb) ev (d, u))"
  by (cases ev) (simp_all add: lift_callbacks_def decodes_lift_call)

lemma decodes_bind:
  assumes m: "decodes d1 m res"
    and k: "\<And>u. m = Inr (0, u) \<Longrightarrow> decodes d2 (f u) (k (0, (d1, u)))"
    and err: "\<And>r s. r \<noteq> 0 \<Longrightarrow> k (r, s) = Inr (r, s)"
  shows "decodes d2 (case m of Inl e \<Rightarrow> Inl e | Inr (r, u) \<Rightarrow> if r \<noteq> 0 then Inr (r, u) else f u)
           (bind_run res k)"
proof (cases m)
  case (Inl e)
  with m show ?thesis by (simp add: decodes_def)
next
  case (Inr p)
  obtain r u where p: "p = (r, u)" by fastforce
  show ?thesis
  proof (cases "r = 0")
    case True
    with m k Inr p show ?thesis by (auto simp: decodes_def)
  next
    case False
    with m Inr p obtain d'' where "res = Inr (r, (d'', u))" by (auto simp: decodes_def)
    with Inr p False err [OF False] show ?thesis by (simp add: decodes_def)
  qed
qed

lemma run_events_simps [simp]:
  "run_events cb [] u = Inr (0, u)"
  "run_events cb (ev # evs) u =
     (case dispatch cb ev u of Inl e \<Rightarrow> Inl e
      | Inr (r, u') \<Rightarrow> if r \<noteq> 0 then Inr (r, u') else run_events cb evs u')"
  unfolding run_events_def by simp_all

lemma run_events_append:
  "run_events cb (evs @ evs') u =
     (case run_events cb evs u of Inl e \<Rightarrow> Inl e
      | Inr (r, u') \<Rightarrow> if r \<noteq> 0 then Inr (r, u') else run_events cb evs' u')"
  unfolding run_events_def map_append by (rule steps_append)

lemma run_events_one: "run_events cb [ev] u = dispatch cb ev u"
  by (auto split: sum.splits)

section \<open>Number elements\<close>

definition no_fp_next :: "bytes \<Rightarrow> bool" where
  "no_fp_next rest \<longleftrightarrow> rest \<noteq> [] \<and> \<not> isFPChar (hd rest)"

lemma no_nul_FP: "list_all isFPChar f \<Longrightarrow> no_nul f"
  by (auto simp: no_nul_def list_all_iff isFPChar_def is_digit_def)

lemma takeWhile_FP:
  "list_all isFPChar f \<Longrightarrow> no_fp_next rest \<Longrightarrow> takeWhile isFPChar (f @ rest) = f"
  by (cases rest) (auto simp: no_fp_next_def list_all_iff takeWhile_append2)

lemma decode_number_float:
  assumes wf: "wf_ctx d" and un: "unread d = f @ rest" and fp: "list_all isFPChar f"
    and rest: "no_fp_next rest" and len: "int (length f) < stringBufferLength d"
    and sd: "scan_digits (f @ rest) 0 0 = (acc, m, ov)"
    and cond: "m < length f \<or> m = length f \<and> \<not> ov \<and> sg = -1 \<and>
      \<not> acc \<le> 0x8000000000000000 \<and> \<not> acc \<le> 0x7fffffffffffffff"
  shows "decode_number fp' cb name sg (d, u) =
    onFloatingPointElement cb name
      (if sg = -1 then fp_neg fp' (fp_scan fp' f) else fp_scan fp' f) (advance (length f) d, u)"
proof -
  obtain b s where bs: "rest = b # s" "\<not> isFPChar b"
    using rest by (cases rest) (auto simp: no_fp_next_def)
  have tw: "takeWhile isFPChar (drop m f @ rest) = drop m f"
    by (rule takeWhile_FP [OF _ rest]) (use fp in \<open>auto simp: list_all_iff dest: in_set_dropD\<close>)
  have cs: "c_string f = f" using no_nul_FP [OF fp] by simp
  have m: "m \<le> length f" using cond by auto
  have dr: "unread (advance m d) = drop m f @ rest" using m by (simp add: un)
  have e1: "\<not> at_end (advance m d)" using bs by (simp add: at_end_unread wf dr del: unread_advance)
  have e2: "\<not> at_end (advance (length f) d)" using bs by (simp add: at_end_unread wf un)
  have skip: "advance (length (takeWhile isFPChar (unread (advance m d)))) (advance m d) =
      advance (length f) d"
    using m by (simp add: dr tw del: unread_advance)
  show ?thesis
  proof (cases "m < length f")
    case True
    then have "current (advance m d) = Inr (f ! m)"
      by (intro current_unread [where s = "drop (Suc m) f @ rest"])
         (simp_all add: wf dr Cons_nth_drop_Suc del: unread_advance flip: append_Cons)
    moreover have "isFPChar (f ! m)" using fp True by (simp add: list_all_length)
    ultimately show ?thesis
      using e1 e2 skip len cs by (simp add: decode_number_def un sd Let_def del: unread_advance)
        (simp add: un)
  next
    case False
    with cond m have ml: "m = length f" "\<not> ov" "sg = -1" "\<not> acc \<le> 0x8000000000000000"
      "\<not> acc \<le> 0x7fffffffffffffff" by auto
    have "current (advance m d) = Inr b"
      by (rule current_unread [where s = s]) (simp_all add: wf un ml bs)
    then show ?thesis
      using e1 e2 skip len cs ml by (simp add: decode_number_def un sd Let_def del: unread_advance)
        (simp add: un)
  qed
qed

lemma is_digit_FP: "is_digit b \<Longrightarrow> isFPChar b"
  by (simp add: isFPChar_def)

lemma digits_value_from: "digits_value f = digits_from 0 f"
  by (simp add: digits_value_def digits_from_def)

text \<open>The event of a number, as a callback of the value.\<close>

lemma decode_number_text:
  assumes wf: "wf_ctx d" and un: "unread d = f @ rest" and fp: "list_all isFPChar f"
    and f: "f \<noteq> []" "is_digit (hd f)"
    and rest: "no_fp_next rest"
    and len: "is_float (number_value fp' neg f) \<Longrightarrow> int (length f) < stringBufferLength d"
    and sg: "sg = (if neg then -1 else 1)"
  shows "decode_number fp' cb name sg (d, u) =
    run_events cb (events name (number_value fp' neg f)) (advance (length f) d, u)"
proof -
  obtain b s where bs: "rest = b # s" "\<not> isFPChar b"
    using rest by (cases rest) (auto simp: no_fp_next_def)
  then have nd: "rest = [] \<or> \<not> is_digit (hd rest)" by (auto dest: is_digit_FP)
  show ?thesis
  proof (cases "is_digits f \<and> digits_value f < 2 ^ 64")
    case True
    let ?v = "digits_value f"
    have sd: "scan_digits (f @ rest) 0 0 = (of_nat ?v, length f, False)"
      using scan_digits_text [OF nd, of 0 f 0] True by (simp add: is_digits_def digits_value_from)
    have cur: "current (advance (length f) d) = Inr b"
      by (rule current_unread [where s = s]) (simp_all add: wf un bs)
    have ne: "\<not> at_end (advance (length f) d)" by (simp add: at_end_unread wf un bs)
    have uv: "unat (of_nat ?v :: 64 word) = ?v" using True by (simp add: unat_of_nat)
    have le: "(of_nat ?v :: 64 word) \<le> 0x7fffffffffffffff \<longleftrightarrow> ?v < 2 ^ 63"
      "(of_nat ?v :: 64 word) \<le> 0x8000000000000000 \<longleftrightarrow> ?v \<le> 2 ^ 63"
      unfolding word_le_nat_alt uv by auto
    consider (int) "?v < 2 ^ 63 \<or> neg \<and> ?v = 2 ^ 63" | (uint) "\<not> neg" "2 ^ 63 \<le> ?v"
      | (big) "neg" "2 ^ 63 < ?v" by linarith
    then show ?thesis
    proof cases
      case int
      then show ?thesis
        using True by (simp add: decode_number_def un sd ne cur bs(2) le sg number_value_def Let_def
          run_events_one del: run_events_simps) auto
    next
      case uint
      then show ?thesis
        using True by (simp add: decode_number_def un sd ne cur bs(2) le sg number_value_def Let_def
          run_events_one del: run_events_simps)
    next
      case big
      then have nv: "number_value fp' neg f = JFloat (fp_neg fp' (fp_scan fp' f))"
        using True by (simp add: number_value_def)
      then have "int (length f) < stringBufferLength d" using len by (simp add: is_float_def)
      moreover have "decode_number fp' cb name sg (d, u) = onFloatingPointElement cb name
        (if sg = -1 then fp_neg fp' (fp_scan fp' f) else fp_scan fp' f) (advance (length f) d, u)"
        by (rule decode_number_float [OF wf un fp rest _ sd]) (use big le sg calculation in auto)
      ultimately show ?thesis using big sg nv by (simp add: run_events_one del: run_events_simps)
    qed
  next
    case False
    have "\<not> (list_all is_digit f \<and> digits_from 0 f < 2 ^ 64)"
      using False f by (simp add: is_digits_def digits_value_from)
    then obtain acc m ov where sd: "scan_digits (f @ rest) 0 0 = (acc, m, ov)" "m < length f"
      using scan_digits_text [OF nd, of 0 f 0] by auto
    have nv: "number_value fp' neg f = JFloat (if neg then fp_neg fp' (fp_scan fp' f) else fp_scan fp' f)"
      using False by (auto simp: number_value_def)
    moreover have "decode_number fp' cb name sg (d, u) = onFloatingPointElement cb name
        (if sg = -1 then fp_neg fp' (fp_scan fp' f) else fp_scan fp' f) (advance (length f) d, u)"
      by (rule decode_number_float [OF wf un fp rest _ sd(1)])
         (use len sd nv in \<open>auto simp: is_float_def\<close>)
    ultimately show ?thesis using sg by (simp add: run_events_one del: run_events_simps)
  qed
qed

section \<open>Elements\<close>

lemma decode_literal_text:
  assumes "unread d = word @ rest"
  shows "decode_literal word f (d, u) = f (advance (length word) d, u)"
  using assms by (simp add: decode_literal_def)

text \<open>Where a text of a value starts: never with white space, a comma or a closing bracket.\<close>

definition starts_value :: "byte \<Rightarrow> bool" where
  "starts_value b \<longleftrightarrow> is_digit b \<or>
     b \<in> {CHR ''['', CHR ''{'', CHR 0x22, CHR ''f'', CHR ''t'', CHR ''n'', CHR ''-''}"

lemma starts_value_not:
  assumes "starts_value b"
  shows "\<not> isspace b" "b \<noteq> CHR '']''" "b \<noteq> CHR ''}''" "b \<noteq> CHR '',''"
  using assms by (auto simp: starts_value_def isspace_def is_digit_def)

lemma number_text_starts:
  "number_text fp maxs t tx \<Longrightarrow> \<exists>b s. tx = b # s \<and> starts_value b"
  by (auto simp: number_text_def sign_text_def starts_value_def neq_Nil_conv)

lemma json_text_starts:
  "json_text fp maxn maxs t tx \<Longrightarrow> \<exists>b s. tx = b # s \<and> starts_value b"
  by (erule json_text.cases) (auto simp: starts_value_def dest: number_text_starts)

definition is_number :: "'d json \<Rightarrow> bool" where
  "is_number t \<longleftrightarrow> (case t of JInt _ \<Rightarrow> True | JUInt _ \<Rightarrow> True | JFloat _ \<Rightarrow> True | _ \<Rightarrow> False)"

lemma number_text_is_number: "number_text fp maxs t tx \<Longrightarrow> is_number t"
  by (auto simp: number_text_def number_value_def is_number_def)

lemma decodes_events_dispatch:
  "decodes d (run_events cb [ev] u) (dispatch (lift_callbacks cb) ev (d, u))"
  by (simp only: run_events_one decodes_lift_dispatch)

lemma decodes_number:
  assumes nt: "number_text fp maxs t tx" and wf: "wf_ctx d" and un: "unread d = tx @ rest"
    and rest: "no_fp_next rest" and maxs: "stringBufferLength d = maxs"
  shows "decodes (advance (length tx) d) (run_events cb (events name t) u)
    (decodeElement (Suc fuel) fp (lift_callbacks cb) name (d, u))"
proof -
  from nt obtain neg f where tx: "tx = sign_text neg @ f" and f: "f \<noteq> []" "is_digit (hd f)"
      "list_all isFPChar f" and t: "t = number_value fp neg f"
      and len: "is_float t \<Longrightarrow> int (length f) < maxs"
    by (auto simp: number_text_def)
  obtain b s where bs: "f = b # s" "is_digit b" using f by (cases f) auto
  have db: "\<not> isspace b" "b \<noteq> CHR ''[''" "b \<noteq> CHR ''{''" "b \<noteq> CHR 0x22" "b \<noteq> CHR ''f''"
    "b \<noteq> CHR ''t''" "b \<noteq> CHR ''n''" "b \<noteq> CHR ''-''"
    using bs(2) by (auto simp: isspace_def is_digit_def)
  let ?cb = "lift_callbacks cb :: ('a, json_decode_context \<times> 'b) decode_callbacks"
  have ev: "decodes d' (run_events cb (events name t) u) (run_events ?cb (events name t) (d', u))" for d'
    using number_text_is_number [OF nt]
    by (cases t) (simp_all add: is_number_def run_events_one lift_callbacks_def decodes_lift_call
      del: run_events_simps)
  show ?thesis
  proof (cases neg)
    case False
    have cur: "current d = Inr b"
      by (rule current_unread [OF wf]) (use un tx bs False in \<open>simp add: sign_text_def\<close>)
    have "decode_number fp ?cb name 1 (d, u) = run_events ?cb (events name t) (advance (length f) d, u)"
      unfolding t
      by (rule decode_number_text [OF wf _ f(3,1,2) rest]) (use un tx False len maxs t in \<open>simp_all add: sign_text_def\<close>)
    moreover have "skip_whitespace d = d"
      by (rule skip_whitespace_none) (use un tx bs db False in \<open>simp_all add: sign_text_def\<close>)
    moreover have "\<not> at_end d" using un tx bs False by (simp add: at_end_unread wf sign_text_def)
    ultimately show ?thesis
      using ev db bs(2) tx False by (simp add: cur Let_def sign_text_def)
  next
    case True
    let ?d = "advance 1 d"
    have un1: "unread ?d = f @ rest" using un tx True by (simp add: sign_text_def)
    have cur: "current d = Inr CHR ''-''"
      by (rule current_unread [OF wf]) (use un tx True in \<open>simp add: sign_text_def\<close>)
    have cur1: "current ?d = Inr b"
      by (rule current_unread) (use un1 bs wf in \<open>simp_all del: unread_advance\<close>)
    have "decode_number fp ?cb name (-1) (?d, u) = run_events ?cb (events name t) (advance (length f) ?d, u)"
      unfolding t
      by (rule decode_number_text [OF _ un1 f(3,1,2) rest]) (use wf True len maxs t in simp_all)
    moreover have "skip_whitespace d = d"
      by (rule skip_whitespace_none [where b = "CHR ''-''"])
         (use un tx True in \<open>simp_all add: sign_text_def isspace_def\<close>)
    moreover have "\<not> at_end d" using un tx True by (simp add: at_end_unread wf sign_text_def)
    ultimately show ?thesis
      using ev [of "advance (length f) ?d"] bs(2) tx True cur1
      by (simp add: cur Let_def sign_text_def is_digit_def)
  qed
qed

section \<open>White space and commas between elements\<close>

lemma skip_whitespace_idem [simp]: "skip_whitespace (skip_whitespace d) = skip_whitespace d"
proof -
  have "takeWhile isspace (drop (length (takeWhile isspace xs)) xs) = []" for xs
    by (induction xs) auto
  then show ?thesis by (simp add: skip_whitespace_def)
qed

lemma decode_array_skip: "decode_array fuel fp cb (skip_whitespace d, u) = decode_array fuel fp cb (d, u)"
  by (cases fuel) simp_all

lemma decode_object_skip: "decode_object fuel fp cb (skip_whitespace d, u) = decode_object fuel fp cb (d, u)"
  by (cases fuel) simp_all

text \<open>What can follow a value: white space, then a closing bracket or the start of an element.\<close>

definition follows :: "bytes \<Rightarrow> bool" where
  "follows tx \<longleftrightarrow> (\<exists>w b s. tx = w @ b # s \<and> blank w \<and> \<not> isspace b \<and> b \<noteq> CHR '','')"

lemma followsI: "blank w \<Longrightarrow> \<not> isspace b \<Longrightarrow> b \<noteq> CHR '','' \<Longrightarrow> follows (w @ b # s)"
  by (auto simp: follows_def)

lemma follows_append: "follows tx \<Longrightarrow> follows (tx @ rest)"
  unfolding follows_def by (metis append.assoc append_Cons)

lemma array_text_follows:
  assumes "array_text fp maxn maxs ts tx"
  shows "follows tx"
  using assms
proof (cases rule: array_text.cases)
  case (at_Nil w)
  then show ?thesis using followsI [of w "CHR '']''" "[]"] by (simp add: isspace_def)
next
  case (at_Cons w1 t tx' w2 ts' rest)
  then obtain b s where b: "tx' = b # s" "starts_value b" by (blast dest: json_text_starts)
  have "follows (w1 @ b # (s @ w2 @ comma_between ts' @ rest))"
    by (rule followsI) (use at_Cons starts_value_not [OF b(2)] in simp_all)
  with at_Cons b show ?thesis by simp
qed

lemma object_text_follows:
  assumes "object_text fp maxn maxs ms tx"
  shows "follows tx"
  using assms
proof (cases rule: object_text.cases)
  case (ot_Nil w)
  then show ?thesis using followsI [of w "CHR ''}''" "[]"] by (simp add: isspace_def)
next
  case (ot_Cons w1 k ktx w2 w3 t tx' w4 ms' rest)
  then have "follows (w1 @ CHR 0x22 # (ktx @ ''\"'' @ w2 @ '':'' @ w3 @ tx' @ w4 @ comma_between ms' @ rest))"
    by (intro followsI) (simp_all add: isspace_def)
  with ot_Cons show ?thesis by simp
qed

text \<open>After a value the code skips white space and, if there is one, a comma.\<close>

lemma after_value:
  assumes wf: "wf_ctx d" and un: "unread d = w @ comma_between rs @ tx"
    and w: "blank w" and tx: "follows tx"
  obtains ch where "\<not> at_end (skip_whitespace d)" "current (skip_whitespace d) = Inr ch"
    "skip_whitespace (if ch = CHR '','' then advance 1 (skip_whitespace d) else skip_whitespace d) =
     skip_whitespace (advance (length w + length (comma_between rs)) d)"
proof (cases "rs = []")
  case False
  have sk: "skip_whitespace d = advance (length w) d"
    by (rule skip_whitespace_unread [where b = "CHR '',''" and s = tx])
       (use un w False in \<open>simp_all add: comma_between_def isspace_def\<close>)
  have "current (advance (length w) d) = Inr CHR '',''"
    by (rule current_unread [where s = tx]) (use un wf False in \<open>simp_all add: comma_between_def\<close>)
  with that [of "CHR '',''"] False show thesis
    using un by (simp add: sk at_end_unread wf comma_between_def)
next
  case True
  from tx obtain v b s where tx: "tx = v @ b # s" "blank v" "\<not> isspace b" "b \<noteq> CHR '',''"
    by (auto simp: follows_def)
  have sk: "skip_whitespace d = advance (length (w @ v)) d"
    by (rule skip_whitespace_unread [where b = b and s = s])
       (use un w tx True in \<open>simp_all add: comma_between_def\<close>)
  have sk': "skip_whitespace (advance (length w) d) = advance (length (w @ v)) d"
    using skip_whitespace_unread [of "advance (length w) d" v b s] un tx True
    by (simp add: comma_between_def)
  have "current (advance (length (w @ v)) d) = Inr b"
    by (rule current_unread [where s = s]) (use un wf tx True in \<open>simp_all add: comma_between_def\<close>)
  moreover have "\<not> at_end (advance (length (w @ v)) d)"
    using un tx True by (simp add: at_end_unread wf comma_between_def)
  ultimately show thesis
    using that [of b] tx True sk sk' skip_whitespace_idem [of d]
    by (simp add: comma_between_def)
qed

lemma isspace_not_FP: "isspace b \<Longrightarrow> \<not> isFPChar b"
  by (auto simp: isspace_def isFPChar_def is_digit_def)

lemma blank_no_fp:
  assumes "blank w" "no_fp_next s"
  shows "no_fp_next (w @ s)"
  using assms by (cases w) (auto simp: no_fp_next_def isspace_not_FP)

lemma array_text_no_fp:
  assumes "array_text fp maxn maxs ts tx" "blank w"
  shows "no_fp_next (w @ comma_between ts @ tx @ rest)"
proof (rule blank_no_fp [OF assms(2)])
  show "no_fp_next (comma_between ts @ tx @ rest)"
  proof (cases ts)
    case Nil
    with assms(1) obtain v where "tx = v @ '']''" "blank v" by (cases rule: array_text.cases) auto
    then show ?thesis using blank_no_fp [of v "'']'' @ rest"] Nil
      by (simp add: comma_between_def no_fp_next_def isFPChar_def is_digit_def)
  qed (simp add: comma_between_def no_fp_next_def isFPChar_def is_digit_def)
qed

lemma object_text_no_fp:
  assumes "object_text fp maxn maxs ms tx" "blank w"
  shows "no_fp_next (w @ comma_between ms @ tx @ rest)"
proof (rule blank_no_fp [OF assms(2)])
  show "no_fp_next (comma_between ms @ tx @ rest)"
  proof (cases ms)
    case Nil
    with assms(1) obtain v where "tx = v @ ''}''" "blank v" by (cases rule: object_text.cases) auto
    then show ?thesis using blank_no_fp [of v "''}'' @ rest"] Nil
      by (simp add: comma_between_def no_fp_next_def isFPChar_def is_digit_def)
  qed (simp add: comma_between_def no_fp_next_def isFPChar_def is_digit_def)
qed

section \<open>The decoder on the grammar\<close>

lemma decodeElement_skip:
  "decodeElement fuel fp cb name (skip_whitespace d, u) = decodeElement fuel fp cb name (d, u)"
  by (cases fuel) simp_all

text \<open>
  One lemma per clause of the grammar, each with the cursor right at the text. \<open>elem\<close>, \<open>arr\<close> and
  \<open>obj\<close> are the statements the induction goes by.
\<close>

definition elem_ok :: "'d fp_ops \<Rightarrow> int \<Rightarrow> int \<Rightarrow> 'd json \<Rightarrow> bytes \<Rightarrow> ('d, 'u) decode_callbacks \<Rightarrow> bool" where
  "elem_ok fp maxn maxs t tx cb \<longleftrightarrow>
     (\<forall>d u rest name fuel. wf_ctx d \<longrightarrow> unread d = tx @ rest \<longrightarrow> (is_number t \<longrightarrow> no_fp_next rest) \<longrightarrow>
        nameBufferLength d = maxn \<longrightarrow> stringBufferLength d = maxs \<longrightarrow>
        2 * length (unread d) + 2 \<le> fuel \<longrightarrow>
        decodes (advance (length tx) d) (run_events cb (events name t) u)
          (decodeElement fuel fp (lift_callbacks cb) name (d, u)))"

definition arr_ok :: "'d fp_ops \<Rightarrow> int \<Rightarrow> int \<Rightarrow> 'd json list \<Rightarrow> bytes \<Rightarrow> ('d, 'u) decode_callbacks \<Rightarrow> bool" where
  "arr_ok fp maxn maxs ts tx cb \<longleftrightarrow>
     (\<forall>d u rest fuel. wf_ctx d \<longrightarrow> unread d = tx @ rest \<longrightarrow>
        nameBufferLength d = maxn \<longrightarrow> stringBufferLength d = maxs \<longrightarrow>
        2 * length (unread d) + 3 \<le> fuel \<longrightarrow>
        decodes (advance (length tx) d) (run_events cb (concat (map (events None) ts) @ [EvEnd]) u)
          (decode_array fuel fp (lift_callbacks cb) (d, u)))"

definition obj_ok :: "'d fp_ops \<Rightarrow> int \<Rightarrow> int \<Rightarrow> (bytes \<times> 'd json) list \<Rightarrow> bytes \<Rightarrow>
    ('d, 'u) decode_callbacks \<Rightarrow> bool" where
  "obj_ok fp maxn maxs ms tx cb \<longleftrightarrow>
     (\<forall>d u rest fuel. wf_ctx d \<longrightarrow> unread d = tx @ rest \<longrightarrow>
        nameBufferLength d = maxn \<longrightarrow> stringBufferLength d = maxs \<longrightarrow>
        2 * length (unread d) + 3 \<le> fuel \<longrightarrow>
        decodes (advance (length tx) d)
          (run_events cb (concat (map (\<lambda>(k, t). events (Some (c_string k)) t) ms) @ [EvEnd]) u)
          (decode_object fuel fp (lift_callbacks cb) (d, u)))"

lemma elem_okD:
  assumes "elem_ok fp maxn maxs t tx cb" "wf_ctx d" "unread d = tx @ rest"
    "is_number t \<Longrightarrow> no_fp_next rest" "nameBufferLength d = maxn" "stringBufferLength d = maxs"
    "2 * length (unread d) + 2 \<le> fuel"
  shows "decodes (advance (length tx) d) (run_events cb (events name t) u)
    (decodeElement fuel fp (lift_callbacks cb) name (d, u))"
  using assms unfolding elem_ok_def by blast

lemma arr_okD:
  assumes "arr_ok fp maxn maxs ts tx cb" "wf_ctx d" "unread d = tx @ rest"
    "nameBufferLength d = maxn" "stringBufferLength d = maxs" "2 * length (unread d) + 3 \<le> fuel"
  shows "decodes (advance (length tx) d) (run_events cb (concat (map (events None) ts) @ [EvEnd]) u)
    (decode_array fuel fp (lift_callbacks cb) (d, u))"
  using assms unfolding arr_ok_def by blast

lemma obj_okD:
  assumes "obj_ok fp maxn maxs ms tx cb" "wf_ctx d" "unread d = tx @ rest"
    "nameBufferLength d = maxn" "stringBufferLength d = maxs" "2 * length (unread d) + 3 \<le> fuel"
  shows "decodes (advance (length tx) d)
    (run_events cb (concat (map (\<lambda>(k, t). events (Some (c_string k)) t) ms) @ [EvEnd]) u)
    (decode_object fuel fp (lift_callbacks cb) (d, u))"
  using assms unfolding obj_ok_def by blast

lemma starts_here:
  assumes "wf_ctx d" "unread d = b # s" "\<not> isspace b"
  shows "\<not> at_end d" "current d = Inr b" "skip_whitespace d = d"
  using assms by (simp_all add: at_end_unread current_unread skip_whitespace_none)

lemma elem_literal:
  assumes tx: "tx = b # s" "\<not> isspace b"
    and step: "\<And>d u name fuel. current d = Inr b \<Longrightarrow> \<not> at_end d \<Longrightarrow> skip_whitespace d = d \<Longrightarrow>
      decodeElement (Suc fuel) fp (lift_callbacks cb) name (d, u) =
        decode_literal tx (dispatch (lift_callbacks cb) (ev name)) (d, u)"
    and ev: "\<And>name. events name t = [ev name]"
  shows "elem_ok fp maxn maxs t tx cb"
  unfolding elem_ok_def
proof (intro allI impI)
  fix d u rest name and fuel :: nat
  assume wf: "wf_ctx d" and un: "unread d = tx @ rest" and "2 * length (unread d) + 2 \<le> fuel"
  then obtain n where n: "fuel = Suc n" by (cases fuel) auto
  have "unread d = b # (s @ rest)" using un tx by simp
  note h = starts_here [OF wf this tx(2)]
  show "decodes (advance (length tx) d) (run_events cb (events name t) u)
      (decodeElement fuel fp (lift_callbacks cb) name (d, u))"
    unfolding n ev step [OF h(2,1,3)] decode_literal_text [OF un] by (rule decodes_events_dispatch)
qed

lemma elem_null: "elem_ok fp maxn maxs JNull ''null'' cb"
  by (rule elem_literal [where ev = EvNull and b = "CHR ''n''" and s = "''ull''"])
      (simp_all add: isspace_def is_digit_def)

lemma elem_true: "elem_ok fp maxn maxs (JBool True) ''true'' cb"
  by (rule elem_literal [where ev = "\<lambda>n. EvBool n True" and b = "CHR ''t''" and s = "''rue''"])
      (simp_all add: isspace_def is_digit_def)

lemma elem_false: "elem_ok fp maxn maxs (JBool False) ''false'' cb"
  by (rule elem_literal [where ev = "\<lambda>n. EvBool n False" and b = "CHR ''f''" and s = "''alse''"])
      (simp_all add: isspace_def is_digit_def)

lemma elem_number: "number_text fp maxs t tx \<Longrightarrow> elem_ok fp maxn maxs t tx cb"
  unfolding elem_ok_def
proof (intro allI impI)
  fix d u rest name and fuel :: nat
  assume nt: "number_text fp maxs t tx" and h: "wf_ctx d" "unread d = tx @ rest"
    "is_number t \<longrightarrow> no_fp_next rest" "stringBufferLength d = maxs"
    and "2 * length (unread d) + 2 \<le> fuel"
  then obtain n where "fuel = Suc n" by (cases fuel) auto
  with decodes_number [OF nt h(1,2) _ h(4)] h(3) number_text_is_number [OF nt]
  show "decodes (advance (length tx) d) (run_events cb (events name t) u)
      (decodeElement fuel fp (lift_callbacks cb) name (d, u))" by simp
qed

lemma elem_string:
  assumes "string_text s tx" "int (length tx) < maxs"
  shows "elem_ok fp maxn maxs (JString s) (''\"'' @ tx @ ''\"'') cb"
  unfolding elem_ok_def
proof (intro allI impI)
  fix d u rest name and fuel :: nat
  assume wf: "wf_ctx d" and un: "unread d = (''\"'' @ tx @ ''\"'') @ rest"
    and len: "stringBufferLength d = maxs" and "2 * length (unread d) + 2 \<le> fuel"
  then obtain n where n: "fuel = Suc n" by (cases fuel) auto
  have un': "unread d = CHR 0x22 # tx @ CHR 0x22 # rest" using un by simp
  have "\<not> isspace CHR 0x22" by (simp add: isspace_def)
  note h = starts_here [OF wf un' this]
  have "decodeString d maxs = Inr (SentryCrashJSON_OK, s, advance (length tx + 2) d)"
    by (rule decodeString_text [OF wf un' assms(1)]) (use assms(2) in simp)
  then have "decodeElement fuel fp (lift_callbacks cb) name (d, u) =
      dispatch (lift_callbacks cb) (EvString name (c_string s)) (advance (length tx + 2) d, u)"
    by (simp add: n h len is_digit_def)
  then show "decodes (advance (length (''\"'' @ tx @ ''\"'')) d) (run_events cb (events name (JString s)) u)
      (decodeElement fuel fp (lift_callbacks cb) name (d, u))"
    using decodes_lift_dispatch [of "advance (length tx + 2) d" cb "EvString name (c_string s)" u]
    by (simp add: run_events_one del: run_events_simps)
qed

lemma elem_array:
  assumes arr: "arr_ok fp maxn maxs ts tx cb"
  shows "elem_ok fp maxn maxs (JArray ts) (''['' @ tx) cb"
  unfolding elem_ok_def
proof (intro allI impI)
  fix d u rest name and fuel :: nat
  assume wf: "wf_ctx d" and un: "unread d = (''['' @ tx) @ rest"
    and len: "nameBufferLength d = maxn" "stringBufferLength d = maxs"
    and fuel: "2 * length (unread d) + 2 \<le> fuel"
  then obtain n where n: "fuel = Suc n" by (cases fuel) auto
  let ?cb = "lift_callbacks cb" and ?d = "advance 1 d"
  have un': "unread d = CHR ''['' # (tx @ rest)" using un by simp
  have "\<not> isspace CHR ''[''" by (simp add: isspace_def)
  note h = starts_here [OF wf un' this]
  have rest: "decodes (advance (length tx) ?d) (run_events cb (concat (map (events None) ts) @ [EvEnd]) u')
      (decode_array n fp ?cb (?d, u'))" for u'
    by (rule arr_okD [OF arr, where rest = rest]) (use fuel n len wf un' in simp_all)
  have el: "decodeElement fuel fp ?cb name (d, u) =
      bind_run (dispatch ?cb (EvBeginArray name) (?d, u))
        (\<lambda>(r, s). if r \<noteq> 0 then Inr (r, s) else decode_array n fp ?cb s)"
    by (auto simp: n h bind_run_def split: sum.splits)
  have "decodes (advance (length tx) ?d)
      (case dispatch cb (EvBeginArray name) u of Inl e \<Rightarrow> Inl e
       | Inr (r, u) \<Rightarrow> if r \<noteq> 0 then Inr (r, u)
           else run_events cb (concat (map (events None) ts) @ [EvEnd]) u)
      (decodeElement fuel fp ?cb name (d, u))"
    unfolding el by (rule decodes_bind [OF decodes_lift_dispatch]) (use rest in auto)
  then show "decodes (advance (length (''['' @ tx)) d) (run_events cb (events name (JArray ts)) u)
      (decodeElement fuel fp ?cb name (d, u))" by simp
qed

lemma elem_object:
  assumes obj: "obj_ok fp maxn maxs ms tx cb"
  shows "elem_ok fp maxn maxs (JObject ms) (''{'' @ tx) cb"
  unfolding elem_ok_def
proof (intro allI impI)
  fix d u rest name and fuel :: nat
  assume wf: "wf_ctx d" and un: "unread d = (''{'' @ tx) @ rest"
    and len: "nameBufferLength d = maxn" "stringBufferLength d = maxs"
    and fuel: "2 * length (unread d) + 2 \<le> fuel"
  then obtain n where n: "fuel = Suc n" by (cases fuel) auto
  let ?cb = "lift_callbacks cb" and ?d = "advance 1 d"
  let ?evs = "concat (map (\<lambda>(k, t). events (Some (c_string k)) t) ms) @ [EvEnd]"
  have un': "unread d = CHR ''{'' # (tx @ rest)" using un by simp
  have "\<not> isspace CHR ''{''" by (simp add: isspace_def)
  note h = starts_here [OF wf un' this]
  have rest: "decodes (advance (length tx) ?d) (run_events cb ?evs u') (decode_object n fp ?cb (?d, u'))"
    for u'
    by (rule obj_okD [OF obj, where rest = rest]) (use fuel n len wf un' in simp_all)
  have el: "decodeElement fuel fp ?cb name (d, u) =
      bind_run (dispatch ?cb (EvBeginObject name) (?d, u))
        (\<lambda>(r, s). if r \<noteq> 0 then Inr (r, s) else decode_object n fp ?cb s)"
    by (auto simp: n h bind_run_def split: sum.splits)
  have "decodes (advance (length tx) ?d)
      (case dispatch cb (EvBeginObject name) u of Inl e \<Rightarrow> Inl e
       | Inr (r, u) \<Rightarrow> if r \<noteq> 0 then Inr (r, u) else run_events cb ?evs u)
      (decodeElement fuel fp ?cb name (d, u))"
    unfolding el by (rule decodes_bind [OF decodes_lift_dispatch]) (use rest in auto)
  then show "decodes (advance (length (''{'' @ tx)) d) (run_events cb (events name (JObject ms)) u)
      (decodeElement fuel fp ?cb name (d, u))" by simp
qed

lemma arr_Nil:
  assumes "blank w"
  shows "arr_ok fp maxn maxs [] (w @ '']'') cb"
  unfolding arr_ok_def
proof (intro allI impI)
  fix d u rest and fuel :: nat
  assume wf: "wf_ctx d" and un: "unread d = (w @ '']'') @ rest"
    and "2 * length (unread d) + 3 \<le> fuel"
  then obtain n where n: "fuel = Suc n" by (cases fuel) auto
  let ?d = "advance (length w) d"
  have sk: "skip_whitespace d = ?d"
    by (rule skip_whitespace_unread [where b = "CHR '']''" and s = rest])
       (use un assms in \<open>simp_all add: isspace_def\<close>)
  have "unread ?d = CHR '']'' # rest" "wf_ctx ?d" using un wf by simp_all
  then have "\<not> at_end ?d" "current ?d = Inr CHR '']''"
    by (simp_all add: at_end_unread current_unread del: unread_advance)
  then have "decode_array fuel fp (lift_callbacks cb) (d, u) =
      dispatch (lift_callbacks cb) EvEnd (advance (length (w @ '']'')) d, u)"
    by (simp add: n sk)
  then show "decodes (advance (length (w @ '']'')) d)
      (run_events cb (concat (map (events None) []) @ [EvEnd]) u)
      (decode_array fuel fp (lift_callbacks cb) (d, u))"
    using decodes_events_dispatch [of _ cb EvEnd] by simp
qed

lemma obj_Nil:
  assumes "blank w"
  shows "obj_ok fp maxn maxs [] (w @ ''}'') cb"
  unfolding obj_ok_def
proof (intro allI impI)
  fix d u rest and fuel :: nat
  assume wf: "wf_ctx d" and un: "unread d = (w @ ''}'') @ rest"
    and "2 * length (unread d) + 3 \<le> fuel"
  then obtain n where n: "fuel = Suc n" by (cases fuel) auto
  let ?d = "advance (length w) d"
  have sk: "skip_whitespace d = ?d"
    by (rule skip_whitespace_unread [where b = "CHR ''}''" and s = rest])
       (use un assms in \<open>simp_all add: isspace_def\<close>)
  have "unread ?d = CHR ''}'' # rest" "wf_ctx ?d" using un wf by simp_all
  then have "\<not> at_end ?d" "current ?d = Inr CHR ''}''"
    by (simp_all add: at_end_unread current_unread del: unread_advance)
  then have "decode_object fuel fp (lift_callbacks cb) (d, u) =
      dispatch (lift_callbacks cb) EvEnd (advance (length (w @ ''}'')) d, u)"
    by (simp add: n sk)
  then show "decodes (advance (length (w @ ''}'')) d)
      (run_events cb (concat (map (\<lambda>(k, t). events (Some (c_string k)) t) []) @ [EvEnd]) u)
      (decode_object fuel fp (lift_callbacks cb) (d, u))"
    using decodes_events_dispatch [of _ cb EvEnd] by simp
qed

text \<open>The rest of an array after one of its elements.\<close>

lemma array_continue:
  assumes arr: "arr_ok fp maxn maxs ts tx cb" and wf: "wf_ctx d"
    and un: "unread d = w @ comma_between ts @ tx @ rest" and w: "blank w" and tx: "follows tx"
    and len: "nameBufferLength d = maxn" "stringBufferLength d = maxs"
    and fuel: "2 * length (unread d) + 3 \<le> fuel"
  shows "decodes (advance (length w + length (comma_between ts) + length tx) d)
    (run_events cb (concat (map (events None) ts) @ [EvEnd]) u)
    (let d = skip_whitespace d
     in if at_end d then Inr (SentryCrashJSON_ERROR_INCOMPLETE, (d, u))
        else bind_run (current d) (\<lambda>ch.
          decode_array fuel fp (lift_callbacks cb) (if ch = CHR '','' then advance 1 d else d, u)))"
proof -
  let ?d = "advance (length w + length (comma_between ts)) d"
  obtain ch where ch: "\<not> at_end (skip_whitespace d)" "current (skip_whitespace d) = Inr ch"
    and sk: "skip_whitespace (if ch = CHR '','' then advance 1 (skip_whitespace d) else skip_whitespace d) =
      skip_whitespace ?d"
    using after_value [OF wf un w follows_append [OF tx]] by metis
  have "decode_array fuel fp (lift_callbacks cb)
      (if ch = CHR '','' then advance 1 (skip_whitespace d) else skip_whitespace d, u) =
      decode_array fuel fp (lift_callbacks cb) (?d, u)"
    using sk by (metis decode_array_skip)
  moreover have "decodes (advance (length tx) ?d)
      (run_events cb (concat (map (events None) ts) @ [EvEnd]) u)
      (decode_array fuel fp (lift_callbacks cb) (?d, u))"
    by (rule arr_okD [OF arr, where rest = rest]) (use wf un len fuel in simp_all)
  ultimately show ?thesis using ch by (simp add: Let_def add.assoc)
qed

lemma object_continue:
  assumes obj: "obj_ok fp maxn maxs ms tx cb" and wf: "wf_ctx d"
    and un: "unread d = w @ comma_between ms @ tx @ rest" and w: "blank w" and tx: "follows tx"
    and len: "nameBufferLength d = maxn" "stringBufferLength d = maxs"
    and fuel: "2 * length (unread d) + 3 \<le> fuel"
  shows "decodes (advance (length w + length (comma_between ms) + length tx) d)
    (run_events cb (concat (map (\<lambda>(k, t). events (Some (c_string k)) t) ms) @ [EvEnd]) u)
    (let d = skip_whitespace d
     in if at_end d then Inr (SentryCrashJSON_ERROR_INCOMPLETE, (d, u))
        else bind_run (current d) (\<lambda>ch.
          decode_object fuel fp (lift_callbacks cb) (if ch = CHR '','' then advance 1 d else d, u)))"
proof -
  let ?d = "advance (length w + length (comma_between ms)) d"
  obtain ch where ch: "\<not> at_end (skip_whitespace d)" "current (skip_whitespace d) = Inr ch"
    and sk: "skip_whitespace (if ch = CHR '','' then advance 1 (skip_whitespace d) else skip_whitespace d) =
      skip_whitespace ?d"
    using after_value [OF wf un w follows_append [OF tx]] by metis
  have "decode_object fuel fp (lift_callbacks cb)
      (if ch = CHR '','' then advance 1 (skip_whitespace d) else skip_whitespace d, u) =
      decode_object fuel fp (lift_callbacks cb) (?d, u)"
    using sk by (metis decode_object_skip)
  moreover have "decodes (advance (length tx) ?d)
      (run_events cb (concat (map (\<lambda>(k, t). events (Some (c_string k)) t) ms) @ [EvEnd]) u)
      (decode_object fuel fp (lift_callbacks cb) (?d, u))"
    by (rule obj_okD [OF obj, where rest = rest]) (use wf un len fuel in simp_all)
  ultimately show ?thesis using ch by (simp add: Let_def add.assoc)
qed

lemma arr_Cons:
  assumes w1: "blank w1" and t: "json_text fp maxn maxs t tx" "elem_ok fp maxn maxs t tx cb"
    and w2: "blank w2" and ts: "array_text fp maxn maxs ts rest" "arr_ok fp maxn maxs ts rest cb"
  shows "arr_ok fp maxn maxs (t # ts) (w1 @ tx @ w2 @ comma_between ts @ rest) cb"
  unfolding arr_ok_def
proof (intro allI impI)
  fix d u rest' and fuel :: nat
  assume wf: "wf_ctx d" and un: "unread d = (w1 @ tx @ w2 @ comma_between ts @ rest) @ rest'"
    and len: "nameBufferLength d = maxn" "stringBufferLength d = maxs"
    and fuel: "2 * length (unread d) + 3 \<le> fuel"
  then obtain n where n: "fuel = Suc n" by (cases fuel) auto
  obtain b s where b: "tx = b # s" "starts_value b" using json_text_starts [OF t(1)] by blast
  note nb = starts_value_not [OF b(2)]
  let ?cb = "lift_callbacks cb"
  let ?d = "advance (length w1) d" and ?d2 = "advance (length tx) (advance (length w1) d)"
  let ?rest = "concat (map (events None) ts) @ [EvEnd]"
  have sk: "skip_whitespace d = ?d"
    by (rule skip_whitespace_unread [where b = b and s = "s @ w2 @ comma_between ts @ rest @ rest'"])
       (use un b w1 nb in simp_all)
  have h: "unread ?d = tx @ w2 @ comma_between ts @ rest @ rest'" "wf_ctx ?d" using un wf by simp_all
  then have cur: "\<not> at_end ?d" "current ?d = Inr b"
    using b by (simp_all add: at_end_unread current_unread del: unread_advance)
  have el: "decodes ?d2 (run_events cb (events None t) u) (decodeElement n fp ?cb None (?d, u))"
    by (rule elem_okD [OF t(2) h(2,1)])
       (use array_text_no_fp [OF ts(1) w2] len fuel n un in \<open>simp_all\<close>)
  let ?after = "\<lambda>(result, (d, u)). if result \<noteq> SentryCrashJSON_OK then Inr (result, (d, u))
      else let d = skip_whitespace d
        in if at_end d then Inr (SentryCrashJSON_ERROR_INCOMPLETE, (d, u))
           else bind_run (current d) (\<lambda>ch.
             decode_array n fp ?cb (if ch = CHR '','' then advance 1 d else d, u))"
  have "decodes (advance (length w2 + length (comma_between ts) + length rest) ?d2)
      (run_events cb ?rest u') (?after (0, (?d2, u')))" for u'
    using array_continue [OF ts(2), of ?d2 w2 rest' n u'] array_text_follows [OF ts(1)]
      wf un w2 len fuel n b by (simp add: json_codes)
  then have "decodes (advance (length w2 + length (comma_between ts) + length rest) ?d2)
      (case run_events cb (events None t) u of Inl e \<Rightarrow> Inl e
       | Inr (r, u) \<Rightarrow> if r \<noteq> 0 then Inr (r, u) else run_events cb ?rest u)
      (bind_run (decodeElement n fp ?cb None (?d, u)) ?after)"
    by (intro decodes_bind [OF el]) (auto simp: json_codes)
  moreover have "decode_array fuel fp ?cb (d, u) = bind_run (decodeElement n fp ?cb None (?d, u)) ?after"
    using nb by (simp add: n sk cur)
  ultimately show "decodes (advance (length (w1 @ tx @ w2 @ comma_between ts @ rest)) d)
      (run_events cb (concat (map (events None) (t # ts)) @ [EvEnd]) u)
      (decode_array fuel fp ?cb (d, u))"
    by (simp only: list.map concat.simps append_assoc run_events_append) (simp add: add.assoc)
qed

lemma obj_Cons:
  assumes w1: "blank w1" and k: "string_text k ktx" "int (length ktx) < maxn"
    and w2: "blank w2" and w3: "blank w3"
    and t: "json_text fp maxn maxs t tx" "elem_ok fp maxn maxs t tx cb"
    and w4: "blank w4" and ms: "object_text fp maxn maxs ms rest" "obj_ok fp maxn maxs ms rest cb"
  shows "obj_ok fp maxn maxs ((k, t) # ms)
    (w1 @ ''\"'' @ ktx @ ''\"'' @ w2 @ '':'' @ w3 @ tx @ w4 @ comma_between ms @ rest) cb"
    (is "obj_ok _ _ _ _ ?tx _")
  unfolding obj_ok_def
proof (intro allI impI)
  fix d u rest' and fuel :: nat
  assume wf: "wf_ctx d" and un: "unread d = ?tx @ rest'"
    and len: "nameBufferLength d = maxn" "stringBufferLength d = maxs"
    and fuel: "2 * length (unread d) + 3 \<le> fuel"
  then obtain n where n: "fuel = Suc n" by (cases fuel) auto
  obtain b s where b: "tx = b # s" "starts_value b" using json_text_starts [OF t(1)] by blast
  note nb = starts_value_not [OF b(2)]
  let ?cb = "lift_callbacks cb"
  let ?tail = "tx @ w4 @ comma_between ms @ rest @ rest'"
  let ?d1 = "advance (length w1) d"
  let ?d2 = "advance (length ktx + 2) ?d1"
  let ?d3 = "advance (length w2) ?d2"
  let ?d4 = "advance (length w3) (advance 1 ?d3)"
  let ?d5 = "advance (length tx) ?d4"
  let ?evs = "concat (map (\<lambda>(k, t). events (Some (c_string k)) t) ms) @ [EvEnd]"
  have u1: "unread ?d1 = CHR 0x22 # ktx @ CHR 0x22 # (w2 @ CHR '':'' # w3 @ ?tail)"
    using un by simp
  have u2: "unread ?d2 = w2 @ CHR '':'' # w3 @ ?tail" using un by simp
  have u3: "unread ?d3 = CHR '':'' # w3 @ ?tail" using un by simp
  have u4: "unread ?d4 = ?tail"
    by (simp only: unread_advance [of "length w3"] unread_advance [of 1] u3) simp
  have u5: "unread ?d5 = w4 @ comma_between ms @ rest @ rest'"
    by (simp only: unread_advance [of "length tx"] u4) simp
  have sk1: "skip_whitespace d = ?d1"
    by (rule skip_whitespace_unread [where b = "CHR 0x22"]) (use un w1 in \<open>simp_all add: isspace_def\<close>)
  have at1: "\<not> at_end ?d1" "current ?d1 = Inr CHR 0x22"
    using u1 wf by (simp_all add: at_end_unread current_unread del: unread_advance)
  have str: "decodeString ?d1 (nameBufferLength ?d1) = Inr (SentryCrashJSON_OK, k, ?d2)"
    by (rule decodeString_text [OF _ u1 k(1)]) (use wf len k in simp_all)
  have sk2: "skip_whitespace ?d2 = ?d3"
    by (rule skip_whitespace_unread [OF u2 w2]) (simp add: isspace_def)
  have at3: "\<not> at_end ?d3" "current ?d3 = Inr CHR '':''"
    using u3 wf by (simp_all add: at_end_unread current_unread del: unread_advance)
  have "unread (advance 1 ?d3) = w3 @ b # (s @ w4 @ comma_between ms @ rest @ rest')"
    by (simp only: unread_advance [of 1] u3) (simp add: b)
  then have sk3: "skip_whitespace (advance 1 ?d3) = ?d4"
    by (rule skip_whitespace_unread [OF _ w3 nb(1)])
  have el: "decodes ?d5 (run_events cb (events (Some (c_string k)) t) u)
      (decodeElement n fp ?cb (Some (c_string k)) (?d4, u))"
    by (rule elem_okD [OF t(2) _ u4])
       (use wf object_text_no_fp [OF ms(1) w4] len fuel n un in simp_all)
  let ?after = "\<lambda>(result, (d, u)). if result \<noteq> SentryCrashJSON_OK then Inr (result, (d, u))
      else let d = skip_whitespace d
        in if at_end d then Inr (SentryCrashJSON_ERROR_INCOMPLETE, (d, u))
           else bind_run (current d) (\<lambda>ch.
             decode_object n fp ?cb (if ch = CHR '','' then advance 1 d else d, u))"
  have "decodes (advance (length w4 + length (comma_between ms) + length rest) ?d5)
      (run_events cb ?evs u') (?after (0, (?d5, u')))" for u'
    using object_continue [OF ms(2) _ u5 w4, of n u'] object_text_follows [OF ms(1)]
      wf len fuel n un by (simp add: json_codes)
  then have "decodes (advance (length w4 + length (comma_between ms) + length rest) ?d5)
      (case run_events cb (events (Some (c_string k)) t) u of Inl e \<Rightarrow> Inl e
       | Inr (r, u) \<Rightarrow> if r \<noteq> 0 then Inr (r, u) else run_events cb ?evs u)
      (bind_run (decodeElement n fp ?cb (Some (c_string k)) (?d4, u)) ?after)"
    by (intro decodes_bind [OF el]) (auto simp: json_codes)
  moreover have "decode_object fuel fp ?cb (d, u) =
      bind_run (decodeElement n fp ?cb (Some (c_string k)) (?d4, u)) ?after"
    using at1 at3 str by (simp only: n decode_object.simps sk1 Let_def split_def fst_conv snd_conv
      if_False bind_run_simps sk2 sk3 json_codes) simp
  ultimately show "decodes (advance (length ?tx) d)
      (run_events cb (concat (map (\<lambda>(k, t). events (Some (c_string k)) t) ((k, t) # ms)) @ [EvEnd]) u)
      (decode_object fuel fp ?cb (d, u))"
    by (simp only: list.map concat.simps append_assoc run_events_append prod.case) (simp add: add.assoc)
qed

lemma grammar_ok:
  "json_text fp maxn maxs t tx \<Longrightarrow> elem_ok fp maxn maxs t tx cb"
  "array_text fp maxn maxs ts atx \<Longrightarrow> arr_ok fp maxn maxs ts atx cb"
  "object_text fp maxn maxs ms otx \<Longrightarrow> obj_ok fp maxn maxs ms otx cb"
  by (induction rule: json_text_array_text_object_text.inducts)
     (blast intro: elem_null elem_true elem_false elem_number elem_string elem_array elem_object
       arr_Nil arr_Cons obj_Nil obj_Cons)+

section \<open>The entry point\<close>

text \<open>
  \<open>sentrycrashjson_decode\<close> on the text of a container, with the memory after the data left
  unspecified: the callbacks of the value, then \<open>onEndData\<close>.
\<close>

theorem decode_container_text:
  assumes "json_text fp (n div 4) (n - n div 4) t tx" "\<not> is_number t"
  shows "sentrycrashjson_decode fp (tx @ beyond) (length tx) n cb u off =
    bind_run (steps [run_events cb (events None t), onEndData cb] u)
      (\<lambda>(r, u). Inr (r, u, if r = 0 then off else 0))"
proof -
  let ?d = "\<lparr>buffer = tx @ beyond, bufferPtr = 0, bufferEnd = length tx,
    nameBufferLength = n div 4, stringBufferLength = n - n div 4\<rparr>"
  have el: "decodes (advance (length tx) ?d) (run_events cb (events None t) u)
      (decodeElement (2 * length tx + 2) fp (lift_callbacks cb) None (?d, u))"
    by (rule elem_okD [OF grammar_ok(1) [OF assms(1)], where rest = "[]"])
       (use assms(2) in \<open>simp_all add: wf_ctx_def unread_def\<close>)
  show ?thesis
  proof (cases "run_events cb (events None t) u")
    case (Inl e)
    with el show ?thesis
      by (simp add: sentrycrashjson_decode_def decodes_def Let_def del: decodeElement.simps)
  next
    case (Inr p)
    obtain r u' where p: "p = (r, u')" by fastforce
    with Inr el obtain d' where "decodeElement (2 * length tx + 2) fp (lift_callbacks cb) None (?d, u)
        = Inr (r, (d', u'))"
      by (auto simp: decodes_def split: if_splits)
    with Inr p show ?thesis
      by (auto simp: sentrycrashjson_decode_def Let_def json_codes bind_run_def
        simp del: decodeElement.simps split: sum.splits)
  qed
qed

end
