(* ===== verification/Json_Roundtrip.thy ===== *)
theory Json_Roundtrip
  imports Json_Sink Json_Decode_Spec
begin

text \<open>
  Encoder and decoder together. The elements of a value are written by one encoder call per event;
  the text that reaches the sink is given by a reference renderer, and it is a text of the
  grammar, so decoding it calls back for the value again.
\<close>

section \<open>Writing events\<close>

fun encode_event :: "'d fp_ops \<Rightarrow> 'd event \<Rightarrow> 'u enc" where
  "encode_event fp (EvNull n) = sentrycrashjson_addNullElement n"
| "encode_event fp (EvBool n b) = sentrycrashjson_addBooleanElement n b"
| "encode_event fp (EvInt n w) = sentrycrashjson_addIntegerElement n w"
| "encode_event fp (EvUInt n w) = sentrycrashjson_addUIntegerElement n w"
| "encode_event fp (EvFloat n x) = sentrycrashjson_addFloatingPointElement fp n x"
| "encode_event fp (EvString n s) = sentrycrashjson_addStringElement n (Some s) (int (strlen s))"
| "encode_event fp (EvBeginArray n) = sentrycrashjson_beginArray n"
| "encode_event fp (EvBeginObject n) = sentrycrashjson_beginObject n"
| "encode_event fp EvEnd = sentrycrashjson_endContainer"

definition float_text :: "'d fp_ops \<Rightarrow> 'd \<Rightarrow> bytes" where
  "float_text fp x = (if fp_isnan fp x then ''null'' else c_string (snprintf 50 (fp_print fp x)))"

fun event_text :: "'d fp_ops \<Rightarrow> shape \<Rightarrow> 'd event \<Rightarrow> bytes" where
  "event_text fp sh (EvNull n) = begin_text sh n @ ''null''"
| "event_text fp sh (EvBool n b) = begin_text sh n @ (if b then ''true'' else ''false'')"
| "event_text fp sh (EvInt n w) = begin_text sh n @ show_int (sint w)"
| "event_text fp sh (EvUInt n w) = begin_text sh n @ show_nat (unat w)"
| "event_text fp sh (EvFloat n x) = begin_text sh n @ float_text fp x"
| "event_text fp sh (EvString n s) = begin_text sh n @ quoted s"
| "event_text fp sh (EvBeginArray n) = begin_text sh n @ ''[''"
| "event_text fp sh (EvBeginObject n) = begin_text sh n @ ''{''"
| "event_text fp sh EvEnd = end_text sh"

fun event_shape :: "'d event \<Rightarrow> shape \<Rightarrow> shape" where
  "event_shape (EvBeginArray n) sh = push_container False sh"
| "event_shape (EvBeginObject n) sh = push_container True sh"
| "event_shape EvEnd sh = pop_container sh"
| "event_shape _ sh = after_element sh"

fun event_name :: "'d event \<Rightarrow> bytes option" where
  "event_name (EvNull n) = n"
| "event_name (EvBool n b) = n"
| "event_name (EvInt n w) = n"
| "event_name (EvUInt n w) = n"
| "event_name (EvFloat n x) = n"
| "event_name (EvString n s) = n"
| "event_name (EvBeginArray n) = n"
| "event_name (EvBeginObject n) = n"
| "event_name EvEnd = None"

fun event_fits :: "shape \<Rightarrow> 'd event \<Rightarrow> bool" where
  "event_fits sh (EvString n s) \<longleftrightarrow> name_fits sh n \<and> escapable_string s \<and> no_nul s"
| "event_fits sh (EvBeginArray n) \<longleftrightarrow> name_fits sh n \<and> length (sh_stack sh) < 200"
| "event_fits sh (EvBeginObject n) \<longleftrightarrow> name_fits sh n \<and> length (sh_stack sh) < 200"
| "event_fits sh EvEnd \<longleftrightarrow> 1 < length (sh_stack sh)"
| "event_fits sh ev \<longleftrightarrow> name_fits sh (event_name ev)"

fun events_text :: "'d fp_ops \<Rightarrow> shape \<Rightarrow> 'd event list \<Rightarrow> bytes" where
  "events_text fp sh [] = []"
| "events_text fp sh (ev # evs) = event_text fp sh ev @ events_text fp (event_shape ev sh) evs"

fun events_shape :: "'d event list \<Rightarrow> shape \<Rightarrow> shape" where
  "events_shape [] sh = sh"
| "events_shape (ev # evs) sh = events_shape evs (event_shape ev sh)"

fun events_fit :: "shape \<Rightarrow> 'd event list \<Rightarrow> bool" where
  "events_fit sh [] \<longleftrightarrow> True"
| "events_fit sh (ev # evs) \<longleftrightarrow> event_fits sh ev \<and> events_fit (event_shape ev sh) evs"

lemma events_text_append:
  "events_text fp sh (evs @ evs') = events_text fp sh evs @ events_text fp (events_shape evs sh) evs'"
  by (induction evs arbitrary: sh) simp_all

lemma events_shape_append: "events_shape (evs @ evs') sh = events_shape evs' (events_shape evs sh)"
  by (induction evs arbitrary: sh) simp_all

lemma events_fit_append:
  "events_fit sh (evs @ evs') \<longleftrightarrow> events_fit sh evs \<and> events_fit (events_shape evs sh) evs'"
  by (induction evs arbitrary: sh) simp_all

context json_sink
begin

lemma emits_event:
  assumes "event_fits sh ev"
  shows "em (encode_event fp ev) sh (event_text fp sh ev) (event_shape ev sh)"
proof (cases ev)
  case (EvFloat n x)
  then show ?thesis using assms emits_floating [of sh n fp x] by (simp add: float_text_def)
next
  case (EvString n s)
  then show ?thesis using assms emits_string [of sh n s] by simp
next
  case (EvBool n b)
  then show ?thesis using assms emits_boolean [of sh n b] by simp
qed (use assms in \<open>auto intro: emits_null emits_integer emits_uinteger emits_begin_container
      emits_endContainer simp: sentrycrashjson_beginArray_def sentrycrashjson_beginObject_def\<close>)

lemma emits_events:
  "events_fit sh evs \<Longrightarrow>
   em (steps (map (encode_event fp) evs)) sh (events_text fp sh evs) (events_shape evs sh)"
proof (induction evs arbitrary: sh)
  case Nil
  show ?case by (simp add: emits_Nil del: steps.simps)
next
  case (Cons ev evs)
  then have "em (steps (encode_event fp ev # map (encode_event fp) evs)) sh
      (event_text fp sh ev @ events_text fp (event_shape ev sh) evs) (events_shape evs (event_shape ev sh))"
    by (intro emits_Cons [OF emits_event Cons.IH]) simp_all
  then show ?case by (simp del: steps.simps)
qed

end

section \<open>The reference renderer\<close>

text \<open>The text of a value at a level of nesting, compact or pretty.\<close>

definition item_lead :: "bool \<Rightarrow> nat \<Rightarrow> bool \<Rightarrow> bytes" where
  "item_lead pretty level first =
     (if first then [] else '','') @ (if pretty \<and> 0 < level then indent_text level else [])"

definition closing_lead :: "bool \<Rightarrow> nat \<Rightarrow> 'a list \<Rightarrow> bytes" where
  "closing_lead pretty level items = (if pretty \<and> items \<noteq> [] then indent_text level else [])"

definition colon :: "bool \<Rightarrow> bytes" where
  "colon pretty = (if pretty then '': '' else '':'')"

fun render :: "'d fp_ops \<Rightarrow> bool \<Rightarrow> nat \<Rightarrow> 'd json \<Rightarrow> bytes"
  and render_items :: "'d fp_ops \<Rightarrow> bool \<Rightarrow> nat \<Rightarrow> bool \<Rightarrow> 'd json list \<Rightarrow> bytes"
  and render_members :: "'d fp_ops \<Rightarrow> bool \<Rightarrow> nat \<Rightarrow> bool \<Rightarrow> (bytes \<times> 'd json) list \<Rightarrow> bytes"
where
  "render fp p l JNull = ''null''"
| "render fp p l (JBool b) = (if b then ''true'' else ''false'')"
| "render fp p l (JInt w) = show_int (sint w)"
| "render fp p l (JUInt w) = show_nat (unat w)"
| "render fp p l (JFloat x) = float_text fp x"
| "render fp p l (JString s) = quoted (c_string s)"
| "render fp p l (JArray ts) =
     ''['' @ render_items fp p (Suc l) True ts @ closing_lead p l ts @ '']''"
| "render fp p l (JObject ms) =
     ''{'' @ render_members fp p (Suc l) True ms @ closing_lead p l ms @ ''}''"
| "render_items fp p l first [] = []"
| "render_items fp p l first (t # ts) =
     item_lead p l first @ render fp p l t @ render_items fp p l False ts"
| "render_members fp p l first [] = []"
| "render_members fp p l first ((k, t) # ms) =
     item_lead p l first @ quoted (c_string k) @ colon p @ render fp p l t @
     render_members fp p l False ms"

lemma begin_text_array:
  "\<not> hd (sh_stack sh) \<Longrightarrow> begin_text sh n =
    item_lead (sh_pretty sh) (length (sh_stack sh) - 1) (sh_first sh)"
  by (auto simp: begin_text_def item_lead_def name_text_def)

lemma begin_text_object:
  "hd (sh_stack sh) \<Longrightarrow> begin_text sh (Some k) =
    item_lead (sh_pretty sh) (length (sh_stack sh) - 1) (sh_first sh) @
    quoted (c_string k) @ colon (sh_pretty sh)"
  by (auto simp: begin_text_def item_lead_def name_text_def colon_def)

lemma pop_push: "pop_container ((push_container b sh)\<lparr>sh_first := f\<rparr>) = after_element sh"
  by (simp add: pop_container_def push_container_def)

lemma events_shape_concat:
  assumes "\<And>x sh. x \<in> set xs \<Longrightarrow> events_shape (g x) sh = after_element sh"
  shows "events_shape (concat (map g xs)) sh = sh\<lparr>sh_first := sh_first sh \<and> xs = []\<rparr>"
  using assms
proof (induction xs arbitrary: sh)
  case (Cons x xs)
  then show ?case by (simp add: events_shape_append)
qed simp

lemma events_shape_value: "events_shape (events n t) sh = after_element sh"
proof (induction n t arbitrary: sh rule: events.induct)
  case (7 n ts)
  then show ?case by (simp add: events_shape_append events_shape_concat pop_push)
next
  case (8 n ms)
  then have "events_shape (concat (map (\<lambda>(k, t). events (Some (c_string k)) t) ms)) sh' =
      sh'\<lparr>sh_first := sh_first sh' \<and> ms = []\<rparr>" for sh'
    by (intro events_shape_concat) (auto split: prod.splits)
  then show ?case by (simp add: events_shape_append pop_push)
qed simp_all

lemma end_text_after:
  "end_text ((push_container b sh)\<lparr>sh_first := items = []\<rparr>) =
    closing_lead (sh_pretty sh) (length (sh_stack sh) - 1) items @ (if b then ''}'' else '']'')"
  by (auto simp: end_text_def closing_lead_def)

lemma events_render:
  fixes t :: "'d json"
  shows "sh_pretty sh = p \<Longrightarrow> length (sh_stack sh) = Suc l \<Longrightarrow>
    events_text fp sh (events n t) = begin_text sh n @ render fp p l t"
   and "sh_pretty sh = p \<Longrightarrow> length (sh_stack sh) = Suc l \<Longrightarrow> \<not> hd (sh_stack sh) \<Longrightarrow>
    sh_first sh = first \<Longrightarrow>
    events_text fp sh (concat (map (events None) ts)) = render_items fp p l first ts"
   and "sh_pretty sh = p \<Longrightarrow> length (sh_stack sh) = Suc l \<Longrightarrow> hd (sh_stack sh) \<Longrightarrow>
    sh_first sh = first \<Longrightarrow>
    events_text fp sh (concat (map (\<lambda>(k, t). events (Some (c_string k)) t) ms)) =
      render_members fp p l first ms"
proof (induction fp p l t and fp p l first ts and fp p l first ms arbitrary: n sh and sh and sh
    rule: render_render_items_render_members.induct)
  case (7 fp p l ts)
  have "events_text fp (push_container False sh) (concat (map (events None) ts)) =
      render_items fp p (Suc l) True ts"
    using 7 by simp
  then show ?case
    using 7 by (simp add: events_text_append events_shape_concat events_shape_value end_text_after)
next
  case (8 fp p l ms)
  have "events_text fp (push_container True sh)
      (concat (map (\<lambda>(k, t). events (Some (c_string k)) t) ms)) = render_members fp p (Suc l) True ms"
    using 8 by simp
  moreover have "events_shape (concat (map (\<lambda>(k, t). events (Some (c_string k)) t) ms)) sh' =
      sh'\<lparr>sh_first := sh_first sh' \<and> ms = []\<rparr>" for sh'
    by (rule events_shape_concat) (auto simp: events_shape_value split: prod.splits)
  ultimately show ?case
    using 8 by (simp add: events_text_append end_text_after)
next
  case (10 fp p l first t ts)
  then show ?case
    by (simp add: events_text_append events_shape_value begin_text_array)
next
  case (12 fp p l first k t ms)
  then show ?case
    by (simp add: events_text_append events_shape_value begin_text_object)
qed simp_all

section \<open>What can be written, and what is read back\<close>

text \<open>
  \<open>encodable l t\<close>: below \<open>l\<close> open containers the value \<open>t\<close> goes through the encoder: its strings and
  names have no control characters beyond those with an escape, and it nests within the 200
  levels of the context.
\<close>

fun encodable :: "nat \<Rightarrow> 'd json \<Rightarrow> bool" where
  "encodable l (JString s) \<longleftrightarrow> escapable_string (c_string s)"
| "encodable l (JArray ts) \<longleftrightarrow> Suc l < 200 \<and> list_all (encodable (Suc l)) ts"
| "encodable l (JObject ms) \<longleftrightarrow> Suc l < 200 \<and>
     list_all (\<lambda>(k, t). escapable_string (c_string k) \<and> encodable (Suc l) t) ms"
| "encodable l _ \<longleftrightarrow> True"

lemma events_fit_concat:
  assumes "\<And>x sh. x \<in> set xs \<Longrightarrow> sh_stack sh = st \<Longrightarrow> events_fit sh (g x)"
    and "\<And>x sh. x \<in> set xs \<Longrightarrow> events_shape (g x) sh = after_element sh"
    and "sh_stack sh = st"
  shows "events_fit sh (concat (map g xs))"
  using assms
proof (induction xs arbitrary: sh)
  case (Cons x xs)
  then show ?case by (simp add: events_fit_append)
qed simp

lemma events_fit_value:
  assumes "encodable l t" "length (sh_stack sh) = Suc l" "name_fits sh n"
  shows "events_fit sh (events n t)"
  using assms
proof (induction n t arbitrary: l sh rule: events.induct)
  case (7 n ts)
  have "events_fit (push_container False sh) (concat (map (events None) ts))"
    using 7 by (intro events_fit_concat [where st = "False # sh_stack sh"])
      (auto simp: events_shape_value name_fits_def list_all_iff)
  with 7 show ?case
    by (auto simp: events_fit_append events_shape_concat events_shape_value)
next
  case (8 n ms)
  have "events_fit (push_container True sh) (concat (map (\<lambda>(k, t). events (Some (c_string k)) t) ms))"
  proof (rule events_fit_concat [where st = "True # sh_stack sh"])
    fix x and sh' :: shape
    assume x: "x \<in> set ms" and st: "sh_stack sh' = True # sh_stack sh"
    obtain k t where kt: "x = (k, t)" by fastforce
    with x 8(2) have "escapable_string (c_string k)" "encodable (Suc l) t"
      by (auto simp: list_all_iff)
    with 8(1) [OF x kt [symmetric], of "Suc l" sh'] 8(3) st kt
    show "events_fit sh' (case x of (k, t) \<Rightarrow> events (Some (c_string k)) t)"
      by (simp add: name_fits_def)
  qed (auto simp: events_shape_value split: prod.splits)
  moreover have "events_shape (concat (map (\<lambda>(k, t). events (Some (c_string k)) t) ms)) sh' =
      sh'\<lparr>sh_first := sh_first sh' \<and> ms = []\<rparr>" for sh'
    by (rule events_shape_concat) (auto simp: events_shape_value split: prod.splits)
  ultimately show ?case using 8 by (auto simp: events_fit_append)
qed simp_all

text \<open>
  Reading a written number back: unsigned values that fit come back as signed ones, and a
  floating point number comes back as what its text stands for (an integer, when \<open>%lg\<close> printed
  no fraction and no exponent; \<open>null\<close> for a NaN).
\<close>

definition float_value :: "'d fp_ops \<Rightarrow> 'd \<Rightarrow> 'd json" where
  "float_value fp x =
     (if fp_isnan fp x then JNull
      else let s = c_string (snprintf 50 (fp_print fp x))
        in if hd s = CHR ''-'' then number_value fp True (tl s) else number_value fp False s)"

fun reread :: "'d fp_ops \<Rightarrow> 'd json \<Rightarrow> 'd json" where
  "reread fp (JUInt w) = (if unat w < 2 ^ 63 then JInt w else JUInt w)"
| "reread fp (JFloat x) = float_value fp x"
| "reread fp (JString s) = JString (c_string s)"
| "reread fp (JArray ts) = JArray (map (reread fp) ts)"
| "reread fp (JObject ms) = JObject (map (\<lambda>(k, t). (c_string k, reread fp t)) ms)"
| "reread fp t = t"

text \<open>What is assumed of \<open>%lg\<close>: it prints a number as an optional sign, a digit and characters of numbers.\<close>

definition float_printable :: "'d fp_ops \<Rightarrow> int \<Rightarrow> 'd \<Rightarrow> bool" where
  "float_printable fp maxs x \<longleftrightarrow> fp_isnan fp x \<or>
     (let s = c_string (snprintf 50 (fp_print fp x)); f = (if hd s = CHR ''-'' then tl s else s)
      in s \<noteq> [] \<and> f \<noteq> [] \<and> is_digit (hd f) \<and> list_all isFPChar f \<and> int (length f) < maxs)"

fun fits_buffers :: "'d fp_ops \<Rightarrow> int \<Rightarrow> int \<Rightarrow> 'd json \<Rightarrow> bool" where
  "fits_buffers fp maxn maxs (JFloat x) \<longleftrightarrow> float_printable fp maxs x"
| "fits_buffers fp maxn maxs (JString s) \<longleftrightarrow> int (length (escape_string (c_string s))) < maxs"
| "fits_buffers fp maxn maxs (JArray ts) \<longleftrightarrow> list_all (fits_buffers fp maxn maxs) ts"
| "fits_buffers fp maxn maxs (JObject ms) \<longleftrightarrow>
     list_all (\<lambda>(k, t). int (length (escape_string (c_string k))) < maxn \<and>
       fits_buffers fp maxn maxs t) ms"
| "fits_buffers fp maxn maxs JNull \<longleftrightarrow> True"
| "fits_buffers fp maxn maxs (JBool b) \<longleftrightarrow> True"
| "fits_buffers fp maxn maxs (JInt i) \<longleftrightarrow> True"
| "fits_buffers fp maxn maxs (JUInt w) \<longleftrightarrow> True"

lemma is_digits_hd: "is_digits f \<Longrightarrow> is_digit (hd f)"
  by (cases f) (auto simp: is_digits_def)

lemma is_digits_FP: "is_digits f \<Longrightarrow> list_all isFPChar f"
  by (auto simp: is_digits_def list_all_iff is_digit_FP)

lemma number_text_int: "number_text fp maxs (JInt w) (show_int (sint w))"
proof -
  have lo: "- (2 ^ 63) \<le> sint w" and hi: "sint w < 2 ^ 63"
    using sint_range_size [of w] by (simp_all add: word_size)
  let ?f = "show_nat (nat \<bar>sint w\<bar>)"
  have nv: "number_value fp (sint w < 0) ?f = JInt w"
  proof (cases "sint w < 0")
    case True
    then have a: "nat \<bar>sint w\<bar> = nat (- sint w)" by simp
    have "nat (- sint w) \<le> 2 ^ 63" using lo by simp
    then have "nat (- sint w) < 2 ^ 63 \<or> nat (- sint w) = 2 ^ 63" by linarith
    moreover have "(- of_nat (nat (- sint w)) :: 64 word) = of_int (sint w)"
      using True by (simp add: of_nat_nat)
    ultimately show ?thesis using True unfolding a by (simp add: number_value_def)
  next
    case False
    then have "nat (sint w) < 2 ^ 63" "(of_nat (nat (sint w)) :: 64 word) = of_int (sint w)"
      using hi by (simp_all add: of_nat_nat)
    with False show ?thesis by (simp add: number_value_def)
  qed
  have "show_int (sint w) = sign_text (sint w < 0) @ ?f"
    by (simp add: show_int_def sign_text_def)
  then show ?thesis
    unfolding number_text_def
    by (intro exI [of _ "sint w < 0"] exI [of _ ?f])
       (simp add: nv is_digits_hd is_digits_FP is_float_def)
qed

lemma number_text_uint:
  "number_text fp maxs (if unat w < 2 ^ 63 then JInt w else JUInt w) (show_nat (unat w))"
proof -
  have "unat w < 2 ^ 64" using unsigned_less [of w] by simp
  then have "number_value fp False (show_nat (unat w)) = (if unat w < 2 ^ 63 then JInt w else JUInt w)"
    by (simp add: number_value_def)
  then show ?thesis
    unfolding number_text_def
    by (intro exI [of _ False] exI [of _ "show_nat (unat w)"])
       (simp add: sign_text_def is_digits_hd is_digits_FP is_float_def)
qed

lemma json_text_float:
  assumes "float_printable fp maxs x"
  shows "json_text fp maxn maxs (float_value fp x) (float_text fp x)"
proof (cases "fp_isnan fp x")
  case True
  then show ?thesis by (simp add: float_value_def float_text_def jt_null)
next
  case False
  let ?s = "c_string (snprintf 50 (fp_print fp x))"
  let ?neg = "hd ?s = CHR ''-''"
  let ?f = "if ?neg then tl ?s else ?s"
  from assms False have f: "?s \<noteq> []" "?f \<noteq> []" "is_digit (hd ?f)" "list_all isFPChar ?f"
      "int (length ?f) < maxs"
    unfolding float_printable_def Let_def by blast+
  have v: "float_value fp x = number_value fp ?neg ?f"
    using False by (simp add: float_value_def Let_def)
  have "?s = sign_text ?neg @ ?f" using f(1) by (cases ?s) (simp_all add: sign_text_def)
  then have "number_text fp maxs (float_value fp x) ?s"
    unfolding number_text_def v using f by blast
  then show ?thesis using False by (simp add: float_text_def jt_number)
qed

lemma indent_text_blank [simp]: "blank (indent_text l)"
  by (induction l) (simp_all add: indent_text_def isspace_def)

lemma closing_lead_blank [simp]: "blank (closing_lead p l items)"
  by (simp add: closing_lead_def)

lemma item_lead_False: "item_lead p l False = '','' @ item_lead p l True"
  by (simp add: item_lead_def)

lemma item_lead_True_blank [simp]: "blank (item_lead p l True)"
  by (simp add: item_lead_def)

lemma render_items_False:
  "render_items fp p l False ts = comma_between ts @ render_items fp p l True ts"
  by (cases ts) (simp_all add: item_lead_False comma_between_def)

lemma render_members_False:
  "render_members fp p l False ms = comma_between ms @ render_members fp p l True ms"
proof (cases ms)
  case (Cons m ms')
  then show ?thesis by (cases m) (simp add: item_lead_False comma_between_def)
qed (simp add: comma_between_def)

lemma comma_between_map [simp]: "comma_between (map f xs) = comma_between xs"
  by (simp add: comma_between_def)

lemma render_items_text:
  assumes "\<And>t. t \<in> set ts \<Longrightarrow> json_text fp maxn maxs (reread fp t) (render fp p l t)" "blank w"
  shows "array_text fp maxn maxs (map (reread fp) ts) (render_items fp p l True ts @ w @ '']'')"
  using assms(1)
proof (induction ts)
  case Nil
  then show ?case using at_Nil [OF assms(2)] by simp
next
  case (Cons t ts)
  then have "array_text fp maxn maxs (reread fp t # map (reread fp) ts)
      (item_lead p l True @ render fp p l t @ [] @ comma_between (map (reread fp) ts) @
       (render_items fp p l True ts @ w @ '']''))"
    by (intro at_Cons) simp_all
  then show ?case by (simp add: render_items_False)
qed

lemma render_members_text:
  assumes "\<And>k t. (k, t) \<in> set ms \<Longrightarrow> json_text fp maxn maxs (reread fp t) (render fp p l t) \<and>
      int (length (escape_string (c_string k))) < maxn" "blank w"
  shows "object_text fp maxn maxs (map (\<lambda>(k, t). (c_string k, reread fp t)) ms)
    (render_members fp p l True ms @ w @ ''}'')"
  using assms(1)
proof (induction ms)
  case Nil
  then show ?case using ot_Nil [OF assms(2)] by simp
next
  case (Cons m ms)
  obtain k t where m: "m = (k, t)" by fastforce
  let ?sp = "if p then '' '' else []" and ?rest = "map (\<lambda>(k, t). (c_string k, reread fp t)) ms"
  have "json_text fp maxn maxs (reread fp t) (render fp p l t)"
    "int (length (escape_string (c_string k))) < maxn" using Cons.prems [of k t] m by simp_all
  moreover have "object_text fp maxn maxs ?rest (render_members fp p l True ms @ w @ ''}'')"
    by (rule Cons.IH) (use Cons.prems in auto)
  ultimately have "object_text fp maxn maxs ((c_string k, reread fp t) # ?rest)
      (item_lead p l True @ ''\"'' @ escape_string (c_string k) @ ''\"'' @ [] @ '':'' @ ?sp @
       render fp p l t @ [] @ comma_between ?rest @ (render_members fp p l True ms @ w @ ''}''))"
    by (intro ot_Cons) (simp_all add: escape_string_text isspace_def)
  then show ?case by (simp add: m render_members_False quoted_def colon_def split: if_splits)
qed

text \<open>The rendered text of a value is a text of the grammar, for the value as it is read back.\<close>

lemma render_json_text:
  "fits_buffers fp maxn maxs t \<Longrightarrow> json_text fp maxn maxs (reread fp t) (render fp p l t)"
proof (induction fp maxn maxs t arbitrary: l rule: fits_buffers.induct)
  case (1 fp maxn maxs x)
  then show ?case by (simp add: json_text_float)
next
  case (2 fp maxn maxs s)
  then show ?case using jt_string [OF escape_string_text] by (simp add: quoted_def)
next
  case (3 fp maxn maxs ts)
  then have "array_text fp maxn maxs (map (reread fp) ts)
      (render_items fp p (Suc l) True ts @ closing_lead p l ts @ '']'')"
    by (intro render_items_text closing_lead_blank) (simp add: list_all_iff)
  then show ?case using jt_array by simp
next
  case (4 fp maxn maxs ms)
  then have "object_text fp maxn maxs (map (\<lambda>(k, t). (c_string k, reread fp t)) ms)
      (render_members fp p (Suc l) True ms @ closing_lead p l ms @ ''}'')"
    by (intro render_members_text closing_lead_blank) (fastforce simp: list_all_iff)
  then show ?case using jt_object by simp
next
  case (6 fp maxn maxs b)
  show ?case by (cases b) (simp_all add: jt_true jt_false)
next
  case (7 fp maxn maxs w)
  show ?case by (simp add: jt_number number_text_int)
next
  case (8 fp maxn maxs w)
  show ?case using number_text_uint [of fp maxs w] by (simp add: jt_number)
qed (simp_all add: jt_null)

end
