(* ===== verification/Date_Format.thy ===== *)
theory Date_Format
  imports Prelude
begin

text \<open>
  \<open>Recording/Tools/SentryCrashDate.c\<close>: the UTC text of a time stamp. \<open>gmtime_r\<close> and \<open>snprintf\<close> are
  the C library's; the model has what the code uses of them, the proleptic Gregorian calendar and
  zero-padded decimal fields.
\<close>

section \<open>The C library\<close>

record tm =
  tm_year :: int
  tm_mon :: int
  tm_mday :: int
  tm_hour :: int
  tm_min :: int
  tm_sec :: int

text \<open>The date of a day counted from 1970-01-01, with years that start in March while computing.\<close>

definition civil_from_days :: "int \<Rightarrow> int \<times> int \<times> int" where
  "civil_from_days days =
     (let z = days + 719468;
          era = z div 146097;
          doe = z mod 146097;
          yoe = (doe - doe div 1460 + doe div 36524 - doe div 146096) div 365;
          doy = doe - (365 * yoe + yoe div 4 - yoe div 100);
          mp = (5 * doy + 2) div 153;
          d = doy - (153 * mp + 2) div 5 + 1;
          m = (if mp < 10 then mp + 3 else mp - 9)
      in (yoe + era * 400 + (if m \<le> 2 then 1 else 0), m, d))"

text \<open>\<open>gmtime_r\<close> leaves the result alone when the year does not fit an \<open>int\<close>; the code zeroed it.\<close>

definition gmtime :: "int \<Rightarrow> tm" where
  "gmtime t =
     (let (y, m, d) = civil_from_days (t div 86400); s = t mod 86400
      in if - (2 ^ 31) \<le> y - 1900 \<and> y - 1900 < 2 ^ 31
         then \<lparr>tm_year = y - 1900, tm_mon = m - 1, tm_mday = d,
               tm_hour = s div 3600, tm_min = s mod 3600 div 60, tm_sec = s mod 60\<rparr>
         else \<lparr>tm_year = 0, tm_mon = 0, tm_mday = 0, tm_hour = 0, tm_min = 0, tm_sec = 0\<rparr>)"

definition pad_zero :: "nat \<Rightarrow> int \<Rightarrow> bytes" where
  "pad_zero w i =
     (let ds = show_nat (nat \<bar>i\<bar>); sign = (if i < 0 then ''-'' else [])
      in sign @ replicate (w - length sign - length ds) (CHR ''0'') @ ds)"

section \<open>The time stamp text\<close>

definition sentrycrashdate_utcStringFromTimestamp :: "int \<Rightarrow> bytes" where
  "sentrycrashdate_utcStringFromTimestamp timestamp =
     (let r = gmtime timestamp
      in take 20 (pad_zero 4 (tm_year r + 1900) @ ''-'' @ pad_zero 2 (tm_mon r + 1) @ ''-'' @
           pad_zero 2 (tm_mday r) @ ''T'' @ pad_zero 2 (tm_hour r) @ '':'' @
           pad_zero 2 (tm_min r) @ '':'' @ pad_zero 2 (tm_sec r) @ ''Z''))"

definition date_char :: "byte \<Rightarrow> bool" where
  "date_char b \<longleftrightarrow> is_digit b \<or> b \<in> {CHR ''-'', CHR ''T'', CHR '':'', CHR ''Z''}"

lemma pad_zero_chars: "list_all date_char (pad_zero w i)"
  using show_nat_digits [of "nat \<bar>i\<bar>"]
  by (auto simp: pad_zero_def Let_def list_all_iff date_char_def is_digit_def)

lemma utcString_chars: "list_all date_char (sentrycrashdate_utcStringFromTimestamp t)"
proof -
  have t: "list_all date_char (take n s)" if "list_all date_char s" for n s
    using that by (auto simp: list_all_iff dest: in_set_takeD)
  show ?thesis
    unfolding sentrycrashdate_utcStringFromTimestamp_def Let_def
    by (rule t) (simp add: pad_zero_chars date_char_def)
qed

lemma utcString_length: "length (sentrycrashdate_utcStringFromTimestamp t) \<le> 20"
  by (simp add: sentrycrashdate_utcStringFromTimestamp_def Let_def)

lemma pad_zero_2: "0 \<le> i \<Longrightarrow> i < 100 \<Longrightarrow> length (pad_zero 2 i) = 2"
  using length_show_nat [of 2 "nat i"] by (simp add: pad_zero_def Let_def)

lemma pad_zero_4: "0 \<le> i \<Longrightarrow> i < 10000 \<Longrightarrow> length (pad_zero 4 i) = 4"
  using length_show_nat [of 4 "nat i"] by (simp add: pad_zero_def Let_def)

end
