(* ===== verification/Report_Fields.thy ===== *)
theory Report_Fields
  imports Json_Encode_Spec
begin

text \<open>
  \<open>Recording/SentryCrashReportFields.h\<close>: the names of the fields of a crash report and the fixed texts
  of some of their values.
\<close>

definition SentryCrashReportType_Minimal :: bytes where "SentryCrashReportType_Minimal = ''minimal''"
definition SentryCrashReportType_Standard :: bytes where "SentryCrashReportType_Standard = ''standard''"
definition SentryCrashReportType_Custom :: bytes where "SentryCrashReportType_Custom = ''custom''"
definition SentryCrashMemType_Block :: bytes where "SentryCrashMemType_Block = ''objc_block''"
definition SentryCrashMemType_Class :: bytes where "SentryCrashMemType_Class = ''objc_class''"
definition SentryCrashMemType_NullPointer :: bytes where "SentryCrashMemType_NullPointer = ''null_pointer''"
definition SentryCrashMemType_Object :: bytes where "SentryCrashMemType_Object = ''objc_object''"
definition SentryCrashMemType_String :: bytes where "SentryCrashMemType_String = ''string''"
definition SentryCrashMemType_Unknown :: bytes where "SentryCrashMemType_Unknown = ''unknown''"
definition SentryCrashExcType_CPPException :: bytes where
  "SentryCrashExcType_CPPException = ''cpp_exception''"
definition SentryCrashExcType_Mach :: bytes where "SentryCrashExcType_Mach = ''mach''"
definition SentryCrashExcType_NSException :: bytes where "SentryCrashExcType_NSException = ''nsexception''"
definition SentryCrashExcType_Signal :: bytes where "SentryCrashExcType_Signal = ''signal''"
definition SentryCrashField_Address :: bytes where "SentryCrashField_Address = ''address''"
definition SentryCrashField_Contents :: bytes where "SentryCrashField_Contents = ''contents''"
definition SentryCrashField_Exception :: bytes where "SentryCrashField_Exception = ''exception''"
definition SentryCrashField_FirstObject :: bytes where "SentryCrashField_FirstObject = ''first_object''"
definition SentryCrashField_Index :: bytes where "SentryCrashField_Index = ''index''"
definition SentryCrashField_Ivars :: bytes where "SentryCrashField_Ivars = ''ivars''"
definition SentryCrashField_Language :: bytes where "SentryCrashField_Language = ''language''"
definition SentryCrashField_Name :: bytes where "SentryCrashField_Name = ''name''"
definition SentryCrashField_UserInfo :: bytes where "SentryCrashField_UserInfo = ''userInfo''"
definition SentryCrashField_ReferencedObject :: bytes where
  "SentryCrashField_ReferencedObject = ''referenced_object''"
definition SentryCrashField_Type :: bytes where "SentryCrashField_Type = ''type''"
definition SentryCrashField_UUID :: bytes where "SentryCrashField_UUID = ''uuid''"
definition SentryCrashField_Value :: bytes where "SentryCrashField_Value = ''value''"
definition SentryCrashField_Error :: bytes where "SentryCrashField_Error = ''error''"
definition SentryCrashField_JSONData :: bytes where "SentryCrashField_JSONData = ''json_data''"
definition SentryCrashField_Class :: bytes where "SentryCrashField_Class = ''class''"
definition SentryCrashField_LastDeallocObject :: bytes where
  "SentryCrashField_LastDeallocObject = ''last_deallocated_obj''"
definition SentryCrashField_InstructionAddr :: bytes where
  "SentryCrashField_InstructionAddr = ''instruction_addr''"
definition SentryCrashField_LineOfCode :: bytes where "SentryCrashField_LineOfCode = ''line_of_code''"
definition SentryCrashField_ObjectAddr :: bytes where "SentryCrashField_ObjectAddr = ''object_addr''"
definition SentryCrashField_ObjectName :: bytes where "SentryCrashField_ObjectName = ''object_name''"
definition SentryCrashField_SymbolAddr :: bytes where "SentryCrashField_SymbolAddr = ''symbol_addr''"
definition SentryCrashField_SymbolName :: bytes where "SentryCrashField_SymbolName = ''symbol_name''"
definition SentryCrashField_DumpEnd :: bytes where "SentryCrashField_DumpEnd = ''dump_end''"
definition SentryCrashField_DumpStart :: bytes where "SentryCrashField_DumpStart = ''dump_start''"
definition SentryCrashField_GrowDirection :: bytes where
  "SentryCrashField_GrowDirection = ''grow_direction''"
definition SentryCrashField_Overflow :: bytes where "SentryCrashField_Overflow = ''overflow''"
definition SentryCrashField_StackPtr :: bytes where "SentryCrashField_StackPtr = ''stack_pointer''"
definition SentryCrashField_Backtrace :: bytes where "SentryCrashField_Backtrace = ''backtrace''"
definition SentryCrashField_Basic :: bytes where "SentryCrashField_Basic = ''basic''"
definition SentryCrashField_Crashed :: bytes where "SentryCrashField_Crashed = ''crashed''"
definition SentryCrashField_CurrentThread :: bytes where
  "SentryCrashField_CurrentThread = ''current_thread''"
definition SentryCrashField_DispatchQueue :: bytes where
  "SentryCrashField_DispatchQueue = ''dispatch_queue''"
definition SentryCrashField_NotableAddresses :: bytes where
  "SentryCrashField_NotableAddresses = ''notable_addresses''"
definition SentryCrashField_Registers :: bytes where "SentryCrashField_Registers = ''registers''"
definition SentryCrashField_Skipped :: bytes where "SentryCrashField_Skipped = ''skipped''"
definition SentryCrashField_Stack :: bytes where "SentryCrashField_Stack = ''stack''"
definition SentryCrashField_CPUSubType :: bytes where "SentryCrashField_CPUSubType = ''cpu_subtype''"
definition SentryCrashField_CPUType :: bytes where "SentryCrashField_CPUType = ''cpu_type''"
definition SentryCrashField_ImageAddress :: bytes where "SentryCrashField_ImageAddress = ''image_addr''"
definition SentryCrashField_ImageVmAddress :: bytes where
  "SentryCrashField_ImageVmAddress = ''image_vmaddr''"
definition SentryCrashField_ImageSize :: bytes where "SentryCrashField_ImageSize = ''image_size''"
definition SentryCrashField_ImageMajorVersion :: bytes where
  "SentryCrashField_ImageMajorVersion = ''major_version''"
definition SentryCrashField_ImageMinorVersion :: bytes where
  "SentryCrashField_ImageMinorVersion = ''minor_version''"
definition SentryCrashField_ImageRevisionVersion :: bytes where
  "SentryCrashField_ImageRevisionVersion = ''revision_version''"
definition SentryCrashField_ImageCrashInfoMessage :: bytes where
  "SentryCrashField_ImageCrashInfoMessage = ''crash_info_message''"
definition SentryCrashField_ImageCrashInfoMessage2 :: bytes where
  "SentryCrashField_ImageCrashInfoMessage2 = ''crash_info_message2''"
definition SentryCrashField_Free :: bytes where "SentryCrashField_Free = ''free''"
definition SentryCrashField_Usable :: bytes where "SentryCrashField_Usable = ''usable''"
definition SentryCrashField_Code :: bytes where "SentryCrashField_Code = ''code''"
definition SentryCrashField_CodeName :: bytes where "SentryCrashField_CodeName = ''code_name''"
definition SentryCrashField_CPPException :: bytes where "SentryCrashField_CPPException = ''cpp_exception''"
definition SentryCrashField_ExceptionName :: bytes where
  "SentryCrashField_ExceptionName = ''exception_name''"
definition SentryCrashField_Mach :: bytes where "SentryCrashField_Mach = ''mach''"
definition SentryCrashField_NSException :: bytes where "SentryCrashField_NSException = ''nsexception''"
definition SentryCrashField_Reason :: bytes where "SentryCrashField_Reason = ''reason''"
definition SentryCrashField_Signal :: bytes where "SentryCrashField_Signal = ''signal''"
definition SentryCrashField_Subcode :: bytes where "SentryCrashField_Subcode = ''subcode''"
definition SentryCrashField_LastDeallocedNSException :: bytes where
  "SentryCrashField_LastDeallocedNSException = ''last_dealloced_nsexception''"
definition SentryCrashField_ProcessState :: bytes where "SentryCrashField_ProcessState = ''process''"
definition SentryCrashField_ActiveTimeSinceCrash :: bytes where
  "SentryCrashField_ActiveTimeSinceCrash = ''active_time_since_last_crash''"
definition SentryCrashField_ActiveTimeSinceLaunch :: bytes where
  "SentryCrashField_ActiveTimeSinceLaunch = ''active_time_since_launch''"
definition SentryCrashField_AppActive :: bytes where "SentryCrashField_AppActive = ''application_active''"
definition SentryCrashField_AppInFG :: bytes where "SentryCrashField_AppInFG = ''application_in_foreground''"
definition SentryCrashField_BGTimeSinceCrash :: bytes where
  "SentryCrashField_BGTimeSinceCrash = ''background_time_since_last_crash''"
definition SentryCrashField_BGTimeSinceLaunch :: bytes where
  "SentryCrashField_BGTimeSinceLaunch = ''background_time_since_launch''"
definition SentryCrashField_LaunchesSinceCrash :: bytes where
  "SentryCrashField_LaunchesSinceCrash = ''launches_since_last_crash''"
definition SentryCrashField_SessionsSinceCrash :: bytes where
  "SentryCrashField_SessionsSinceCrash = ''sessions_since_last_crash''"
definition SentryCrashField_SessionsSinceLaunch :: bytes where
  "SentryCrashField_SessionsSinceLaunch = ''sessions_since_launch''"
definition SentryCrashField_Crash :: bytes where "SentryCrashField_Crash = ''crash''"
definition SentryCrashField_Debug :: bytes where "SentryCrashField_Debug = ''debug''"
definition SentryCrashField_Diagnosis :: bytes where "SentryCrashField_Diagnosis = ''diagnosis''"
definition SentryCrashField_ID :: bytes where "SentryCrashField_ID = ''id''"
definition SentryCrashField_ProcessName :: bytes where "SentryCrashField_ProcessName = ''process_name''"
definition SentryCrashField_Report :: bytes where "SentryCrashField_Report = ''report''"
definition SentryCrashField_Timestamp :: bytes where "SentryCrashField_Timestamp = ''timestamp''"
definition SentryCrashField_Version :: bytes where "SentryCrashField_Version = ''version''"
definition SentryCrashField_CrashedThread :: bytes where
  "SentryCrashField_CrashedThread = ''crashed_thread''"
definition SentryCrashField_AppStats :: bytes where "SentryCrashField_AppStats = ''application_stats''"
definition SentryCrashField_BinaryImages :: bytes where "SentryCrashField_BinaryImages = ''binary_images''"
definition SentryCrashField_System :: bytes where "SentryCrashField_System = ''system''"
definition SentryCrashField_Memory :: bytes where "SentryCrashField_Memory = ''memory''"
definition SentryCrashField_Threads :: bytes where "SentryCrashField_Threads = ''threads''"
definition SentryCrashField_User :: bytes where "SentryCrashField_User = ''user''"
definition SentryCrashField_ConsoleLog :: bytes where "SentryCrashField_ConsoleLog = ''console_log''"
definition SentryCrashField_Scope :: bytes where "SentryCrashField_Scope = ''sentry_sdk_scope''"
definition SentryCrashField_Incomplete :: bytes where "SentryCrashField_Incomplete = ''incomplete''"
definition SentryCrashField_RecrashReport :: bytes where
  "SentryCrashField_RecrashReport = ''recrash_report''"
definition SentryCrashField_AppStartTime :: bytes where "SentryCrashField_AppStartTime = ''app_start_time''"
definition SentryCrashField_AppUUID :: bytes where "SentryCrashField_AppUUID = ''app_uuid''"
definition SentryCrashField_BundleID :: bytes where "SentryCrashField_BundleID = ''CFBundleIdentifier''"
definition SentryCrashField_BundleName :: bytes where "SentryCrashField_BundleName = ''CFBundleName''"
definition SentryCrashField_BundleShortVersion :: bytes where
  "SentryCrashField_BundleShortVersion = ''CFBundleShortVersionString''"
definition SentryCrashField_BundleVersion :: bytes where
  "SentryCrashField_BundleVersion = ''CFBundleVersion''"
definition SentryCrashField_CPUArch :: bytes where "SentryCrashField_CPUArch = ''cpu_arch''"
definition SentryCrashField_BinaryCPUType :: bytes where
  "SentryCrashField_BinaryCPUType = ''binary_cpu_type''"
definition SentryCrashField_BinaryCPUSubType :: bytes where
  "SentryCrashField_BinaryCPUSubType = ''binary_cpu_subtype''"
definition SentryCrashField_DeviceAppHash :: bytes where
  "SentryCrashField_DeviceAppHash = ''device_app_hash''"
definition SentryCrashField_Executable :: bytes where "SentryCrashField_Executable = ''CFBundleExecutable''"
definition SentryCrashField_ExecutablePath :: bytes where
  "SentryCrashField_ExecutablePath = ''CFBundleExecutablePath''"
definition SentryCrashField_Jailbroken :: bytes where "SentryCrashField_Jailbroken = ''jailbroken''"
definition SentryCrashField_KernelVersion :: bytes where
  "SentryCrashField_KernelVersion = ''kernel_version''"
definition SentryCrashField_Machine :: bytes where "SentryCrashField_Machine = ''machine''"
definition SentryCrashField_Model :: bytes where "SentryCrashField_Model = ''model''"
definition SentryCrashField_OSVersion :: bytes where "SentryCrashField_OSVersion = ''os_version''"
definition SentryCrashField_ParentProcessID :: bytes where
  "SentryCrashField_ParentProcessID = ''parent_process_id''"
definition SentryCrashField_ProcessID :: bytes where "SentryCrashField_ProcessID = ''process_id''"
definition SentryCrashField_Size :: bytes where "SentryCrashField_Size = ''size''"
definition SentryCrashField_SystemName :: bytes where "SentryCrashField_SystemName = ''system_name''"
definition SentryCrashField_SystemVersion :: bytes where
  "SentryCrashField_SystemVersion = ''system_version''"
definition SentryCrashField_BuildType :: bytes where "SentryCrashField_BuildType = ''build_type''"

lemmas report_fields =
  SentryCrashReportType_Minimal_def SentryCrashReportType_Standard_def SentryCrashReportType_Custom_def
  SentryCrashMemType_Block_def SentryCrashMemType_Class_def SentryCrashMemType_NullPointer_def
  SentryCrashMemType_Object_def SentryCrashMemType_String_def SentryCrashMemType_Unknown_def
  SentryCrashExcType_CPPException_def SentryCrashExcType_Mach_def SentryCrashExcType_NSException_def
  SentryCrashExcType_Signal_def SentryCrashField_Address_def SentryCrashField_Contents_def
  SentryCrashField_Exception_def SentryCrashField_FirstObject_def SentryCrashField_Index_def
  SentryCrashField_Ivars_def SentryCrashField_Language_def SentryCrashField_Name_def
  SentryCrashField_UserInfo_def SentryCrashField_ReferencedObject_def SentryCrashField_Type_def
  SentryCrashField_UUID_def SentryCrashField_Value_def SentryCrashField_Error_def
  SentryCrashField_JSONData_def SentryCrashField_Class_def SentryCrashField_LastDeallocObject_def
  SentryCrashField_InstructionAddr_def SentryCrashField_LineOfCode_def SentryCrashField_ObjectAddr_def
  SentryCrashField_ObjectName_def SentryCrashField_SymbolAddr_def SentryCrashField_SymbolName_def
  SentryCrashField_DumpEnd_def SentryCrashField_DumpStart_def SentryCrashField_GrowDirection_def
  SentryCrashField_Overflow_def SentryCrashField_StackPtr_def SentryCrashField_Backtrace_def
  SentryCrashField_Basic_def SentryCrashField_Crashed_def SentryCrashField_CurrentThread_def
  SentryCrashField_DispatchQueue_def SentryCrashField_NotableAddresses_def SentryCrashField_Registers_def
  SentryCrashField_Skipped_def SentryCrashField_Stack_def SentryCrashField_CPUSubType_def
  SentryCrashField_CPUType_def SentryCrashField_ImageAddress_def SentryCrashField_ImageVmAddress_def
  SentryCrashField_ImageSize_def SentryCrashField_ImageMajorVersion_def
  SentryCrashField_ImageMinorVersion_def SentryCrashField_ImageRevisionVersion_def
  SentryCrashField_ImageCrashInfoMessage_def SentryCrashField_ImageCrashInfoMessage2_def
  SentryCrashField_Free_def SentryCrashField_Usable_def SentryCrashField_Code_def
  SentryCrashField_CodeName_def SentryCrashField_CPPException_def SentryCrashField_ExceptionName_def
  SentryCrashField_Mach_def SentryCrashField_NSException_def SentryCrashField_Reason_def
  SentryCrashField_Signal_def SentryCrashField_Subcode_def SentryCrashField_LastDeallocedNSException_def
  SentryCrashField_ProcessState_def SentryCrashField_ActiveTimeSinceCrash_def
  SentryCrashField_ActiveTimeSinceLaunch_def SentryCrashField_AppActive_def SentryCrashField_AppInFG_def
  SentryCrashField_BGTimeSinceCrash_def SentryCrashField_BGTimeSinceLaunch_def
  SentryCrashField_LaunchesSinceCrash_def SentryCrashField_SessionsSinceCrash_def
  SentryCrashField_SessionsSinceLaunch_def SentryCrashField_Crash_def SentryCrashField_Debug_def
  SentryCrashField_Diagnosis_def SentryCrashField_ID_def SentryCrashField_ProcessName_def
  SentryCrashField_Report_def SentryCrashField_Timestamp_def SentryCrashField_Version_def
  SentryCrashField_CrashedThread_def SentryCrashField_AppStats_def SentryCrashField_BinaryImages_def
  SentryCrashField_System_def SentryCrashField_Memory_def SentryCrashField_Threads_def
  SentryCrashField_User_def SentryCrashField_ConsoleLog_def SentryCrashField_Scope_def
  SentryCrashField_Incomplete_def SentryCrashField_RecrashReport_def SentryCrashField_AppStartTime_def
  SentryCrashField_AppUUID_def SentryCrashField_BundleID_def SentryCrashField_BundleName_def
  SentryCrashField_BundleShortVersion_def SentryCrashField_BundleVersion_def SentryCrashField_CPUArch_def
  SentryCrashField_BinaryCPUType_def SentryCrashField_BinaryCPUSubType_def
  SentryCrashField_DeviceAppHash_def SentryCrashField_Executable_def SentryCrashField_ExecutablePath_def
  SentryCrashField_Jailbroken_def SentryCrashField_KernelVersion_def SentryCrashField_Machine_def
  SentryCrashField_Model_def SentryCrashField_OSVersion_def SentryCrashField_ParentProcessID_def
  SentryCrashField_ProcessID_def SentryCrashField_Size_def SentryCrashField_SystemName_def
  SentryCrashField_SystemVersion_def SentryCrashField_BuildType_def

definition SENTRY_REPORT_VERSION :: bytes where "SENTRY_REPORT_VERSION = ''3.2.0''"

text \<open>Every one of them is a text that the encoder takes for a name as it is.\<close>

definition plain_key :: "bytes \<Rightarrow> bool" where
  "plain_key k \<longleftrightarrow> no_nul k \<and> list_all (\<lambda>b. 32 \<le> byte_val b) k"

lemma plain_key_escapable: "plain_key k \<Longrightarrow> escapable_string (c_string k)"
  by (auto simp: plain_key_def escapable_string_def escapable_def list_all_iff)

lemma plain_key_c_string: "plain_key k \<Longrightarrow> c_string k = k"
  by (simp add: plain_key_def)

lemma report_keys [simp]:
  "plain_key SentryCrashReportType_Minimal"
  "plain_key SentryCrashReportType_Standard"
  "plain_key SentryCrashReportType_Custom"
  "plain_key SentryCrashMemType_Block"
  "plain_key SentryCrashMemType_Class"
  "plain_key SentryCrashMemType_NullPointer"
  "plain_key SentryCrashMemType_Object"
  "plain_key SentryCrashMemType_String"
  "plain_key SentryCrashMemType_Unknown"
  "plain_key SentryCrashExcType_CPPException"
  "plain_key SentryCrashExcType_Mach"
  "plain_key SentryCrashExcType_NSException"
  "plain_key SentryCrashExcType_Signal"
  "plain_key SentryCrashField_Address"
  "plain_key SentryCrashField_Contents"
  "plain_key SentryCrashField_Exception"
  "plain_key SentryCrashField_FirstObject"
  "plain_key SentryCrashField_Index"
  "plain_key SentryCrashField_Ivars"
  "plain_key SentryCrashField_Language"
  "plain_key SentryCrashField_Name"
  "plain_key SentryCrashField_UserInfo"
  "plain_key SentryCrashField_ReferencedObject"
  "plain_key SentryCrashField_Type"
  "plain_key SentryCrashField_UUID"
  "plain_key SentryCrashField_Value"
  "plain_key SentryCrashField_Error"
  "plain_key SentryCrashField_JSONData"
  "plain_key SentryCrashField_Class"
  "plain_key SentryCrashField_LastDeallocObject"
  "plain_key SentryCrashField_InstructionAddr"
  "plain_key SentryCrashField_LineOfCode"
  "plain_key SentryCrashField_ObjectAddr"
  "plain_key SentryCrashField_ObjectName"
  "plain_key SentryCrashField_SymbolAddr"
  "plain_key SentryCrashField_SymbolName"
  "plain_key SentryCrashField_DumpEnd"
  "plain_key SentryCrashField_DumpStart"
  "plain_key SentryCrashField_GrowDirection"
  "plain_key SentryCrashField_Overflow"
  "plain_key SentryCrashField_StackPtr"
  "plain_key SentryCrashField_Backtrace"
  "plain_key SentryCrashField_Basic"
  "plain_key SentryCrashField_Crashed"
  "plain_key SentryCrashField_CurrentThread"
  "plain_key SentryCrashField_DispatchQueue"
  "plain_key SentryCrashField_NotableAddresses"
  "plain_key SentryCrashField_Registers"
  "plain_key SentryCrashField_Skipped"
  "plain_key SentryCrashField_Stack"
  "plain_key SentryCrashField_CPUSubType"
  "plain_key SentryCrashField_CPUType"
  "plain_key SentryCrashField_ImageAddress"
  "plain_key SentryCrashField_ImageVmAddress"
  "plain_key SentryCrashField_ImageSize"
  "plain_key SentryCrashField_ImageMajorVersion"
  "plain_key SentryCrashField_ImageMinorVersion"
  "plain_key SentryCrashField_ImageRevisionVersion"
  "plain_key SentryCrashField_ImageCrashInfoMessage"
  "plain_key SentryCrashField_ImageCrashInfoMessage2"
  "plain_key SentryCrashField_Free"
  "plain_key SentryCrashField_Usable"
  "plain_key SentryCrashField_Code"
  "plain_key SentryCrashField_CodeName"
  "plain_key SentryCrashField_CPPException"
  "plain_key SentryCrashField_ExceptionName"
  "plain_key SentryCrashField_Mach"
  "plain_key SentryCrashField_NSException"
  "plain_key SentryCrashField_Reason"
  "plain_key SentryCrashField_Signal"
  "plain_key SentryCrashField_Subcode"
  "plain_key SentryCrashField_LastDeallocedNSException"
  "plain_key SentryCrashField_ProcessState"
  "plain_key SentryCrashField_ActiveTimeSinceCrash"
  "plain_key SentryCrashField_ActiveTimeSinceLaunch"
  "plain_key SentryCrashField_AppActive"
  "plain_key SentryCrashField_AppInFG"
  "plain_key SentryCrashField_BGTimeSinceCrash"
  "plain_key SentryCrashField_BGTimeSinceLaunch"
  "plain_key SentryCrashField_LaunchesSinceCrash"
  "plain_key SentryCrashField_SessionsSinceCrash"
  "plain_key SentryCrashField_SessionsSinceLaunch"
  "plain_key SentryCrashField_Crash"
  "plain_key SentryCrashField_Debug"
  "plain_key SentryCrashField_Diagnosis"
  "plain_key SentryCrashField_ID"
  "plain_key SentryCrashField_ProcessName"
  "plain_key SentryCrashField_Report"
  "plain_key SentryCrashField_Timestamp"
  "plain_key SentryCrashField_Version"
  "plain_key SentryCrashField_CrashedThread"
  "plain_key SentryCrashField_AppStats"
  "plain_key SentryCrashField_BinaryImages"
  "plain_key SentryCrashField_System"
  "plain_key SentryCrashField_Memory"
  "plain_key SentryCrashField_Threads"
  "plain_key SentryCrashField_User"
  "plain_key SentryCrashField_ConsoleLog"
  "plain_key SentryCrashField_Scope"
  "plain_key SentryCrashField_Incomplete"
  "plain_key SentryCrashField_RecrashReport"
  "plain_key SentryCrashField_AppStartTime"
  "plain_key SentryCrashField_AppUUID"
  "plain_key SentryCrashField_BundleID"
  "plain_key SentryCrashField_BundleName"
  "plain_key SentryCrashField_BundleShortVersion"
  "plain_key SentryCrashField_BundleVersion"
  "plain_key SentryCrashField_CPUArch"
  "plain_key SentryCrashField_BinaryCPUType"
  "plain_key SentryCrashField_BinaryCPUSubType"
  "plain_key SentryCrashField_DeviceAppHash"
  "plain_key SentryCrashField_Executable"
  "plain_key SentryCrashField_ExecutablePath"
  "plain_key SentryCrashField_Jailbroken"
  "plain_key SentryCrashField_KernelVersion"
  "plain_key SentryCrashField_Machine"
  "plain_key SentryCrashField_Model"
  "plain_key SentryCrashField_OSVersion"
  "plain_key SentryCrashField_ParentProcessID"
  "plain_key SentryCrashField_ProcessID"
  "plain_key SentryCrashField_Size"
  "plain_key SentryCrashField_SystemName"
  "plain_key SentryCrashField_SystemVersion"
  "plain_key SentryCrashField_BuildType"
  by (simp_all add: plain_key_def report_fields no_nul_def)

end
