(* ===== verification/Report_Fixer.thy ===== *)
theory Report_Fixer
  imports Json_Roundtrip Date_Format Report_Fields
begin

text \<open>
  \<open>Recording/SentryCrashReportFixer.c\<close>: a crash report is decoded and written again, pretty printed,
  with the integer time stamps of the report (and of a report of a crash while reporting) replaced
  by date texts. The decoder's callbacks drive an encoder whose sink is a bounded buffer.
\<close>

section \<open>The context\<close>

definition MAX_DEPTH :: int where "MAX_DEPTH = 100"
definition MAX_NAME_LENGTH :: nat where "MAX_NAME_LENGTH = 100"

text \<open>
  \<open>datePaths\<close>: each row has \<open>MAX_DEPTH\<close> entries, the ones without an initializer are null pointers.
\<close>

definition date_path :: "bytes list \<Rightarrow> bytes option list" where
  "date_path names = map Some names @ replicate (nat MAX_DEPTH - length names) None"

definition datePaths :: "bytes option list list" where
  "datePaths =
     [date_path [[], SentryCrashField_Report, SentryCrashField_Timestamp],
      date_path [[], SentryCrashField_RecrashReport, SentryCrashField_Report, SentryCrashField_Timestamp]]"

text \<open>
  The output buffer: what was written before \<open>outputPtr\<close>, and how much room is left. The C \<open>int\<close>
  starts at the length of the buffer and every subtraction is guarded, so it stays a natural number.
\<close>

record out_buffer =
  outputText :: bytes
  outputBytesLeft :: nat

record fixup_context =
  encodeContext :: "out_buffer json_encode_context"
  objectPath :: "bytes list"
  currentDepth :: int

definition strncmp_eq :: "bytes \<Rightarrow> bytes \<Rightarrow> bool" where
  "strncmp_eq a b \<longleftrightarrow> take MAX_NAME_LENGTH (c_string a) = take MAX_NAME_LENGTH (c_string b)"

definition increaseDepth :: "fixup_context \<Rightarrow> bytes option \<Rightarrow> bool \<times> fixup_context" where
  "increaseDepth context name =
     (if currentDepth context \<ge> MAX_DEPTH then (False, context)
      else
        let entry = (case name of None \<Rightarrow> [] | Some n \<Rightarrow> take MAX_NAME_LENGTH (c_string n))
        in (True, context\<lparr>objectPath := (objectPath context)[nat (currentDepth context) := entry],
                          currentDepth := currentDepth context + 1\<rparr>))"

definition decreaseDepth :: "fixup_context \<Rightarrow> bool \<times> fixup_context" where
  "decreaseDepth context =
     (if currentDepth context \<le> 0 then (False, context)
      else (True, context\<lparr>currentDepth := currentDepth context - 1\<rparr>))"

text \<open>
  Comparing the enclosing names (the first \<open>currentDepth\<close> entries of \<open>objectPath\<close>) with a row, then
  the final name. \<open>strncmp\<close> of a null pointer, and an entry past the row, are undefined.
\<close>

fun match_names :: "bytes list \<Rightarrow> bytes option list \<Rightarrow> bytes \<Rightarrow> bool run" where
  "match_names [] (Some p # path) finalName = Inr (strncmp_eq finalName p)"
| "match_names (d # ds) (Some p # path) finalName =
     (if strncmp_eq d p then match_names ds path finalName else Inr False)"
| "match_names _ _ finalName = Inl UndefinedBehaviour"

definition matchesPath :: "fixup_context \<Rightarrow> bytes option list \<Rightarrow> bytes option \<Rightarrow> bool run" where
  "matchesPath context path finalName =
     match_names (take (nat (currentDepth context)) (objectPath context)) path
       (case finalName of None \<Rightarrow> [] | Some n \<Rightarrow> n)"

fun matchesAPath :: "fixup_context \<Rightarrow> bytes option \<Rightarrow> bytes option list list \<Rightarrow> bool run" where
  "matchesAPath context name [] = Inr False"
| "matchesAPath context name (path # paths) =
     bind_run (matchesPath context path name)
       (\<lambda>m. if m then Inr True else matchesAPath context name paths)"

definition shouldFixDate :: "fixup_context \<Rightarrow> bytes option \<Rightarrow> bool run" where
  "shouldFixDate context name = matchesAPath context name datePaths"

section \<open>The callbacks\<close>

type_synonym fix_call = "fixup_context call"

definition on_encoder :: "out_buffer enc \<Rightarrow> fix_call" where
  "on_encoder f context =
     bind_run (f (encodeContext context)) (\<lambda>(r, c). Inr (r, context\<lparr>encodeContext := c\<rparr>))"

definition fixer_onIntegerElement :: "bytes option \<Rightarrow> 64 word \<Rightarrow> fix_call" where
  "fixer_onIntegerElement name value context =
     bind_run (shouldFixDate context name) (\<lambda>fixDate.
       if fixDate then
         let buffer = sentrycrashdate_utcStringFromTimestamp (sint value)
         in on_encoder (sentrycrashjson_addStringElement name (Some buffer) (int (strlen buffer))) context
       else on_encoder (sentrycrashjson_addIntegerElement name value) context)"

definition fixer_onStringElement :: "bytes option \<Rightarrow> bytes \<Rightarrow> fix_call" where
  "fixer_onStringElement name value =
     on_encoder (sentrycrashjson_addStringElement name (Some value) (int (strlen value)))"

definition begin_and_descend :: "out_buffer enc \<Rightarrow> bytes option \<Rightarrow> fix_call" where
  "begin_and_descend f name context =
     bind_run (on_encoder f context) (\<lambda>(result, context).
       let (entered, context) = increaseDepth context name
       in if \<not> entered then Inr (SentryCrashJSON_ERROR_DATA_TOO_LONG, context)
          else Inr (result, context))"

definition fixer_onBeginObject :: "bytes option \<Rightarrow> fix_call" where
  "fixer_onBeginObject name = begin_and_descend (sentrycrashjson_beginObject name) name"

definition fixer_onBeginArray :: "bytes option \<Rightarrow> fix_call" where
  "fixer_onBeginArray name = begin_and_descend (sentrycrashjson_beginArray name) name"

definition fixer_onEndContainer :: fix_call where
  "fixer_onEndContainer context =
     bind_run (on_encoder sentrycrashjson_endContainer context) (\<lambda>(result, context).
       Inr (result, snd (decreaseDepth context)))"

definition fixer_onEndData :: fix_call where
  "fixer_onEndData = on_encoder sentrycrashjson_endEncode"

definition fixer_addJSONData :: "bytes \<Rightarrow> out_buffer call" where
  "fixer_addJSONData data out =
     (if length data > outputBytesLeft out then Inr (SentryCrashJSON_ERROR_DATA_TOO_LONG, out)
      else Inr (SentryCrashJSON_OK,
                out\<lparr>outputText := outputText out @ data,
                    outputBytesLeft := outputBytesLeft out - length data\<rparr>))"

definition fixer_callbacks :: "'d fp_ops \<Rightarrow> ('d, fixup_context) decode_callbacks" where
  "fixer_callbacks fp =
     \<lparr>onBooleanElement = (\<lambda>name v. on_encoder (sentrycrashjson_addBooleanElement name v)),
      onFloatingPointElement = (\<lambda>name v. on_encoder (sentrycrashjson_addFloatingPointElement fp name v)),
      onIntegerElement = fixer_onIntegerElement,
      onUIntegerElement = (\<lambda>name v. on_encoder (sentrycrashjson_addUIntegerElement name v)),
      onNullElement = (\<lambda>name. on_encoder (sentrycrashjson_addNullElement name)),
      onStringElement = fixer_onStringElement,
      onBeginObject = fixer_onBeginObject,
      onBeginArray = fixer_onBeginArray,
      onEndContainer = fixer_onEndContainer,
      onEndData = fixer_onEndData\<rparr>"

section \<open>The entry point\<close>

text \<open>
  \<open>alloc n\<close> says whether \<open>malloc\<close> of \<open>n\<close> bytes succeeds. The result is null or the fixed report. The
  terminator goes behind the text whether or not there is room for it.
\<close>

definition SentryCrashMAX_STRINGBUFFERSIZE :: int where
  "SentryCrashMAX_STRINGBUFFERSIZE = 150000"

definition sentrycrashcrf_fixupCrashReport ::
    "'d fp_ops \<Rightarrow> (int \<Rightarrow> bool) \<Rightarrow> bytes option \<Rightarrow> bytes option run" where
  "sentrycrashcrf_fixupCrashReport fp alloc crashReport =
     (case crashReport of
        None \<Rightarrow> Inr None
      | Some report \<Rightarrow>
          if \<not> alloc SentryCrashMAX_STRINGBUFFERSIZE then Inr None
          else
            let crashReportLength = strlen report;
                fixedReportLength = (3 * crashReportLength) div 2
            in if \<not> alloc (int fixedReportLength) then Inr None
               else
                 let out = \<lparr>outputText = [], outputBytesLeft = fixedReportLength\<rparr>;
                     context = \<lparr>encodeContext = sentrycrashjson_beginEncode True fixer_addJSONData out,
                                objectPath = replicate (nat MAX_DEPTH) [], currentDepth = 0\<rparr>
                 in bind_run
                      (sentrycrashjson_decode fp (c_string report @ [NUL]) crashReportLength
                         SentryCrashMAX_STRINGBUFFERSIZE (fixer_callbacks fp) context 0)
                      (\<lambda>(result, context, errorOffset).
                         let out = userData (encodeContext context)
                         in if outputBytesLeft out = 0 then Inl UndefinedBehaviour
                            else if result \<noteq> SentryCrashJSON_OK then Inr None
                            else Inr (Some (outputText out))))"

section \<open>The buffer is a sink\<close>

interpretation fixer_sink: json_sink fixer_addJSONData "\<lambda>_. True" outputText outputBytesLeft
  by unfold_locales (auto simp: fixer_addJSONData_def json_codes split: if_splits)

end
