(* ===== verification/Json_Keeps.thy ===== *)
theory Json_Keeps
  imports Json_Encode_Spec Json_Roundtrip
begin

text \<open>
  The second interface of the encoder: whatever a sink keeps true of its own state, whether it
  takes the data or refuses them, every encoder operation keeps true, whatever its status.
\<close>

section \<open>Composing calls that keep an invariant\<close>

named_theorems keeping

lemma keeps_if [keeping]:
  "keeps P f \<Longrightarrow> keeps P g \<Longrightarrow> keeps P (\<lambda>s. if b s then f s else g s)"
  by (rule keepsI) (metis keepsD)

lemma keeps_option [keeping]:
  "keeps P f \<Longrightarrow> (\<And>x. keeps P (g x)) \<Longrightarrow>
    keeps P (\<lambda>s. case v of None \<Rightarrow> f s | Some x \<Rightarrow> g x s)"
  by (cases v) simp_all

lemma keeps_choice [keeping]: "keeps P f \<Longrightarrow> keeps P g \<Longrightarrow> keeps P (if b then f else g)"
  by simp

lemma keeps_read [keeping]:
  "(\<And>x. keeps P (g x)) \<Longrightarrow> keeps P (\<lambda>s. bind_run (m s) (\<lambda>x. g x s))"
  by (auto simp: keeps_def bind_run_eq_Inr)

lemma keeps_then:
  assumes "keeps P f" "\<And>r. keeps P (g r)"
  shows "keeps P (\<lambda>s. bind_run (f s) (\<lambda>(r, s). g r s))"
proof (rule keepsI)
  fix s r t
  assume "P s" "bind_run (f s) (\<lambda>(r, s). g r s) = Inr (r, t)"
  moreover from this(2) obtain q u where "f s = Inr (q, u)" "g q u = Inr (r, t)"
    by (auto simp: bind_run_eq_Inr)
  ultimately show "P t" using assms by (metis keepsD)
qed

lemma keeps_silent:
  "(\<And>s r t. f s = Inr (r, t) \<Longrightarrow> P s \<Longrightarrow> P t) \<Longrightarrow> keeps P f"
  by (auto simp: keeps_def)

lemma keeps_list [keeping]: "list_all (keeps P) fs \<Longrightarrow> keeps P (steps fs)"
  by (auto simp: list_all_iff)

lemma keeps_cong: "keeps P g \<Longrightarrow> (\<And>s. f s = g s) \<Longrightarrow> keeps P f"
  by (simp add: keeps_def)

section \<open>The interface\<close>

locale sink_invariant =
  fixes sink :: "bytes \<Rightarrow> 'u call"
    and inv :: "'u \<Rightarrow> bool"
  assumes sink_keeps: "inv u \<Longrightarrow> sink data u = Inr (r, u') \<Longrightarrow> inv u'"
begin

definition on_user :: "'u json_encode_context \<Rightarrow> bool" where
  "on_user c \<longleftrightarrow> addJSONData_fn c = sink \<and> inv (userData c)"

abbreviation kp :: "'u enc \<Rightarrow> bool" where
  "kp \<equiv> keeps on_user"

lemma on_user_updates [simp]:
  "on_user (c\<lparr>containerFirstEntry := b\<rparr>) = on_user c"
  "on_user (c\<lparr>containerLevel := l\<rparr>) = on_user c"
  "on_user (c\<lparr>isObject := os\<rparr>) = on_user c"
  by (simp_all add: on_user_def)

lemma kp_addJSONData [keeping]: "kp (addJSONData data)"
  by (rule keepsI) (auto simp: addJSONData_def on_user_def bind_run_eq_Inr intro: sink_keeps)

lemma kp_add_computed [keeping]: "kp (\<lambda>c. addJSONData (d c) c)"
  by (rule keepsI) (metis keepsD kp_addJSONData)

lemma kp_update [keeping]: "(\<And>c. on_user (F c) = on_user c) \<Longrightarrow> kp (\<lambda>c. ok (F c))"
  by (auto intro!: keepsI simp: ok_def)

lemma kp_update_OK [keeping]: "(\<And>c. on_user (F c) = on_user c) \<Longrightarrow> kp (\<lambda>c. Inr (r, F c))"
  by (auto intro!: keepsI)

lemma kp_indent [keeping]: "kp indent"
proof (rule keepsI)
  fix c r c'
  assume "on_user c" "indent c = Inr (r, c')"
  moreover have "kp (steps (addJSONData ''\<newline>'' # replicate n (addJSONData ''    '')))" for n
    by (intro keeping) (auto simp: list_all_iff intro: keeping)
  ultimately show "on_user c'" unfolding indent_def by (rule keepsD [rotated])
qed

lemma kp_appendEscapedString [keeping]: "kp (appendEscapedString s)"
  unfolding appendEscapedString_def
  by (intro keeping) (auto intro!: keeping kp_update_OK split: prod.splits)

lemma kp_addEscapedString [keeping]: "kp (addEscapedString s)"
proof (induction "length s" arbitrary: s rule: less_induct)
  case less
  show ?case
  proof (rule keepsI)
    fix c r c'
    assume c: "on_user c" and run: "addEscapedString s c = Inr (r, c')"
    show "on_user c'"
    proof (cases "s = []")
      case True
      with c run show ?thesis by (simp add: addEscapedString.simps)
    next
      case False
      let ?n = "min (length s) (SentryCrashJSONCODEC_WorkBufferSize div 2)"
      have "kp (addEscapedString (drop ?n s))"
        using False by (intro less) (simp add: SentryCrashJSONCODEC_WorkBufferSize_def)
      then have "kp (\<lambda>c. bind_run (appendEscapedString (take ?n s) c) (\<lambda>(result, c).
          if result \<noteq> SentryCrashJSON_OK then Inr (result, c) else addEscapedString (drop ?n s) c))"
        by (intro keeps_then keeping kp_update_OK) simp_all
      moreover have "bind_run (appendEscapedString (take ?n s) c) (\<lambda>(result, c).
          if result \<noteq> SentryCrashJSON_OK then Inr (result, c) else addEscapedString (drop ?n s) c) =
        Inr (r, c')"
        using run False by (simp add: addEscapedString.simps [of s] Let_def)
      ultimately show ?thesis using c by (metis (lifting) keepsD)
    qed
  qed
qed

lemma kp_addQuotedEscapedString [keeping]: "kp (addQuotedEscapedString s)"
  unfolding addQuotedEscapedString_def
  by (intro keeps_then keeping kp_update_OK) simp_all

lemma kp_beginElement [keeping]: "kp (sentrycrashjson_beginElement name)"
  unfolding sentrycrashjson_beginElement_def
  by (rule keeps_list) (auto intro!: keeping)

lemma kp_element [keeping]: "kp f \<Longrightarrow> kp (steps [sentrycrashjson_beginElement name, f])"
  by (intro keeps_list) (simp add: keeping)

lemma kp_null_element [keeping]: "kp (sentrycrashjson_addNullElement name)"
  unfolding sentrycrashjson_addNullElement_def by (intro keeping)

lemma kp_string [keeping]: "kp (sentrycrashjson_addStringElement name v len)"
  unfolding sentrycrashjson_addStringElement_def
  by (cases v) (auto intro!: keeping simp del: steps.simps)

lemma kp_begin_container [keeping]: "kp (begin_container object bracket name)"
proof -
  have "kp (set_isObject object)" by (auto intro!: keepsI simp: set_isObject_def split: if_splits)
  then show ?thesis
    unfolding begin_container_def by (intro keeps_list) (auto intro!: keeping)
qed

lemma kp_endContainer [keeping]: "kp sentrycrashjson_endContainer"
proof -
  have "kp (\<lambda>c. if containerLevel c \<le> 0 then Inr (SentryCrashJSON_OK, c)
      else bind_run (get_isObject c) (\<lambda>object. steps
         [\<lambda>c. ok (c\<lparr>containerLevel := containerLevel c - 1\<rparr>),
          \<lambda>c. if prettyPrint c \<and> \<not> containerFirstEntry c then indent c else ok c,
          \<lambda>c. ok (c\<lparr>containerFirstEntry := False\<rparr>),
          addJSONData (if object then ''}'' else '']'')] c))"
    by (intro keeping kp_update_OK) (auto intro!: keeping)
  then show ?thesis by (rule keeps_cong) (simp add: sentrycrashjson_endContainer_def)
qed

lemma kp_event [keeping]: "kp (encode_event fp ev)"
  by (cases ev) (auto intro!: keeping simp: sentrycrashjson_addBooleanElement_def
    sentrycrashjson_addIntegerElement_def sentrycrashjson_addUIntegerElement_def
    sentrycrashjson_addFloatingPointElement_def sentrycrashjson_beginArray_def
    sentrycrashjson_beginObject_def simp del: steps.simps)

lemma kp_events: "kp (steps (map (encode_event fp) evs))"
  by (intro keeps_list) (simp add: list_all_iff keeping)

end

end
