(* ===== verification/Report_Fixer_Spec.thy ===== *)
theory Report_Fixer_Spec
  imports Report_Fixer Json_Keeps "HOL-Library.Sublist"
begin

text \<open>
  What fixing a report means for the value it stands for: \<open>fix_json\<close> replaces the integers at the
  date paths by date texts and leaves everything else alone. The fixer's callbacks are shown to
  act like the encoder on the fixed value, so the fixed report is its rendering.
\<close>

section \<open>The fixed value\<close>

text \<open>
  The code compares a row only as far as the name at hand is deep, so every beginning of a row
  counts as a date path: an integer named \<open>report\<close> in the outermost object is taken for a date too.
\<close>

type_synonym path = "bytes list"

definition path_entry :: "bytes option \<Rightarrow> bytes" where
  "path_entry name = (case name of None \<Rightarrow> [] | Some n \<Rightarrow> take MAX_NAME_LENGTH (c_string n))"

definition date_rows :: "path list" where
  "date_rows = [[[], ''report'', ''timestamp''], [[], ''recrash_report'', ''report'', ''timestamp'']]"

definition is_date :: "path \<Rightarrow> bytes option \<Rightarrow> bool" where
  "is_date P name \<longleftrightarrow> list_ex (prefix (P @ [path_entry name])) date_rows"

definition inside_date :: "path \<Rightarrow> bool" where
  "inside_date P \<longleftrightarrow> list_ex (\<lambda>row. prefix row P) date_rows"

fun fix_json :: "path \<Rightarrow> bytes option \<Rightarrow> 'd json \<Rightarrow> 'd json" where
  "fix_json P n (JInt w) =
     (if is_date P n then JString (sentrycrashdate_utcStringFromTimestamp (sint w)) else JInt w)"
| "fix_json P n (JArray ts) = JArray (map (fix_json (P @ [path_entry n]) None) ts)"
| "fix_json P n (JObject ms) =
     JObject (map (\<lambda>(k, t). (k, fix_json (P @ [path_entry n]) (Some (c_string k)) t)) ms)"
| "fix_json P n t = t"

text \<open>
  The reports the fixer handles: no integer is inside a container at a date path, and containers
  nest at most \<open>MAX_DEPTH\<close> deep.
\<close>

fun fixable :: "path \<Rightarrow> bytes option \<Rightarrow> 'd json \<Rightarrow> bool" where
  "fixable P n (JInt w) \<longleftrightarrow> \<not> inside_date P"
| "fixable P n (JArray ts) \<longleftrightarrow> length P < 100 \<and> list_all (fixable (P @ [path_entry n]) None) ts"
| "fixable P n (JObject ms) \<longleftrightarrow> length P < 100 \<and>
     list_all (\<lambda>(k, t). fixable (P @ [path_entry n]) (Some (c_string k)) t) ms"
| "fixable P n t \<longleftrightarrow> True"

section \<open>Recognising a date\<close>

definition clean_path :: "path \<Rightarrow> bool" where
  "clean_path P \<longleftrightarrow> list_all (\<lambda>d. no_nul d \<and> length d \<le> MAX_NAME_LENGTH) P"

lemma no_nul_take: "no_nul s \<Longrightarrow> no_nul (take n s)"
  by (auto simp: no_nul_def dest: in_set_takeD)

lemma clean_path_entry [simp]: "clean_path [path_entry n]"
  by (auto simp: clean_path_def path_entry_def no_nul_take split: option.splits)

lemma clean_path_append [simp]: "clean_path (P @ Q) \<longleftrightarrow> clean_path P \<and> clean_path Q"
  by (simp add: clean_path_def)

lemma strncmp_eq_row:
  "no_nul p \<Longrightarrow> length p \<le> MAX_NAME_LENGTH \<Longrightarrow>
    strncmp_eq f p \<longleftrightarrow> take MAX_NAME_LENGTH (c_string f) = p"
  by (simp add: strncmp_eq_def)

lemma match_names_row:
  assumes "clean_path P" "clean_path row"
  shows "match_names P (map Some row @ None # rest) f =
    (if prefix row P then Inl UndefinedBehaviour
     else Inr (prefix (P @ [take MAX_NAME_LENGTH (c_string f)]) row))"
  using assms
proof (induction P arbitrary: row)
  case Nil
  then show ?case by (cases row) (auto simp: clean_path_def strncmp_eq_row)
next
  case (Cons d P)
  then show ?case by (cases row) (auto simp: clean_path_def strncmp_eq_row)
qed

lemma date_path_row:
  "length row < 100 \<Longrightarrow> \<exists>rest. date_path row = map Some row @ None # rest"
  by (cases "100 - length row") (auto simp: date_path_def MAX_DEPTH_def)

lemma datePaths_rows: "datePaths = map date_path date_rows"
  by (simp add: datePaths_def date_rows_def SentryCrashField_Report_def
    SentryCrashField_Timestamp_def SentryCrashField_RecrashReport_def)

lemma date_rows_clean: "row \<in> set date_rows \<Longrightarrow> clean_path row \<and> length row < 100"
  by (auto simp: date_rows_def clean_path_def no_nul_def MAX_NAME_LENGTH_def)

lemma matchesPath_row:
  assumes "clean_path P" "take (nat (currentDepth c)) (objectPath c) = P" "row \<in> set date_rows"
  shows "matchesPath c (date_path row) n =
    (if prefix row P then Inl UndefinedBehaviour else Inr (prefix (P @ [path_entry n]) row))"
proof -
  have f: "take MAX_NAME_LENGTH (c_string (case n of None \<Rightarrow> [] | Some n \<Rightarrow> n)) = path_entry n"
    by (cases n) (simp_all add: path_entry_def c_string_def)
  obtain rest where "date_path row = map Some row @ None # rest"
    using date_path_row date_rows_clean [OF assms(3)] by blast
  then show ?thesis
    unfolding matchesPath_def assms(2)
    by (simp add: match_names_row [OF assms(1)] date_rows_clean [OF assms(3)] f)
qed

lemma shouldFixDate_cases:
  assumes "clean_path P" "take (nat (currentDepth c)) (objectPath c) = P"
  shows "shouldFixDate c n =
    (if inside_date P then Inl UndefinedBehaviour else Inr (is_date P n))"
proof -
  let ?r1 = "date_rows ! 0" and ?r2 = "date_rows ! 1"
  have ex: "list_ex Q date_rows \<longleftrightarrow> Q ?r1 \<or> Q ?r2" for Q by (simp add: date_rows_def)
  have rows: "map date_path date_rows = [date_path ?r1, date_path ?r2]"
    and mem: "?r1 \<in> set date_rows" "?r2 \<in> set date_rows" by (simp_all add: date_rows_def)
  have apart: "\<not> prefix ?r2 P" if "prefix (P @ [path_entry n]) ?r1"
  proof
    assume "prefix ?r2 P"
    with that have "prefix ?r2 ?r1" by (meson append_prefixD prefix_order.trans)
    then show False by (simp add: date_rows_def)
  qed
  show ?thesis
    unfolding shouldFixDate_def datePaths_rows rows is_date_def inside_date_def ex
    using apart by (auto simp: matchesPath_row [OF assms mem(1)] matchesPath_row [OF assms mem(2)]
      simp del: One_nat_def)
qed

lemma shouldFixDate_eq:
  "clean_path P \<Longrightarrow> take (nat (currentDepth c)) (objectPath c) = P \<Longrightarrow> \<not> inside_date P \<Longrightarrow>
    shouldFixDate c n = Inr (is_date P n)"
  by (simp add: shouldFixDate_cases)

section \<open>The callbacks act like the encoder on the fixed value\<close>

text \<open>
  \<open>tracks P m res\<close>: the fixer's outcome \<open>res\<close> is the encoder's outcome \<open>m\<close>, and after a success the
  fixer is below the containers of the path \<open>P\<close>.
\<close>

definition at_path :: "path \<Rightarrow> fixup_context \<Rightarrow> bool" where
  "at_path P c \<longleftrightarrow> clean_path P \<and> currentDepth c = int (length P) \<and> length (objectPath c) = 100 \<and>
     take (length P) (objectPath c) = P"

definition tracks :: "path \<Rightarrow> (int \<times> out_buffer json_encode_context) run \<Rightarrow>
    (int \<times> fixup_context) run \<Rightarrow> bool" where
  "tracks P m res \<longleftrightarrow>
     (case m of Inl e \<Rightarrow> res = Inl e
      | Inr (r, c) \<Rightarrow> \<exists>ctx. res = Inr (r, ctx) \<and> encodeContext ctx = c \<and> (r = 0 \<longrightarrow> at_path P ctx))"

definition mimics :: "path \<Rightarrow> path \<Rightarrow> out_buffer enc \<Rightarrow> fix_call \<Rightarrow> bool" where
  "mimics P Q f g \<longleftrightarrow> (\<forall>ctx. at_path P ctx \<longrightarrow> tracks Q (f (encodeContext ctx)) (g ctx))"

lemma mimicsI:
  "(\<And>ctx. at_path P ctx \<Longrightarrow> tracks Q (f (encodeContext ctx)) (g ctx)) \<Longrightarrow> mimics P Q f g"
  by (simp add: mimics_def)

lemma at_path_encode [simp]: "at_path P (ctx\<lparr>encodeContext := c\<rparr>) = at_path P ctx"
  by (simp add: at_path_def)

lemma mimics_on_encoder: "mimics P P f (on_encoder f)"
  by (auto simp: mimics_def tracks_def on_encoder_def split: sum.splits)

lemma mimics_Nil: "mimics P P (steps []) (steps [])"
  by (simp add: mimics_def tracks_def)

lemma mimics_append:
  assumes "mimics P Q (steps fs) (steps gs)" "mimics Q R (steps fs') (steps gs')"
  shows "mimics P R (steps (fs @ fs')) (steps (gs @ gs'))"
proof (rule mimicsI)
  fix ctx
  assume "at_path P ctx"
  with assms(1) have t: "tracks Q (steps fs (encodeContext ctx)) (steps gs ctx)"
    by (simp add: mimics_def)
  show "tracks R (steps (fs @ fs') (encodeContext ctx)) (steps (gs @ gs') ctx)"
  proof (cases "steps fs (encodeContext ctx)")
    case (Inl e)
    with t show ?thesis by (simp add: tracks_def steps_append)
  next
    case (Inr p)
    obtain r c where p: "p = (r, c)" by fastforce
    with Inr t obtain ctx' where "steps gs ctx = Inr (r, ctx')" "encodeContext ctx' = c"
      "r = 0 \<Longrightarrow> at_path Q ctx'" by (auto simp: tracks_def)
    with Inr p assms(2) show ?thesis
      by (cases "r = 0") (auto simp: tracks_def steps_append mimics_def)
  qed
qed

lemma mimics_one: "mimics P Q f g \<Longrightarrow> mimics P Q (steps [f]) (steps [g])"
  by (auto simp: mimics_def tracks_def split: sum.splits) (metis+)?

lemma mimics_concat:
  assumes "\<And>x. x \<in> set xs \<Longrightarrow> mimics P P (steps (F x)) (steps (G x))"
  shows "mimics P P (steps (concat (map F xs))) (steps (concat (map G xs)))"
  using assms
proof (induction xs)
  case (Cons x xs)
  then have "mimics P P (steps (F x @ concat (map F xs))) (steps (G x @ concat (map G xs)))"
    by (intro mimics_append) simp_all
  then show ?case by (simp del: steps.simps)
qed (simp add: mimics_Nil del: steps.simps)

lemma take_Suc_update: "n < length xs \<Longrightarrow> take (Suc n) (xs[n := x]) = take n xs @ [x]"
  by (simp add: take_Suc_conv_app_nth)

lemma mimics_begin:
  assumes "length P < 100"
  shows "mimics P (P @ [path_entry n]) f (begin_and_descend f n)"
proof (rule mimicsI)
  fix ctx
  assume "at_path P ctx"
  with assms show "tracks (P @ [path_entry n]) (f (encodeContext ctx)) (begin_and_descend f n ctx)"
    using clean_path_entry [of n]
    by (auto simp: begin_and_descend_def on_encoder_def tracks_def increaseDepth_def at_path_def
      MAX_DEPTH_def Let_def take_Suc_update path_entry_def simp del: clean_path_entry
      split: sum.splits option.splits)
qed

lemma mimics_end: "mimics (P @ [d]) P sentrycrashjson_endContainer fixer_onEndContainer"
proof (rule mimicsI)
  fix ctx
  assume "at_path (P @ [d]) ctx"
  moreover from this have "take (length P) (objectPath ctx) = P"
    using take_take [of "length P" "length (P @ [d])" "objectPath ctx"]
    by (simp add: at_path_def min_def)
  ultimately have "at_path P (ctx\<lparr>encodeContext := c, currentDepth := currentDepth ctx - 1\<rparr>)"
    and "currentDepth ctx > 0" for c
    by (simp_all add: at_path_def)
  then show "tracks P (sentrycrashjson_endContainer (encodeContext ctx)) (fixer_onEndContainer ctx)"
    by (auto simp: fixer_onEndContainer_def on_encoder_def tracks_def decreaseDepth_def
      split: sum.splits)
qed

definition tracks_events :: "'d fp_ops \<Rightarrow> path \<Rightarrow> path \<Rightarrow> 'd event list \<Rightarrow> 'd event list \<Rightarrow> bool" where
  "tracks_events fp P Q evs evs' \<longleftrightarrow>
     mimics P Q (steps (map (encode_event fp) evs)) (steps (map (dispatch (fixer_callbacks fp)) evs'))"

lemma tracks_events_append:
  "tracks_events fp P Q a b \<Longrightarrow> tracks_events fp Q R a' b' \<Longrightarrow>
    tracks_events fp P R (a @ a') (b @ b')"
  unfolding tracks_events_def map_append by (rule mimics_append)

lemma tracks_events_one:
  "mimics P Q (encode_event fp ev) (dispatch (fixer_callbacks fp) ev') \<Longrightarrow>
    tracks_events fp P Q [ev] [ev']"
  by (simp add: tracks_events_def mimics_one del: steps.simps)

lemma tracks_events_concat:
  assumes "\<And>x. x \<in> set xs \<Longrightarrow> tracks_events fp P P (F x) (G x)"
  shows "tracks_events fp P P (concat (map F xs)) (concat (map G xs))"
  using mimics_concat [of xs P "\<lambda>x. map (encode_event fp) (F x)"
      "\<lambda>x. map (dispatch (fixer_callbacks fp)) (G x)"] assms
  by (simp add: tracks_events_def map_concat comp_def)

lemma tracks_events_container:
  assumes "length P < 100" "ev \<in> {EvBeginArray n, EvBeginObject n}"
    "tracks_events fp (P @ [path_entry n]) (P @ [path_entry n]) a b"
  shows "tracks_events fp P P (ev # a @ [EvEnd]) (ev # b @ [EvEnd])"
proof -
  have "tracks_events fp P (P @ [path_entry n]) [ev] [ev]"
    using assms(1,2) by (auto intro!: tracks_events_one
      simp: fixer_callbacks_def fixer_onBeginArray_def fixer_onBeginObject_def mimics_begin)
  moreover have "tracks_events fp (P @ [path_entry n]) P [EvEnd] [EvEnd]"
    by (rule tracks_events_one) (simp add: fixer_callbacks_def mimics_end)
  ultimately have "tracks_events fp P P ([ev] @ a @ [EvEnd]) ([ev] @ b @ [EvEnd])"
    using assms(3) by (blast intro: tracks_events_append)
  then show ?thesis by simp
qed

lemma no_nul_utcString [simp]: "no_nul (sentrycrashdate_utcStringFromTimestamp t)"
  using utcString_chars [of t]
  by (auto simp: no_nul_def list_all_iff date_char_def is_digit_def)

lemma mimics_integer:
  assumes "\<not> inside_date P"
  shows "mimics P P (encode_event fp (hd (events n (fix_json P n (JInt w))))) (fixer_onIntegerElement n w)"
proof (rule mimicsI)
  fix ctx
  assume ctx: "at_path P ctx"
  then have "shouldFixDate ctx n = Inr (is_date P n)"
    using assms by (intro shouldFixDate_eq) (simp_all add: at_path_def)
  then show "tracks P (encode_event fp (hd (events n (fix_json P n (JInt w)))) (encodeContext ctx))
      (fixer_onIntegerElement n w ctx)"
    using ctx mimics_on_encoder [of P] by (simp add: fixer_onIntegerElement_def mimics_def Let_def)
qed

lemma fixer_mimics_value:
  "fixable P n t \<Longrightarrow> tracks_events fp P P (events n (fix_json P n t)) (events n t)"
proof (induction P n t rule: fix_json.induct)
  case (1 P n w)
  have "events n (fix_json P n (JInt w)) = [hd (events n (fix_json P n (JInt w)))]" by simp
  moreover have "tracks_events fp P P [hd (events n (fix_json P n (JInt w)))] [EvInt n w]"
    using 1 by (intro tracks_events_one) (simp add: fixer_callbacks_def mimics_integer del: fix_json.simps)
  ultimately show ?case by (metis events.simps(3))
next
  case (2 P n ts)
  then show ?case
    by (simp add: comp_def) (intro tracks_events_container tracks_events_concat; simp add: list_all_iff)
next
  case (3 P n ms)
  have "tracks_events fp (P @ [path_entry n]) (P @ [path_entry n])
     (concat (map (\<lambda>(k, t). events (Some (c_string k)) (fix_json (P @ [path_entry n]) (Some (c_string k)) t)) ms))
     (concat (map (\<lambda>(k, t). events (Some (c_string k)) t) ms))"
    using 3 by (intro tracks_events_concat) (fastforce simp: list_all_iff)
  with 3 have "tracks_events fp P P
      (EvBeginObject n # concat (map (\<lambda>(k, t). events (Some (c_string k))
         (fix_json (P @ [path_entry n]) (Some (c_string k)) t)) ms) @ [EvEnd]) (events n (JObject ms))"
    by (simp add: tracks_events_container)
  then show ?case by (simp add: comp_def case_prod_unfold)
qed (simp_all add: tracks_events_one fixer_callbacks_def mimics_on_encoder fixer_onStringElement_def)

section \<open>The fixed report\<close>

lemma endEncode_outside:
  "has_shape fn sh c \<Longrightarrow> length (sh_stack sh) = 1 \<Longrightarrow> sentrycrashjson_endEncode c = Inr (0, c)"
  by (auto simp: has_shape_def sentrycrashjson_endEncode_def json_codes)

lemma encodable_utcString [simp]:
  "escapable_string (sentrycrashdate_utcStringFromTimestamp t)"
  using utcString_chars [of t]
  by (auto simp: escapable_string_def list_all_iff date_char_def escapable_def is_digit_def)

lemma encodable_fix_json: "encodable l t \<Longrightarrow> encodable l (fix_json P n t)"
  by (induction l t arbitrary: P n rule: encodable.induct) (auto simp: list_all_iff)

abbreviation outside :: shape where
  "outside \<equiv> \<lparr>sh_pretty = True, sh_stack = [False], sh_first = True\<rparr>"

text \<open>Room and text always add up to the length of the buffer, whatever was refused.\<close>

interpretation fixer_room: sink_invariant fixer_addJSONData
    "\<lambda>out. length (outputText out) + outputBytesLeft out = n" for n
  by unfold_locales (auto simp: fixer_addJSONData_def split: if_splits)

lemma fixer_writes_value:
  assumes "encodable 0 t" "fixable [] None t" "length (render fp True 0 (fix_json [] None t)) \<le> n"
  shows "\<exists>ctx. run_events (fixer_callbacks fp) (events None t)
      \<lparr>encodeContext = sentrycrashjson_beginEncode True fixer_addJSONData
         \<lparr>outputText = [], outputBytesLeft = n\<rparr>,
       objectPath = replicate (nat MAX_DEPTH) [], currentDepth = 0\<rparr> = Inr (0, ctx) \<and>
    has_shape fixer_addJSONData (after_element outside) (encodeContext ctx) \<and>
    outputText (userData (encodeContext ctx)) = render fp True 0 (fix_json [] None t) \<and>
    outputBytesLeft (userData (encodeContext ctx)) = n - length (render fp True 0 (fix_json [] None t))"
    (is "\<exists>ctx. run_events _ _ ?ctx = _ \<and> _")
proof -
  let ?t = "fix_json [] None t" and ?c = "encodeContext ?ctx"
  have sh: "has_shape fixer_addJSONData outside ?c"
    by (simp add: has_shape_beginEncode)
  have "events_fit outside (events None ?t)"
    using assms(1) by (intro events_fit_value [where l = 0] encodable_fix_json) (simp_all add: name_fits_def)
  then have "fixer_sink.em (steps (map (encode_event fp) (events None ?t))) outside
      (render fp True 0 ?t) (after_element outside)"
    using fixer_sink.emits_events [of outside "events None ?t" fp]
    by (simp add: events_render events_shape_value begin_text_array item_lead_def)
  from emits_succeeds [OF this sh TrueI] assms(3) obtain c' where c':
      "steps (map (encode_event fp) (events None ?t)) ?c = Inr (0, c')"
      "has_shape fixer_addJSONData (after_element outside) c'"
      "outputText (userData c') = render fp True 0 ?t"
    by (auto simp: sentrycrashjson_beginEncode_def)
  have "fixer_room.on_user n c'"
    by (rule keepsD [OF fixer_room.kp_events _ c'(1)])
       (simp add: fixer_room.on_user_def sentrycrashjson_beginEncode_def)
  then have "length (outputText (userData c')) + outputBytesLeft (userData c') = n"
    by (simp add: fixer_room.on_user_def)
  then have left: "outputBytesLeft (userData c') = n - length (render fp True 0 ?t)"
    unfolding c'(3) by simp
  have "at_path [] ?ctx" by (simp add: at_path_def clean_path_def MAX_DEPTH_def)
  with fixer_mimics_value [OF assms(2), of fp]
  have "tracks [] (steps (map (encode_event fp) (events None ?t)) ?c)
      (run_events (fixer_callbacks fp) (events None t) ?ctx)"
    unfolding tracks_events_def mimics_def run_events_def by blast
  with c' left show ?thesis by (auto simp: tracks_def)
qed

text \<open>The texts of containers are what the decoder is specified on; reports are objects.\<close>

lemma fixupCrashReport_result:
  assumes "json_text fp 37500 112500 t tx" "\<not> is_number t" "no_nul tx"
    "encodable 0 t" "fixable [] None t"
    "length (render fp True 0 (fix_json [] None t)) \<le> 3 * length tx div 2"
    "alloc SentryCrashMAX_STRINGBUFFERSIZE" "alloc (int (3 * length tx div 2))"
  shows "sentrycrashcrf_fixupCrashReport fp alloc (Some tx) =
    (if length (render fp True 0 (fix_json [] None t)) < 3 * length tx div 2
     then Inr (Some (render fp True 0 (fix_json [] None t)))
     else Inl UndefinedBehaviour)"
proof -
  let ?n = "3 * length tx div 2"
  let ?ctx = "\<lparr>encodeContext = sentrycrashjson_beginEncode True fixer_addJSONData
         \<lparr>outputText = [], outputBytesLeft = ?n\<rparr>,
       objectPath = replicate (nat MAX_DEPTH) [], currentDepth = 0\<rparr>"
  obtain ctx where run: "run_events (fixer_callbacks fp) (events None t) ?ctx = Inr (0, ctx)"
    and sh: "has_shape fixer_addJSONData (after_element outside) (encodeContext ctx)"
    and out: "outputText (userData (encodeContext ctx)) = render fp True 0 (fix_json [] None t)"
    and left: "outputBytesLeft (userData (encodeContext ctx)) =
      ?n - length (render fp True 0 (fix_json [] None t))"
    using fixer_writes_value [OF assms(4,5,6)] by auto
  have "onEndData (fixer_callbacks fp) ctx = Inr (0, ctx)"
    using endEncode_outside [OF sh] by (simp add: fixer_callbacks_def fixer_onEndData_def on_encoder_def)
  with run have "sentrycrashjson_decode fp (tx @ [NUL]) (length tx) SentryCrashMAX_STRINGBUFFERSIZE
      (fixer_callbacks fp) ?ctx 0 = Inr (0, ctx, 0)"
    using decode_container_text [of fp SentryCrashMAX_STRINGBUFFERSIZE t tx "[NUL]"
        "fixer_callbacks fp" ?ctx 0] assms(1,2)
    by (simp add: SentryCrashMAX_STRINGBUFFERSIZE_def)
  with out left assms(3,6-8) show ?thesis
    by (simp add: sentrycrashcrf_fixupCrashReport_def Let_def json_codes)
qed

end
