(* ===== verification/Json_Decode_Total.thy ===== *)
theory Json_Decode_Total
  imports Json_Decode_Spec
begin

text \<open>
  The decoder returns on every input. Its three loops move the cursor forward with every round
  and it descends only behind a bracket, so the fuel the entry point gives it is never used up,
  whatever the bytes are.
\<close>

section \<open>Callbacks that return\<close>

definition returns :: "'u call \<Rightarrow> bool" where
  "returns f \<longleftrightarrow> (\<forall>u. f u \<noteq> Inl OutOfFuel)"

definition callbacks_return :: "('d, 'u) decode_callbacks \<Rightarrow> bool" where
  "callbacks_return cb \<longleftrightarrow>
     (\<forall>ev. returns (dispatch cb ev)) \<and> returns (onEndData cb)"

lemma callbacks_returnD:
  assumes "callbacks_return cb"
  shows "returns (onNullElement cb n)" "returns (onBooleanElement cb n b)"
    "returns (onIntegerElement cb n i)" "returns (onUIntegerElement cb n i)"
    "returns (onFloatingPointElement cb n x)" "returns (onStringElement cb n s)"
    "returns (onBeginArray cb n)" "returns (onBeginObject cb n)" "returns (onEndContainer cb)"
  using assms unfolding callbacks_return_def by (metis dispatch.simps)+

section \<open>Progress\<close>

text \<open>
  \<open>progresses E k res\<close>: the outcome is not a lack of fuel, and after a success fewer than \<open>k\<close> bytes
  are left before the unchanged end \<open>E\<close>.
\<close>

definition progresses :: "nat \<Rightarrow> nat \<Rightarrow> (int \<times> json_decode_context \<times> 'u) run \<Rightarrow> bool" where
  "progresses E k res \<longleftrightarrow>
     (case res of Inl e \<Rightarrow> e \<noteq> OutOfFuel
      | Inr (r, (d, u)) \<Rightarrow> r = 0 \<longrightarrow> bufferEnd d = E \<and> E - bufferPtr d < k)"

named_theorems progress

lemma progresses_error [progress]: "r \<noteq> 0 \<Longrightarrow> progresses E k (Inr (r, s))"
  by (cases s) (simp add: progresses_def)

lemma progresses_mono: "progresses E k res \<Longrightarrow> k \<le> k' \<Longrightarrow> progresses E k' res"
  by (auto simp: progresses_def split: sum.splits)

lemma progresses_call [progress]:
  "returns f \<Longrightarrow> bufferEnd d = E \<Longrightarrow> E - bufferPtr d < k \<Longrightarrow> progresses E k (lift_call f (d, u))"
  by (auto simp: progresses_def lift_call_def returns_def bind_run_def split: sum.splits)

lemma progresses_current [progress]:
  "(\<And>ch. current d = Inr ch \<Longrightarrow> progresses E k (f ch)) \<Longrightarrow>
    progresses E k (bind_run (current d) f)"
  by (auto simp: current_def read_at_def progresses_def)

lemma progresses_bind:
  assumes "progresses E k res"
    and "\<And>d u. bufferEnd d = E \<Longrightarrow> E - bufferPtr d < k \<Longrightarrow> progresses E k' (f (0, (d, u)))"
    and "\<And>r s. r \<noteq> 0 \<Longrightarrow> f (r, s) = Inr (r, s)"
  shows "progresses E k' (bind_run res f)"
proof (cases res)
  case (Inr p)
  obtain r d u where p: "p = (r, (d, u))" by (metis prod_cases3)
  show ?thesis
    using assms Inr p by (cases "r = 0") (auto simp: progresses_def)
qed (use assms(1) in \<open>simp add: progresses_def\<close>)

lemma advance_fields [simp]:
  "bufferEnd (advance n d) = bufferEnd d" "bufferPtr (advance n d) = bufferPtr d + n"
  by (simp_all add: advance_def)

lemma skip_whitespace_moves:
  "bufferEnd (skip_whitespace d) = bufferEnd d" "bufferPtr d \<le> bufferPtr (skip_whitespace d)"
  by (simp_all add: skip_whitespace_def)

lemma hex_nybble_not_fuel [simp]: "hex_nybble b \<noteq> Inl OutOfFuel"
  by (simp add: hex_nybble_def)

lemma hex_accum_not_fuel [simp]: "hex_accum s \<noteq> Inl OutOfFuel"
  by (auto simp: hex_accum_def bind_run_def split: sum.splits)

lemma decode_unicode_not_fuel [simp]: "decode_unicode s dst \<noteq> Inl OutOfFuel"
  by (auto simp: decode_unicode_def bind_run_def split: sum.splits prod.splits)

lemma decode_escapes_not_fuel [simp]: "decode_escapes s dst \<noteq> Inl OutOfFuel"
proof (induction s dst rule: decode_escapes.induct)
  case (2 b s dst)
  then show ?case
    by (auto simp: bind_run_def split: list.splits sum.splits)
qed simp

lemma decodeString_moves:
  "decodeString d n \<noteq> Inl OutOfFuel"
  "decodeString d n = Inr (0, s, d') \<Longrightarrow> bufferEnd d' = bufferEnd d \<and> bufferPtr d + 2 \<le> bufferPtr d'"
proof -
  show "decodeString d n \<noteq> Inl OutOfFuel"
    by (auto simp: decodeString_def bind_run_def current_def read_at_def Let_def
        split: sum.splits prod.splits) 
  show "bufferEnd d' = bufferEnd d \<and> bufferPtr d + 2 \<le> bufferPtr d'"
    if "decodeString d n = Inr (0, s, d')"
    using that by (auto simp: decodeString_def bind_run_eq_Inr Let_def json_codes split: prod.splits if_splits)
qed

lemma progresses_decodeString [progress]:
  assumes "bufferEnd d = E"
    and "\<And>s d'. bufferEnd d' = E \<Longrightarrow> bufferPtr d + 2 \<le> bufferPtr d' \<Longrightarrow> progresses E k (f (0, s, d'))"
    and "\<And>r s d'. r \<noteq> 0 \<Longrightarrow> progresses E k (f (r, s, d'))"
  shows "progresses E k (bind_run (decodeString d n) f)"
proof (cases "decodeString d n")
  case (Inl e)
  then show ?thesis using decodeString_moves(1) [of d n] by (auto simp: progresses_def)
next
  case (Inr p)
  obtain r s d' where p: "p = (r, s, d')" by (metis prod_cases3)
  show ?thesis
    using assms decodeString_moves(2) [of d n s d'] Inr p by (cases "r = 0") auto
qed

lemma progresses_literal [progress]:
  "returns f \<Longrightarrow> bufferEnd d = E \<Longrightarrow> E - bufferPtr d \<le> k \<Longrightarrow> word \<noteq> [] \<Longrightarrow> \<not> at_end d \<Longrightarrow>
    progresses E k (decode_literal word (lift_call f) (d, u))"
  by (cases word) (auto simp: decode_literal_def json_codes at_end_def intro!: progress)

lemma progresses_number:
  assumes "\<And>n i. returns (onIntegerElement cb n i)" "\<And>n i. returns (onUIntegerElement cb n i)"
    "\<And>n x. returns (onFloatingPointElement cb n x)"
    and "bufferEnd d = E" "E - bufferPtr d < k"
  shows "progresses E k (decode_number fp (lift_callbacks cb) name sign (d, u))"
  using assms
  by (auto simp: decode_number_def lift_callbacks_def json_codes Let_def split: prod.splits
    intro!: progress)

lemma scan_digits_count: "n \<le> fst (snd (scan_digits s a n))"
proof (induction s a n rule: scan_digits.induct)
  case (2 b s accum n)
  then show ?case by (auto simp: Let_def) (meson Suc_leD)
qed simp

lemma scan_digits_first:
  assumes "is_digit b"
  shows "Suc 0 \<le> fst (snd (scan_digits (b # s) 0 0))"
proof -
  have "scan_digits (b # s) 0 0 = scan_digits s (of_nat (byte_val b - 48)) (Suc 0)"
    using scan_digits_step(1) [OF _ assms, of 0 s 0] assms by (simp add: is_digit_def)
  then show ?thesis using scan_digits_count [of "Suc 0" s] by simp
qed

lemma current_first:
  assumes "current d = Inr b" "\<not> at_end d"
  obtains s where "unread d = b # s"
proof -
  have "bufferPtr d < length (buffer d)" "b = buffer d ! bufferPtr d"
    using assms(1) by (auto simp: current_def read_at_def split: if_splits)
  with assms(2) have "unread d = b # drop (Suc (bufferPtr d)) (take (bufferEnd d) (buffer d))"
    by (simp add: unread_def at_end_def Cons_nth_drop_Suc [symmetric])
  with that show thesis by blast
qed

lemma progresses_number_start:
  assumes "\<And>n i. returns (onIntegerElement cb n i)" "\<And>n i. returns (onUIntegerElement cb n i)"
    "\<And>n x. returns (onFloatingPointElement cb n x)"
    and "bufferEnd d = E" "\<not> at_end d" "current d = Inr b" "is_digit b"
  shows "progresses E (E - bufferPtr d) (decode_number fp (lift_callbacks cb) name 1 (d, u))"
proof -
  obtain s where s: "unread d = b # s" using current_first [OF assms(6,5)] .
  obtain a n ov where sc: "scan_digits (b # s) 0 0 = (a, n, ov)" by (metis prod_cases3)
  with scan_digits_first [OF assms(7), of s] have n: "0 < n" by simp
  show ?thesis
    using assms(1-5) n unfolding decode_number_def prod.case s sc Let_def
    by (auto simp: lift_callbacks_def json_codes at_end_def intro!: progress)
qed

section \<open>Elements\<close>

lemma progresses_container:
  assumes "returns f" "\<And>u'. progresses E k (g (d, u'))"
  shows "progresses E k (steps [lift_call f, g] (d, u))"
proof (cases "f u")
  case (Inl e)
  then show ?thesis using assms(1) by (auto simp: lift_call_def progresses_def returns_def)
next
  case (Inr p)
  obtain r u' where p: "p = (r, u')" by fastforce
  show ?thesis
  proof (cases "r = 0")
    case True
    then show ?thesis using Inr p assms(2) [of u']
      by (auto simp: lift_call_def progresses_def split: sum.splits)
  next
    case False
    then show ?thesis using Inr p by (simp add: lift_call_def progress)
  qed
qed

lemma progresses_if:
  "(b \<Longrightarrow> progresses E k x) \<Longrightarrow> (\<not> b \<Longrightarrow> progresses E k y) \<Longrightarrow>
    progresses E k (if b then x else y)"
  by simp

lemma lift_callbacks_simps:
  "onNullElement (lift_callbacks cb) n = lift_call (onNullElement cb n)"
  "onBooleanElement (lift_callbacks cb) n b = lift_call (onBooleanElement cb n b)"
  "onStringElement (lift_callbacks cb) n s = lift_call (onStringElement cb n s)"
  "onBeginObject (lift_callbacks cb) n = lift_call (onBeginObject cb n)"
  "onBeginArray (lift_callbacks cb) n = lift_call (onBeginArray cb n)"
  "onEndContainer (lift_callbacks cb) = lift_call (onEndContainer cb)"
  by (simp_all add: lift_callbacks_def)

lemma progresses_element:
  assumes cb: "callbacks_return cb" and E: "bufferEnd d = E"
    and arr: "\<And>u'. progresses E (E - Suc (bufferPtr (skip_whitespace d)))
      (decode_array fuel fp (lift_callbacks cb) (advance 1 (skip_whitespace d), u'))"
    and obj: "\<And>u'. progresses E (E - Suc (bufferPtr (skip_whitespace d)))
      (decode_object fuel fp (lift_callbacks cb) (advance 1 (skip_whitespace d), u'))"
  shows "progresses E (E - bufferPtr d) (decodeElement (Suc fuel) fp (lift_callbacks cb) name (d, u))"
proof -
  let ?d = "skip_whitespace d"
  note ret = callbacks_returnD [OF cb]
  have sk: "bufferEnd ?d = E" "bufferPtr d \<le> bufferPtr ?d"
    using E skip_whitespace_moves [of d] by simp_all
  show ?thesis
  proof (cases "at_end ?d")
    case True
    then show ?thesis by (simp add: json_codes progress)
  next
    case False
    then have left: "E - bufferPtr ?d > 0" using sk by (simp add: at_end_def)
    have "progresses E (E - bufferPtr ?d)
        (decodeElement (Suc fuel) fp (lift_callbacks cb) name (d, u))"
      unfolding decodeElement.simps Let_def prod.case lift_callbacks_simps if_not_P [OF False]
      by (intro progresses_current progresses_if progresses_container
            progresses_number_start progresses_number
            progresses_literal progresses_decodeString ret
            progresses_mono [OF arr] progresses_mono [OF obj];
          use False sk(1) left ret in \<open>simp add: json_codes progress\<close>)
    then show ?thesis by (rule progresses_mono) (use sk in simp)
  qed
qed

text \<open>After an element comes the rest of its container, past a comma if there is one.\<close>

lemma progresses_rest:
  assumes res: "progresses E k res"
    and g: "\<And>d u. bufferEnd d = E \<Longrightarrow> E - bufferPtr d < k \<Longrightarrow> progresses E (E - bufferPtr d) (g (d, u))"
  shows "progresses E k (bind_run res (\<lambda>(result, d, u).
      if result \<noteq> SentryCrashJSON_OK then Inr (result, d, u)
      else if at_end (skip_whitespace d) then Inr (SentryCrashJSON_ERROR_INCOMPLETE, skip_whitespace d, u)
      else bind_run (current (skip_whitespace d)) (\<lambda>ch.
        g (if ch = CHR '','' then advance 1 (skip_whitespace d) else skip_whitespace d, u))))"
proof (rule progresses_bind [OF res])
  fix d :: json_decode_context and u :: 'a
  assume d: "bufferEnd d = E" "E - bufferPtr d < k"
  have g': "progresses E k (g (x, u))" if "bufferEnd x = E" "bufferPtr d \<le> bufferPtr x" for x
    using d that by (intro progresses_mono [OF g]) simp_all
  have "progresses E k (g (if ch = CHR '','' then advance 1 (skip_whitespace d)
      else skip_whitespace d, u))" for ch
    using d skip_whitespace_moves [of d] by (intro g') simp_all
  then show "progresses E k (case (0, d, u) of (result, d, u) \<Rightarrow>
      if result \<noteq> SentryCrashJSON_OK then Inr (result, d, u)
      else if at_end (skip_whitespace d) then Inr (SentryCrashJSON_ERROR_INCOMPLETE, skip_whitespace d, u)
      else bind_run (current (skip_whitespace d)) (\<lambda>ch.
        g (if ch = CHR '','' then advance 1 (skip_whitespace d) else skip_whitespace d, u)))"
    by (auto simp: json_codes intro!: progress)
qed (simp add: json_codes)

lemma progresses_close:
  assumes "callbacks_return cb" "bufferEnd d = E" "\<not> at_end (skip_whitespace d)"
  shows "progresses E (E - bufferPtr d) (lift_call (onEndContainer cb) (advance 1 (skip_whitespace d), u))"
  using assms skip_whitespace_moves [of d]
  by (intro progress callbacks_returnD [OF assms(1)]) (simp_all add: at_end_def)

lemma progresses_array:
  assumes cb: "callbacks_return cb" and E: "bufferEnd d = E"
    and elem: "\<And>d u. bufferEnd d = E \<Longrightarrow> E - bufferPtr d \<le> k \<Longrightarrow>
      progresses E (E - bufferPtr d) (decodeElement fuel fp (lift_callbacks cb) None (d, u))"
    and arr: "\<And>d u. bufferEnd d = E \<Longrightarrow> E - bufferPtr d < k \<Longrightarrow>
      progresses E (E - bufferPtr d) (decode_array fuel fp (lift_callbacks cb) (d, u))"
    and k: "k = E - bufferPtr d"
  shows "progresses E k (decode_array (Suc fuel) fp (lift_callbacks cb) (d, u))"
proof -
  let ?d = "skip_whitespace d"
  have sk: "bufferEnd ?d = E" "bufferPtr d \<le> bufferPtr ?d"
    using E skip_whitespace_moves [of d] by simp_all
  have el: "progresses E k (decodeElement fuel fp (lift_callbacks cb) None (?d, u))"
    using sk k by (intro progresses_mono [OF elem]) simp_all
  show ?thesis
    unfolding decode_array.simps Let_def prod.case lift_callbacks_simps
    by (intro progresses_if progresses_current progresses_rest [OF el arr])
       (use k E progresses_close [OF cb E] in \<open>simp_all add: json_codes progress del: One_nat_def\<close>)
qed

lemma progresses_object:
  assumes cb: "callbacks_return cb" and E: "bufferEnd d = E"
    and elem: "\<And>name d u. bufferEnd d = E \<Longrightarrow> E - bufferPtr d \<le> k \<Longrightarrow>
      progresses E (E - bufferPtr d) (decodeElement fuel fp (lift_callbacks cb) name (d, u))"
    and obj: "\<And>d u. bufferEnd d = E \<Longrightarrow> E - bufferPtr d < k \<Longrightarrow>
      progresses E (E - bufferPtr d) (decode_object fuel fp (lift_callbacks cb) (d, u))"
    and k: "k = E - bufferPtr d"
  shows "progresses E k (decode_object (Suc fuel) fp (lift_callbacks cb) (d, u))"
proof -
  have el: "progresses E k (decodeElement fuel fp (lift_callbacks cb) name (skip_whitespace x, u))"
    if "bufferEnd x = E" "bufferPtr d \<le> bufferPtr x" for x name
    using that k skip_whitespace_moves [of x] by (intro progresses_mono [OF elem]) simp_all
  have rest: "progresses E k (if at_end (skip_whitespace x)
      then Inr (SentryCrashJSON_ERROR_INCOMPLETE, skip_whitespace x, u)
      else bind_run (current (skip_whitespace x)) (\<lambda>ch.
        if ch \<noteq> CHR '':'' then Inr (SentryCrashJSON_ERROR_INVALID_CHARACTER, skip_whitespace x, u)
        else bind_run (decodeElement fuel fp (lift_callbacks cb) name
              (skip_whitespace (advance 1 (skip_whitespace x)), u)) (\<lambda>(result, d, u).
      if result \<noteq> SentryCrashJSON_OK then Inr (result, d, u)
      else if at_end (skip_whitespace d) then Inr (SentryCrashJSON_ERROR_INCOMPLETE, skip_whitespace d, u)
      else bind_run (current (skip_whitespace d)) (\<lambda>ch.
        decode_object fuel fp (lift_callbacks cb)
          (if ch = CHR '','' then advance 1 (skip_whitespace d) else skip_whitespace d, u)))))"
    if x: "bufferEnd x = E" "bufferPtr d \<le> bufferPtr x" for x name
  proof -
    have "progresses E k (decodeElement fuel fp (lift_callbacks cb) name
        (skip_whitespace (advance 1 (skip_whitespace x)), u))"
      using x skip_whitespace_moves [of x] by (intro el) simp_all
    from progresses_rest [OF this obj]
    show ?thesis by (intro progresses_if progresses_current) (simp_all add: json_codes progress)
  qed
  show ?thesis
    unfolding decode_object.simps Let_def prod.case lift_callbacks_simps
  proof (intro progresses_if progresses_current progresses_decodeString)
    show "bufferEnd (skip_whitespace d) = E" using E skip_whitespace_moves [of d] by simp
  next
    assume "\<not> at_end (skip_whitespace d)"
    then show "progresses E k (lift_call (onEndContainer cb) (advance 1 (skip_whitespace d), u))"
      using k progresses_close [OF cb E] by blast
  next
    fix s and d' :: json_decode_context
    assume "bufferEnd d' = E" "bufferPtr (skip_whitespace d) + 2 \<le> bufferPtr d'"
    then have "bufferPtr d \<le> bufferPtr d'" using skip_whitespace_moves [of d] by simp
    with rest [OF \<open>bufferEnd d' = E\<close> this, of "Some (c_string s)"]
    show "progresses E k (case (0, s, d') of (result, nameBuffer, d) \<Rightarrow>
      if result \<noteq> SentryCrashJSON_OK then Inr (result, d, u)
      else if at_end (skip_whitespace d)
      then Inr (SentryCrashJSON_ERROR_INCOMPLETE, skip_whitespace d, u)
      else bind_run (current (skip_whitespace d)) (\<lambda>ch.
        if ch \<noteq> CHR '':'' then Inr (SentryCrashJSON_ERROR_INVALID_CHARACTER, skip_whitespace d, u)
        else bind_run (decodeElement fuel fp (lift_callbacks cb) (Some (c_string nameBuffer))
              (skip_whitespace (advance 1 (skip_whitespace d)), u)) (\<lambda>(result, d, u).
      if result \<noteq> SentryCrashJSON_OK then Inr (result, d, u)
      else if at_end (skip_whitespace d) then Inr (SentryCrashJSON_ERROR_INCOMPLETE, skip_whitespace d, u)
      else bind_run (current (skip_whitespace d)) (\<lambda>ch.
        decode_object fuel fp (lift_callbacks cb)
          (if ch = CHR '','' then advance 1 (skip_whitespace d) else skip_whitespace d, u)))))"
      unfolding prod.case json_codes(1) by simp
  qed (simp_all add: json_codes progress)
qed

lemma progresses_elements:
  assumes cb: "callbacks_return cb"
  shows "bufferEnd d = E \<Longrightarrow> 2 * (E - bufferPtr d) + 1 \<le> fuel \<Longrightarrow>
      progresses E (E - bufferPtr d) (decodeElement fuel fp (lift_callbacks cb) name (d, u))"
    and "bufferEnd d = E \<Longrightarrow> 2 * (E - bufferPtr d) + 2 \<le> fuel \<Longrightarrow>
      progresses E (E - bufferPtr d) (decode_array fuel fp (lift_callbacks cb) (d, u))"
    and "bufferEnd d = E \<Longrightarrow> 2 * (E - bufferPtr d) + 2 \<le> fuel \<Longrightarrow>
      progresses E (E - bufferPtr d) (decode_object fuel fp (lift_callbacks cb) (d, u))"
proof (induction fuel arbitrary: d u name)
  case (Suc fuel)
  { case 1
    show ?case
    proof (cases "E - bufferPtr (skip_whitespace d) = 0")
      case True
      then have "at_end (skip_whitespace d)"
        using 1 skip_whitespace_moves [of d] by (simp add: at_end_def)
      then show ?thesis by (simp add: json_codes progress)
    next
      case False
      then show ?thesis
        using 1 skip_whitespace_moves [of d] Suc.IH(2,3) [of "advance 1 (skip_whitespace d)"]
        by (intro progresses_element [OF cb]) simp_all
    qed
  next
    case 2
    show ?case
    proof (rule progresses_array [OF cb 2(1) _ _ refl])
      fix d' :: json_decode_context and u' :: 'b
      assume d': "bufferEnd d' = E"
      show "progresses E (E - bufferPtr d') (decodeElement fuel fp (lift_callbacks cb) None (d', u'))"
        if "E - bufferPtr d' \<le> E - bufferPtr d" using that d' 2 by (intro Suc.IH(1)) simp_all
      show "progresses E (E - bufferPtr d') (decode_array fuel fp (lift_callbacks cb) (d', u'))"
        if "E - bufferPtr d' < E - bufferPtr d" using that d' 2 by (intro Suc.IH(2)) simp_all
    qed
  next
    case 3
    show ?case
    proof (rule progresses_object [OF cb 3(1) _ _ refl])
      fix name and d' :: json_decode_context and u' :: 'b
      assume d': "bufferEnd d' = E"
      show "progresses E (E - bufferPtr d') (decodeElement fuel fp (lift_callbacks cb) name (d', u'))"
        if "E - bufferPtr d' \<le> E - bufferPtr d" using that d' 3 by (intro Suc.IH(1)) simp_all
      show "progresses E (E - bufferPtr d') (decode_object fuel fp (lift_callbacks cb) (d', u'))"
        if "E - bufferPtr d' < E - bufferPtr d" using that d' 3 by (intro Suc.IH(3)) simp_all
    qed
  }
qed simp_all

lemma decode_returns:
  assumes "callbacks_return cb"
  shows "sentrycrashjson_decode fp data len n cb u off \<noteq> Inl OutOfFuel"
proof -
  let ?d = "\<lparr>buffer = data, bufferPtr = 0, bufferEnd = len,
    nameBufferLength = n div 4, stringBufferLength = n - n div 4\<rparr>"
  have "progresses len len (decodeElement (2 * len + 2) fp (lift_callbacks cb) None (?d, u))"
    using progresses_elements(1) [OF assms, of ?d len "2 * len + 2"] by (simp del: decodeElement.simps)
  moreover have "returns (onEndData cb)"
    using assms by (simp add: callbacks_return_def)
  ultimately show ?thesis
    by (auto simp: sentrycrashjson_decode_def Let_def progresses_def returns_def bind_run_def
      simp del: decodeElement.simps split: sum.splits prod.splits if_splits)
qed

end
