(* ===== verification/Json_Props.thy ===== *)
theory Json_Props
  imports Report_Fixer_Spec Json_Decode_Total
begin

text \<open>
  The properties of the JSON codec and of the report fixer. They are stated over the model's
  definitions alone; the work is in the theories of the two components.
\<close>

section \<open>A concrete instance\<close>

text \<open>Numbers without floating point, and a small report, for the concrete instances.\<close>

definition no_floats :: "unit fp_ops" where
  "no_floats = \<lparr>fp_isnan = (\<lambda>_. True), fp_print = (\<lambda>_. []), fp_scan = (\<lambda>_. ()), fp_neg = (\<lambda>_. ())\<rparr>"

definition small_value :: "unit json" where
  "small_value = JObject [(''a'', JArray [JInt 7, JNull]), (''b'', JString ''x\<newline>'')]"

definition small_text :: bytes where
  "small_text = ''{'' @ quoted ''a'' @ '':[7,null],'' @ quoted ''b'' @ '':'' @ quoted ''x\<newline>'' @ ''}''"

definition client_state :: "(unit, nat) decode_callbacks" where
  "client_state =
     \<lparr>onBooleanElement = (\<lambda>_ _. ok), onFloatingPointElement = (\<lambda>_ _. ok),
      onIntegerElement = (\<lambda>_ _ n. Inr (0, n + 1)), onUIntegerElement = (\<lambda>_ _. ok),
      onNullElement = (\<lambda>_. ok), onStringElement = (\<lambda>_ _. ok), onBeginObject = (\<lambda>_. ok),
      onBeginArray = (\<lambda>_. ok), onEndContainer = ok, onEndData = ok\<rparr>"

lemmas small_simps = small_value_def small_text_def no_floats_def no_nul_def escapable_string_def
  escapable_def escape_string_def escape_def show_int_def show_nat.simps digit_char_def float_text_def quoted_def
  item_lead_def closing_lead_def colon_def indent_text_def c_string_def char_of_def

lemma small_value_ok:
  "encodable 0 small_value" "fits_buffers no_floats 100 300 small_value"
  "\<not> is_number (reread no_floats small_value)" "reread no_floats small_value = small_value"
  "render no_floats False 0 small_value = small_text"
  by (simp_all add: small_simps is_number_def bit_0)

lemma small_value_fits: "length (render no_floats False 0 small_value) \<le> 100"
  by (simp add: small_value_ok) (simp add: small_simps)

lemma small_value_run:
  "steps [run_events client_state (events None small_value), onEndData client_state] u = Inr (0, u + 1)"
  by (simp add: small_value_def client_state_def ok_def)

lemma small_json_text: "json_text no_floats 100 300 small_value small_text"
  using render_json_text [OF small_value_ok(2), of False 0] small_value_ok by simp

section \<open>Round trip\<close>

lemma encoder_writes:
  assumes "encodable 0 t" "length (render fp p 0 t) \<le> space"
  shows "\<exists>c. steps (map (encode_event fp) (events None t))
      (sentrycrashjson_beginEncode p fixer_addJSONData \<lparr>outputText = [], outputBytesLeft = space\<rparr>) =
    Inr (0, c) \<and> outputText (userData c) = render fp p 0 t"
proof -
  let ?sh = "\<lparr>sh_pretty = p, sh_stack = [False], sh_first = True\<rparr>"
  have "events_fit ?sh (events None t)"
    using assms(1) by (intro events_fit_value [where l = 0]) (simp_all add: name_fits_def)
  then have "fixer_sink.em (steps (map (encode_event fp) (events None t))) ?sh
      (render fp p 0 t) (after_element ?sh)"
    using fixer_sink.emits_events [of ?sh "events None t" fp]
    by (simp add: events_render events_shape_value begin_text_array item_lead_def)
  from emits_succeeds [OF this has_shape_beginEncode TrueI,
      of "\<lparr>outputText = [], outputBytesLeft = space\<rparr>"] assms(2) show ?thesis
    by (auto simp: sentrycrashjson_beginEncode_def)
qed

text \<open>
  C1. A value that the encoder can write (strings without control characters other than the five
  with an escape, at most 199 levels of containers, texts that fit the decoder's name and string
  buffers) is written without an error when the buffer has room for its text, and decoding what
  was written, with any callbacks, makes exactly the callbacks of the value, in order, up to the
  first one that reports an error. The floating point conversions are a parameter.
\<close>

theorem json_roundtrip:
  assumes "encodable 0 t" "length (render fp p 0 t) \<le> space"
    and "fits_buffers fp (n div 4) (n - n div 4) t" "\<not> is_number (reread fp t)"
  shows "\<exists>c. steps (map (encode_event fp) (events None t))
      (sentrycrashjson_beginEncode p fixer_addJSONData \<lparr>outputText = [], outputBytesLeft = space\<rparr>) =
        Inr (0, c) \<and>
    sentrycrashjson_decode fp (outputText (userData c)) (length (outputText (userData c))) n cb u off =
      bind_run (steps [run_events cb (events None (reread fp t)), onEndData cb] u)
        (\<lambda>(r, u). Inr (r, u, if r = 0 then off else 0))"
  using encoder_writes [OF assms(1,2)]
    decode_container_text [OF render_json_text [OF assms(3)] assms(4), where beyond = "[]"]
  by fastforce

theorem json_roundtrip_witness:
  "\<exists>c. steps (map (encode_event no_floats) (events None small_value))
      (sentrycrashjson_beginEncode False fixer_addJSONData
         \<lparr>outputText = [], outputBytesLeft = 100\<rparr>) = Inr (0, c) \<and>
    sentrycrashjson_decode no_floats (outputText (userData c)) (length (outputText (userData c))) 400
      client_state 0 5 = Inr (0, 1, 5)"
  using json_roundtrip [OF small_value_ok(1) small_value_fits, of 400 client_state 0 5]
    small_value_ok(2-4)
  by (simp add: small_value_run del: steps.simps)

section \<open>Decoding\<close>




lemma client_state_returns: "callbacks_return client_state"
proof -
  have "dispatch client_state ev u \<noteq> Inl OutOfFuel" for ev u
    by (cases ev) (simp_all add: client_state_def ok_def)
  then show ?thesis by (simp add: callbacks_return_def returns_def client_state_def ok_def)
qed


text \<open>
  The value the decoder leaves in \<open>*errorOffset\<close> says nothing about the place of an error: it
  is 0 after any error, and untouched after a success.
\<close>

theorem decode_error_offset:
  assumes "sentrycrashjson_decode fp data len n cb u off = Inr (r, u', off')"
  shows "off' = (if r = 0 then off else 0)"
  using assms
  by (auto simp: sentrycrashjson_decode_def Let_def bind_run_eq_Inr json_codes
    simp del: decodeElement.simps split: prod.splits)

theorem decode_error_offset_witness:
  "\<exists>r. sentrycrashjson_decode no_floats ''[7,x]'' 5 400 client_state 0 3 = Inr (r, 1, 0) \<and> r \<noteq> 0 \<and>
     0 = (if r = 0 then 3 else 0 :: int)"
proof -
  have run: "sentrycrashjson_decode no_floats ''[7,x]'' 5 400 client_state 0 3 =
      Inr (SentryCrashJSON_ERROR_INVALID_CHARACTER, 1, 0)"
    by code_simp
  show ?thesis using decode_error_offset [OF run] run by (simp add: json_codes)
qed

section \<open>Strings and numbers\<close>

text \<open>
  A quoted, escaped string of any bytes is decoded to the same bytes, and the cursor ends
  right behind the closing quote, if the escaped text is shorter than the destination buffer.
\<close>

theorem string_escape_roundtrip:
  assumes "int (length (escape_string s)) < n"
  shows "decodeString \<lparr>buffer = quoted s @ rest, bufferPtr = 0, bufferEnd = length (quoted s),
      nameBufferLength = n, stringBufferLength = m\<rparr> n =
    Inr (SentryCrashJSON_OK, s, \<lparr>buffer = quoted s @ rest, bufferPtr = length (quoted s),
      bufferEnd = length (quoted s), nameBufferLength = n, stringBufferLength = m\<rparr>)"
proof -
  let ?d = "\<lparr>buffer = quoted s @ rest, bufferPtr = 0, bufferEnd = length (quoted s),
      nameBufferLength = n, stringBufferLength = m\<rparr>"
  have "unread ?d = CHR 0x22 # escape_string s @ CHR 0x22 # []"
    by (simp add: unread_def quoted_def)
  from decodeString_text [OF _ this escape_string_text assms] show ?thesis
    by (simp add: wf_ctx_def advance_def quoted_def)
qed

theorem string_escape_roundtrip_witness:
  "decodeString \<lparr>buffer = quoted ''a\<newline>'' @ ''}'', bufferPtr = 0, bufferEnd = 5,
      nameBufferLength = 9, stringBufferLength = 9\<rparr> 9 =
    Inr (0, ''a\<newline>'', \<lparr>buffer = quoted ''a\<newline>'' @ ''}'', bufferPtr = 5,
      bufferEnd = 5, nameBufferLength = 9, stringBufferLength = 9\<rparr>)"
proof -
  have q: "int (length (escape_string ''a\<newline>'')) < 9" "length (quoted ''a\<newline>'') = 5"
    by (simp_all add: quoted_def escape_def)
  from string_escape_roundtrip [OF q(1), of "''}''" 9] show ?thesis
    unfolding q(2) by (simp add: json_codes)
qed

text \<open>
  The decoder combines a surrogate pair without the offset 0x10000 the encoding asks for: the
  escapes of U+1F600 give the three bytes of U+F600, another character.
\<close>

theorem surrogate_pair_wrong:
  "decode_escapes (CHR 0x5C # ''ud83d'' @ CHR 0x5C # ''ude00'') [] =
     Inr (SentryCrashJSON_OK, [CHR 0xEF, CHR 0x98, CHR 0x80]) \<and>
   writeUTF8 0x1F600 [] = (SentryCrashJSON_OK, [CHR 0xF0, CHR 0x9F, CHR 0x98, CHR 0x80]) \<and>
   writeUTF8 0xF600 [] = (SentryCrashJSON_OK, [CHR 0xEF, CHR 0x98, CHR 0x80])"
  by (intro conjI; code_simp)

text \<open>
  Every signed 64-bit integer, the least one included, is read back from its decimal text as
  itself: the decoder calls \<open>onIntegerElement\<close> once, with the number.
\<close>

theorem integer_roundtrip:
  assumes "wf_ctx d" "unread d = show_int (sint w) @ rest" "no_fp_next rest"
  shows "decodes (advance (length (show_int (sint w))) d) (onIntegerElement cb name w u)
    (decodeElement (Suc fuel) fp (lift_callbacks cb) name (d, u))"
  using decodes_number [OF number_text_int assms refl, where cb = cb and u = u and fuel = fuel and fp = fp and name = name]
  by (simp only: events.simps run_events_one dispatch.simps)

theorem integer_roundtrip_witness:
  "decodeElement 1 no_floats (lift_callbacks client_state) None
      (\<lparr>buffer = show_int (- 9223372036854775808) @ '']'', bufferPtr = 0, bufferEnd = 21,
        nameBufferLength = 9, stringBufferLength = 9\<rparr>, 4) =
    Inr (0, (\<lparr>buffer = show_int (- 9223372036854775808) @ '']'', bufferPtr = 20,
      bufferEnd = 21, nameBufferLength = 9, stringBufferLength = 9\<rparr>, 5))"
proof -
  let ?s = "show_int (- 9223372036854775808)"
  have w: "sint (- 9223372036854775808 :: 64 word) = - 9223372036854775808" by simp
  have len: "length ?s = 20" by (simp add: show_int_def show_nat.simps)
  from integer_roundtrip [of "\<lparr>buffer = ?s @ '']'', bufferPtr = 0, bufferEnd = 21,
        nameBufferLength = 9, stringBufferLength = 9\<rparr>" "- 9223372036854775808" "'']''" client_state None 4 0 no_floats]
  show ?thesis
    unfolding w len
    by (simp add: wf_ctx_def unread_def len no_fp_next_def isFPChar_def is_digit_def advance_def
      decodes_def client_state_def del: decodeElement.simps)
qed

section \<open>Nesting\<close>

text \<open>Opening \<open>k\<close> arrays inside each other, compactly.\<close>

definition in_arrays :: "nat \<Rightarrow> bool \<Rightarrow> shape" where
  "in_arrays k first = \<lparr>sh_pretty = False, sh_stack = replicate (Suc k) False, sh_first = first\<rparr>"

lemma in_arrays_simps [simp]:
  "push_container False (in_arrays k first) = in_arrays (Suc k) True"
  "pop_container (in_arrays (Suc k) first) = in_arrays k False"
  "begin_text (in_arrays k True) None = []"
  "end_text (in_arrays k first) = '']''"
  "name_fits (in_arrays k first) None"
  "length (sh_stack (in_arrays k first)) = Suc k"
  "after_element (in_arrays k first) = in_arrays k False"
  by (simp_all add: in_arrays_def push_container_def pop_container_def begin_text_array
    item_lead_def end_text_def name_fits_def)

lemma open_arrays:
  "events_shape (replicate n (EvBeginArray None)) (in_arrays k True) = in_arrays (k + n) True"
  "events_text fp (in_arrays k True) (replicate n (EvBeginArray None)) = replicate n (CHR ''['')"
  "k + n < 200 \<Longrightarrow> events_fit (in_arrays k True) (replicate n (EvBeginArray None))"
  by (induction n arbitrary: k) simp_all

lemma close_arrays: "closing_text k (in_arrays k first) = replicate k (CHR '']'')"
  by (induction k arbitrary: first) simp_all

lemma begin_arrays:
  "(\<lparr>sh_pretty = False, sh_stack = [False], sh_first = True\<rparr>) = in_arrays 0 True"
  by (simp add: in_arrays_def)

lemma emits_arrays:
  assumes "k < 200"
  shows "fixer_sink.em (steps (replicate k (sentrycrashjson_beginArray None))) (in_arrays 0 True)
    (replicate k (CHR ''['')) (in_arrays k True)"
proof -
  have "fixer_sink.em (steps (map (encode_event no_floats) (replicate k (EvBeginArray None))))
      (in_arrays 0 True) (replicate k (CHR ''['')) (in_arrays k True)"
    using fixer_sink.emits_events [OF open_arrays(3), of 0 k no_floats] assms
    by (simp add: open_arrays del: map_replicate)
  then show ?thesis by simp
qed

lemma beginArray_too_deep:
  assumes "has_shape fixer_addJSONData (in_arrays 199 True) c"
  shows "sentrycrashjson_beginArray None c = Inl UndefinedBehaviour"
proof -
  have "fixer_sink.em (sentrycrashjson_beginElement None) (in_arrays 199 True) [] (in_arrays 199 False)"
    using fixer_sink.emits_beginElement [OF in_arrays_simps(5) [of 199 True]]
    by (simp only: in_arrays_simps)
  from emits_succeeds [OF this assms TrueI] obtain c' where
    c': "sentrycrashjson_beginElement None c = Inr (0, c')"
    "has_shape fixer_addJSONData (in_arrays 199 False) c'" by auto
  have "containerLevel c = int (length (sh_stack (in_arrays 199 True))) - 1"
    by (rule has_shape_level(2) [OF assms])
  then have l: "containerLevel c = 199" unfolding in_arrays_simps by simp
  have "containerLevel c' = int (length (sh_stack (in_arrays 199 False))) - 1"
    by (rule has_shape_level(2) [OF c'(2)])
  then have l': "containerLevel c' = 199" unfolding in_arrays_simps by simp
  have n: "length (isObject c') = 200" using c'(2) unfolding has_shape_def by blast
  show ?thesis
    unfolding sentrycrashjson_beginArray_def begin_container_def
    by (simp add: l l' n c'(1) set_isObject_def ok_def)
qed

lemma closed_arrays:
  assumes "k < 200" "2 * k \<le> space"
  shows "\<exists>c. steps (replicate k (sentrycrashjson_beginArray None) @ [sentrycrashjson_endEncode])
      (sentrycrashjson_beginEncode False fixer_addJSONData \<lparr>outputText = [], outputBytesLeft = space\<rparr>) =
        Inr (0, c) \<and> outputText (userData c) = replicate k (CHR ''['') @ replicate k (CHR '']'')"
proof -
  have "fixer_sink.em (steps [sentrycrashjson_endEncode]) (in_arrays k True) (replicate k (CHR '']''))
      (closed_shape k (in_arrays k True))"
    using fixer_sink.emits_endEncode [OF in_arrays_simps(6) [of k True]]
    by (simp only: close_arrays emits_one)
  then have "fixer_sink.em (steps (replicate k (sentrycrashjson_beginArray None) @ [sentrycrashjson_endEncode]))
      (in_arrays 0 True) (replicate k (CHR ''['') @ replicate k (CHR '']''))
      (closed_shape k (in_arrays k True))"
    by (rule emits_append [OF emits_arrays [OF assms(1)]])
  from emits_succeeds [OF this _ TrueI, of "sentrycrashjson_beginEncode False fixer_addJSONData
      \<lparr>outputText = [], outputBytesLeft = space\<rparr>"] assms(2) show ?thesis
    by (simp add: begin_arrays [symmetric] has_shape_beginEncode del: steps.simps)
       (auto simp: sentrycrashjson_beginEncode_def)
qed

lemma too_many_arrays:
  assumes "199 \<le> space"
  shows "steps (replicate (200 + m) (sentrycrashjson_beginArray None))
      (sentrycrashjson_beginEncode False fixer_addJSONData \<lparr>outputText = [], outputBytesLeft = space\<rparr>) =
    Inl UndefinedBehaviour"
proof -
  let ?start = "sentrycrashjson_beginEncode False fixer_addJSONData
    \<lparr>outputText = [], outputBytesLeft = space\<rparr>"
  have start: "has_shape fixer_addJSONData (in_arrays 0 True) ?start"
    unfolding begin_arrays [symmetric] by (rule has_shape_beginEncode)
  have "length (replicate 199 (CHR ''['')) \<le> outputBytesLeft (userData ?start)"
    using assms by (simp only: length_replicate) (simp add: sentrycrashjson_beginEncode_def)
  from emits_succeeds [OF emits_arrays [of 199] start TrueI this]
  obtain c where "steps (replicate 199 (sentrycrashjson_beginArray None)) ?start = Inr (0, c)"
      "has_shape fixer_addJSONData (in_arrays 199 True) c" by auto
  moreover have "replicate (200 + m) b = replicate 199 b @ b # replicate m b" for b :: "out_buffer enc"
    by (simp only: replicate_add [symmetric] replicate_Suc [symmetric]) simp
  ultimately show ?thesis
    by (simp only: steps_append sum.case prod.case) (simp add: beginArray_too_deep)
qed

text \<open>
  C30. Up to 199 nested arrays are opened, and closed again by \<open>endEncode\<close>, as so many brackets. One
  more writes past the end of the array \<open>isObject\<close>: the code never checks its 200 entries.
\<close>

theorem nesting_limit:
  "(k < 200 \<and> 2 * k \<le> space \<longrightarrow>
     (\<exists>c. steps (replicate k (sentrycrashjson_beginArray None) @ [sentrycrashjson_endEncode])
        (sentrycrashjson_beginEncode False fixer_addJSONData
           \<lparr>outputText = [], outputBytesLeft = space\<rparr>) = Inr (0, c) \<and>
      outputText (userData c) = replicate k (CHR ''['') @ replicate k (CHR '']''))) \<and>
   (200 \<le> k \<and> 199 \<le> space \<longrightarrow>
      steps (replicate k (sentrycrashjson_beginArray None))
        (sentrycrashjson_beginEncode False fixer_addJSONData
           \<lparr>outputText = [], outputBytesLeft = space\<rparr>) = Inl UndefinedBehaviour)"
  using closed_arrays [of k space] too_many_arrays [of space "k - 200"] by auto

theorem nesting_limit_witness:
  "(\<exists>c. steps (replicate 2 (sentrycrashjson_beginArray None) @ [sentrycrashjson_endEncode])
        (sentrycrashjson_beginEncode False fixer_addJSONData
           \<lparr>outputText = [], outputBytesLeft = 4\<rparr>) = Inr (0, c) \<and>
      outputText (userData c) = replicate 2 (CHR ''['') @ replicate 2 (CHR '']'')) \<and>
   steps (replicate 200 (sentrycrashjson_beginArray None))
        (sentrycrashjson_beginEncode False fixer_addJSONData
           \<lparr>outputText = [], outputBytesLeft = 199\<rparr>) = Inl UndefinedBehaviour"
  using nesting_limit [of 2 4] nesting_limit [of 200 199] by (simp only: order_refl) simp

end
