(* ===== verification/Fixer_Props.thy ===== *)
theory Fixer_Props
  imports Report_Fixer_Spec Json_Props
begin

text \<open>The properties of the report fixer, over the model's definitions alone.\<close>

definition sample_report :: "unit json" where
  "sample_report = JObject
     [(''report'', JObject [(''timestamp'', JInt 1586183100), (''type'', JInt 3)]),
      (''text'', JString (''xxxxxxxxxxxxxxxxxxxx''))]"

definition sample_fixed :: "unit json" where
  "sample_fixed = JObject
     [(''report'', JObject [(''timestamp'', JString ''2020-04-06T14:25:00Z''), (''type'', JInt 3)]),
      (''text'', JString (''xxxxxxxxxxxxxxxxxxxx''))]"

lemma sample_time: "gmtime 1586183100 =
    \<lparr>tm_year = 120, tm_mon = 3, tm_mday = 6, tm_hour = 14, tm_min = 25, tm_sec = 0\<rparr>"
  by code_simp

lemma sample_pads: "pad_zero 4 2020 = ''2020''" "pad_zero 2 4 = ''04''" "pad_zero 2 6 = ''06''"
  "pad_zero 2 14 = ''14''" "pad_zero 2 25 = ''25''" "pad_zero 2 0 = ''00''"
  by (simp_all add: pad_zero_def show_nat.simps digit_char_def char_of_def bit_0)

lemma sample_date: "sentrycrashdate_utcStringFromTimestamp 1586183100 = ''2020-04-06T14:25:00Z''"
  by (simp add: sentrycrashdate_utcStringFromTimestamp_def sample_time sample_pads)

lemmas sample_simps = sample_report_def sample_fixed_def show_int_def show_nat.simps digit_char_def quoted_def
  item_lead_def closing_lead_def colon_def indent_text_def c_string_def escape_def

lemma sample_fix: "fix_json [] None sample_report = sample_fixed"
  by (simp add: sample_report_def sample_fixed_def is_date_def date_rows_def path_entry_def
    MAX_NAME_LENGTH_def c_string_def sample_date)

lemma sample_ok:
  "fits_buffers no_floats 37500 112500 sample_report" "reread no_floats sample_report = sample_report"
  "\<not> is_number sample_report" "encodable 0 sample_report" "fixable [] None sample_report"
  by (simp_all add: sample_report_def c_string_def escape_def is_number_def escapable_string_def
    escapable_def inside_date_def date_rows_def path_entry_def MAX_NAME_LENGTH_def)

lemma sample_lengths:
  "length (render no_floats True 0 sample_report) = 112"
  "length (render no_floats True 0 sample_fixed) = 124"
  by (simp_all add: sample_simps)

lemma sample_text: "json_text no_floats 37500 112500 sample_report (render no_floats True 0 sample_report)"
  using render_json_text [OF sample_ok(1), of True 0] by (simp only: sample_ok(2))

lemma sample_no_nul: "no_nul (render no_floats True 0 sample_report)"
  by (simp add: sample_simps no_nul_def char_of_def bit_0)

text \<open>
  C4. A report is rewritten as the pretty printed text of its fixed value: the integers at the date
  paths become date texts, everything else stays. This holds for every report text of the grammar
  that nests at most 100 deep, has no integer inside a container at a date path and whose new
  text is shorter than one and a half times the old one; \<open>malloc\<close> has to succeed.
\<close>

theorem fixup_rewrites_dates:
  assumes "json_text fp 37500 112500 t tx" "\<not> is_number t" "no_nul tx"
    "encodable 0 t" "fixable [] None t"
    "length (render fp True 0 (fix_json [] None t)) < 3 * length tx div 2"
    "alloc SentryCrashMAX_STRINGBUFFERSIZE" "alloc (int (3 * length tx div 2))"
  shows "sentrycrashcrf_fixupCrashReport fp alloc (Some tx) =
    Inr (Some (render fp True 0 (fix_json [] None t)))"
  using fixupCrashReport_result [OF assms(1-5) _ assms(7,8)] assms(6) by simp

theorem fixup_rewrites_dates_witness:
  "sentrycrashcrf_fixupCrashReport no_floats (\<lambda>_. True) (Some (render no_floats True 0 sample_report)) =
     Inr (Some (render no_floats True 0 sample_fixed))"
  using fixup_rewrites_dates [OF sample_text sample_ok(3) sample_no_nul sample_ok(4,5), of "\<lambda>_. True"]
  by (simp add: sample_fix sample_lengths)

text \<open>
  C37. The terminator of the new report is written without a check: a report whose new text fills
  the buffer of one and a half times the old length exactly writes one byte past it.
\<close>

theorem fixup_terminator_overflow:
  assumes "json_text fp 37500 112500 t tx" "\<not> is_number t" "no_nul tx"
    "encodable 0 t" "fixable [] None t"
    "length (render fp True 0 (fix_json [] None t)) = 3 * length tx div 2"
    "alloc SentryCrashMAX_STRINGBUFFERSIZE" "alloc (int (3 * length tx div 2))"
  shows "sentrycrashcrf_fixupCrashReport fp alloc (Some tx) = Inl UndefinedBehaviour"
  using fixupCrashReport_result [OF assms(1-5) _ assms(7,8)] assms(6) by simp

theorem fixup_terminator_overflow_witness:
  "sentrycrashcrf_fixupCrashReport no_floats (\<lambda>_. True) (Some ([CHR ''['', CHR 0x22] @ ''abcdefgh'' @ [CHR 0x22, CHR '']''])) =
     Inl UndefinedBehaviour"
proof -
  let ?t = "JArray [JString ''abcdefgh''] :: unit json"
    and ?tx = "[CHR ''['', CHR 0x22] @ ''abcdefgh'' @ [CHR 0x22, CHR '']'']"
  have r: "render no_floats False 0 ?t = ?tx" "reread no_floats ?t = ?t"
    by (simp_all add: sample_simps)
  have "json_text no_floats 37500 112500 (reread no_floats ?t) (render no_floats False 0 ?t)"
    by (rule render_json_text) (simp add: sample_simps)
  then have "json_text no_floats 37500 112500 ?t ?tx" by (simp only: r)
  then show ?thesis
    by (rule fixup_terminator_overflow)
       (simp_all add: is_number_def no_nul_def sample_simps escapable_string_def escapable_def)
qed

text \<open>
  Which integers count as dates. The path of enclosing names and the name at hand is compared
  with each date path only as far as it goes, so every beginning of a date path counts as one; and
  an integer inside a container that sits at a date path makes \<open>strncmp\<close> read a null pointer.
\<close>

theorem date_recognition:
  assumes "clean_path P" "take (nat (currentDepth c)) (objectPath c) = P"
  shows "shouldFixDate c n = (if inside_date P then Inl UndefinedBehaviour else Inr (is_date P n))"
  by (rule shouldFixDate_cases [OF assms])

definition sample_context :: "path \<Rightarrow> fixup_context" where
  "sample_context P =
     \<lparr>encodeContext = sentrycrashjson_beginEncode True fixer_addJSONData
        \<lparr>outputText = [], outputBytesLeft = 9\<rparr>,
      objectPath = P @ replicate (100 - length P) [], currentDepth = int (length P)\<rparr>"

lemma sample_context_path: "take (nat (currentDepth (sample_context P))) (objectPath (sample_context P)) = P"
  by (simp add: sample_context_def)

lemma sample_paths:
  "clean_path [[], ''report'', ''timestamp'']" "clean_path [[]]"
  "inside_date [[], ''report'', ''timestamp'']" "\<not> inside_date [[]]"
  by (simp_all add: clean_path_def no_nul_def MAX_NAME_LENGTH_def inside_date_def date_rows_def)

lemma sample_path_date: "is_date [[]] (Some ''report'')"
  by (simp add: date_rows_def is_date_def path_entry_def c_string_def MAX_NAME_LENGTH_def)

theorem date_recognition_witness:
  "shouldFixDate (sample_context [[], ''report'', ''timestamp'']) None = Inl UndefinedBehaviour \<and>
   shouldFixDate (sample_context [[]]) (Some ''report'') = Inr True"
  using date_recognition [OF sample_paths(1) sample_context_path, of None]
    date_recognition [OF sample_paths(2) sample_context_path, of "Some ''report''"]
  unfolding if_P [OF sample_paths(3)] if_not_P [OF sample_paths(4)] eqTrueI [OF sample_path_date]
  by (rule conjI)

lemma date_char_plain: "date_char b \<Longrightarrow> escape b = [b]"
proof -
  assume "date_char b"
  then have "b \<notin> {CHR 0x5C, CHR 0x22, CHR 0x08, CHR 0x0C, CHR 0x0A, CHR 0x0D, CHR 0x09}"
    by (auto simp: date_char_def is_digit_def)
  then show ?thesis by (simp add: escape_def)
qed

lemma date_chars_plain: "list_all date_char s \<Longrightarrow> escape_string s = s"
  by (induction s) (simp_all add: date_char_plain)

text \<open>
  A date text never overruns the buffer of 21 bytes it is made for, and it has only digits
  and the characters \<open>- T : Z\<close>, whatever the 64-bit time stamp, so it needs no escape.
\<close>

theorem date_text_fits:
  "length (sentrycrashdate_utcStringFromTimestamp t) \<le> 20 \<and>
   list_all date_char (sentrycrashdate_utcStringFromTimestamp t) \<and>
   escape_string (sentrycrashdate_utcStringFromTimestamp t) = sentrycrashdate_utcStringFromTimestamp t"
  using utcString_length [of t] utcString_chars [of t] date_chars_plain by blast

end
