(* ===== verification/File_Utils.thy ===== *)
theory File_Utils
  imports Prelude
begin

text \<open>
  \<open>Recording/Tools/SentryCrashFileUtils.c\<close>: unbuffered and buffered reading and writing on file
  descriptors, paths and directories. The system calls are not part of the repository: they come
  as a record of functions on a state of the file system, and the code's loops around them are
  modelled as they are.
\<close>

section \<open>The system calls\<close>

datatype file_kind = RegularFile | Directory | OtherFile

datatype mkdir_result = MkdirDone | MkdirExists | MkdirFailed

text \<open>
  The three ways to open are \<open>O_RDONLY\<close>, \<open>O_RDWR | O_CREAT | O_EXCL\<close> and
  \<open>O_RDWR | O_CREAT | O_TRUNC\<close>. Results follow the C library: a descriptor or a count below 0 is a failure, \<open>None\<close> from a read
  is \<open>-1\<close>, and a directory that cannot be opened has no listing.
\<close>

record 'f os =
  os_open_read :: "bytes \<Rightarrow> 'f \<Rightarrow> int \<times> 'f"
  os_open_new :: "bytes \<Rightarrow> 'f \<Rightarrow> int \<times> 'f"
  os_open_trunc :: "bytes \<Rightarrow> 'f \<Rightarrow> int \<times> 'f"
  os_close :: "int \<Rightarrow> 'f \<Rightarrow> 'f"
  os_read :: "int \<Rightarrow> nat \<Rightarrow> 'f \<Rightarrow> bytes option \<times> 'f"
  os_write :: "int \<Rightarrow> bytes \<Rightarrow> 'f \<Rightarrow> int \<times> 'f"
  os_seek_end :: "int \<Rightarrow> nat \<Rightarrow> 'f \<Rightarrow> bool \<times> 'f"
  os_fstat_size :: "int \<Rightarrow> 'f \<Rightarrow> nat option"
  os_stat :: "bytes \<Rightarrow> 'f \<Rightarrow> file_kind option"
  os_list :: "bytes \<Rightarrow> 'f \<Rightarrow> bytes list option \<times> 'f"
  os_remove :: "bytes \<Rightarrow> 'f \<Rightarrow> bool \<times> 'f"
  os_mkdir :: "bytes \<Rightarrow> 'f \<Rightarrow> mkdir_result \<times> 'f"

section \<open>Paths\<close>

definition after_last_slash :: "bytes \<Rightarrow> bytes" where
  "after_last_slash path = rev (takeWhile (\<lambda>b. b \<noteq> CHR ''/'') (rev path))"

definition canDeletePath :: "bytes \<Rightarrow> bool" where
  "canDeletePath path =
     (let lastComponent = after_last_slash path
      in if lastComponent = ''.'' then False else if lastComponent = ''..'' then False else True)"

definition sentrycrashfu_lastPathEntry :: "bytes option \<Rightarrow> bytes option" where
  "sentrycrashfu_lastPathEntry path = map_option after_last_slash path"

section \<open>Reading and writing a descriptor\<close>

text \<open>
  The write loop goes on until everything is written or a call fails. A call that writes nothing
  is repeated, so the loop has fuel; one unit per byte is enough when every call that does not
  fail writes something.
\<close>

fun write_loop :: "nat \<Rightarrow> 'f os \<Rightarrow> int \<Rightarrow> bytes \<Rightarrow> 'f \<Rightarrow> (bool \<times> 'f) run" where
  "write_loop 0 os fd data w = (if data = [] then Inr (True, w) else Inl OutOfFuel)"
| "write_loop (Suc fuel) os fd data w =
     (if data = [] then Inr (True, w)
      else let (bytesWritten, w) = os_write os fd data w
           in if bytesWritten = -1 then Inr (False, w)
              else write_loop fuel os fd (drop (nat bytesWritten) data) w)"

definition sentrycrashfu_writeBytesToFD :: "'f os \<Rightarrow> int \<Rightarrow> bytes \<Rightarrow> 'f \<Rightarrow> (bool \<times> 'f) run" where
  "sentrycrashfu_writeBytesToFD os fd data w = write_loop (length data) os fd data w"

text \<open>
  The read loop has the same form; at the end of the file \<open>read\<close> returns 0 bytes without an error,
  and the loop does not look for that. The result carries what was read.
\<close>

fun read_loop :: "nat \<Rightarrow> 'f os \<Rightarrow> int \<Rightarrow> nat \<Rightarrow> bytes \<Rightarrow> 'f \<Rightarrow> (bool \<times> bytes \<times> 'f) run" where
  "read_loop 0 os fd len got w = (if len = 0 then Inr (True, got, w) else Inl OutOfFuel)"
| "read_loop (Suc fuel) os fd len got w =
     (if len = 0 then Inr (True, got, w)
      else case os_read os fd len w of
          (None, w) \<Rightarrow> Inr (False, got, w)
        | (Some data, w) \<Rightarrow> read_loop fuel os fd (len - length data) (got @ data) w)"

definition sentrycrashfu_readBytesFromFD ::
    "nat \<Rightarrow> 'f os \<Rightarrow> int \<Rightarrow> nat \<Rightarrow> 'f \<Rightarrow> (bool \<times> bytes \<times> 'f) run" where
  "sentrycrashfu_readBytesFromFD fuel os fd len w = read_loop fuel os fd len [] w"

text \<open>
  The whole file, or its last \<open>maxLength\<close> bytes. A failure leaves a null pointer in \<open>*data\<close>.
\<close>

definition sentrycrashfu_readEntireFile ::
    "nat \<Rightarrow> 'f os \<Rightarrow> (nat \<Rightarrow> bool) \<Rightarrow> bytes \<Rightarrow> nat \<Rightarrow> 'f \<Rightarrow> (bool \<times> bytes option \<times> nat \<times> 'f) run" where
  "sentrycrashfu_readEntireFile fuel os alloc path maxLength w =
     (let (fd, w) = os_open_read os path w
      in if fd < 0 then Inr (False, None, 0, w)
         else case os_fstat_size os fd w of
             None \<Rightarrow> Inr (False, None, 0, os_close os fd w)
           | Some fileSize \<Rightarrow>
               let whole = (maxLength = 0 \<or> fileSize \<le> maxLength);
                   bytesToRead = (if whole then fileSize else maxLength);
                   (sought, w) = (if whole then (True, w) else os_seek_end os fd bytesToRead w)
               in if \<not> sought then Inr (False, None, 0, os_close os fd w)
                  else if \<not> alloc (bytesToRead + 1) then Inr (False, None, 0, os_close os fd w)
                  else bind_run (sentrycrashfu_readBytesFromFD fuel os fd bytesToRead w)
                         (\<lambda>(good, data, w).
                            let w = os_close os fd w
                            in if good then Inr (True, Some data, bytesToRead, w)
                               else Inr (False, None, 0, w)))"

definition sentrycrashfu_writeStringToFD :: "'f os \<Rightarrow> int \<Rightarrow> bytes \<Rightarrow> 'f \<Rightarrow> (bool \<times> 'f) run" where
  "sentrycrashfu_writeStringToFD os fd string w =
     (if c_string string \<noteq> [] then write_loop (strlen string) os fd (c_string string) w
      else Inr (False, w))"

definition SentryCrashFU_WriteFmtBufferSize :: nat where "SentryCrashFU_WriteFmtBufferSize = 1024"

text \<open>The formatted text is an argument: the format string only matters where it is empty.\<close>

definition sentrycrashfu_writeFmtArgsToFD ::
    "'f os \<Rightarrow> int \<Rightarrow> bytes \<Rightarrow> bytes \<Rightarrow> 'f \<Rightarrow> (bool \<times> 'f) run" where
  "sentrycrashfu_writeFmtArgsToFD os fd fmt formatted w =
     (if fmt \<noteq> []
      then sentrycrashfu_writeStringToFD os fd (take (SentryCrashFU_WriteFmtBufferSize - 1) formatted) w
      else Inr (False, w))"

definition sentrycrashfu_writeFmtToFD ::
    "'f os \<Rightarrow> int \<Rightarrow> bytes \<Rightarrow> bytes \<Rightarrow> 'f \<Rightarrow> (bool \<times> 'f) run" where
  "sentrycrashfu_writeFmtToFD os fd fmt formatted w =
     (if fmt \<noteq> [] then sentrycrashfu_writeFmtArgsToFD os fd fmt formatted w else Inr (False, w))"

text \<open>
  A line, read byte by byte into a buffer of \<open>maxLength\<close> bytes: the length, or -1, and the line.
  \<open>room\<close> is the number of bytes before the last one of the buffer.
\<close>

fun read_line :: "nat \<Rightarrow> 'f os \<Rightarrow> int \<Rightarrow> bytes \<Rightarrow> 'f \<Rightarrow> int \<times> bytes \<times> 'f" where
  "read_line 0 os fd line w = (int (length line), line, w)"
| "read_line (Suc room) os fd line w =
     (case os_read os fd 1 w of
        (None, w) \<Rightarrow> (-1, line, w)
      | (Some [], w) \<Rightarrow> (int (length line), line, w)
      | (Some (b # _), w) \<Rightarrow>
          if b = CHR ''\<newline>'' then (int (length line), line, w)
          else read_line room os fd (line @ [b]) w)"

definition sentrycrashfu_readLineFromFD :: "'f os \<Rightarrow> int \<Rightarrow> nat \<Rightarrow> 'f \<Rightarrow> (int \<times> bytes \<times> 'f) run" where
  "sentrycrashfu_readLineFromFD os fd maxLength w =
     (if maxLength = 0 then Inl UndefinedBehaviour else Inr (read_line (maxLength - 1) os fd [] w))"

section \<open>Directories\<close>

definition dirContentsCount :: "'f os \<Rightarrow> bytes \<Rightarrow> 'f \<Rightarrow> nat \<times> 'f" where
  "dirContentsCount os path w =
     (case os_list os path w of (None, w) \<Rightarrow> (0, w) | (Some names, w) \<Rightarrow> (length names, w))"

text \<open>
  The directory is listed twice, first to count; entries that vanished in between stay null and
  surplus ones are dropped.
\<close>

definition dirContents :: "'f os \<Rightarrow> (nat \<Rightarrow> bool) \<Rightarrow> bytes \<Rightarrow> 'f \<Rightarrow> bytes option list \<times> 'f" where
  "dirContents os alloc path w =
     (let (entryCount, w) = dirContentsCount os path w
      in if entryCount = 0 then ([], w)
         else case os_list os path w of
             (None, w) \<Rightarrow> ([], w)
           | (Some names, w) \<Rightarrow>
               if \<not> alloc entryCount then ([], w)
               else (take entryCount (map Some names @ replicate entryCount None), w))"

definition sentrycrashfu_removeFile :: "'f os \<Rightarrow> bytes \<Rightarrow> bool \<Rightarrow> 'f \<Rightarrow> bool \<times> 'f" where
  "sentrycrashfu_removeFile os path mustExist w = os_remove os path w"

definition SentryCrashFU_MAX_PATH_LENGTH :: nat where "SentryCrashFU_MAX_PATH_LENGTH = 500"

text \<open>
  The path of an entry is put together in a buffer of \<open>SentryCrashFU_MAX_PATH_LENGTH\<close> bytes. A name
  that does not fit is copied without a terminator, and using the path then is undefined.
\<close>

definition entry_path :: "bytes \<Rightarrow> bytes \<Rightarrow> bytes run" where
  "entry_path path entry =
     (let prefix = take (SentryCrashFU_MAX_PATH_LENGTH - 1) (path @ ''/'')
      in if length prefix + length entry < SentryCrashFU_MAX_PATH_LENGTH then Inr (prefix @ entry)
         else Inl UndefinedBehaviour)"

fun deletePathContents :: "nat \<Rightarrow> 'f os \<Rightarrow> (nat \<Rightarrow> bool) \<Rightarrow> bytes \<Rightarrow> bool \<Rightarrow> 'f \<Rightarrow> (bool \<times> 'f) run"
  and delete_entries :: "nat \<Rightarrow> 'f os \<Rightarrow> (nat \<Rightarrow> bool) \<Rightarrow> bytes \<Rightarrow> bytes option list \<Rightarrow> 'f \<Rightarrow> 'f run"
where
  "deletePathContents 0 os alloc path alsoTop w = Inl OutOfFuel"
| "deletePathContents (Suc fuel) os alloc path alsoTop w =
     (case os_stat os path w of
        None \<Rightarrow> Inr (False, w)
      | Some Directory \<Rightarrow>
          let (entries, w) = dirContents os alloc path w
          in if \<not> alloc SentryCrashFU_MAX_PATH_LENGTH then Inl UndefinedBehaviour
             else bind_run (delete_entries fuel os alloc path entries w) (\<lambda>w.
               Inr (True, if alsoTop then snd (sentrycrashfu_removeFile os path False w) else w))
      | Some RegularFile \<Rightarrow> Inr (True, snd (sentrycrashfu_removeFile os path False w))
      | Some OtherFile \<Rightarrow> Inr (False, w))"
| "delete_entries fuel os alloc path [] w = Inr w"
| "delete_entries 0 os alloc path (e # es) w = Inl OutOfFuel"
| "delete_entries (Suc fuel) os alloc path (e # es) w =
     bind_run
       (case e of
          None \<Rightarrow> Inr w
        | Some entry \<Rightarrow>
            if \<not> canDeletePath entry then Inr w
            else bind_run (entry_path path entry) (\<lambda>p.
              bind_run (deletePathContents fuel os alloc p True w) (\<lambda>(_, w). Inr w)))
       (\<lambda>w. delete_entries fuel os alloc path es w)"

definition sentrycrashfu_deleteContentsOfPath ::
    "nat \<Rightarrow> 'f os \<Rightarrow> (nat \<Rightarrow> bool) \<Rightarrow> bytes \<Rightarrow> 'f \<Rightarrow> (bool \<times> 'f) run" where
  "sentrycrashfu_deleteContentsOfPath fuel os alloc path w =
     (if \<not> canDeletePath path then Inr (False, w) else deletePathContents fuel os alloc path False w)"

text \<open>Every prefix of the path that ends before a slash is made a directory, then the path itself.\<close>

fun make_prefixes :: "'f os \<Rightarrow> bytes \<Rightarrow> bytes \<Rightarrow> 'f \<Rightarrow> bool \<times> 'f" where
  "make_prefixes os done [] w =
     (case os_mkdir os done w of (MkdirFailed, w) \<Rightarrow> (False, w) | (_, w) \<Rightarrow> (True, w))"
| "make_prefixes os done (b # rest) w =
     (if b = CHR ''/'' then
        (case os_mkdir os done w of
           (MkdirFailed, w) \<Rightarrow> (False, w)
         | (_, w) \<Rightarrow> make_prefixes os (done @ [b]) rest w)
      else make_prefixes os (done @ [b]) rest w)"

definition sentrycrashfu_makePath :: "'f os \<Rightarrow> bytes \<Rightarrow> 'f \<Rightarrow> (bool \<times> 'f) run" where
  "sentrycrashfu_makePath os absolutePath w =
     (case absolutePath of
        [] \<Rightarrow> Inl UndefinedBehaviour
      | b # rest \<Rightarrow> Inr (make_prefixes os [b] rest w))"

end
