(* ===== verification/File_Buffer.thy ===== *)
theory File_Buffer
  imports File_Utils
begin

text \<open>
  The buffered writer and the buffered reader of \<open>SentryCrashFileUtils.c\<close>. The buffers are the
  caller's memory; copying past them is undefined.
\<close>

section \<open>The writer\<close>

text \<open>\<open>w_buffer\<close> is the whole buffer, of which the first \<open>w_position\<close> bytes are not yet written.\<close>

record buffered_writer =
  w_buffer :: bytes
  w_position :: nat
  w_fd :: int

abbreviation w_bufferLength :: "buffered_writer \<Rightarrow> nat" where
  "w_bufferLength wr \<equiv> length (w_buffer wr)"

type_synonym 'f writing = "buffered_writer \<times> 'f"

definition memcpy_at :: "bytes \<Rightarrow> nat \<Rightarrow> bytes \<Rightarrow> bytes run" where
  "memcpy_at memory p data =
     (if p + length data \<le> length memory
      then Inr (take p memory @ data @ drop (p + length data) memory)
      else Inl UndefinedBehaviour)"

definition sentrycrashfu_openBufferedWriter ::
    "'f os \<Rightarrow> bytes \<Rightarrow> bytes \<Rightarrow> 'f \<Rightarrow> bool \<times> 'f writing" where
  "sentrycrashfu_openBufferedWriter os path writeBuffer w =
     (let (fd, w) = os_open_new os path w;
          writer = \<lparr>w_buffer = writeBuffer, w_position = 0, w_fd = fd\<rparr>
      in (0 \<le> fd, writer, w))"

definition sentrycrashfu_flushBufferedWriter :: "'f os \<Rightarrow> 'f writing \<Rightarrow> (bool \<times> 'f writing) run" where
  "sentrycrashfu_flushBufferedWriter os = (\<lambda>(writer, w).
     if w_fd writer > 0 \<and> w_position writer > 0 then
       bind_run (sentrycrashfu_writeBytesToFD os (w_fd writer) (take (w_position writer) (w_buffer writer)) w)
         (\<lambda>(good, w).
            if \<not> good then Inr (False, (writer, w)) else Inr (True, (writer\<lparr>w_position := 0\<rparr>, w)))
     else Inr (True, (writer, w)))"

definition sentrycrashfu_closeBufferedWriter :: "'f os \<Rightarrow> 'f writing \<Rightarrow> 'f writing run" where
  "sentrycrashfu_closeBufferedWriter os = (\<lambda>(writer, w).
     if w_fd writer > 0 then
       bind_run (sentrycrashfu_flushBufferedWriter os (writer, w)) (\<lambda>(_, writer, w).
         Inr (writer\<lparr>w_fd := -1\<rparr>, os_close os (w_fd writer) w))
     else Inr (writer, w))"

text \<open>The status of the flush is ignored, so the copy may find no room.\<close>

definition sentrycrashfu_writeBufferedWriter ::
    "'f os \<Rightarrow> bytes \<Rightarrow> 'f writing \<Rightarrow> (bool \<times> 'f writing) run" where
  "sentrycrashfu_writeBufferedWriter os data = (\<lambda>(writer, w).
     bind_run
       (if length data > w_bufferLength writer - w_position writer
        then bind_run (sentrycrashfu_flushBufferedWriter os (writer, w)) (\<lambda>(_, s). Inr s)
        else Inr (writer, w))
       (\<lambda>(writer, w).
          if length data > w_bufferLength writer then
            bind_run (sentrycrashfu_writeBytesToFD os (w_fd writer) data w) (\<lambda>(good, w).
              Inr (good, (writer, w)))
          else
            bind_run (memcpy_at (w_buffer writer) (w_position writer) data) (\<lambda>buffer.
              Inr (True, (writer\<lparr>w_buffer := buffer, w_position := w_position writer + length data\<rparr>, w)))))"

section \<open>The reader\<close>

text \<open>
  \<open>r_buffer\<close> is the caller's memory, one byte longer than the \<open>bufferLength\<close> of the code, which keeps
  a terminator behind the data.
\<close>

record buffered_reader =
  r_buffer :: bytes
  r_dataStartPos :: nat
  r_dataEndPos :: nat
  r_fd :: int

abbreviation r_bufferLength :: "buffered_reader \<Rightarrow> nat" where
  "r_bufferLength rd \<equiv> length (r_buffer rd) - 1"

type_synonym 'f reading = "buffered_reader \<times> 'f"

definition set_byte :: "bytes \<Rightarrow> nat \<Rightarrow> byte \<Rightarrow> bytes run" where
  "set_byte memory p b = memcpy_at memory p [b]"

definition isReadBufferEmpty :: "buffered_reader \<Rightarrow> bool" where
  "isReadBufferEmpty reader \<longleftrightarrow> r_dataEndPos reader = r_dataStartPos reader"

text \<open>
  The unread bytes are moved to the front by a \<open>memmove\<close> of \<open>dataStartPos\<close> bytes, whatever their
  number. It is undefined when those bytes reach past the memory.
\<close>

definition move_to_front :: "buffered_reader \<Rightarrow> buffered_reader run" where
  "move_to_front reader =
     (let start = r_dataStartPos reader
      in if start = 0 then Inr reader
         else if 2 * start > length (r_buffer reader) then Inl UndefinedBehaviour
         else
           let buffer = take start (drop start (r_buffer reader)) @ drop start (r_buffer reader);
               dataEnd = r_dataEndPos reader - start
           in bind_run (set_byte buffer dataEnd NUL) (\<lambda>buffer.
                Inr (reader\<lparr>r_buffer := buffer, r_dataStartPos := 0, r_dataEndPos := dataEnd\<rparr>)))"

definition fillReadBuffer :: "'f os \<Rightarrow> 'f reading \<Rightarrow> (bool \<times> 'f reading) run" where
  "fillReadBuffer os = (\<lambda>(reader, w).
     bind_run (move_to_front reader) (\<lambda>reader.
       let bytesToRead = r_bufferLength reader - r_dataEndPos reader
       in if bytesToRead = 0 then Inr (True, (reader, w))
          else case os_read os (r_fd reader) bytesToRead w of
              (None, w) \<Rightarrow> Inr (False, (reader, w))
            | (Some data, w) \<Rightarrow>
                bind_run (memcpy_at (r_buffer reader) (r_dataEndPos reader) data) (\<lambda>buffer.
                  let dataEnd = r_dataEndPos reader + length data
                  in bind_run (set_byte buffer dataEnd NUL) (\<lambda>buffer.
                       Inr (True, (reader\<lparr>r_buffer := buffer, r_dataEndPos := dataEnd\<rparr>, w))))))"

definition sentrycrashfu_openBufferedReader ::
    "'f os \<Rightarrow> bytes \<Rightarrow> bytes \<Rightarrow> 'f \<Rightarrow> (bool \<times> 'f reading) run" where
  "sentrycrashfu_openBufferedReader os path readBuffer w =
     (if readBuffer = [] then Inl UndefinedBehaviour
      else
        let buffer = (readBuffer[0 := NUL])[length readBuffer - 1 := NUL];
            (fd, w) = os_open_read os path w;
            reader = \<lparr>r_buffer = buffer, r_dataStartPos = 0, r_dataEndPos = 0, r_fd = fd\<rparr>
        in if fd < 0 then Inr (False, (reader, w))
           else bind_run (fillReadBuffer os (reader, w)) (\<lambda>(_, s). Inr (True, s)))"

definition sentrycrashfu_closeBufferedReader :: "'f os \<Rightarrow> 'f reading \<Rightarrow> 'f reading" where
  "sentrycrashfu_closeBufferedReader os = (\<lambda>(reader, w).
     if r_fd reader > 0 then (reader\<lparr>r_fd := -1\<rparr>, os_close os (r_fd reader) w) else (reader, w))"

text \<open>
  Both reading loops consume at least one byte per round, so the byte count bounds their rounds.
  \<open>got\<close> is what was copied so far.
\<close>

definition take_bytes :: "nat \<Rightarrow> buffered_reader \<Rightarrow> bytes \<times> buffered_reader" where
  "take_bytes n reader =
     (take n (drop (r_dataStartPos reader) (r_buffer reader)),
      reader\<lparr>r_dataStartPos := r_dataStartPos reader + n\<rparr>)"

fun read_bytes :: "nat \<Rightarrow> 'f os \<Rightarrow> nat \<Rightarrow> bytes \<Rightarrow> 'f reading \<Rightarrow> (bytes \<times> 'f reading) run" where
  "read_bytes 0 os bytesRemaining got s = (if bytesRemaining = 0 then Inr (got, s) else Inl OutOfFuel)"
| "read_bytes (Suc fuel) os bytesRemaining got s =
     (if bytesRemaining = 0 then Inr (got, s)
      else
        bind_run
          (if r_dataEndPos (fst s) - r_dataStartPos (fst s) = 0 then fillReadBuffer os s else Inr (True, s))
          (\<lambda>(filled, reader, w).
             let bytesInReader = r_dataEndPos reader - r_dataStartPos reader
             in if \<not> filled \<or> bytesInReader = 0 then Inr (got, (reader, w))
                else
                  let n = min bytesInReader bytesRemaining; (data, reader) = take_bytes n reader
                  in read_bytes fuel os (bytesRemaining - n) (got @ data) (reader, w)))"

definition sentrycrashfu_readBufferedReader ::
    "'f os \<Rightarrow> nat \<Rightarrow> 'f reading \<Rightarrow> (bytes \<times> 'f reading) run" where
  "sentrycrashfu_readBufferedReader os byteCount s = read_bytes byteCount os byteCount [] s"

text \<open>
  \<open>strchr\<close> runs from the data's start to the terminator, past what is asked for and, when the data
  contain a zero byte, not to their end. Its place is given relative to the start.
\<close>

definition strchr_from :: "bytes \<Rightarrow> nat \<Rightarrow> byte \<Rightarrow> nat option run" where
  "strchr_from memory p ch =
     (let s = drop p memory; text = takeWhile (\<lambda>b. b \<noteq> ch \<and> b \<noteq> NUL) s
      in if length text = length s then Inl UndefinedBehaviour
         else if s ! length text = ch then Inr (Some (length text)) else Inr None)"

fun read_until :: "nat \<Rightarrow> 'f os \<Rightarrow> byte \<Rightarrow> nat \<Rightarrow> bytes \<Rightarrow> 'f reading \<Rightarrow>
    (bool \<times> bytes \<times> 'f reading) run" where
  "read_until 0 os ch bytesRemaining got s =
     (if bytesRemaining = 0 then Inr (False, got, s) else Inl OutOfFuel)"
| "read_until (Suc fuel) os ch bytesRemaining got s =
     (if bytesRemaining = 0 then Inr (False, got, s)
      else
        let (reader, w) = s;
            bytesToCopy = min (r_dataEndPos reader - r_dataStartPos reader) bytesRemaining
        in bind_run (strchr_from (r_buffer reader) (r_dataStartPos reader) ch) (\<lambda>found.
             let n = (case found of None \<Rightarrow> bytesToCopy | Some i \<Rightarrow> min (i + 1) bytesToCopy);
                 (data, reader) = take_bytes n reader;
                 got = got @ data; bytesRemaining = bytesRemaining - n
             in if found \<noteq> None then Inr (True, got, (reader, w))
                else if bytesRemaining = 0 then Inr (False, got, (reader, w))
                else bind_run (fillReadBuffer os (reader, w)) (\<lambda>(_, reader, w).
                       if isReadBufferEmpty reader then Inr (False, got, (reader, w))
                       else read_until fuel os ch bytesRemaining got (reader, w))))"

definition sentrycrashfu_readBufferedReaderUntilChar ::
    "'f os \<Rightarrow> byte \<Rightarrow> nat \<Rightarrow> 'f reading \<Rightarrow> (bool \<times> bytes \<times> 'f reading) run" where
  "sentrycrashfu_readBufferedReaderUntilChar os ch len s = read_until (len + 1) os ch len [] s"

end
