(* ===== verification/Json_File.thy ===== *)
theory Json_File
  imports Json_Roundtrip File_Buffer
begin

text \<open>
  The last part of \<open>Recording/Tools/SentryCrashJSONCodec.c\<close>: JSON that is decoded only to be encoded
  again, from a text in memory or from a file that is read piece by piece while it is decoded. The
  state of the encoder's sink is the world the file is read from, too.
\<close>

section \<open>The context\<close>

text \<open>\<open>decodeContext\<close> is passed beside it; \<open>bufferStart\<close> is offset 0 of its buffer.\<close>

record 'u json_file_context =
  encodeContext :: "'u json_encode_context"
  source_fd :: int
  isEOF :: bool
  closeLastContainer :: bool

type_synonym 'u update_decoder =
  "json_decode_context \<times> 'u json_file_context \<Rightarrow> json_decode_context \<times> 'u json_file_context"

definition updateDecoder_doNothing :: "'u update_decoder" where
  "updateDecoder_doNothing s = s"

text \<open>
  At less than half a buffer the unread bytes are moved to its start and the room behind them is
  filled. \<open>bufferEnd\<close> stays where it is, also when the file has less to give.
\<close>

definition updateDecoder_readFile :: "'u os \<Rightarrow> 'u update_decoder" where
  "updateDecoder_readFile os = (\<lambda>(d, context).
     if isEOF context then (d, context)
     else
       let bufferLength = bufferEnd d;
           remainingLength = bufferEnd d - bufferPtr d
       in if remainingLength < bufferLength div 2 then
            let fillLength = bufferLength - remainingLength;
                remaining = take remainingLength (drop (bufferPtr d) (buffer d));
                (bytesRead, u) = os_read os (source_fd context) fillLength (userData (encodeContext context));
                data = (case bytesRead of None \<Rightarrow> [] | Some data \<Rightarrow> data)
            in (d\<lparr>buffer := remaining @ data @ drop (remainingLength + length data) (buffer d), bufferPtr := 0\<rparr>,
                context\<lparr>encodeContext := (encodeContext context)\<lparr>userData := u\<rparr>,
                        isEOF := length data < fillLength\<rparr>)
          else (d, context))"

section \<open>The callbacks\<close>

definition with_encoder :: "'u enc \<Rightarrow> 'u json_file_context call" where
  "with_encoder f context =
     bind_run (f (encodeContext context)) (\<lambda>(result, c). Inr (result, context\<lparr>encodeContext := c\<rparr>))"

definition end_container_call :: "'u json_file_context call" where
  "end_container_call context =
     (if closeLastContainer context \<or> containerLevel (encodeContext context) > 2
      then with_encoder sentrycrashjson_endContainer context
      else Inr (SentryCrashJSON_OK, context))"

text \<open>What each of the callbacks does before the decoder is updated.\<close>

definition addJSONFromFile_callbacks :: "'d fp_ops \<Rightarrow> ('d, 'u json_file_context) decode_callbacks" where
  "addJSONFromFile_callbacks fp =
     \<lparr>onBooleanElement = (\<lambda>name value. with_encoder (sentrycrashjson_addBooleanElement name value)),
      onFloatingPointElement = (\<lambda>name value. with_encoder (sentrycrashjson_addFloatingPointElement fp name value)),
      onIntegerElement = (\<lambda>name value. with_encoder (sentrycrashjson_addIntegerElement name value)),
      onUIntegerElement = (\<lambda>name value. with_encoder (sentrycrashjson_addUIntegerElement name value)),
      onNullElement = (\<lambda>name. with_encoder (sentrycrashjson_addNullElement name)),
      onStringElement = (\<lambda>name value.
        with_encoder (sentrycrashjson_addStringElement name (Some value) (int (strlen value)))),
      onBeginObject = (\<lambda>name. with_encoder (sentrycrashjson_beginObject name)),
      onBeginArray = (\<lambda>name. with_encoder (sentrycrashjson_beginArray name)),
      onEndContainer = end_container_call,
      onEndData = ok\<rparr>"

definition then_update ::
    "'u update_decoder \<Rightarrow> (json_decode_context \<times> 'u json_file_context) call \<Rightarrow>
       (json_decode_context \<times> 'u json_file_context) call" where
  "then_update update f s = bind_run (f s) (\<lambda>(result, s). Inr (result, update s))"

definition updating_callbacks ::
    "'u update_decoder \<Rightarrow> ('d, json_decode_context \<times> 'u json_file_context) decode_callbacks \<Rightarrow>
       ('d, json_decode_context \<times> 'u json_file_context) decode_callbacks" where
  "updating_callbacks update cb =
     \<lparr>onBooleanElement = (\<lambda>name value. then_update update (onBooleanElement cb name value)),
      onFloatingPointElement = (\<lambda>name value. then_update update (onFloatingPointElement cb name value)),
      onIntegerElement = (\<lambda>name value. then_update update (onIntegerElement cb name value)),
      onUIntegerElement = (\<lambda>name value. then_update update (onUIntegerElement cb name value)),
      onNullElement = (\<lambda>name. then_update update (onNullElement cb name)),
      onStringElement = (\<lambda>name value. then_update update (onStringElement cb name value)),
      onBeginObject = (\<lambda>name. then_update update (onBeginObject cb name)),
      onBeginArray = (\<lambda>name. then_update update (onBeginArray cb name)),
      onEndContainer = then_update update (onEndContainer cb),
      onEndData = onEndData cb\<rparr>"

definition file_callbacks ::
    "'d fp_ops \<Rightarrow> 'u update_decoder \<Rightarrow> ('d, json_decode_context \<times> 'u json_file_context) decode_callbacks" where
  "file_callbacks fp update = updating_callbacks update (lift_callbacks (addJSONFromFile_callbacks fp))"

section \<open>Adding\<close>

text \<open>The containers left open are closed, whatever the status; one round per level.\<close>

fun close_down_to :: "nat \<Rightarrow> int \<Rightarrow> 'u json_encode_context \<Rightarrow> 'u json_encode_context run" where
  "close_down_to n level c =
     (if containerLevel c \<le> level then Inr c
      else case n of
          0 \<Rightarrow> Inl OutOfFuel
        | Suc n \<Rightarrow> bind_run (sentrycrashjson_endContainer c) (\<lambda>(_, c). close_down_to n level c))"

declare close_down_to.simps [simp del]

definition close_rest :: "bool \<Rightarrow> int \<Rightarrow> 'u json_encode_context \<Rightarrow> 'u json_encode_context run" where
  "close_rest close_last level c =
     (if close_last then close_down_to (nat (containerLevel c - level)) level c else Inr c)"

text \<open>The decoder's fuel grows with the file; a file that is not there reads as zero bytes.\<close>

definition sentrycrashjson_addJSONFromFile ::
    "nat \<Rightarrow> 'd fp_ops \<Rightarrow> 'u os \<Rightarrow> bytes option \<Rightarrow> bytes \<Rightarrow> bool \<Rightarrow> 'u enc" where
  "sentrycrashjson_addJSONFromFile fuel fp os name filename close_last c =
     (let (fd, u) = os_open_read os filename (userData c);
          c = c\<lparr>userData := u\<rparr>;
          jsonContext = \<lparr>encodeContext = c, source_fd = fd, isEOF = False, closeLastContainer = close_last\<rparr>;
          decodeContext = \<lparr>buffer = replicate 1000 NUL, bufferPtr = 1000, bufferEnd = 1000,
                           nameBufferLength = 100, stringBufferLength = 500\<rparr>;
          level = containerLevel c;
          update = updateDecoder_readFile os
      in bind_run (decodeElement fuel fp (file_callbacks fp update) name (update (decodeContext, jsonContext)))
           (\<lambda>(result, (_, jsonContext)).
              let c = encodeContext jsonContext;
                  c = c\<lparr>userData := os_close os fd (userData c)\<rparr>
              in bind_run (close_rest close_last level c) (\<lambda>c. Inr (result, c))))"

text \<open>\<open>jsonData\<close> is the memory from the text on, with the terminator.\<close>

definition sentrycrashjson_addJSONElement ::
    "'d fp_ops \<Rightarrow> bytes option \<Rightarrow> bytes \<Rightarrow> nat \<Rightarrow> bool \<Rightarrow> 'u enc" where
  "sentrycrashjson_addJSONElement fp name jsonData jsonDataLength close_last c =
     (let jsonContext = \<lparr>encodeContext = c, source_fd = 0, isEOF = False, closeLastContainer = close_last\<rparr>;
          decodeContext = \<lparr>buffer = jsonData, bufferPtr = 0, bufferEnd = jsonDataLength,
                           nameBufferLength = 100, stringBufferLength = 5000\<rparr>;
          level = containerLevel c
      in bind_run (decodeElement (2 * jsonDataLength + 2) fp (file_callbacks fp updateDecoder_doNothing) name
             (decodeContext, jsonContext))
           (\<lambda>(result, (_, jsonContext)).
              bind_run (close_rest close_last level (encodeContext jsonContext)) (\<lambda>c. Inr (result, c))))"

end
