(* ===== verification/Json_File_Spec.thy ===== *)
theory Json_File_Spec
  imports Json_File Json_Decode_Total
begin

text \<open>
  What \<open>addJSONElement\<close> adds: for a text of the grammar, the elements of the value it stands for.
\<close>

section \<open>Without refilling\<close>

lemma then_nothing: "then_update updateDecoder_doNothing f = f"
  by (rule ext) (simp add: then_update_def updateDecoder_doNothing_def bind_run_def split: sum.split)

lemma file_callbacks_nothing:
  "file_callbacks fp updateDecoder_doNothing = lift_callbacks (addJSONFromFile_callbacks fp)"
  by (simp add: file_callbacks_def updating_callbacks_def then_nothing)

text \<open>Containers that are closed only above the second level.\<close>

fun file_event :: "'d fp_ops \<Rightarrow> 'd event \<Rightarrow> 'u enc" where
  "file_event fp EvEnd c =
     (if containerLevel c > 2 then sentrycrashjson_endContainer c else Inr (SentryCrashJSON_OK, c))"
| "file_event fp ev c = encode_event fp ev c"

lemma dispatch_file:
  assumes "\<not> closeLastContainer x" "\<And>n s. ev = EvString n s \<Longrightarrow> no_nul s"
  shows "dispatch (addJSONFromFile_callbacks fp) ev x = with_encoder (file_event fp ev) x"
  using assms
  by (cases ev) (simp_all add: addJSONFromFile_callbacks_def end_container_call_def with_encoder_def json_codes)

lemma run_events_file:
  assumes "\<not> closeLastContainer x" "\<And>n s. EvString n s \<in> set evs \<Longrightarrow> no_nul s"
  shows "run_events (addJSONFromFile_callbacks fp) evs x = with_encoder (steps (map (file_event fp) evs)) x"
  using assms
proof (induction evs arbitrary: x)
  case (Cons ev evs)
  have ev: "dispatch (addJSONFromFile_callbacks fp) ev x = with_encoder (file_event fp ev) x"
    by (rule dispatch_file) (use Cons.prems in auto)
  have "run_events (addJSONFromFile_callbacks fp) evs (x\<lparr>encodeContext := c\<rparr>) =
      with_encoder (steps (map (file_event fp) evs)) (x\<lparr>encodeContext := c\<rparr>)" for c
    by (rule Cons.IH) (use Cons.prems in auto)
  then show ?case by (auto simp: ev with_encoder_def bind_run_def split: sum.split)
qed (simp add: with_encoder_def)

lemma events_no_nul: "EvString m s \<in> set (events n t) \<Longrightarrow> no_nul s"
  by (induction n t rule: events.induct) auto

section \<open>A text of the grammar\<close>

text \<open>
  The memory \<open>data\<close> begins with white space and a text of the grammar for \<open>t\<close>, which is no number; what
  is behind it is not read.
\<close>

definition holds_json :: "'d fp_ops \<Rightarrow> bytes \<Rightarrow> nat \<Rightarrow> 'd json \<Rightarrow> bool" where
  "holds_json fp data len t \<longleftrightarrow>
     (\<exists>w tx rest. len \<le> length data \<and> take len data = w @ tx @ rest \<and> blank w \<and>
        json_text fp 100 5000 t tx \<and> \<not> is_number t)"

lemma add_element_runs:
  assumes "holds_json fp data len t"
  shows "sentrycrashjson_addJSONElement fp name data len False c = steps (map (file_event fp) (events name t)) c"
proof -
  obtain w tx rest where d: "len \<le> length data" "take len data = w @ tx @ rest" "blank w"
      "json_text fp 100 5000 t tx" "\<not> is_number t"
    using assms by (auto simp: holds_json_def)
  let ?d = "\<lparr>buffer = data, bufferPtr = 0, bufferEnd = len, nameBufferLength = 100, stringBufferLength = 5000\<rparr>"
  let ?x = "\<lparr>encodeContext = c, source_fd = 0, isEOF = False, closeLastContainer = False\<rparr>"
  let ?cb = "addJSONFromFile_callbacks fp" and ?fuel = "2 * len + 2"
  have wf: "wf_ctx ?d" using d(1) by (simp add: wf_ctx_def)
  have un: "unread ?d = w @ tx @ rest" using d(2) by (simp add: unread_def)
  obtain b s where b: "tx = b # s" "starts_value b" using json_text_starts [OF d(4)] by blast
  have sk: "skip_whitespace ?d = advance (length w) ?d"
    by (rule skip_whitespace_unread [where b = b and s = "s @ rest"])
       (use un b d(3) starts_value_not [OF b(2)] in simp_all)
  have ok: "elem_ok fp 100 5000 t tx ?cb" by (rule grammar_ok(1) [OF d(4)])
  have len: "length (unread ?d) = len" using d(1) by (simp add: unread_def)
  have "decodes (advance (length tx) (advance (length w) ?d)) (run_events ?cb (events name t) ?x)
      (decodeElement ?fuel fp (lift_callbacks ?cb) name (advance (length w) ?d, ?x))"
  proof (rule elem_okD [OF ok])
    show "wf_ctx (advance (length w) ?d)" using wf un by simp
    show "unread (advance (length w) ?d) = tx @ rest" using un by simp
    show "is_number t \<Longrightarrow> no_fp_next rest" using d(5) by simp
    show "2 * length (unread (advance (length w) ?d)) + 2 \<le> ?fuel" using len by simp
  qed simp_all
  then have dec: "decodes (advance (length tx) (advance (length w) ?d)) (run_events ?cb (events name t) ?x)
      (decodeElement ?fuel fp (lift_callbacks ?cb) name (?d, ?x))"
    using decodeElement_skip [of ?fuel fp "lift_callbacks ?cb" name ?d ?x] by (simp only: sk)
  have ev: "run_events ?cb (events name t) ?x = with_encoder (steps (map (file_event fp) (events name t))) ?x"
    by (rule run_events_file) (auto dest: events_no_nul)
  show ?thesis
    using dec
    by (auto simp: sentrycrashjson_addJSONElement_def file_callbacks_nothing decodes_def ev with_encoder_def
      close_rest_def bind_run_def simp del: steps.simps split: sum.splits if_splits)
qed

end
