(* ===== verification/Crash_String.thy ===== *)
theory Crash_String
  imports Prelude
begin

unbundle bit_operations_syntax

text \<open>
  \<open>Recording/Tools/SentryCrashString.c\<close>: the test that memory holds a terminated UTF-8 string, by
  which the crash handler decides whether a word may be a pointer to text, and the search for a
  hexadecimal number in a string. Both get raw memory; a read past it is undefined.
\<close>

section \<open>The tables\<close>

definition g_printableControlChars :: "nat list" where
  "g_printableControlChars = replicate 9 0 @ [1, 1, 0, 0, 1] @ replicate 18 0"

definition g_continuationByteCount :: "nat list" where
  "g_continuationByteCount =
     replicate 32 1 @ replicate 16 2 @ replicate 8 3 @ replicate 4 4 @ [5, 5, 0, 0]"

definition INV_HEX :: nat where "INV_HEX = 0xff"

definition g_hexConversion_table :: "nat list" where
  "g_hexConversion_table =
     replicate 48 INV_HEX @ [0 ..< 10] @ replicate 7 INV_HEX @ [10 ..< 16] @ replicate 26 INV_HEX @
     [10 ..< 16] @ replicate 153 INV_HEX"

section \<open>Terminated UTF-8 strings\<close>

text \<open>The inner loop: \<open>n\<close> continuation bytes from position \<open>p\<close> on.\<close>

fun continuation_bytes :: "bytes \<Rightarrow> nat \<Rightarrow> nat \<Rightarrow> bool run" where
  "continuation_bytes memory p 0 = Inr True"
| "continuation_bytes memory p (Suc n) =
     bind_run (read_at memory p) (\<lambda>b.
       if byte_val b AND 0xc0 \<noteq> 0x80 then Inr False else continuation_bytes memory (p + 1) n)"

function scan_utf8 :: "bytes \<Rightarrow> int \<Rightarrow> nat \<Rightarrow> nat \<Rightarrow> bool run" where
  "scan_utf8 memory minLength maxLength p =
     (if maxLength \<le> p then Inr False
      else bind_run (read_at memory p) (\<lambda>b.
        let ch = byte_val b
        in if ch = 0 then Inr (minLength \<le> int p)
           else if ch AND 0x80 \<noteq> 0 then
             (if ch AND 0xc0 \<noteq> 0xc0 then Inr False
              else
                let n = g_continuationByteCount ! (ch AND 0x3f)
                in if n = 0 \<or> maxLength \<le> p + n then Inr False
                   else bind_run (continuation_bytes memory (p + 1) n) (\<lambda>good.
                     if good then scan_utf8 memory minLength maxLength (p + n + 1) else Inr False))
           else if ch < 0x20 \<and> g_printableControlChars ! ch = 0 then Inr False
           else scan_utf8 memory minLength maxLength (p + 1)))"
  by pat_completeness auto
termination
  by (relation "measure (\<lambda>(memory, minLength, maxLength, p). maxLength - p)") auto

declare scan_utf8.simps [simp del]

definition sentrycrashstring_isNullTerminatedUTF8String :: "bytes \<Rightarrow> int \<Rightarrow> int \<Rightarrow> bool run" where
  "sentrycrashstring_isNullTerminatedUTF8String memory minLength maxLength =
     scan_utf8 memory minLength (nat maxLength) 0"

section \<open>Hexadecimal values\<close>

text \<open>
  \<open>strnstr\<close> for the needle \<open>0x\<close>: the place of its first occurrence in at most \<open>n\<close> bytes from \<open>p\<close> on,
  none of them behind a terminator.
\<close>

fun find_0x :: "bytes \<Rightarrow> nat option" where
  "find_0x (a # b # s) =
     (if a = CHR ''0'' \<and> b = CHR ''x'' then Some 0 else map_option Suc (find_0x (b # s)))"
| "find_0x _ = None"

definition strnstr_0x :: "bytes \<Rightarrow> nat \<Rightarrow> nat \<Rightarrow> nat option run" where
  "strnstr_0x memory p n =
     (let h = take n (drop p memory)
      in case find_0x (c_string h) of
           Some i \<Rightarrow> Inr (Some (p + i))
         | None \<Rightarrow> if length h < n \<and> no_nul h then Inl UndefinedBehaviour else Inr None)"

definition hex_digit :: "byte \<Rightarrow> nat" where
  "hex_digit b = g_hexConversion_table ! byte_val b"

text \<open>The digits from position \<open>p\<close> up to the end of the string, accumulated in 64 bits.\<close>

function hex_digits :: "bytes \<Rightarrow> nat \<Rightarrow> nat \<Rightarrow> 64 word \<Rightarrow> 64 word run" where
  "hex_digits memory p stringEnd accum =
     (if stringEnd \<le> p then Inr accum
      else bind_run (read_at memory p) (\<lambda>b.
        if hex_digit b = INV_HEX then Inr accum
        else hex_digits memory (p + 1) stringEnd (push_bit 4 accum + of_nat (hex_digit b))))"
  by pat_completeness auto
termination
  by (relation "measure (\<lambda>(memory, p, stringEnd, accum). stringEnd - p)") auto

declare hex_digits.simps [simp del]

text \<open>
  The search continues behind every \<open>0x\<close> without a digit. The byte behind \<open>0x\<close> is read before
  the end of the string is checked. \<open>strnstr\<close> gets an unsigned length, and the search never
  starts behind the end.
\<close>

function extract_from :: "bytes \<Rightarrow> nat \<Rightarrow> nat \<Rightarrow> 64 word option run" where
  "extract_from memory p stringEnd =
     (case strnstr_0x memory p (stringEnd - p) of
        Inl e \<Rightarrow> Inl e
      | Inr None \<Rightarrow> Inr None
      | Inr (Some i) \<Rightarrow>
          bind_run (read_at memory (i + 2)) (\<lambda>b.
            if hex_digit b = INV_HEX then extract_from memory (i + 2) stringEnd
            else bind_run (hex_digits memory (i + 2) stringEnd 0) (\<lambda>v. Inr (Some v))))"
  by pat_completeness auto

lemma find_0x_bound: "find_0x s = Some i \<Longrightarrow> i + 2 \<le> length s"
  by (induction s arbitrary: i rule: find_0x.induct) (auto split: if_splits)

lemma strnstr_0x_bound: "strnstr_0x memory p n = Inr (Some i) \<Longrightarrow> p \<le> i \<and> i + 2 \<le> p + n"
proof -
  assume "strnstr_0x memory p n = Inr (Some i)"
  then obtain j where j: "find_0x (c_string (take n (drop p memory))) = Some j" "i = p + j"
    by (auto simp: strnstr_0x_def Let_def split: option.splits if_splits)
  have "length (c_string (take n (drop p memory))) \<le> n"
    using strlen_le [of "take n (drop p memory)"] by (simp add: strlen_def)
  with find_0x_bound [OF j(1)] j(2) show ?thesis by simp
qed

termination extract_from
  by (relation "measure (\<lambda>(memory, p, stringEnd). stringEnd - p)")
     (auto dest!: strnstr_0x_bound)

declare extract_from.simps [simp del]

definition sentrycrashstring_extractHexValue :: "bytes \<Rightarrow> int \<Rightarrow> 64 word option run" where
  "sentrycrashstring_extractHexValue memory stringLength =
     (if stringLength > 0 then extract_from memory 0 (nat stringLength) else Inr None)"

end
