(* ===== verification/Crash_String_Spec.thy ===== *)
theory Crash_String_Spec
  imports Crash_String
begin

text \<open>
  What the two string tests promise: the UTF-8 test accepts exactly the memory that starts with a
  long enough text and a terminator, and a hexadecimal number is read modulo \<open>2 ^ 64\<close>.
\<close>

section \<open>UTF-8 texts\<close>

definition is_continuation :: "byte \<Rightarrow> bool" where
  "is_continuation b \<longleftrightarrow> byte_val b AND 0xc0 = 0x80"

definition is_lead :: "byte \<Rightarrow> bool" where
  "is_lead b \<longleftrightarrow> byte_val b AND 0xc0 = 0xc0"

definition is_text_char :: "byte \<Rightarrow> bool" where
  "is_text_char b \<longleftrightarrow> byte_val b AND 0x80 = 0 \<and>
     (0x20 \<le> byte_val b \<or> g_printableControlChars ! byte_val b \<noteq> 0) \<and> b \<noteq> NUL"

definition continuations :: "byte \<Rightarrow> nat" where
  "continuations b = g_continuationByteCount ! (byte_val b AND 0x3f)"

inductive utf8_text :: "bytes \<Rightarrow> bool" where
  ut_Nil: "utf8_text []"
| ut_char: "is_text_char b \<Longrightarrow> utf8_text s \<Longrightarrow> utf8_text (b # s)"
| ut_multi: "is_lead b \<Longrightarrow> continuations b \<noteq> 0 \<Longrightarrow> length c = continuations b \<Longrightarrow>
    list_all is_continuation c \<Longrightarrow> utf8_text s \<Longrightarrow> utf8_text (b # c @ s)"

text \<open>What follows in memory is a text of at least \<open>n\<close> bytes and its terminator.\<close>

definition terminated_text :: "int \<Rightarrow> bytes \<Rightarrow> bool" where
  "terminated_text n s \<longleftrightarrow> (\<exists>t rest. s = t @ NUL # rest \<and> utf8_text t \<and> n \<le> int (length t))"

lemma lead_high: "is_lead b \<Longrightarrow> byte_val b AND 0x80 \<noteq> 0"
proof -
  assume "is_lead b"
  then have "byte_val b AND (0xc0 AND 0x80) = 0xc0 AND 0x80"
    unfolding is_lead_def by (metis and.assoc)
  then show ?thesis by simp
qed

lemma NUL_not_text [simp]: "\<not> is_text_char NUL" "\<not> is_lead NUL"
  by (simp_all add: is_text_char_def is_lead_def)

inductive_cases utf8_text_ConsE: "utf8_text (b # s)"

lemma utf8_text_Cons:
  "utf8_text (b # s) \<longleftrightarrow>
     (is_text_char b \<and> utf8_text s) \<or>
     (is_lead b \<and> continuations b \<noteq> 0 \<and> continuations b \<le> length s \<and>
      list_all is_continuation (take (continuations b) s) \<and> utf8_text (drop (continuations b) s))"
proof
  assume "utf8_text (b # s)"
  then show "(is_text_char b \<and> utf8_text s) \<or>
     (is_lead b \<and> continuations b \<noteq> 0 \<and> continuations b \<le> length s \<and>
      list_all is_continuation (take (continuations b) s) \<and> utf8_text (drop (continuations b) s))"
    by (rule utf8_text_ConsE) simp_all
next
  let ?n = "continuations b"
  assume "(is_text_char b \<and> utf8_text s) \<or>
     (is_lead b \<and> ?n \<noteq> 0 \<and> ?n \<le> length s \<and>
      list_all is_continuation (take ?n s) \<and> utf8_text (drop ?n s))"
  then show "utf8_text (b # s)"
  proof
    assume "is_lead b \<and> ?n \<noteq> 0 \<and> ?n \<le> length s \<and>
      list_all is_continuation (take ?n s) \<and> utf8_text (drop ?n s)"
    then have "utf8_text (b # take ?n s @ drop ?n s)" by (intro ut_multi) simp_all
    then show ?thesis by simp
  qed (simp add: ut_char)
qed

lemma terminated_text_Nil [simp]: "\<not> terminated_text n []"
  by (simp add: terminated_text_def)

lemma terminated_text_NUL: "terminated_text n (NUL # s) \<longleftrightarrow> n \<le> 0"
proof
  assume "terminated_text n (NUL # s)"
  then obtain t rest where t: "NUL # s = t @ NUL # rest" "utf8_text t" "n \<le> int (length t)"
    by (auto simp: terminated_text_def)
  then have "t = []" by (cases t) (auto simp: utf8_text_Cons)
  with t show "n \<le> 0" by simp
next
  assume "n \<le> 0"
  then show "terminated_text n (NUL # s)"
    unfolding terminated_text_def by (intro exI [of _ "[]"] exI [of _ s]) (simp add: ut_Nil)
qed

lemma terminated_text_char:
  assumes "is_text_char b"
  shows "terminated_text n (b # s) \<longleftrightarrow> terminated_text (n - 1) s"
proof -
  have nl: "\<not> is_lead b" using assms lead_high [of b] by (auto simp: is_text_char_def)
  have bn: "b \<noteq> NUL" using assms by auto
  show ?thesis
  proof
    assume "terminated_text n (b # s)"
    then obtain t rest where t: "b # s = t @ NUL # rest" "utf8_text t" "n \<le> int (length t)"
      by (auto simp: terminated_text_def)
    with bn obtain t' where "t = b # t'" by (cases t) auto
    with t nl show "terminated_text (n - 1) s"
      by (auto simp: terminated_text_def utf8_text_Cons)
  next
    assume "terminated_text (n - 1) s"
    then obtain t rest where "s = t @ NUL # rest" "utf8_text t" "n - 1 \<le> int (length t)"
      by (auto simp: terminated_text_def)
    with assms show "terminated_text n (b # s)"
      unfolding terminated_text_def
      by (intro exI [of _ "b # t"] exI [of _ rest]) (simp add: utf8_text_Cons)
  qed
qed

lemma continuation_not_NUL: "is_continuation b \<Longrightarrow> b \<noteq> NUL"
  by (auto simp: is_continuation_def)

lemma terminated_text_lead:
  assumes "is_lead b"
  shows "terminated_text n (b # s) \<longleftrightarrow>
    continuations b \<noteq> 0 \<and> continuations b \<le> length s \<and>
    list_all is_continuation (take (continuations b) s) \<and>
    terminated_text (n - 1 - int (continuations b)) (drop (continuations b) s)"
    (is "_ \<longleftrightarrow> ?rhs")
proof
  let ?n = "continuations b"
  have nc: "\<not> is_text_char b" using assms lead_high [of b] by (auto simp: is_text_char_def)
  have bn: "b \<noteq> NUL" using assms by auto
  { assume "terminated_text n (b # s)"
    then obtain t rest where t: "b # s = t @ NUL # rest" "utf8_text t" "n \<le> int (length t)"
      by (auto simp: terminated_text_def)
    with bn obtain t' where t': "t = b # t'" by (cases t) auto
    with t nc have u: "?n \<noteq> 0" "?n \<le> length t'" "list_all is_continuation (take ?n t')"
      "utf8_text (drop ?n t')" by (auto simp: utf8_text_Cons)
    have s: "s = t' @ NUL # rest" using t t' by simp
    have "terminated_text (n - 1 - int ?n) (drop ?n s)"
      unfolding terminated_text_def
      by (intro exI [of _ "drop ?n t'"] exI [of _ rest]) (use u s t t' in simp)
    with u s show ?rhs by simp }
  { assume r: ?rhs
    then obtain t rest where t: "drop ?n s = t @ NUL # rest" "utf8_text t"
      "n - 1 - int ?n \<le> int (length t)" by (auto simp: terminated_text_def)
    have s: "s = take ?n s @ t @ NUL # rest" using t(1) by (metis append_take_drop_id)
    have "utf8_text (b # take ?n s @ t)"
      using assms r t(2) by (intro ut_multi) simp_all
    then show "terminated_text n (b # s)"
      unfolding terminated_text_def
      by (intro exI [of _ "b # take ?n s @ t"] exI [of _ rest]) (use s t r in simp) }
qed

lemma terminated_text_bad:
  "\<not> is_text_char b \<Longrightarrow> \<not> is_lead b \<Longrightarrow> b \<noteq> NUL \<Longrightarrow> \<not> terminated_text n (b # s)"
  by (auto simp: terminated_text_def Cons_eq_append_conv utf8_text_Cons)

section \<open>The scan\<close>

lemma continuation_bytes_eq:
  "p + n \<le> length memory \<Longrightarrow>
    continuation_bytes memory p n = Inr (list_all is_continuation (take n (drop p memory)))"
proof (induction n arbitrary: p)
  case (Suc n)
  then have "take (Suc n) (drop p memory) = memory ! p # take n (drop (Suc p) memory)"
    by (simp add: Cons_nth_drop_Suc [symmetric])
  with Suc show ?case by (simp add: is_continuation_def)
qed simp

text \<open>One round of the scan, by the kind of byte at the position.\<close>

lemma scan_utf8_round:
  assumes "p < maxLength" "maxLength \<le> length memory"
  shows "scan_utf8 memory minLength maxLength p =
    (let b = memory ! p; n = continuations b
     in if b = NUL then Inr (minLength \<le> int p)
        else if is_lead b then
          (if n = 0 \<or> maxLength \<le> p + n \<or> \<not> list_all is_continuation (take n (drop (p + 1) memory))
           then Inr False else scan_utf8 memory minLength maxLength (p + n + 1))
        else if is_text_char b then scan_utf8 memory minLength maxLength (p + 1)
        else Inr False)"
proof -
  let ?b = "memory ! p"
  have nul: "byte_val ?b = 0 \<longleftrightarrow> ?b = NUL"
    using byte_val_inject [of ?b NUL] by simp
  have cont: "continuation_bytes memory (p + 1) (continuations ?b) =
      Inr (list_all is_continuation (take (continuations ?b) (drop (p + 1) memory)))"
    if "\<not> maxLength \<le> p + continuations ?b"
    by (rule continuation_bytes_eq) (use that assms in simp)
  show ?thesis
    using assms nul cont lead_high [of ?b]
    by (auto simp: scan_utf8.simps [of memory minLength maxLength p] Let_def is_lead_def is_text_char_def
      continuations_def)
qed

lemma scan_utf8_eq:
  assumes "maxLength \<le> length memory"
  shows "scan_utf8 memory minLength maxLength p =
    Inr (terminated_text (minLength - int p) (drop p (take maxLength memory)))"
proof (induction "maxLength - p" arbitrary: p rule: less_induct)
  case less
  show ?case
  proof (cases "maxLength \<le> p")
    case True
    then show ?thesis by (simp add: scan_utf8.simps)
  next
    case False
    let ?b = "memory ! p" and ?s = "drop (Suc p) (take maxLength memory)"
    let ?n = "continuations ?b"
    have s: "drop p (take maxLength memory) = ?b # ?s"
      using False assms by (simp add: Cons_nth_drop_Suc [symmetric])
    note rnd = scan_utf8_round [of p maxLength memory minLength, OF _ assms]
    have IH: "scan_utf8 memory minLength maxLength q =
        Inr (terminated_text (minLength - int q) (drop q (take maxLength memory)))" if "p < q" for q
      by (rule less) (use that False in simp)
    show ?thesis
    proof (cases "is_lead ?b")
      case True
      then have nn: "?b \<noteq> NUL" by auto
      have tk: "take ?n ?s = take ?n (drop (p + 1) memory)" if "p + ?n < maxLength"
        using that by (simp add: drop_take min_def)
      have len: "length ?s = maxLength - Suc p" using assms by simp
      have dr: "drop ?n ?s = drop (p + ?n + 1) (take maxLength memory)" by (simp add: add.commute)
      show ?thesis
      proof (cases "?n = 0 \<or> maxLength \<le> p + ?n")
        case True
        then show ?thesis
          using False \<open>is_lead ?b\<close> nn rnd by (auto simp: s terminated_text_lead len Let_def)
      next
        case no: False
        with False have "scan_utf8 memory minLength maxLength p =
            (if list_all is_continuation (take ?n ?s)
             then scan_utf8 memory minLength maxLength (p + ?n + 1) else Inr False)"
          using \<open>is_lead ?b\<close> nn rnd tk by (simp add: Let_def)
        with no False IH [of "p + ?n + 1"] assms show ?thesis
          by (auto simp: s terminated_text_lead [OF \<open>is_lead ?b\<close>] len dr algebra_simps)
      qed
    next
      case nl: False
      show ?thesis
      proof (cases "is_text_char ?b")
        case True
        then have "?b \<noteq> NUL" by auto
        then show ?thesis
          using False True nl rnd IH [of "p + 1"] by (simp add: s terminated_text_char [OF True] algebra_simps)
      next
        case nt: False
        show ?thesis
          using False nl nt rnd by (cases "?b = NUL") (simp_all add: s terminated_text_NUL terminated_text_bad)
      qed
    qed
  qed
qed

section \<open>Hexadecimal numbers\<close>

definition is_hex :: "byte \<Rightarrow> bool" where
  "is_hex b \<longleftrightarrow> hex_digit b \<noteq> INV_HEX"

definition hex_value :: "bytes \<Rightarrow> nat" where
  "hex_value ds = foldl (\<lambda>v b. v * 16 + hex_digit b) 0 ds"

text \<open>The digits of a number, most significant first, in lower case.\<close>

definition hex_char :: "nat \<Rightarrow> byte" where
  "hex_char d = ''0123456789abcdef'' ! d"

fun show_hex :: "nat \<Rightarrow> bytes" where
  "show_hex n = (if n < 16 then [hex_char n] else show_hex (n div 16) @ [hex_char (n mod 16)])"

declare show_hex.simps [simp del]

lemma hex_digit_char: "d < 16 \<Longrightarrow> hex_digit (hex_char d) = d"
proof -
  have "list_all (\<lambda>d. hex_digit (hex_char d) = d) [0 ..< 16]" by code_simp
  then show "d < 16 \<Longrightarrow> hex_digit (hex_char d) = d" by (simp add: list_all_iff)
qed

lemma hex_value_snoc: "hex_value (ds @ [b]) = hex_value ds * 16 + hex_digit b"
  by (simp add: hex_value_def)

lemma hex_value_show_hex: "hex_value (show_hex n) = n"
proof (induction n rule: show_hex.induct)
  case (1 n)
  show ?case
  proof (cases "n < 16")
    case True
    then show ?thesis by (simp add: show_hex.simps [of n] hex_value_def hex_digit_char)
  next
    case False
    with 1 show ?thesis by (simp add: show_hex.simps [of n] hex_value_snoc hex_digit_char)
  qed
qed

lemma show_hex_hex: "list_all is_hex (show_hex n)"
proof (induction n rule: show_hex.induct)
  case (1 n)
  have "is_hex (hex_char d)" if "d < 16" for d
    using hex_digit_char [OF that] that by (simp add: is_hex_def INV_HEX_def)
  with 1 show ?case by (cases "n < 16") (simp_all add: show_hex.simps [of n])
qed

lemma hex_digits_eq:
  assumes "list_all is_hex ds" "rest = [] \<or> \<not> is_hex (hd rest)"
  shows "hex_digits (pre @ ds @ rest) (length pre) (length (pre @ ds @ rest)) (of_nat v) =
    Inr (of_nat (foldl (\<lambda>v b. v * 16 + hex_digit b) v ds))"
  using assms(1)
proof (induction ds arbitrary: pre v)
  case Nil
  then show ?case
    using assms(2) by (cases rest) (simp_all add: hex_digits.simps [of "pre @ _"] is_hex_def nth_append hex_digits.simps [of pre])
next
  case (Cons b ds)
  have acc: "push_bit 4 (of_nat v) + of_nat (hex_digit b) = (of_nat (v * 16 + hex_digit b) :: 64 word)"
    by (simp add: push_bit_eq_mult mult.commute)
  have "hex_digits ((pre @ [b]) @ ds @ rest) (length (pre @ [b])) (length ((pre @ [b]) @ ds @ rest))
      (push_bit 4 (of_nat v) + of_nat (hex_digit b)) =
      Inr (of_nat (foldl (\<lambda>v b. v * 16 + hex_digit b) (v * 16 + hex_digit b) ds))"
    unfolding acc by (rule Cons.IH) (use Cons.prems in simp)
  then show ?case
    using Cons.prems by (simp add: hex_digits.simps [of "pre @ b # _"] is_hex_def)
qed

lemma find_0x_skip: "CHR ''0'' \<notin> set pre \<Longrightarrow> find_0x (pre @ CHR ''0'' # CHR ''x'' # s) = Some (length pre)"
proof (induction pre)
  case (Cons a pre)
  then show ?case by (cases pre) auto
qed simp

lemma extractHexValue_eq:
  assumes "CHR ''0'' \<notin> set pre" "no_nul pre" "ds \<noteq> []" "list_all is_hex ds"
    "rest = [] \<or> \<not> is_hex (hd rest)"
  shows "sentrycrashstring_extractHexValue (pre @ ''0x'' @ ds @ rest)
      (int (length (pre @ ''0x'' @ ds @ rest))) = Inr (Some (of_nat (hex_value ds)))"
proof -
  let ?s = "pre @ ''0x'' @ ds @ rest"
  obtain b ds' where ds: "ds = b # ds'" using assms(3) by (cases ds) auto
  have c: "c_string ?s = pre @ CHR ''0'' # CHR ''x'' # c_string (ds @ rest)"
    using assms(2) by (simp add: c_string_def no_nul_def takeWhile_append)
  have "strnstr_0x ?s 0 (length ?s) = Inr (Some (length pre))"
    using find_0x_skip [OF assms(1)] unfolding strnstr_0x_def by (simp add: c [simplified] Let_def)
  moreover have "hex_digits ?s (length pre + 2) (length ?s) 0 = Inr (of_nat (hex_value ds))"
    using hex_digits_eq [OF assms(4,5), of "pre @ ''0x''" 0] by (simp add: hex_value_def)
  moreover have "sentrycrashstring_extractHexValue ?s (int (length ?s)) = extract_from ?s 0 (length ?s)"
    by (simp only: sentrycrashstring_extractHexValue_def nat_int) simp
  ultimately show ?thesis
    using assms(4) by (simp add: extract_from.simps [of _ 0] ds is_hex_def nth_append)
qed

section \<open>Properties\<close>



text \<open>
  A hexadecimal number is found behind its \<open>0x\<close>, up to the first other character, and its value
  is taken modulo 2 to the 64: a 64-bit value printed in hexadecimal is read back.
\<close>

theorem hex_value_extracted:
  assumes "CHR ''0'' \<notin> set pre" "no_nul pre" "rest = [] \<or> \<not> is_hex (hd rest)"
  shows "sentrycrashstring_extractHexValue (pre @ ''0x'' @ show_hex n @ rest)
      (int (length (pre @ ''0x'' @ show_hex n @ rest))) = Inr (Some (of_nat n))"
proof -
  have "show_hex n \<noteq> []" by (simp add: show_hex.simps [of n])
  then show ?thesis
    using extractHexValue_eq [OF assms(1,2) _ show_hex_hex assms(3)] by (simp only: hex_value_show_hex)
qed

theorem hex_value_extracted_witness:
  "sentrycrashstring_extractHexValue (''at '' @ ''0x'' @ show_hex 255 @ '' in'')
      (int (length (''at '' @ ''0x'' @ show_hex 255 @ '' in''))) = Inr (Some 255)"
proof -
  have "\<not> is_hex (hd '' in'')" by code_simp
  then show ?thesis
    using hex_value_extracted [of "''at ''" "'' in''" 255]
    by (simp only: no_nul_Cons no_nul_Nil) simp
qed

text \<open>
  When the string ends with \<open>0x\<close>, the byte behind the string decides: the search reads it
  before it compares with the end. If the memory ends there the read is undefined; if a digit
  happens to follow, the string without a digit yields the value 0.
\<close>

theorem hex_value_past_end:
  "sentrycrashstring_extractHexValue ''0x'' 2 = Inl UndefinedBehaviour \<and>
   sentrycrashstring_extractHexValue ''0x7'' 2 = Inr (Some 0) \<and>
   sentrycrashstring_extractHexValue ''0xg'' 2 = Inr None"
  by (intro conjI; code_simp)

end
