(* ===== verification/File_Spec.thy ===== *)
theory File_Spec
  imports File_Buffer
begin

text \<open>
  What the file utilities promise over a kernel that follows the documentation of \<open>read\<close> and
  \<open>write\<close>, and where they break: the buffered writer as a stream, the reader inside and behind its
  first buffer, and the loops at the end of a file.
\<close>

section \<open>The kernel\<close>

text \<open>
  \<open>reliable os contents\<close>: a write of some bytes writes a non-empty beginning of them, at the end of
  what the descriptor holds, and touches no other descriptor.
\<close>

definition reliable :: "'f os \<Rightarrow> (int \<Rightarrow> 'f \<Rightarrow> bytes) \<Rightarrow> bool" where
  "reliable os contents \<longleftrightarrow>
     (\<forall>fd data w. data \<noteq> [] \<longrightarrow>
        (\<exists>n w'. os_write os fd data w = (int n, w') \<and> 1 \<le> n \<and> n \<le> length data \<and>
           contents fd w' = contents fd w @ take n data))"

lemma reliableE:
  assumes "reliable os contents" "data \<noteq> []"
  obtains n w' where "os_write os fd data w = (int n, w')" "1 \<le> n" "n \<le> length data"
    "contents fd w' = contents fd w @ take n data"
  using assms unfolding reliable_def by blast

lemma write_loop_reliable:
  assumes "reliable os contents" "length data \<le> fuel"
  shows "\<exists>w'. write_loop fuel os fd data w = Inr (True, w') \<and> contents fd w' = contents fd w @ data"
  using assms(2)
proof (induction fuel arbitrary: data w)
  case (Suc fuel)
  show ?case
  proof (cases "data = []")
    case False
    obtain n w' where n: "os_write os fd data w = (int n, w')" "1 \<le> n" "n \<le> length data"
        "contents fd w' = contents fd w @ take n data"
      using assms(1) False by (rule reliableE)
    then have "length (drop n data) \<le> fuel" using Suc.prems by simp
    from Suc.IH [OF this, of w'] n False show ?thesis by auto
  qed simp
qed simp

lemma writeBytesToFD_reliable:
  "reliable os contents \<Longrightarrow>
    \<exists>w'. sentrycrashfu_writeBytesToFD os fd data w = Inr (True, w') \<and> contents fd w' = contents fd w @ data"
  unfolding sentrycrashfu_writeBytesToFD_def by (rule write_loop_reliable) simp_all

section \<open>The writer is a stream\<close>

text \<open>What the descriptor holds and what is still in the buffer.\<close>

definition written_stream :: "(int \<Rightarrow> 'f \<Rightarrow> bytes) \<Rightarrow> 'f writing \<Rightarrow> bytes" where
  "written_stream contents = (\<lambda>(wr, w). contents (w_fd wr) w @ take (w_position wr) (w_buffer wr))"

definition wf_writer :: "'f writing \<Rightarrow> bool" where
  "wf_writer = (\<lambda>(wr, w). w_position wr \<le> w_bufferLength wr \<and> 0 < w_fd wr)"

lemma flush_reliable:
  assumes "reliable os contents" "wf_writer s"
  shows "\<exists>s'. sentrycrashfu_flushBufferedWriter os s = Inr (True, s') \<and> wf_writer s' \<and>
    w_position (fst s') = 0 \<and> w_buffer (fst s') = w_buffer (fst s) \<and> w_fd (fst s') = w_fd (fst s) \<and>
    written_stream contents s' = written_stream contents s"
proof -
  obtain wr w where s: "s = (wr, w)" by fastforce
  obtain w' where "sentrycrashfu_writeBytesToFD os (w_fd wr) (take (w_position wr) (w_buffer wr)) w =
      Inr (True, w')" "contents (w_fd wr) w' = contents (w_fd wr) w @ take (w_position wr) (w_buffer wr)"
    using writeBytesToFD_reliable [OF assms(1)] by blast
  with assms(2) show ?thesis
    by (auto simp: s sentrycrashfu_flushBufferedWriter_def wf_writer_def written_stream_def)
qed

lemma memcpy_at_room:
  "p + length data \<le> length memory \<Longrightarrow>
    \<exists>m. memcpy_at memory p data = Inr m \<and> length m = length memory \<and>
      take (p + length data) m = take p memory @ data"
  by (simp add: memcpy_at_def)

lemma write_reliable:
  assumes "reliable os contents" "wf_writer s"
  shows "\<exists>s'. sentrycrashfu_writeBufferedWriter os data s = Inr (True, s') \<and> wf_writer s' \<and>
    w_fd (fst s') = w_fd (fst s) \<and> w_bufferLength (fst s') = w_bufferLength (fst s) \<and>
    written_stream contents s' = written_stream contents s @ data"
proof -
  obtain wr w where s: "s = (wr, w)" by fastforce
  define full where "full \<longleftrightarrow> length data > w_bufferLength wr - w_position wr"
  obtain wr1 w1 where s1:
      "(if full then bind_run (sentrycrashfu_flushBufferedWriter os (wr, w)) (\<lambda>(_, s). Inr s)
        else Inr (wr, w)) = Inr (wr1, w1)" "wf_writer (wr1, w1)"
      "w_bufferLength wr1 = w_bufferLength wr" "w_fd wr1 = w_fd wr"
      "written_stream contents (wr1, w1) = written_stream contents s"
      "full \<longrightarrow> w_position wr1 = 0" "\<not> full \<longrightarrow> wr1 = wr"
    using flush_reliable [OF assms] assms(2) by (cases full) (auto simp: s)
  have eq: "sentrycrashfu_writeBufferedWriter os data s =
      (if length data > w_bufferLength wr1 then
            bind_run (sentrycrashfu_writeBytesToFD os (w_fd wr1) data w1) (\<lambda>(good, w).
              Inr (good, (wr1, w)))
          else
            bind_run (memcpy_at (w_buffer wr1) (w_position wr1) data) (\<lambda>buffer.
              Inr (True, (wr1\<lparr>w_buffer := buffer, w_position := w_position wr1 + length data\<rparr>, w1))))"
    unfolding sentrycrashfu_writeBufferedWriter_def s prod.case full_def [symmetric] s1(1) by simp
  show ?thesis
  proof (cases "length data > w_bufferLength wr1")
    case True
    then have full: full by (simp add: full_def s1(3))
    obtain w' where "sentrycrashfu_writeBytesToFD os (w_fd wr1) data w1 = Inr (True, w')"
        "contents (w_fd wr1) w' = contents (w_fd wr1) w1 @ data"
      using writeBytesToFD_reliable [OF assms(1)] by blast
    with True eq s1 full show ?thesis
      by (auto simp: s wf_writer_def written_stream_def)
  next
    case False
    then have room: "w_position wr1 + length data \<le> length (w_buffer wr1)"
      using s1 by (cases full) (auto simp: full_def wf_writer_def)
    obtain m where m: "memcpy_at (w_buffer wr1) (w_position wr1) data = Inr m"
      "length m = length (w_buffer wr1)"
      "take (w_position wr1 + length data) m = take (w_position wr1) (w_buffer wr1) @ data"
      using memcpy_at_room [OF room] by blast
    with False eq s1 room show ?thesis
      by (auto simp: s wf_writer_def written_stream_def)
  qed
qed

text \<open>Many writes, one after the other.\<close>

fun write_all :: "'f os \<Rightarrow> bytes list \<Rightarrow> 'f writing \<Rightarrow> (bool \<times> 'f writing) run" where
  "write_all os [] s = Inr (True, s)"
| "write_all os (d # ds) s =
     bind_run (sentrycrashfu_writeBufferedWriter os d s) (\<lambda>(good, s).
       if good then write_all os ds s else Inr (False, s))"

lemma write_all_reliable:
  assumes "reliable os contents" "wf_writer s"
  shows "\<exists>s'. write_all os ds s = Inr (True, s') \<and> wf_writer s' \<and> w_fd (fst s') = w_fd (fst s) \<and>
    written_stream contents s' = written_stream contents s @ concat ds"
  using assms(2)
proof (induction ds arbitrary: s)
  case (Cons d ds)
  obtain s1 where s1: "sentrycrashfu_writeBufferedWriter os d s = Inr (True, s1)" "wf_writer s1"
      "w_fd (fst s1) = w_fd (fst s)" "written_stream contents s1 = written_stream contents s @ d"
    using write_reliable [OF assms(1) Cons.prems] by blast
  from Cons.IH [OF s1(2)] s1 show ?case by auto
qed simp

section \<open>A file that is written and read back\<close>

text \<open>
  \<open>one_file os path file rest\<close>: the kernel keeps a file at \<open>path\<close> with the contents \<open>file w\<close>; opening
  it truncates it or starts reading at its beginning, \<open>rest w\<close> is what is left to read, and a
  read of some bytes delivers a non-empty beginning of that.
\<close>

definition one_file :: "'f os \<Rightarrow> bytes \<Rightarrow> ('f \<Rightarrow> bytes) \<Rightarrow> ('f \<Rightarrow> bytes) \<Rightarrow> bool" where
  "one_file os path file rest \<longleftrightarrow>
     reliable os (\<lambda>_. file) \<and>
     (\<forall>w. fst (os_open_trunc os path w) > 0 \<and> file (snd (os_open_trunc os path w)) = []) \<and>
     (\<forall>w. fst (os_open_read os path w) > 0 \<and> file (snd (os_open_read os path w)) = file w \<and>
          rest (snd (os_open_read os path w)) = file w) \<and>
     (\<forall>fd w. file (os_close os fd w) = file w) \<and>
     (\<forall>fd w. os_fstat_size os fd w = Some (length (file w))) \<and>
     (\<forall>fd n w. rest w \<noteq> [] \<longrightarrow> 0 < n \<longrightarrow>
        (\<exists>k w'. os_read os fd n w = (Some (take k (rest w)), w') \<and> 1 \<le> k \<and> k \<le> n \<and>
           rest w' = drop k (rest w) \<and> file w' = file w))"

lemma one_fileD:
  assumes "one_file os path file rest"
  shows "reliable os (\<lambda>_. file)"
    "os_open_trunc os path w = (fd, w') \<Longrightarrow> 0 < fd \<and> file w' = []"
    "os_open_read os path w = (fd, w') \<Longrightarrow> 0 < fd \<and> file w' = file w \<and> rest w' = file w"
    "file (os_close os fd w) = file w"
    "os_fstat_size os fd w = Some (length (file w))"
    "rest w \<noteq> [] \<Longrightarrow> 0 < n \<Longrightarrow>
      \<exists>k w'. os_read os fd n w = (Some (take k (rest w)), w') \<and> 1 \<le> k \<and> k \<le> n \<and>
        rest w' = drop k (rest w) \<and> file w' = file w"
proof -
  show "0 < fd \<and> file w' = []" if "os_open_trunc os path w = (fd, w')"
    using assms that unfolding one_file_def by (metis fst_conv snd_conv)
  show "0 < fd \<and> file w' = file w \<and> rest w' = file w" if "os_open_read os path w = (fd, w')"
    using assms that unfolding one_file_def by (metis fst_conv snd_conv)
qed (use assms in \<open>simp_all add: one_file_def\<close>)

lemma read_loop_one_file:
  assumes "one_file os path file rest" "len \<le> length (rest w)" "len \<le> fuel"
  shows "\<exists>w'. read_loop fuel os fd len got w = Inr (True, got @ take len (rest w), w') \<and>
    file w' = file w \<and> rest w' = drop len (rest w)"
  using assms(2,3)
proof (induction fuel arbitrary: len got w)
  case (Suc fuel)
  show ?case
  proof (cases "len = 0")
    case False
    then have ne: "rest w \<noteq> []" "0 < len" using Suc.prems by auto
    obtain k w1 where k: "os_read os fd len w = (Some (take k (rest w)), w1)" "1 \<le> k" "k \<le> len"
        "rest w1 = drop k (rest w)" "file w1 = file w"
      using one_fileD(6) [OF assms(1) ne] by blast
    have lk: "length (take k (rest w)) = k" using k Suc.prems by simp
    have "len - k \<le> length (rest w1)" "len - k \<le> fuel" using k Suc.prems by auto
    from Suc.IH [OF this, of "got @ take k (rest w)"]
    obtain w2 where "read_loop fuel os fd (len - k) (got @ take k (rest w)) w1 =
        Inr (True, (got @ take k (rest w)) @ take (len - k) (rest w1), w2)" "file w2 = file w1"
        "rest w2 = drop (len - k) (rest w1)"
      by blast
    moreover have "take k (rest w) @ take (len - k) (drop k (rest w)) = take len (rest w)"
      using k(3) by (metis le_add_diff_inverse take_add)
    ultimately show ?thesis using False k lk by auto
  qed simp
qed simp

lemma readEntireFile_one_file:
  assumes "one_file os path file rest" "length (file w) \<le> fuel" "alloc (length (file w) + 1)"
    "maxLength = 0 \<or> length (file w) \<le> maxLength"
  shows "\<exists>w'. sentrycrashfu_readEntireFile fuel os alloc path maxLength w =
    Inr (True, Some (file w), length (file w), w') \<and> file w' = file w"
proof -
  obtain fd w1 where o: "os_open_read os path w = (fd, w1)" by fastforce
  note f = one_fileD(3) [OF assms(1) o]
  obtain w2 where "read_loop fuel os fd (length (file w)) [] w1 =
      Inr (True, take (length (file w)) (rest w1), w2)" "file w2 = file w1"
    using read_loop_one_file [OF assms(1), of "length (file w)" w1 fuel fd "[]"] f assms(2) by auto
  with o f assms(3,4) one_fileD(4,5) [OF assms(1)] show ?thesis
    by (simp add: sentrycrashfu_readEntireFile_def sentrycrashfu_readBytesFromFD_def Let_def)
qed

section \<open>Lines\<close>

text \<open>A descriptor whose unread bytes are \<open>s\<close> in the state \<open>st s\<close>, read one by one.\<close>

definition reads_bytes :: "'f os \<Rightarrow> int \<Rightarrow> (bytes \<Rightarrow> 'f) \<Rightarrow> bool" where
  "reads_bytes os fd st \<longleftrightarrow>
     (\<forall>b s. os_read os fd 1 (st (b # s)) = (Some [b], st s)) \<and>
     os_read os fd 1 (st []) = (Some [], st [])"

lemma read_line_eq:
  assumes "reads_bytes os fd st"
  shows "read_line room os fd line (st s) =
    (let l = take room (takeWhile (\<lambda>b. b \<noteq> CHR ''\<newline>'') s)
     in (int (length (line @ l)), line @ l,
         st (drop (if length l < room then Suc (length l) else length l) s)))"
proof (induction room arbitrary: line s)
  case (Suc room)
  show ?case
  proof (cases s)
    case Nil
    then show ?thesis using assms by (simp add: reads_bytes_def)
  next
    case (Cons b t)
    have r: "os_read os fd (Suc 0) (st (b # t)) = (Some [b], st t)"
      using assms by (simp add: reads_bytes_def)
    show ?thesis
      using Suc.IH [of "line @ [b]" t] by (simp add: Cons r Let_def)
  qed
qed simp

section \<open>A concrete kernel\<close>

text \<open>
  One file with what was written to it, and what is left to read from it since it was opened.
  Writes take one byte at a time. And the same with a full disk.
\<close>

definition one_byte_os :: "(bytes \<times> bytes) os" where
  "one_byte_os =
     \<lparr>os_open_read = (\<lambda>_ (a, b). (3, (a, a))), os_open_new = (\<lambda>_ w. (3, w)),
      os_open_trunc = (\<lambda>_ (a, b). (3, ([], b))), os_close = (\<lambda>_ w. w),
      os_read = (\<lambda>_ n (a, b). (Some (take n b), (a, drop n b))),
      os_write = (\<lambda>_ d (a, b). (1, (a @ take 1 d, b))),
      os_seek_end = (\<lambda>_ _ w. (True, w)), os_fstat_size = (\<lambda>_ (a, b). Some (length a)),
      os_stat = (\<lambda>_ _. Some RegularFile), os_list = (\<lambda>_ w. (None, w)),
      os_remove = (\<lambda>_ w. (True, w)), os_mkdir = (\<lambda>_ w. (MkdirDone, w))\<rparr>"

definition full_disk_os :: "(bytes \<times> bytes) os" where
  "full_disk_os = one_byte_os\<lparr>os_write := (\<lambda>_ d w. (-1, w))\<rparr>"

lemma one_byte_reliable: "reliable one_byte_os (\<lambda>_. fst)"
  unfolding reliable_def
proof (intro allI impI)
  fix fd and data :: bytes and w :: "bytes \<times> bytes"
  assume "data \<noteq> []"
  then show "\<exists>n w'. os_write one_byte_os fd data w = (int n, w') \<and> 1 \<le> n \<and> n \<le> length data \<and>
      fst w' = fst w @ take n data"
    by (intro exI [of _ 1] exI [of _ "(fst w @ take 1 data, snd w)"])
       (cases data; simp add: one_byte_os_def case_prod_beta)
qed

lemma one_byte_reads: "reads_bytes one_byte_os fd (\<lambda>s. (a, s))"
  by (simp add: reads_bytes_def one_byte_os_def)

lemma one_byte_file: "one_file one_byte_os path fst snd"
  unfolding one_file_def
proof (intro conjI allI impI)
  show "reliable one_byte_os (\<lambda>_. fst)" by (rule one_byte_reliable)
  fix fd and n :: nat and w :: "bytes \<times> bytes"
  assume "snd w \<noteq> []" "0 < n"
  then show "\<exists>k w'. os_read one_byte_os fd n w = (Some (take k (snd w)), w') \<and> 1 \<le> k \<and> k \<le> n \<and>
      snd w' = drop k (snd w) \<and> fst w' = fst w"
    by (intro exI [of _ n] exI [of _ "(fst w, drop n (snd w))"])
       (simp add: one_byte_os_def case_prod_beta)
qed (simp_all add: one_byte_os_def case_prod_beta)

section \<open>Properties\<close>

text \<open>
  C7. Over a kernel whose writes do not fail, however short they are, the bytes given to the
  buffered writer in any portions, followed by a flush, arrive at the descriptor in order,
  each exactly once, and the buffer is empty again.
\<close>

theorem buffered_writer_stream:
  assumes "reliable os contents" "0 < w_fd wr" "w_position wr = 0"
  shows "\<exists>wr' w'. bind_run (write_all os ds (wr, w)) (\<lambda>(_, s). sentrycrashfu_flushBufferedWriter os s) =
      Inr (True, (wr', w')) \<and> w_position wr' = 0 \<and>
    contents (w_fd wr) w' = contents (w_fd wr) w @ concat ds"
proof -
  have wf: "wf_writer (wr, w)" using assms(2,3) by (simp add: wf_writer_def)
  obtain s where s: "write_all os ds (wr, w) = Inr (True, s)" "wf_writer s" "w_fd (fst s) = w_fd wr"
      "written_stream contents s = written_stream contents (wr, w) @ concat ds"
    using write_all_reliable [OF assms(1) wf, of ds] by auto
  obtain wr' w' where "sentrycrashfu_flushBufferedWriter os s = Inr (True, (wr', w'))"
      "w_position wr' = 0" "w_fd wr' = w_fd (fst s)"
      "written_stream contents (wr', w') = written_stream contents s"
    using flush_reliable [OF assms(1) s(2)] by auto
  with s assms(3) show ?thesis by (auto simp: written_stream_def)
qed

theorem buffered_writer_stream_witness:
  "\<exists>wr' w'. bind_run (write_all one_byte_os [''ab'', ''cdefg'', ''h'']
        (\<lparr>w_buffer = replicate 4 NUL, w_position = 0, w_fd = 3\<rparr>, (''>'', [])))
      (\<lambda>(_, s). sentrycrashfu_flushBufferedWriter one_byte_os s) = Inr (True, (wr', w')) \<and>
    w_position wr' = 0 \<and> fst w' = ''>abcdefgh''"
  using buffered_writer_stream [OF one_byte_reliable, of "\<lparr>w_buffer = replicate 4 NUL, w_position = 0, w_fd = 3\<rparr>"
      "[''ab'', ''cdefg'', ''h'']" "(''>'', [])"]
  by simp

text \<open>
  A failed flush is ignored: when the disk is full, a write that fits the buffer but not its
  free end is copied past the end of the buffer.
\<close>

theorem failed_flush_overflows:
  assumes "\<forall>fd d w. fst (os_write os fd d w) = -1"
    and "0 < w_fd wr" "0 < w_position wr" "w_position wr \<le> w_bufferLength wr"
    and "length data \<le> w_bufferLength wr" "w_bufferLength wr - w_position wr < length data"
  shows "sentrycrashfu_writeBufferedWriter os data (wr, w) = Inl UndefinedBehaviour"
proof -
  let ?d = "take (w_position wr) (w_buffer wr)"
  obtain n where n: "length ?d = Suc n" using assms(3,4) by (cases "length ?d") auto
  then have "?d \<noteq> []" by auto
  then have "sentrycrashfu_writeBytesToFD os (w_fd wr) ?d w = Inr (False, snd (os_write os (w_fd wr) ?d w))"
    using assms(1) by (simp only: sentrycrashfu_writeBytesToFD_def n write_loop.simps) (auto simp: split_beta Let_def)
  then show ?thesis
    using assms(2-6)
    by (auto simp: sentrycrashfu_writeBufferedWriter_def sentrycrashfu_flushBufferedWriter_def memcpy_at_def)
qed

theorem failed_flush_overflows_witness:
  "sentrycrashfu_writeBufferedWriter full_disk_os ''abc''
     (\<lparr>w_buffer = replicate 4 NUL, w_position = 2, w_fd = 3\<rparr>, ([], [])) = Inl UndefinedBehaviour"
  by (rule failed_flush_overflows) (simp_all add: full_disk_os_def)

text \<open>
  At the end of a file, where \<open>read\<close> returns no bytes and no error, the loop that reads a given
  number of bytes never returns: no fuel is enough.
\<close>

theorem read_spins_at_end:
  assumes "\<forall>n. os_read os fd n w = (Some [], w)"
  shows "sentrycrashfu_readBytesFromFD fuel os fd (Suc n) w = Inl OutOfFuel"
proof -
  have "read_loop fuel os fd (Suc n) got w = Inl OutOfFuel" for got
    using assms by (induction fuel arbitrary: got) simp_all
  then show ?thesis by (simp add: sentrycrashfu_readBytesFromFD_def)
qed

theorem read_spins_at_end_witness:
  "sentrycrashfu_readBytesFromFD 1000 one_byte_os 3 (Suc 0) ([], []) = Inl OutOfFuel"
  by (rule read_spins_at_end) (simp add: one_byte_os_def)

text \<open>
  While the bytes asked for are in the reader's buffer, they are delivered from there, in order,
  and the reader moves past them.
\<close>

theorem reader_delivers_buffered:
  assumes "r_dataStartPos rd + n \<le> r_dataEndPos rd" "r_dataEndPos rd \<le> length (r_buffer rd)"
  shows "sentrycrashfu_readBufferedReader os n (rd, w) =
    Inr (take n (drop (r_dataStartPos rd) (r_buffer rd)),
         (rd\<lparr>r_dataStartPos := r_dataStartPos rd + n\<rparr>, w))"
proof (cases n)
  case 0
  then show ?thesis by (simp add: sentrycrashfu_readBufferedReader_def)
next
  case (Suc m)
  have "read_bytes m os 0 got s = Inr (got, s)" for got and s :: "'a reading"
    by (cases m) simp_all
  moreover have "min (r_dataEndPos rd - r_dataStartPos rd) n = n" using assms(1) by simp
  ultimately show ?thesis
    using Suc assms by (simp add: sentrycrashfu_readBufferedReader_def take_bytes_def Let_def)
qed

theorem reader_delivers_buffered_witness:
  "sentrycrashfu_readBufferedReader one_byte_os 2
     (\<lparr>r_buffer = ''abcd'' @ [NUL], r_dataStartPos = 1, r_dataEndPos = 4, r_fd = 3\<rparr>, ([], [])) =
   Inr (''bc'', (\<lparr>r_buffer = ''abcd'' @ [NUL], r_dataStartPos = 3, r_dataEndPos = 4, r_fd = 3\<rparr>, ([], [])))"
  using reader_delivers_buffered [of "\<lparr>r_buffer = ''abcd'' @ [NUL], r_dataStartPos = 1, r_dataEndPos = 4, r_fd = 3\<rparr>" 2
      one_byte_os "([], [])"]
  by simp

text \<open>
  Once more than half of the buffer has been consumed and it is empty, asking for more bytes
  moves as many bytes as were consumed, instead of those that are left, and so reads past the
  buffer.
\<close>

theorem refill_overreads:
  assumes "r_dataStartPos rd = r_dataEndPos rd" "length (r_buffer rd) < 2 * r_dataStartPos rd"
  shows "sentrycrashfu_readBufferedReader os (Suc n) (rd, w) = Inl UndefinedBehaviour"
  using assms
  by (simp add: sentrycrashfu_readBufferedReader_def fillReadBuffer_def move_to_front_def Let_def)

theorem refill_overreads_witness:
  "sentrycrashfu_readBufferedReader one_byte_os (Suc 0)
     (\<lparr>r_buffer = ''abcd'' @ [NUL], r_dataStartPos = 4, r_dataEndPos = 4, r_fd = 3\<rparr>, ([], ''e'')) =
   Inl UndefinedBehaviour"
  by (rule refill_overreads) simp_all

text \<open>
  A line is read up to its newline, the end of the file or the room in the buffer, whichever
  comes first; the newline is consumed and not delivered.
\<close>

theorem read_line_exact:
  assumes "reads_bytes os fd st"
  shows "sentrycrashfu_readLineFromFD os fd (Suc room) (st s) =
    (let l = take room (takeWhile (\<lambda>b. b \<noteq> CHR ''\<newline>'') s)
     in Inr (int (length l), l, st (drop (if length l < room then Suc (length l) else length l) s)))"
  using read_line_eq [OF assms, of room "[]" s]
  by (simp add: sentrycrashfu_readLineFromFD_def Let_def)

theorem read_line_exact_witness:
  "sentrycrashfu_readLineFromFD one_byte_os 3 (Suc 9) ([], ''ab\<newline>cd'') = Inr (2, ''ab'', ([], ''cd''))"
  using read_line_exact [OF one_byte_reads, of 3 9 "[]" "''ab\<newline>cd''"] by simp

text \<open>
  A file that was written through the file system and closed is read back whole, however few
  bytes every read delivers, and reading leaves it as it is.
\<close>

theorem read_entire_file:
  assumes "one_file os path file rest" "length (file w) \<le> fuel" "alloc (length (file w) + 1)"
    "maxLength = 0 \<or> length (file w) \<le> maxLength"
  shows "\<exists>w'. sentrycrashfu_readEntireFile fuel os alloc path maxLength w =
    Inr (True, Some (file w), length (file w), w') \<and> file w' = file w"
  by (rule readEntireFile_one_file [of os path "file" rest w fuel alloc, OF assms])

theorem read_entire_file_witness:
  "\<exists>w'. sentrycrashfu_readEntireFile 9 one_byte_os (\<lambda>_. True) ''/f'' 100 (''hello'', []) =
    Inr (True, Some ''hello'', 5, w') \<and> fst w' = ''hello''"
  using read_entire_file [OF one_byte_file, of "(''hello'', [])" 9 "\<lambda>_. True" 100 "''/f''"]
  by (simp add: eval_nat_numeral)

end
