(* ===== verification/Async_Log.thy ===== *)
theory Async_Log
  imports File_Spec Json_Encode
begin

text \<open>
  \<open>Sentry/SentryAsyncSafeLog.c\<close>: the log that may be written while a crash is handled, with nothing but
  \<open>write\<close>. Formatted texts are arguments: of \<open>vsnprintf\<close> only the size of the buffer matters. The build
  does not write to the console.
\<close>

section \<open>The state\<close>

text \<open>\<open>log_fd\<close> is the static variable of \<open>sentry_asyncLogSetFileName\<close>.\<close>

record async_log =
  g_fd :: int
  log_fd :: int
  g_logFilename_here :: bytes

definition initial_log :: async_log where
  "initial_log = \<lparr>g_fd = -1, log_fd = -1, g_logFilename_here = []\<rparr>"

definition SENTRY_ASYNC_SAFE_LOG_C_BUFFER_SIZE :: nat where "SENTRY_ASYNC_SAFE_LOG_C_BUFFER_SIZE = 1024"

definition lastPathEntry :: "bytes \<Rightarrow> bytes" where
  "lastPathEntry path = after_last_slash path"

section \<open>Writing\<close>

text \<open>The loop is that of \<open>sentrycrashfu_writeBytesToFD\<close>, whose result is not asked for.\<close>

definition writeToLog :: "'f os \<Rightarrow> async_log \<Rightarrow> bytes \<Rightarrow> 'f \<Rightarrow> 'f run" where
  "writeToLog os s str w =
     (if g_fd s \<ge> 0
      then bind_run (write_loop (strlen str) os (g_fd s) (c_string str) w) (\<lambda>(_, w). Inr w)
      else Inr w)"

definition writeFmtArgsToLog :: "'f os \<Rightarrow> async_log \<Rightarrow> bytes option \<Rightarrow> 'f \<Rightarrow> 'f run" where
  "writeFmtArgsToLog os s formatted w =
     (case formatted of
        None \<Rightarrow> writeToLog os s ''(null)'' w
      | Some message \<Rightarrow> writeToLog os s (snprintf SENTRY_ASYNC_SAFE_LOG_C_BUFFER_SIZE message) w)"

definition writeFmtToLog :: "'f os \<Rightarrow> async_log \<Rightarrow> bytes option \<Rightarrow> 'f \<Rightarrow> 'f run" where
  "writeFmtToLog os s formatted w = writeFmtArgsToLog os s formatted w"

text \<open>The number of the line is printed as unsigned.\<close>

definition log_lead :: "bytes \<Rightarrow> bytes \<Rightarrow> 32 word \<Rightarrow> bytes" where
  "log_lead severity path line =
     c_string severity @ '': '' @ lastPathEntry (c_string path) @ '' ('' @ show_nat (unat line) @ ''): ''"

definition sentry_asyncLogC ::
    "'f os \<Rightarrow> async_log \<Rightarrow> bytes \<Rightarrow> bytes \<Rightarrow> 32 word \<Rightarrow> bytes option \<Rightarrow> 'f \<Rightarrow> 'f run" where
  "sentry_asyncLogC os s severity path line formatted w =
     bind_run (writeFmtToLog os s (Some (log_lead severity path line)) w) (\<lambda>w.
     bind_run (writeFmtArgsToLog os s formatted w) (\<lambda>w.
       writeToLog os s ''\<newline>'' w))"

section \<open>The file\<close>

definition setLogFD :: "'f os \<Rightarrow> int \<Rightarrow> async_log \<Rightarrow> 'f \<Rightarrow> async_log \<times> 'f" where
  "setLogFD os fd s w =
     (s\<lparr>g_fd := fd\<rparr>,
      if g_fd s \<ge> 0 \<and> g_fd s \<noteq> 1 \<and> g_fd s \<noteq> 2 \<and> g_fd s \<noteq> 0 then os_close os (g_fd s) w else w)"

text \<open>\<open>open_log\<close> is \<open>open\<close> for writing, with \<open>O_TRUNC\<close> or not; \<open>same\<close> tells that the name is the one kept here.\<close>

definition sentry_asyncLogSetFileName ::
    "'f os \<Rightarrow> (bytes \<Rightarrow> bool \<Rightarrow> 'f \<Rightarrow> int \<times> 'f) \<Rightarrow> bool \<Rightarrow> bytes option \<Rightarrow> bool \<Rightarrow> async_log \<Rightarrow> 'f \<Rightarrow>
       int \<times> async_log \<times> 'f" where
  "sentry_asyncLogSetFileName os open_log same filename overwrite s w =
     (case filename of
        None \<Rightarrow> let (s, w) = setLogFD os (log_fd s) s w in (0, s, w)
      | Some name \<Rightarrow>
          let (fd, w) = open_log (c_string name) overwrite w; s = s\<lparr>log_fd := fd\<rparr>
          in if fd < 0 then (1, s, w)
             else
               let s = (if same then s else s\<lparr>g_logFilename_here := take 1024 (c_string name)\<rparr>);
                   (s, w) = setLogFD os fd s w
               in (0, s, w))"

section \<open>What is written\<close>

lemma writeToLog_reliable:
  assumes "reliable os contents" "0 \<le> g_fd s"
  shows "\<exists>w'. writeToLog os s str w = Inr w' \<and> contents (g_fd s) w' = contents (g_fd s) w @ c_string str"
proof -
  obtain w' where "write_loop (strlen str) os (g_fd s) (c_string str) w = Inr (True, w')"
      "contents (g_fd s) w' = contents (g_fd s) w @ c_string str"
    using write_loop_reliable [OF assms(1), of "c_string str" "strlen str" "g_fd s" w] by (auto simp: strlen_def)
  with assms(2) show ?thesis by (simp add: writeToLog_def)
qed

text \<open>A line of the log: what leads it in, cut to the buffer, and the message, cut as well.\<close>

lemma log_line_written:
  assumes "reliable os contents" "0 \<le> g_fd s" "no_nul message"
  shows "\<exists>w'. sentry_asyncLogC os s severity path line (Some message) w = Inr w' \<and>
    contents (g_fd s) w' = contents (g_fd s) w @ c_string (take 1023 (log_lead severity path line)) @
      take 1023 message @ ''\<newline>''"
proof -
  let ?c = "contents (g_fd s)"
  obtain w1 where w1: "writeToLog os s (take 1023 (log_lead severity path line)) w = Inr w1"
      "?c w1 = ?c w @ c_string (take 1023 (log_lead severity path line))"
    using writeToLog_reliable [OF assms(1,2)] by blast
  obtain w2 where w2: "writeToLog os s (take 1023 message) w1 = Inr w2" "?c w2 = ?c w1 @ c_string (take 1023 message)"
    using writeToLog_reliable [OF assms(1,2)] by blast
  obtain w3 where w3: "writeToLog os s ''\<newline>'' w2 = Inr w3" "?c w3 = ?c w2 @ c_string ''\<newline>''"
    using writeToLog_reliable [OF assms(1,2)] by blast
  have "no_nul (take 1023 message)" using assms(3) by (auto simp: no_nul_def dest: in_set_takeD)
  with w1 w2 w3 show ?thesis
    by (simp add: sentry_asyncLogC_def writeFmtToLog_def writeFmtArgsToLog_def snprintf_def
      SENTRY_ASYNC_SAFE_LOG_C_BUFFER_SIZE_def)
qed

text \<open>
  Asking for no file after a file does not write to standard output: the descriptor of the file is
  closed and stays the one that is written to.
\<close>

lemma log_stays_on_closed_file:
  assumes "sentry_asyncLogSetFileName os open_log same (Some name) overwrite s w = (0, s1, w1)" "2 < g_fd s1"
  shows "sentry_asyncLogSetFileName os open_log same' None overwrite' s1 w1 = (0, s1, os_close os (g_fd s1) w1)"
  using assms
  by (auto simp: sentry_asyncLogSetFileName_def setLogFD_def Let_def split: prod.splits if_splits)

end
