(* ===== verification/Sys_Info.thy ===== *)
theory Sys_Info
  imports Prelude
begin

text \<open>
  \<open>Recording/Tools/SentryCrashSysCtl.c\<close> and \<open>SentryCrashDebug.c\<close>: questions to the kernel by \<open>sysctl\<close>. The
  kernel's answers are parameters; structures that it fills in are byte lists or, for a process, a
  record of the two members that are used.
\<close>

section \<open>The kernel\<close>

text \<open>
  A call with a buffer answers whether it has worked, the buffer as it is then, and the size; without a
  buffer, only the size matters. A structure in memory is told by the command.
\<close>

type_synonym sysctl_call = "bytes option \<Rightarrow> nat \<Rightarrow> bool \<times> bytes \<times> nat"

record timeval =
  tv_sec :: "64 word"
  tv_usec :: "32 word"

record kinfo_proc =
  p_flag :: "32 word"
  p_starttime :: timeval

record sysctl_env =
  sysctl :: "int list \<Rightarrow> sysctl_call"
  sysctlbyname :: "bytes \<Rightarrow> sysctl_call"
  sysctl_timeval :: "int list \<Rightarrow> timeval option"
  sysctlbyname_timeval :: "bytes \<Rightarrow> timeval option"
  sysctl_proc :: "int list \<Rightarrow> kinfo_proc option"
  sysctlnametomib :: "bytes \<Rightarrow> int list option"
  getpid :: int
  if_nametoindex :: "bytes \<Rightarrow> nat"
  sysctl_malloc :: "nat \<Rightarrow> bool"

section \<open>Numbers\<close>

text \<open>The value is 0 before the call, and what a failed call has left of it is not returned.\<close>

definition sysctl_number :: "sysctl_call \<Rightarrow> nat \<Rightarrow> 64 word" where
  "sysctl_number f n = (let (good, value, _) = f (Some (replicate n NUL)) n in if good then le_word value else 0)"

definition sentrycrashsysctl_int32 :: "sysctl_env \<Rightarrow> int \<Rightarrow> int \<Rightarrow> 32 word" where
  "sentrycrashsysctl_int32 env major_cmd minor_cmd = ucast (sysctl_number (sysctl env [major_cmd, minor_cmd]) 4)"

definition sentrycrashsysctl_int32ForName :: "sysctl_env \<Rightarrow> bytes \<Rightarrow> 32 word" where
  "sentrycrashsysctl_int32ForName env name = ucast (sysctl_number (sysctlbyname env name) 4)"

definition sentrycrashsysctl_uint32 :: "sysctl_env \<Rightarrow> int \<Rightarrow> int \<Rightarrow> 32 word" where
  "sentrycrashsysctl_uint32 env major_cmd minor_cmd = ucast (sysctl_number (sysctl env [major_cmd, minor_cmd]) 4)"

definition sentrycrashsysctl_uint32ForName :: "sysctl_env \<Rightarrow> bytes \<Rightarrow> 32 word" where
  "sentrycrashsysctl_uint32ForName env name = ucast (sysctl_number (sysctlbyname env name) 4)"

definition sentrycrashsysctl_int64 :: "sysctl_env \<Rightarrow> int \<Rightarrow> int \<Rightarrow> 64 word" where
  "sentrycrashsysctl_int64 env major_cmd minor_cmd = sysctl_number (sysctl env [major_cmd, minor_cmd]) 8"

definition sentrycrashsysctl_int64ForName :: "sysctl_env \<Rightarrow> bytes \<Rightarrow> 64 word" where
  "sentrycrashsysctl_int64ForName env name = sysctl_number (sysctlbyname env name) 8"

definition sentrycrashsysctl_uint64 :: "sysctl_env \<Rightarrow> int \<Rightarrow> int \<Rightarrow> 64 word" where
  "sentrycrashsysctl_uint64 env major_cmd minor_cmd = sysctl_number (sysctl env [major_cmd, minor_cmd]) 8"

definition sentrycrashsysctl_uint64ForName :: "sysctl_env \<Rightarrow> bytes \<Rightarrow> 64 word" where
  "sentrycrashsysctl_uint64ForName env name = sysctl_number (sysctlbyname env name) 8"

section \<open>Texts and structures\<close>

text \<open>The result and the buffer; the result is cut to 32 bits.\<close>

definition sysctl_text :: "sysctl_call \<Rightarrow> bytes option \<Rightarrow> int \<Rightarrow> 32 word \<times> bytes option" where
  "sysctl_text f value maxSize =
     (let size = (if value = None then 0 else unat (word_of_int maxSize :: 64 word)); (good, memory, size) = f value size
      in (if good then of_nat size else 0, map_option (\<lambda>_. memory) value))"

definition sentrycrashsysctl_string ::
    "sysctl_env \<Rightarrow> int \<Rightarrow> int \<Rightarrow> bytes option \<Rightarrow> int \<Rightarrow> 32 word \<times> bytes option" where
  "sentrycrashsysctl_string env major_cmd minor_cmd value maxSize =
     sysctl_text (sysctl env [major_cmd, minor_cmd]) value maxSize"

definition sentrycrashsysctl_stringForName ::
    "sysctl_env \<Rightarrow> bytes \<Rightarrow> bytes option \<Rightarrow> int \<Rightarrow> 32 word \<times> bytes option" where
  "sentrycrashsysctl_stringForName env name value maxSize = sysctl_text (sysctlbyname env name) value maxSize"

definition no_time :: timeval where "no_time = \<lparr>tv_sec = 0, tv_usec = 0\<rparr>"

definition sentrycrashsysctl_timeval :: "sysctl_env \<Rightarrow> int \<Rightarrow> int \<Rightarrow> timeval" where
  "sentrycrashsysctl_timeval env major_cmd minor_cmd =
     (case sysctl_timeval env [major_cmd, minor_cmd] of None \<Rightarrow> no_time | Some t \<Rightarrow> t)"

definition sentrycrashsysctl_timevalForName :: "sysctl_env \<Rightarrow> bytes \<Rightarrow> timeval" where
  "sentrycrashsysctl_timevalForName env name =
     (case sysctlbyname_timeval env name of None \<Rightarrow> no_time | Some t \<Rightarrow> t)"

text \<open>The numbers of a name that is not found are not initialised; its status is not asked for.\<close>

definition sentrycrashsysctl_currentProcessStartTime :: "sysctl_env \<Rightarrow> timeval run" where
  "sentrycrashsysctl_currentProcessStartTime env =
     (case sysctlnametomib env ''kern.proc.pid'' of
        None \<Rightarrow> Inl UndefinedBehaviour
      | Some mib \<Rightarrow>
          (case sysctl_proc env (take 3 mib @ [getpid env]) of
             None \<Rightarrow> Inr no_time
           | Some kp \<Rightarrow> Inr (p_starttime kp)))"

text \<open>\<open>CTL_KERN\<close>, \<open>KERN_PROC\<close>, \<open>KERN_PROC_PID\<close>.\<close>

definition process_mib :: "int \<Rightarrow> int list" where "process_mib pid = [1, 14, 1, pid]"

definition sentrycrashsysctl_getProcessInfo :: "sysctl_env \<Rightarrow> int \<Rightarrow> bool \<times> kinfo_proc option" where
  "sentrycrashsysctl_getProcessInfo env pid =
     (case sysctl_proc env (process_mib pid) of None \<Rightarrow> (False, None) | Some kp \<Rightarrow> (True, Some kp))"

definition P_TRACED :: "32 word" where "P_TRACED = 0x800"

definition sentrycrashdebug_isBeingTraced :: "sysctl_env \<Rightarrow> bool" where
  "sentrycrashdebug_isBeingTraced env =
     (case sysctl_proc env (process_mib (getpid env)) of
        None \<Rightarrow> False
      | Some kp \<Rightarrow> and (p_flag kp) P_TRACED \<noteq> 0)"

section \<open>The hardware address\<close>

text \<open>
  \<open>CTL_NET\<close>, \<open>AF_ROUTE\<close>, 0, \<open>AF_LINK\<close>, \<open>NET_RT_IFLIST\<close> and the interface. The answer is a message of 112 bytes, then
  an address: 8 bytes, of which the byte 5 is the length of the name, then the name and the 6 bytes.
\<close>

definition interface_mib :: "nat \<Rightarrow> int list" where "interface_mib i = [4, 17, 0, 18, 3, int i]"

definition link_address :: "bytes \<Rightarrow> bytes run" where
  "link_address ifBuffer =
     bind_run (read_at ifBuffer 117) (\<lambda>nlen.
       let start = 120 + byte_val nlen
       in if length ifBuffer < start + 6 then Inl UndefinedBehaviour else Inr (take 6 (drop start ifBuffer)))"

definition sentrycrashsysctl_getMacAddress :: "sysctl_env \<Rightarrow> bytes \<Rightarrow> (bool \<times> bytes option) run" where
  "sentrycrashsysctl_getMacAddress env name =
     (let i = if_nametoindex env name
      in if i = 0 then Inr (False, None)
         else
           let (good, _, n) = sysctl env (interface_mib i) None 0
           in if \<not> good then Inr (False, None)
              else if \<not> sysctl_malloc env n then Inr (False, None)
              else
                let (good, ifBuffer, _) = sysctl env (interface_mib i) (Some (replicate n NUL)) n
                in if \<not> good then Inr (False, None)
                   else bind_run (link_address ifBuffer) (\<lambda>mac. Inr (True, Some mac)))"

text \<open>
  The address is read within the answer exactly when the answer has room for an address with its name;
  an empty answer, which the kernel gives for an interface that has gone, is read past its end.
\<close>

lemma link_address_reads:
  "length ifBuffer > 117 \<Longrightarrow> 126 + byte_val (ifBuffer ! 117) \<le> length ifBuffer \<Longrightarrow>
    link_address ifBuffer = Inr (take 6 (drop (120 + byte_val (ifBuffer ! 117)) ifBuffer))"
  by (simp add: link_address_def Let_def)

lemma mac_address_past_end:
  assumes "if_nametoindex env name \<noteq> 0" "sysctl env (interface_mib (if_nametoindex env name)) None 0 = (True, b, 0)"
    "sysctl_malloc env 0" "sysctl env (interface_mib (if_nametoindex env name)) (Some []) 0 = (True, [], n)"
  shows "sentrycrashsysctl_getMacAddress env name = Inl UndefinedBehaviour"
  using assms by (simp add: sentrycrashsysctl_getMacAddress_def link_address_def Let_def)

text \<open>A number that the kernel writes in full is read as it was.\<close>

lemma number_reads:
  assumes "f (Some (replicate n NUL)) n = (True, le_bytes n x, n)"
  shows "sysctl_number f n = take_bit (8 * n) x"
  using assms by (simp add: sysctl_number_def le_word_bytes)

end
