(* ===== verification/App_State.thy ===== *)
theory App_State
  imports Report_Fixer File_Buffer
begin

text \<open>
  \<open>Recording/Monitors/SentryCrashMonitor_AppState.c\<close>: what the crash reporter knows about the
  application's launches, sessions and durations, and the file that keeps it from one launch to
  the next.
\<close>

section \<open>The state\<close>

record 'd app_state =
  activeDurationSinceLastCrash :: 'd
  backgroundDurationSinceLastCrash :: 'd
  launchesSinceLastCrash :: "32 word"
  sessionsSinceLastCrash :: "32 word"
  activeDurationSinceLaunch :: 'd
  backgroundDurationSinceLaunch :: 'd
  sessionsSinceLaunch :: "32 word"
  crashedLastLaunch :: bool
  durationFromCrashStateInitToLastCrash :: 'd
  crashedThisLaunch :: bool
  appStateTransitionTime :: 'd
  applicationIsActive :: bool
  applicationIsInForeground :: bool

text \<open>
  The arithmetic of \<open>double\<close> and the clock are parameters; \<open>now\<close> may change the state of the world.
\<close>

record 'd arith =
  d_zero :: 'd
  d_add :: "'d \<Rightarrow> 'd \<Rightarrow> 'd"
  d_sub :: "'d \<Rightarrow> 'd \<Rightarrow> 'd"
  d_of_int :: "64 word \<Rightarrow> 'd"

record ('d, 'f) platform =
  p_fp :: "'d fp_ops"
  p_arith :: "'d arith"
  p_os :: "'f os"
  p_alloc :: "nat \<Rightarrow> bool"
  p_now :: "'f \<Rightarrow> 'd \<times> 'f"

text \<open>The globals of the file and the world they act on.\<close>

record ('d, 'f) app =
  g_stateFilePath :: bytes
  g_state :: "'d app_state"
  g_crashstate_initialize_time :: 'd
  g_isEnabled :: bool
  app_world :: 'f

definition kKeyFormatVersion :: bytes where "kKeyFormatVersion = ''version''"
definition kFormatVersion :: "64 word" where "kFormatVersion = 1"
definition kKeyCrashedLastLaunch :: bytes where "kKeyCrashedLastLaunch = ''crashedLastLaunch''"
definition kKeyDurationFromCrashStateInitToLastCrash :: bytes where
  "kKeyDurationFromCrashStateInitToLastCrash = ''durationFromCrashStateInitToLastCrash''"
definition kKeyActiveDurationSinceLastCrash :: bytes where
  "kKeyActiveDurationSinceLastCrash = ''activeDurationSinceLastCrash''"
definition kKeyBackgroundDurationSinceLastCrash :: bytes where
  "kKeyBackgroundDurationSinceLastCrash = ''backgroundDurationSinceLastCrash''"
definition kKeyLaunchesSinceLastCrash :: bytes where
  "kKeyLaunchesSinceLastCrash = ''launchesSinceLastCrash''"
definition kKeySessionsSinceLastCrash :: bytes where
  "kKeySessionsSinceLastCrash = ''sessionsSinceLastCrash''"

lemmas state_keys = kKeyFormatVersion_def kFormatVersion_def kKeyCrashedLastLaunch_def
  kKeyDurationFromCrashStateInitToLastCrash_def kKeyActiveDurationSinceLastCrash_def
  kKeyBackgroundDurationSinceLastCrash_def kKeyLaunchesSinceLastCrash_def
  kKeySessionsSinceLastCrash_def

section \<open>Reading the state file\<close>

definition state_onBooleanElement :: "bytes option \<Rightarrow> bool \<Rightarrow> 'd app_state call" where
  "state_onBooleanElement name v st =
     (case name of
        None \<Rightarrow> Inr (SentryCrashJSON_ERROR_INVALID_DATA, st)
      | Some n \<Rightarrow>
          Inr (SentryCrashJSON_OK,
               if n = kKeyCrashedLastLaunch then st\<lparr>crashedLastLaunch := v\<rparr> else st))"

definition state_onFloatingPointElement :: "bytes option \<Rightarrow> 'd \<Rightarrow> 'd app_state call" where
  "state_onFloatingPointElement name v st =
     (case name of
        None \<Rightarrow> Inr (SentryCrashJSON_ERROR_INVALID_DATA, st)
      | Some n \<Rightarrow>
          Inr (SentryCrashJSON_OK,
               if n = kKeyDurationFromCrashStateInitToLastCrash
               then st\<lparr>durationFromCrashStateInitToLastCrash := v\<rparr>
               else if n = kKeyActiveDurationSinceLastCrash
               then st\<lparr>activeDurationSinceLastCrash := v\<rparr>
               else if n = kKeyBackgroundDurationSinceLastCrash
               then st\<lparr>backgroundDurationSinceLastCrash := v\<rparr>
               else st))"

text \<open>
  A whole number may be a count or a duration that was written without a fraction: counts are
  cut to 32 bits, and the number is passed on as a \<open>double\<close>.
\<close>

definition state_onIntegerElement :: "'d arith \<Rightarrow> bytes option \<Rightarrow> 64 word \<Rightarrow> 'd app_state call" where
  "state_onIntegerElement ar name v st =
     (case name of
        None \<Rightarrow> Inr (SentryCrashJSON_ERROR_INVALID_DATA, st)
      | Some n \<Rightarrow>
          if n = kKeyFormatVersion \<and> v \<noteq> kFormatVersion
          then Inr (SentryCrashJSON_ERROR_INVALID_DATA, st)
          else
            let st = (if n = kKeyFormatVersion then st
                      else if n = kKeyLaunchesSinceLastCrash then st\<lparr>launchesSinceLastCrash := ucast v\<rparr>
                      else if n = kKeySessionsSinceLastCrash then st\<lparr>sessionsSinceLastCrash := ucast v\<rparr>
                      else st)
            in state_onFloatingPointElement name (d_of_int ar v) st)"

definition state_callbacks :: "'d arith \<Rightarrow> ('d, 'd app_state) decode_callbacks" where
  "state_callbacks ar =
     \<lparr>onBooleanElement = state_onBooleanElement,
      onFloatingPointElement = state_onFloatingPointElement,
      onIntegerElement = state_onIntegerElement ar,
      onUIntegerElement = (\<lambda>_ _. ok),
      onNullElement = (\<lambda>_. ok),
      onStringElement = (\<lambda>_ _. ok),
      onBeginObject = (\<lambda>_. ok),
      onBeginArray = (\<lambda>_. ok),
      onEndContainer = ok,
      onEndData = ok\<rparr>"

text \<open>\<open>fuel\<close> is for the loop that reads the file. The callbacks change \<open>g_state\<close> even when a later
  element is refused.\<close>

definition loadState :: "nat \<Rightarrow> ('d, 'f) platform \<Rightarrow> bytes \<Rightarrow> ('d, 'f) app \<Rightarrow> (bool \<times> ('d, 'f) app) run" where
  "loadState fuel pl path a =
     (let os = p_os pl; (fd, w) = os_open_read os path (app_world a)
      in if fd < 0 then Inr (False, a\<lparr>app_world := w\<rparr>)
         else
           bind_run (sentrycrashfu_readEntireFile fuel os (p_alloc pl) path 50000 (os_close os fd w))
             (\<lambda>(good, data, len, w).
                case data of
                  None \<Rightarrow> Inr (False, a\<lparr>app_world := w\<rparr>)
                | Some text \<Rightarrow>
                    bind_run (sentrycrashjson_decode (p_fp pl) (text @ [NUL]) len 1000
                                (state_callbacks (p_arith pl)) (g_state a) 0)
                      (\<lambda>(result, st, _).
                         Inr (result = SentryCrashJSON_OK, a\<lparr>g_state := st, app_world := w\<rparr>))))"

section \<open>Writing the state file\<close>

definition fd_addJSONData :: "'f os \<Rightarrow> int \<Rightarrow> bytes \<Rightarrow> 'f call" where
  "fd_addJSONData os fd data w =
     bind_run (sentrycrashfu_writeBytesToFD os fd data w) (\<lambda>(success, w).
       Inr (if success then SentryCrashJSON_OK else SentryCrashJSON_ERROR_CANNOT_ADD_DATA, w))"

definition timeSince :: "('d, 'f) platform \<Rightarrow> 'd \<Rightarrow> 'f \<Rightarrow> 'd \<times> 'f" where
  "timeSince pl timeInSeconds w =
     (let (t, w) = p_now pl w in (d_sub (p_arith pl) t timeInSeconds, w))"

definition add_time_since_init :: "('d, 'f) platform \<Rightarrow> ('d, 'f) app \<Rightarrow> 'f enc" where
  "add_time_since_init pl a c =
     (let (duration, w) = (if crashedThisLaunch (g_state a)
                           then timeSince pl (g_crashstate_initialize_time a) (userData c)
                           else (d_zero (p_arith pl), userData c))
      in sentrycrashjson_addFloatingPointElement (p_fp pl)
           (Some kKeyDurationFromCrashStateInitToLastCrash) duration (c\<lparr>userData := w\<rparr>))"

definition save_elements :: "('d, 'f) platform \<Rightarrow> ('d, 'f) app \<Rightarrow> 'f enc" where
  "save_elements pl a =
     (let st = g_state a; fp = p_fp pl
      in steps
          [sentrycrashjson_beginObject None,
           sentrycrashjson_addIntegerElement (Some kKeyFormatVersion) kFormatVersion,
           sentrycrashjson_addBooleanElement (Some kKeyCrashedLastLaunch) (crashedThisLaunch st),
           add_time_since_init pl a,
           sentrycrashjson_addFloatingPointElement fp (Some kKeyActiveDurationSinceLastCrash)
             (activeDurationSinceLastCrash st),
           sentrycrashjson_addFloatingPointElement fp (Some kKeyBackgroundDurationSinceLastCrash)
             (backgroundDurationSinceLastCrash st),
           sentrycrashjson_addIntegerElement (Some kKeyLaunchesSinceLastCrash)
             (scast (launchesSinceLastCrash st)),
           sentrycrashjson_addIntegerElement (Some kKeySessionsSinceLastCrash)
             (scast (sessionsSinceLastCrash st)),
           sentrycrashjson_endEncode])"

definition saveState :: "('d, 'f) platform \<Rightarrow> bytes \<Rightarrow> ('d, 'f) app \<Rightarrow> (bool \<times> ('d, 'f) app) run" where
  "saveState pl path a =
     (let os = p_os pl; (fd, w) = os_open_trunc os path (app_world a)
      in if fd < 0 then Inr (False, a\<lparr>app_world := w\<rparr>)
         else
           bind_run (save_elements pl a (sentrycrashjson_beginEncode True (fd_addJSONData os fd) w))
             (\<lambda>(result, c).
                Inr (result = SentryCrashJSON_OK, a\<lparr>app_world := os_close os fd (userData c)\<rparr>)))"

section \<open>The notifications\<close>

text \<open>\<open>++\<close> on an \<open>int\<close> that is at its maximum is undefined.\<close>

definition increment :: "32 word \<Rightarrow> 32 word run" where
  "increment n = (if n = 0x7fffffff then Inl UndefinedBehaviour else Inr (n + 1))"

definition zero_state :: "'d arith \<Rightarrow> 'd app_state" where
  "zero_state ar =
     \<lparr>activeDurationSinceLastCrash = d_zero ar, backgroundDurationSinceLastCrash = d_zero ar,
      launchesSinceLastCrash = 0, sessionsSinceLastCrash = 0,
      activeDurationSinceLaunch = d_zero ar, backgroundDurationSinceLaunch = d_zero ar,
      sessionsSinceLaunch = 0, crashedLastLaunch = False,
      durationFromCrashStateInitToLastCrash = d_zero ar, crashedThisLaunch = False,
      appStateTransitionTime = d_zero ar, applicationIsActive = False,
      applicationIsInForeground = False\<rparr>"

definition sentrycrashstate_initialize ::
    "nat \<Rightarrow> ('d, 'f) platform \<Rightarrow> bytes \<Rightarrow> ('d, 'f) app \<Rightarrow> ('d, 'f) app run" where
  "sentrycrashstate_initialize fuel pl stateFilePath a =
     (let (t, w) = p_now pl (app_world a);
          a = a\<lparr>g_crashstate_initialize_time := t, g_stateFilePath := stateFilePath,
                g_state := zero_state (p_arith pl), app_world := w\<rparr>
      in bind_run (loadState fuel pl (g_stateFilePath a) a) (\<lambda>(_, a). Inr a))"

definition reset_counters :: "'d arith \<Rightarrow> 'd app_state \<Rightarrow> 'd app_state run" where
  "reset_counters ar st =
     (let st = st\<lparr>sessionsSinceLaunch := 1, activeDurationSinceLaunch := d_zero ar,
                  backgroundDurationSinceLaunch := d_zero ar\<rparr>;
          st = (if crashedLastLaunch st
                then st\<lparr>activeDurationSinceLastCrash := d_zero ar,
                        backgroundDurationSinceLastCrash := d_zero ar,
                        launchesSinceLastCrash := 0, sessionsSinceLastCrash := 0\<rparr>
                else st);
          st = st\<lparr>crashedThisLaunch := False\<rparr>
      in bind_run (increment (launchesSinceLastCrash st)) (\<lambda>launches.
         bind_run (increment (sessionsSinceLastCrash st)) (\<lambda>sessions.
           Inr (st\<lparr>launchesSinceLastCrash := launches, sessionsSinceLastCrash := sessions,
                   applicationIsInForeground := True\<rparr>))))"

definition sentrycrashstate_reset :: "('d, 'f) platform \<Rightarrow> ('d, 'f) app \<Rightarrow> (bool \<times> ('d, 'f) app) run" where
  "sentrycrashstate_reset pl a =
     (if g_isEnabled a then
        bind_run (reset_counters (p_arith pl) (g_state a)) (\<lambda>st.
          saveState pl (g_stateFilePath a) (a\<lparr>g_state := st\<rparr>))
      else Inr (False, a))"

definition sentrycrashstate_notifyAppActive ::
    "('d, 'f) platform \<Rightarrow> bool \<Rightarrow> ('d, 'f) app \<Rightarrow> ('d, 'f) app run" where
  "sentrycrashstate_notifyAppActive pl isActive a =
     (if \<not> g_isEnabled a then Inr a
      else
        let st = (g_state a)\<lparr>applicationIsActive := isActive\<rparr>; add = d_add (p_arith pl)
        in if isActive then
             let (t, w) = p_now pl (app_world a)
             in Inr (a\<lparr>g_state := st\<lparr>appStateTransitionTime := t\<rparr>, app_world := w\<rparr>)
           else
             let (duration, w) = timeSince pl (appStateTransitionTime st) (app_world a)
             in Inr (a\<lparr>g_state :=
                  st\<lparr>activeDurationSinceLaunch := add (activeDurationSinceLaunch st) duration,
                     activeDurationSinceLastCrash := add (activeDurationSinceLastCrash st) duration\<rparr>,
                  app_world := w\<rparr>))"

definition sentrycrashstate_notifyAppInForeground ::
    "('d, 'f) platform \<Rightarrow> bool \<Rightarrow> ('d, 'f) app \<Rightarrow> ('d, 'f) app run" where
  "sentrycrashstate_notifyAppInForeground pl isInForeground a =
     (if \<not> g_isEnabled a then Inr a
      else
        let st = (g_state a)\<lparr>applicationIsInForeground := isInForeground\<rparr>;
            add = d_add (p_arith pl); (t, w) = p_now pl (app_world a)
        in if isInForeground then
             let duration = d_sub (p_arith pl) t (appStateTransitionTime st)
             in bind_run (increment (sessionsSinceLastCrash st)) (\<lambda>sinceCrash.
                bind_run (increment (sessionsSinceLaunch st)) (\<lambda>sinceLaunch.
                  Inr (a\<lparr>g_state :=
                    st\<lparr>backgroundDurationSinceLaunch := add (backgroundDurationSinceLaunch st) duration,
                       backgroundDurationSinceLastCrash :=
                         add (backgroundDurationSinceLastCrash st) duration,
                       sessionsSinceLastCrash := sinceCrash, sessionsSinceLaunch := sinceLaunch\<rparr>,
                    app_world := w\<rparr>)))
           else
             bind_run (saveState pl (g_stateFilePath a)
                         (a\<lparr>g_state := st\<lparr>appStateTransitionTime := t\<rparr>, app_world := w\<rparr>))
               (\<lambda>(_, a). Inr a))"

definition sentrycrashstate_notifyAppTerminate :: "('d, 'f) platform \<Rightarrow> ('d, 'f) app \<Rightarrow> ('d, 'f) app run" where
  "sentrycrashstate_notifyAppTerminate pl a =
     (if \<not> g_isEnabled a then Inr a
      else
        let st = g_state a; (duration, w) = timeSince pl (appStateTransitionTime st) (app_world a);
            st = st\<lparr>backgroundDurationSinceLastCrash :=
                     d_add (p_arith pl) (backgroundDurationSinceLastCrash st) duration\<rparr>
        in bind_run (saveState pl (g_stateFilePath a) (a\<lparr>g_state := st, app_world := w\<rparr>)) (\<lambda>(_, a). Inr a))"

definition sentrycrashstate_notifyAppCrash :: "('d, 'f) platform \<Rightarrow> ('d, 'f) app \<Rightarrow> ('d, 'f) app run" where
  "sentrycrashstate_notifyAppCrash pl a =
     (if \<not> g_isEnabled a then Inr a
      else
        let st = g_state a; add = d_add (p_arith pl);
            (duration, w) = timeSince pl (appStateTransitionTime st) (app_world a);
            st = (if applicationIsActive st
                  then st\<lparr>activeDurationSinceLaunch := add (activeDurationSinceLaunch st) duration,
                          activeDurationSinceLastCrash := add (activeDurationSinceLastCrash st) duration\<rparr>
                  else if \<not> applicationIsInForeground st
                  then st\<lparr>backgroundDurationSinceLaunch := add (backgroundDurationSinceLaunch st) duration,
                          backgroundDurationSinceLastCrash :=
                            add (backgroundDurationSinceLastCrash st) duration\<rparr>
                  else st);
            st = st\<lparr>crashedThisLaunch := True\<rparr>
        in bind_run (saveState pl (g_stateFilePath a) (a\<lparr>g_state := st, app_world := w\<rparr>)) (\<lambda>(_, a). Inr a))"

definition sentrycrashstate_filePath :: "('d, 'f) app \<Rightarrow> bytes" where
  "sentrycrashstate_filePath a = g_stateFilePath a"

definition sentrycrashstate_currentState :: "('d, 'f) app \<Rightarrow> 'd app_state" where
  "sentrycrashstate_currentState a = g_state a"

definition appstate_setEnabled :: "('d, 'f) platform \<Rightarrow> bool \<Rightarrow> ('d, 'f) app \<Rightarrow> ('d, 'f) app run" where
  "appstate_setEnabled pl isEnabled a =
     (if isEnabled \<noteq> g_isEnabled a then
        let a = a\<lparr>g_isEnabled := isEnabled\<rparr>
        in if isEnabled then bind_run (sentrycrashstate_reset pl a) (\<lambda>(_, a). Inr a) else Inr a
      else Inr a)"

definition appstate_isEnabled :: "('d, 'f) app \<Rightarrow> bool" where
  "appstate_isEnabled a = g_isEnabled a"

text \<open>
  The event's copy of the state gets every field but \<open>durationFromCrashStateInitToLastCrash\<close>.
\<close>

definition appstate_addContextualInfoToEvent :: "('d, 'f) app \<Rightarrow> 'd app_state \<Rightarrow> 'd app_state" where
  "appstate_addContextualInfoToEvent a event =
     (if g_isEnabled a
      then (g_state a)\<lparr>durationFromCrashStateInitToLastCrash :=
              durationFromCrashStateInitToLastCrash event\<rparr>
      else event)"

end
