(* ===== verification/App_State_Spec.thy ===== *)
theory App_State_Spec
  imports App_State File_Spec
begin

text \<open>
  The state file and the life cycle of the application: what is saved is the rendering of a JSON
  value, loading it gives the saved fields back, and from one launch to the next the counts since
  the last crash go on, or start again after a crash.
\<close>

section \<open>The saved value\<close>

definition state_json :: "'d app_state \<Rightarrow> 'd \<Rightarrow> 'd json" where
  "state_json st duration = JObject
     [(kKeyFormatVersion, JInt kFormatVersion),
      (kKeyCrashedLastLaunch, JBool (crashedThisLaunch st)),
      (kKeyDurationFromCrashStateInitToLastCrash, JFloat duration),
      (kKeyActiveDurationSinceLastCrash, JFloat (activeDurationSinceLastCrash st)),
      (kKeyBackgroundDurationSinceLastCrash, JFloat (backgroundDurationSinceLastCrash st)),
      (kKeyLaunchesSinceLastCrash, JInt (scast (launchesSinceLastCrash st))),
      (kKeySessionsSinceLastCrash, JInt (scast (sessionsSinceLastCrash st)))]"

text \<open>The clock reads \<open>t\<close> and leaves the world alone.\<close>

definition clock_at :: "('d, 'f) platform \<Rightarrow> 'd \<Rightarrow> bool" where
  "clock_at pl t \<longleftrightarrow> (\<forall>w. p_now pl w = (t, w))"

definition saved_duration :: "('d, 'f) platform \<Rightarrow> 'd \<Rightarrow> ('d, 'f) app \<Rightarrow> 'd" where
  "saved_duration pl t a =
     (if crashedThisLaunch (g_state a) then d_sub (p_arith pl) t (g_crashstate_initialize_time a)
      else d_zero (p_arith pl))"

lemma key_c_string [simp]:
  "c_string kKeyFormatVersion = kKeyFormatVersion"
  "c_string kKeyCrashedLastLaunch = kKeyCrashedLastLaunch"
  "c_string kKeyDurationFromCrashStateInitToLastCrash = kKeyDurationFromCrashStateInitToLastCrash"
  "c_string kKeyActiveDurationSinceLastCrash = kKeyActiveDurationSinceLastCrash"
  "c_string kKeyBackgroundDurationSinceLastCrash = kKeyBackgroundDurationSinceLastCrash"
  "c_string kKeyLaunchesSinceLastCrash = kKeyLaunchesSinceLastCrash"
  "c_string kKeySessionsSinceLastCrash = kKeySessionsSinceLastCrash"
  by (simp_all add: state_keys c_string_def)

lemma key_escape [simp]:
  "escape_string kKeyFormatVersion = kKeyFormatVersion"
  "escape_string kKeyCrashedLastLaunch = kKeyCrashedLastLaunch"
  "escape_string kKeyDurationFromCrashStateInitToLastCrash = kKeyDurationFromCrashStateInitToLastCrash"
  "escape_string kKeyActiveDurationSinceLastCrash = kKeyActiveDurationSinceLastCrash"
  "escape_string kKeyBackgroundDurationSinceLastCrash = kKeyBackgroundDurationSinceLastCrash"
  "escape_string kKeyLaunchesSinceLastCrash = kKeyLaunchesSinceLastCrash"
  "escape_string kKeySessionsSinceLastCrash = kKeySessionsSinceLastCrash"
  by (simp_all add: state_keys escape_def)

lemma key_escapable [simp]:
  "escapable_string kKeyFormatVersion" "escapable_string kKeyCrashedLastLaunch"
  "escapable_string kKeyDurationFromCrashStateInitToLastCrash"
  "escapable_string kKeyActiveDurationSinceLastCrash"
  "escapable_string kKeyBackgroundDurationSinceLastCrash"
  "escapable_string kKeyLaunchesSinceLastCrash" "escapable_string kKeySessionsSinceLastCrash"
  by (simp_all add: state_keys escapable_string_def escapable_def)

lemma key_lengths [simp]:
  "length kKeyFormatVersion = 7" "length kKeyCrashedLastLaunch = 17"
  "length kKeyDurationFromCrashStateInitToLastCrash = 37"
  "length kKeyActiveDurationSinceLastCrash = 28" "length kKeyBackgroundDurationSinceLastCrash = 32"
  "length kKeyLaunchesSinceLastCrash = 22" "length kKeySessionsSinceLastCrash = 22"
  by (simp_all add: state_keys)

section \<open>Saving\<close>

text \<open>A descriptor of a reliable kernel is a sink with room for any text.\<close>

lemma fd_json_sink:
  assumes "reliable os contents"
  shows "json_sink (fd_addJSONData os fd) (\<lambda>_. True) (contents fd) (\<lambda>_. n)"
proof
  fix data u
  obtain w' where w': "sentrycrashfu_writeBytesToFD os fd data u = Inr (True, w')"
      "contents fd w' = contents fd u @ data"
    using writeBytesToFD_reliable [OF assms] by blast
  then have run: "fd_addJSONData os fd data u = Inr (0, w')"
    by (simp add: fd_addJSONData_def json_codes)
  then show "\<exists>r u'. fd_addJSONData os fd data u = Inr (r, u') \<and> True" by blast
  show "\<exists>u'. fd_addJSONData os fd data u = Inr (0, u') \<and> n \<le> n + length data" using run by simp
  show "contents fd u' = contents fd u @ data" if "fd_addJSONData os fd data u = Inr (0, u')" for u'
    using that run w'(2) by simp
qed

lemma save_elements_events:
  assumes "clock_at pl t"
  shows "save_elements pl a =
    steps (map (encode_event (p_fp pl))
      (butlast (events None (state_json (g_state a) (saved_duration pl t a)))) @ [sentrycrashjson_endEncode])"
proof -
  have now: "p_now pl w = (t, w)" for w using assms by (simp add: clock_at_def)
  have dur: "add_time_since_init pl a =
      sentrycrashjson_addFloatingPointElement (p_fp pl) (Some kKeyDurationFromCrashStateInitToLastCrash)
        (saved_duration pl t a)"
    by (rule ext) (simp add: add_time_since_init_def saved_duration_def timeSince_def now)
  show ?thesis
    unfolding save_elements_def Let_def dur by (simp add: state_json_def)
qed

lemma events_object_last: "events n (JObject ms) = butlast (events n (JObject ms)) @ [EvEnd]"
  by (simp add: butlast_append)

lemma save_elements_writes:
  assumes "reliable os contents" "clock_at pl t"
  shows "\<exists>c. save_elements pl a (sentrycrashjson_beginEncode True (fd_addJSONData os fd) w) = Inr (0, c) \<and>
    contents fd (userData c) = contents fd w @
      render (p_fp pl) True 0 (state_json (g_state a) (saved_duration pl t a))"
proof -
  let ?sh = "\<lparr>sh_pretty = True, sh_stack = [False], sh_first = True\<rparr>"
  let ?t = "state_json (g_state a) (saved_duration pl t a)" and ?fp = "p_fp pl"
  let ?evs = "butlast (events None ?t)" and ?tx = "render ?fp True 0 ?t"
  let ?N = "length ?tx"
  have evs: "events None ?t = ?evs @ [EvEnd]"
    unfolding state_json_def by (rule events_object_last)
  note sink = fd_json_sink [OF assms(1), of fd ?N]
  let ?sh1 = "events_shape ?evs ?sh"
  have enc: "encodable 0 ?t" by (simp add: state_json_def)
  have "events_fit ?sh (?evs @ [EvEnd])"
    using events_fit_value [OF enc, of ?sh None] by (simp add: evs [symmetric] name_fits_def)
  then have "events_fit ?sh ?evs" by (simp add: events_fit_append)
  then have part: "emits (fd_addJSONData os fd) (\<lambda>_. True) (contents fd) (\<lambda>_. ?N)
      (steps (map (encode_event ?fp) ?evs)) ?sh (events_text ?fp ?sh ?evs) ?sh1"
    by (rule json_sink.emits_events [OF sink])
  have sh1: "sh_stack ?sh1 = [True, False]" by (simp add: state_json_def push_container_def)
  have "emits (fd_addJSONData os fd) (\<lambda>_. True) (contents fd) (\<lambda>_. ?N)
      (steps [sentrycrashjson_endEncode]) ?sh1 (closing_text 1 ?sh1) (closed_shape 1 ?sh1)"
    by (rule emits_one, rule json_sink.emits_endEncode [OF sink]) (simp add: sh1)
  from emits_append [OF part this]
  have whole: "emits (fd_addJSONData os fd) (\<lambda>_. True) (contents fd) (\<lambda>_. ?N) (save_elements pl a) ?sh
      (events_text ?fp ?sh ?evs @ closing_text 1 ?sh1) (closed_shape 1 ?sh1)"
    by (simp only: save_elements_events [OF assms(2)])
  have "events_text ?fp ?sh (?evs @ [EvEnd]) = ?tx"
    by (simp add: evs [symmetric] events_render begin_text_array item_lead_def)
  then have tx_eq: "events_text ?fp ?sh ?evs @ closing_text 1 ?sh1 = ?tx"
    by (simp add: events_text_append)
  have "length (events_text ?fp ?sh ?evs @ closing_text 1 ?sh1) \<le> ?N" by (simp only: tx_eq order_refl)
  from emits_succeeds [OF whole has_shape_beginEncode TrueI this] show ?thesis
    unfolding tx_eq by (auto simp: sentrycrashjson_beginEncode_def)
qed


lemma saveState_writes:
  assumes "one_file os path content rest" "p_os pl = os" "clock_at pl t"
  shows "\<exists>w. saveState pl path a = Inr (True, a\<lparr>app_world := w\<rparr>) \<and>
    content w = render (p_fp pl) True 0 (state_json (g_state a) (saved_duration pl t a))"
proof -
  obtain fd w where op: "os_open_trunc os path (app_world a) = (fd, w)" by fastforce
  note trunc = one_fileD(2) [OF assms(1) op]
  have "reliable os (\<lambda>_. content)" using assms(1) by (simp add: one_file_def)
  from save_elements_writes [OF this assms(3), of a fd w]
  obtain c where "save_elements pl a (sentrycrashjson_beginEncode True (fd_addJSONData os fd) w) = Inr (0, c)"
      "content (userData c) = render (p_fp pl) True 0 (state_json (g_state a) (saved_duration pl t a))"
    using trunc by auto
  then show ?thesis
    using trunc one_fileD(4) [OF assms(1)]
    by (intro exI [of _ "os_close os fd (userData c)"]) (simp add: saveState_def assms(2) op json_codes)
qed

section \<open>Loading\<close>

text \<open>What a duration is read back as: a text without a fraction goes through an integer.\<close>

definition read_back :: "'d arith \<Rightarrow> 'd fp_ops \<Rightarrow> 'd \<Rightarrow> 'd \<Rightarrow> 'd" where
  "read_back ar fp x old =
     (case float_value fp x of JFloat y \<Rightarrow> y | JInt n \<Rightarrow> d_of_int ar n | _ \<Rightarrow> old)"

definition reloaded :: "'d arith \<Rightarrow> 'd fp_ops \<Rightarrow> 'd app_state \<Rightarrow> 'd \<Rightarrow> 'd app_state \<Rightarrow> 'd app_state" where
  "reloaded ar fp st duration old =
     old\<lparr>crashedLastLaunch := crashedThisLaunch st,
         durationFromCrashStateInitToLastCrash :=
           read_back ar fp duration (durationFromCrashStateInitToLastCrash old),
         activeDurationSinceLastCrash :=
           read_back ar fp (activeDurationSinceLastCrash st) (activeDurationSinceLastCrash old),
         backgroundDurationSinceLastCrash :=
           read_back ar fp (backgroundDurationSinceLastCrash st) (backgroundDurationSinceLastCrash old),
         launchesSinceLastCrash := launchesSinceLastCrash st,
         sessionsSinceLastCrash := sessionsSinceLastCrash st\<rparr>"

lemma keys_distinct:
  "distinct [kKeyFormatVersion, kKeyCrashedLastLaunch, kKeyDurationFromCrashStateInitToLastCrash,
     kKeyActiveDurationSinceLastCrash, kKeyBackgroundDurationSinceLastCrash,
     kKeyLaunchesSinceLastCrash, kKeySessionsSinceLastCrash]"
  by (simp add: state_keys)

lemma keys_distinct_rev:
  "distinct [kKeySessionsSinceLastCrash, kKeyLaunchesSinceLastCrash,
     kKeyBackgroundDurationSinceLastCrash, kKeyActiveDurationSinceLastCrash,
     kKeyDurationFromCrashStateInitToLastCrash, kKeyCrashedLastLaunch, kKeyFormatVersion]"
  by (simp add: state_keys)

lemmas key_neq [simp] = keys_distinct [simplified] keys_distinct_rev [simplified]

lemma ucast_scast_int [simp]: "ucast (scast (n :: 32 word) :: 64 word) = n"
proof (rule bit_word_eqI)
  fix i
  assume "i < LENGTH(32)"
  then show "bit (ucast (scast n :: 64 word) :: 32 word) i = bit n i"
    by (cases "i = 31") (auto simp: bit_unsigned_iff bit_signed_iff min_def)
qed

lemma float_value_cases:
  obtains "float_value fp x = JNull" | n where "float_value fp x = JInt n"
  | n where "float_value fp x = JUInt n" | y where "float_value fp x = JFloat y"
proof -
  have number: "number_value fp neg f \<in> range JInt \<union> range JUInt \<union> range JFloat" for neg f
    by (simp add: number_value_def)
  have "float_value fp x \<in> insert JNull (range JInt \<union> range JUInt \<union> range JFloat)"
    unfolding float_value_def Let_def using number by simp
  then show ?thesis using that by blast
qed

text \<open>A duration under one of its three keys.\<close>

definition set_duration :: "'d arith \<Rightarrow> 'd fp_ops \<Rightarrow> bytes \<Rightarrow> 'd \<Rightarrow> 'd app_state \<Rightarrow> 'd app_state" where
  "set_duration ar fp k x st =
    (if k = kKeyDurationFromCrashStateInitToLastCrash
    then st\<lparr>durationFromCrashStateInitToLastCrash :=
           read_back ar fp x (durationFromCrashStateInitToLastCrash st)\<rparr>
    else if k = kKeyActiveDurationSinceLastCrash
    then st\<lparr>activeDurationSinceLastCrash := read_back ar fp x (activeDurationSinceLastCrash st)\<rparr>
    else st\<lparr>backgroundDurationSinceLastCrash :=
           read_back ar fp x (backgroundDurationSinceLastCrash st)\<rparr>)"

lemma load_duration:
  assumes "k \<in> {kKeyDurationFromCrashStateInitToLastCrash, kKeyActiveDurationSinceLastCrash,
    kKeyBackgroundDurationSinceLastCrash}"
  shows "run_events (state_callbacks ar) (events (Some k) (float_value fp x)) st =
    Inr (0, set_duration ar fp k x st)"
proof (cases rule: float_value_cases [of fp x])
  case 1
  then show ?thesis
    by (simp add: run_events_one state_callbacks_def read_back_def ok_def json_codes set_duration_def)
next
  case (2 n)
  have "k \<noteq> kKeyFormatVersion" "k \<noteq> kKeyLaunchesSinceLastCrash" "k \<noteq> kKeySessionsSinceLastCrash"
    using assms by auto
  with 2 assms show ?thesis
    by (auto simp: run_events_one state_callbacks_def read_back_def json_codes set_duration_def
      state_onIntegerElement_def state_onFloatingPointElement_def Let_def)
next
  case (3 n)
  then show ?thesis
    by (simp add: run_events_one state_callbacks_def read_back_def ok_def json_codes set_duration_def)
next
  case (4 y)
  with assms show ?thesis
    by (auto simp: run_events_one state_callbacks_def read_back_def json_codes set_duration_def
      state_onFloatingPointElement_def)
qed


lemma load_simple:
  "run_events (state_callbacks ar) [EvBeginObject None] st = Inr (0, st)"
  "run_events (state_callbacks ar) [EvEnd] st = Inr (0, st)"
  "run_events (state_callbacks ar) (events (Some kKeyFormatVersion) (JInt kFormatVersion)) st = Inr (0, st)"
  "run_events (state_callbacks ar) (events (Some kKeyCrashedLastLaunch) (JBool b)) st =
     Inr (0, st\<lparr>crashedLastLaunch := b\<rparr>)"
  "run_events (state_callbacks ar) (events (Some kKeyLaunchesSinceLastCrash) (JInt (scast n))) st =
     Inr (0, st\<lparr>launchesSinceLastCrash := n\<rparr>)"
  "run_events (state_callbacks ar) (events (Some kKeySessionsSinceLastCrash) (JInt (scast n))) st =
     Inr (0, st\<lparr>sessionsSinceLastCrash := n\<rparr>)"
  by (simp_all add: run_events_one state_callbacks_def ok_def json_codes Let_def
    state_onBooleanElement_def state_onIntegerElement_def state_onFloatingPointElement_def)

lemma load_events:
  "run_events (state_callbacks ar) (events None (reread fp (state_json st duration))) old =
    Inr (0, reloaded ar fp st duration old)"
proof -
  have split: "events None (reread fp (state_json st duration)) =
      [EvBeginObject None] @ events (Some kKeyFormatVersion) (JInt kFormatVersion) @
      events (Some kKeyCrashedLastLaunch) (JBool (crashedThisLaunch st)) @
      events (Some kKeyDurationFromCrashStateInitToLastCrash) (float_value fp duration) @
      events (Some kKeyActiveDurationSinceLastCrash) (float_value fp (activeDurationSinceLastCrash st)) @
      events (Some kKeyBackgroundDurationSinceLastCrash)
        (float_value fp (backgroundDurationSinceLastCrash st)) @
      events (Some kKeyLaunchesSinceLastCrash) (JInt (scast (launchesSinceLastCrash st))) @
      events (Some kKeySessionsSinceLastCrash) (JInt (scast (sessionsSinceLastCrash st))) @ [EvEnd]"
    by (simp add: state_json_def)
  show ?thesis
    unfolding split run_events_append
    by (simp add: load_simple load_duration set_duration_def reloaded_def
      del: run_events_simps events.simps)
qed

lemma length_float_text: "length (float_text fp x) \<le> 49"
proof -
  have "length (c_string (snprintf 50 (fp_print fp x))) \<le> length (snprintf 50 (fp_print fp x))"
    by (simp add: c_string_def length_takeWhile_le)
  also have "\<dots> \<le> 49" by (simp add: snprintf_def)
  finally show ?thesis by (simp add: float_text_def)
qed

lemma length_state_text: "length (render fp True 0 (state_json st duration)) \<le> 1000"
  using length_float_text [of fp duration]
    length_float_text [of fp "activeDurationSinceLastCrash st"]
    length_float_text [of fp "backgroundDurationSinceLastCrash st"]
    length_show_int64 [of "scast (launchesSinceLastCrash st)"]
    length_show_int64 [of "scast (sessionsSinceLastCrash st)"]
    length_show_int64 [of kFormatVersion]
  by (simp add: state_json_def item_lead_def closing_lead_def colon_def indent_text_def quoted_def)

text \<open>The three durations print as numbers of the decoder's buffer.\<close>

definition printable_state :: "'d fp_ops \<Rightarrow> 'd app_state \<Rightarrow> 'd \<Rightarrow> bool" where
  "printable_state fp st duration \<longleftrightarrow> float_printable fp 750 duration \<and>
     float_printable fp 750 (activeDurationSinceLastCrash st) \<and>
     float_printable fp 750 (backgroundDurationSinceLastCrash st)"

lemma loadState_reads:
  assumes "one_file os path content rest" "p_os pl = os" "p_alloc pl = (\<lambda>_. True)" "1000 \<le> fuel"
    "content (app_world a) = render (p_fp pl) True 0 (state_json st duration)"
    "printable_state (p_fp pl) st duration"
  shows "\<exists>w. loadState fuel pl path a =
      Inr (True, a\<lparr>g_state := reloaded (p_arith pl) (p_fp pl) st duration (g_state a), app_world := w\<rparr>) \<and>
    content w = content (app_world a)"
proof -
  let ?tx = "render (p_fp pl) True 0 (state_json st duration)"
  let ?cb = "state_callbacks (p_arith pl)"
  obtain fd w where op: "os_open_read os path (app_world a) = (fd, w)" by fastforce
  note opened = one_fileD(3) [OF assms(1) op]
  let ?w = "os_close os fd w"
  have kept: "content ?w = ?tx" using opened one_fileD(4) [OF assms(1)] assms(5) by simp
  have "\<exists>w'. sentrycrashfu_readEntireFile fuel os (p_alloc pl) path 50000 ?w =
      Inr (True, Some ?tx, length ?tx, w') \<and> content w' = ?tx"
    using readEntireFile_one_file [OF assms(1), of ?w fuel "p_alloc pl" 50000]
      length_state_text [of "p_fp pl" st duration] assms(3,4) by (simp add: kept)
  then obtain w' where w': "sentrycrashfu_readEntireFile fuel os (p_alloc pl) path 50000 ?w =
      Inr (True, Some ?tx, length ?tx, w')" "content w' = ?tx" by blast
  have "fits_buffers (p_fp pl) (1000 div 4) (1000 - 1000 div 4) (state_json st duration)"
    using assms(6) by (simp add: state_json_def printable_state_def)
  note decoded = decode_container_text [OF render_json_text [OF this, where p = True and l = 0],
      where cb = ?cb and u = "g_state a" and off = 0 and beyond = "[NUL]"]
  have "\<not> is_number (reread (p_fp pl) (state_json st duration))"
    by (simp add: is_number_def state_json_def)
  from decoded [OF this]
  have "sentrycrashjson_decode (p_fp pl) (?tx @ [NUL]) (length ?tx) 1000 ?cb (g_state a) 0 =
      Inr (0, reloaded (p_arith pl) (p_fp pl) st duration (g_state a), 0)"
    by (simp add: load_events) (simp add: state_callbacks_def ok_def json_codes)
  with w' opened kept assms(5) show ?thesis
    by (intro exI [of _ w']) (simp add: loadState_def assms(2) op json_codes)
qed


section \<open>From one launch to the next\<close>

text \<open>
  A process starts with the file an earlier process saved: it reads the state, and enabling the
  monitor resets the counters and saves them.
\<close>

definition launched ::
    "nat \<Rightarrow> ('d, 'f) platform \<Rightarrow> bytes \<Rightarrow> ('d, 'f) app \<Rightarrow> ('d, 'f) app run" where
  "launched fuel pl path a =
     bind_run (sentrycrashstate_initialize fuel pl path a) (appstate_setEnabled pl True)"

lemma initialize_reads:
  assumes "one_file os path content rest" "p_os pl = os" "p_alloc pl = (\<lambda>_. True)" "1000 \<le> fuel"
    "clock_at pl t" "content (app_world a) = render (p_fp pl) True 0 (state_json st duration)"
    "printable_state (p_fp pl) st duration"
  shows "\<exists>w. sentrycrashstate_initialize fuel pl path a =
      Inr (a\<lparr>g_crashstate_initialize_time := t, g_stateFilePath := path,
             g_state := reloaded (p_arith pl) (p_fp pl) st duration (zero_state (p_arith pl)),
             app_world := w\<rparr>) \<and>
    content w = content (app_world a)"
proof -
  let ?a = "a\<lparr>g_crashstate_initialize_time := t, g_stateFilePath := path,
    g_state := zero_state (p_arith pl)\<rparr>"
  have now: "p_now pl w = (t, w)" for w using assms(5) by (simp add: clock_at_def)
  have "content (app_world ?a) = render (p_fp pl) True 0 (state_json st duration)"
    using assms(6) by simp
  from loadState_reads [OF assms(1-4) this assms(7)] obtain w where
    "loadState fuel pl path ?a = Inr (True, ?a\<lparr>g_state :=
       reloaded (p_arith pl) (p_fp pl) st duration (g_state ?a), app_world := w\<rparr>)"
    "content w = content (app_world a)" by auto
  then show ?thesis
    by (intro exI [of _ w]) (simp add: sentrycrashstate_initialize_def now Let_def)
qed

definition counts_after :: "bool \<Rightarrow> 32 word \<Rightarrow> 32 word" where
  "counts_after crashed n = (if crashed then 1 else n + 1)"

lemma reset_counters_counts:
  assumes "crashedLastLaunch st \<or>
    launchesSinceLastCrash st \<noteq> 0x7fffffff \<and> sessionsSinceLastCrash st \<noteq> 0x7fffffff"
  shows "\<exists>st'. reset_counters ar st = Inr st' \<and> crashedLastLaunch st' = crashedLastLaunch st \<and>
    launchesSinceLastCrash st' = counts_after (crashedLastLaunch st) (launchesSinceLastCrash st) \<and>
    sessionsSinceLastCrash st' = counts_after (crashedLastLaunch st) (sessionsSinceLastCrash st) \<and>
    sessionsSinceLaunch st' = 1 \<and> \<not> crashedThisLaunch st' \<and>
    durationFromCrashStateInitToLastCrash st' = durationFromCrashStateInitToLastCrash st"
  using assms by (auto simp: reset_counters_def increment_def counts_after_def Let_def)

lemma launched_counts:
  assumes "one_file os path content rest" "p_os pl = os" "p_alloc pl = (\<lambda>_. True)" "1000 \<le> fuel"
    "clock_at pl t" "content (app_world a) = render (p_fp pl) True 0 (state_json st duration)"
    "printable_state (p_fp pl) st duration" "\<not> g_isEnabled a"
    "crashedThisLaunch st \<or>
      launchesSinceLastCrash st \<noteq> 0x7fffffff \<and> sessionsSinceLastCrash st \<noteq> 0x7fffffff"
  shows "\<exists>b. launched fuel pl path a = Inr b \<and> g_isEnabled b \<and>
    crashedLastLaunch (g_state b) = crashedThisLaunch st \<and>
    launchesSinceLastCrash (g_state b) = counts_after (crashedThisLaunch st) (launchesSinceLastCrash st) \<and>
    sessionsSinceLastCrash (g_state b) = counts_after (crashedThisLaunch st) (sessionsSinceLastCrash st) \<and>
    sessionsSinceLaunch (g_state b) = 1 \<and> \<not> crashedThisLaunch (g_state b)"
proof -
  let ?st = "reloaded (p_arith pl) (p_fp pl) st duration (zero_state (p_arith pl))"
  obtain w where init: "sentrycrashstate_initialize fuel pl path a =
      Inr (a\<lparr>g_crashstate_initialize_time := t, g_stateFilePath := path, g_state := ?st, app_world := w\<rparr>)"
    using initialize_reads [OF assms(1-7)] by blast
  let ?a = "a\<lparr>g_crashstate_initialize_time := t, g_stateFilePath := path, g_state := ?st,
    app_world := w, g_isEnabled := True\<rparr>"
  have "crashedLastLaunch ?st \<or>
      launchesSinceLastCrash ?st \<noteq> 0x7fffffff \<and> sessionsSinceLastCrash ?st \<noteq> 0x7fffffff"
    using assms(9) by (simp add: reloaded_def)
  from reset_counters_counts [OF this, of "p_arith pl"] obtain st' where
    st': "reset_counters (p_arith pl) ?st = Inr st'" "crashedLastLaunch st' = crashedThisLaunch st"
      "launchesSinceLastCrash st' = counts_after (crashedThisLaunch st) (launchesSinceLastCrash st)"
      "sessionsSinceLastCrash st' = counts_after (crashedThisLaunch st) (sessionsSinceLastCrash st)"
      "sessionsSinceLaunch st' = 1" "\<not> crashedThisLaunch st'"
    by (auto simp: reloaded_def)
  obtain w' where "saveState pl path (?a\<lparr>g_state := st'\<rparr>) = Inr (True, ?a\<lparr>g_state := st'\<rparr>\<lparr>app_world := w'\<rparr>)"
    using saveState_writes [OF assms(1,2,5), of "?a\<lparr>g_state := st'\<rparr>"] by auto
  with st'(1) assms(8) init
  have "launched fuel pl path a = Inr (?a\<lparr>g_state := st'\<rparr>\<lparr>app_world := w'\<rparr>)"
    by (simp add: launched_def appstate_setEnabled_def sentrycrashstate_reset_def)
  then show ?thesis using st' by simp
qed


lemma crash_saves:
  assumes "one_file os (g_stateFilePath a) content rest" "p_os pl = os" "clock_at pl t" "g_isEnabled a"
  shows "\<exists>b. sentrycrashstate_notifyAppCrash pl a = Inr b \<and> crashedThisLaunch (g_state b) \<and>
    content (app_world b) = render (p_fp pl) True 0 (state_json (g_state b) (saved_duration pl t b))"
proof -
  have now: "p_now pl w = (t, w)" for w using assms(3) by (simp add: clock_at_def)
  have "\<exists>st. crashedThisLaunch st \<and> sentrycrashstate_notifyAppCrash pl a =
      bind_run (saveState pl (g_stateFilePath a) (a\<lparr>g_state := st\<rparr>)) (\<lambda>(_, a). Inr a)"
    by (cases "applicationIsActive (g_state a)"; cases "applicationIsInForeground (g_state a)";
        simp add: sentrycrashstate_notifyAppCrash_def timeSince_def now assms(4) Let_def;
        (rule exI, rule conjI [rotated], rule refl, simp))
  then obtain st where st: "crashedThisLaunch st" "sentrycrashstate_notifyAppCrash pl a =
      bind_run (saveState pl (g_stateFilePath a) (a\<lparr>g_state := st\<rparr>)) (\<lambda>(_, a). Inr a)" by blast
  from saveState_writes [OF assms(1-3), of "a\<lparr>g_state := st\<rparr>"] obtain w where
    "saveState pl (g_stateFilePath a) (a\<lparr>g_state := st\<rparr>) = Inr (True, a\<lparr>g_state := st\<rparr>\<lparr>app_world := w\<rparr>)"
    "content w = render (p_fp pl) True 0 (state_json st (saved_duration pl t (a\<lparr>g_state := st\<rparr>)))"
    by auto
  with st show ?thesis
    by (intro exI [of _ "a\<lparr>g_state := st\<rparr>\<lparr>app_world := w\<rparr>"]) (simp add: saved_duration_def)
qed

section \<open>The notifications as steps\<close>

inductive notified :: "('d, 'f) platform \<Rightarrow> ('d, 'f) app \<Rightarrow> ('d, 'f) app \<Rightarrow> bool" for pl where
  active: "sentrycrashstate_notifyAppActive pl b a = Inr a' \<Longrightarrow> notified pl a a'"
| foreground: "sentrycrashstate_notifyAppInForeground pl b a = Inr a' \<Longrightarrow> notified pl a a'"
| terminated: "sentrycrashstate_notifyAppTerminate pl a = Inr a' \<Longrightarrow> notified pl a a'"
| crashed: "sentrycrashstate_notifyAppCrash pl a = Inr a' \<Longrightarrow> notified pl a a'"

text \<open>What the notifications keep of the state.\<close>

definition same_launch :: "('d, 'f) app \<Rightarrow> ('d, 'f) app \<Rightarrow> bool" where
  "same_launch a b \<longleftrightarrow> g_isEnabled b = g_isEnabled a \<and> g_stateFilePath b = g_stateFilePath a \<and>
     launchesSinceLastCrash (g_state b) = launchesSinceLastCrash (g_state a) \<and>
     crashedLastLaunch (g_state b) = crashedLastLaunch (g_state a) \<and>
     sessionsSinceLastCrash (g_state b) - sessionsSinceLaunch (g_state b) =
       sessionsSinceLastCrash (g_state a) - sessionsSinceLaunch (g_state a) \<and>
     (crashedThisLaunch (g_state a) \<longrightarrow> crashedThisLaunch (g_state b)) \<and>
     (\<not> g_isEnabled a \<longrightarrow> b = a)"

lemma same_launch_refl: "same_launch a a"
  by (simp add: same_launch_def)

lemma same_launch_trans: "same_launch a b \<Longrightarrow> same_launch b c \<Longrightarrow> same_launch a c"
  by (auto simp: same_launch_def)

lemma saveState_keeps:
  "saveState pl path a = Inr (good, b) \<Longrightarrow> \<exists>w. b = a\<lparr>app_world := w\<rparr>"
  by (auto simp: saveState_def bind_run_eq_Inr Let_def split: prod.splits if_splits)

lemma notified_same_launch: "notified pl a b \<Longrightarrow> same_launch a b"
proof (induction rule: notified.induct)
  case (active b a a')
  then show ?case
    by (auto simp: sentrycrashstate_notifyAppActive_def same_launch_def Let_def split: if_splits prod.splits)
next
  case (foreground b a a')
  then show ?case
    by (auto simp: sentrycrashstate_notifyAppInForeground_def same_launch_def Let_def increment_def
      bind_run_eq_Inr dest!: saveState_keeps split: if_splits prod.splits)
next
  case (terminated a a')
  then show ?case
    by (auto simp: sentrycrashstate_notifyAppTerminate_def same_launch_def Let_def
      bind_run_eq_Inr dest!: saveState_keeps split: if_splits prod.splits)
next
  case (crashed a a')
  then show ?case
    by (auto simp: sentrycrashstate_notifyAppCrash_def same_launch_def Let_def
      bind_run_eq_Inr dest!: saveState_keeps split: if_splits prod.splits)
qed

section \<open>Properties\<close>

text \<open>A platform with whole numbers for durations, whose clock always shows five.\<close>

definition five_platform :: "(int, bytes \<times> bytes) platform" where
  "five_platform =
     \<lparr>p_fp = \<lparr>fp_isnan = (\<lambda>_. False), fp_print = show_int, fp_scan = (\<lambda>s. int (digits_value s)),
               fp_neg = uminus\<rparr>,
      p_arith = \<lparr>d_zero = 0, d_add = (+), d_sub = (-), d_of_int = sint\<rparr>,
      p_os = one_byte_os, p_alloc = (\<lambda>_. True), p_now = (\<lambda>w. (5, w))\<rparr>"

definition started :: "bool \<Rightarrow> (int, bytes \<times> bytes) app" where
  "started e = \<lparr>g_stateFilePath = ''/s'', g_state = (zero_state (p_arith five_platform))
      \<lparr>launchesSinceLastCrash := 3, sessionsSinceLastCrash := 4\<rparr>,
     g_crashstate_initialize_time = 2, g_isEnabled = e, app_world = ([], [])\<rparr>"

lemma five_platform_simps [simp]:
  "p_os five_platform = one_byte_os" "p_alloc five_platform = (\<lambda>_. True)" "clock_at five_platform 5"
  by (simp_all add: five_platform_def clock_at_def)

text \<open>
  C35. The state file is a faithful record: what \<open>saveState\<close> writes, \<open>loadState\<close> reads back into
  any state as the counts, the crash flag of the launch that wrote it, and the durations its texts
  stand for, and it touches nothing else.
\<close>

theorem state_file_roundtrip:
  assumes "one_file (p_os pl) path content rest" "p_alloc pl = (\<lambda>_. True)" "1000 \<le> fuel"
    "clock_at pl t" "printable_state (p_fp pl) (g_state a) (saved_duration pl t a)"
  shows "\<exists>a'. saveState pl path a = Inr (True, a') \<and> (\<forall>b. app_world b = app_world a' \<longrightarrow>
    (\<exists>w. loadState fuel pl path b = Inr (True, b\<lparr>g_state :=
       reloaded (p_arith pl) (p_fp pl) (g_state a) (saved_duration pl t a) (g_state b), app_world := w\<rparr>)))"
proof -
  obtain w where w: "saveState pl path a = Inr (True, a\<lparr>app_world := w\<rparr>)"
      "content w = render (p_fp pl) True 0 (state_json (g_state a) (saved_duration pl t a))"
    using saveState_writes [OF assms(1) refl assms(4)] by blast
  have "\<exists>v. loadState fuel pl path b = Inr (True, b\<lparr>g_state :=
       reloaded (p_arith pl) (p_fp pl) (g_state a) (saved_duration pl t a) (g_state b), app_world := v\<rparr>)"
    if "app_world b = w" for b
    using loadState_reads [OF assms(1) refl assms(2,3) _ assms(5), of b] w(2) that by blast
  with w(1) show ?thesis by auto
qed



text \<open>
  Counting goes on over launches that do not crash: a process that starts on the file an
  uncrashed launch saved when it left the foreground has one more launch and one more session than
  that launch had.
\<close>

theorem counts_go_on:
  assumes "one_file (p_os pl) (g_stateFilePath a) content rest" "p_alloc pl = (\<lambda>_. True)" "1000 \<le> fuel"
    "clock_at pl t" "g_isEnabled a" "\<not> crashedThisLaunch (g_state a)" "\<not> g_isEnabled fresh"
    "sentrycrashstate_notifyAppInForeground pl False a = Inr a'" "app_world fresh = app_world a'"
    "printable_state (p_fp pl) (g_state a) (d_zero (p_arith pl))"
    "launchesSinceLastCrash (g_state a) \<noteq> 0x7fffffff" "sessionsSinceLastCrash (g_state a) \<noteq> 0x7fffffff"
  shows "\<exists>b. launched fuel pl (g_stateFilePath a) fresh = Inr b \<and> \<not> crashedLastLaunch (g_state b) \<and>
    launchesSinceLastCrash (g_state b) = launchesSinceLastCrash (g_state a) + 1 \<and>
    sessionsSinceLastCrash (g_state b) = sessionsSinceLastCrash (g_state a) + 1 \<and>
    sessionsSinceLaunch (g_state b) = 1"
proof -
  have now: "p_now pl w = (t, w)" for w using assms(4) by (simp add: clock_at_def)
  let ?st = "(g_state a)\<lparr>applicationIsInForeground := False, appStateTransitionTime := t\<rparr>"
  let ?a = "a\<lparr>g_state := ?st, app_world := app_world a\<rparr>"
  from saveState_writes [OF assms(1) refl assms(4), of ?a] obtain w where
    w: "saveState pl (g_stateFilePath a) ?a = Inr (True, ?a\<lparr>app_world := w\<rparr>)"
    "content w = render (p_fp pl) True 0 (state_json ?st (d_zero (p_arith pl)))"
    using assms(6) by (auto simp: saved_duration_def)
  then have "a' = ?a\<lparr>app_world := w\<rparr>"
    using assms(5,8) by (simp add: sentrycrashstate_notifyAppInForeground_def now Let_def)
  then have "app_world fresh = w" using assms(9) by simp
  then have saved: "content (app_world fresh) =
      render (p_fp pl) True 0 (state_json ?st (d_zero (p_arith pl)))" using w(2) by simp
  have "printable_state (p_fp pl) ?st (d_zero (p_arith pl))"
    using assms(10) by (simp add: printable_state_def)
  from launched_counts [OF assms(1) refl assms(2-4) saved this assms(7)] assms(6,11,12)
  show ?thesis by (auto simp: counts_after_def)
qed

text \<open>
  Whatever notifications reach the monitor during a launch, in whatever order: the launches
  since the last crash and the verdict on the last launch stay, sessions since the crash and since
  the launch grow in step, a crash that was noted is never forgotten, and a disabled monitor ignores
  them all.
\<close>

theorem notifications_keep_launch:
  assumes "(notified pl)\<^sup>*\<^sup>* a b"
  shows "same_launch a b"
  using assms
  by induction (auto intro: same_launch_refl same_launch_trans notified_same_launch)

lemma five_prints:
  "float_printable (p_fp five_platform) 750 0" "float_printable (p_fp five_platform) 750 3"
  "float_printable (p_fp five_platform) 750 5" "d_zero (p_arith five_platform) = 0"
  by code_simp+

lemma started_saves:
  "printable_state (p_fp five_platform) (g_state (started e)) 0"
  "saved_duration five_platform 5 (started e) = 0"
  by (simp_all add: printable_state_def five_prints started_def zero_state_def saved_duration_def)

lemma started_simps [simp]:
  "g_stateFilePath (started e) = ''/s''" "g_isEnabled (started e) = e"
  "\<not> crashedThisLaunch (g_state (started e))"
  "launchesSinceLastCrash (g_state (started e)) = 3" "sessionsSinceLastCrash (g_state (started e)) = 4"
  by (simp_all add: started_def zero_state_def)

theorem state_file_roundtrip_witness:
  "\<exists>a'. saveState five_platform ''/s'' (started True) = Inr (True, a') \<and>
    (\<exists>b. loadState 1000 five_platform ''/s'' (a'\<lparr>g_state := zero_state (p_arith five_platform)\<rparr>) = Inr (True, b) \<and>
       launchesSinceLastCrash (g_state b) = 3 \<and> sessionsSinceLastCrash (g_state b) = 4)"
proof -
  have "\<exists>a'. saveState five_platform ''/s'' (started True) = Inr (True, a') \<and>
    (\<forall>b. app_world b = app_world a' \<longrightarrow> (\<exists>w. loadState 1000 five_platform ''/s'' b =
       Inr (True, b\<lparr>g_state := reloaded (p_arith five_platform) (p_fp five_platform)
         (g_state (started True)) (saved_duration five_platform 5 (started True)) (g_state b), app_world := w\<rparr>)))"
    by (rule state_file_roundtrip [of _ _ fst snd]) (simp_all add: one_byte_file started_saves)
  then obtain a' where a': "saveState five_platform ''/s'' (started True) = Inr (True, a')"
    "\<And>b. app_world b = app_world a' \<Longrightarrow> \<exists>w. loadState 1000 five_platform ''/s'' b =
       Inr (True, b\<lparr>g_state := reloaded (p_arith five_platform) (p_fp five_platform)
         (g_state (started True)) (saved_duration five_platform 5 (started True)) (g_state b), app_world := w\<rparr>)"
    by blast
  from a'(2) [of "a'\<lparr>g_state := zero_state (p_arith five_platform)\<rparr>"] a'(1) show ?thesis
    by (auto simp: reloaded_def)
qed

lemma crash_five:
  "\<exists>a'. sentrycrashstate_notifyAppCrash five_platform (started True) = Inr a' \<and>
    printable_state (p_fp five_platform) (g_state a') (saved_duration five_platform 5 a')"
proof -
  let ?st = "(g_state (started True))\<lparr>backgroundDurationSinceLaunch := 5,
    backgroundDurationSinceLastCrash := 5, crashedThisLaunch := True\<rparr>"
  let ?a = "(started True)\<lparr>g_state := ?st, app_world := ([], [])\<rparr>"
  have state: "appStateTransitionTime (g_state (started True)) = 0"
      "\<not> applicationIsActive (g_state (started True))"
      "\<not> applicationIsInForeground (g_state (started True))"
      "backgroundDurationSinceLaunch (g_state (started True)) = 0"
      "backgroundDurationSinceLastCrash (g_state (started True)) = 0"
      "app_world (started True) = ([], [])"
    by (simp_all add: started_def zero_state_def five_platform_def)
  obtain w where "saveState five_platform ''/s'' ?a = Inr (True, ?a\<lparr>app_world := w\<rparr>)"
    using saveState_writes [OF one_byte_file five_platform_simps(1,3), of "''/s''" ?a] by blast
  then have run: "sentrycrashstate_notifyAppCrash five_platform (started True) = Inr (?a\<lparr>app_world := w\<rparr>)"
    by (simp add: sentrycrashstate_notifyAppCrash_def timeSince_def state)
       (simp add: five_platform_def)
  have "printable_state (p_fp five_platform) ?st 3"
    by (simp add: printable_state_def five_prints started_def zero_state_def)
  moreover have "saved_duration five_platform 5 (?a\<lparr>app_world := w\<rparr>) = 3"
    by (simp add: saved_duration_def five_platform_def started_def)
  ultimately show ?thesis using run by simp
qed


theorem counts_go_on_witness:
  "\<exists>a' b. sentrycrashstate_notifyAppInForeground five_platform False (started True) = Inr a' \<and>
    launched 1000 five_platform ''/s'' ((started False)\<lparr>app_world := app_world a'\<rparr>) = Inr b \<and>
    \<not> crashedLastLaunch (g_state b) \<and> launchesSinceLastCrash (g_state b) = 4 \<and>
    sessionsSinceLastCrash (g_state b) = 5"
proof -
  obtain a' where a': "sentrycrashstate_notifyAppInForeground five_platform False (started True) = Inr a'"
  proof -
    let ?a = "(started True)\<lparr>g_state := (g_state (started True))\<lparr>applicationIsInForeground := False,
      appStateTransitionTime := 5\<rparr>, app_world := ([], [])\<rparr>"
    obtain w where "saveState five_platform ''/s'' ?a = Inr (True, ?a\<lparr>app_world := w\<rparr>)"
      using saveState_writes [OF one_byte_file five_platform_simps(1,3), of "''/s''" ?a] by blast
    then have "sentrycrashstate_notifyAppInForeground five_platform False (started True) =
        Inr (?a\<lparr>app_world := w\<rparr>)"
      by (simp add: sentrycrashstate_notifyAppInForeground_def)
         (simp add: five_platform_def started_def)
    then show thesis using that by blast
  qed
  have "\<exists>b. launched 1000 five_platform (g_stateFilePath (started True))
      ((started False)\<lparr>app_world := app_world a'\<rparr>) = Inr b \<and> \<not> crashedLastLaunch (g_state b) \<and>
    launchesSinceLastCrash (g_state b) = launchesSinceLastCrash (g_state (started True)) + 1 \<and>
    sessionsSinceLastCrash (g_state b) = sessionsSinceLastCrash (g_state (started True)) + 1 \<and>
    sessionsSinceLaunch (g_state b) = 1"
    by (rule counts_go_on [where t = 5 and content = fst and rest = snd, OF _ _ _ _ _ _ _ a'])
       (use started_saves(1) [of True] in \<open>simp_all add: one_byte_file five_prints\<close>)
  with a' show ?thesis by auto
qed

theorem notifications_keep_launch_witness:
  "\<exists>a'. sentrycrashstate_notifyAppActive five_platform True (started True) = Inr a' \<and>
    same_launch (started True) a' \<and> launchesSinceLastCrash (g_state a') = 3"
proof -
  obtain a' where a': "sentrycrashstate_notifyAppActive five_platform True (started True) = Inr a'"
    by (simp add: sentrycrashstate_notifyAppActive_def five_platform_def)
  then have "(notified five_platform)\<^sup>*\<^sup>* (started True) a'" by (blast intro: notified.active)
  from notifications_keep_launch [OF this] a' show ?thesis by (simp add: same_launch_def)
qed

end
