(* ===== verification/Scope_Sync.thy ===== *)
theory Scope_Sync
  imports Prelude
begin

text \<open>
  \<open>Sources/Sentry/SentryScopeSyncC.c\<close>: the copy of the scope that a crash report is written from. Its
  fields hold JSON texts, its breadcrumbs are a ring buffer. \<open>crumbs_in_order\<close> is how
  \<open>SentryCrashReport.c\<close> reads that buffer.
\<close>

section \<open>The scope\<close>

record crash_scope =
  user :: "bytes option"
  dist :: "bytes option"
  scope_context :: "bytes option"
  traceContext :: "bytes option"
  environment :: "bytes option"
  tags :: "bytes option"
  extras :: "bytes option"
  fingerprint :: "bytes option"
  level :: "bytes option"
  breadcrumbs :: "bytes option list option"
  maxCrumbs :: int
  currentCrumb :: int

definition initial_scope :: crash_scope where
  "initial_scope =
     \<lparr>user = None, dist = None, scope_context = None, traceContext = None, environment = None,
      tags = None, extras = None, fingerprint = None, level = None, breadcrumbs = None,
      maxCrumbs = 0, currentCrumb = 0\<rparr>"

text \<open>The old text is freed, the new one duplicated.\<close>

definition setField :: "bytes option \<Rightarrow> bytes option \<Rightarrow> bytes option" where
  "setField newJSONCodedCString field = map_option c_string newJSONCodedCString"

definition sentrycrash_scopesync_setUser :: "bytes option \<Rightarrow> crash_scope \<Rightarrow> crash_scope" where
  "sentrycrash_scopesync_setUser s scope = scope\<lparr>user := setField s (user scope)\<rparr>"

definition sentrycrash_scopesync_setDist :: "bytes option \<Rightarrow> crash_scope \<Rightarrow> crash_scope" where
  "sentrycrash_scopesync_setDist s scope = scope\<lparr>dist := setField s (dist scope)\<rparr>"

definition sentrycrash_scopesync_setContext :: "bytes option \<Rightarrow> crash_scope \<Rightarrow> crash_scope" where
  "sentrycrash_scopesync_setContext s scope = scope\<lparr>scope_context := setField s (scope_context scope)\<rparr>"

definition sentrycrash_scopesync_setTraceContext :: "bytes option \<Rightarrow> crash_scope \<Rightarrow> crash_scope" where
  "sentrycrash_scopesync_setTraceContext s scope = scope\<lparr>traceContext := setField s (traceContext scope)\<rparr>"

definition sentrycrash_scopesync_setEnvironment :: "bytes option \<Rightarrow> crash_scope \<Rightarrow> crash_scope" where
  "sentrycrash_scopesync_setEnvironment s scope = scope\<lparr>environment := setField s (environment scope)\<rparr>"

definition sentrycrash_scopesync_setTags :: "bytes option \<Rightarrow> crash_scope \<Rightarrow> crash_scope" where
  "sentrycrash_scopesync_setTags s scope = scope\<lparr>tags := setField s (tags scope)\<rparr>"

definition sentrycrash_scopesync_setExtras :: "bytes option \<Rightarrow> crash_scope \<Rightarrow> crash_scope" where
  "sentrycrash_scopesync_setExtras s scope = scope\<lparr>extras := setField s (extras scope)\<rparr>"

definition sentrycrash_scopesync_setFingerprint :: "bytes option \<Rightarrow> crash_scope \<Rightarrow> crash_scope" where
  "sentrycrash_scopesync_setFingerprint s scope = scope\<lparr>fingerprint := setField s (fingerprint scope)\<rparr>"

definition sentrycrash_scopesync_setLevel :: "bytes option \<Rightarrow> crash_scope \<Rightarrow> crash_scope" where
  "sentrycrash_scopesync_setLevel s scope = scope\<lparr>level := setField s (level scope)\<rparr>"

section \<open>Breadcrumbs\<close>

definition set_crumb :: "int \<Rightarrow> bytes option \<Rightarrow> bytes option list \<Rightarrow> bytes option list run" where
  "set_crumb i s crumbs =
     (if 0 \<le> i \<and> i < int (length crumbs)
      then Inr (crumbs[nat i := setField s (crumbs ! nat i)])
      else Inl UndefinedBehaviour)"

definition sentrycrash_scopesync_addBreadcrumb :: "bytes option \<Rightarrow> crash_scope \<Rightarrow> crash_scope run" where
  "sentrycrash_scopesync_addBreadcrumb s scope =
     (case breadcrumbs scope of
        None \<Rightarrow> Inr scope
      | Some crumbs \<Rightarrow>
          if maxCrumbs scope < 1 then Inr scope
          else bind_run (set_crumb (currentCrumb scope) s crumbs) (\<lambda>crumbs.
            Inr (scope\<lparr>breadcrumbs := Some crumbs,
                       currentCrumb := (currentCrumb scope + 1) mod maxCrumbs scope\<rparr>)))"

fun clear_crumbs :: "nat \<Rightarrow> int \<Rightarrow> bytes option list \<Rightarrow> bytes option list run" where
  "clear_crumbs 0 i crumbs = Inr crumbs"
| "clear_crumbs (Suc n) i crumbs = bind_run (set_crumb i None crumbs) (clear_crumbs n (i + 1))"

definition sentrycrash_scopesync_clearBreadcrumbs :: "crash_scope \<Rightarrow> crash_scope run" where
  "sentrycrash_scopesync_clearBreadcrumbs scope =
     (case breadcrumbs scope of
        None \<Rightarrow> Inr scope
      | Some crumbs \<Rightarrow>
          if maxCrumbs scope < 1 then Inr scope
          else bind_run (clear_crumbs (nat (maxCrumbs scope)) 0 crumbs) (\<lambda>crumbs.
            Inr (scope\<lparr>breadcrumbs := Some crumbs, currentCrumb := 0\<rparr>)))"

text \<open>
  The size is computed in 64 bits. Without memory the \<open>memset\<close> writes to a null pointer, unless its
  size is 0. The texts the old buffer points to are not freed.
\<close>

definition sentrycrash_scopesync_configureBreadcrumbs ::
    "(nat \<Rightarrow> bool) \<Rightarrow> int \<Rightarrow> crash_scope \<Rightarrow> crash_scope run" where
  "sentrycrash_scopesync_configureBreadcrumbs alloc maxBreadcrumbs scope =
     (let scope = scope\<lparr>maxCrumbs := maxBreadcrumbs, currentCrumb := 0\<rparr>;
          bytecount = unat (word_of_int (8 * maxBreadcrumbs) :: 64 word)
      in if alloc bytecount then
           Inr (scope\<lparr>breadcrumbs := Some (replicate (bytecount div 8) None)\<rparr>)
         else if bytecount = 0 then Inr (scope\<lparr>breadcrumbs := None\<rparr>)
         else Inl UndefinedBehaviour)"

text \<open>The trace context is not among what is cleared.\<close>

definition sentrycrash_scopesync_clear :: "crash_scope \<Rightarrow> crash_scope run" where
  "sentrycrash_scopesync_clear scope =
     (let scope = sentrycrash_scopesync_setUser None scope;
          scope = sentrycrash_scopesync_setDist None scope;
          scope = sentrycrash_scopesync_setContext None scope;
          scope = sentrycrash_scopesync_setEnvironment None scope;
          scope = sentrycrash_scopesync_setTags None scope;
          scope = sentrycrash_scopesync_setExtras None scope;
          scope = sentrycrash_scopesync_setFingerprint None scope;
          scope = sentrycrash_scopesync_setLevel None scope
      in sentrycrash_scopesync_clearBreadcrumbs scope)"

definition sentrycrash_scopesync_reset :: "crash_scope \<Rightarrow> crash_scope run" where
  "sentrycrash_scopesync_reset scope =
     bind_run (sentrycrash_scopesync_clear scope) (\<lambda>scope. Inr (scope\<lparr>breadcrumbs := None\<rparr>))"

text \<open>The crumbs a report lists, from the current one on around the ring.\<close>

fun crumbs_from :: "nat \<Rightarrow> int \<Rightarrow> crash_scope \<Rightarrow> bytes option list \<Rightarrow> bytes list run" where
  "crumbs_from 0 i scope crumbs = Inr []"
| "crumbs_from (Suc n) i scope crumbs =
     bind_run (read_at crumbs (nat ((currentCrumb scope + i) mod maxCrumbs scope))) (\<lambda>crumb.
     bind_run (crumbs_from n (i + 1) scope crumbs) (\<lambda>rest.
       Inr (case crumb of None \<Rightarrow> rest | Some s \<Rightarrow> s # rest)))"

definition crumbs_in_order :: "crash_scope \<Rightarrow> bytes list run" where
  "crumbs_in_order scope =
     (case breadcrumbs scope of
        None \<Rightarrow> Inr []
      | Some crumbs \<Rightarrow> crumbs_from (nat (maxCrumbs scope)) 0 scope crumbs)"

section \<open>The ring refines a log\<close>

text \<open>
  The contract of a log of bounded length: a fixed number of slots, and adding drops the oldest and
  appends the newest.
\<close>

locale bounded_log =
  fixes add :: "'a \<Rightarrow> 's \<Rightarrow> 's run" and stored :: "'a \<Rightarrow> 'b" and slots :: "'s \<Rightarrow> 'b list"
    and valid :: "'s \<Rightarrow> bool"
  assumes add_slots:
    "valid s \<Longrightarrow> \<exists>s'. add x s = Inr s' \<and> valid s' \<and> slots s' = tl (slots s) @ [stored x]"
    and slots_not_empty: "valid s \<Longrightarrow> slots s \<noteq> []"
begin

fun add_all :: "'a list \<Rightarrow> 's \<Rightarrow> 's run" where
  "add_all [] s = Inr s"
| "add_all (x # xs) s = bind_run (add x s) (add_all xs)"

lemma add_all_slots:
  "valid s \<Longrightarrow> \<exists>s'. add_all xs s = Inr s' \<and> valid s' \<and> 
    slots s' = drop (length xs) (slots s @ map stored xs)"
proof (induction xs arbitrary: s)
  case (Cons x xs)
  obtain t where t: "add x s = Inr t" "valid t" "slots t = tl (slots s) @ [stored x]"
    using add_slots [OF Cons.prems] by blast
  from Cons.IH [OF t(2)] obtain s' where
    s': "add_all xs t = Inr s'" "valid s'" "slots s' = drop (length xs) (slots t @ map stored xs)" by blast
  have "slots s @ map stored (x # xs) = hd (slots s) # slots t @ map stored xs"
    using slots_not_empty [OF Cons.prems] t(3) by (cases "slots s") simp_all
  then have "drop (length (x # xs)) (slots s @ map stored (x # xs)) = slots s'"
    using s'(3) by (simp only: length_Cons drop_Suc_Cons)
  then show ?case using s'(1,2) t(1) by simp
qed simp

end

definition valid_ring :: "crash_scope \<Rightarrow> bool" where
  "valid_ring scope \<longleftrightarrow> 1 \<le> maxCrumbs scope \<and> 0 \<le> currentCrumb scope \<and>
     currentCrumb scope < maxCrumbs scope \<and>
     (\<exists>crumbs. breadcrumbs scope = Some crumbs \<and> int (length crumbs) = maxCrumbs scope)"

definition ring_slots :: "crash_scope \<Rightarrow> bytes option list" where
  "ring_slots scope = rotate (nat (currentCrumb scope)) (the (breadcrumbs scope))"

lemma rotate_update:
  assumes "k < length xs"
  shows "rotate (Suc k mod length xs) (xs[k := x]) = tl (rotate k xs) @ [x]"
proof (rule nth_equalityI)
  show "length (rotate (Suc k mod length xs) (xs[k := x])) = length (tl (rotate k xs) @ [x])"
    using assms by (cases "length xs") simp_all
next
  fix i
  assume "i < length (rotate (Suc k mod length xs) (xs[k := x]))"
  then have i: "i < length xs" by simp
  have l: "rotate (Suc k mod length xs) (xs[k := x]) ! i = (xs[k := x]) ! ((Suc k + i) mod length xs)"
    using i by (simp add: nth_rotate mod_add_left_eq mod_add_right_eq add.commute)
  show "rotate (Suc k mod length xs) (xs[k := x]) ! i = (tl (rotate k xs) @ [x]) ! i"
  proof (cases "Suc i < length xs")
    case True
    have "(Suc k + i) mod length xs \<noteq> k"
    proof
      assume "(Suc k + i) mod length xs = k"
      then have "(k + Suc i) mod length xs = (k + 0) mod length xs" using assms by simp
      then have "length xs dvd Suc i" by (metis add_left_cancel mod_eq_dvd_iff_nat dvd_eq_mod_eq_0 le_add1 add_diff_cancel_left' add_0_right)
      with True show False by (auto dest: dvd_imp_le)
    qed
    moreover have "i < length xs - Suc 0" using True by simp
    ultimately show ?thesis using True by (simp add: l nth_append nth_tl nth_rotate)
  next
    case False
    then have "Suc i = length xs" using i by simp
    then have "(Suc k + i) mod length xs = k" using assms by (metis add_Suc_right add_Suc_shift mod_add_self2 mod_less)
    moreover have "\<not> i < length xs - Suc 0" using False by simp
    ultimately show ?thesis using assms \<open>Suc i = length xs\<close> by (simp add: l nth_append)
  qed
qed

lemma add_ring:
  assumes "valid_ring scope"
  shows "\<exists>scope'. sentrycrash_scopesync_addBreadcrumb s scope = Inr scope' \<and>
    valid_ring scope' \<and> ring_slots scope' = tl (ring_slots scope) @ [map_option c_string s]"
proof -
  obtain crumbs where crumbs: "breadcrumbs scope = Some crumbs" "int (length crumbs) = maxCrumbs scope"
    using assms by (auto simp: valid_ring_def)
  obtain k where k: "currentCrumb scope = int k" "k < length crumbs"
    using assms crumbs unfolding valid_ring_def by (metis int_nat_eq of_nat_less_iff)
  have "(currentCrumb scope + 1) mod maxCrumbs scope = int (Suc k mod length crumbs)"
    using k crumbs(2) by (simp add: zmod_int add.commute flip: crumbs(2))
  moreover have "Suc k mod length crumbs < length crumbs" using k(2) by (cases crumbs) simp_all
  ultimately show ?thesis
    using assms k crumbs rotate_update [OF k(2)]
    by (simp add: sentrycrash_scopesync_addBreadcrumb_def set_crumb_def setField_def valid_ring_def
      ring_slots_def)
qed


interpretation crumbs: bounded_log sentrycrash_scopesync_addBreadcrumb "map_option c_string" ring_slots
  valid_ring
proof
  fix scope s
  assume "valid_ring scope"
  then show "\<exists>s'. sentrycrash_scopesync_addBreadcrumb s scope = Inr s' \<and> valid_ring s' \<and>
      ring_slots s' = tl (ring_slots scope) @ [map_option c_string s]"
    by (rule add_ring)
  show "ring_slots scope \<noteq> []"
    using \<open>valid_ring scope\<close> by (auto simp: valid_ring_def ring_slots_def)
qed

text \<open>Reading the ring from the current crumb on lists the slots in order.\<close>

lemma crumbs_from_slots:
  assumes "breadcrumbs scope = Some crumbs" "int (length crumbs) = maxCrumbs scope"
    "currentCrumb scope = int k" "n + i = length crumbs"
  shows "crumbs_from n (int i) scope crumbs =
    Inr (map the (filter (\<lambda>c. c \<noteq> None) (drop i (rotate k crumbs))))"
  using assms(4)
proof (induction n arbitrary: i)
  case (Suc n)
  then have i: "i < length crumbs" by simp
  have index: "nat ((currentCrumb scope + int i) mod maxCrumbs scope) = (k + i) mod length crumbs"
    by (simp add: assms(3) flip: assms(2) of_nat_add zmod_int)
  have "drop i (rotate k crumbs) = crumbs ! ((k + i) mod length crumbs) # drop (Suc i) (rotate k crumbs)"
    using i Cons_nth_drop_Suc [of i "rotate k crumbs"] by (simp add: nth_rotate)
  moreover have "crumbs_from n (int i + 1) scope crumbs =
      Inr (map the (filter (\<lambda>c. c \<noteq> None) (drop (Suc i) (rotate k crumbs))))"
    using Suc.IH [of "Suc i"] Suc.prems by (simp add: add.commute)
  moreover have "(k + i) mod length crumbs < length crumbs" using i by (cases crumbs) simp_all
  ultimately show ?case
    by (cases "crumbs ! ((k + i) mod length crumbs)") (simp_all add: index)
qed simp

lemma crumbs_in_order_slots:
  assumes "valid_ring scope"
  shows "crumbs_in_order scope = Inr (map the (filter (\<lambda>c. c \<noteq> None) (ring_slots scope)))"
proof -
  obtain crumbs where crumbs: "breadcrumbs scope = Some crumbs" "int (length crumbs) = maxCrumbs scope"
    using assms by (auto simp: valid_ring_def)
  have "currentCrumb scope = int (nat (currentCrumb scope))" "nat (maxCrumbs scope) + 0 = length crumbs"
    using assms crumbs(2) by (auto simp: valid_ring_def)
  from crumbs_from_slots [OF crumbs this] show ?thesis
    by (simp add: crumbs_in_order_def crumbs(1) ring_slots_def)
qed

section \<open>Properties\<close>

fun add_crumbs :: "bytes option list \<Rightarrow> crash_scope \<Rightarrow> crash_scope run" where
  "add_crumbs [] scope = Inr scope"
| "add_crumbs (s # ss) scope = bind_run (sentrycrash_scopesync_addBreadcrumb s scope) (add_crumbs ss)"

lemma add_crumbs_all: "add_crumbs ss scope = crumbs.add_all ss scope"
  by (induction ss arbitrary: scope) (simp_all add: fun_eq_iff bind_run_def split: sum.split)

text \<open>
  C21. The ring buffer of breadcrumbs is a log of bounded length: after it was configured for \<open>n\<close>
  crumbs and any texts were added, a report lists the last \<open>n\<close> of them, the oldest first.
\<close>

theorem crumbs_keep_last:
  assumes "1 \<le> n" "n < 2 ^ 60" "alloc (8 * n)"
  shows "\<exists>scope'. bind_run (sentrycrash_scopesync_configureBreadcrumbs alloc (int n) scope)
      (add_crumbs (map Some texts)) = Inr scope' \<and>
    crumbs_in_order scope' = Inr (map c_string (drop (length texts - n) texts))"
proof -
  have bytecount: "unat (word_of_int (8 * int n) :: 64 word) = 8 * n"
    using assms(2) unat_of_nat [of "8 * n", where 'a = 64] by simp
  let ?ring = "scope\<lparr>maxCrumbs := int n, currentCrumb := 0, breadcrumbs := Some (replicate n None)\<rparr>"
  have configured: "sentrycrash_scopesync_configureBreadcrumbs alloc (int n) scope = Inr ?ring"
    using assms(3) bytecount by (simp add: sentrycrash_scopesync_configureBreadcrumbs_def Let_def)
  have "valid_ring ?ring" "ring_slots ?ring = replicate n None"
    using assms(1) by (simp_all add: valid_ring_def ring_slots_def)
  with crumbs.add_all_slots [of ?ring "map Some texts"] obtain scope' where
    scope': "add_crumbs (map Some texts) ?ring = Inr scope'" "valid_ring scope'"
      "ring_slots scope' = drop (length texts) (replicate n None @ map (Some \<circ> c_string) texts)"
    by (auto simp: add_crumbs_all o_def)
  have "filter (\<lambda>c. c \<noteq> None) (ring_slots scope') = map (Some \<circ> c_string) (drop (length texts - n) texts)"
    by (simp add: scope'(3) drop_map filter_replicate filter_map o_def)
  then show ?thesis
    using configured scope'(1,2) by (simp add: crumbs_in_order_slots o_def)
qed

theorem crumbs_keep_last_witness:
  "\<exists>scope'. bind_run (sentrycrash_scopesync_configureBreadcrumbs (\<lambda>_. True) 2 initial_scope)
      (add_crumbs (map Some [''a'', ''b'', ''c''])) = Inr scope' \<and>
    crumbs_in_order scope' = Inr [''b'', ''c'']"
  using crumbs_keep_last [of 2 "\<lambda>_. True" initial_scope "[''a'', ''b'', ''c'']"]
  by (simp add: c_string_def del: add_crumbs.simps)

lemma clear_crumbs_all:
  "n + i = length crumbs \<Longrightarrow>
    clear_crumbs n (int i) crumbs = Inr (take i crumbs @ replicate n None)"
proof (induction n arbitrary: i crumbs)
  case (Suc n)
  then have i: "i < length crumbs" by simp
  have "clear_crumbs n (int (Suc i)) (crumbs[i := None]) =
      Inr (take (Suc i) (crumbs[i := None]) @ replicate n None)"
    by (rule Suc.IH) (use Suc.prems in simp)
  then show ?case
    using i by (simp add: set_crumb_def setField_def take_Suc_conv_app_nth add.commute)
qed simp

text \<open>
  Clearing the scope empties its fields and its breadcrumbs and succeeds on every scope with a
  well-formed ring; the trace context survives it.
\<close>

theorem clear_keeps_trace:
  assumes "valid_ring scope"
  shows "sentrycrash_scopesync_clear scope = Inr (initial_scope
    \<lparr>traceContext := traceContext scope, maxCrumbs := maxCrumbs scope,
     breadcrumbs := Some (replicate (nat (maxCrumbs scope)) None)\<rparr>)"
proof -
  obtain crumbs where crumbs: "breadcrumbs scope = Some crumbs" "int (length crumbs) = maxCrumbs scope"
    using assms by (auto simp: valid_ring_def)
  then have n: "nat (maxCrumbs scope) + 0 = length crumbs" by simp
  show ?thesis
    using clear_crumbs_all [OF n] assms crumbs(1)
    by (cases scope) (auto simp: sentrycrash_scopesync_clear_def sentrycrash_scopesync_clearBreadcrumbs_def
      sentrycrash_scopesync_setUser_def sentrycrash_scopesync_setDist_def
      sentrycrash_scopesync_setContext_def sentrycrash_scopesync_setEnvironment_def
      sentrycrash_scopesync_setTags_def sentrycrash_scopesync_setExtras_def
      sentrycrash_scopesync_setFingerprint_def sentrycrash_scopesync_setLevel_def setField_def
      initial_scope_def valid_ring_def Let_def)
qed

theorem clear_keeps_trace_witness:
  "sentrycrash_scopesync_clear (initial_scope\<lparr>user := Some ''u'', traceContext := Some ''t'', maxCrumbs := 1,
      breadcrumbs := Some [Some ''x'']\<rparr>) =
    Inr (initial_scope\<lparr>traceContext := Some ''t'', maxCrumbs := 1, breadcrumbs := Some [None]\<rparr>)"
  using clear_keeps_trace [of "initial_scope\<lparr>user := Some ''u'', traceContext := Some ''t'', maxCrumbs := 1,
      breadcrumbs := Some [Some ''x'']\<rparr>"]
  by (simp add: valid_ring_def initial_scope_def)

end
