(* ===== verification/Session_Replay.thy ===== *)
theory Session_Replay
  imports File_Spec
begin

text \<open>
  \<open>Sources/Sentry/SentrySessionReplaySyncC.c\<close>: the place of the last replay segment, kept for the time
  after a crash in a file of twelve bytes. A \<open>double\<close> is its 64 bits.
\<close>

record crash_replay =
  segmentId :: "32 word"
  lastSegmentEnd :: "64 word"
  replay_path :: "bytes option"

definition initial_replay :: crash_replay where
  "initial_replay = \<lparr>segmentId = 0, lastSegmentEnd = 0, replay_path = None\<rparr>"

text \<open>Both zeros of \<open>double\<close> compare equal to 0.\<close>

definition double_is_zero :: "64 word \<Rightarrow> bool" where
  "double_is_zero x \<longleftrightarrow> take_bit 63 x = 0"

text \<open>The path is copied with its terminator into memory for \<open>strlen(path)\<close> bytes.\<close>

definition sentrySessionReplaySync_start :: "bytes \<Rightarrow> crash_replay \<Rightarrow> crash_replay run" where
  "sentrySessionReplaySync_start path crashReplay =
     (let memory = replicate (strlen path) NUL
      in bind_run (memcpy_at memory 0 (c_string path @ [NUL])) (\<lambda>memory.
           Inr (crashReplay\<lparr>lastSegmentEnd := 0, segmentId := 0, replay_path := Some (c_string memory)\<rparr>)))"

definition sentrySessionReplaySync_updateInfo :: "32 word \<Rightarrow> 64 word \<Rightarrow> crash_replay \<Rightarrow> crash_replay" where
  "sentrySessionReplaySync_updateInfo segment segmentEnd crashReplay =
     crashReplay\<lparr>segmentId := segment, lastSegmentEnd := segmentEnd\<rparr>"

text \<open>A null path makes \<open>open\<close> fail.\<close>

definition sentrySessionReplaySync_writeInfo :: "'f os \<Rightarrow> crash_replay \<Rightarrow> 'f \<Rightarrow> 'f run" where
  "sentrySessionReplaySync_writeInfo os crashReplay w =
     (case replay_path crashReplay of
        None \<Rightarrow> Inr w
      | Some path \<Rightarrow>
          let (fd, w) = os_open_trunc os path w
          in if fd < 1 then Inr w
             else
               bind_run (sentrycrashfu_writeBytesToFD os fd (le_bytes 4 (ucast (segmentId crashReplay))) w)
                 (\<lambda>(good, w).
                   if \<not> good then Inr (os_close os fd w)
                   else
                     bind_run (sentrycrashfu_writeBytesToFD os fd (le_bytes 8 (lastSegmentEnd crashReplay)) w)
                       (\<lambda>(good, w). Inr (os_close os fd w))))"

definition sentrySessionReplaySync_readInfo ::
    "nat \<Rightarrow> 'f os \<Rightarrow> bytes \<Rightarrow> crash_replay \<Rightarrow> 'f \<Rightarrow> (bool \<times> crash_replay \<times> 'f) run" where
  "sentrySessionReplaySync_readInfo fuel os path output w =
     (let (fd, w) = os_open_read os path w
      in if fd < 0 then Inr (False, output, w)
         else
           bind_run (sentrycrashfu_readBytesFromFD fuel os fd 4 w) (\<lambda>(good, data, w).
             if \<not> good then Inr (False, output, os_close os fd w)
             else
               let segment = ucast (le_word data)
               in bind_run (sentrycrashfu_readBytesFromFD fuel os fd 8 w) (\<lambda>(good, data, w).
                    let w = os_close os fd w; segmentEnd = le_word data
                    in if \<not> good \<or> double_is_zero segmentEnd then Inr (False, output, w)
                       else Inr (True, output\<lparr>segmentId := segment, lastSegmentEnd := segmentEnd\<rparr>, w))))"

section \<open>Properties\<close>

text \<open>
  Starting a replay always writes past the memory for the path: the terminator of the copy has
  no room.
\<close>

theorem replay_start_overflows:
  "sentrySessionReplaySync_start path crashReplay = Inl UndefinedBehaviour"
  by (simp add: sentrySessionReplaySync_start_def memcpy_at_def strlen_def)

text \<open>
  What is written about a replay is read back, segment and time, by the next launch, unless the
  time is zero, which stands for a replay that never began.
\<close>

theorem replay_info_roundtrip:
  assumes "one_file os path content rest" "replay_path replay = Some path" "8 \<le> fuel"
  shows "\<exists>w' w''. sentrySessionReplaySync_writeInfo os replay w = Inr w' \<and>
    sentrySessionReplaySync_readInfo fuel os path output w' =
      (if double_is_zero (lastSegmentEnd replay) then Inr (False, output, w'')
       else Inr (True, output\<lparr>segmentId := segmentId replay, lastSegmentEnd := lastSegmentEnd replay\<rparr>, w''))"
proof -
  let ?a = "le_bytes 4 (ucast (segmentId replay))" and ?b = "le_bytes 8 (lastSegmentEnd replay)"
  have reliable: "reliable os (\<lambda>_. content)" using assms(1) by (simp add: one_file_def)
  obtain fd w1 where op: "os_open_trunc os path w = (fd, w1)" by fastforce
  note trunc = one_fileD(2) [OF assms(1) op]
  obtain w2 where w2: "sentrycrashfu_writeBytesToFD os fd ?a w1 = Inr (True, w2)" "content w2 = ?a"
    using writeBytesToFD_reliable [OF reliable] trunc by (metis append_Nil)
  obtain w3 where w3: "sentrycrashfu_writeBytesToFD os fd ?b w2 = Inr (True, w3)" "content w3 = ?a @ ?b"
    using writeBytesToFD_reliable [OF reliable] w2(2) by metis
  let ?w' = "os_close os fd w3"
  have written: "sentrySessionReplaySync_writeInfo os replay w = Inr ?w'"
    using op trunc w2(1) w3(1) assms(2) by (simp add: sentrySessionReplaySync_writeInfo_def)
  obtain fd' v1 where op': "os_open_read os path ?w' = (fd', v1)" by fastforce
  note opened = one_fileD(3) [OF assms(1) op']
  have rest: "rest v1 = ?a @ ?b" using opened w3(2) one_fileD(4) [OF assms(1)] by simp
  obtain v2 where v2: "sentrycrashfu_readBytesFromFD fuel os fd' 4 v1 = Inr (True, ?a, v2)" "rest v2 = ?b"
    using read_loop_one_file [OF assms(1), of 4 v1 fuel fd' "[]"] assms(3) rest
    by (auto simp: sentrycrashfu_readBytesFromFD_def)
  obtain v3 where v3: "sentrycrashfu_readBytesFromFD fuel os fd' 8 v2 = Inr (True, ?b, v3)"
    using read_loop_one_file [OF assms(1), of 8 v2 fuel fd' "[]"] assms(3) v2(2)
    by (auto simp: sentrycrashfu_readBytesFromFD_def)
  have "ucast (le_word ?a) = segmentId replay"
    by (simp add: le_word_bytes) (rule bit_word_eqI, simp add: bit_simps)
  with written op' opened v2(1) v3 show ?thesis
    by (auto simp: sentrySessionReplaySync_readInfo_def Let_def simp del: le_bytes.simps le_word.simps)
qed

theorem replay_info_roundtrip_witness:
  "\<exists>w' w''. sentrySessionReplaySync_writeInfo one_byte_os
      \<lparr>segmentId = 7, lastSegmentEnd = 0x3ff0000000000000, replay_path = Some ''/r''\<rparr> ([], []) = Inr w' \<and>
    sentrySessionReplaySync_readInfo 8 one_byte_os ''/r'' initial_replay w' =
      Inr (True, initial_replay\<lparr>segmentId := 7, lastSegmentEnd := 0x3ff0000000000000\<rparr>, w'')"
  using replay_info_roundtrip [OF one_byte_file, of "\<lparr>segmentId = 7, lastSegmentEnd = 0x3ff0000000000000,
    replay_path = Some ''/r''\<rparr>" "''/r''" 8 "([], [])" initial_replay]
  by (simp add: double_is_zero_def)

end
