(* ===== verification/Uuid_Text.thy ===== *)
theory Uuid_Text
  imports Prelude
begin

text \<open>
  \<open>Recording/Tools/SentryCrashUUIDConversion.c\<close> and \<open>SentryCrashID.c\<close>: the text of a UUID, once by a table
  of nybbles and once by \<open>snprintf\<close>.
\<close>

section \<open>By nybbles\<close>

definition uuid_nybbles :: bytes where
  "uuid_nybbles = ''0123456789ABCDEF''"

definition nybble_pair :: "byte \<Rightarrow> bytes" where
  "nybble_pair b = [uuid_nybbles ! ((byte_val b div 16) mod 16), uuid_nybbles ! (byte_val b mod 16)]"

text \<open>\<open>n\<close> bytes of the source from position \<open>p\<close> on.\<close>

fun nybble_pairs :: "nat \<Rightarrow> nat \<Rightarrow> bytes \<Rightarrow> bytes run" where
  "nybble_pairs 0 p src = Inr []"
| "nybble_pairs (Suc n) p src =
     bind_run (read_at src p) (\<lambda>b. bind_run (nybble_pairs n (p + 1) src) (\<lambda>rest. Inr (nybble_pair b @ rest)))"

definition sentrycrashdl_convertBinaryImageUUID :: "bytes \<Rightarrow> bytes run" where
  "sentrycrashdl_convertBinaryImageUUID src =
     bind_run (nybble_pairs 4 0 src) (\<lambda>a.
     bind_run (nybble_pairs 2 4 src) (\<lambda>b.
     bind_run (nybble_pairs 2 6 src) (\<lambda>c.
     bind_run (nybble_pairs 2 8 src) (\<lambda>d.
     bind_run (nybble_pairs 6 10 src) (\<lambda>e.
       Inr (a @ ''-'' @ b @ ''-'' @ c @ ''-'' @ d @ ''-'' @ e @ [NUL]))))))"

section \<open>By formatting\<close>

text \<open>\<open>%02X\<close>: upper case digits to the base 16, at least two.\<close>

definition hex_digit_upper :: "nat \<Rightarrow> byte" where
  "hex_digit_upper d = (if d < 10 then char_of (48 + d) else char_of (65 + (d - 10)))"

fun show_hex_upper :: "nat \<Rightarrow> bytes" where
  "show_hex_upper n =
     (if n < 16 then [hex_digit_upper n] else show_hex_upper (n div 16) @ [hex_digit_upper (n mod 16)])"

declare show_hex_upper.simps [simp del]

definition format_02X :: "nat \<Rightarrow> bytes" where
  "format_02X n = (let s = show_hex_upper n in replicate (2 - length s) (CHR ''0'') @ s)"

text \<open>The 37 bytes hold the whole text. What \<open>uuid_generate\<close> delivers is the argument.\<close>

definition sentrycrashid_generate :: "bytes \<Rightarrow> bytes" where
  "sentrycrashid_generate uuid =
     (let x = (\<lambda>i. format_02X (byte_val (uuid ! i)))
      in take 36 (x 0 @ x 1 @ x 2 @ x 3 @ ''-'' @ x 4 @ x 5 @ ''-'' @ x 6 @ x 7 @ ''-'' @ x 8 @ x 9 @ ''-'' @
           x 10 @ x 11 @ x 12 @ x 13 @ x 14 @ x 15) @ [NUL])"

section \<open>Their equivalence\<close>

lemma all_less_nat: "list_all P [0 ..< n] \<Longrightarrow> k < n \<Longrightarrow> P k"
  by (simp add: list_all_iff)

lemma nybble_upper: "d < 16 \<Longrightarrow> uuid_nybbles ! d = hex_digit_upper d"
  by (rule all_less_nat [of "\<lambda>d. uuid_nybbles ! d = hex_digit_upper d" 16]) (code_simp, assumption)

lemma format_pair: "format_02X (byte_val b) = nybble_pair b"
proof (cases "byte_val b < 16")
  case True
  then show ?thesis
    using nybble_upper [of "byte_val b"] nybble_upper [of 0]
    by (simp add: format_02X_def nybble_pair_def show_hex_upper.simps [of "byte_val b"])
      (simp add: hex_digit_upper_def char_of_def bit_0)
next
  case False
  have less: "byte_val b div 16 < 16" using byte_val_less [of b] by linarith
  then have "show_hex_upper (byte_val b) =
      [hex_digit_upper (byte_val b div 16), hex_digit_upper (byte_val b mod 16)]"
    using False by (simp add: show_hex_upper.simps [of "byte_val b"] show_hex_upper.simps [of "byte_val b div 16"])
  then show ?thesis
    using less nybble_upper [of "byte_val b div 16"] nybble_upper [of "byte_val b mod 16"]
    by (simp add: format_02X_def nybble_pair_def)
qed

lemma nybble_pairs_eq:
  "p + n \<le> length src \<Longrightarrow>
    nybble_pairs n p src = Inr (concat (map (\<lambda>i. nybble_pair (src ! i)) [p ..< p + n]))"
  by (induction n arbitrary: p) (simp_all add: upt_rec)

lemma length_nybble_pair [simp]: "length (nybble_pair b) = 2"
  by (simp add: nybble_pair_def)

lemma nybbles_distinct: "distinct uuid_nybbles"
  by code_simp

lemma nybble_inject: "d < 16 \<Longrightarrow> e < 16 \<Longrightarrow> uuid_nybbles ! d = uuid_nybbles ! e \<longleftrightarrow> d = e"
  using nth_eq_iff_index_eq [OF nybbles_distinct] by (simp add: uuid_nybbles_def)

lemma nybble_pair_inject: "nybble_pair a = nybble_pair b \<longleftrightarrow> a = b"
proof
  assume "nybble_pair a = nybble_pair b"
  then have "byte_val a div 16 mod 16 = byte_val b div 16 mod 16" "byte_val a mod 16 = byte_val b mod 16"
    by (simp_all add: nybble_pair_def nybble_inject)
  moreover have "byte_val c div 16 mod 16 = byte_val c div 16" for c
    using byte_val_less [of c] by (simp add: div_less_iff_less_mult)
  ultimately have "byte_val a = byte_val b" by (metis div_mult_mod_eq)
  then show "a = b" by (simp add: byte_val_inject)
qed simp

text \<open>The text as sixteen pairs.\<close>

definition pairs_text :: "bytes \<Rightarrow> bytes" where
  "pairs_text uuid =
     (let x = (\<lambda>i. nybble_pair (uuid ! i))
      in x 0 @ x 1 @ x 2 @ x 3 @ ''-'' @ x 4 @ x 5 @ ''-'' @ x 6 @ x 7 @ ''-'' @ x 8 @ x 9 @ ''-'' @
         x 10 @ x 11 @ x 12 @ x 13 @ x 14 @ x 15)"

lemma length_pairs_text [simp]: "length (pairs_text uuid) = 36"
  by (simp add: pairs_text_def Let_def)

lemma generate_pairs: "sentrycrashid_generate uuid = pairs_text uuid @ [NUL]"
  using length_pairs_text [of uuid]
  by (simp add: sentrycrashid_generate_def format_pair Let_def) (simp add: pairs_text_def)

lemma convert_pairs:
  "length uuid = 16 \<Longrightarrow> sentrycrashdl_convertBinaryImageUUID uuid = Inr (pairs_text uuid @ [NUL])"
  by (simp add: sentrycrashdl_convertBinaryImageUUID_def nybble_pairs_eq pairs_text_def upt_rec)
    (simp add: eval_nat_numeral)

lemma sixteen_bytes: "length xs = 16 \<Longrightarrow> xs = map (\<lambda>i. xs ! i) [0 ..< 16]"
  by (metis map_nth)

lemma pairs_text_inject:
  assumes "length a = 16" "length b = 16" "pairs_text a = pairs_text b"
  shows "a = b"
proof -
  have "map (\<lambda>i. a ! i) [0 ..< 16] = map (\<lambda>i. b ! i) [0 ..< 16]"
    using assms(3)
    by (simp add: pairs_text_def Let_def nybble_pair_inject upt_rec) (simp add: eval_nat_numeral)
  then show ?thesis using sixteen_bytes [OF assms(1)] sixteen_bytes [OF assms(2)] by metis
qed

section \<open>Property\<close>

text \<open>
  The two ways of writing a UUID agree, on 36 characters and a terminator, and different UUIDs
  have different texts.
\<close>

theorem uuid_texts_agree:
  assumes "length uuid = 16" "length uuid' = 16"
  shows "sentrycrashdl_convertBinaryImageUUID uuid = Inr (sentrycrashid_generate uuid) \<and>
    length (sentrycrashid_generate uuid) = 37 \<and>
    (sentrycrashid_generate uuid = sentrycrashid_generate uuid' \<longrightarrow> uuid = uuid')"
  using assms by (auto simp: generate_pairs convert_pairs dest: pairs_text_inject)

theorem uuid_texts_agree_witness:
  "sentrycrashdl_convertBinaryImageUUID (replicate 16 (CHR ''a'')) =
     Inr (sentrycrashid_generate (replicate 16 (CHR ''a''))) \<and>
   length (sentrycrashid_generate (replicate 16 (CHR ''a''))) = 37"
  using uuid_texts_agree [of "replicate 16 (CHR ''a'')" "replicate 16 (CHR ''a'')"] by simp

end
