(* ===== verification/Cached_Data.thy ===== *)
theory Cached_Data
  imports Prelude
begin

text \<open>
  \<open>Recording/SentryCrashCachedData.c\<close>: the names of threads, gathered by a thread of the crash
  reporter while the process is well, for a crash handler that cannot ask for them. The two share
  the tables without a lock, so a refresh is kept as the sequence of its stores.
\<close>

section \<open>The tables\<close>

record cached_data =
  g_pollingIntervalInSeconds :: int
  g_allMachThreads :: "nat list option"
  g_allPThreads :: "nat list option"
  g_allThreadNames :: "bytes option list option"
  g_allQueueNames :: "bytes option list option"
  g_allThreadsCount :: int
  g_semaphoreCount :: int
  g_hasThreadStarted :: bool
  quickPollCount :: int

definition initial_cached_data :: cached_data where
  "initial_cached_data =
     \<lparr>g_pollingIntervalInSeconds = 0, g_allMachThreads = None, g_allPThreads = None, g_allThreadNames = None,
      g_allQueueNames = None, g_allThreadsCount = 0, g_semaphoreCount = 0, g_hasThreadStarted = False,
      quickPollCount = 4\<rparr>"

text \<open>What the kernel and the thread library tell: the threads, and the name of one that has one.\<close>

record thread_names_env =
  kernel_threads :: "nat list option"
  pthread_from_mach_thread_np :: "nat \<Rightarrow> nat"
  pthread_getname_np :: "nat \<Rightarrow> bytes option"

section \<open>Refreshing\<close>

definition thread_name_of :: "thread_names_env \<Rightarrow> nat \<Rightarrow> bytes option" where
  "thread_name_of env thread =
     (let pthread = pthread_from_mach_thread_np env thread
      in if pthread = 0 then None
         else case pthread_getname_np env pthread of
             None \<Rightarrow> None
           | Some name \<Rightarrow> if c_string name = [] then None else Some (c_string name))"

text \<open>
  The stores to the tables, in the order of the code; the old tables are freed behind them. The
  names of queues are allocated, and never filled.
\<close>

definition publish_steps :: "thread_names_env \<Rightarrow> nat list \<Rightarrow> (cached_data \<Rightarrow> cached_data) list" where
  "publish_steps env threads =
     [\<lambda>s. s\<lparr>g_allThreadsCount := min (g_allThreadsCount s) (int (length threads))\<rparr>,
      \<lambda>s. s\<lparr>g_allMachThreads := Some threads\<rparr>,
      \<lambda>s. s\<lparr>g_allPThreads := Some (map (pthread_from_mach_thread_np env) threads)\<rparr>,
      \<lambda>s. s\<lparr>g_allThreadNames := Some (map (thread_name_of env) threads)\<rparr>,
      \<lambda>s. s\<lparr>g_allQueueNames := Some (replicate (length threads) None)\<rparr>,
      \<lambda>s. s\<lparr>g_allThreadsCount := int (length threads)\<rparr>]"

definition run_stores :: "(cached_data \<Rightarrow> cached_data) list \<Rightarrow> cached_data \<Rightarrow> cached_data" where
  "run_stores fs s = fold (\<lambda>f. f) fs s"

definition updateThreadList :: "thread_names_env \<Rightarrow> cached_data \<Rightarrow> cached_data" where
  "updateThreadList env s =
     (case kernel_threads env of None \<Rightarrow> s | Some threads \<Rightarrow> run_stores (publish_steps env threads) s)"

text \<open>One round of the endless loop of \<open>monitorCachedData\<close>, with the seconds it then sleeps.\<close>

definition monitorCachedData_round :: "thread_names_env \<Rightarrow> cached_data \<Rightarrow> int \<times> cached_data" where
  "monitorCachedData_round env s =
     (let s = (if g_semaphoreCount s \<le> 0 then updateThreadList env s else s)
      in if quickPollCount s > 0 then (1, s\<lparr>quickPollCount := quickPollCount s - 1\<rparr>)
         else (g_pollingIntervalInSeconds s, s))"

text \<open>The answer tells whether the thread is created, and cancelled.\<close>

definition sentrycrashccd_init :: "int \<Rightarrow> cached_data \<Rightarrow> bool \<times> cached_data" where
  "sentrycrashccd_init pollingIntervalInSeconds s =
     (if g_hasThreadStarted s then (False, s)
      else (True, s\<lparr>g_hasThreadStarted := True, g_pollingIntervalInSeconds := pollingIntervalInSeconds\<rparr>))"

definition sentrycrashccd_close :: "cached_data \<Rightarrow> bool \<times> cached_data" where
  "sentrycrashccd_close s =
     (if g_hasThreadStarted s then (True, s\<lparr>g_hasThreadStarted := False\<rparr>) else (False, s))"

definition sentrycrashccd_hasThreadStarted :: "cached_data \<Rightarrow> bool" where
  "sentrycrashccd_hasThreadStarted s = g_hasThreadStarted s"

section \<open>Freezing\<close>

text \<open>The answer tells whether to sleep for a moment, in case a refresh is going on.\<close>

definition sentrycrashccd_freeze :: "cached_data \<Rightarrow> bool \<times> cached_data" where
  "sentrycrashccd_freeze s = (g_semaphoreCount s \<le> 0, s\<lparr>g_semaphoreCount := g_semaphoreCount s + 1\<rparr>)"

definition sentrycrashccd_unfreeze :: "cached_data \<Rightarrow> cached_data" where
  "sentrycrashccd_unfreeze s =
     (let s = s\<lparr>g_semaphoreCount := g_semaphoreCount s - 1\<rparr>
      in if g_semaphoreCount s < 0 then s\<lparr>g_semaphoreCount := g_semaphoreCount s + 1\<rparr> else s)"

section \<open>Reading\<close>

fun find_name :: "nat list option \<Rightarrow> bytes option list \<Rightarrow> nat \<Rightarrow> nat \<Rightarrow> nat \<Rightarrow> bytes option run" where
  "find_name threads names thread i 0 = Inr None"
| "find_name threads names thread i (Suc n) =
     (case threads of
        None \<Rightarrow> Inl UndefinedBehaviour
      | Some ts \<Rightarrow> bind_run (read_at ts i) (\<lambda>t.
          if t = thread then read_at names i else find_name threads names thread (i + 1) n))"

definition sentrycrashccd_getThreadName :: "cached_data \<Rightarrow> nat \<Rightarrow> bytes option run" where
  "sentrycrashccd_getThreadName s thread =
     (case g_allThreadNames s of
        None \<Rightarrow> Inr None
      | Some names \<Rightarrow> find_name (g_allMachThreads s) names thread 0 (nat (g_allThreadsCount s)))"

definition sentrycrashccd_getQueueName :: "cached_data \<Rightarrow> nat \<Rightarrow> bytes option run" where
  "sentrycrashccd_getQueueName s thread =
     (case g_allQueueNames s of
        None \<Rightarrow> Inr None
      | Some names \<Rightarrow> find_name (g_allMachThreads s) names thread 0 (nat (g_allThreadsCount s)))"

section \<open>The tables stay within bounds\<close>

text \<open>
  Whatever was stored last, the count is within all tables that a reader looks at. A table of names
  is never there without the table of threads.
\<close>

definition within :: "cached_data \<Rightarrow> 'a list option \<Rightarrow> bool" where
  "within s table \<longleftrightarrow> (case table of None \<Rightarrow> g_allThreadsCount s \<le> 0 | Some xs \<Rightarrow> g_allThreadsCount s \<le> int (length xs))"

definition tables_ok :: "cached_data \<Rightarrow> bool" where
  "tables_ok s \<longleftrightarrow> within s (g_allMachThreads s) \<and> within s (g_allThreadNames s) \<and> within s (g_allQueueNames s)"

lemma find_name_within:
  assumes "i + n \<le> length ts" "i + n \<le> length names"
  shows "\<exists>r. find_name (Some ts) names thread i n = Inr r"
  using assms by (induction n arbitrary: i) simp_all

lemma names_readable:
  assumes "tables_ok s"
  shows "\<exists>r. sentrycrashccd_getThreadName s thread = Inr r" "\<exists>r. sentrycrashccd_getQueueName s thread = Inr r"
  using assms find_name_within [of 0 "nat (g_allThreadsCount s)"]
  by (auto simp: sentrycrashccd_getThreadName_def sentrycrashccd_getQueueName_def tables_ok_def within_def
    nat_le_iff split: option.splits)

lemma run_stores_simps [simp]:
  "run_stores [] s = s" "run_stores (f # fs) s = run_stores fs (f s)"
  by (simp_all add: run_stores_def)

lemma publish_prefix_ok:
  assumes "tables_ok s" "n \<le> 6"
  shows "tables_ok (run_stores (take n (publish_steps env threads)) s)"
proof -
  have "n = 0 \<or> n = 1 \<or> n = 2 \<or> n = 3 \<or> n = 4 \<or> n = 5 \<or> n = 6" using assms(2) by linarith
  then show ?thesis
    using assms(1)
    by (elim disjE) (auto simp: publish_steps_def tables_ok_def within_def split: option.splits)
qed

text \<open>
  C29. At no moment of a refresh does a crash handler that looks for the name of a thread read outside the
  tables: after each of the stores the count is within all of them.
\<close>

theorem names_never_out_of_bounds:
  assumes "tables_ok s"
  shows "(\<exists>r. sentrycrashccd_getThreadName (run_stores (take n (publish_steps env threads)) s) thread = Inr r) \<and>
    (\<exists>r. sentrycrashccd_getQueueName (run_stores (take n (publish_steps env threads)) s) thread = Inr r) \<and>
    tables_ok (updateThreadList env s)"
proof -
  have six: "length (publish_steps env ts) = 6" for ts by (simp add: publish_steps_def)
  have "tables_ok (run_stores (take n (publish_steps env threads)) s)"
    using publish_prefix_ok [OF assms, of "min n 6" env threads] six [of threads]
    by (cases "n \<le> 6") simp_all
  moreover have "tables_ok (updateThreadList env s)"
    using publish_prefix_ok [OF assms order_refl, of env] six assms
    by (auto simp: updateThreadList_def split: option.split)
  ultimately show ?thesis using names_readable by blast
qed

theorem names_never_out_of_bounds_witness:
  "tables_ok initial_cached_data \<and>
    (\<exists>r. sentrycrashccd_getThreadName
       (run_stores (take 2 (publish_steps
          \<lparr>kernel_threads = Some [5, 6], pthread_from_mach_thread_np = (\<lambda>t. t), pthread_getname_np = (\<lambda>_. Some ''main'')\<rparr>
          [5, 6])) initial_cached_data) 5 = Inr r)"
proof -
  have ok: "tables_ok initial_cached_data" by (simp add: tables_ok_def within_def initial_cached_data_def)
  from names_never_out_of_bounds [OF ok, of 2 _ "[5, 6]" 5] ok show ?thesis by blast
qed

text \<open>No thread has a queue in a report: the names of queues are never filled in.\<close>

lemma queue_names_empty:
  assumes "kernel_threads env = Some threads"
  shows "sentrycrashccd_getQueueName (updateThreadList env s) thread = Inr None"
proof -
  have "find_name (Some threads) (replicate (length threads) None) thread i n = Inr None"
    if "i + n \<le> length threads" for i n
    using that by (induction n arbitrary: i) simp_all
  from this [of 0 "length threads"] show ?thesis
    using assms by (simp add: sentrycrashccd_getQueueName_def updateThreadList_def publish_steps_def)
qed

text \<open>In the middle of a refresh a thread may be given the name of another one.\<close>

lemma names_mixed_up:
  "sentrycrashccd_getThreadName
     (run_stores (take 2 (publish_steps env [2, 1]))
       (initial_cached_data\<lparr>g_allMachThreads := Some [1, 2], g_allThreadNames := Some [Some ''one'', Some ''two''],
          g_allThreadsCount := 2\<rparr>)) 1 = Inr (Some ''two'')"
  by (simp add: publish_steps_def sentrycrashccd_getThreadName_def numeral_2_eq_2)

end
