(* ===== verification/Crash_Memory.thy ===== *)
theory Crash_Memory
  imports Prelude
begin

text \<open>
  \<open>Recording/Tools/SentryCrashMemory.c\<close>: reading memory that may not be there, which is what a
  crash handler has to do. The kernel's \<open>vm_read_overwrite\<close> is a parameter: it delivers the bytes of
  a range, or nothing.
\<close>

type_synonym vm = "64 word \<Rightarrow> nat \<Rightarrow> bytes option"

section \<open>The operations\<close>

text \<open>An \<open>int\<close> that is passed as a \<open>vm_size_t\<close>: a negative one is huge.\<close>

definition vm_size :: "int \<Rightarrow> nat" where
  "vm_size n = unat (word_of_int n :: 64 word)"

text \<open>The number of bytes copied, and the bytes; a failure leaves the destination as it is.\<close>

definition copySafely :: "vm \<Rightarrow> 64 word \<Rightarrow> int \<Rightarrow> int \<times> bytes" where
  "copySafely vm src byteCount =
     (case vm src (vm_size byteCount) of None \<Rightarrow> (0, []) | Some data \<Rightarrow> (int (length data), data))"

text \<open>
  The loop halves what it tries to copy. \<open>p\<close>, \<open>pEnd\<close> and \<open>pMax\<close> are the offsets of \<open>pSrc\<close>, \<open>pSrcEnd\<close> and
  \<open>pSrcMax\<close> from the source.
\<close>

function copy_loop :: "vm \<Rightarrow> 64 word \<Rightarrow> nat \<Rightarrow> nat \<Rightarrow> nat \<Rightarrow> bytes \<Rightarrow> bytes" where
  "copy_loop vm src p pEnd pMax got =
     (let copyLength = pEnd - p
      in if copyLength = 0 then got
         else
           let (n, data) = copySafely vm (src + of_nat p) (int copyLength)
           in if n = int copyLength then
                copy_loop vm src (p + copyLength) (p + copyLength + (pMax - (p + copyLength)) div 2) pMax
                  (got @ data)
              else if copyLength \<le> 1 then got
              else copy_loop vm src p (p + copyLength div 2) pEnd got)"
  by pat_completeness auto
termination
  by (relation "measures [\<lambda>(vm, src, p, pEnd, pMax, got). max (pMax - p) (pEnd - p),
        \<lambda>(vm, src, p, pEnd, pMax, got). pEnd - p]") auto

declare copy_loop.simps [simp del]

text \<open>The bytes at the destination: one is copied there before the count is looked at.\<close>

definition copyMaxPossible :: "vm \<Rightarrow> 64 word \<Rightarrow> int \<Rightarrow> int \<times> bytes" where
  "copyMaxPossible vm src byteCount =
     (let (n, first) = copySafely vm src 1
      in if n \<noteq> 1 then (0, first)
         else if byteCount \<le> 1 then (byteCount, first)
         else
           let data = copy_loop vm src 0 (nat byteCount) (nat byteCount) []
           in (int (length data), if data = [] then first else data))"

definition testBufferSize :: int where "testBufferSize = 10240"

text \<open>\<open>memory\<close> stays where it is from one round to the next.\<close>

function readable_loop :: "vm \<Rightarrow> 64 word \<Rightarrow> int \<Rightarrow> bool" where
  "readable_loop vm memory bytesRemaining =
     (if bytesRemaining \<le> 0 then bytesRemaining = 0
      else
        let bytesToCopy = min bytesRemaining testBufferSize
        in if fst (copySafely vm memory bytesToCopy) \<noteq> bytesToCopy then False
           else readable_loop vm memory (bytesRemaining - bytesToCopy))"
  by pat_completeness auto
termination
  by (relation "measure (\<lambda>(vm, memory, bytesRemaining). nat bytesRemaining)")
     (auto simp: testBufferSize_def)

declare readable_loop.simps [simp del]

definition isMemoryReadable :: "vm \<Rightarrow> 64 word \<Rightarrow> int \<Rightarrow> bool" where
  "isMemoryReadable vm memory byteCount = readable_loop vm memory byteCount"

function skip_readable :: "vm \<Rightarrow> 64 word \<Rightarrow> int \<Rightarrow> 64 word \<times> int" where
  "skip_readable vm currentPosition bytesRemaining =
     (if bytesRemaining > testBufferSize \<and> isMemoryReadable vm currentPosition testBufferSize
      then skip_readable vm (currentPosition + word_of_int testBufferSize)
             (bytesRemaining - testBufferSize)
      else (currentPosition, bytesRemaining))"
  by pat_completeness auto
termination
  by (relation "measure (\<lambda>(vm, currentPosition, bytesRemaining). nat bytesRemaining)")
     (auto simp: testBufferSize_def)

declare skip_readable.simps [simp del]

definition sentrycrashmem_maxReadableBytes :: "vm \<Rightarrow> 64 word \<Rightarrow> int \<Rightarrow> int" where
  "sentrycrashmem_maxReadableBytes vm memory tryByteCount =
     (let (currentPosition, bytesRemaining) = skip_readable vm memory tryByteCount
      in tryByteCount - (bytesRemaining - fst (copyMaxPossible vm currentPosition testBufferSize)))"

definition sentrycrashmem_isMemoryReadable :: "vm \<Rightarrow> 64 word \<Rightarrow> int \<Rightarrow> bool" where
  "sentrycrashmem_isMemoryReadable vm memory byteCount = isMemoryReadable vm memory byteCount"

definition sentrycrashmem_copyMaxPossible :: "vm \<Rightarrow> 64 word \<Rightarrow> int \<Rightarrow> int \<times> bytes" where
  "sentrycrashmem_copyMaxPossible vm src byteCount = copyMaxPossible vm src byteCount"

definition sentrycrashmem_copySafely :: "vm \<Rightarrow> 64 word \<Rightarrow> int \<Rightarrow> bool \<times> bytes" where
  "sentrycrashmem_copySafely vm src byteCount =
     (let (n, data) = copySafely vm src byteCount in (n \<noteq> 0, data))"

section \<open>What is readable\<close>

text \<open>
  \<open>vm_reads vm mem\<close>: the kernel delivers a range exactly if every byte of it is readable in the
  memory \<open>mem\<close>.
\<close>

definition all_readable :: "(64 word \<Rightarrow> byte option) \<Rightarrow> 64 word \<Rightarrow> nat \<Rightarrow> bool" where
  "all_readable mem a n \<longleftrightarrow> (\<forall>i<n. mem (a + of_nat i) \<noteq> None)"

definition bytes_at :: "(64 word \<Rightarrow> byte option) \<Rightarrow> 64 word \<Rightarrow> nat \<Rightarrow> bytes" where
  "bytes_at mem a n = map (\<lambda>i. the (mem (a + of_nat i))) [0 ..< n]"

definition vm_reads :: "vm \<Rightarrow> (64 word \<Rightarrow> byte option) \<Rightarrow> bool" where
  "vm_reads vm mem \<longleftrightarrow>
     (\<forall>a n. vm a n = (if all_readable mem a n then Some (bytes_at mem a n) else None))"

text \<open>The length of the longest readable beginning of \<open>n\<close> bytes.\<close>

fun readable_length :: "(64 word \<Rightarrow> byte option) \<Rightarrow> 64 word \<Rightarrow> nat \<Rightarrow> nat" where
  "readable_length mem a 0 = 0"
| "readable_length mem a (Suc n) = (if mem a = None then 0 else Suc (readable_length mem (a + 1) n))"

lemma length_bytes_at [simp]: "length (bytes_at mem a n) = n"
  by (simp add: bytes_at_def)

lemma bytes_at_append: "bytes_at mem a (m + n) = bytes_at mem a m @ bytes_at mem (a + of_nat m) n"
proof -
  have "[m ..< m + n] = map (\<lambda>i. i + m) [0 ..< n]" by (simp add: map_add_upt add.commute)
  then have "[0 ..< m + n] = [0 ..< m] @ map (\<lambda>i. i + m) [0 ..< n]"
    using upt_add_eq_append [of 0 m n] by simp
  then show ?thesis by (simp add: bytes_at_def o_def algebra_simps)
qed

lemma all_readable_Suc:
  "all_readable mem a (Suc n) \<longleftrightarrow> mem a \<noteq> None \<and> all_readable mem (a + 1) n"
  by (simp add: all_readable_def All_less_Suc2 algebra_simps)

lemma readable_length_le: "readable_length mem a n \<le> n"
  by (induction n arbitrary: a) simp_all

lemma readable_length_ge: "m \<le> n \<Longrightarrow> m \<le> readable_length mem a n \<longleftrightarrow> all_readable mem a m"
proof (induction n arbitrary: a m)
  case (Suc n)
  show ?case
  proof (cases m)
    case (Suc k)
    with Suc.prems Suc.IH [of k "a + 1"] show ?thesis by (simp add: all_readable_Suc)
  qed (simp add: all_readable_def)
qed (simp add: all_readable_def)

lemma vm_size_nat [simp]: "n < 2 ^ 31 \<Longrightarrow> vm_size (int n) = n"
  by (simp add: vm_size_def unat_of_nat)

lemma vm_size_int: "0 \<le> n \<Longrightarrow> n < 2 ^ 31 \<Longrightarrow> vm_size n = nat n"
  using vm_size_nat [of "nat n"] by simp

lemma copySafely_reads:
  assumes "vm_reads vm mem" "n < 2 ^ 31"
  shows "copySafely vm a (int n) =
    (if all_readable mem a n then (int n, bytes_at mem a n) else (0, []))"
  using assms by (simp add: copySafely_def vm_reads_def)

end
