(* ===== verification/Dynamic_Linker.thy ===== *)
theory Dynamic_Linker
  imports Crash_Memory
begin

text \<open>
  \<open>Recording/Tools/SentryCrashDynamicLinker.c\<close>: what the load commands of the images in memory say about
  an address, a name or an image. The structures of the Mach-O format and the answers of \<open>dyld\<close> are
  not part of the repository: a memory gives the structure at an address, where there is one, and
  reading where there is none is undefined. Pointers are 64 bits wide.
\<close>

type_synonym addr = "64 word"

section \<open>Mach-O\<close>

record mach_header =
  magic :: "32 word"
  cputype :: "32 word"
  cpusubtype :: "32 word"
  ncmds :: "32 word"

record load_command =
  cmd :: "32 word"
  cmdsize :: "32 word"

record 'w segment_command =
  segname :: bytes
  vmaddr :: 'w
  vmsize :: 'w
  fileoff :: 'w

record symtab_command =
  symoff :: "32 word"
  nsyms :: "32 word"
  stroff :: "32 word"

record nlist =
  n_strx :: "32 word"
  n_desc :: "16 word"
  n_value :: addr

record crash_info =
  ci_version :: "32 word"
  ci_message :: addr
  ci_message2 :: addr

record macho_memory =
  header_at :: "addr \<Rightarrow> mach_header option"
  load_command_at :: "addr \<Rightarrow> load_command option"
  segment_at :: "addr \<Rightarrow> 32 word segment_command option"
  segment64_at :: "addr \<Rightarrow> 64 word segment_command option"
  dylib_version_at :: "addr \<Rightarrow> 32 word option"
  symtab_at :: "addr \<Rightarrow> symtab_command option"
  nlist_at :: "addr \<Rightarrow> nlist option"
  char_at :: "addr \<Rightarrow> byte option"
  crash_info_at :: "addr \<Rightarrow> crash_info option"
  mem_vm :: vm

text \<open>The values of \<open>mach-o/loader.h\<close> and \<open>mach-o/nlist.h\<close>.\<close>

definition MH_MAGIC :: "32 word" where "MH_MAGIC = 0xfeedface"
definition MH_CIGAM :: "32 word" where "MH_CIGAM = 0xcefaedfe"
definition MH_MAGIC_64 :: "32 word" where "MH_MAGIC_64 = 0xfeedfacf"
definition MH_CIGAM_64 :: "32 word" where "MH_CIGAM_64 = 0xcffaedfe"
definition LC_SEGMENT :: "32 word" where "LC_SEGMENT = 0x1"
definition LC_SYMTAB :: "32 word" where "LC_SYMTAB = 0x2"
definition LC_ID_DYLIB :: "32 word" where "LC_ID_DYLIB = 0xd"
definition LC_SEGMENT_64 :: "32 word" where "LC_SEGMENT_64 = 0x19"
definition LC_UUID :: "32 word" where "LC_UUID = 0x1b"
definition SEG_LINKEDIT :: bytes where "SEG_LINKEDIT = ''__LINKEDIT''"
definition SEG_TEXT :: bytes where "SEG_TEXT = ''__TEXT''"
definition sizeof_mach_header :: addr where "sizeof_mach_header = 28"
definition sizeof_mach_header_64 :: addr where "sizeof_mach_header_64 = 32"
definition sizeof_nlist :: addr where "sizeof_nlist = 16"
definition offsetof_uuid :: addr where "offsetof_uuid = 8"

lemmas macho_constants = MH_MAGIC_def MH_CIGAM_def MH_MAGIC_64_def MH_CIGAM_64_def LC_SEGMENT_def
  LC_SYMTAB_def LC_ID_DYLIB_def LC_SEGMENT_64_def LC_UUID_def

text \<open>The images \<open>dyld\<close> knows, by their index; it answers null or 0 for any other index.\<close>

record dyld_image =
  di_header :: addr
  di_slide :: addr
  di_name :: bytes

definition dyld_get_image_header :: "dyld_image list \<Rightarrow> nat \<Rightarrow> addr" where
  "dyld_get_image_header images i = (if i < length images then di_header (images ! i) else 0)"

definition dyld_get_image_vmaddr_slide :: "dyld_image list \<Rightarrow> nat \<Rightarrow> addr" where
  "dyld_get_image_vmaddr_slide images i = (if i < length images then di_slide (images ! i) else 0)"

definition dyld_get_image_name :: "dyld_image list \<Rightarrow> nat \<Rightarrow> bytes option" where
  "dyld_get_image_name images i = (if i < length images then Some (di_name (images ! i)) else None)"

definition deref :: "'a option \<Rightarrow> 'a run" where
  "deref x = (case x of None \<Rightarrow> Inl UndefinedBehaviour | Some v \<Rightarrow> Inr v)"

section \<open>Load commands\<close>

definition firstCmdAfterHeader :: "macho_memory \<Rightarrow> addr \<Rightarrow> addr run" where
  "firstCmdAfterHeader m header =
     bind_run (deref (header_at m header)) (\<lambda>h.
       Inr (if magic h = MH_MAGIC \<or> magic h = MH_CIGAM then header + sizeof_mach_header
            else if magic h = MH_MAGIC_64 \<or> magic h = MH_CIGAM_64 then header + sizeof_mach_header_64
            else 0))"

text \<open>
  The loop \<open>for (iCmd = 0; iCmd < header->ncmds; iCmd++) \<dots> cmdPtr += loadCmd->cmdsize\<close> that every function
  here has: its body may return a result (\<open>Inl\<close>) or go on with a new state (\<open>Inr\<close>).
\<close>

fun each_command ::
    "macho_memory \<Rightarrow> (addr \<Rightarrow> load_command \<Rightarrow> 's \<Rightarrow> ('r + 's) run) \<Rightarrow> nat \<Rightarrow> addr \<Rightarrow> 's \<Rightarrow> ('r + 's) run" where
  "each_command m body 0 cmdPtr s = Inr (Inr s)"
| "each_command m body (Suc n) cmdPtr s =
     bind_run (deref (load_command_at m cmdPtr)) (\<lambda>loadCmd.
     bind_run (body cmdPtr loadCmd s) (\<lambda>x.
       case x of
         Inl r \<Rightarrow> Inr (Inl r)
       | Inr s \<Rightarrow> each_command m body n (cmdPtr + ucast (cmdsize loadCmd)) s))"

definition number_of_commands :: "macho_memory \<Rightarrow> addr \<Rightarrow> nat run" where
  "number_of_commands m header = bind_run (deref (header_at m header)) (\<lambda>h. Inr (unat (ncmds h)))"

section \<open>The image of an address\<close>

text \<open>In a 32-bit segment the end is computed in 32 bits.\<close>

definition segment_contains :: "macho_memory \<Rightarrow> addr \<Rightarrow> addr \<Rightarrow> load_command \<Rightarrow> bool run" where
  "segment_contains m addressWSlide cmdPtr loadCmd =
     (if cmd loadCmd = LC_SEGMENT then
        bind_run (deref (segment_at m cmdPtr)) (\<lambda>segCmd.
          Inr (ucast (vmaddr segCmd) \<le> addressWSlide \<and>
               addressWSlide < ucast (vmaddr segCmd + vmsize segCmd)))
      else if cmd loadCmd = LC_SEGMENT_64 then
        bind_run (deref (segment64_at m cmdPtr)) (\<lambda>segCmd.
          Inr (vmaddr segCmd \<le> addressWSlide \<and> addressWSlide < vmaddr segCmd + vmsize segCmd))
      else Inr False)"

definition image_contains :: "macho_memory \<Rightarrow> addr \<Rightarrow> dyld_image \<Rightarrow> bool run" where
  "image_contains m address img =
     (let header = di_header img
      in if header = 0 then Inr False
         else
           let addressWSlide = address - di_slide img
           in bind_run (firstCmdAfterHeader m header) (\<lambda>cmdPtr.
                if cmdPtr = 0 then Inr False
                else bind_run (number_of_commands m header) (\<lambda>n.
                     bind_run
                       (each_command m
                          (\<lambda>cmdPtr loadCmd (_ :: unit).
                             bind_run (segment_contains m addressWSlide cmdPtr loadCmd) (\<lambda>found.
                               Inr (if found then Inl () else Inr ())))
                          n cmdPtr ())
                       (\<lambda>x. Inr (case x of Inl _ \<Rightarrow> True | Inr _ \<Rightarrow> False)))))"

text \<open>\<open>None\<close> is \<open>UINT_MAX\<close>.\<close>

fun image_index_from :: "macho_memory \<Rightarrow> addr \<Rightarrow> nat \<Rightarrow> dyld_image list \<Rightarrow> nat option run" where
  "image_index_from m address i [] = Inr None"
| "image_index_from m address i (img # images) =
     bind_run (image_contains m address img) (\<lambda>found.
       if found then Inr (Some i) else image_index_from m address (i + 1) images)"

definition imageIndexContainingAddress :: "macho_memory \<Rightarrow> dyld_image list \<Rightarrow> addr \<Rightarrow> nat option run" where
  "imageIndexContainingAddress m images address = image_index_from m address 0 images"

definition linkedit_base :: "macho_memory \<Rightarrow> addr \<Rightarrow> load_command \<Rightarrow> addr option run" where
  "linkedit_base m cmdPtr loadCmd =
     (if cmd loadCmd = LC_SEGMENT then
        bind_run (deref (segment_at m cmdPtr)) (\<lambda>segmentCmd.
          Inr (if segname segmentCmd = SEG_LINKEDIT
               then Some (ucast (vmaddr segmentCmd - fileoff segmentCmd)) else None))
      else if cmd loadCmd = LC_SEGMENT_64 then
        bind_run (deref (segment64_at m cmdPtr)) (\<lambda>segmentCmd.
          Inr (if segname segmentCmd = SEG_LINKEDIT
               then Some (vmaddr segmentCmd - fileoff segmentCmd) else None))
      else Inr None)"

definition segmentBaseOfImageIndex :: "macho_memory \<Rightarrow> dyld_image list \<Rightarrow> nat \<Rightarrow> addr run" where
  "segmentBaseOfImageIndex m images idx =
     (let header = dyld_get_image_header images idx
      in bind_run (firstCmdAfterHeader m header) (\<lambda>cmdPtr.
           if cmdPtr = 0 then Inr 0
           else bind_run (number_of_commands m header) (\<lambda>n.
                bind_run
                  (each_command m
                     (\<lambda>cmdPtr loadCmd (_ :: unit).
                        bind_run (linkedit_base m cmdPtr loadCmd) (\<lambda>base.
                          Inr (case base of Some b \<Rightarrow> Inl b | None \<Rightarrow> Inr ())))
                     n cmdPtr ())
                  (\<lambda>x. Inr (case x of Inl b \<Rightarrow> b | Inr _ \<Rightarrow> 0)))))"

section \<open>Images by name\<close>

fun strstr_found :: "bytes \<Rightarrow> bytes \<Rightarrow> bool" where
  "strstr_found [] needle = (needle = [])"
| "strstr_found (b # s) needle = (take (length needle) (b # s) = needle \<or> strstr_found s needle)"

fun image_named_from :: "bytes \<Rightarrow> bool \<Rightarrow> nat \<Rightarrow> dyld_image list \<Rightarrow> nat option" where
  "image_named_from imageName exactMatch i [] = None"
| "image_named_from imageName exactMatch i (img # images) =
     (let name = c_string (di_name img)
      in if (if exactMatch then name = c_string imageName else strstr_found name (c_string imageName))
         then Some i else image_named_from imageName exactMatch (i + 1) images)"

definition sentrycrashdl_imageNamed :: "dyld_image list \<Rightarrow> bytes option \<Rightarrow> bool \<Rightarrow> nat option" where
  "sentrycrashdl_imageNamed images imageName exactMatch =
     (case imageName of None \<Rightarrow> None | Some name \<Rightarrow> image_named_from name exactMatch 0 images)"

definition sentrycrashdl_imageUUID ::
    "macho_memory \<Rightarrow> dyld_image list \<Rightarrow> bytes option \<Rightarrow> bool \<Rightarrow> addr run" where
  "sentrycrashdl_imageUUID m images imageName exactMatch =
     (case sentrycrashdl_imageNamed images imageName exactMatch of
        None \<Rightarrow> Inr 0
      | Some iImg \<Rightarrow>
          let header = dyld_get_image_header images iImg
          in if header = 0 then Inr 0
             else bind_run (firstCmdAfterHeader m header) (\<lambda>cmdPtr.
               if cmdPtr = 0 then Inr 0
               else bind_run (number_of_commands m header) (\<lambda>n.
                    bind_run
                      (each_command m
                         (\<lambda>cmdPtr loadCmd (_ :: unit).
                            Inr (if cmd loadCmd = LC_UUID then Inl (cmdPtr + offsetof_uuid) else Inr ()))
                         n cmdPtr ())
                      (\<lambda>x. Inr (case x of Inl uuid \<Rightarrow> uuid | Inr _ \<Rightarrow> 0)))))"

section \<open>Symbols\<close>

record dl_info =
  dli_fname :: "bytes option"
  dli_fbase :: addr
  dli_sname :: addr
  dli_saddr :: addr

definition no_info :: dl_info where
  "no_info = \<lparr>dli_fname = None, dli_fbase = 0, dli_sname = 0, dli_saddr = 0\<rparr>"

text \<open>The symbol with the smallest distance below the address, the last of several.\<close>

fun best_symbol ::
    "macho_memory \<Rightarrow> addr \<Rightarrow> addr \<Rightarrow> nat \<Rightarrow> nlist option \<times> addr \<Rightarrow> (nlist option \<times> addr) run" where
  "best_symbol m addressWithSlide symbolTable 0 best = Inr best"
| "best_symbol m addressWithSlide symbolTable (Suc n) best =
     bind_run (deref (nlist_at m symbolTable)) (\<lambda>sym.
       let symbolBase = n_value sym;
           currentDistance = addressWithSlide - symbolBase;
           (bestMatch, bestDistance) = best
       in best_symbol m addressWithSlide (symbolTable + sizeof_nlist) n
            (if symbolBase \<noteq> 0 \<and> symbolBase \<le> addressWithSlide \<and> currentDistance \<le> bestDistance
             then (Some sym, currentDistance) else best))"

text \<open>Of a stripped image the name is left out; a leading underscore is skipped.\<close>

definition symbol_info ::
    "macho_memory \<Rightarrow> addr \<Rightarrow> addr \<Rightarrow> nlist \<Rightarrow> dl_info \<Rightarrow> dl_info run" where
  "symbol_info m imageVMAddrSlide stringTable bestMatch info =
     (let info = info\<lparr>dli_saddr := n_value bestMatch + imageVMAddrSlide\<rparr>
      in if n_desc bestMatch = 16 then Inr (info\<lparr>dli_sname := 0\<rparr>)
         else
           let sname = stringTable + ucast (n_strx bestMatch)
           in bind_run (deref (char_at m sname)) (\<lambda>c.
                Inr (info\<lparr>dli_sname := if c = CHR ''_'' then sname + 1 else sname\<rparr>)))"

definition symtab_body ::
    "macho_memory \<Rightarrow> addr \<Rightarrow> addr \<Rightarrow> addr \<Rightarrow> addr \<Rightarrow> load_command \<Rightarrow>
       (nlist option \<times> addr) \<times> dl_info \<Rightarrow> (dl_info + (nlist option \<times> addr) \<times> dl_info) run" where
  "symtab_body m addressWithSlide imageVMAddrSlide segmentBase cmdPtr loadCmd s =
     (let (best, info) = s
      in if cmd loadCmd \<noteq> LC_SYMTAB then Inr (Inr s)
         else
           bind_run (deref (symtab_at m cmdPtr)) (\<lambda>symtabCmd.
           bind_run (best_symbol m addressWithSlide (segmentBase + ucast (symoff symtabCmd))
             (unat (nsyms symtabCmd)) best) (\<lambda>best.
             case fst best of
               None \<Rightarrow> Inr (Inr (best, info))
             | Some bestMatch \<Rightarrow>
                 bind_run (symbol_info m imageVMAddrSlide (segmentBase + ucast (stroff symtabCmd)) bestMatch info)
                   (\<lambda>info. Inr (Inl info)))))"

definition sentrycrashdl_dladdr :: "macho_memory \<Rightarrow> dyld_image list \<Rightarrow> addr \<Rightarrow> (bool \<times> dl_info) run" where
  "sentrycrashdl_dladdr m images address =
     bind_run (imageIndexContainingAddress m images address) (\<lambda>idx.
       case idx of
         None \<Rightarrow> Inr (False, no_info)
       | Some idx \<Rightarrow>
           let header = dyld_get_image_header images idx;
               imageVMAddrSlide = dyld_get_image_vmaddr_slide images idx;
               addressWithSlide = address - imageVMAddrSlide
           in bind_run (segmentBaseOfImageIndex m images idx) (\<lambda>base.
                let segmentBase = base + imageVMAddrSlide
                in if segmentBase = 0 then Inr (False, no_info)
                   else
                     let info = no_info\<lparr>dli_fname := dyld_get_image_name images idx, dli_fbase := header\<rparr>
                     in bind_run (firstCmdAfterHeader m header) (\<lambda>cmdPtr.
                          if cmdPtr = 0 then Inr (False, info)
                          else bind_run (number_of_commands m header) (\<lambda>n.
                               bind_run
                                 (each_command m (symtab_body m addressWithSlide imageVMAddrSlide segmentBase)
                                    n cmdPtr ((None, - 1), info))
                                 (\<lambda>x. Inr (True, case x of Inl info \<Rightarrow> info | Inr (_, info) \<Rightarrow> info))))))"

section \<open>Binary images\<close>

record binary_image =
  bi_address :: addr
  bi_vmAddress :: addr
  bi_size :: addr
  bi_name :: "bytes option"
  bi_uuid :: addr
  bi_cpuType :: "32 word"
  bi_cpuSubType :: "32 word"
  bi_majorVersion :: "64 word"
  bi_minorVersion :: "64 word"
  bi_revisionVersion :: "64 word"
  bi_crashInfoMessage :: addr
  bi_crashInfoMessage2 :: addr

definition no_image :: binary_image where
  "no_image = \<lparr>bi_address = 0, bi_vmAddress = 0, bi_size = 0, bi_name = None, bi_uuid = 0, bi_cpuType = 0,
     bi_cpuSubType = 0, bi_majorVersion = 0, bi_minorVersion = 0, bi_revisionVersion = 0,
     bi_crashInfoMessage = 0, bi_crashInfoMessage2 = 0\<rparr>"

definition SENTRYCRASHDL_MaxCrashInfoStringLength :: int where
  "SENTRYCRASHDL_MaxCrashInfoStringLength = 1024"

fun has_terminator :: "macho_memory \<Rightarrow> addr \<Rightarrow> nat \<Rightarrow> bool run" where
  "has_terminator m str 0 = Inr False"
| "has_terminator m str (Suc n) =
     bind_run (deref (char_at m str)) (\<lambda>c. if c = NUL then Inr True else has_terminator m (str + 1) n)"

definition isValidCrashInfoMessage :: "macho_memory \<Rightarrow> addr \<Rightarrow> bool run" where
  "isValidCrashInfoMessage m str =
     (if str = 0 then Inr False
      else
        let maxReadableBytes =
              sentrycrashmem_maxReadableBytes (mem_vm m) str (SENTRYCRASHDL_MaxCrashInfoStringLength + 1)
        in if maxReadableBytes = 0 then Inr False else has_terminator m str (nat maxReadableBytes))"

text \<open>\<open>getsectiondata\<close> finds the section, its address and size. \<open>offsetof(crash_info_t, reserved)\<close> is 40.\<close>

definition minimal_crash_info_size :: nat where "minimal_crash_info_size = 40"

definition getCrashInfo ::
    "macho_memory \<Rightarrow> (addr \<Rightarrow> (addr \<times> nat) option) \<Rightarrow> addr \<Rightarrow> binary_image \<Rightarrow> binary_image run" where
  "getCrashInfo m getsectiondata header buffer =
     (case getsectiondata header of
        None \<Rightarrow> Inr buffer
      | Some (crashInfo, sectionSize) \<Rightarrow>
          if sectionSize < minimal_crash_info_size then Inr buffer
          else if \<not> sentrycrashmem_isMemoryReadable (mem_vm m) crashInfo (int minimal_crash_info_size)
          then Inr buffer
          else bind_run (deref (crash_info_at m crashInfo)) (\<lambda>ci.
            if ci_version ci \<noteq> 4 \<and> ci_version ci \<noteq> 5 then Inr buffer
            else if ci_message ci = 0 \<and> ci_message2 ci = 0 then Inr buffer
            else
              bind_run (isValidCrashInfoMessage m (ci_message ci)) (\<lambda>valid.
                let buffer = (if valid then buffer\<lparr>bi_crashInfoMessage := ci_message ci\<rparr> else buffer)
                in bind_run (isValidCrashInfoMessage m (ci_message2 ci)) (\<lambda>valid2.
                     Inr (if valid2 then buffer\<lparr>bi_crashInfoMessage2 := ci_message2 ci\<rparr> else buffer)))))"

definition sentrycrashdl_imageCount :: "dyld_image list \<Rightarrow> nat" where
  "sentrycrashdl_imageCount images = length images"

text \<open>What the loop over the commands gathers.\<close>

record image_facts =
  imageSize :: addr
  imageVmAddr :: addr
  image_version :: "64 word"
  image_uuid :: addr

definition image_body ::
    "macho_memory \<Rightarrow> addr \<Rightarrow> load_command \<Rightarrow> image_facts \<Rightarrow> (unit + image_facts) run" where
  "image_body m cmdPtr loadCmd f =
     (if cmd loadCmd = LC_SEGMENT then
        bind_run (deref (segment_at m cmdPtr)) (\<lambda>segCmd.
          Inr (Inr (if segname segCmd = SEG_TEXT
            then f\<lparr>imageSize := ucast (vmsize segCmd), imageVmAddr := ucast (vmaddr segCmd)\<rparr> else f)))
      else if cmd loadCmd = LC_SEGMENT_64 then
        bind_run (deref (segment64_at m cmdPtr)) (\<lambda>segCmd.
          Inr (Inr (if segname segCmd = SEG_TEXT
            then f\<lparr>imageSize := vmsize segCmd, imageVmAddr := vmaddr segCmd\<rparr> else f)))
      else if cmd loadCmd = LC_UUID then Inr (Inr (f\<lparr>image_uuid := cmdPtr + offsetof_uuid\<rparr>))
      else if cmd loadCmd = LC_ID_DYLIB then
        bind_run (deref (dylib_version_at m cmdPtr)) (\<lambda>v. Inr (Inr (f\<lparr>image_version := ucast v\<rparr>)))
      else Inr (Inr f))"

definition sentrycrashdl_getBinaryImageForHeader ::
    "macho_memory \<Rightarrow> (addr \<Rightarrow> (addr \<times> nat) option) \<Rightarrow> addr \<Rightarrow> bytes option \<Rightarrow> binary_image \<Rightarrow> bool \<Rightarrow>
       (bool \<times> binary_image) run" where
  "sentrycrashdl_getBinaryImageForHeader m getsectiondata header image_name buffer isCrash =
     bind_run (firstCmdAfterHeader m header) (\<lambda>cmdPtr.
       if cmdPtr = 0 then Inr (False, buffer)
       else
         bind_run (deref (header_at m header)) (\<lambda>h.
         bind_run
           (each_command m (image_body m) (unat (ncmds h)) cmdPtr
              \<lparr>imageSize = 0, imageVmAddr = 0, image_version = 0, image_uuid = 0\<rparr>)
           (\<lambda>x. case x of
               Inl _ \<Rightarrow> Inr (False, buffer)
             | Inr f \<Rightarrow>
                 let version = image_version f;
                     buffer = buffer\<lparr>bi_address := header, bi_vmAddress := imageVmAddr f, bi_size := imageSize f,
                       bi_name := image_name, bi_uuid := image_uuid f, bi_cpuType := cputype h,
                       bi_cpuSubType := cpusubtype h, bi_majorVersion := drop_bit 16 version,
                       bi_minorVersion := and (drop_bit 8 version) 0xff,
                       bi_revisionVersion := and version 0xff\<rparr>
                 in bind_run (if isCrash then getCrashInfo m getsectiondata header buffer else Inr buffer)
                      (\<lambda>buffer. Inr (True, buffer)))))"

definition sentrycrashdl_getBinaryImage ::
    "macho_memory \<Rightarrow> dyld_image list \<Rightarrow> (addr \<Rightarrow> (addr \<times> nat) option) \<Rightarrow> nat \<Rightarrow> binary_image \<Rightarrow> bool \<Rightarrow>
       (bool \<times> binary_image) run" where
  "sentrycrashdl_getBinaryImage m images getsectiondata index buffer isCrash =
     (let header = dyld_get_image_header images index
      in if header = 0 then Inr (False, buffer)
         else sentrycrashdl_getBinaryImageForHeader m getsectiondata header (dyld_get_image_name images index)
                buffer isCrash)"

end
