(* ===== verification/Dynamic_Linker_Spec.thy ===== *)
theory Dynamic_Linker_Spec
  imports Dynamic_Linker
begin

text \<open>
  What the dynamic linker's functions find: the image of an address is the first one with a segment
  around it, and the symbol of an address is the nearest one at or below it.
\<close>

section \<open>Command lists\<close>

fun layout :: "macho_memory \<Rightarrow> addr \<Rightarrow> load_command list \<Rightarrow> bool" where
  "layout m p [] = True"
| "layout m p (c # cs) \<longleftrightarrow> load_command_at m p = Some c \<and> layout m (p + ucast (cmdsize c)) cs"

definition after_commands :: "addr \<Rightarrow> load_command list \<Rightarrow> addr" where
  "after_commands p cs = foldl (\<lambda>p c. p + ucast (cmdsize c)) p cs"

lemma after_commands_Cons: "after_commands p (c # cs) = after_commands (p + ucast (cmdsize c)) cs"
  by (simp add: after_commands_def)

lemma after_commands_Nil [simp]: "after_commands p [] = p"
  by (simp add: after_commands_def)

lemma layout_append: "layout m p (cs @ ds) \<longleftrightarrow> layout m p cs \<and> layout m (after_commands p cs) ds"
  by (induction cs arbitrary: p) (auto simp: after_commands_Cons)

lemma deref_Some [simp]: "deref (Some x) = Inr x"
  by (simp add: deref_def)

lemma each_command_skip:
  assumes "layout m p cs" "\<forall>c \<in> set cs. \<forall>q. body q c s = Inr (Inr s)"
  shows "each_command m body (length cs + n) p s = each_command m body n (after_commands p cs) s"
  using assms
  by (induction cs arbitrary: p) (simp_all add: after_commands_Cons)

section \<open>The nearest symbol\<close>

fun symbols_at :: "macho_memory \<Rightarrow> addr \<Rightarrow> nlist list \<Rightarrow> bool" where
  "symbols_at m t [] = True"
| "symbols_at m t (s # ss) \<longleftrightarrow> nlist_at m t = Some s \<and> symbols_at m (t + sizeof_nlist) ss"

definition below :: "addr \<Rightarrow> nlist \<Rightarrow> bool" where
  "below a s \<longleftrightarrow> n_value s \<noteq> 0 \<and> n_value s \<le> a"

definition nearest_below :: "addr \<Rightarrow> nlist list \<Rightarrow> nlist \<Rightarrow> bool" where
  "nearest_below a syms s \<longleftrightarrow> s \<in> set syms \<and> below a s \<and> (\<forall>t \<in> set syms. below a t \<longrightarrow> n_value t \<le> n_value s)"

definition best_of :: "addr \<Rightarrow> nlist list \<Rightarrow> nlist option \<times> addr \<Rightarrow> bool" where
  "best_of a syms best \<longleftrightarrow>
     (case best of
        (None, d) \<Rightarrow> d = - 1 \<and> (\<forall>t \<in> set syms. \<not> below a t)
      | (Some s, d) \<Rightarrow> d = a - n_value s \<and> nearest_below a syms s)"

lemma distance_le:
  "x \<le> a \<Longrightarrow> y \<le> a \<Longrightarrow> a - x \<le> a - y \<longleftrightarrow> y \<le> (x :: addr)"
  by (auto simp: word_le_nat_alt unat_sub)

lemma best_of_snoc:
  assumes "best_of a syms best"
  shows "best_of a (syms @ [s])
    (if n_value s \<noteq> 0 \<and> n_value s \<le> a \<and> a - n_value s \<le> snd best then (Some s, a - n_value s) else best)"
proof (cases "fst best")
  case None
  with assms show ?thesis by (cases best) (auto simp: best_of_def nearest_below_def below_def)
next
  case (Some b)
  with assms have b: "snd best = a - n_value b" "nearest_below a syms b"
    by (cases best; simp add: best_of_def)+
  then have "n_value b \<le> a" by (simp add: nearest_below_def below_def)
  with b Some show ?thesis
    by (cases best) (auto simp: best_of_def nearest_below_def below_def distance_le)
qed

lemma best_symbol_best:
  "symbols_at m t syms \<Longrightarrow> best_of a before best \<Longrightarrow>
     \<exists>best'. best_symbol m a t (length syms) best = Inr best' \<and> best_of a (before @ syms) best'"
proof (induction syms arbitrary: t before best)
  case (Cons s syms)
  from Cons.IH [OF _ best_of_snoc [OF Cons.prems(2), of s], of "t + sizeof_nlist"] Cons.prems(1) show ?case
    by (cases best) (auto simp: Let_def split: if_splits)
qed auto

lemma best_symbol_nearest:
  assumes "symbols_at m t syms" "\<exists>s \<in> set syms. below a s"
  shows "\<exists>s d. best_symbol m a t (length syms) (None, - 1) = Inr (Some s, d) \<and> nearest_below a syms s"
proof -
  have "best_of a [] (None, - 1)" by (simp add: best_of_def)
  from best_symbol_best [OF assms(1) this] assms(2) show ?thesis
    by (auto simp: best_of_def split: option.splits)
qed

definition symbol_name :: "macho_memory \<Rightarrow> addr \<Rightarrow> nlist \<Rightarrow> addr" where
  "symbol_name m strings s =
     (let q = strings + ucast (n_strx s)
      in if n_desc s = 16 then 0 else if char_at m q = Some (CHR ''_'') then q + 1 else q)"

lemma symbol_info_fields:
  assumes "char_at m (strings + ucast (n_strx s)) = Some ch"
  shows "\<exists>info'. symbol_info m slide strings s info = Inr info' \<and> dli_fname info' = dli_fname info \<and>
    dli_fbase info' = dli_fbase info \<and> dli_saddr info' = n_value s + slide \<and>
    dli_sname info' = symbol_name m strings s"
  using assms by (simp add: symbol_info_def symbol_name_def Let_def)

section \<open>Properties\<close>


text \<open>
  An image at 0x1000 with a segment, a link-edit segment and a table of three symbols, of which one
  is external; it was moved by 0x10.
\<close>

definition small_memory :: macho_memory where
  "small_memory =
     \<lparr>header_at = (\<lambda>a. if a = 0x1000 then Some \<lparr>magic = MH_MAGIC_64, cputype = 1, cpusubtype = 2, ncmds = 3\<rparr> else None),
      load_command_at = [0x1020 \<mapsto> \<lparr>cmd = LC_SEGMENT_64, cmdsize = 72\<rparr>, 0x1068 \<mapsto> \<lparr>cmd = LC_SEGMENT_64, cmdsize = 72\<rparr>,
         0x10b0 \<mapsto> \<lparr>cmd = LC_SYMTAB, cmdsize = 24\<rparr>],
      segment_at = (\<lambda>_. None),
      segment64_at = [0x1020 \<mapsto> \<lparr>segname = ''__TEXT'', vmaddr = 0x400, vmsize = 0x100, fileoff = 0\<rparr>,
         0x1068 \<mapsto> \<lparr>segname = ''__LINKEDIT'', vmaddr = 0x600, vmsize = 0x100, fileoff = 0x200\<rparr>],
      dylib_version_at = (\<lambda>_. None),
      symtab_at = [0x10b0 \<mapsto> \<lparr>symoff = 0x200, nsyms = 3, stroff = 0x300\<rparr>],
      nlist_at = [0x610 \<mapsto> \<lparr>n_strx = 1, n_desc = 0, n_value = 0x410\<rparr>, 0x620 \<mapsto> \<lparr>n_strx = 4, n_desc = 0, n_value = 0\<rparr>,
         0x630 \<mapsto> \<lparr>n_strx = 6, n_desc = 0, n_value = 0x420\<rparr>],
      char_at = (\<lambda>_. Some (CHR ''_'')), crash_info_at = (\<lambda>_. None), mem_vm = (\<lambda>_ _. None)\<rparr>"

definition small_images :: "dyld_image list" where
  "small_images = [\<lparr>di_header = 0x1000, di_slide = 0x10, di_name = ''app''\<rparr>]"

definition small_symbols :: "nlist list" where
  "small_symbols = [\<lparr>n_strx = 1, n_desc = 0, n_value = 0x410\<rparr>, \<lparr>n_strx = 4, n_desc = 0, n_value = 0\<rparr>,
     \<lparr>n_strx = 6, n_desc = 0, n_value = 0x420\<rparr>]"


end
