(* ===== verification/Crash_Cpu.thy ===== *)
theory Crash_Cpu
  imports Prelude
begin

unbundle bit_operations_syntax

text \<open>
  \<open>Recording/Tools/SentryCrashCPU.c\<close> and its four architectures: the names and values of the
  registers a report lists, and the registers by which a stack is walked. The register files of
  the system's headers are functions from their fields to values, widened to 64 bits.
\<close>

section \<open>What the architectures share\<close>

record ('s, 'e) cpu_context =
  thisThread :: nat
  cpu_ss :: 's
  cpu_es :: 'e

text \<open>\<open>thread_get_state\<close> is a parameter; it fills the state or fails and leaves it.\<close>

definition sentrycrashcpu_i_fillState :: "(nat \<Rightarrow> 's option) \<Rightarrow> nat \<Rightarrow> 's \<Rightarrow> bool \<times> 's" where
  "sentrycrashcpu_i_fillState get_state thread state =
     (case get_state thread of None \<Rightarrow> (False, state) | Some st \<Rightarrow> (True, st))"

definition sentrycrashcpu_currentArch :: "bytes option" where
  "sentrycrashcpu_currentArch = None"

text \<open>A table of names, indexed by an \<open>int\<close> that is only compared with its length.\<close>

definition table_name :: "bytes list \<Rightarrow> int \<Rightarrow> bytes option run" where
  "table_name names n =
     (if n < int (length names)
      then if n < 0 then Inl UndefinedBehaviour else Inr (Some (names ! nat n))
      else Inr None)"

section \<open>\<open>arm64\<close>\<close>

datatype arm64_field =
    A64_x nat | A64_fp | A64_lr | A64_sp | A64_pc | A64_cpsr

datatype arm64_exc = A64_exception | A64_esr | A64_far

type_synonym arm64_context = "(arm64_field \<Rightarrow> 64 word, arm64_exc \<Rightarrow> 64 word) cpu_context"

definition g_registerNames_arm64 :: "bytes list" where
  "g_registerNames_arm64 =
     [''x0'', ''x1'', ''x2'', ''x3'', ''x4'', ''x5'', ''x6'', ''x7'', ''x8'', ''x9'', ''x10'',
      ''x11'', ''x12'', ''x13'', ''x14'', ''x15'', ''x16'', ''x17'', ''x18'', ''x19'', ''x20'',
      ''x21'', ''x22'', ''x23'', ''x24'', ''x25'', ''x26'', ''x27'', ''x28'', ''fp'', ''lr'',
      ''sp'', ''pc'', ''cpsr'']"

definition g_exceptionRegisterNames_arm64 :: "bytes list" where
  "g_exceptionRegisterNames_arm64 = [''exception'', ''esr'', ''far'']"

definition sentrycrashcpu_framePointer_arm64 :: "arm64_context \<Rightarrow> 64 word" where
  "sentrycrashcpu_framePointer_arm64 context = cpu_ss context A64_fp"

definition sentrycrashcpu_stackPointer_arm64 :: "arm64_context \<Rightarrow> 64 word" where
  "sentrycrashcpu_stackPointer_arm64 context = cpu_ss context A64_sp"

definition sentrycrashcpu_instructionAddress_arm64 :: "arm64_context \<Rightarrow> 64 word" where
  "sentrycrashcpu_instructionAddress_arm64 context = cpu_ss context A64_pc"

definition sentrycrashcpu_linkRegister_arm64 :: "arm64_context \<Rightarrow> 64 word" where
  "sentrycrashcpu_linkRegister_arm64 context = cpu_ss context A64_lr"

definition sentrycrashcpu_getState_arm64 ::
    "(nat \<Rightarrow> (arm64_field \<Rightarrow> 64 word) option) \<Rightarrow> (nat \<Rightarrow> (arm64_exc \<Rightarrow> 64 word) option) \<Rightarrow>
     arm64_context \<Rightarrow> arm64_context" where
  "sentrycrashcpu_getState_arm64 thread_state exception_state context =
     context\<lparr>cpu_ss := snd (sentrycrashcpu_i_fillState thread_state (thisThread context) (cpu_ss context)),
             cpu_es := snd (sentrycrashcpu_i_fillState exception_state (thisThread context) (cpu_es context))\<rparr>"

definition sentrycrashcpu_numRegisters_arm64 :: int where
  "sentrycrashcpu_numRegisters_arm64 = int (length g_registerNames_arm64)"

definition sentrycrashcpu_registerName_arm64 :: "int \<Rightarrow> bytes option run" where
  "sentrycrashcpu_registerName_arm64 regNumber = table_name g_registerNames_arm64 regNumber"

definition sentrycrashcpu_registerValue_arm64 :: "arm64_context \<Rightarrow> int \<Rightarrow> 64 word run" where
  "sentrycrashcpu_registerValue_arm64 context regNumber =
     (if regNumber < 29
      then if regNumber < 0 then Inl UndefinedBehaviour else Inr (cpu_ss context (A64_x (nat regNumber)))
      else if regNumber = 29 then Inr (cpu_ss context A64_fp)
      else if regNumber = 30 then Inr (cpu_ss context A64_lr)
      else if regNumber = 31 then Inr (cpu_ss context A64_sp)
      else if regNumber = 32 then Inr (cpu_ss context A64_pc)
      else if regNumber = 33 then Inr (cpu_ss context A64_cpsr)
      else Inr 0)"

definition sentrycrashcpu_numExceptionRegisters_arm64 :: int where
  "sentrycrashcpu_numExceptionRegisters_arm64 = int (length g_exceptionRegisterNames_arm64)"

definition sentrycrashcpu_exceptionRegisterName_arm64 :: "int \<Rightarrow> bytes option run" where
  "sentrycrashcpu_exceptionRegisterName_arm64 regNumber = table_name g_exceptionRegisterNames_arm64 regNumber"

definition sentrycrashcpu_exceptionRegisterValue_arm64 :: "arm64_context \<Rightarrow> int \<Rightarrow> 64 word" where
  "sentrycrashcpu_exceptionRegisterValue_arm64 context regNumber =
     (if regNumber = 0 then cpu_es context A64_exception
      else if regNumber = 1 then cpu_es context A64_esr
      else if regNumber = 2 then cpu_es context A64_far
      else 0)"

definition sentrycrashcpu_faultAddress_arm64 :: "arm64_context \<Rightarrow> 64 word" where
  "sentrycrashcpu_faultAddress_arm64 context = cpu_es context A64_far"

definition sentrycrashcpu_stackGrowDirection_arm64 :: int where
  "sentrycrashcpu_stackGrowDirection_arm64 = -1"

definition KSPACStrippingMask_ARM64e :: "64 word" where "KSPACStrippingMask_ARM64e = 0x0000000fffffffff"

definition sentrycrashcpu_normaliseInstructionPointer_arm64 :: "64 word \<Rightarrow> 64 word" where
  "sentrycrashcpu_normaliseInstructionPointer_arm64 ip = ip AND KSPACStrippingMask_ARM64e"

section \<open>\<open>arm\<close>\<close>

datatype arm_field =
    A32_r nat | A32_sp | A32_lr | A32_pc | A32_cpsr

datatype arm_exc = A32_exception | A32_fsr | A32_far

type_synonym arm_context = "(arm_field \<Rightarrow> 64 word, arm_exc \<Rightarrow> 64 word) cpu_context"

definition g_registerNames_arm :: "bytes list" where
  "g_registerNames_arm =
     [''r0'', ''r1'', ''r2'', ''r3'', ''r4'', ''r5'', ''r6'', ''r7'', ''r8'', ''r9'', ''r10'',
      ''r11'', ''ip'', ''sp'', ''lr'', ''pc'', ''cpsr'']"

definition g_exceptionRegisterNames_arm :: "bytes list" where
  "g_exceptionRegisterNames_arm = [''exception'', ''fsr'', ''far'']"

definition sentrycrashcpu_framePointer_arm :: "arm_context \<Rightarrow> 64 word" where
  "sentrycrashcpu_framePointer_arm context = cpu_ss context (A32_r 7)"

definition sentrycrashcpu_stackPointer_arm :: "arm_context \<Rightarrow> 64 word" where
  "sentrycrashcpu_stackPointer_arm context = cpu_ss context A32_sp"

definition sentrycrashcpu_instructionAddress_arm :: "arm_context \<Rightarrow> 64 word" where
  "sentrycrashcpu_instructionAddress_arm context = cpu_ss context A32_pc"

definition sentrycrashcpu_linkRegister_arm :: "arm_context \<Rightarrow> 64 word" where
  "sentrycrashcpu_linkRegister_arm context = cpu_ss context A32_lr"

definition sentrycrashcpu_getState_arm ::
    "(nat \<Rightarrow> (arm_field \<Rightarrow> 64 word) option) \<Rightarrow> (nat \<Rightarrow> (arm_exc \<Rightarrow> 64 word) option) \<Rightarrow>
     arm_context \<Rightarrow> arm_context" where
  "sentrycrashcpu_getState_arm thread_state exception_state context =
     context\<lparr>cpu_ss := snd (sentrycrashcpu_i_fillState thread_state (thisThread context) (cpu_ss context)),
             cpu_es := snd (sentrycrashcpu_i_fillState exception_state (thisThread context) (cpu_es context))\<rparr>"

definition sentrycrashcpu_numRegisters_arm :: int where
  "sentrycrashcpu_numRegisters_arm = int (length g_registerNames_arm)"

definition sentrycrashcpu_registerName_arm :: "int \<Rightarrow> bytes option run" where
  "sentrycrashcpu_registerName_arm regNumber = table_name g_registerNames_arm regNumber"

definition sentrycrashcpu_registerValue_arm :: "arm_context \<Rightarrow> int \<Rightarrow> 64 word run" where
  "sentrycrashcpu_registerValue_arm context regNumber =
     (if regNumber \<le> 12
      then if regNumber < 0 then Inl UndefinedBehaviour else Inr (cpu_ss context (A32_r (nat regNumber)))
      else if regNumber = 13 then Inr (cpu_ss context A32_sp)
      else if regNumber = 14 then Inr (cpu_ss context A32_lr)
      else if regNumber = 15 then Inr (cpu_ss context A32_pc)
      else if regNumber = 16 then Inr (cpu_ss context A32_cpsr)
      else Inr 0)"

definition sentrycrashcpu_numExceptionRegisters_arm :: int where
  "sentrycrashcpu_numExceptionRegisters_arm = int (length g_exceptionRegisterNames_arm)"

definition sentrycrashcpu_exceptionRegisterName_arm :: "int \<Rightarrow> bytes option run" where
  "sentrycrashcpu_exceptionRegisterName_arm regNumber = table_name g_exceptionRegisterNames_arm regNumber"

definition sentrycrashcpu_exceptionRegisterValue_arm :: "arm_context \<Rightarrow> int \<Rightarrow> 64 word" where
  "sentrycrashcpu_exceptionRegisterValue_arm context regNumber =
     (if regNumber = 0 then cpu_es context A32_exception
      else if regNumber = 1 then cpu_es context A32_fsr
      else if regNumber = 2 then cpu_es context A32_far
      else 0)"

definition sentrycrashcpu_faultAddress_arm :: "arm_context \<Rightarrow> 64 word" where
  "sentrycrashcpu_faultAddress_arm context = cpu_es context A32_far"

definition sentrycrashcpu_stackGrowDirection_arm :: int where
  "sentrycrashcpu_stackGrowDirection_arm = -1"

definition sentrycrashcpu_normaliseInstructionPointer_arm :: "64 word \<Rightarrow> 64 word" where
  "sentrycrashcpu_normaliseInstructionPointer_arm ip = ip"

section \<open>\<open>x86_64\<close>\<close>

datatype x86_64_field =
    X64_rax | X64_rbx | X64_rcx | X64_rdx | X64_rdi | X64_rsi | X64_rbp | X64_rsp | X64_r8 |
    X64_r9 | X64_r10 | X64_r11 | X64_r12 | X64_r13 | X64_r14 | X64_r15 | X64_rip | X64_rflags |
    X64_cs | X64_fs | X64_gs

datatype x86_64_exc = X64_trapno | X64_err | X64_faultvaddr

type_synonym x86_64_context = "(x86_64_field \<Rightarrow> 64 word, x86_64_exc \<Rightarrow> 64 word) cpu_context"

definition g_registerNames_x86_64 :: "bytes list" where
  "g_registerNames_x86_64 =
     [''rax'', ''rbx'', ''rcx'', ''rdx'', ''rdi'', ''rsi'', ''rbp'', ''rsp'', ''r8'', ''r9'',
      ''r10'', ''r11'', ''r12'', ''r13'', ''r14'', ''r15'', ''rip'', ''rflags'', ''cs'',
      ''fs'', ''gs'']"

definition g_exceptionRegisterNames_x86_64 :: "bytes list" where
  "g_exceptionRegisterNames_x86_64 = [''trapno'', ''err'', ''faultvaddr'']"

definition sentrycrashcpu_framePointer_x86_64 :: "x86_64_context \<Rightarrow> 64 word" where
  "sentrycrashcpu_framePointer_x86_64 context = cpu_ss context X64_rbp"

definition sentrycrashcpu_stackPointer_x86_64 :: "x86_64_context \<Rightarrow> 64 word" where
  "sentrycrashcpu_stackPointer_x86_64 context = cpu_ss context X64_rsp"

definition sentrycrashcpu_instructionAddress_x86_64 :: "x86_64_context \<Rightarrow> 64 word" where
  "sentrycrashcpu_instructionAddress_x86_64 context = cpu_ss context X64_rip"

definition sentrycrashcpu_linkRegister_x86_64 :: "x86_64_context \<Rightarrow> 64 word" where
  "sentrycrashcpu_linkRegister_x86_64 context = 0"

definition sentrycrashcpu_getState_x86_64 ::
    "(nat \<Rightarrow> (x86_64_field \<Rightarrow> 64 word) option) \<Rightarrow> (nat \<Rightarrow> (x86_64_exc \<Rightarrow> 64 word) option) \<Rightarrow>
     x86_64_context \<Rightarrow> x86_64_context" where
  "sentrycrashcpu_getState_x86_64 thread_state exception_state context =
     context\<lparr>cpu_ss := snd (sentrycrashcpu_i_fillState thread_state (thisThread context) (cpu_ss context)),
             cpu_es := snd (sentrycrashcpu_i_fillState exception_state (thisThread context) (cpu_es context))\<rparr>"

definition sentrycrashcpu_numRegisters_x86_64 :: int where
  "sentrycrashcpu_numRegisters_x86_64 = int (length g_registerNames_x86_64)"

definition sentrycrashcpu_registerName_x86_64 :: "int \<Rightarrow> bytes option run" where
  "sentrycrashcpu_registerName_x86_64 regNumber = table_name g_registerNames_x86_64 regNumber"

definition sentrycrashcpu_registerValue_x86_64 :: "x86_64_context \<Rightarrow> int \<Rightarrow> 64 word run" where
  "sentrycrashcpu_registerValue_x86_64 context regNumber =
     (if regNumber = 0 then Inr (cpu_ss context X64_rax)
      else if regNumber = 1 then Inr (cpu_ss context X64_rbx)
      else if regNumber = 2 then Inr (cpu_ss context X64_rcx)
      else if regNumber = 3 then Inr (cpu_ss context X64_rdx)
      else if regNumber = 4 then Inr (cpu_ss context X64_rdi)
      else if regNumber = 5 then Inr (cpu_ss context X64_rsi)
      else if regNumber = 6 then Inr (cpu_ss context X64_rbp)
      else if regNumber = 7 then Inr (cpu_ss context X64_rsp)
      else if regNumber = 8 then Inr (cpu_ss context X64_r8)
      else if regNumber = 9 then Inr (cpu_ss context X64_r9)
      else if regNumber = 10 then Inr (cpu_ss context X64_r10)
      else if regNumber = 11 then Inr (cpu_ss context X64_r11)
      else if regNumber = 12 then Inr (cpu_ss context X64_r12)
      else if regNumber = 13 then Inr (cpu_ss context X64_r13)
      else if regNumber = 14 then Inr (cpu_ss context X64_r14)
      else if regNumber = 15 then Inr (cpu_ss context X64_r15)
      else if regNumber = 16 then Inr (cpu_ss context X64_rip)
      else if regNumber = 17 then Inr (cpu_ss context X64_rflags)
      else if regNumber = 18 then Inr (cpu_ss context X64_cs)
      else if regNumber = 19 then Inr (cpu_ss context X64_fs)
      else if regNumber = 20 then Inr (cpu_ss context X64_gs)
      else Inr 0)"

definition sentrycrashcpu_numExceptionRegisters_x86_64 :: int where
  "sentrycrashcpu_numExceptionRegisters_x86_64 = int (length g_exceptionRegisterNames_x86_64)"

definition sentrycrashcpu_exceptionRegisterName_x86_64 :: "int \<Rightarrow> bytes option run" where
  "sentrycrashcpu_exceptionRegisterName_x86_64 regNumber = table_name g_exceptionRegisterNames_x86_64 regNumber"

definition sentrycrashcpu_exceptionRegisterValue_x86_64 :: "x86_64_context \<Rightarrow> int \<Rightarrow> 64 word" where
  "sentrycrashcpu_exceptionRegisterValue_x86_64 context regNumber =
     (if regNumber = 0 then cpu_es context X64_trapno
      else if regNumber = 1 then cpu_es context X64_err
      else if regNumber = 2 then cpu_es context X64_faultvaddr
      else 0)"

definition sentrycrashcpu_faultAddress_x86_64 :: "x86_64_context \<Rightarrow> 64 word" where
  "sentrycrashcpu_faultAddress_x86_64 context = cpu_es context X64_faultvaddr"

definition sentrycrashcpu_stackGrowDirection_x86_64 :: int where
  "sentrycrashcpu_stackGrowDirection_x86_64 = -1"

definition sentrycrashcpu_normaliseInstructionPointer_x86_64 :: "64 word \<Rightarrow> 64 word" where
  "sentrycrashcpu_normaliseInstructionPointer_x86_64 ip = ip"

section \<open>\<open>x86_32\<close>\<close>

datatype x86_32_field =
    X32_eax | X32_ebx | X32_ecx | X32_edx | X32_edi | X32_esi | X32_ebp | X32_esp | X32_ss |
    X32_eflags | X32_eip | X32_cs | X32_ds | X32_es | X32_fs | X32_gs

datatype x86_32_exc = X32_trapno | X32_err | X32_faultvaddr

type_synonym x86_32_context = "(x86_32_field \<Rightarrow> 64 word, x86_32_exc \<Rightarrow> 64 word) cpu_context"

definition g_registerNames_x86_32 :: "bytes list" where
  "g_registerNames_x86_32 =
     [''eax'', ''ebx'', ''ecx'', ''edx'', ''edi'', ''esi'', ''ebp'', ''esp'', ''ss'',
      ''eflags'', ''eip'', ''cs'', ''ds'', ''es'', ''fs'', ''gs'']"

definition g_exceptionRegisterNames_x86_32 :: "bytes list" where
  "g_exceptionRegisterNames_x86_32 = [''trapno'', ''err'', ''faultvaddr'']"

definition sentrycrashcpu_framePointer_x86_32 :: "x86_32_context \<Rightarrow> 64 word" where
  "sentrycrashcpu_framePointer_x86_32 context = cpu_ss context X32_ebp"

definition sentrycrashcpu_stackPointer_x86_32 :: "x86_32_context \<Rightarrow> 64 word" where
  "sentrycrashcpu_stackPointer_x86_32 context = cpu_ss context X32_esp"

definition sentrycrashcpu_instructionAddress_x86_32 :: "x86_32_context \<Rightarrow> 64 word" where
  "sentrycrashcpu_instructionAddress_x86_32 context = cpu_ss context X32_eip"

definition sentrycrashcpu_linkRegister_x86_32 :: "x86_32_context \<Rightarrow> 64 word" where
  "sentrycrashcpu_linkRegister_x86_32 context = 0"

definition sentrycrashcpu_getState_x86_32 ::
    "(nat \<Rightarrow> (x86_32_field \<Rightarrow> 64 word) option) \<Rightarrow> (nat \<Rightarrow> (x86_32_exc \<Rightarrow> 64 word) option) \<Rightarrow>
     x86_32_context \<Rightarrow> x86_32_context" where
  "sentrycrashcpu_getState_x86_32 thread_state exception_state context =
     context\<lparr>cpu_ss := snd (sentrycrashcpu_i_fillState thread_state (thisThread context) (cpu_ss context)),
             cpu_es := snd (sentrycrashcpu_i_fillState exception_state (thisThread context) (cpu_es context))\<rparr>"

definition sentrycrashcpu_numRegisters_x86_32 :: int where
  "sentrycrashcpu_numRegisters_x86_32 = int (length g_registerNames_x86_32)"

definition sentrycrashcpu_registerName_x86_32 :: "int \<Rightarrow> bytes option run" where
  "sentrycrashcpu_registerName_x86_32 regNumber = table_name g_registerNames_x86_32 regNumber"

definition sentrycrashcpu_registerValue_x86_32 :: "x86_32_context \<Rightarrow> int \<Rightarrow> 64 word run" where
  "sentrycrashcpu_registerValue_x86_32 context regNumber =
     (if regNumber = 0 then Inr (cpu_ss context X32_eax)
      else if regNumber = 1 then Inr (cpu_ss context X32_ebx)
      else if regNumber = 2 then Inr (cpu_ss context X32_ecx)
      else if regNumber = 3 then Inr (cpu_ss context X32_edx)
      else if regNumber = 4 then Inr (cpu_ss context X32_edi)
      else if regNumber = 5 then Inr (cpu_ss context X32_esi)
      else if regNumber = 6 then Inr (cpu_ss context X32_ebp)
      else if regNumber = 7 then Inr (cpu_ss context X32_esp)
      else if regNumber = 8 then Inr (cpu_ss context X32_ss)
      else if regNumber = 9 then Inr (cpu_ss context X32_eflags)
      else if regNumber = 10 then Inr (cpu_ss context X32_eip)
      else if regNumber = 11 then Inr (cpu_ss context X32_cs)
      else if regNumber = 12 then Inr (cpu_ss context X32_ds)
      else if regNumber = 13 then Inr (cpu_ss context X32_es)
      else if regNumber = 14 then Inr (cpu_ss context X32_fs)
      else if regNumber = 15 then Inr (cpu_ss context X32_gs)
      else Inr 0)"

definition sentrycrashcpu_numExceptionRegisters_x86_32 :: int where
  "sentrycrashcpu_numExceptionRegisters_x86_32 = int (length g_exceptionRegisterNames_x86_32)"

definition sentrycrashcpu_exceptionRegisterName_x86_32 :: "int \<Rightarrow> bytes option run" where
  "sentrycrashcpu_exceptionRegisterName_x86_32 regNumber = table_name g_exceptionRegisterNames_x86_32 regNumber"

definition sentrycrashcpu_exceptionRegisterValue_x86_32 :: "x86_32_context \<Rightarrow> int \<Rightarrow> 64 word" where
  "sentrycrashcpu_exceptionRegisterValue_x86_32 context regNumber =
     (if regNumber = 0 then cpu_es context X32_trapno
      else if regNumber = 1 then cpu_es context X32_err
      else if regNumber = 2 then cpu_es context X32_faultvaddr
      else 0)"

definition sentrycrashcpu_faultAddress_x86_32 :: "x86_32_context \<Rightarrow> 64 word" where
  "sentrycrashcpu_faultAddress_x86_32 context = cpu_es context X32_faultvaddr"

definition sentrycrashcpu_stackGrowDirection_x86_32 :: int where
  "sentrycrashcpu_stackGrowDirection_x86_32 = -1"

definition sentrycrashcpu_normaliseInstructionPointer_x86_32 :: "64 word \<Rightarrow> 64 word" where
  "sentrycrashcpu_normaliseInstructionPointer_x86_32 ip = ip"

section \<open>The operations of an architecture\<close>

text \<open>Which file is compiled is decided by the target; its clients see these operations.\<close>

record 'c cpu_ops =
  op_framePointer :: "'c \<Rightarrow> 64 word"
  op_stackPointer :: "'c \<Rightarrow> 64 word"
  op_instructionAddress :: "'c \<Rightarrow> 64 word"
  op_linkRegister :: "'c \<Rightarrow> 64 word"
  op_numRegisters :: int
  op_registerName :: "int \<Rightarrow> bytes option run"
  op_registerValue :: "'c \<Rightarrow> int \<Rightarrow> 64 word run"
  op_faultAddress :: "'c \<Rightarrow> 64 word"
  op_stackGrowDirection :: int
  op_normalise :: "64 word \<Rightarrow> 64 word"
  op_numExceptionRegisters :: int
  op_exceptionRegisterName :: "int \<Rightarrow> bytes option run"
  op_exceptionRegisterValue :: "'c \<Rightarrow> int \<Rightarrow> 64 word"

definition arm64_cpu :: "arm64_context cpu_ops" where
  "arm64_cpu =
     \<lparr>op_framePointer = sentrycrashcpu_framePointer_arm64, op_stackPointer = sentrycrashcpu_stackPointer_arm64,
      op_instructionAddress = sentrycrashcpu_instructionAddress_arm64, op_linkRegister = sentrycrashcpu_linkRegister_arm64,
      op_numRegisters = sentrycrashcpu_numRegisters_arm64, op_registerName = sentrycrashcpu_registerName_arm64,
      op_registerValue = sentrycrashcpu_registerValue_arm64, op_faultAddress = sentrycrashcpu_faultAddress_arm64,
      op_stackGrowDirection = sentrycrashcpu_stackGrowDirection_arm64,
      op_normalise = sentrycrashcpu_normaliseInstructionPointer_arm64,
      op_numExceptionRegisters = sentrycrashcpu_numExceptionRegisters_arm64,
      op_exceptionRegisterName = sentrycrashcpu_exceptionRegisterName_arm64,
      op_exceptionRegisterValue = sentrycrashcpu_exceptionRegisterValue_arm64\<rparr>"

definition arm_cpu :: "arm_context cpu_ops" where
  "arm_cpu =
     \<lparr>op_framePointer = sentrycrashcpu_framePointer_arm, op_stackPointer = sentrycrashcpu_stackPointer_arm,
      op_instructionAddress = sentrycrashcpu_instructionAddress_arm, op_linkRegister = sentrycrashcpu_linkRegister_arm,
      op_numRegisters = sentrycrashcpu_numRegisters_arm, op_registerName = sentrycrashcpu_registerName_arm,
      op_registerValue = sentrycrashcpu_registerValue_arm, op_faultAddress = sentrycrashcpu_faultAddress_arm,
      op_stackGrowDirection = sentrycrashcpu_stackGrowDirection_arm,
      op_normalise = sentrycrashcpu_normaliseInstructionPointer_arm,
      op_numExceptionRegisters = sentrycrashcpu_numExceptionRegisters_arm,
      op_exceptionRegisterName = sentrycrashcpu_exceptionRegisterName_arm,
      op_exceptionRegisterValue = sentrycrashcpu_exceptionRegisterValue_arm\<rparr>"

definition x86_64_cpu :: "x86_64_context cpu_ops" where
  "x86_64_cpu =
     \<lparr>op_framePointer = sentrycrashcpu_framePointer_x86_64, op_stackPointer = sentrycrashcpu_stackPointer_x86_64,
      op_instructionAddress = sentrycrashcpu_instructionAddress_x86_64, op_linkRegister = sentrycrashcpu_linkRegister_x86_64,
      op_numRegisters = sentrycrashcpu_numRegisters_x86_64, op_registerName = sentrycrashcpu_registerName_x86_64,
      op_registerValue = sentrycrashcpu_registerValue_x86_64, op_faultAddress = sentrycrashcpu_faultAddress_x86_64,
      op_stackGrowDirection = sentrycrashcpu_stackGrowDirection_x86_64,
      op_normalise = sentrycrashcpu_normaliseInstructionPointer_x86_64,
      op_numExceptionRegisters = sentrycrashcpu_numExceptionRegisters_x86_64,
      op_exceptionRegisterName = sentrycrashcpu_exceptionRegisterName_x86_64,
      op_exceptionRegisterValue = sentrycrashcpu_exceptionRegisterValue_x86_64\<rparr>"

definition x86_32_cpu :: "x86_32_context cpu_ops" where
  "x86_32_cpu =
     \<lparr>op_framePointer = sentrycrashcpu_framePointer_x86_32, op_stackPointer = sentrycrashcpu_stackPointer_x86_32,
      op_instructionAddress = sentrycrashcpu_instructionAddress_x86_32, op_linkRegister = sentrycrashcpu_linkRegister_x86_32,
      op_numRegisters = sentrycrashcpu_numRegisters_x86_32, op_registerName = sentrycrashcpu_registerName_x86_32,
      op_registerValue = sentrycrashcpu_registerValue_x86_32, op_faultAddress = sentrycrashcpu_faultAddress_x86_32,
      op_stackGrowDirection = sentrycrashcpu_stackGrowDirection_x86_32,
      op_normalise = sentrycrashcpu_normaliseInstructionPointer_x86_32,
      op_numExceptionRegisters = sentrycrashcpu_numExceptionRegisters_x86_32,
      op_exceptionRegisterName = sentrycrashcpu_exceptionRegisterName_x86_32,
      op_exceptionRegisterValue = sentrycrashcpu_exceptionRegisterValue_x86_32\<rparr>"

end
