(* ===== verification/Stack_Cursor.thy ===== *)
theory Stack_Cursor
  imports Crash_Cpu Crash_Memory
begin

text \<open>
  \<open>Recording/Tools/SentryCrashStackCursor.c\<close> with its two kinds of cursor: over a list of addresses
  (\<open>_Backtrace\<close>) and over the frames of a stopped thread (\<open>_MachineContext\<close>). The function pointers of
  a cursor are constructors, its memory for the kind's own data is a sum.
\<close>

section \<open>Cursors\<close>

record stack_entry =
  address :: "64 word"
  imageName :: "bytes option"
  imageAddress :: "64 word"
  symbolName :: "bytes option"
  symbolAddress :: "64 word"

record backtrace_context =
  skippedEntries :: int
  backtraceLength :: int
  backtrace :: "64 word list"

record frame_entry =
  previous :: "64 word"
  return_address :: "64 word"

record 'c machine_context_cursor =
  machineContext :: 'c
  maxStackDepth :: int
  currentFrame :: frame_entry
  instructionAddress :: "64 word"
  linkRegister :: "64 word"
  isPastFramePointer :: bool

datatype reset_fn = DefaultReset | MachineContextReset
datatype advance_fn = NoAdvance | BacktraceAdvance | MachineContextAdvance

datatype 'c cursor_context =
    NoContext
  | BacktraceContext backtrace_context
  | MachineContext "'c machine_context_cursor"

record 'c stack_cursor =
  stackEntry :: stack_entry
  currentDepth :: int
  hasGivenUp :: bool
  resetCursor_fn :: reset_fn
  advanceCursor_fn :: advance_fn
  cursor_context :: "'c cursor_context"

definition no_entry :: stack_entry where
  "no_entry = \<lparr>address = 0, imageName = None, imageAddress = 0, symbolName = None, symbolAddress = 0\<rparr>"

definition no_frame :: frame_entry where
  "no_frame = \<lparr>previous = 0, return_address = 0\<rparr>"

definition sentrycrashsc_resetCursor :: "'c stack_cursor \<Rightarrow> 'c stack_cursor" where
  "sentrycrashsc_resetCursor cursor =
     cursor\<lparr>currentDepth := 0, hasGivenUp := False, stackEntry := no_entry\<rparr>"

text \<open>
  \<open>resetCursor\<close> of a cursor over frames. Before the cursor has its data, it writes to memory that is
  overwritten when they are set.
\<close>

definition reset_machine_context :: "'c machine_context_cursor \<Rightarrow> 'c machine_context_cursor" where
  "reset_machine_context context =
     context\<lparr>currentFrame := no_frame, instructionAddress := 0, linkRegister := 0,
             isPastFramePointer := False\<rparr>"

definition machine_resetCursor :: "'c stack_cursor \<Rightarrow> 'c stack_cursor" where
  "machine_resetCursor cursor =
     (let cursor = sentrycrashsc_resetCursor cursor
      in case cursor_context cursor of
           MachineContext context \<Rightarrow>
             cursor\<lparr>cursor_context := MachineContext (reset_machine_context context)\<rparr>
         | _ \<Rightarrow> cursor)"

definition run_reset :: "'c stack_cursor \<Rightarrow> 'c stack_cursor" where
  "run_reset cursor =
     (case resetCursor_fn cursor of
        DefaultReset \<Rightarrow> sentrycrashsc_resetCursor cursor
      | MachineContextReset \<Rightarrow> machine_resetCursor cursor)"

definition sentrycrashsc_initCursor ::
    "reset_fn option \<Rightarrow> advance_fn option \<Rightarrow> 'c stack_cursor \<Rightarrow> 'c stack_cursor" where
  "sentrycrashsc_initCursor reset advance cursor =
     run_reset (cursor\<lparr>
       advanceCursor_fn := (case advance of None \<Rightarrow> NoAdvance | Some f \<Rightarrow> f),
       resetCursor_fn := (case reset of None \<Rightarrow> DefaultReset | Some f \<Rightarrow> f)\<rparr>)"

section \<open>A list of addresses\<close>

definition backtrace_advance ::
    "'c cpu_ops \<Rightarrow> backtrace_context \<Rightarrow> 'c stack_cursor \<Rightarrow> (bool \<times> 'c stack_cursor) run" where
  "backtrace_advance cpu context cursor =
     (let endDepth = backtraceLength context - skippedEntries context
      in if currentDepth cursor < endDepth then
           let currentIndex = currentDepth cursor + skippedEntries context
           in if currentIndex < 0 then Inl UndefinedBehaviour
              else bind_run (read_at (backtrace context) (nat currentIndex)) (\<lambda>nextAddress.
                if nextAddress > 1 then
                  Inr (True, cursor\<lparr>
                    stackEntry := (stackEntry cursor)\<lparr>address := op_normalise cpu nextAddress\<rparr>,
                    currentDepth := currentDepth cursor + 1\<rparr>)
                else Inr (False, cursor))
         else Inr (False, cursor))"

definition sentrycrashsc_initWithBacktrace ::
    "64 word list \<Rightarrow> int \<Rightarrow> int \<Rightarrow> 'c stack_cursor \<Rightarrow> 'c stack_cursor" where
  "sentrycrashsc_initWithBacktrace addresses len skipEntries cursor =
     (sentrycrashsc_initCursor (Some DefaultReset) (Some BacktraceAdvance) cursor)
       \<lparr>cursor_context := BacktraceContext
          \<lparr>skippedEntries = skipEntries, backtraceLength = len, backtrace = addresses\<rparr>\<rparr>"

section \<open>The frames of a thread\<close>

text \<open>A frame in memory: two pointers, the least byte first.\<close>

definition read_frame :: "vm \<Rightarrow> 64 word \<Rightarrow> frame_entry option" where
  "read_frame vm a =
     (let (copied, data) = sentrycrashmem_copySafely vm a 16
      in if copied then Some \<lparr>previous = le_word (take 8 data), return_address = le_word (take 8 (drop 8 data))\<rparr>
         else None)"

definition successfulExit ::
    "'c cpu_ops \<Rightarrow> 64 word \<Rightarrow> 'c machine_context_cursor \<Rightarrow> 'c stack_cursor \<Rightarrow> bool \<times> 'c stack_cursor" where
  "successfulExit cpu nextAddress context cursor =
     (True, cursor\<lparr>stackEntry := (stackEntry cursor)\<lparr>address := op_normalise cpu nextAddress\<rparr>,
                   currentDepth := currentDepth cursor + 1,
                   cursor_context := MachineContext context\<rparr>)"

text \<open>The walk from one frame to the one before it.\<close>

definition advance_frame ::
    "'c cpu_ops \<Rightarrow> vm \<Rightarrow> 'c machine_context_cursor \<Rightarrow> 'c stack_cursor \<Rightarrow> bool \<times> 'c stack_cursor" where
  "advance_frame cpu vm context cursor =
     (let stop = (\<lambda>context. (False, cursor\<lparr>cursor_context := MachineContext context\<rparr>))
      in if previous (currentFrame context) = 0 \<and> isPastFramePointer context then stop context
         else
           let context =
                 (if previous (currentFrame context) = 0 then
                    context\<lparr>currentFrame := (currentFrame context)
                              \<lparr>previous := op_framePointer cpu (machineContext context)\<rparr>,
                            isPastFramePointer := True\<rparr>
                  else context)
           in case read_frame vm (previous (currentFrame context)) of
                None \<Rightarrow> stop context
              | Some frame \<Rightarrow>
                  let context = context\<lparr>currentFrame := frame\<rparr>
                  in if previous frame = 0 \<or> return_address frame = 0 then stop context
                     else successfulExit cpu (return_address frame) context cursor)"

definition machine_advance ::
    "'c cpu_ops \<Rightarrow> vm \<Rightarrow> 'c machine_context_cursor \<Rightarrow> 'c stack_cursor \<Rightarrow> bool \<times> 'c stack_cursor" where
  "machine_advance cpu vm context cursor =
     (if currentDepth cursor \<ge> maxStackDepth context then (False, cursor\<lparr>hasGivenUp := True\<rparr>)
      else if instructionAddress context = 0 then
        let context = context\<lparr>instructionAddress := op_instructionAddress cpu (machineContext context)\<rparr>
        in if instructionAddress context = 0
           then (False, cursor\<lparr>cursor_context := MachineContext context\<rparr>)
           else successfulExit cpu (instructionAddress context) context cursor
      else if linkRegister context = 0 \<and> \<not> isPastFramePointer context then
        let context = context\<lparr>linkRegister := op_linkRegister cpu (machineContext context)\<rparr>
        in if linkRegister context \<noteq> 0 then successfulExit cpu (linkRegister context) context cursor
           else advance_frame cpu vm context cursor
      else advance_frame cpu vm context cursor)"

definition sentrycrashsc_initWithMachineContext ::
    "int \<Rightarrow> 'c \<Rightarrow> 'c stack_cursor \<Rightarrow> 'c stack_cursor" where
  "sentrycrashsc_initWithMachineContext maxDepth context cursor =
     (let cursor = sentrycrashsc_initCursor (Some MachineContextReset) (Some MachineContextAdvance) cursor
      in cursor\<lparr>cursor_context := MachineContext
           \<lparr>machineContext = context, maxStackDepth = maxDepth, currentFrame = no_frame,
            instructionAddress = address (stackEntry cursor), linkRegister = 0,
            isPastFramePointer = False\<rparr>\<rparr>)"

section \<open>Advancing any cursor\<close>

text \<open>A cursor whose function does not fit its data would read the data of another kind.\<close>

definition run_advance :: "'c cpu_ops \<Rightarrow> vm \<Rightarrow> 'c stack_cursor \<Rightarrow> (bool \<times> 'c stack_cursor) run" where
  "run_advance cpu vm cursor =
     (case (advanceCursor_fn cursor, cursor_context cursor) of
        (NoAdvance, _) \<Rightarrow> Inr (False, cursor)
      | (BacktraceAdvance, BacktraceContext context) \<Rightarrow> backtrace_advance cpu context cursor
      | (MachineContextAdvance, MachineContext context) \<Rightarrow> Inr (machine_advance cpu vm context cursor)
      | _ \<Rightarrow> Inl UndefinedBehaviour)"

text \<open>The addresses of at most \<open>n\<close> entries.\<close>

fun walk :: "'c cpu_ops \<Rightarrow> vm \<Rightarrow> nat \<Rightarrow> 'c stack_cursor \<Rightarrow> 64 word list run" where
  "walk cpu vm 0 cursor = Inr []"
| "walk cpu vm (Suc n) cursor =
     bind_run (run_advance cpu vm cursor) (\<lambda>(found, cursor).
       if found then
         bind_run (walk cpu vm n cursor) (\<lambda>rest. Inr (address (stackEntry cursor) # rest))
       else Inr [])"

end
