(* ===== verification/Symbolicator.thy ===== *)
theory Symbolicator
  imports Dynamic_Linker_Spec Stack_Cursor
begin

unbundle bit_operations_syntax

text \<open>
  \<open>Recording/Tools/SentryCrashSymbolicator.c\<close>: the image and the symbol of a stack entry. A pointer to
  a symbol's name stands for the text it leads to; the system's \<open>dladdr\<close> is a parameter.
\<close>

datatype instruction_set = Arm | Arm64 | OtherInstructions

definition DETAG_INSTRUCTION_ADDRESS :: "instruction_set \<Rightarrow> addr \<Rightarrow> addr" where
  "DETAG_INSTRUCTION_ADDRESS isa a =
     (case isa of Arm \<Rightarrow> a AND NOT 1 | Arm64 \<Rightarrow> a AND NOT 3 | OtherInstructions \<Rightarrow> a)"

definition CALL_INSTRUCTION_FROM_RETURN_ADDRESS :: "instruction_set \<Rightarrow> addr \<Rightarrow> addr" where
  "CALL_INSTRUCTION_FROM_RETURN_ADDRESS isa a = DETAG_INSTRUCTION_ADDRESS isa a - 1"

definition SentryCrashSC_ASYNC_MARKER :: addr where
  "SentryCrashSC_ASYNC_MARKER = - 1 - 1234"

record symbol_env =
  sym_isa :: instruction_set
  sym_memory :: macho_memory
  sym_images :: "dyld_image list"
  string_at :: "addr \<Rightarrow> bytes"
  system_dladdr :: "addr \<Rightarrow> dl_info option"

definition symbolicate_internal ::
    "symbol_env \<Rightarrow> bool \<Rightarrow> 'c stack_cursor \<Rightarrow> (bool \<times> 'c stack_cursor) run" where
  "symbolicate_internal env asyncUnsafe cursor =
     (let entry = stackEntry cursor
      in if address entry = SentryCrashSC_ASYNC_MARKER then
           Inr (True, cursor\<lparr>stackEntry := entry\<lparr>imageAddress := 0, imageName := None, symbolAddress := 0,
             symbolName := Some ''__sentrycrash__async_marker__''\<rparr>\<rparr>)
         else
           bind_run
             (if asyncUnsafe then
                Inr (case system_dladdr env (address entry) of
                       None \<Rightarrow> (False, no_info) | Some info \<Rightarrow> (True, info))
              else sentrycrashdl_dladdr (sym_memory env) (sym_images env)
                     (CALL_INSTRUCTION_FROM_RETURN_ADDRESS (sym_isa env) (address entry)))
             (\<lambda>(symbols_succeed, info).
               if symbols_succeed then
                 Inr (True, cursor\<lparr>stackEntry := entry\<lparr>imageAddress := dli_fbase info, imageName := dli_fname info,
                   symbolAddress := dli_saddr info,
                   symbolName := (if dli_sname info = 0 then None else Some (string_at env (dli_sname info)))\<rparr>\<rparr>)
               else
                 Inr (False, cursor\<lparr>stackEntry := entry\<lparr>imageAddress := 0, imageName := None, symbolAddress := 0,
                   symbolName := None\<rparr>\<rparr>)))"

definition sentrycrashsymbolicator_symbolicate ::
    "symbol_env \<Rightarrow> 'c stack_cursor \<Rightarrow> (bool \<times> 'c stack_cursor) run" where
  "sentrycrashsymbolicator_symbolicate env cursor = symbolicate_internal env False cursor"

definition sentrycrashsymbolicator_symbolicate_async_unsafe ::
    "symbol_env \<Rightarrow> 'c stack_cursor \<Rightarrow> (bool \<times> 'c stack_cursor) run" where
  "sentrycrashsymbolicator_symbolicate_async_unsafe env cursor = symbolicate_internal env True cursor"

text \<open>Symbolicating changes neither the address of an entry nor the place of the cursor.\<close>

lemma symbolicate_keeps_place:
  "symbolicate_internal env asyncUnsafe cursor = Inr (r, cursor') \<Longrightarrow>
     address (stackEntry cursor') = address (stackEntry cursor) \<and> currentDepth cursor' = currentDepth cursor \<and>
     hasGivenUp cursor' = hasGivenUp cursor \<and> cursor_context cursor' = cursor_context cursor"
  by (auto simp: symbolicate_internal_def Let_def bind_run_eq_Inr split: if_splits prod.splits)

end
