(* ===== verification/Error_Names.thy ===== *)
theory Error_Names
  imports Symbolicator
begin

text \<open>
  \<open>Recording/Tools/SentryCrashSignalInfo.c\<close> and \<open>SentryCrashMach.c\<close>: the names by which a report calls
  signals, Mach exceptions and return codes. The numbers are those of Darwin's headers.
\<close>

section \<open>Signals\<close>

type_synonym signal_code_info = "int \<times> bytes"

record signal_info =
  sigNum :: int
  sig_name :: bytes
  sig_codes :: "signal_code_info list"

definition SIGILL :: int where "SIGILL = 4"
definition SIGTRAP :: int where "SIGTRAP = 5"
definition SIGABRT :: int where "SIGABRT = 6"
definition SIGFPE :: int where "SIGFPE = 8"
definition SIGBUS :: int where "SIGBUS = 10"
definition SIGSEGV :: int where "SIGSEGV = 11"
definition SIGSYS :: int where "SIGSYS = 12"
definition SIGPIPE :: int where "SIGPIPE = 13"
definition SIGTERM :: int where "SIGTERM = 15"

lemmas signal_numbers = SIGILL_def SIGTRAP_def SIGABRT_def SIGFPE_def SIGBUS_def SIGSEGV_def SIGSYS_def
  SIGPIPE_def SIGTERM_def

definition g_sigIllCodes :: "signal_code_info list" where
  "g_sigIllCodes =
     [(0, ''ILL_NOOP''), (1, ''ILL_ILLOPC''), (2, ''ILL_ILLTRP''), (3, ''ILL_PRVOPC''),
      (4, ''ILL_ILLOPN''), (5, ''ILL_ILLADR''), (6, ''ILL_PRVREG''), (7, ''ILL_COPROC''),
      (8, ''ILL_BADSTK'')]"

definition g_sigTrapCodes :: "signal_code_info list" where
  "g_sigTrapCodes =
     [(0, ''0''), (1, ''TRAP_BRKPT''), (2, ''TRAP_TRACE'')]"

definition g_sigFPECodes :: "signal_code_info list" where
  "g_sigFPECodes =
     [(0, ''FPE_NOOP''), (1, ''FPE_FLTDIV''), (2, ''FPE_FLTOVF''), (3, ''FPE_FLTUND''),
      (4, ''FPE_FLTRES''), (5, ''FPE_FLTINV''), (6, ''FPE_FLTSUB''), (7, ''FPE_INTDIV''),
      (8, ''FPE_INTOVF'')]"

definition g_sigBusCodes :: "signal_code_info list" where
  "g_sigBusCodes =
     [(0, ''BUS_NOOP''), (1, ''BUS_ADRALN''), (2, ''BUS_ADRERR''), (3, ''BUS_OBJERR'')]"

definition g_sigSegVCodes :: "signal_code_info list" where
  "g_sigSegVCodes =
     [(0, ''SEGV_NOOP''), (1, ''SEGV_MAPERR''), (2, ''SEGV_ACCERR'')]"

definition g_fatalSignalData :: "signal_info list" where
  "g_fatalSignalData =
     [\<lparr>sigNum = SIGABRT, sig_name = ''SIGABRT'', sig_codes = []\<rparr>,
      \<lparr>sigNum = SIGBUS, sig_name = ''SIGBUS'', sig_codes = g_sigBusCodes\<rparr>,
      \<lparr>sigNum = SIGFPE, sig_name = ''SIGFPE'', sig_codes = g_sigFPECodes\<rparr>,
      \<lparr>sigNum = SIGILL, sig_name = ''SIGILL'', sig_codes = g_sigIllCodes\<rparr>,
      \<lparr>sigNum = SIGPIPE, sig_name = ''SIGPIPE'', sig_codes = []\<rparr>,
      \<lparr>sigNum = SIGSEGV, sig_name = ''SIGSEGV'', sig_codes = g_sigSegVCodes\<rparr>,
      \<lparr>sigNum = SIGSYS, sig_name = ''SIGSYS'', sig_codes = []\<rparr>,
      \<lparr>sigNum = SIGTRAP, sig_name = ''SIGTRAP'', sig_codes = g_sigTrapCodes\<rparr>,
      \<lparr>sigNum = SIGTERM, sig_name = ''SIGTERM'', sig_codes = []\<rparr>]"

definition g_fatalSignals :: "int list" where
  "g_fatalSignals = [SIGABRT, SIGBUS, SIGFPE, SIGILL, SIGPIPE, SIGSEGV, SIGSYS, SIGTRAP, SIGTERM]"

text \<open>The loops over the tables take the first entry that fits.\<close>

fun find_signal :: "int \<Rightarrow> signal_info list \<Rightarrow> signal_info option" where
  "find_signal n [] = None"
| "find_signal n (i # rest) = (if sigNum i = n then Some i else find_signal n rest)"

definition sentrycrashsignal_signalName :: "int \<Rightarrow> bytes option" where
  "sentrycrashsignal_signalName n = map_option sig_name (find_signal n g_fatalSignalData)"

fun find_signal_code :: "int \<Rightarrow> int \<Rightarrow> signal_info list \<Rightarrow> bytes option" where
  "find_signal_code n code [] = None"
| "find_signal_code n code (i # rest) =
     (if sigNum i = n then
        (case map_of (sig_codes i) code of Some name \<Rightarrow> Some name | None \<Rightarrow> find_signal_code n code rest)
      else find_signal_code n code rest)"

definition sentrycrashsignal_signalCodeName :: "int \<Rightarrow> int \<Rightarrow> bytes option" where
  "sentrycrashsignal_signalCodeName n code = find_signal_code n code g_fatalSignalData"

definition sentrycrashsignal_fatalSignals :: "int list" where
  "sentrycrashsignal_fatalSignals = g_fatalSignals"

definition sentrycrashsignal_numFatalSignals :: nat where
  "sentrycrashsignal_numFatalSignals = length g_fatalSignalData"

section \<open>Mach\<close>

definition exception_names :: "(int \<times> bytes) list" where
  "exception_names =
     [(1, ''EXC_BAD_ACCESS''), (2, ''EXC_BAD_INSTRUCTION''), (3, ''EXC_ARITHMETIC''),
      (4, ''EXC_EMULATION''), (5, ''EXC_SOFTWARE''), (6, ''EXC_BREAKPOINT''), (7, ''EXC_SYSCALL''),
      (8, ''EXC_MACH_SYSCALL''), (9, ''EXC_RPC_ALERT''), (10, ''EXC_CRASH'')]"

definition return_code_names :: "(int \<times> bytes) list" where
  "return_code_names =
     [(0, ''KERN_SUCCESS''), (1, ''KERN_INVALID_ADDRESS''), (2, ''KERN_PROTECTION_FAILURE''),
      (3, ''KERN_NO_SPACE''), (4, ''KERN_INVALID_ARGUMENT''), (5, ''KERN_FAILURE''),
      (6, ''KERN_RESOURCE_SHORTAGE''), (7, ''KERN_NOT_RECEIVER''), (8, ''KERN_NO_ACCESS''),
      (9, ''KERN_MEMORY_FAILURE''), (10, ''KERN_MEMORY_ERROR''), (11, ''KERN_ALREADY_IN_SET''),
      (12, ''KERN_NOT_IN_SET''), (13, ''KERN_NAME_EXISTS''), (14, ''KERN_ABORTED''),
      (15, ''KERN_INVALID_NAME''), (16, ''KERN_INVALID_TASK''), (17, ''KERN_INVALID_RIGHT''),
      (18, ''KERN_INVALID_VALUE''), (19, ''KERN_UREFS_OVERFLOW''), (20, ''KERN_INVALID_CAPABILITY''),
      (21, ''KERN_RIGHT_EXISTS''), (22, ''KERN_INVALID_HOST''), (23, ''KERN_MEMORY_PRESENT''),
      (24, ''KERN_MEMORY_DATA_MOVED''), (25, ''KERN_MEMORY_RESTART_COPY''),
      (26, ''KERN_INVALID_PROCESSOR_SET''), (27, ''KERN_POLICY_LIMIT''), (28, ''KERN_INVALID_POLICY''),
      (29, ''KERN_INVALID_OBJECT''), (30, ''KERN_ALREADY_WAITING''), (31, ''KERN_DEFAULT_SET''),
      (32, ''KERN_EXCEPTION_PROTECTED''), (33, ''KERN_INVALID_LEDGER''),
      (34, ''KERN_INVALID_MEMORY_CONTROL''), (35, ''KERN_INVALID_SECURITY''), (36, ''KERN_NOT_DEPRESSED''),
      (37, ''KERN_TERMINATED''), (38, ''KERN_LOCK_SET_DESTROYED''), (39, ''KERN_LOCK_UNSTABLE''),
      (40, ''KERN_LOCK_OWNED''), (41, ''KERN_LOCK_OWNED_SELF''), (42, ''KERN_SEMAPHORE_DESTROYED''),
      (43, ''KERN_RPC_SERVER_TERMINATED''), (44, ''KERN_RPC_TERMINATE_ORPHAN''),
      (45, ''KERN_RPC_CONTINUE_ORPHAN''), (46, ''KERN_NOT_SUPPORTED''), (47, ''KERN_NODE_DOWN''),
      (48, ''KERN_NOT_WAITING''), (49, ''KERN_OPERATION_TIMED_OUT''), (50, ''KERN_CODESIGN_ERROR'')]"

definition arm_code_names :: "(int \<times> bytes) list" where
  "arm_code_names =
     [(257, ''EXC_ARM_DA_ALIGN''), (258, ''EXC_ARM_DA_DEBUG''), (259, ''EXC_ARM_SP_ALIGN''),
      (260, ''EXC_ARM_SWP''), (261, ''EXC_ARM_PAC_FAIL'')]"

definition sentrycrashmach_exceptionName :: "int \<Rightarrow> bytes option" where
  "sentrycrashmach_exceptionName exceptionType = map_of exception_names exceptionType"

definition sentrycrashmach_kernelReturnCodeName :: "instruction_set \<Rightarrow> int \<Rightarrow> bytes option" where
  "sentrycrashmach_kernelReturnCodeName isa returnCode =
     map_of (return_code_names @ (if isa = OtherInstructions then [] else arm_code_names)) returnCode"

section \<open>The tables\<close>

lemma fatal_signals_table: "map sigNum g_fatalSignalData = g_fatalSignals"
  by (simp add: g_fatalSignalData_def g_fatalSignals_def)

lemma fatal_signals_distinct: "distinct g_fatalSignals"
  by (simp add: g_fatalSignals_def signal_numbers)

lemma numFatalSignals: "sentrycrashsignal_numFatalSignals = length sentrycrashsignal_fatalSignals"
  by (simp add: sentrycrashsignal_numFatalSignals_def sentrycrashsignal_fatalSignals_def g_fatalSignalData_def
    g_fatalSignals_def)

lemma find_signal_some: "find_signal n is = Some i \<Longrightarrow> i \<in> set is \<and> sigNum i = n"
  by (induction "is") (auto split: if_splits)

lemma find_signal_none: "find_signal n is = None \<longleftrightarrow> n \<notin> set (map sigNum is)"
  by (induction "is") auto

lemma signal_named_iff: "(\<exists>name. sentrycrashsignal_signalName n = Some name) \<longleftrightarrow> n \<in> set sentrycrashsignal_fatalSignals"
  using find_signal_none [of n g_fatalSignalData]
  by (auto simp: sentrycrashsignal_signalName_def sentrycrashsignal_fatalSignals_def simp flip: fatal_signals_table)

end
