(* ===== verification/Report_Store.thy ===== *)
theory Report_Store
  imports Json_Decode File_Spec Crash_String_Spec
begin

unbundle bit_operations_syntax

text \<open>
  \<open>Recording/SentryCrashReportStore.c\<close>: the directory of crash reports, the numbers that name them,
  and which of them are kept. What \<open>snprintf\<close> and \<open>sscanf\<close> do with the formats of the file is
  written out; the calls of the operating system are parameters.
\<close>

section \<open>The state\<close>

definition SentryCrashCRS_MAX_PATH_LENGTH :: nat where "SentryCrashCRS_MAX_PATH_LENGTH = 500"

record report_store =
  g_maxReportCount :: int
  g_nextUniqueIDLow :: "32 word"
  g_nextUniqueIDHigh :: "64 word"
  g_appName :: bytes
  g_reportsPath :: bytes

definition initial_store :: report_store where
  "initial_store =
     \<lparr>g_maxReportCount = 5, g_nextUniqueIDLow = 0, g_nextUniqueIDHigh = 0, g_appName = [], g_reportsPath = []\<rparr>"

record tm =
  tm_sec :: int
  tm_min :: int
  tm_hour :: int
  tm_yday :: int
  tm_year :: int

text \<open>
  Beside the calls that \<open>SentryCrashFileUtils.c\<close> makes: opening with \<open>O_WRONLY | O_CREAT\<close>, the names of
  a directory with whether each is a directory itself, and the time.
\<close>

record 'f store_env =
  s_os :: "'f os"
  s_alloc :: "nat \<Rightarrow> bool"
  open_create :: "bytes \<Rightarrow> 'f \<Rightarrow> int \<times> 'f"
  readdir_all :: "bytes \<Rightarrow> 'f \<Rightarrow> (bytes \<times> bool) list option \<times> 'f"
  gmtime_now :: "'f \<Rightarrow> tm \<times> 'f"

section \<open>Numbers\<close>

definition getNextUniqueID :: "report_store \<Rightarrow> 64 word \<times> report_store" where
  "getNextUniqueID s =
     (g_nextUniqueIDHigh s + ucast (g_nextUniqueIDLow s),
      s\<lparr>g_nextUniqueIDLow := g_nextUniqueIDLow s + 1\<rparr>)"

definition baseID_of :: "tm \<Rightarrow> int" where
  "baseID_of t = tm_sec t + tm_min t * 61 + tm_hour t * 61 * 60 + tm_yday t * 61 * 60 * 24 +
     tm_year t * 61 * 60 * 24 * 366"

text \<open>
  A shift that loses bits of a signed number is undefined. The constant \<open>0xffffffff\<close> has the type
  \<open>unsigned int\<close>, so its complement is taken in 32 bits.
\<close>

definition initializeIDs :: "tm \<Rightarrow> report_store \<Rightarrow> report_store run" where
  "initializeIDs t s =
     (if baseID_of t < 0 \<or> 2 ^ 63 \<le> baseID_of t * 2 ^ 23 then Inl UndefinedBehaviour
      else
        let baseID = push_bit 23 (word_of_int (baseID_of t)) :: 64 word;
            s = s\<lparr>g_nextUniqueIDHigh := baseID AND ucast (NOT (0xffffffff :: 32 word))\<rparr>;
            lowerBaseID = ucast (baseID AND 0xffffffff) :: 32 word
        in Inr (s\<lparr>g_nextUniqueIDLow := lowerBaseID\<rparr>))"

section \<open>Names\<close>

text \<open>\<open>%016llx\<close>\<close>

definition format_016llx :: "64 word \<Rightarrow> bytes" where
  "format_016llx n = (let s = show_hex (unat n) in replicate (16 - length s) (CHR ''0'') @ s)"

definition getCrashReportPathByID :: "report_store \<Rightarrow> 64 word \<Rightarrow> bytes" where
  "getCrashReportPathByID s i =
     take (SentryCrashCRS_MAX_PATH_LENGTH - 1)
       (g_reportsPath s @ ''/'' @ g_appName s @ ''-report-'' @ format_016llx i @ ''.json'')"

text \<open>
  \<open>%llx\<close> reads what \<open>strtoull\<close> reads to the base 16: a sign, \<open>0x\<close>, digits; too large a number becomes
  the largest.
\<close>

definition scan_sign :: "bytes \<Rightarrow> bool \<times> bytes" where
  "scan_sign s =
     (case s of [] \<Rightarrow> (False, [])
      | b # r \<Rightarrow> if b = CHR ''-'' then (True, r) else if b = CHR ''+'' then (False, r) else (False, s))"

definition skip_0x :: "bytes \<Rightarrow> bytes" where
  "skip_0x s =
     (if 2 < length s \<and> s ! 0 = CHR ''0'' \<and> (s ! 1 = CHR ''x'' \<or> s ! 1 = CHR ''X'') \<and> is_hex (s ! 2)
      then drop 2 s else s)"

definition scan_llx :: "bytes \<Rightarrow> (64 word \<times> bytes) option" where
  "scan_llx input =
     (let (negative, s) = scan_sign input; s = skip_0x s;
          digits = takeWhile is_hex s; value = hex_value digits
      in if digits = [] then None
         else Some (if 2 ^ 64 \<le> int value then - 1 else if negative then - of_nat value else of_nat value,
                    dropWhile is_hex s))"

text \<open>
  \<open>sscanf\<close> with one argument. A directive other than \<open>%llx\<close> that the name of the application brings
  into the format has no argument to store to.
\<close>

function scan_id :: "bytes \<Rightarrow> bytes \<Rightarrow> 64 word option \<Rightarrow> 64 word run" where
  "scan_id fmt input got =
     (let result = Inr (case got of None \<Rightarrow> 0 | Some v \<Rightarrow> v)
      in if fmt = [] then result
         else if hd fmt = CHR ''%'' then
           (if take 1 (tl fmt) = ''%'' then
              (case dropWhile isspace input of
                 [] \<Rightarrow> result
               | b # rest \<Rightarrow> if b = CHR ''%'' then scan_id (drop 2 fmt) rest got else result)
            else if take 3 (tl fmt) = ''llx'' \<and> got = None then
              (case scan_llx (dropWhile isspace input) of
                 None \<Rightarrow> result
               | Some (v, rest) \<Rightarrow> scan_id (drop 4 fmt) rest (Some v))
            else Inl UndefinedBehaviour)
         else if isspace (hd fmt) then scan_id (tl fmt) (dropWhile isspace input) got
         else
           (case input of
              [] \<Rightarrow> result
            | b # rest \<Rightarrow> if b = hd fmt then scan_id (tl fmt) rest got else result))"
  by pat_completeness auto

termination
  by (relation "measure (\<lambda>(fmt, _, _). length fmt)") auto

declare scan_id.simps [simp del]

definition getReportIDFromFilename :: "report_store \<Rightarrow> bytes \<Rightarrow> 64 word run" where
  "getReportIDFromFilename s filename =
     scan_id (take (SentryCrashCRS_MAX_PATH_LENGTH - 1) (g_appName s @ ''-report-%llx.json'')) filename None"

definition getReportIDFromFilePath :: "report_store \<Rightarrow> bytes \<Rightarrow> 64 word run" where
  "getReportIDFromFilePath s filepath =
     scan_id (take (SentryCrashCRS_MAX_PATH_LENGTH - 1)
       (g_reportsPath s @ ''/'' @ g_appName s @ ''-report-%llx.json'')) filepath None"

definition sentrycrashcrs_getAttachmentsPath_forReportId :: "report_store \<Rightarrow> 64 word \<Rightarrow> bytes" where
  "sentrycrashcrs_getAttachmentsPath_forReportId s i =
     take (SentryCrashCRS_MAX_PATH_LENGTH - 1)
       (g_reportsPath s @ ''/'' @ g_appName s @ ''-report-'' @ format_016llx i @ ''-attachments'')"

definition sentrycrashcrs_getAttachmentsPath_forReport :: "report_store \<Rightarrow> bytes \<Rightarrow> bytes run" where
  "sentrycrashcrs_getAttachmentsPath_forReport s reportPath =
     bind_run (getReportIDFromFilePath s reportPath) (\<lambda>i.
       Inr (sentrycrashcrs_getAttachmentsPath_forReportId s i))"

section \<open>The reports of the directory\<close>

fun count_reports :: "report_store \<Rightarrow> (bytes \<times> bool) list \<Rightarrow> int run" where
  "count_reports s [] = Inr 0"
| "count_reports s ((name, is_dir) # ents) =
     bind_run
       (if is_dir then Inr False
        else bind_run (getReportIDFromFilename s name) (\<lambda>i. Inr (0 < sint i)))
       (\<lambda>is_report. bind_run (count_reports s ents) (\<lambda>n. Inr (if is_report then 1 + n else n)))"

definition getReportCount :: "'f store_env \<Rightarrow> report_store \<Rightarrow> 'f \<Rightarrow> (int \<times> 'f) run" where
  "getReportCount env s w =
     (case readdir_all env (g_reportsPath s) w of
        (None, w) \<Rightarrow> Inr (0, w)
      | (Some ents, w) \<Rightarrow> bind_run (count_reports s ents) (\<lambda>n. Inr (n, w)))"

text \<open>The identifiers found, at most \<open>count\<close>: directories are looked at, too.\<close>

fun find_reports :: "report_store \<Rightarrow> (bytes \<times> bool) list \<Rightarrow> nat \<Rightarrow> 64 word list run" where
  "find_reports s [] room = Inr []"
| "find_reports s ((name, is_dir) # ents) room =
     (if room = 0 then Inr []
      else bind_run (getReportIDFromFilename s name) (\<lambda>i.
        if 0 < sint i then bind_run (find_reports s ents (room - 1)) (\<lambda>ids. Inr (i # ids))
        else find_reports s ents room))"

text \<open>
  The comparison subtracts; where the difference does not fit 64 bits, it is undefined. \<open>qsort\<close> may
  compare any two elements.
\<close>

definition compareInt64 :: "64 word \<Rightarrow> 64 word \<Rightarrow> int run" where
  "compareInt64 a b =
     (let diff = sint a - sint b
      in if diff < - (2 ^ 63) \<or> 2 ^ 63 \<le> diff then Inl UndefinedBehaviour
         else Inr (if diff < 0 then -1 else if 0 < diff then 1 else 0))"

definition sort_ids :: "64 word list \<Rightarrow> 64 word list run" where
  "sort_ids ids =
     (if list_all (\<lambda>a. list_all (\<lambda>b. compareInt64 a b \<noteq> Inl UndefinedBehaviour) ids) ids
      then Inr (sort_key sint ids) else Inl UndefinedBehaviour)"

text \<open>
  The array comes with its old contents, \<open>count\<close> numbers of it are sorted, whether they were written
  or not.
\<close>

definition getReportIDs ::
    "'f store_env \<Rightarrow> report_store \<Rightarrow> 64 word list \<Rightarrow> 'f \<Rightarrow> (int \<times> 64 word list \<times> 'f) run" where
  "getReportIDs env s reportIDs w =
     (case readdir_all env (g_reportsPath s) w of
        (None, w) \<Rightarrow> Inr (0, reportIDs, w)
      | (Some ents, w) \<Rightarrow>
          bind_run (find_reports s ents (length reportIDs)) (\<lambda>ids.
          bind_run (sort_ids (ids @ drop (length ids) reportIDs)) (\<lambda>reportIDs.
            Inr (int (length ids), reportIDs, w))))"

definition sentrycrashcrs_deleteReportWithID :: "'f store_env \<Rightarrow> report_store \<Rightarrow> 64 word \<Rightarrow> 'f \<Rightarrow> 'f" where
  "sentrycrashcrs_deleteReportWithID env s reportID w =
     snd (sentrycrashfu_removeFile (s_os env) (getCrashReportPathByID s reportID) True w)"

text \<open>What the variable-length array holds before it is filled is the argument \<open>garbage\<close>.\<close>

definition pruneReports ::
    "(nat \<Rightarrow> 64 word list) \<Rightarrow> 'f store_env \<Rightarrow> report_store \<Rightarrow> 'f \<Rightarrow> 'f run" where
  "pruneReports garbage env s w =
     bind_run (getReportCount env s w) (\<lambda>(reportCount, w).
       if reportCount \<le> g_maxReportCount s then Inr w
       else bind_run (getReportIDs env s (garbage (nat reportCount)) w) (\<lambda>(reportCount, reportIDs, w).
         let n = nat (reportCount - g_maxReportCount s)
         in if length reportIDs < n then Inl UndefinedBehaviour
            else Inr (fold (sentrycrashcrs_deleteReportWithID env s) (take n reportIDs) w)))"

section \<open>The interface\<close>

definition sentrycrashcrs_initialize ::
    "(nat \<Rightarrow> 64 word list) \<Rightarrow> 'f store_env \<Rightarrow> bytes \<Rightarrow> bytes \<Rightarrow> report_store \<Rightarrow> 'f \<Rightarrow> (report_store \<times> 'f) run" where
  "sentrycrashcrs_initialize garbage env appName reportsPath s w =
     (let s = s\<lparr>g_appName := c_string appName, g_reportsPath := c_string reportsPath\<rparr>
      in bind_run (sentrycrashfu_makePath (s_os env) (c_string reportsPath) w) (\<lambda>(_, w).
         bind_run (pruneReports garbage env s w) (\<lambda>w.
           let (t, w) = gmtime_now env w
           in bind_run (initializeIDs t s) (\<lambda>s. Inr (s, w)))))"

definition sentrycrashcrs_getNextCrashReportPath :: "report_store \<Rightarrow> bytes \<times> report_store" where
  "sentrycrashcrs_getNextCrashReportPath s =
     (let (i, s) = getNextUniqueID s in (getCrashReportPathByID s i, s))"

definition sentrycrashcrs_getReportCount :: "'f store_env \<Rightarrow> report_store \<Rightarrow> 'f \<Rightarrow> (int \<times> 'f) run" where
  "sentrycrashcrs_getReportCount env s w = getReportCount env s w"

definition sentrycrashcrs_getReportIDs ::
    "'f store_env \<Rightarrow> report_store \<Rightarrow> 64 word list \<Rightarrow> 'f \<Rightarrow> (int \<times> 64 word list \<times> 'f) run" where
  "sentrycrashcrs_getReportIDs env s reportIDs w = getReportIDs env s reportIDs w"

definition sentrycrashcrs_getCrashReportPathById :: "report_store \<Rightarrow> 64 word \<Rightarrow> bytes" where
  "sentrycrashcrs_getCrashReportPathById s reportId = getCrashReportPathByID s reportId"

definition sentrycrashcrs_readReport ::
    "nat \<Rightarrow> 'f store_env \<Rightarrow> report_store \<Rightarrow> 64 word \<Rightarrow> 'f \<Rightarrow> (bytes option \<times> 'f) run" where
  "sentrycrashcrs_readReport fuel env s reportID w =
     bind_run (sentrycrashfu_readEntireFile fuel (s_os env) (s_alloc env) (getCrashReportPathByID s reportID) 2000000 w)
       (\<lambda>(_, result, _, w). Inr (result, w))"

text \<open>One call of \<open>write\<close>; what it leaves over is only logged.\<close>

definition sentrycrashcrs_addUserReport ::
    "'f store_env \<Rightarrow> bytes \<Rightarrow> report_store \<Rightarrow> 'f \<Rightarrow> 64 word \<times> report_store \<times> 'f" where
  "sentrycrashcrs_addUserReport env report s w =
     (let (currentID, s) = getNextUniqueID s;
          (fd, w) = open_create env (getCrashReportPathByID s currentID) w
      in if fd < 0 then (currentID, s, w)
         else let (bytesWritten, w) = os_write (s_os env) fd report w
              in (currentID, s, os_close (s_os env) fd w))"

definition sentrycrashcrs_deleteAllReports ::
    "nat \<Rightarrow> 'f store_env \<Rightarrow> report_store \<Rightarrow> 'f \<Rightarrow> 'f run" where
  "sentrycrashcrs_deleteAllReports fuel env s w =
     bind_run (sentrycrashfu_deleteContentsOfPath fuel (s_os env) (s_alloc env) (g_reportsPath s) w)
       (\<lambda>(_, w). Inr w)"

definition sentrycrashcrs_setMaxReportCount :: "int \<Rightarrow> report_store \<Rightarrow> report_store" where
  "sentrycrashcrs_setMaxReportCount maxReportCount s = s\<lparr>g_maxReportCount := maxReportCount\<rparr>"

end
