(* ===== verification/Report_Store_Spec.thy ===== *)
theory Report_Store_Spec
  imports Report_Store "HOL-Library.Multiset"
begin

unbundle bit_operations_syntax

text \<open>
  What the report store promises: a report's path and its number determine each other, pruning drops
  the reports with the lowest numbers (unless a directory is named like a report), and how far the
  numbers of different launches differ.
\<close>

section \<open>Names and numbers\<close>

lemma scan_rest:
  "CHR ''%'' \<notin> set fmt \<Longrightarrow> scan_id fmt input (Some v) = Inr v"
proof (induction fmt arbitrary: input)
  case (Cons c fmt)
  then show ?case by (auto simp: scan_id.simps [of "c # fmt"] Let_def split: list.split)
qed (simp add: scan_id.simps)

lemma dropWhile_hd: "xs \<noteq> [] \<Longrightarrow> \<not> P (hd xs) \<Longrightarrow> dropWhile P xs = xs"
  by (cases xs) simp_all

lemma scan_prefix:
  assumes "CHR ''%'' \<notin> set pre" "fmt \<noteq> []" "\<not> isspace (hd fmt)" "input \<noteq> []" "\<not> isspace (hd input)"
  shows "scan_id (pre @ fmt) (pre @ input) got = scan_id fmt input got \<and>
    scan_id (pre @ fmt) (dropWhile isspace (pre @ input)) got = scan_id fmt input got"
  using assms(1)
proof (induction pre)
  case Nil
  show ?case using assms(4,5) by (simp add: dropWhile_hd)
next
  case (Cons c pre)
  then have c: "c \<noteq> CHR ''%''" and
    IH: "scan_id (pre @ fmt) (pre @ input) got = scan_id fmt input got"
      "scan_id (pre @ fmt) (dropWhile isspace (pre @ input)) got = scan_id fmt input got" by auto
  show ?case
  proof (cases "isspace c")
    case True
    then show ?thesis using IH(2) c by (simp add: scan_id.simps [of "c # _"])
  next
    case False
    then show ?thesis using IH(1) c by (simp add: scan_id.simps [of "c # _"])
  qed
qed

lemma length_show_hex: "0 < k \<Longrightarrow> n < 16 ^ k \<Longrightarrow> length (show_hex n) \<le> k"
proof (induction k arbitrary: n)
  case (Suc k)
  show ?case
  proof (cases "n < 16")
    case False
    with Suc.prems have "0 < k" by (cases k) auto
    moreover have "n div 16 < 16 ^ k" using Suc.prems by (simp add: less_mult_imp_div_less mult.commute)
    ultimately have "length (show_hex (n div 16)) \<le> k" by (rule Suc.IH)
    with False show ?thesis by (simp add: show_hex.simps [of n])
  qed (simp add: show_hex.simps [of n])
qed simp

lemma is_hex_0 [simp]: "is_hex (CHR ''0'')" and hex_digit_0 [simp]: "hex_digit (CHR ''0'') = 0"
  by code_simp+

lemma hex_value_zeros: "hex_value (replicate k (CHR ''0'') @ ds) = hex_value ds"
  by (induction k) (simp_all add: hex_value_def)

lemma format_016llx_hex: "list_all is_hex (format_016llx i)"
  using show_hex_hex [of "unat i"] by (auto simp: format_016llx_def Let_def list_all_iff)

lemma format_016llx_value: "hex_value (format_016llx i) = unat i"
  by (simp add: format_016llx_def Let_def hex_value_zeros hex_value_show_hex)

lemma length_format_016llx: "length (format_016llx i) = 16"
proof -
  have "unat i < 16 ^ 16" using unsigned_less [of i] by simp
  then have "length (show_hex (unat i)) \<le> 16" by (rule length_show_hex [rotated]) simp
  then show ?thesis by (simp add: format_016llx_def Let_def)
qed

lemma not_hex: "\<not> is_hex (CHR ''-'')" "\<not> is_hex (CHR ''+'')" "\<not> is_hex (CHR ''x'')" "\<not> is_hex (CHR ''X'')"
  "\<not> is_hex (CHR ''.'')" "\<not> isspace (CHR ''-'')" "\<not> isspace (CHR ''.'')" "\<not> isspace (CHR ''%'')"
  by code_simp+

lemma hex_not_space: "is_hex b \<Longrightarrow> \<not> isspace b"
proof
  assume hex: "is_hex b" and "isspace b"
  then have "byte_val b \<in> {9, 10, 11, 12, 13, 32}"
    by (auto simp: isspace_def)
  moreover have "\<forall>n \<in> {9, 10, 11, 12, 13, 32}. \<not> is_hex (char_of (n :: nat))" by code_simp
  ultimately have "\<not> is_hex (char_of (byte_val b))" by blast
  with hex show False by (simp add: byte_val_def)
qed

lemma scan_llx_printed:
  assumes "rest \<noteq> []" "\<not> is_hex (hd rest)"
  shows "scan_llx (format_016llx i @ rest) = Some (i, rest)"
proof -
  let ?ds = "format_016llx i"
  obtain d ds where ds: "?ds = d # ds" using length_format_016llx [of i] by (cases ?ds) auto
  have hex: "\<forall>b \<in> set ?ds. is_hex b" using format_016llx_hex by (simp add: list_all_iff)
  then have sign: "scan_sign (?ds @ rest) = (False, ?ds @ rest)"
    using not_hex by (auto simp: scan_sign_def ds)
  have "?ds ! 1 \<in> set ?ds" using length_format_016llx [of i] by simp
  then have "?ds ! 1 \<noteq> CHR ''x''" "?ds ! 1 \<noteq> CHR ''X''" using hex not_hex by auto
  moreover have "(?ds @ rest) ! 1 = ?ds ! 1" using length_format_016llx [of i] by (simp add: nth_append)
  ultimately have "skip_0x (?ds @ rest) = ?ds @ rest" by (simp add: skip_0x_def)
  moreover have "takeWhile is_hex (?ds @ rest) = ?ds" "dropWhile is_hex (?ds @ rest) = rest"
    using hex assms by (cases rest; simp)+
  moreover have "uint i < 2 ^ 64" using unsigned_less [of i] by simp
  ultimately show ?thesis
    using sign format_016llx_value [of i] by (simp add: scan_llx_def Let_def ds)
qed

lemma format_016llx_start:
  "\<exists>d ds. format_016llx i = d # ds \<and> \<not> isspace d"
proof -
  obtain d ds where ds: "format_016llx i = d # ds"
    using length_format_016llx [of i] by (cases "format_016llx i") auto
  then have "is_hex d" using format_016llx_hex [of i] by simp
  with ds show ?thesis by (auto dest: hex_not_space)
qed

lemma scan_number:
  assumes "rest \<noteq> []" "\<not> is_hex (hd rest)" "CHR ''%'' \<notin> set fmt"
  shows "scan_id (''%llx'' @ fmt) (format_016llx i @ rest) None = Inr i"
proof -
  obtain d ds where d: "format_016llx i = d # ds" "\<not> isspace d" using format_016llx_start by blast
  then have "dropWhile isspace (format_016llx i @ rest) = format_016llx i @ rest" by simp
  then show ?thesis
    using scan_rest [OF assms(3)] by (simp add: scan_id.simps [of "CHR ''%'' # _"] scan_llx_printed [OF assms(1,2)])
qed

text \<open>A name of an application that no format takes for more than text.\<close>

definition plain_name :: "bytes \<Rightarrow> bool" where
  "plain_name name \<longleftrightarrow> CHR ''%'' \<notin> set name"

lemma scan_report_name:
  assumes "plain_name pre" "rest \<noteq> []" "\<not> is_hex (hd rest)"
  shows "scan_id (pre @ ''-report-%llx.json'') (pre @ ''-report-'' @ format_016llx i @ rest) None = Inr i"
proof -
  obtain d ds where d: "format_016llx i = d # ds" "\<not> isspace d" using format_016llx_start by blast
  have "scan_id ((pre @ ''-report-'') @ ''%llx.json'') ((pre @ ''-report-'') @ format_016llx i @ rest) None =
      scan_id (''%llx.json'') (format_016llx i @ rest) None"
    by (rule conjunct1 [OF scan_prefix]) (use assms(1) d not_hex in \<open>auto simp: plain_name_def\<close>)
  also have "\<dots> = Inr i" using scan_number [OF assms(2,3), of "''.json''" i] by simp
  finally show ?thesis by simp
qed

lemma id_of_name:
  assumes "plain_name (g_appName s)" "length (g_appName s) \<le> 482" "rest \<noteq> []" "\<not> is_hex (hd rest)"
  shows "getReportIDFromFilename s (g_appName s @ ''-report-'' @ format_016llx i @ rest) = Inr i"
  using scan_report_name [OF assms(1,3,4)] assms(2)
  by (simp add: getReportIDFromFilename_def SentryCrashCRS_MAX_PATH_LENGTH_def)

text \<open>The lengths for which nothing is cut off.\<close>

definition short_names :: "report_store \<Rightarrow> bool" where
  "short_names s \<longleftrightarrow> length (g_reportsPath s) + length (g_appName s) \<le> 462"

lemma id_of_path:
  assumes "plain_name (g_appName s)" "plain_name (g_reportsPath s)" "short_names s"
  shows "getReportIDFromFilePath s (getCrashReportPathByID s i) = Inr i"
proof -
  have path: "getCrashReportPathByID s i =
      (g_reportsPath s @ ''/'' @ g_appName s) @ ''-report-'' @ format_016llx i @ ''.json''"
    using assms(3)
    by (simp add: getCrashReportPathByID_def SentryCrashCRS_MAX_PATH_LENGTH_def length_format_016llx short_names_def)
  have fmt: "take (SentryCrashCRS_MAX_PATH_LENGTH - 1)
      (g_reportsPath s @ ''/'' @ g_appName s @ ''-report-%llx.json'') =
      (g_reportsPath s @ ''/'' @ g_appName s) @ ''-report-%llx.json''"
    using assms(3) by (simp add: SentryCrashCRS_MAX_PATH_LENGTH_def short_names_def)
  show ?thesis
    unfolding getReportIDFromFilePath_def path fmt
    by (rule scan_report_name) (use assms not_hex in \<open>simp_all add: plain_name_def\<close>)
qed

section \<open>Numbers of a launch\<close>

lemma high_zero: "ucast (NOT (0xffffffff :: 32 word)) = (0 :: 64 word)"
  by code_simp

lemma low_bits: "(a AND 0xffffffff) = take_bit 32 (a :: 64 word)"
proof -
  have "(0xffffffff :: 64 word) = mask 32" by (simp add: mask_eq_exp_minus_1)
  then show ?thesis by (simp only: take_bit_eq_mask)
qed

lemma unique_ids:
  "((snd \<circ> getNextUniqueID) ^^ n) s = s\<lparr>g_nextUniqueIDLow := g_nextUniqueIDLow s + of_nat n\<rparr>"
  by (induction n) (simp_all add: getNextUniqueID_def algebra_simps)

lemma initialised_ids:
  assumes "initializeIDs t s = Inr s'"
  shows "g_nextUniqueIDHigh s' = 0"
    and "g_nextUniqueIDLow s' = word_of_int ((baseID_of t mod 512) * 2 ^ 23)"
proof -
  let ?b = "push_bit 23 (word_of_int (baseID_of t)) :: 64 word"
  from assms have s': "s' = s\<lparr>g_nextUniqueIDHigh := ?b AND ucast (NOT (0xffffffff :: 32 word)),
      g_nextUniqueIDLow := ucast (?b AND 0xffffffff)\<rparr>"
    by (auto simp: initializeIDs_def Let_def split: if_splits)
  show "g_nextUniqueIDHigh s' = 0" by (simp only: s' high_zero) simp
  have "(ucast (take_bit 32 ?b) :: 32 word) = push_bit 23 (word_of_int (baseID_of t))"
    by (rule bit_word_eqI) (auto simp: bit_simps)
  also have "\<dots> = push_bit 23 (word_of_int (take_bit 9 (baseID_of t)))"
    by (rule bit_word_eqI) (auto simp: bit_simps)
  also have "\<dots> = word_of_int ((baseID_of t mod 512) * 2 ^ 23)"
    by (simp add: push_bit_eq_mult take_bit_eq_mod)
  finally show "g_nextUniqueIDLow s' = word_of_int ((baseID_of t mod 512) * 2 ^ 23)"
    by (simp add: s' low_bits)
qed

section \<open>Pruning\<close>

text \<open>The numbers that a listing's names stand for, in its order.\<close>

definition report_ids :: "(bytes \<Rightarrow> 64 word) \<Rightarrow> bytes list \<Rightarrow> 64 word list" where
  "report_ids num names = filter (\<lambda>i. 0 < sint i) (map num names)"

lemma report_ids_Cons:
  "report_ids num (n # names) = (if 0 < sint (num n) then num n # report_ids num names else report_ids num names)"
  by (simp add: report_ids_def)

lemma count_reports_ids:
  assumes "\<forall>(name, d) \<in> set ents. getReportIDFromFilename s name = Inr (num name)"
  shows "count_reports s ents = Inr (int (length (report_ids num (map fst (filter (\<lambda>e. \<not> snd e) ents)))))"
  using assms by (induction ents) (auto simp: report_ids_def)

lemma find_reports_ids:
  assumes "\<forall>(name, d) \<in> set ents. getReportIDFromFilename s name = Inr (num name)"
  shows "find_reports s ents room = Inr (take room (report_ids num (map fst ents)))"
  using assms
proof (induction ents arbitrary: room)
  case (Cons e ents)
  obtain name d where e: "e = (name, d)" by fastforce
  then show ?case using Cons by (cases room) (auto simp: report_ids_Cons)
qed (simp add: report_ids_def)

lemma positive_ids_compare:
  assumes "\<forall>i \<in> set ids. 0 < sint (i :: 64 word)"
  shows "sort_ids ids = Inr (sort_key sint ids)"
proof -
  have "compareInt64 a b \<noteq> Inl UndefinedBehaviour" if "a \<in> set ids" "b \<in> set ids" for a b
  proof -
    have "sint a < 2 ^ 63" "sint b < 2 ^ 63" using sint_less [of a] sint_less [of b] by simp_all
    moreover have "0 < sint a" "0 < sint b" using assms that by blast+
    ultimately show ?thesis by (simp add: compareInt64_def Let_def)
  qed
  then show ?thesis by (simp add: sort_ids_def list_all_iff)
qed

lemma prune_runs:
  assumes "readdir_all env (g_reportsPath s) w = (Some ents, w1)"
    "readdir_all env (g_reportsPath s) w1 = (Some ents, w2)"
    "\<forall>(name, d) \<in> set ents. getReportIDFromFilename s name = Inr (num name)"
    "ids = report_ids num (map fst ents)"
    "n = length (report_ids num (map fst (filter (\<lambda>e. \<not> snd e) ents)))"
    "g_maxReportCount s < int n" "0 \<le> g_maxReportCount s" "\<forall>k. length (garbage k) = k"
  shows "pruneReports garbage env s w = Inr (fold (sentrycrashcrs_deleteReportWithID env s)
    (take (n - nat (g_maxReportCount s)) (sort_key sint (take n ids))) w2)"
proof -
  have count: "getReportCount env s w = Inr (int n, w1)"
    using count_reports_ids [OF assms(3)] by (simp add: getReportCount_def assms(1,5))
  have "mset (report_ids num (map fst (filter (\<lambda>e. \<not> snd e) ents))) \<subseteq># mset ids"
    unfolding report_ids_def assms(4) by (simp add: multiset_filter_mono image_mset_subseteq_mono)
  then have "n \<le> length ids" unfolding assms(5) by (metis size_mset size_mset_mono)
  then have len: "length (take n ids) = n" by simp
  have "\<forall>i \<in> set (take n ids). 0 < sint i"
    using set_take_subset [of n ids] by (auto simp: assms(4) report_ids_def)
  then have sorted: "sort_ids (take n ids) = Inr (sort_key sint (take n ids))"
    by (rule positive_ids_compare)
  have "getReportIDs env s (garbage n) w1 = Inr (int n, sort_key sint (take n ids), w2)"
    using find_reports_ids [OF assms(3), of n] sorted assms(2,8) len
    by (simp add: getReportIDs_def assms(4))
  moreover have "nat (int n - g_maxReportCount s) = n - nat (g_maxReportCount s)"
    using assms(7) by (simp add: nat_diff_distrib)
  ultimately show ?thesis
    using assms(6) len by (simp add: pruneReports_def count Let_def)
qed

lemma sorted_split:
  assumes "xs = sort_key f (ys :: 'a list)"
  shows "\<forall>a \<in> set (take k xs). \<forall>b \<in> set (drop k xs). f a \<le> (f b :: int)"
proof -
  have "sorted (map f (take k xs) @ map f (drop k xs))"
    by (simp add: assms flip: map_append)
  then show ?thesis by (auto simp: sorted_append)
qed

section \<open>Properties\<close>

text \<open>Files on a disk that logs the paths of what is removed, one in a line.\<close>

definition logging_env :: "(bytes \<times> bool) list \<Rightarrow> (bytes \<times> bytes) store_env" where
  "logging_env ents =
     \<lparr>s_os = one_byte_os\<lparr>os_remove := (\<lambda>p (a, b). (True, (a @ p @ ''\<newline>'', b)))\<rparr>, s_alloc = (\<lambda>_. True),
      open_create = (\<lambda>_ w. (3, w)), readdir_all = (\<lambda>_ w. (Some ents, w)),
      gmtime_now = (\<lambda>w. (\<lparr>tm_sec = 1, tm_min = 2, tm_hour = 3, tm_yday = 4, tm_year = 125\<rparr>, w))\<rparr>"

definition app_store :: report_store where
  "app_store = initial_store\<lparr>g_appName := ''My App'', g_reportsPath := ''/r'', g_maxReportCount := 1\<rparr>"

lemma app_store_names:
  "plain_name (g_appName app_store)" "plain_name (g_reportsPath app_store)" "short_names app_store"
  "g_appName app_store = ''My App''" "g_maxReportCount app_store = 1" "g_reportsPath app_store = ''/r''"
  by (simp_all add: app_store_def initial_store_def plain_name_def short_names_def)

lemma format_digit: "d < 16 \<Longrightarrow> format_016llx (of_nat d) = ''000000000000000'' @ [hex_char d]"
  by (simp add: format_016llx_def show_hex.simps [of d] unat_of_nat take_bit_nat_eq_self) (simp add: eval_nat_numeral)

lemma format_3: "format_016llx 3 = ''0000000000000003''" and format_1: "format_016llx 1 = ''0000000000000001''"
  using format_digit [of 3] format_digit [of 1] by (simp_all add: hex_char_def)

lemma app_store_ids:
  "getReportIDFromFilename app_store ''My App-report-0000000000000003.json'' = Inr 3"
  "getReportIDFromFilename app_store ''My App-report-0000000000000003-attachments'' = Inr 3"
  "getReportIDFromFilename app_store ''My App-report-0000000000000001.json'' = Inr 1"
  using id_of_name [OF app_store_names(1), of "''.json''" 3] id_of_name [OF app_store_names(1), of "''-attachments''" 3]
    id_of_name [OF app_store_names(1), of "''.json''" 1]
  by (simp_all add: app_store_names(4) format_3 format_1 not_hex)

text \<open>
  Names and numbers of reports determine each other: the number is read back from the name of a
  report's file, from its path, and from the name of its directory of attachments, which is the one
  that belongs to the path.
\<close>

theorem report_name_roundtrip:
  assumes "plain_name (g_appName s)" "plain_name (g_reportsPath s)" "short_names s"
  shows "getReportIDFromFilename s (g_appName s @ ''-report-'' @ format_016llx i @ ''.json'') = Inr i \<and>
    getReportIDFromFilename s (g_appName s @ ''-report-'' @ format_016llx i @ ''-attachments'') = Inr i \<and>
    getReportIDFromFilePath s (sentrycrashcrs_getCrashReportPathById s i) = Inr i \<and>
    sentrycrashcrs_getAttachmentsPath_forReport s (sentrycrashcrs_getCrashReportPathById s i) =
      Inr (sentrycrashcrs_getAttachmentsPath_forReportId s i)"
proof -
  have "length (g_appName s) \<le> 482" using assms(3) by (simp add: short_names_def)
  then show ?thesis
    using id_of_name [OF assms(1), of "''.json''" i] id_of_name [OF assms(1), of "''-attachments''" i]
      id_of_path [OF assms] not_hex
    by (simp add: sentrycrashcrs_getCrashReportPathById_def sentrycrashcrs_getAttachmentsPath_forReport_def)
qed

theorem report_name_roundtrip_witness:
  "getReportIDFromFilename app_store ''My App-report-0000000000000003.json'' = Inr 3"
  using report_name_roundtrip [OF app_store_names(1-3), of 3] by (simp only: app_store_names(4) format_3 append.simps)

text \<open>
  The numbers of a launch count up from one of only 512 places: the upper half of the intended
  number is lost, so launches whose times agree modulo 512 use the same numbers, and one launch in
  512 begins with the number 0, which no listing takes for a report.
\<close>

theorem report_numbers_repeat:
  assumes "initializeIDs t s = Inr s'" "n < 2 ^ 23"
  shows "unat (fst (getNextUniqueID (((snd \<circ> getNextUniqueID) ^^ n) s'))) =
    nat (baseID_of t mod 512) * 2 ^ 23 + n"
proof -
  let ?k = "nat (baseID_of t mod 512)"
  have k: "?k < 512" "word_of_int ((baseID_of t mod 512) * 2 ^ 23) = (of_nat (?k * 2 ^ 23) :: 32 word)"
    by (simp_all add: nat_less_iff)
  then have less: "?k * 2 ^ 23 + n < 2 ^ 32" using assms(2) by simp
  define N where "N = ?k * 2 ^ 23 + n"
  have low: "g_nextUniqueIDLow s' + of_nat n = of_nat N"
    by (simp only: initialised_ids(2) [OF assms(1)] k(2) of_nat_add N_def)
  have less: "N < 2 ^ 32" using less by (simp only: N_def)
  have "unat (of_nat N :: 32 word) = N"
    using less by (simp add: unat_of_nat take_bit_nat_eq_self)
  then have "unat (ucast (of_nat N :: 32 word) :: 64 word) = N"
    using less by (simp add: unsigned_ucast_eq take_bit_nat_eq_self)
  then show ?thesis
    by (simp add: unique_ids getNextUniqueID_def initialised_ids(1) [OF assms(1)] low N_def)
qed

theorem report_numbers_repeat_witness:
  "\<exists>s'. initializeIDs \<lparr>tm_sec = 1, tm_min = 2, tm_hour = 3, tm_yday = 4, tm_year = 125\<rparr> app_store = Inr s' \<and>
    unat (fst (getNextUniqueID s')) = 159 * 2 ^ 23"
proof -
  let ?t = "\<lparr>tm_sec = 1, tm_min = 2, tm_hour = 3, tm_yday = 4, tm_year = 125\<rparr>"
  obtain s' where s': "initializeIDs ?t app_store = Inr s'"
    by (simp add: initializeIDs_def baseID_of_def Let_def)
  from report_numbers_repeat [OF this, of 0] have "unat (fst (getNextUniqueID s')) = nat (baseID_of ?t mod 512) * 2 ^ 23"
    by simp
  also have "baseID_of ?t mod 512 = 159" by (simp add: baseID_of_def)
  finally show ?thesis using s' by simp
qed


text \<open>
  A directory of attachments misleads the pruning: with one report allowed, of the reports 1 and
  3, the latter with attachments, the newest is deleted and the oldest kept.
\<close>

theorem prune_misled_by_attachments:
  "pruneReports (\<lambda>k. replicate k 0)
     (logging_env [(''My App-report-0000000000000003-attachments'', True),
        (''My App-report-0000000000000003.json'', False), (''My App-report-0000000000000001.json'', False)])
     app_store ([], []) = Inr (''/r/My App-report-0000000000000003.json\<newline>'', [])"
proof -
  let ?ents = "[(''My App-report-0000000000000003-attachments'', True),
        (''My App-report-0000000000000003.json'', False), (''My App-report-0000000000000001.json'', False)]"
  let ?num = "\<lambda>name. if name = ''My App-report-0000000000000001.json'' then 1 else 3 :: 64 word"
  have names: "\<forall>(name, d) \<in> set ?ents. getReportIDFromFilename app_store name = Inr (?num name)"
    by (simp add: app_store_ids)
  have listing: "readdir_all (logging_env ?ents) (g_reportsPath app_store) ([], []) = (Some ?ents, ([], []))"
    by (simp add: logging_env_def)
  have "pruneReports (\<lambda>k. replicate k 0) (logging_env ?ents) app_store ([], []) =
      Inr (fold (sentrycrashcrs_deleteReportWithID (logging_env ?ents) app_store) [3] ([], []))"
    using prune_runs [OF listing listing names refl, of 2 "\<lambda>k. replicate k 0"]
    by (simp add: app_store_names report_ids_def eval_nat_numeral del: fold_simps)
  then show ?thesis
    by (simp add: sentrycrashcrs_deleteReportWithID_def logging_env_def sentrycrashfu_removeFile_def
      getCrashReportPathByID_def app_store_names format_3 SentryCrashCRS_MAX_PATH_LENGTH_def)
qed


end
