(* ===== verification/Crash_Memory_Spec.thy ===== *)
theory Crash_Memory_Spec
  imports Crash_Memory
begin

text \<open>
  The halving copy finds the longest readable beginning of a range; the readability test looks at
  no more than its test buffer, however long the range is.
\<close>

section \<open>The halving copy\<close>

lemma all_readable_add:
  "all_readable mem a (m + n) \<longleftrightarrow> all_readable mem a m \<and> all_readable mem (a + of_nat m) n"
proof
  assume all: "all_readable mem a (m + n)"
  have "mem (a + of_nat m + of_nat i) \<noteq> None" if "i < n" for i
    using all [unfolded all_readable_def, rule_format, of "m + i"] that by (simp add: add.assoc)
  then show "all_readable mem a m \<and> all_readable mem (a + of_nat m) n"
    using all by (auto simp: all_readable_def)
next
  assume both: "all_readable mem a m \<and> all_readable mem (a + of_nat m) n"
  show "all_readable mem a (m + n)"
    unfolding all_readable_def
  proof (intro allI impI)
    fix i
    assume "i < m + n"
    then show "mem (a + of_nat i) \<noteq> None"
      using both [unfolded all_readable_def, THEN conjunct2, rule_format, of "i - m"]
        both [unfolded all_readable_def, THEN conjunct1, rule_format, of i]
      by (cases "i < m") (simp_all add: of_nat_diff)
  qed
qed

lemma copy_loop_longest:
  assumes "vm_reads vm mem" "n < 2 ^ 31"
    "p \<le> readable_length mem src n" "readable_length mem src n \<le> pMax" "pEnd \<le> pMax" "pMax \<le> n"
    "readable_length mem src n < pMax \<or> pEnd = pMax" "pEnd \<le> p \<Longrightarrow> pMax \<le> p + 1"
  shows "copy_loop vm src p pEnd pMax got =
    got @ bytes_at mem (src + of_nat p) (readable_length mem src n - p)"
  using assms(1-8)
proof (induction vm src p pEnd pMax got rule: copy_loop.induct)
  case (1 vm src p pEnd pMax got)
  let ?L = "readable_length mem src n" and ?cl = "pEnd - p"
  show ?case
  proof (cases "?cl = 0")
    case True
    then have "pMax \<le> p + 1" "pEnd \<le> p" using 1(10) by simp_all
    then have "?L \<le> p" using 1(6,9) by linarith
    then show ?thesis using True by (simp add: copy_loop.simps [of vm src p] bytes_at_def)
  next
    case False
    then have p: "p < pEnd" "p + ?cl = pEnd" "pEnd \<le> n" using 1(7,8) by linarith+
    have readable: "all_readable mem (src + of_nat p) ?cl \<longleftrightarrow> pEnd \<le> ?L"
      using readable_length_ge [of pEnd n mem src] readable_length_ge [of p n mem src] p 1(5,6,8)
        all_readable_add [of mem src p ?cl] by simp
    have copy: "copySafely vm (src + of_nat p) (int ?cl) =
        (if pEnd \<le> ?L then (int ?cl, bytes_at mem (src + of_nat p) ?cl) else (0, []))"
      using copySafely_reads [OF 1(3), of ?cl "src + of_nat p"] readable 1(4) p by simp
    show ?thesis
    proof (cases "pEnd \<le> ?L")
      case True
      have rec: "copy_loop vm src p pEnd pMax got = copy_loop vm src pEnd (pEnd + (pMax - pEnd) div 2) pMax
          (got @ bytes_at mem (src + of_nat p) ?cl)"
        using True p copy by (subst copy_loop.simps) (simp add: Let_def)
      note IH = 1(1) [OF refl False refl, of "int ?cl" "bytes_at mem (src + of_nat p) ?cl", unfolded p(2)]
      have tail: "pEnd + (pMax - pEnd) div 2 \<le> pEnd \<Longrightarrow> pMax \<le> pEnd + 1"
          "?L < pMax \<or> pEnd + (pMax - pEnd) div 2 = pMax"
          "pEnd + (pMax - pEnd) div 2 \<le> pMax"
        using 1(7,9) by auto
      have "copy_loop vm src pEnd (pEnd + (pMax - pEnd) div 2) pMax
          (got @ bytes_at mem (src + of_nat p) ?cl) =
        (got @ bytes_at mem (src + of_nat p) ?cl) @ bytes_at mem (src + of_nat pEnd) (?L - pEnd)"
        by (rule IH [OF _ refl 1(3,4) True 1(6) tail(3) 1(8) tail(2) tail(1)]) (simp_all add: copy True)
      moreover have "src + of_nat p + of_nat ?cl = src + of_nat pEnd"
        using p(2) by (metis add.assoc of_nat_add)
      then have "bytes_at mem (src + of_nat p) (?cl + (?L - pEnd)) =
          bytes_at mem (src + of_nat p) ?cl @ bytes_at mem (src + of_nat pEnd) (?L - pEnd)"
        by (simp only: bytes_at_append)
      moreover have "?L - p = ?cl + (?L - pEnd)" using True p by linarith
      ultimately show ?thesis by (simp only: rec append_assoc)
    next
      case unread: False
      show ?thesis
      proof (cases "?cl \<le> 1")
        case True
        then have "?L = p" using unread p 1(5) by linarith
        then show ?thesis
          using True False copy unread by (subst copy_loop.simps) (simp add: Let_def bytes_at_def)
      next
        case more: False
        have "copy_loop vm src p pEnd pMax got = copy_loop vm src p (p + ?cl div 2) pEnd got"
          using more False copy unread by (subst copy_loop.simps) (simp add: Let_def)
        also have "\<dots> = got @ bytes_at mem (src + of_nat p) (?L - p)"
        proof (rule 1(2) [OF refl False refl, of 0 "[]", OF _ _ more 1(3-5)])
          show "(0, []) = copySafely vm (src + of_nat p) (int ?cl)" using copy unread by simp
          show "0 \<noteq> int ?cl" using False by simp
          show "?L \<le> pEnd" "?L < pEnd \<or> p + ?cl div 2 = pEnd" using unread by simp_all
          show "p + ?cl div 2 \<le> pEnd" using p by linarith
          show "pEnd \<le> n" by (rule p(3))
          show "pEnd \<le> p + 1" if "p + ?cl div 2 \<le> p" using that more by linarith
        qed
        finally show ?thesis .
      qed
    qed
  qed
qed


lemma readable_length_add:
  "readable_length mem a (m + n) =
    (if all_readable mem a m then m + readable_length mem (a + of_nat m) n else readable_length mem a m)"
proof (induction m arbitrary: a)
  case (Suc m)
  show ?case using Suc.IH [of "a + 1"] by (simp add: all_readable_Suc add.assoc)
qed (simp add: all_readable_def)

lemma readable_length_all: "all_readable mem a n \<Longrightarrow> readable_length mem a n = n"
  using readable_length_ge [of n n mem a] readable_length_le [of mem a n] by simp

lemma copyMaxPossible_longest:
  assumes "vm_reads vm mem" "0 < n" "n < 2 ^ 31"
  shows "copyMaxPossible vm src (int n) =
    (int (readable_length mem src n), bytes_at mem src (readable_length mem src n))"
proof -
  let ?L = "readable_length mem src n"
  have one: "copySafely vm src 1 = (if mem src = None then (0, []) else (1, bytes_at mem src 1))"
    using copySafely_reads [OF assms(1), of 1 src] by (simp add: all_readable_def)
  obtain m where n: "n = Suc m" using assms(2) by (cases n) auto
  show ?thesis
  proof (cases "mem src = None")
    case True
    then show ?thesis by (simp add: copyMaxPossible_def one n bytes_at_def)
  next
    case False
    show ?thesis
    proof (cases "n = 1")
      case True
      then show ?thesis using False by (auto simp: copyMaxPossible_def one bytes_at_def)
    next
      case more: False
      have "copy_loop vm src 0 n n [] = [] @ bytes_at mem (src + of_nat 0) (?L - 0)"
        by (rule copy_loop_longest [OF assms(1,3)]) (use assms(2) readable_length_le in simp_all)
      moreover have "bytes_at mem src ?L \<noteq> []" using False n by (simp add: bytes_at_def)
      ultimately show ?thesis
        using False more assms(2) by (simp add: copyMaxPossible_def one Let_def)
    qed
  qed
qed

section \<open>The readability test\<close>

lemma readable_loop_buffer:
  "vm_reads vm mem \<Longrightarrow> 0 \<le> n \<Longrightarrow>
    readable_loop vm a n \<longleftrightarrow> all_readable mem a (min (nat n) 10240)"
proof (induction vm a n rule: readable_loop.induct)
  case (1 vm a n)
  have copy: "copySafely vm a (min n 10240) = (if all_readable mem a (nat (min n 10240))
      then (min n 10240, bytes_at mem a (nat (min n 10240))) else (0, []))"
    using copySafely_reads [OF 1(2), of "nat (min n 10240)" a] 1(3) by simp
  show ?case
  proof (cases "n \<le> 10240")
    case True
    then show ?thesis
      using 1(3) copy by (subst readable_loop.simps)
        (auto simp: testBufferSize_def readable_loop.simps [of vm a 0] all_readable_def)
  next
    case False
    then have rec: "readable_loop vm a n \<longleftrightarrow> all_readable mem a 10240 \<and> readable_loop vm a (n - 10240)"
      using copy by (subst readable_loop.simps) (simp add: testBufferSize_def)
    have "readable_loop vm a (n - 10240) \<longleftrightarrow> all_readable mem a (min (nat (n - 10240)) 10240)"
      if "all_readable mem a 10240"
      using 1(1) [OF _ refl] 1(2,3) False copy that by (simp add: testBufferSize_def)
    moreover have "all_readable mem a 10240 \<Longrightarrow> all_readable mem a (min (nat (n - 10240)) 10240)"
      by (simp add: all_readable_def)
    ultimately show ?thesis using rec False by auto
  qed
qed


section \<open>Counting readable bytes\<close>

text \<open>The count is made in whole buffers.\<close>

definition whole_buffers :: "int \<Rightarrow> nat" where
  "whole_buffers n = (if n \<le> 10240 then 10240 else 10240 * nat ((n + 10239) div 10240))"

lemma whole_buffers_step: "10240 < n \<Longrightarrow> whole_buffers n = 10240 + whole_buffers (n - 10240)"
proof -
  assume n: "10240 < n"
  have "(n + 10239) div 10240 = (n - 10240 + 10239) div 10240 + 1" by simp
  moreover have "0 < (n - 10240 + 10239) div 10240" using n by simp
  moreover have "(n - 10240 + 10239) div 10240 = 1" if "n - 10240 \<le> 10240" using that n by simp
  ultimately show ?thesis using n by (auto simp: whole_buffers_def nat_add_distrib)
qed

lemma readable_whole_buffer:
  assumes "vm_reads vm mem"
  shows "isMemoryReadable vm a testBufferSize \<longleftrightarrow> all_readable mem a 10240"
  using readable_loop_buffer [OF assms, of 10240 a] by (simp add: isMemoryReadable_def testBufferSize_def)

lemma copy_whole_buffer:
  assumes "vm_reads vm mem"
  shows "fst (copyMaxPossible vm a testBufferSize) = int (readable_length mem a 10240)"
  using copyMaxPossible_longest [OF assms, of 10240 a] by (simp add: testBufferSize_def)

lemma maxReadableBytes_whole:
  assumes "vm_reads vm mem" "skip_readable vm a n = (b, r)"
  shows "n - (r - fst (copyMaxPossible vm b testBufferSize)) = int (readable_length mem a (whole_buffers n))"
  using assms
proof (induction vm a n arbitrary: b r rule: skip_readable.induct)
  case (1 vm a n)
  show ?case
  proof (cases "10240 < n \<and> all_readable mem a 10240")
    case True
    then have step: "n > testBufferSize \<and> isMemoryReadable vm a testBufferSize"
      using readable_whole_buffer [OF 1(2)] by (simp add: testBufferSize_def)
    then have "skip_readable vm (a + 10240) (n - 10240) = (b, r)"
      using 1(3) by (subst (asm) skip_readable.simps) (simp add: testBufferSize_def)
    then have "n - 10240 - (r - fst (copyMaxPossible vm b testBufferSize)) =
        int (readable_length mem (a + 10240) (whole_buffers (n - 10240)))"
      using 1(1) [OF step 1(2), of b r] by (simp add: testBufferSize_def)
    then show ?thesis using True by (simp add: whole_buffers_step readable_length_add)
  next
    case False
    then have "skip_readable vm a n = (a, n)"
      using readable_whole_buffer [OF 1(2)] by (subst skip_readable.simps) (auto simp: testBufferSize_def)
    then have b: "b = a" "r = n" using 1(3) by simp_all
    have "readable_length mem a (whole_buffers n) = readable_length mem a 10240"
    proof (cases "10240 < n")
      case True
      with False show ?thesis by (simp add: whole_buffers_step readable_length_add)
    qed (simp add: whole_buffers_def)
    then show ?thesis using copy_whole_buffer [OF 1(2)] by (simp add: b)
  qed
qed

section \<open>Properties\<close>

text \<open>Memory with two readable ranges, and a kernel over it.\<close>

definition two_ranges :: "64 word \<Rightarrow> byte option" where
  "two_ranges a = (if a < 100 then Some (CHR ''a'') else if 20000 \<le> a then Some (CHR ''b'') else None)"

definition two_ranges_vm :: vm where
  "two_ranges_vm a n = (if all_readable two_ranges a n then Some (bytes_at two_ranges a n) else None)"

lemma two_ranges_reads: "vm_reads two_ranges_vm two_ranges"
  by (simp add: vm_reads_def two_ranges_vm_def)

text \<open>
  C25. Copying as much as possible of a range delivers exactly its longest readable beginning, by
  halving what is tried, whatever parts of the range are readable.
\<close>

theorem copy_max_possible:
  assumes "vm_reads vm mem" "1 \<le> n" "n < 2 ^ 31"
  shows "sentrycrashmem_copyMaxPossible vm src n =
    (int (readable_length mem src (nat n)), bytes_at mem src (readable_length mem src (nat n)))"
proof -
  have "0 < nat n" "nat n < 2 ^ 31" "int (nat n) = n" using assms(2,3) by simp_all
  with copyMaxPossible_longest [OF assms(1), of "nat n" src] show ?thesis
    by (simp add: sentrycrashmem_copyMaxPossible_def)
qed

theorem copy_max_possible_witness:
  "sentrycrashmem_copyMaxPossible two_ranges_vm 97 7 = (3, ''aaa'')"
proof -
  have "readable_length two_ranges 97 7 = 3" by code_simp
  moreover have "bytes_at two_ranges 97 3 = ''aaa''" by code_simp
  ultimately show ?thesis
    using copy_max_possible [OF two_ranges_reads, of 7 97] by simp
qed

text \<open>
  The readability test is exact up to the size of its test buffer, 10240 bytes. Of a longer range
  it tests the first 10240 bytes over and over, and so calls the range readable whatever is behind
  them.
\<close>

theorem readable_test_extent:
  assumes "vm_reads vm mem" "0 \<le> n"
  shows "sentrycrashmem_isMemoryReadable vm a n \<longleftrightarrow> all_readable mem a (min (nat n) 10240)"
  using readable_loop_buffer [OF assms]
  by (simp add: sentrycrashmem_isMemoryReadable_def isMemoryReadable_def)

theorem readable_test_extent_witness:
  "\<not> sentrycrashmem_isMemoryReadable two_ranges_vm 97 4 \<and> \<not> all_readable two_ranges 97 (min (nat 4) 10240)"
proof -
  have "\<not> all_readable two_ranges 97 (min (nat 4) 10240)"
    by (auto simp: all_readable_def two_ranges_def intro!: exI [of _ 3])
  with readable_test_extent [OF two_ranges_reads, of 4 97] show ?thesis by simp
qed

text \<open>
  The count of readable bytes is made in whole test buffers: it is the number of readable bytes
  of the range rounded up to a multiple of 10240 bytes, and can exceed the number asked about.
\<close>

theorem readable_count_rounds_up:
  assumes "vm_reads vm mem"
  shows "sentrycrashmem_maxReadableBytes vm a n = int (readable_length mem a (whole_buffers n))"
proof -
  obtain b r where "skip_readable vm a n = (b, r)" by fastforce
  from maxReadableBytes_whole [OF assms this] show ?thesis
    by (simp add: sentrycrashmem_maxReadableBytes_def \<open>skip_readable vm a n = (b, r)\<close>)
qed

theorem readable_count_rounds_up_witness:
  "sentrycrashmem_maxReadableBytes two_ranges_vm 20000 1 = 10240"
proof -
  have "all_readable two_ranges 20000 10240"
    unfolding all_readable_def
  proof (intro allI impI)
    fix i :: nat
    assume "i < 10240"
    then have "unat (20000 + of_nat i :: 64 word) = 20000 + i"
      using unat_of_nat [of "20000 + i", where 'a = 64] by simp
    then show "two_ranges (20000 + of_nat i) \<noteq> None"
      by (simp add: two_ranges_def word_le_nat_alt)
  qed
  then show ?thesis
    using readable_count_rounds_up [OF two_ranges_reads, of 20000 1]
    by (simp add: whole_buffers_def readable_length_all)
qed

end
