(* ===== verification/Crash_Cpu_Spec.thy ===== *)
theory Crash_Cpu_Spec
  imports Crash_Cpu
begin

text \<open>
  The register tables of the architectures keep one contract: every register number below the
  count has a name of its own and a value, and no number above it has either. A list of the
  registers by number is then a list of the named fields with their values.
\<close>

section \<open>The contract\<close>

text \<open>The registers from a number on, as a report lists them.\<close>

fun registers_from :: "'c cpu_ops \<Rightarrow> 'c \<Rightarrow> nat \<Rightarrow> int \<Rightarrow> (bytes option \<times> 64 word) list run" where
  "registers_from cpu context 0 n = Inr []"
| "registers_from cpu context (Suc k) n =
     bind_run (op_registerName cpu n) (\<lambda>name.
     bind_run (op_registerValue cpu context n) (\<lambda>value.
     bind_run (registers_from cpu context k (n + 1)) (\<lambda>rest. Inr ((name, value) # rest))))"

definition registers_of :: "'c cpu_ops \<Rightarrow> 'c \<Rightarrow> (bytes option \<times> 64 word) list run" where
  "registers_of cpu context = registers_from cpu context (nat (op_numRegisters cpu)) 0"

locale register_file =
  fixes cpu :: "'c cpu_ops" and names :: "bytes list" and field_values :: "'c \<Rightarrow> 64 word list"
  assumes names_distinct: "distinct names"
    and number: "op_numRegisters cpu = int (length names)"
    and same_length: "length (field_values c) = length names"
    and name_at: "n < length names \<Longrightarrow> op_registerName cpu (int n) = Inr (Some (names ! n))"
    and value_at: "n < length names \<Longrightarrow> op_registerValue cpu c (int n) = Inr (field_values c ! n)"
    and no_name: "int (length names) \<le> i \<Longrightarrow> op_registerName cpu i = Inr None"
    and no_value: "int (length names) \<le> i \<Longrightarrow> op_registerValue cpu c i = Inr 0"
begin

lemma registers_from_drop:
  "k + n = length names \<Longrightarrow>
    registers_from cpu c k (int n) = Inr (zip (map Some (drop n names)) (drop n (field_values c)))"
proof (induction k arbitrary: n)
  case (Suc k)
  then have n: "n < length names" "n < length (field_values c)" by (simp_all add: same_length)
  have "registers_from cpu c k (int (Suc n)) =
      Inr (zip (map Some (drop (Suc n) names)) (drop (Suc n) (field_values c)))"
    by (rule Suc.IH) (use Suc.prems in simp)
  then show ?case
    using n by (simp add: name_at value_at add.commute Cons_nth_drop_Suc [symmetric])
qed (simp add: same_length)

lemma registers_listed: "registers_of cpu c = Inr (zip (map Some names) (field_values c))"
  using registers_from_drop [of "length names" 0 c] by (simp add: registers_of_def number)

end

section \<open>The four architectures\<close>

definition arm64_values :: "arm64_context \<Rightarrow> 64 word list" where
  "arm64_values c = map (\<lambda>n. cpu_ss c (A64_x n)) [0 ..< 29] @
     map (cpu_ss c) [A64_fp, A64_lr, A64_sp, A64_pc, A64_cpsr]"

definition arm_values :: "arm_context \<Rightarrow> 64 word list" where
  "arm_values c = map (\<lambda>n. cpu_ss c (A32_r n)) [0 ..< 13] @
     map (cpu_ss c) [A32_sp, A32_lr, A32_pc, A32_cpsr]"

definition x86_64_values :: "x86_64_context \<Rightarrow> 64 word list" where
  "x86_64_values c = map (cpu_ss c)
     [X64_rax, X64_rbx, X64_rcx, X64_rdx, X64_rdi, X64_rsi, X64_rbp, X64_rsp, X64_r8, X64_r9, X64_r10,
      X64_r11, X64_r12, X64_r13, X64_r14, X64_r15, X64_rip, X64_rflags, X64_cs, X64_fs, X64_gs]"

definition x86_32_values :: "x86_32_context \<Rightarrow> 64 word list" where
  "x86_32_values c = map (cpu_ss c)
     [X32_eax, X32_ebx, X32_ecx, X32_edx, X32_edi, X32_esi, X32_ebp, X32_esp, X32_ss, X32_eflags,
      X32_eip, X32_cs, X32_ds, X32_es, X32_fs, X32_gs]"

lemma table_name_at:
  "n < length names \<Longrightarrow> table_name names (int n) = Inr (Some (names ! n))"
  "int (length names) \<le> i \<Longrightarrow> table_name names i = Inr None"
  by (simp_all add: table_name_def)

lemma nth_of_map:
  assumes "map f [0 ..< k] = map Inr vs" "n < k"
  shows "f n = Inr (vs ! n)"
proof -
  have "length vs = k" using arg_cong [OF assms(1), of length] by simp
  then show ?thesis using arg_cong [OF assms(1), of "\<lambda>xs. xs ! n"] assms(2) by simp
qed

lemma value_arm64: "n < 34 \<Longrightarrow> sentrycrashcpu_registerValue_arm64 c (int n) = Inr (arm64_values c ! n)"
proof (cases "n < 29")
  case False
  assume "n < 34"
  with False have "n = 29 \<or> n = 30 \<or> n = 31 \<or> n = 32 \<or> n = 33" by linarith
  then show ?thesis
    by (elim disjE) (simp_all add: sentrycrashcpu_registerValue_arm64_def arm64_values_def nth_append)
qed (simp add: sentrycrashcpu_registerValue_arm64_def arm64_values_def nth_append)

lemma value_arm: "n < 17 \<Longrightarrow> sentrycrashcpu_registerValue_arm c (int n) = Inr (arm_values c ! n)"
proof (cases "n < 13")
  case False
  assume "n < 17"
  with False have "n = 13 \<or> n = 14 \<or> n = 15 \<or> n = 16" by linarith
  then show ?thesis
    by (elim disjE) (simp_all add: sentrycrashcpu_registerValue_arm_def arm_values_def nth_append)
qed (simp add: sentrycrashcpu_registerValue_arm_def arm_values_def nth_append)

lemma value_x86_64: "n < 21 \<Longrightarrow> sentrycrashcpu_registerValue_x86_64 c (int n) = Inr (x86_64_values c ! n)"
  by (rule nth_of_map)
    (simp_all add: upt_rec sentrycrashcpu_registerValue_x86_64_def x86_64_values_def)

lemma value_x86_32: "n < 16 \<Longrightarrow> sentrycrashcpu_registerValue_x86_32 c (int n) = Inr (x86_32_values c ! n)"
  by (rule nth_of_map)
    (simp_all add: upt_rec sentrycrashcpu_registerValue_x86_32_def x86_32_values_def)

lemma register_counts [simp]:
  "length g_registerNames_arm64 = 34" "length g_registerNames_arm = 17"
  "length g_registerNames_x86_64 = 21" "length g_registerNames_x86_32 = 16"
  "length (arm64_values c) = 34" "length (arm_values c') = 17"
  "length (x86_64_values c'') = 21" "length (x86_32_values c''') = 16"
  by (simp_all add: g_registerNames_arm64_def g_registerNames_arm_def g_registerNames_x86_64_def
    g_registerNames_x86_32_def arm64_values_def arm_values_def x86_64_values_def x86_32_values_def)

lemma register_names_distinct:
  "distinct g_registerNames_arm64" "distinct g_registerNames_arm"
  "distinct g_registerNames_x86_64" "distinct g_registerNames_x86_32"
  by code_simp+

lemma no_value_at:
  "34 \<le> i \<Longrightarrow> sentrycrashcpu_registerValue_arm64 c1 i = Inr 0"
  "17 \<le> i \<Longrightarrow> sentrycrashcpu_registerValue_arm c2 i = Inr 0"
  "21 \<le> i \<Longrightarrow> sentrycrashcpu_registerValue_x86_64 c3 i = Inr 0"
  "16 \<le> i \<Longrightarrow> sentrycrashcpu_registerValue_x86_32 c4 i = Inr 0"
  by (simp_all add: sentrycrashcpu_registerValue_arm64_def sentrycrashcpu_registerValue_arm_def
    sentrycrashcpu_registerValue_x86_64_def sentrycrashcpu_registerValue_x86_32_def)

interpretation arm64: register_file arm64_cpu g_registerNames_arm64 arm64_values
  by unfold_locales
    (simp_all add: arm64_cpu_def register_names_distinct sentrycrashcpu_numRegisters_arm64_def
      sentrycrashcpu_registerName_arm64_def table_name_at value_arm64 no_value_at)

interpretation arm: register_file arm_cpu g_registerNames_arm arm_values
  by unfold_locales
    (simp_all add: arm_cpu_def register_names_distinct sentrycrashcpu_numRegisters_arm_def
      sentrycrashcpu_registerName_arm_def table_name_at value_arm no_value_at)

interpretation x86_64: register_file x86_64_cpu g_registerNames_x86_64 x86_64_values
  by unfold_locales
    (simp_all add: x86_64_cpu_def register_names_distinct sentrycrashcpu_numRegisters_x86_64_def
      sentrycrashcpu_registerName_x86_64_def table_name_at value_x86_64 no_value_at)

interpretation x86_32: register_file x86_32_cpu g_registerNames_x86_32 x86_32_values
  by unfold_locales
    (simp_all add: x86_32_cpu_def register_names_distinct sentrycrashcpu_numRegisters_x86_32_def
      sentrycrashcpu_registerName_x86_32_def table_name_at value_x86_32 no_value_at)

section \<open>Property\<close>

text \<open>
  On every architecture, reading the registers by number lists every field of the register file
  exactly once, under its name.
\<close>

theorem registers_named:
  "registers_of arm64_cpu c64 = Inr (zip (map Some g_registerNames_arm64) (arm64_values c64)) \<and>
   registers_of arm_cpu c32 = Inr (zip (map Some g_registerNames_arm) (arm_values c32)) \<and>
   registers_of x86_64_cpu x64 = Inr (zip (map Some g_registerNames_x86_64) (x86_64_values x64)) \<and>
   registers_of x86_32_cpu x32 = Inr (zip (map Some g_registerNames_x86_32) (x86_32_values x32)) \<and>
   distinct g_registerNames_arm64 \<and> distinct g_registerNames_arm \<and>
   distinct g_registerNames_x86_64 \<and> distinct g_registerNames_x86_32"
  by (simp only: arm64.registers_listed arm.registers_listed x86_64.registers_listed
    x86_32.registers_listed register_names_distinct simp_thms)

end
