(* ===== verification/Stack_Cursor_Spec.thy ===== *)
theory Stack_Cursor_Spec
  imports Stack_Cursor Crash_Cpu_Spec Crash_Memory_Spec
begin

text \<open>
  What walking a stack delivers: from a stopped thread the instruction address, the link register
  where there is one, and the return addresses of the chain of frames; from a list of addresses
  the part of it behind the skipped entries, up to the first address that cannot be code.
\<close>

section \<open>The chain of frames\<close>

text \<open>
  The return addresses of the frames from \<open>a\<close> on. The chain ends at a frame that cannot be read, and
  at the outermost frame, which has no frame or no return address before it and is not reported.
\<close>

fun frame_chain :: "vm \<Rightarrow> nat \<Rightarrow> 64 word \<Rightarrow> 64 word list" where
  "frame_chain vm 0 a = []"
| "frame_chain vm (Suc n) a =
     (case read_frame vm a of
        None \<Rightarrow> []
      | Some frame \<Rightarrow>
          if previous frame = 0 \<or> return_address frame = 0 then []
          else return_address frame # frame_chain vm n (previous frame))"

lemma length_frame_chain: "length (frame_chain vm n a) \<le> n"
  by (induction vm n a rule: frame_chain.induct) (simp_all split: option.split)

definition over_frames :: "'c machine_context_cursor \<Rightarrow> 'c stack_cursor \<Rightarrow> bool" where
  "over_frames context cursor \<longleftrightarrow>
     advanceCursor_fn cursor = MachineContextAdvance \<and> cursor_context cursor = MachineContext context"

lemma run_advance_frames:
  "over_frames context cursor \<Longrightarrow> run_advance cpu vm cursor = Inr (machine_advance cpu vm context cursor)"
  by (simp add: over_frames_def run_advance_def)

lemma walk_done:
  "over_frames context cursor \<Longrightarrow> maxStackDepth context \<le> currentDepth cursor \<Longrightarrow>
    walk cpu vm n cursor = Inr []"
  by (cases n) (simp_all add: run_advance_frames machine_advance_def)

text \<open>Behind the first two addresses: \<open>a\<close> is the frame to be read next.\<close>

definition next_frame :: "'c cpu_ops \<Rightarrow> 'c machine_context_cursor \<Rightarrow> 64 word \<Rightarrow> bool" where
  "next_frame cpu context a \<longleftrightarrow>
     (if isPastFramePointer context then previous (currentFrame context) = a \<and> a \<noteq> 0
      else previous (currentFrame context) = 0 \<and> a = op_framePointer cpu (machineContext context))"

definition at_frame :: "'c machine_context_cursor \<Rightarrow> 64 word \<Rightarrow> 'c machine_context_cursor" where
  "at_frame context a =
     context\<lparr>currentFrame := (currentFrame context)\<lparr>previous := a\<rparr>, isPastFramePointer := True\<rparr>"

lemma at_frame_past:
  "isPastFramePointer context \<Longrightarrow> previous (currentFrame context) = a \<Longrightarrow> at_frame context a = context"
  by (cases "context") (auto simp: at_frame_def)

lemma advance_frame_next:
  assumes "next_frame cpu context a"
  shows "advance_frame cpu vm context cursor =
    (case read_frame vm a of
       None \<Rightarrow> (False, cursor\<lparr>cursor_context := MachineContext (at_frame context a)\<rparr>)
     | Some frame \<Rightarrow>
         let context = (at_frame context a)\<lparr>currentFrame := frame\<rparr>
         in if previous frame = 0 \<or> return_address frame = 0
            then (False, cursor\<lparr>cursor_context := MachineContext context\<rparr>)
            else successfulExit cpu (return_address frame) context cursor)"
proof (cases "isPastFramePointer context")
  case True
  with assms have a: "previous (currentFrame context) = a" "a \<noteq> 0" "at_frame context a = context"
    by (simp_all add: next_frame_def at_frame_past)
  then show ?thesis unfolding a(3) by (simp add: advance_frame_def)
next
  case False
  with assms have "previous (currentFrame context) = 0" "a = op_framePointer cpu (machineContext context)"
    by (simp_all add: next_frame_def)
  then show ?thesis using False by (cases "read_frame vm a") (simp_all add: advance_frame_def at_frame_def)
qed

lemma walk_frames:
  "over_frames context cursor \<Longrightarrow> next_frame cpu context a \<Longrightarrow> instructionAddress context \<noteq> 0 \<Longrightarrow>
   linkRegister context \<noteq> 0 \<or> isPastFramePointer context \<or> op_linkRegister cpu (machineContext context) = 0 \<Longrightarrow>
   walk cpu vm n cursor =
     Inr (map (op_normalise cpu)
       (frame_chain vm (min n (nat (maxStackDepth context - currentDepth cursor))) a))"
proof (induction n arbitrary: cursor "context" a)
  case (Suc n)
  show ?case
  proof (cases "maxStackDepth context \<le> currentDepth cursor")
    case True
    then show ?thesis using Suc.prems(1) by (simp only: walk_done) simp
  next
    case False
    let ?left = "nat (maxStackDepth context - currentDepth cursor)"
    obtain k where k: "?left = Suc k" using False by (cases ?left) auto
    obtain context' where c': "machine_advance cpu vm context cursor = advance_frame cpu vm context' cursor"
        "next_frame cpu context' a" "machineContext context' = machineContext context"
        "maxStackDepth context' = maxStackDepth context"
        "instructionAddress context' = instructionAddress context"
    proof (cases "linkRegister context = 0 \<and> \<not> isPastFramePointer context")
      case True
      then have "machine_advance cpu vm context cursor =
          advance_frame cpu vm (context\<lparr>linkRegister := 0\<rparr>) cursor"
        using False Suc.prems(3,4) by (simp add: machine_advance_def)
      then show thesis using that Suc.prems(2) by (simp add: next_frame_def)
    next
      case no: False
      then have "machine_advance cpu vm context cursor = advance_frame cpu vm context cursor"
        using False Suc.prems(3) by (auto simp: machine_advance_def)
      then show thesis using that Suc.prems(2) by simp
    qed
    show ?thesis
    proof (cases "\<exists>frame. read_frame vm a = Some frame \<and> previous frame \<noteq> 0 \<and> return_address frame \<noteq> 0")
      case True
      then obtain frame where frame: "read_frame vm a = Some frame" "previous frame \<noteq> 0"
          "return_address frame \<noteq> 0" by blast
      let ?cx = "(at_frame context' a)\<lparr>currentFrame := frame\<rparr>"
      let ?cursor = "snd (successfulExit cpu (return_address frame) ?cx cursor)"
      have step: "run_advance cpu vm cursor = Inr (True, ?cursor)"
        using Suc.prems(1) frame
        by (simp add: run_advance_frames c'(1) advance_frame_next [OF c'(2)] successfulExit_def)
      have "walk cpu vm n ?cursor = Inr (map (op_normalise cpu)
          (frame_chain vm (min n (nat (maxStackDepth ?cx - currentDepth ?cursor))) (previous frame)))"
        by (rule Suc.IH)
          (use Suc.prems(1,3) frame c' in \<open>simp_all add: over_frames_def successfulExit_def next_frame_def at_frame_def\<close>)
      moreover have "nat (maxStackDepth ?cx - currentDepth ?cursor) = k"
        using k by (simp add: successfulExit_def at_frame_def c'(4))
      ultimately show ?thesis
        using step k frame by (simp add: successfulExit_def)
    next
      case False
      then have "\<exists>cursor'. run_advance cpu vm cursor = Inr (False, cursor')"
        using Suc.prems(1)
        by (auto simp: run_advance_frames c'(1) advance_frame_next [OF c'(2)] Let_def split: option.splits)
      moreover have "frame_chain vm (Suc m) a = []" for m
        using False by (auto split: option.splits)
      ultimately show ?thesis using k by auto
    qed
  qed
qed simp

section \<open>Starting at a thread\<close>

definition thread_addresses :: "'c cpu_ops \<Rightarrow> vm \<Rightarrow> nat \<Rightarrow> 'c \<Rightarrow> 64 word list" where
  "thread_addresses cpu vm n context =
     (if op_instructionAddress cpu context = 0 then []
      else op_instructionAddress cpu context #
        (if op_linkRegister cpu context = 0 then [] else [op_linkRegister cpu context]) @
        frame_chain vm n (op_framePointer cpu context))"

lemma take_frame_chain: "m \<le> n \<Longrightarrow> take m (frame_chain vm n a) = frame_chain vm m a"
proof (induction vm n a arbitrary: m rule: frame_chain.induct)
  case (2 vm n a)
  then show ?case by (cases m) (auto split: option.splits)
qed simp

lemma advance_pc:
  assumes "over_frames context cursor" "instructionAddress context = 0"
    "currentDepth cursor < maxStackDepth context"
    "op_instructionAddress cpu (machineContext context) \<noteq> 0"
  shows "run_advance cpu vm cursor = Inr (successfulExit cpu (op_instructionAddress cpu (machineContext context))
    (context\<lparr>instructionAddress := op_instructionAddress cpu (machineContext context)\<rparr>) cursor)"
  using assms by (simp add: run_advance_frames machine_advance_def)

lemma advance_lr:
  assumes "over_frames context cursor" "instructionAddress context \<noteq> 0" "linkRegister context = 0"
    "\<not> isPastFramePointer context" "currentDepth cursor < maxStackDepth context"
    "op_linkRegister cpu (machineContext context) \<noteq> 0"
  shows "run_advance cpu vm cursor = Inr (successfulExit cpu (op_linkRegister cpu (machineContext context))
    (context\<lparr>linkRegister := op_linkRegister cpu (machineContext context)\<rparr>) cursor)"
  using assms by (simp add: run_advance_frames machine_advance_def)

lemma walk_step:
  "run_advance cpu vm cursor = Inr (successfulExit cpu a context cursor) \<Longrightarrow>
    walk cpu vm (Suc n) cursor =
      bind_run (walk cpu vm n (snd (successfulExit cpu a context cursor))) (\<lambda>rest. Inr (op_normalise cpu a # rest))"
  by (simp add: successfulExit_def)

lemma successfulExit_frames:
  "over_frames context (snd (successfulExit cpu a context cursor)) \<longleftrightarrow>
     advanceCursor_fn cursor = MachineContextAdvance"
  "currentDepth (snd (successfulExit cpu a context cursor)) = currentDepth cursor + 1"
  "advanceCursor_fn (snd (successfulExit cpu a context cursor)) = advanceCursor_fn cursor"
  by (simp_all add: successfulExit_def over_frames_def)

lemma walk_after_pc:
  assumes "over_frames context cursor" "instructionAddress context \<noteq> 0" "linkRegister context = 0"
    "\<not> isPastFramePointer context" "previous (currentFrame context) = 0"
  shows "walk cpu vm n cursor = Inr (map (op_normalise cpu)
    (take (min n (nat (maxStackDepth context - currentDepth cursor)))
      ((if op_linkRegister cpu (machineContext context) = 0 then []
        else [op_linkRegister cpu (machineContext context)]) @
       frame_chain vm n (op_framePointer cpu (machineContext context)))))"
proof (cases "op_linkRegister cpu (machineContext context) = 0")
  case True
  have "next_frame cpu context (op_framePointer cpu (machineContext context))"
    using assms(4,5) by (simp add: next_frame_def)
  from walk_frames [OF assms(1) this assms(2)] True show ?thesis
    by (simp add: take_frame_chain)
next
  case False
  show ?thesis
  proof (cases "n = 0 \<or> maxStackDepth context \<le> currentDepth cursor")
    case True
    then show ?thesis using walk_done [OF assms(1)] by auto
  next
    case more: False
    then obtain m where n: "n = Suc m" by (cases n) auto
    let ?a = "op_linkRegister cpu (machineContext context)"
    let ?cx = "context\<lparr>linkRegister := ?a\<rparr>"
    let ?cursor = "snd (successfulExit cpu ?a ?cx cursor)"
    obtain k where k: "nat (maxStackDepth context - currentDepth cursor) = Suc k"
      using more by (cases "nat (maxStackDepth context - currentDepth cursor)") auto
    then have k': "nat (maxStackDepth ?cx - currentDepth ?cursor) = k"
      by (simp add: successfulExit_frames)
    have "over_frames ?cx ?cursor"
      using assms(1) by (simp add: successfulExit_frames) (simp add: over_frames_def)
    then have "walk cpu vm m ?cursor = Inr (map (op_normalise cpu) (frame_chain vm (min m k)
        (op_framePointer cpu (machineContext context))))"
      unfolding k' [symmetric]
      by (rule walk_frames) (use assms(2,4,5) False in \<open>simp_all add: next_frame_def\<close>)
    moreover have "walk cpu vm n cursor =
        bind_run (walk cpu vm m ?cursor) (\<lambda>rest. Inr (op_normalise cpu ?a # rest))"
      unfolding n by (rule walk_step [OF advance_lr [OF assms(1-4) _ False]]) (use more in simp)
    ultimately show ?thesis
      using False k n by (simp add: take_frame_chain del: walk.simps frame_chain.simps)
  qed
qed


lemma walk_initialised:
  "walk cpu vm n (sentrycrashsc_initWithMachineContext maxDepth c cursor) =
    Inr (map (op_normalise cpu) (take (min n (nat maxDepth)) (thread_addresses cpu vm n c)))"
proof -
  let ?cursor = "sentrycrashsc_initWithMachineContext maxDepth c cursor"
  let ?cx = "\<lparr>machineContext = c, maxStackDepth = maxDepth, currentFrame = no_frame,
    instructionAddress = 0, linkRegister = 0, isPastFramePointer = False\<rparr>"
  have start: "over_frames ?cx ?cursor" "currentDepth ?cursor = 0"
    by (auto simp: over_frames_def sentrycrashsc_initWithMachineContext_def sentrycrashsc_initCursor_def
      run_reset_def machine_resetCursor_def sentrycrashsc_resetCursor_def no_entry_def Let_def
      split: cursor_context.splits)
  show ?thesis
  proof (cases "n = 0 \<or> maxDepth \<le> 0")
    case True
    then show ?thesis using walk_done [OF start(1)] start(2) by auto
  next
    case False
    then obtain m where n: "n = Suc m" by (cases n) auto
    obtain k where k: "nat maxDepth = Suc k" using False by (cases "nat maxDepth") auto
    let ?pc = "op_instructionAddress cpu c"
    show ?thesis
    proof (cases "?pc = 0")
      case True
      then have "\<exists>cursor'. run_advance cpu vm ?cursor = Inr (False, cursor')"
        using False start by (simp add: run_advance_frames machine_advance_def)
      with True show ?thesis by (auto simp: n thread_addresses_def)
    next
      case pc: False
      let ?cx' = "?cx\<lparr>instructionAddress := ?pc\<rparr>"
      let ?cursor' = "snd (successfulExit cpu ?pc ?cx' ?cursor)"
      have "run_advance cpu vm ?cursor = Inr (successfulExit cpu ?pc ?cx' ?cursor)"
        using advance_pc [OF start(1)] False pc start(2) by simp
      then have step: "walk cpu vm n ?cursor =
          bind_run (walk cpu vm m ?cursor') (\<lambda>rest. Inr (op_normalise cpu ?pc # rest))"
        unfolding n by (rule walk_step)
      have "over_frames ?cx' ?cursor'" "nat (maxStackDepth ?cx' - currentDepth ?cursor') = k"
        using start k by (simp_all add: successfulExit_frames) (simp add: over_frames_def)
      with walk_after_pc [of ?cx' ?cursor' cpu vm m] pc
      have "walk cpu vm m ?cursor' = Inr (map (op_normalise cpu) (take (min m k)
          ((if op_linkRegister cpu c = 0 then [] else [op_linkRegister cpu c]) @
           frame_chain vm m (op_framePointer cpu c))))"
        by (simp add: no_frame_def)
      moreover have "take (min m k) (ls @ frame_chain vm (Suc m) a) = take (min m k) (ls @ frame_chain vm m a)"
        for ls a
        using take_frame_chain [of "min m k - length ls" "Suc m" vm a]
          take_frame_chain [of "min m k - length ls" m vm a] by (simp del: frame_chain.simps)
      ultimately show ?thesis
        using pc step k by (simp add: n thread_addresses_def del: frame_chain.simps walk.simps)
    qed
  qed
qed

section \<open>Starting at a list of addresses\<close>

lemma walk_list:
  assumes "currentDepth cursor = int d" "advanceCursor_fn cursor = BacktraceAdvance"
    "cursor_context cursor = BacktraceContext
       \<lparr>skippedEntries = int skip, backtraceLength = int (length addresses), backtrace = addresses\<rparr>"
  shows "walk cpu vm n cursor =
    Inr (map (op_normalise cpu) (take n (takeWhile (\<lambda>a. a > 1) (drop (skip + d) addresses))))"
  using assms
proof (induction n arbitrary: cursor d)
  case (Suc n)
  let ?rest = "drop (skip + d) addresses"
  show ?case
  proof (cases "skip + d < length addresses")
    case True
    let ?a = "addresses ! (skip + d)"
    let ?cursor = "cursor\<lparr>stackEntry := (stackEntry cursor)\<lparr>address := op_normalise cpu ?a\<rparr>,
      currentDepth := currentDepth cursor + 1\<rparr>"
    have rest: "?rest = ?a # drop (skip + Suc d) addresses"
      using Cons_nth_drop_Suc [OF True] by simp
    have index: "nat (int d + int skip) = skip + d" by simp
    have "run_advance cpu vm cursor = Inr (if ?a > 1 then (True, ?cursor) else (False, cursor))"
      using Suc.prems True by (simp add: run_advance_def backtrace_advance_def index Let_def)
    moreover have "walk cpu vm n ?cursor =
        Inr (map (op_normalise cpu) (take n (takeWhile (\<lambda>a. a > 1) (drop (skip + Suc d) addresses))))"
      by (rule Suc.IH) (use Suc.prems in simp_all)
    ultimately show ?thesis using rest by simp
  next
    case False
    then have "run_advance cpu vm cursor = Inr (False, cursor)"
      using Suc.prems by (simp add: run_advance_def backtrace_advance_def)
    then show ?thesis using False by simp
  qed
qed simp

section \<open>Properties\<close>

text \<open>
  C18. Walking the stack of a stopped thread delivers its instruction address, its link register if
  it is set, and then the return addresses along the chain of frame pointers in memory, each one
  normalised, up to the depth asked for and never beyond it, even where the chain is a circle.
\<close>

theorem thread_walk:
  "walk cpu vm n (sentrycrashsc_initWithMachineContext maxDepth c cursor) =
    Inr (map (op_normalise cpu) (take (min n (nat maxDepth)) (thread_addresses cpu vm n c)))"
  by (rule walk_initialised)

text \<open>
  Walking a list of addresses delivers what is behind the skipped entries, up to the first
  address that is 0 or 1.
\<close>

theorem backtrace_walk:
  "walk cpu vm n (sentrycrashsc_initWithBacktrace addresses (int (length addresses)) (int skip) cursor) =
    Inr (map (op_normalise cpu) (take n (takeWhile (\<lambda>a. a > 1) (drop skip addresses))))"
  using walk_list [of _ 0 skip addresses cpu vm n]
  by (simp add: sentrycrashsc_initWithBacktrace_def sentrycrashsc_initCursor_def run_reset_def
    sentrycrashsc_resetCursor_def)

end
