(* ===== verification/Machine_Context.thy ===== *)
theory Machine_Context
  imports Stack_Cursor
begin

text \<open>
  \<open>Recording/Tools/SentryCrashMachineContext.c\<close> and \<open>SentryCrashThread.c\<close>: the state of a thread as a
  crash report needs it, the list of the threads of the process, and stopping all the others. The
  calls of the kernel are parameters; ports and threads are numbers.
\<close>

section \<open>Contexts\<close>

record 'c crash_machine_context =
  mc_thisThread :: nat
  allThreads :: "nat list"
  threadCount :: int
  isCrashedContext :: bool
  isCurrentThread :: bool
  isStackOverflow_flag :: bool
  isSignalContext_flag :: bool
  mcontext :: 'c

definition maxThreads :: nat where "maxThreads = 100"

definition SentryCrashSC_STACK_OVERFLOW_THRESHOLD :: int where
  "SentryCrashSC_STACK_OVERFLOW_THRESHOLD = 150"

text \<open>
  \<open>cpu_getState\<close> is \<open>sentrycrashcpu_getState\<close> for a thread, on registers of the architecture; \<open>zero_regs\<close>
  is what \<open>memset\<close> makes of them. \<open>reserved\<close> tells the threads that the crash reporter itself runs on.
  \<open>task_threads\<close> and what changes the threads act on the kernel's state \<open>'w\<close>.
\<close>

record ('c, 'w) machine_env =
  env_cpu :: "'c cpu_ops"
  env_vm :: vm
  cpu_getState :: "nat \<Rightarrow> 'c \<Rightarrow> 'c"
  zero_regs :: 'c
  thread_self :: nat
  reserved :: "nat \<Rightarrow> bool"
  task_threads :: "'w \<Rightarrow> nat list option"
  thread_suspend :: "nat \<Rightarrow> 'w \<Rightarrow> 'w"
  thread_resume :: "nat \<Rightarrow> 'w \<Rightarrow> 'w"
  port_deallocate :: "nat \<Rightarrow> 'w \<Rightarrow> 'w"

definition sentrycrashthread_self :: "('c, 'w) machine_env \<Rightarrow> nat" where
  "sentrycrashthread_self env = thread_self env"

text \<open>\<open>pthread_getname_np\<close> with the room it is given: the status and the name.\<close>

definition sentrycrashthread_getThreadName ::
    "(nat \<Rightarrow> nat \<Rightarrow> int \<times> bytes) \<Rightarrow> nat \<Rightarrow> nat \<Rightarrow> bool \<times> bytes" where
  "sentrycrashthread_getThreadName pthread_getname thread bufLength =
     (let (status, name) = pthread_getname thread bufLength in (status = 0, name))"

definition sentrycrashmc_getThreadFromContext :: "'c crash_machine_context \<Rightarrow> nat" where
  "sentrycrashmc_getThreadFromContext context = mc_thisThread context"

definition sentrycrashmc_isCrashedContext :: "'c crash_machine_context \<Rightarrow> bool" where
  "sentrycrashmc_isCrashedContext context = isCrashedContext context"

definition isContextForCurrentThread :: "'c crash_machine_context \<Rightarrow> bool" where
  "isContextForCurrentThread context = isCurrentThread context"

definition isSignalContext :: "'c crash_machine_context \<Rightarrow> bool" where
  "isSignalContext context = isSignalContext_flag context"

definition sentrycrashmc_canHaveCPUState :: "'c crash_machine_context \<Rightarrow> bool" where
  "sentrycrashmc_canHaveCPUState context \<longleftrightarrow> \<not> isContextForCurrentThread context \<or> isSignalContext context"

definition sentrycrashmc_hasValidExceptionRegisters :: "'c crash_machine_context \<Rightarrow> bool" where
  "sentrycrashmc_hasValidExceptionRegisters context \<longleftrightarrow>
     sentrycrashmc_canHaveCPUState context \<and> sentrycrashmc_isCrashedContext context"

section \<open>Stack overflow\<close>

text \<open>The memory of a cursor before it is initialised.\<close>

definition no_cursor :: "'c stack_cursor" where
  "no_cursor = \<lparr>stackEntry = no_entry, currentDepth = 0, hasGivenUp = False, resetCursor_fn = DefaultReset,
     advanceCursor_fn = NoAdvance, cursor_context = NoContext\<rparr>"

text \<open>How often a cursor can still advance: the fuel of loops that go to its end.\<close>

definition cursor_room :: "'c stack_cursor \<Rightarrow> nat" where
  "cursor_room cursor =
     (case cursor_context cursor of
        NoContext \<Rightarrow> 0
      | BacktraceContext context \<Rightarrow>
          nat (backtraceLength context - skippedEntries context - currentDepth cursor)
      | MachineContext context \<Rightarrow> nat (maxStackDepth context - currentDepth cursor))"

fun advance_to_end :: "'c cpu_ops \<Rightarrow> vm \<Rightarrow> nat \<Rightarrow> 'c stack_cursor \<Rightarrow> 'c stack_cursor run" where
  "advance_to_end cpu vm 0 cursor = Inl OutOfFuel"
| "advance_to_end cpu vm (Suc fuel) cursor =
     bind_run (run_advance cpu vm cursor) (\<lambda>(found, cursor).
       if found then advance_to_end cpu vm fuel cursor else Inr cursor)"

definition isStackOverflow :: "('c, 'w) machine_env \<Rightarrow> 'c crash_machine_context \<Rightarrow> bool run" where
  "isStackOverflow env context =
     (let cursor = sentrycrashsc_initWithMachineContext SentryCrashSC_STACK_OVERFLOW_THRESHOLD
                     (mcontext context) no_cursor
      in bind_run (advance_to_end (env_cpu env) (env_vm env) (Suc (cursor_room cursor)) cursor) (\<lambda>cursor.
           Inr (hasGivenUp cursor)))"

section \<open>The threads of the process\<close>

text \<open>The loop that gives back the ports reads them from the context, \<open>n\<close> of them.\<close>

fun deallocate_ports :: "('c, 'w) machine_env \<Rightarrow> nat list \<Rightarrow> nat \<Rightarrow> nat \<Rightarrow> 'w \<Rightarrow> 'w run" where
  "deallocate_ports env threads i 0 w = Inr w"
| "deallocate_ports env threads i (Suc n) w =
     bind_run (read_at threads i) (\<lambda>t. deallocate_ports env threads (i + 1) n (port_deallocate env t w))"

definition getThreadList ::
    "('c, 'w) machine_env \<Rightarrow> 'c crash_machine_context \<Rightarrow> 'w \<Rightarrow> (bool \<times> 'c crash_machine_context \<times> 'w) run" where
  "getThreadList env context w =
     (case task_threads env w of
        None \<Rightarrow> Inr (False, context, w)
      | Some threads \<Rightarrow>
          let actualThreadCount = length threads;
              n = min actualThreadCount maxThreads;
              context = context\<lparr>allThreads := take n threads @ drop n (allThreads context), threadCount := int n\<rparr>
          in bind_run (deallocate_ports env (allThreads context) 0 actualThreadCount w) (\<lambda>w.
               Inr (True, context, w)))"

definition fill_context :: "('c, 'w) machine_env \<Rightarrow> nat \<Rightarrow> bool \<Rightarrow> 'c crash_machine_context" where
  "fill_context env thread isCrashed =
     (let context = \<lparr>mc_thisThread = thread, allThreads = replicate maxThreads 0, threadCount = 0,
            isCrashedContext = isCrashed, isCurrentThread = (thread = sentrycrashthread_self env),
            isStackOverflow_flag = False, isSignalContext_flag = False, mcontext = zero_regs env\<rparr>
      in if sentrycrashmc_canHaveCPUState context
         then context\<lparr>mcontext := cpu_getState env thread (mcontext context)\<rparr> else context)"

definition add_crash_facts ::
    "('c, 'w) machine_env \<Rightarrow> 'c crash_machine_context \<Rightarrow> 'w \<Rightarrow> ('c crash_machine_context \<times> 'w) run" where
  "add_crash_facts env context w =
     bind_run (isStackOverflow env context) (\<lambda>overflow.
     bind_run (getThreadList env (context\<lparr>isStackOverflow_flag := overflow\<rparr>) w) (\<lambda>(_, context, w).
       Inr (context, w)))"

definition sentrycrashmc_getContextForThread ::
    "('c, 'w) machine_env \<Rightarrow> nat \<Rightarrow> bool \<Rightarrow> 'w \<Rightarrow> ('c crash_machine_context \<times> 'w) run" where
  "sentrycrashmc_getContextForThread env thread isCrashed w =
     (let context = fill_context env thread isCrashed
      in if sentrycrashmc_isCrashedContext context then add_crash_facts env context w else Inr (context, w))"

definition sentrycrashmc_getContextForSignal ::
    "('c, 'w) machine_env \<Rightarrow> 'c \<Rightarrow> 'c crash_machine_context \<Rightarrow> 'w \<Rightarrow> ('c crash_machine_context \<times> 'w) run" where
  "sentrycrashmc_getContextForSignal env sourceContext context w =
     (let context = context\<lparr>mcontext := sourceContext, mc_thisThread := sentrycrashthread_self env,
            isCrashedContext := True, isSignalContext_flag := True\<rparr>
      in add_crash_facts env context w)"

definition sentrycrashmc_getThreadCount :: "'c crash_machine_context \<Rightarrow> int" where
  "sentrycrashmc_getThreadCount context = threadCount context"

definition sentrycrashmc_getThreadAtIndex :: "'c crash_machine_context \<Rightarrow> nat \<Rightarrow> nat run" where
  "sentrycrashmc_getThreadAtIndex context i = read_at (allThreads context) i"

fun index_of_thread :: "nat list \<Rightarrow> nat \<Rightarrow> nat \<Rightarrow> nat \<Rightarrow> int run" where
  "index_of_thread threads thread i 0 = Inr (-1)"
| "index_of_thread threads thread i (Suc n) =
     bind_run (read_at threads i) (\<lambda>t.
       if t = thread then Inr (int i) else index_of_thread threads thread (i + 1) n)"

definition sentrycrashmc_indexOfThread :: "'c crash_machine_context \<Rightarrow> nat \<Rightarrow> int run" where
  "sentrycrashmc_indexOfThread context thread =
     index_of_thread (allThreads context) thread 0 (nat (threadCount context))"

section \<open>Stopping the other threads\<close>

text \<open>Errors of single threads are only logged. The number of threads is that of the list.\<close>

definition may_stop :: "('c, 'w) machine_env \<Rightarrow> nat \<Rightarrow> bool" where
  "may_stop env thread \<longleftrightarrow> thread \<noteq> sentrycrashthread_self env \<and> \<not> reserved env thread"

definition sentrycrashmc_suspendEnvironment_upToMaxSupportedThreads ::
    "('c, 'w) machine_env \<Rightarrow> nat \<Rightarrow> 'w \<Rightarrow> nat list option \<times> nat \<times> 'w" where
  "sentrycrashmc_suspendEnvironment_upToMaxSupportedThreads env maxSupportedThreads w =
     (case task_threads env w of
        None \<Rightarrow> (None, 0, w)
      | Some threads \<Rightarrow>
          if length threads > maxSupportedThreads then (Some threads, 0, w)
          else (Some threads, length threads, fold (thread_suspend env) (filter (may_stop env) threads) w))"

definition UINT32_MAX :: nat where "UINT32_MAX = 4294967295"

definition sentrycrashmc_suspendEnvironment ::
    "('c, 'w) machine_env \<Rightarrow> 'w \<Rightarrow> nat list option \<times> nat \<times> 'w" where
  "sentrycrashmc_suspendEnvironment env w =
     sentrycrashmc_suspendEnvironment_upToMaxSupportedThreads env UINT32_MAX w"

definition sentrycrashmc_resumeEnvironment ::
    "('c, 'w) machine_env \<Rightarrow> nat list option \<Rightarrow> nat \<Rightarrow> 'w \<Rightarrow> 'w run" where
  "sentrycrashmc_resumeEnvironment env threads numThreads w =
     (case threads of
        None \<Rightarrow> Inr w
      | Some threads \<Rightarrow>
          if numThreads = 0 then Inr w
          else if length threads < numThreads then Inl UndefinedBehaviour
          else
            let threads = take numThreads threads;
                w = fold (thread_resume env) (filter (may_stop env) threads) w
            in Inr (fold (port_deallocate env) threads w))"

end
