(* ===== verification/Machine_Context_Spec.thy ===== *)
theory Machine_Context_Spec
  imports Machine_Context Stack_Cursor_Spec
begin

text \<open>
  Loops over a cursor come to its end, the list of threads is complete as long as it fits, and
  what is suspended is resumed.
\<close>

section \<open>Cursors come to an end\<close>

definition good_cursor :: "'c stack_cursor \<Rightarrow> bool" where
  "good_cursor cursor \<longleftrightarrow>
     (case (advanceCursor_fn cursor, cursor_context cursor) of
        (NoAdvance, _) \<Rightarrow> True
      | (BacktraceAdvance, BacktraceContext context) \<Rightarrow>
          0 \<le> currentDepth cursor \<and> 0 \<le> skippedEntries context \<and>
          backtraceLength context \<le> int (length (backtrace context))
      | (MachineContextAdvance, MachineContext context) \<Rightarrow> True
      | _ \<Rightarrow> False)"

lemma advance_frame_good:
  assumes "advance_frame cpu vm context cursor = (found, cursor')"
  shows "(\<exists>context'. cursor_context cursor' = MachineContext context' \<and>
      maxStackDepth context' = maxStackDepth context) \<and> advanceCursor_fn cursor' = advanceCursor_fn cursor \<and>
    (found \<longrightarrow> currentDepth cursor' = currentDepth cursor + 1)"
  using assms
  by (auto simp: advance_frame_def successfulExit_def Let_def split: if_splits option.splits)

lemma machine_advance_good:
  assumes "machine_advance cpu vm context cursor = (found, cursor')"
    "cursor_context cursor = MachineContext context"
  shows "(\<exists>context'. cursor_context cursor' = MachineContext context' \<and>
      maxStackDepth context' = maxStackDepth context) \<and> advanceCursor_fn cursor' = advanceCursor_fn cursor \<and>
    (found \<longrightarrow> currentDepth cursor' = currentDepth cursor + 1 \<and> currentDepth cursor < maxStackDepth context)"
  using assms
  by (auto simp: machine_advance_def successfulExit_def Let_def dest!: advance_frame_good split: if_splits)

lemma backtrace_advance_good:
  assumes "0 \<le> currentDepth cursor" "0 \<le> skippedEntries context"
    "backtraceLength context \<le> int (length (backtrace context))"
  shows "\<exists>found cursor'. backtrace_advance cpu context cursor = Inr (found, cursor') \<and>
    cursor_context cursor' = cursor_context cursor \<and> advanceCursor_fn cursor' = advanceCursor_fn cursor \<and>
    0 \<le> currentDepth cursor' \<and>
    (found \<longrightarrow> currentDepth cursor' = currentDepth cursor + 1 \<and>
      currentDepth cursor < backtraceLength context - skippedEntries context)"
  using assms by (auto simp: backtrace_advance_def Let_def read_at_def nat_less_iff)

lemma run_advance_good:
  assumes "good_cursor cursor"
  shows "\<exists>found cursor'. run_advance cpu vm cursor = Inr (found, cursor') \<and> good_cursor cursor' \<and>
    (found \<longrightarrow> cursor_room cursor' < cursor_room cursor)"
proof (cases "advanceCursor_fn cursor")
  case NoAdvance
  with assms have "run_advance cpu vm cursor = Inr (False, cursor)" by (simp add: run_advance_def)
  with assms show ?thesis by blast
next
  case BacktraceAdvance
  with assms obtain c where c: "cursor_context cursor = BacktraceContext c"
    by (auto simp: good_cursor_def split: cursor_context.splits)
  with assms BacktraceAdvance backtrace_advance_good [of cursor c cpu] show ?thesis
    by (auto simp: good_cursor_def run_advance_def cursor_room_def)
next
  case MachineContextAdvance
  with assms obtain c where c: "cursor_context cursor = MachineContext c"
    by (auto simp: good_cursor_def split: cursor_context.splits)
  obtain found cursor' where step: "machine_advance cpu vm c cursor = (found, cursor')" by fastforce
  from machine_advance_good [OF step c] MachineContextAdvance c step show ?thesis
    by (auto simp: good_cursor_def run_advance_def cursor_room_def)
qed

lemma good_machine_cursor: "good_cursor (sentrycrashsc_initWithMachineContext n c cursor)"
  by (simp add: good_cursor_def sentrycrashsc_initWithMachineContext_def sentrycrashsc_initCursor_def
    run_reset_def machine_resetCursor_def sentrycrashsc_resetCursor_def Let_def split: cursor_context.split)

lemma advance_to_end_returns:
  "good_cursor cursor \<Longrightarrow> cursor_room cursor < fuel \<Longrightarrow> \<exists>cursor'. advance_to_end cpu vm fuel cursor = Inr cursor'"
proof (induction fuel arbitrary: cursor)
  case (Suc fuel)
  obtain found cursor' where "run_advance cpu vm cursor = Inr (found, cursor')" "good_cursor cursor'"
      "found \<longrightarrow> cursor_room cursor' < cursor_room cursor"
    using run_advance_good [OF Suc.prems(1)] by blast
  with Suc.IH [of cursor'] Suc.prems(2) show ?case by (cases found) simp_all
qed simp

lemma isStackOverflow_returns: "\<exists>b. isStackOverflow env context = Inr b"
proof -
  let ?cursor = "sentrycrashsc_initWithMachineContext SentryCrashSC_STACK_OVERFLOW_THRESHOLD (mcontext context) no_cursor"
  have "good_cursor ?cursor" by (rule good_machine_cursor)
  from advance_to_end_returns [OF this lessI, of "env_cpu env" "env_vm env"]
  obtain c where "advance_to_end (env_cpu env) (env_vm env) (Suc (cursor_room ?cursor)) ?cursor = Inr c" by blast
  then show ?thesis by (simp add: isStackOverflow_def Let_def)
qed

section \<open>The list of threads\<close>

lemma deallocate_ports_reads:
  "i + n \<le> length threads \<Longrightarrow>
    deallocate_ports env threads i n w = Inr (fold (port_deallocate env) (take n (drop i threads)) w)"
proof (induction n arbitrary: i w)
  case (Suc n)
  then have "take (Suc n) (drop i threads) = threads ! i # take n (drop (i + 1) threads)"
    by (simp add: take_Suc Cons_nth_drop_Suc [symmetric] hd_drop_conv_nth)
  with Suc show ?case by simp
qed simp

lemma deallocate_ports_past:
  "i \<le> length threads \<Longrightarrow> length threads < i + n \<Longrightarrow> deallocate_ports env threads i n w = Inl UndefinedBehaviour"
proof (induction n arbitrary: i w)
  case (Suc n)
  show ?case
  proof (cases "i < length threads")
    case False
    then show ?thesis by simp
  qed (use Suc in simp)
qed simp

definition lists_threads :: "nat list \<Rightarrow> 'c crash_machine_context \<Rightarrow> bool" where
  "lists_threads threads context \<longleftrightarrow>
     threadCount context = int (length threads) \<and> length (allThreads context) = maxThreads \<and>
     take (length threads) (allThreads context) = threads"

lemma crash_facts_fit:
  assumes "task_threads env w = Some threads" "length threads \<le> maxThreads" "length (allThreads context) = maxThreads"
  shows "\<exists>context'. add_crash_facts env context w = Inr (context', fold (port_deallocate env) threads w) \<and>
    lists_threads threads context'"
proof -
  obtain b where "isStackOverflow env context = Inr b" using isStackOverflow_returns by blast
  then show ?thesis
    using assms by (simp add: add_crash_facts_def getThreadList_def Let_def lists_threads_def deallocate_ports_reads)
qed

lemma crash_facts_overrun:
  assumes "task_threads env w = Some threads" "maxThreads < length threads" "length (allThreads context) = maxThreads"
  shows "add_crash_facts env context w = Inl UndefinedBehaviour"
proof -
  obtain b where "isStackOverflow env context = Inr b" using isStackOverflow_returns by blast
  then show ?thesis
    using assms by (simp add: add_crash_facts_def getThreadList_def Let_def deallocate_ports_past)
qed

lemma filled_context:
  "length (allThreads (fill_context env thread isCrashed)) = maxThreads"
  "sentrycrashmc_isCrashedContext (fill_context env thread isCrashed) = isCrashed"
  by (simp_all add: fill_context_def Let_def sentrycrashmc_isCrashedContext_def)

lemma index_of_thread_found:
  "i + n \<le> length threads \<Longrightarrow> distinct threads \<Longrightarrow> i \<le> k \<Longrightarrow> k < i + n \<Longrightarrow>
    index_of_thread threads (threads ! k) i n = Inr (int k)"
proof (induction n arbitrary: i)
  case (Suc n)
  then have "threads ! i = threads ! k \<longleftrightarrow> i = k" by (intro nth_eq_iff_index_eq) simp_all
  with Suc show ?case by auto
qed simp

lemma index_of_thread_prefix:
  "take (length threads) all = threads \<Longrightarrow> i + n \<le> length threads \<Longrightarrow>
    index_of_thread all thread i n = index_of_thread threads thread i n"
proof (induction n arbitrary: i)
  case (Suc n)
  have i: "i < length threads" using Suc.prems(2) by simp
  have "threads ! i = take (length threads) all ! i" using Suc.prems(1) by (rule arg_cong [OF sym])
  then have "threads ! i = all ! i" using i by simp
  moreover have "length threads = min (length all) (length threads)" using Suc.prems(1) by (metis length_take)
  ultimately have "read_at all i = read_at threads i" using i by simp
  with Suc show ?case by (simp add: bind_run_def split: sum.split)
qed simp

section \<open>Properties\<close>

text \<open>
  C27. The context of a crashed thread lists exactly the threads of the process, in the kernel's order,
  and finds each of them again by its number, as long as there are at most 100; every port the
  kernel gave is given back once.
\<close>

theorem thread_list_complete:
  assumes "task_threads env w = Some threads" "length threads \<le> 100" "distinct threads"
  shows "\<exists>context. sentrycrashmc_getContextForThread env thread True w =
      Inr (context, fold (port_deallocate env) threads w) \<and>
    sentrycrashmc_getThreadCount context = int (length threads) \<and>
    (\<forall>i < length threads. sentrycrashmc_getThreadAtIndex context i = Inr (threads ! i) \<and>
      sentrycrashmc_indexOfThread context (threads ! i) = Inr (int i))"
proof -
  obtain context' where run: "sentrycrashmc_getContextForThread env thread True w =
      Inr (context', fold (port_deallocate env) threads w)" and c': "lists_threads threads context'"
    using crash_facts_fit [OF assms(1) _ filled_context(1) [of env thread True]] assms(2)
    by (auto simp: sentrycrashmc_getContextForThread_def filled_context maxThreads_def)
  have index: "index_of_thread (allThreads context') (threads ! i) 0 (length threads) = Inr (int i)"
    if "i < length threads" for i
    using index_of_thread_prefix [of threads "allThreads context'" 0 "length threads" "threads ! i"]
      index_of_thread_found [of 0 "length threads" threads i] that c' assms(3)
    by (simp add: lists_threads_def)
  have at: "read_at (allThreads context') i = Inr (threads ! i)" if "i < length threads" for i
    using that c' assms(2) by (simp add: lists_threads_def maxThreads_def) (metis nth_take)
  show ?thesis
    using run c' index at
    by (simp add: lists_threads_def sentrycrashmc_getThreadCount_def sentrycrashmc_getThreadAtIndex_def
      sentrycrashmc_indexOfThread_def)
qed

text \<open>A process with given threads, on a kernel that logs the ports it gets back.\<close>

definition threads_env :: "nat list \<Rightarrow> (arm64_context, nat list) machine_env" where
  "threads_env threads =
     \<lparr>env_cpu = arm64_cpu, env_vm = (\<lambda>_ _. None), cpu_getState = (\<lambda>_ c. c),
      zero_regs = \<lparr>thisThread = 0, cpu_ss = (\<lambda>_. 0), cpu_es = (\<lambda>_. 0)\<rparr>, thread_self = 7,
      reserved = (\<lambda>t. t = 9), task_threads = (\<lambda>_. Some threads),
      thread_suspend = (\<lambda>t log. log @ [t]), thread_resume = (\<lambda>t log. removeAll t log),
      port_deallocate = (\<lambda>t log. log @ [t])\<rparr>"

theorem thread_list_complete_witness:
  "\<exists>context. sentrycrashmc_getContextForThread (threads_env [5, 7]) 5 True [] = Inr (context, [5, 7]) \<and>
    sentrycrashmc_indexOfThread context 7 = Inr 1"
  using thread_list_complete [of "threads_env [5, 7]" "[]" "[5, 7]" 5]
  by (auto simp: threads_env_def All_less_Suc2 numeral_2_eq_2)

text \<open>
  A process with more than 100 threads makes the crash handler read past the list of threads in its
  context, for every context: the loop that gives back the ports counts with the kernel's number.
\<close>

theorem thread_list_overrun:
  assumes "task_threads env w = Some threads" "100 < length threads"
  shows "sentrycrashmc_getContextForThread env thread True w = Inl UndefinedBehaviour"
  using crash_facts_overrun [OF assms(1) _ filled_context(1)] assms(2)
  by (simp add: sentrycrashmc_getContextForThread_def filled_context maxThreads_def)

theorem thread_list_overrun_witness:
  "sentrycrashmc_getContextForThread (threads_env [0 ..< 101]) 5 True [] = Inl UndefinedBehaviour"
  by (rule thread_list_overrun [of _ _ "[0 ..< 101]"]) (simp_all add: threads_env_def)

text \<open>
  Stopping the other threads and letting them go again leaves every thread as often suspended as
  before: whatever the list of threads, the same threads are suspended and resumed, and never the
  thread that asks nor one of the crash reporter's own. \<open>suspended\<close> counts the suspensions of a
  thread, giving back ports does not change them.
\<close>

lemma fold_suspend:
  assumes "\<And>t u w. suspended (f t w) u = suspended w u + (if u = t then d else (0 :: int))"
  shows "suspended (fold f ts w) u = suspended w u + d * int (count_list ts u)"
  by (induction ts arbitrary: w) (simp_all add: assms algebra_simps)

lemma fold_same:
  assumes "\<And>t w. g (f t w) = g w"
  shows "g (fold f ts w) = g w"
  by (induction ts arbitrary: w) (simp_all add: assms)

theorem suspend_resume_balanced:
  assumes "\<And>t u w. suspended (thread_suspend env t w) u = suspended w u + (if u = t then 1 else (0 :: int))"
    "\<And>t u w. suspended (thread_resume env t w) u = suspended w u - (if u = t then 1 else 0)"
    "\<And>t w. suspended (port_deallocate env t w) = suspended w"
    "sentrycrashmc_suspendEnvironment_upToMaxSupportedThreads env n w = (threads, numThreads, w1)"
    "sentrycrashmc_resumeEnvironment env threads numThreads w1 = Inr w2"
  shows "suspended w2 = suspended w \<and> suspended w1 (thread_self env) = suspended w (thread_self env) \<and>
    (\<forall>t. reserved env t \<longrightarrow> suspended w1 t = suspended w t)"
proof (cases "task_threads env w")
  case None
  with assms(4,5) show ?thesis
    by (simp add: sentrycrashmc_suspendEnvironment_upToMaxSupportedThreads_def sentrycrashmc_resumeEnvironment_def)
next
  case (Some ts)
  show ?thesis
  proof (cases "n < length ts \<or> ts = []")
    case True
    with Some assms(4) have "numThreads = 0" "w1 = w"
      by (auto simp: sentrycrashmc_suspendEnvironment_upToMaxSupportedThreads_def)
    with assms(5) show ?thesis by (simp add: sentrycrashmc_resumeEnvironment_def split: option.splits)
  next
    case False
    let ?stop = "filter (may_stop env) ts"
    from False Some assms(4) have w1: "w1 = fold (thread_suspend env) ?stop w" "threads = Some ts"
        "numThreads = length ts"
      by (simp_all add: sentrycrashmc_suspendEnvironment_upToMaxSupportedThreads_def)
    with assms(5) False have w2: "w2 = fold (port_deallocate env) ts (fold (thread_resume env) ?stop w1)"
      by (simp add: sentrycrashmc_resumeEnvironment_def)
    have s: "suspended w1 u = suspended w u + int (count_list ?stop u)" for u
      using fold_suspend [of suspended "thread_suspend env" 1] assms(1) by (simp add: w1)
    have r: "suspended w2 u = suspended w1 u - int (count_list ?stop u)" for u
      using fold_suspend [of suspended "thread_resume env" "-1"] assms(2)
        fold_same [of suspended "port_deallocate env"] assms(3) by (simp add: w2)
    have none: "count_list ?stop t = 0" if "\<not> may_stop env t" for t
      using that by (simp add: count_list_0_iff)
    show ?thesis
      using s r none by (auto simp: may_stop_def sentrycrashthread_self_def)
  qed
qed

end
