(* ===== verification/Binary_Image_Cache.thy ===== *)
theory Binary_Image_Cache
  imports Dynamic_Linker_Spec
begin

text \<open>
  \<open>Recording/SentryCrashBinaryImageCache.c\<close>: a linked list of the images that were loaded, kept so
  that a crash handler can walk it without a lock. The nodes live in a store, by number; node 0 is
  the static \<open>rootNode\<close>. What the mutex protects is one step; \<open>binaryImageAdded\<close> has a step
  before the lock, one under it, and one after it.
\<close>

section \<open>The list\<close>

record image_node =
  node_image :: binary_image
  node_available :: bool
  node_next :: "nat option"

text \<open>The two callbacks act on a world \<open>'w\<close>, the client's.\<close>

record 'w image_cache =
  nodes :: "nat \<Rightarrow> image_node option"
  tailNode :: "nat option"
  imageAddedCallback :: "(binary_image \<Rightarrow> 'w \<Rightarrow> 'w) option"
  imageRemovedCallback :: "(binary_image \<Rightarrow> 'w \<Rightarrow> 'w) option"
  client :: 'w

definition rootNode :: nat where "rootNode = 0"

definition initial_cache :: "'w \<Rightarrow> 'w image_cache" where
  "initial_cache w =
     \<lparr>nodes = [rootNode \<mapsto> \<lparr>node_image = no_image, node_available = False, node_next = None\<rparr>],
      tailNode = None, imageAddedCallback = None, imageRemovedCallback = None, client = w\<rparr>"

definition node_at :: "'w image_cache \<Rightarrow> nat \<Rightarrow> image_node run" where
  "node_at c p = deref (nodes c p)"

definition set_node :: "nat \<Rightarrow> image_node \<Rightarrow> 'w image_cache \<Rightarrow> 'w image_cache" where
  "set_node p n c = c\<lparr>nodes := (nodes c)(p \<mapsto> n)\<rparr>"

definition notify :: "(binary_image \<Rightarrow> 'w \<Rightarrow> 'w) option \<Rightarrow> binary_image \<Rightarrow> 'w image_cache \<Rightarrow> 'w image_cache" where
  "notify callback img c = (case callback of None \<Rightarrow> c | Some f \<Rightarrow> c\<lparr>client := f img (client c)\<rparr>)"

section \<open>Adding\<close>

text \<open>
  The part before the second lock: whether there is a cache at all, and the image of the header, if
  it can be told. \<open>dladdr\<close> gives the name.
\<close>

definition image_to_add ::
    "macho_memory \<Rightarrow> (addr \<Rightarrow> (addr \<times> nat) option) \<Rightarrow> (addr \<Rightarrow> dl_info option) \<Rightarrow> addr \<Rightarrow>
       'w image_cache \<Rightarrow> binary_image option run" where
  "image_to_add m getsectiondata dladdr header c =
     (if tailNode c = None then Inr None
      else
        case dladdr header of
          None \<Rightarrow> Inr None
        | Some info \<Rightarrow>
            if dli_fname info = None then Inr None
            else
              bind_run (sentrycrashdl_getBinaryImageForHeader m getsectiondata header (dli_fname info) no_image False)
                (\<lambda>(good, img). Inr (if good then Some img else None)))"

text \<open>
  The part under the second lock. \<open>p\<close> is the memory for the new node; the answer is whether the node
  was taken into the list or freed again.
\<close>

definition append_node :: "nat \<Rightarrow> binary_image \<Rightarrow> 'w image_cache \<Rightarrow> (bool \<times> 'w image_cache) run" where
  "append_node p img c =
     (case tailNode c of
        None \<Rightarrow> Inr (False, c)
      | Some t \<Rightarrow>
          let c = set_node p \<lparr>node_image = img, node_available = True, node_next = None\<rparr> c
          in bind_run (node_at c t) (\<lambda>n.
               Inr (True, (set_node t (n\<lparr>node_next := Some p\<rparr>) c)\<lparr>tailNode := Some p\<rparr>)))"

text \<open>The part after it, which reads the image from the new node.\<close>

definition call_added :: "nat \<Rightarrow> 'w image_cache \<Rightarrow> 'w image_cache run" where
  "call_added p c =
     (case imageAddedCallback c of
        None \<Rightarrow> Inr c
      | Some f \<Rightarrow> bind_run (node_at c p) (\<lambda>n. Inr (notify (Some f) (node_image n) c)))"

text \<open>Without interruption the three are \<open>binaryImageAdded\<close>. A failed \<open>malloc\<close> is not looked for.\<close>

definition binaryImageAdded ::
    "macho_memory \<Rightarrow> (addr \<Rightarrow> (addr \<times> nat) option) \<Rightarrow> (addr \<Rightarrow> dl_info option) \<Rightarrow> addr \<Rightarrow> nat option \<Rightarrow>
       'w image_cache \<Rightarrow> 'w image_cache run" where
  "binaryImageAdded m getsectiondata dladdr header memory c =
     bind_run (image_to_add m getsectiondata dladdr header c) (\<lambda>img.
       case img of
         None \<Rightarrow> Inr c
       | Some img \<Rightarrow>
           bind_run (deref memory) (\<lambda>p.
           bind_run (append_node p img c) (\<lambda>(kept, c).
             if kept then call_added p c else Inr c)))"

section \<open>Removing\<close>

text \<open>
  The walk along the list. A list of \<open>n\<close> nodes is walked in \<open>n\<close> steps; the fuel is for lists that
  would go round.
\<close>

fun mark_removed :: "nat \<Rightarrow> addr \<Rightarrow> nat option \<Rightarrow> 'w image_cache \<Rightarrow> 'w image_cache run" where
  "mark_removed fuel header None c = Inr c"
| "mark_removed 0 header (Some p) c = Inl OutOfFuel"
| "mark_removed (Suc fuel) header (Some p) c =
     bind_run (node_at c p) (\<lambda>n.
       if bi_address (node_image n) = header
       then Inr (notify (imageRemovedCallback c) (node_image n) (set_node p (n\<lparr>node_available := False\<rparr>) c))
       else mark_removed fuel header (node_next n) c)"

definition binaryImageRemoved :: "nat \<Rightarrow> addr \<Rightarrow> 'w image_cache \<Rightarrow> 'w image_cache run" where
  "binaryImageRemoved fuel header c = mark_removed fuel header (Some rootNode) c"

section \<open>Iterating\<close>

text \<open>The images that the callback gets, in order.\<close>

fun images_from :: "nat \<Rightarrow> nat option \<Rightarrow> 'w image_cache \<Rightarrow> binary_image list run" where
  "images_from fuel None c = Inr []"
| "images_from 0 (Some p) c = (if tailNode c = None then Inr [] else Inl OutOfFuel)"
| "images_from (Suc fuel) (Some p) c =
     (if tailNode c = None then Inr []
      else bind_run (node_at c p) (\<lambda>n.
           bind_run (images_from fuel (node_next n) c) (\<lambda>rest.
             Inr (if node_available n then node_image n # rest else rest))))"

definition sentrycrashbic_iterateOverImages :: "nat \<Rightarrow> 'w image_cache \<Rightarrow> binary_image list run" where
  "sentrycrashbic_iterateOverImages fuel c = images_from fuel (Some rootNode) c"

section \<open>Starting and stopping\<close>

text \<open>
  Registering with \<open>dyld\<close> calls \<open>binaryImageAdded\<close> for every image that is loaded already: these are
  additions like others.
\<close>

definition sentrycrashbic_startCache :: "'w image_cache \<Rightarrow> 'w image_cache run" where
  "sentrycrashbic_startCache c =
     (if tailNode c \<noteq> None then Inr c
      else bind_run (node_at c rootNode) (\<lambda>n.
             Inr (set_node rootNode (n\<lparr>node_next := None\<rparr>) (c\<lparr>tailNode := Some rootNode\<rparr>))))"

fun free_nodes :: "nat \<Rightarrow> nat option \<Rightarrow> 'w image_cache \<Rightarrow> 'w image_cache run" where
  "free_nodes fuel None c = Inr c"
| "free_nodes 0 (Some p) c = Inl OutOfFuel"
| "free_nodes (Suc fuel) (Some p) c =
     bind_run (node_at c p) (\<lambda>n. free_nodes fuel (node_next n) (c\<lparr>nodes := (nodes c)(p := None)\<rparr>))"

definition sentrycrashbic_stopCache :: "nat \<Rightarrow> 'w image_cache \<Rightarrow> 'w image_cache run" where
  "sentrycrashbic_stopCache fuel c =
     (if tailNode c = None then Inr c
      else bind_run (node_at c rootNode) (\<lambda>n.
             free_nodes fuel (node_next n)
               ((set_node rootNode (n\<lparr>node_next := None\<rparr>) c)\<lparr>tailNode := None\<rparr>)))"

section \<open>Callbacks\<close>

definition sentrycrashbic_registerAddedCallback ::
    "nat \<Rightarrow> (binary_image \<Rightarrow> 'w \<Rightarrow> 'w) option \<Rightarrow> 'w image_cache \<Rightarrow> 'w image_cache run" where
  "sentrycrashbic_registerAddedCallback fuel callback c =
     (let c = c\<lparr>imageAddedCallback := callback\<rparr>
      in case callback of
           None \<Rightarrow> Inr c
         | Some f \<Rightarrow> bind_run (sentrycrashbic_iterateOverImages fuel c) (\<lambda>images.
                       Inr (c\<lparr>client := fold f images (client c)\<rparr>)))"

definition sentrycrashbic_registerRemovedCallback ::
    "(binary_image \<Rightarrow> 'w \<Rightarrow> 'w) option \<Rightarrow> 'w image_cache \<Rightarrow> 'w image_cache" where
  "sentrycrashbic_registerRemovedCallback callback c = c\<lparr>imageRemovedCallback := callback\<rparr>"

end
