(* ===== verification/Binary_Image_Cache_Spec.thy ===== *)
theory Binary_Image_Cache_Spec
  imports Binary_Image_Cache
begin

text \<open>
  The cache as a log of images: stopped, or a list of images with whether each is still there. Every
  history of additions, removals, starts and stops of the linked list agrees with the log, and the
  walk of a crash handler delivers what the log says.
\<close>

section \<open>Linked lists\<close>

fun linked :: "(nat \<Rightarrow> image_node option) \<Rightarrow> nat list \<Rightarrow> bool" where
  "linked ns [] = True"
| "linked ns (p # ps) \<longleftrightarrow>
     (\<exists>n. ns p = Some n \<and> node_next n = (case ps of [] \<Rightarrow> None | q # _ \<Rightarrow> Some q)) \<and> linked ns ps"

lemma linked_cong: "(\<And>p. p \<in> set ps \<Longrightarrow> ns p = ms p) \<Longrightarrow> linked ns ps = linked ms ps"
  by (induction ps) auto

lemma linked_mapped: "linked ns ps \<Longrightarrow> p \<in> set ps \<Longrightarrow> ns p \<noteq> None"
  by (induction ps) auto

lemma linked_append:
  assumes "linked ns (ps @ [t])" "ns t = Some n" "distinct (ps @ [t])" "p \<notin> set (ps @ [t])" "node_next m = None"
  shows "linked (ns(p \<mapsto> m, t \<mapsto> n\<lparr>node_next := Some p\<rparr>)) (ps @ [t, p])"
  using assms(1,3,4)
proof (induction ps)
  case Nil
  then show ?case using assms(5) by auto
next
  case (Cons q ps)
  then show ?case by (cases ps) auto
qed

text \<open>What a list of nodes holds.\<close>

definition held :: "(nat \<Rightarrow> image_node option) \<Rightarrow> nat list \<Rightarrow> (binary_image \<times> bool) list" where
  "held ns ps = map (\<lambda>p. (node_image (the (ns p)), node_available (the (ns p)))) ps"

lemma held_append: "held ns (ps @ qs) = held ns ps @ held ns qs"
  by (simp add: held_def)

lemma linked_upd [simp]: "p \<notin> set ps \<Longrightarrow> linked (ns(p := x)) ps = linked ns ps"
  by (rule linked_cong) auto

lemma held_upd [simp]: "p \<notin> set ps \<Longrightarrow> held (ns(p := x)) ps = held ns ps"
  by (auto simp: held_def)

section \<open>The log\<close>

type_synonym image_log = "(binary_image \<times> bool) list option"

definition log_images :: "image_log \<Rightarrow> binary_image list" where
  "log_images l = (case l of None \<Rightarrow> [] | Some xs \<Rightarrow> map fst (filter snd xs))"

text \<open>A removal marks the first image at the address, also when it was marked before.\<close>

fun mark_first :: "addr \<Rightarrow> (binary_image \<times> bool) list \<Rightarrow> (binary_image \<times> bool) list" where
  "mark_first a [] = []"
| "mark_first a ((img, there) # xs) =
     (if bi_address img = a then (img, False) # xs else (img, there) # mark_first a xs)"

definition root_ok :: "'w image_cache \<Rightarrow> bool" where
  "root_ok c \<longleftrightarrow> (\<exists>n. nodes c rootNode = Some n \<and> node_image n = no_image \<and> \<not> node_available n)"

definition shows_log :: "'w image_cache \<Rightarrow> image_log \<Rightarrow> nat list \<Rightarrow> bool" where
  "shows_log c l ps \<longleftrightarrow> root_ok c \<and> distinct (rootNode # ps) \<and> linked (nodes c) (rootNode # ps) \<and>
     (case l of None \<Rightarrow> ps = [] \<and> tailNode c = None
      | Some xs \<Rightarrow> tailNode c = Some (last (rootNode # ps)) \<and> held (nodes c) ps = xs)"

lemma images_from_linked:
  assumes "linked (nodes c) ps" "tailNode c \<noteq> None" "length ps \<le> fuel"
  shows "images_from fuel (case ps of [] \<Rightarrow> None | p # _ \<Rightarrow> Some p) c =
    Inr (map fst (filter snd (held (nodes c) ps)))"
  using assms
proof (induction ps arbitrary: fuel)
  case (Cons p ps)
  then obtain n where n: "nodes c p = Some n" "node_next n = (case ps of [] \<Rightarrow> None | q # _ \<Rightarrow> Some q)"
    by auto
  from Cons.prems(3) obtain k where k: "fuel = Suc k" "length ps \<le> k" by (cases fuel) auto
  show ?case
    using Cons.IH [OF _ Cons.prems(2) k(2)] Cons.prems n k(1) by (auto simp: node_at_def held_def)
qed (simp add: held_def)

lemma iterate_log:
  assumes "shows_log c l ps" "length ps < fuel"
  shows "sentrycrashbic_iterateOverImages fuel c = Inr (log_images l)"
proof (cases l)
  case None
  then show ?thesis using assms
    by (cases fuel) (auto simp: shows_log_def sentrycrashbic_iterateOverImages_def log_images_def)
next
  case (Some xs)
  with assms have "linked (nodes c) (rootNode # ps)" "tailNode c \<noteq> None" "length (rootNode # ps) \<le> fuel"
    by (auto simp: shows_log_def)
  from images_from_linked [OF this] Some assms(1) show ?thesis
    by (auto simp: sentrycrashbic_iterateOverImages_def log_images_def shows_log_def root_ok_def held_def)
qed

lemma append_log:
  assumes "shows_log c l ps" "nodes c p = None"
  shows "\<exists>c' kept. append_node p img c = Inr (kept, c') \<and>
    (kept \<longrightarrow> imageAddedCallback c' = imageAddedCallback c \<and> (\<exists>n. nodes c' p = Some n \<and> node_image n = img)) \<and>
    shows_log c' (map_option (\<lambda>xs. xs @ [(img, True)]) l) (if l = None then ps else ps @ [p])"
proof (cases l)
  case None
  then show ?thesis using assms(1) by (auto simp: shows_log_def append_node_def)
next
  case (Some xs)
  let ?t = "last (rootNode # ps)" and ?before = "butlast (rootNode # ps)"
  let ?m = "\<lparr>node_image = img, node_available = True, node_next = None\<rparr>"
  have all: "?before @ [?t] = rootNode # ps" by simp
  have new: "p \<notin> set (rootNode # ps)"
    using assms linked_mapped [of "nodes c" "rootNode # ps" p] by (auto simp: shows_log_def)
  have tail: "tailNode c = Some ?t" "distinct (rootNode # ps)" "linked (nodes c) (rootNode # ps)"
    using assms(1) Some by (auto simp: shows_log_def)
  obtain n where n: "nodes c ?t = Some n"
    using linked_mapped [OF tail(3), of ?t] by (metis all in_set_conv_decomp not_None_eq)
  have t: "?t \<noteq> p" using new by (metis all in_set_conv_decomp)
  let ?ns = "(nodes c)(p \<mapsto> ?m, ?t \<mapsto> n\<lparr>node_next := Some p\<rparr>)"
  let ?c = "c\<lparr>nodes := ?ns, tailNode := Some p\<rparr>"
  have run: "append_node p img c = Inr (True, ?c)"
    using t n by (simp add: append_node_def tail(1) set_node_def node_at_def Let_def)
  have "linked ?ns (?before @ [?t, p])"
    by (rule linked_append) (use tail new n all in auto)
  then have "linked ?ns (rootNode # ps @ [p])"
    by (metis all append.assoc append_Cons append_Nil)
  moreover have "held ?ns (ps @ [p]) = xs @ [(img, True)]"
  proof -
    have "held ?ns ps = held (nodes c) ps"
      unfolding held_def using new n t by auto
    moreover have "held ?ns [p] = [(img, True)]" using t by (simp add: held_def)
    ultimately show ?thesis using assms(1) Some by (simp add: shows_log_def held_append)
  qed
  moreover have "root_ok ?c"
    using assms(1) new n by (auto simp: shows_log_def root_ok_def)
  ultimately have "shows_log ?c (Some (xs @ [(img, True)])) (ps @ [p])"
    using tail(2) new by (auto simp: shows_log_def)
  then show ?thesis using run Some t by auto
qed

abbreviation first_of :: "nat list \<Rightarrow> nat option" where
  "first_of ps \<equiv> (case ps of [] \<Rightarrow> None | p # _ \<Rightarrow> Some p)"

lemma notify_simps [simp]:
  "nodes (notify f img c) = nodes c" "tailNode (notify f img c) = tailNode c"
  "imageAddedCallback (notify f img c) = imageAddedCallback c"
  by (simp_all add: notify_def split: option.splits)

lemma mark_removed_linked:
  assumes "linked (nodes c) ps" "distinct ps" "length ps \<le> fuel"
  shows "\<exists>c'. mark_removed fuel a (first_of ps) c = Inr c' \<and> linked (nodes c') ps \<and>
    held (nodes c') ps = mark_first a (held (nodes c) ps) \<and>
    (\<forall>p. p \<notin> set ps \<longrightarrow> nodes c' p = nodes c p) \<and> tailNode c' = tailNode c"
  using assms
proof (induction ps arbitrary: fuel)
  case (Cons p ps)
  then obtain n where n: "nodes c p = Some n" "node_next n = first_of ps" and rest: "linked (nodes c) ps"
    by auto
  from Cons.prems(3) obtain k where k: "fuel = Suc k" "length ps \<le> k" by (cases fuel) auto
  have p: "p \<notin> set ps" "distinct ps" using Cons.prems(2) by auto
  show ?case
  proof (cases "bi_address (node_image n) = a")
    case True
    let ?ns = "(nodes c)(p \<mapsto> n\<lparr>node_available := False\<rparr>)"
    have "linked ?ns ps" "held ?ns ps = held (nodes c) ps" using rest p by simp_all
    then show ?thesis
      using True n k(1) by (auto simp: node_at_def set_node_def held_def)
  next
    case False
    from Cons.IH [OF rest p(2) k(2)] obtain c' where
      c': "mark_removed k a (first_of ps) c = Inr c'" "linked (nodes c') ps"
        "held (nodes c') ps = mark_first a (held (nodes c) ps)"
        "\<And>q. q \<notin> set ps \<Longrightarrow> nodes c' q = nodes c q" "tailNode c' = tailNode c"
      by blast
    then show ?thesis
      using False n k(1) p(1) by (auto simp: node_at_def held_def)
  qed
qed (simp add: held_def)

lemma remove_log:
  assumes "shows_log c l ps" "length ps < fuel" "a \<noteq> 0"
  shows "\<exists>c'. binaryImageRemoved fuel a c = Inr c' \<and> shows_log c' (map_option (mark_first a) l) ps"
proof -
  from assms(1) obtain n where
    root: "nodes c rootNode = Some n" "node_image n = no_image" "node_next n = first_of ps" and
    ps: "linked (nodes c) ps" "distinct ps" "rootNode \<notin> set ps"
    by (auto simp: shows_log_def root_ok_def)
  from assms(2) obtain k where k: "fuel = Suc k" "length ps \<le> k" by (cases fuel) auto
  from mark_removed_linked [OF ps(1,2) k(2), of a] obtain c' where
    c': "mark_removed k a (first_of ps) c = Inr c'" "linked (nodes c') ps"
      "held (nodes c') ps = mark_first a (held (nodes c) ps)"
      "\<And>q. q \<notin> set ps \<Longrightarrow> nodes c' q = nodes c q" "tailNode c' = tailNode c"
    by blast
  have "bi_address (node_image n) \<noteq> a" using assms(3) by (simp add: root(2) no_image_def)
  then have "binaryImageRemoved fuel a c = Inr c'"
    using root k(1) c'(1) by (simp add: binaryImageRemoved_def node_at_def)
  moreover have "nodes c' rootNode = nodes c rootNode" using c'(4) ps(3) by blast
  ultimately show ?thesis
    using c' assms(1) by (cases l) (auto simp: shows_log_def root_ok_def)
qed

lemma free_nodes_linked:
  assumes "linked (nodes c) ps" "distinct ps" "length ps \<le> fuel"
  shows "free_nodes fuel (first_of ps) c = Inr (c\<lparr>nodes := (\<lambda>p. if p \<in> set ps then None else nodes c p)\<rparr>)"
  using assms
proof (induction ps arbitrary: fuel c)
  case (Cons p ps)
  then obtain n where n: "nodes c p = Some n" "node_next n = first_of ps" and rest: "linked (nodes c) ps"
    by auto
  from Cons.prems(3) obtain k where k: "fuel = Suc k" "length ps \<le> k" by (cases fuel) auto
  let ?c = "c\<lparr>nodes := (nodes c)(p := None)\<rparr>"
  have p: "p \<notin> set ps" "distinct ps" using Cons.prems(2) by auto
  then have "linked (nodes ?c) ps" using rest by simp
  from Cons.IH [OF this p(2) k(2)] show ?case
    using n k(1) p(1) by (auto simp: node_at_def fun_eq_iff intro!: arg_cong [where f = "\<lambda>ns. c\<lparr>nodes := ns\<rparr>"])
qed (simp add: fun_eq_iff)

lemma stop_log:
  assumes "shows_log c l ps" "length ps \<le> fuel"
  shows "\<exists>c'. sentrycrashbic_stopCache fuel c = Inr c' \<and> shows_log c' None [] \<and>
    imageAddedCallback c' = imageAddedCallback c \<and> (l \<noteq> None \<longrightarrow> (\<forall>p \<in> set ps. nodes c' p = None))"
proof (cases l)
  case None
  then show ?thesis using assms(1) by (auto simp: shows_log_def sentrycrashbic_stopCache_def)
next
  case (Some xs)
  from assms(1) obtain n where
    root: "nodes c rootNode = Some n" "node_image n = no_image" "\<not> node_available n" "node_next n = first_of ps" and
    ps: "linked (nodes c) ps" "distinct ps" "rootNode \<notin> set ps"
    by (auto simp: shows_log_def root_ok_def)
  let ?c = "(set_node rootNode (n\<lparr>node_next := None\<rparr>) c)\<lparr>tailNode := None\<rparr>"
  have "linked (nodes ?c) ps"
    using ps by (simp add: set_node_def)
  from free_nodes_linked [OF this ps(2) assms(2)] show ?thesis
    using assms(1) Some root ps(3)
    by (auto simp: sentrycrashbic_stopCache_def node_at_def shows_log_def root_ok_def set_node_def)
qed

lemma start_log:
  assumes "shows_log c l ps"
  shows "\<exists>c'. sentrycrashbic_startCache c = Inr c' \<and>
    shows_log c' (Some (case l of None \<Rightarrow> [] | Some xs \<Rightarrow> xs)) ps"
  using assms
  by (cases l) (auto simp: shows_log_def sentrycrashbic_startCache_def node_at_def root_ok_def set_node_def held_def)

section \<open>Histories\<close>

text \<open>
  Everything that can happen to the cache, with the log beside it. New nodes are put in memory that
  is not in use.
\<close>

inductive history :: "'w image_cache \<Rightarrow> image_log \<Rightarrow> bool" where
  at_first: "history (initial_cache w) None"
| appended: "history c l \<Longrightarrow> nodes c p = None \<Longrightarrow> append_node p img c = Inr (kept, c') \<Longrightarrow>
    history c' (map_option (\<lambda>xs. xs @ [(img, True)]) l)"
| told_added: "history c l \<Longrightarrow> call_added p c = Inr c' \<Longrightarrow> history c' l"
| removed: "history c l \<Longrightarrow> a \<noteq> 0 \<Longrightarrow> binaryImageRemoved fuel a c = Inr c' \<Longrightarrow>
    history c' (map_option (mark_first a) l)"
| started_cache: "history c l \<Longrightarrow> sentrycrashbic_startCache c = Inr c' \<Longrightarrow>
    history c' (Some (case l of None \<Rightarrow> [] | Some xs \<Rightarrow> xs))"
| stopped_cache: "history c l \<Longrightarrow> sentrycrashbic_stopCache fuel c = Inr c' \<Longrightarrow> history c' None"
| registered_added: "history c l \<Longrightarrow> sentrycrashbic_registerAddedCallback fuel f c = Inr c' \<Longrightarrow> history c' l"
| registered_removed: "history c l \<Longrightarrow> history (sentrycrashbic_registerRemovedCallback f c) l"

section \<open>More fuel changes nothing\<close>

lemma mark_removed_fuel:
  "mark_removed fuel a p c = Inr c' \<Longrightarrow> fuel \<le> k \<Longrightarrow> mark_removed k a p c = Inr c'"
proof (induction fuel a p c arbitrary: k rule: mark_removed.induct)
  case (3 fuel a p c)
  then obtain j where "k = Suc j" "fuel \<le> j" by (cases k) auto
  with 3 show ?case by (auto simp: bind_run_eq_Inr split: if_splits)
qed simp_all

lemma images_from_fuel:
  "images_from fuel p c = Inr xs \<Longrightarrow> fuel \<le> k \<Longrightarrow> images_from k p c = Inr xs"
proof (induction fuel p c arbitrary: k xs rule: images_from.induct)
  case (2 p c)
  then show ?case by (cases k) (auto split: if_splits)
next
  case (3 fuel p c)
  from "3.prems"(2) obtain j where "k = Suc j" "fuel \<le> j" by (cases k) auto
  show ?case
  proof (cases "tailNode c = None")
    case False
    with "3.prems"(1) obtain n rest where n: "node_at c p = Inr n" "images_from fuel (node_next n) c = Inr rest"
      "xs = (if node_available n then node_image n # rest else rest)"
      by (auto simp: bind_run_eq_Inr)
    from "3.IH" [OF False n(2) \<open>fuel \<le> j\<close>] n False \<open>k = Suc j\<close> show ?thesis by auto
  qed (use "3.prems" \<open>k = Suc j\<close> in simp)
qed simp

lemma free_nodes_fuel:
  "free_nodes fuel p c = Inr c' \<Longrightarrow> fuel \<le> k \<Longrightarrow> free_nodes k p c = Inr c'"
proof (induction fuel p c arbitrary: k rule: free_nodes.induct)
  case (3 fuel p c)
  then obtain j where "k = Suc j" "fuel \<le> j" by (cases k) auto
  with 3 show ?case by (auto simp: bind_run_eq_Inr)
qed simp_all

lemma stop_fuel:
  "sentrycrashbic_stopCache fuel c = Inr c' \<Longrightarrow> fuel \<le> k \<Longrightarrow> sentrycrashbic_stopCache k c = Inr c'"
  by (auto simp: sentrycrashbic_stopCache_def bind_run_eq_Inr intro: free_nodes_fuel split: if_splits)

lemma removed_fuel:
  "binaryImageRemoved fuel a c = Inr c' \<Longrightarrow> fuel \<le> k \<Longrightarrow> binaryImageRemoved k a c = Inr c'"
  unfolding binaryImageRemoved_def by (rule mark_removed_fuel)

lemma shows_log_client:
  "nodes c' = nodes c \<Longrightarrow> tailNode c' = tailNode c \<Longrightarrow> shows_log c l ps \<Longrightarrow> shows_log c' l ps"
  by (cases l) (auto simp: shows_log_def root_ok_def)

lemma shows_log_updates [simp]:
  "shows_log (c\<lparr>imageAddedCallback := f\<rparr>) l ps = shows_log c l ps"
  "shows_log (c\<lparr>imageRemovedCallback := f\<rparr>) l ps = shows_log c l ps"
  "shows_log (c\<lparr>client := w\<rparr>) l ps = shows_log c l ps"
  by (cases l; simp add: shows_log_def root_ok_def)+

lemma notify_shows_log: "shows_log c l ps \<Longrightarrow> shows_log (notify f img c) l ps"
  by (rule shows_log_client [of _ c]) simp_all

lemma history_shows_log:
  "history c l \<Longrightarrow> \<exists>ps. shows_log c l ps"
proof (induction rule: history.induct)
  case (at_first w)
  then show ?case
    by (intro exI [of _ "[]"]) (simp add: shows_log_def root_ok_def initial_cache_def)
next
  case (appended c l p img kept c')
  then show ?case using append_log [of c l _ p img] by fastforce
next
  case (told_added c l p c')
  then show ?case
    by (auto simp: call_added_def bind_run_eq_Inr intro: notify_shows_log split: option.splits)
next
  case (removed c l a fuel c')
  then obtain ps where ps: "shows_log c l ps" by blast
  from remove_log [OF ps, of "Suc (length ps + fuel)" a] removed(2) obtain d where
    "binaryImageRemoved (Suc (length ps + fuel)) a c = Inr d" "shows_log d (map_option (mark_first a) l) ps"
    by auto
  with removed_fuel [OF removed(3), of "Suc (length ps + fuel)"] show ?case by auto
next
  case (started_cache c l c')
  then show ?case using start_log by fastforce
next
  case (stopped_cache c l fuel c')
  then obtain ps where ps: "shows_log c l ps" by blast
  from stop_log [OF ps, of "length ps + fuel"] obtain d where
    "sentrycrashbic_stopCache (length ps + fuel) c = Inr d" "shows_log d None []" by auto
  with stop_fuel [OF stopped_cache(2), of "length ps + fuel"] show ?case by auto
next
  case (registered_added c l fuel f c')
  then show ?case
    by (fastforce simp: sentrycrashbic_registerAddedCallback_def Let_def bind_run_eq_Inr split: option.splits)
next
  case (registered_removed c l f)
  then show ?case by (auto simp: sentrycrashbic_registerRemovedCallback_def)
qed

section \<open>Properties\<close>


definition image_named :: "bytes \<Rightarrow> binary_image" where
  "image_named name = no_image\<lparr>bi_address := 0x1000, bi_name := Some name\<rparr>"


text \<open>
  An image that is loaded where another was loaded before is never taken off the list: its
  removal marks the earlier one a second time, and crash reports go on listing it.
\<close>

theorem reloaded_image_stays:
  "bind_run (sentrycrashbic_startCache (initial_cache ())) (\<lambda>c.
   bind_run (append_node 1 (image_named ''first'') c) (\<lambda>(_, c).
   bind_run (binaryImageRemoved 9 0x1000 c) (\<lambda>c.
   bind_run (append_node 2 (image_named ''second'') c) (\<lambda>(_, c).
   bind_run (binaryImageRemoved 9 0x1000 c) (\<lambda>c.
     sentrycrashbic_iterateOverImages 9 c))))) = Inr [image_named ''second'']"
  by code_simp

text \<open>
  C38. Stopping the cache between adding an image and telling the client frees what the client is
  about to read: if the cache is stopped by another thread after the node was appended, the callback
  for additions uses freed memory.
\<close>

theorem stop_before_callback:
  assumes "history c l" "l \<noteq> None" "imageAddedCallback c \<noteq> None" "nodes c p = None"
    "append_node p img c = Inr (True, c')"
  shows "\<exists>k. \<forall>fuel \<ge> k. bind_run (sentrycrashbic_stopCache fuel c') (call_added p) = Inl UndefinedBehaviour"
proof -
  obtain ps where ps: "shows_log c l ps" using history_shows_log [OF assms(1)] by blast
  from append_log [OF ps assms(4), of img] assms(2,5) have
    added: "shows_log c' (map_option (\<lambda>xs. xs @ [(img, True)]) l) (ps @ [p])" and
    same: "imageAddedCallback c' = imageAddedCallback c" by auto
  show ?thesis
  proof (intro exI [of _ "length (ps @ [p])"] allI impI)
    fix fuel assume "length (ps @ [p]) \<le> fuel"
    from stop_log [OF added this] assms(2) obtain d where
      "sentrycrashbic_stopCache fuel c' = Inr d" "imageAddedCallback d = imageAddedCallback c'" "nodes d p = None"
      by auto
    with same assms(3) show "bind_run (sentrycrashbic_stopCache fuel c') (call_added p) = Inl UndefinedBehaviour"
      by (auto simp: call_added_def node_at_def deref_def)
  qed
qed

theorem stop_before_callback_witness:
  "\<exists>c0 c c' k. sentrycrashbic_registerAddedCallback 1 (Some (\<lambda>_ n. n + (1 :: nat))) (initial_cache 0) = Inr c0 \<and>
    sentrycrashbic_startCache c0 = Inr c \<and> append_node 1 (image_named ''a'') c = Inr (True, c') \<and>
    bind_run (sentrycrashbic_stopCache k c') (call_added 1) = Inl UndefinedBehaviour"
proof -
  obtain c0 where c0: "sentrycrashbic_registerAddedCallback 1 (Some (\<lambda>_ n. n + (1 :: nat))) (initial_cache 0) = Inr c0"
      "tailNode c0 = None" "nodes c0 = nodes (initial_cache 0)" "imageAddedCallback c0 \<noteq> None"
    by (auto simp: sentrycrashbic_registerAddedCallback_def sentrycrashbic_iterateOverImages_def initial_cache_def
      Let_def eval_nat_numeral)
  then obtain c where c: "sentrycrashbic_startCache c0 = Inr c" "nodes c 1 = None" "tailNode c = Some rootNode"
      "nodes c rootNode \<noteq> None" "imageAddedCallback c \<noteq> None"
    by (auto simp: sentrycrashbic_startCache_def initial_cache_def node_at_def set_node_def rootNode_def)
  then obtain c' where c': "append_node 1 (image_named ''a'') c = Inr (True, c')"
    by (auto simp: append_node_def node_at_def set_node_def Let_def rootNode_def)
  have "history c0 None" using history.registered_added [OF history.at_first c0(1)] .
  from history.started_cache [OF this c(1)] have "history c (Some [])" by simp
  from stop_before_callback [OF this _ c(5) c(2) c'] show ?thesis using c0(1) c(1) c' by blast
qed

end
