(* ===== verification/Report_Writer.thy ===== *)
theory Report_Writer
  imports Json_File Report_Fields Uuid_Text
begin

text \<open>
  The first part of \<open>Recording/SentryCrashReport.c\<close>: the report writer, a table of functions that the
  rest of the file calls to add elements. A call of one of them is a value here, and \<open>perform_call\<close>
  does what the function in the table does, on a JSON encoder over a buffered writer to a file. No
  caller looks at a status.
\<close>

section \<open>The table of functions\<close>

datatype 'd writer_call =
    AddBooleanElement "bytes option" bool
  | AddFloatingPointElement "bytes option" 'd
  | AddIntegerElement "bytes option" "64 word"
  | AddUIntegerElement "bytes option" "64 word"
  | AddStringElement "bytes option" "bytes option"
  | AddTextFileElement "bytes option" bytes
  | AddTextFileLinesElement "bytes option" bytes
  | AddJSONFileElement "bytes option" bytes bool
  | AddDataElement "bytes option" bytes
  | BeginDataElement "bytes option"
  | AppendDataElement bytes
  | EndDataElement
  | AddUUIDElement "bytes option" "bytes option"
  | AddJSONElement "bytes option" bytes bool
  | BeginObject "bytes option"
  | BeginArray "bytes option"
  | EndContainer

type_synonym 'f report_context = "'f writing json_encode_context"

text \<open>The system, the conversions of numbers, and fuel for what is read from files.\<close>

record ('d, 'f) writer_env =
  wr_os :: "'f os"
  wr_fp :: "'d fp_ops"
  wr_fuel :: nat

definition report_addJSONData :: "'f os \<Rightarrow> bytes \<Rightarrow> 'f writing call" where
  "report_addJSONData os data writer =
     bind_run (sentrycrashfu_writeBufferedWriter os data writer) (\<lambda>(success, writer).
       Inr (if success then SentryCrashJSON_OK else SentryCrashJSON_ERROR_CANNOT_ADD_DATA, writer))"

text \<open>System calls in the presence of the writer.\<close>

definition beside :: "('f \<Rightarrow> 'a \<times> 'f) \<Rightarrow> 'x \<times> 'f \<Rightarrow> 'a \<times> 'x \<times> 'f" where
  "beside f = (\<lambda>(x, w). let (a, w) = f w in (a, x, w))"

definition os_beside :: "'f os \<Rightarrow> ('x \<times> 'f) os" where
  "os_beside os =
     \<lparr>os_open_read = (\<lambda>p. beside (os_open_read os p)), os_open_new = (\<lambda>p. beside (os_open_new os p)),
      os_open_trunc = (\<lambda>p. beside (os_open_trunc os p)), os_close = (\<lambda>fd (x, w). (x, os_close os fd w)),
      os_read = (\<lambda>fd n. beside (os_read os fd n)), os_write = (\<lambda>fd d. beside (os_write os fd d)),
      os_seek_end = (\<lambda>fd n. beside (os_seek_end os fd n)), os_fstat_size = (\<lambda>fd (x, w). os_fstat_size os fd w),
      os_stat = (\<lambda>p (x, w). os_stat os p w), os_list = (\<lambda>p. beside (os_list os p)),
      os_remove = (\<lambda>p. beside (os_remove os p)), os_mkdir = (\<lambda>p. beside (os_mkdir os p))\<rparr>"

section \<open>The functions\<close>

definition quiet :: "'s call \<Rightarrow> 's \<Rightarrow> 's run" where
  "quiet f s = bind_run (f s) (\<lambda>(_, s). Inr s)"

fun append_file :: "nat \<Rightarrow> 'f os \<Rightarrow> int \<Rightarrow> 'f report_context \<Rightarrow> 'f report_context run" where
  "append_file 0 os fd c = Inl OutOfFuel"
| "append_file (Suc fuel) os fd c =
     (let (got, u) = os_read (os_beside os) fd 512 (userData c); c = c\<lparr>userData := u\<rparr>
      in case got of
           None \<Rightarrow> Inr c
         | Some data \<Rightarrow>
             if data = [] then Inr c
             else bind_run (sentrycrashjson_appendStringElement data (int (length data)) c) (\<lambda>(result, c).
                    if result \<noteq> SentryCrashJSON_OK then Inr c else append_file fuel os fd c))"

definition addTextFileElement ::
    "('d, 'f) writer_env \<Rightarrow> bytes option \<Rightarrow> bytes \<Rightarrow> 'f report_context \<Rightarrow> 'f report_context run" where
  "addTextFileElement env key filePath c =
     (let (fd, u) = os_open_read (os_beside (wr_os env)) filePath (userData c); c = c\<lparr>userData := u\<rparr>
      in if fd < 0 then Inr c
         else
           bind_run (sentrycrashjson_beginStringElement key c) (\<lambda>(result, c).
           bind_run (if result \<noteq> SentryCrashJSON_OK then Inr c else append_file (wr_fuel env) (wr_os env) fd c) (\<lambda>c.
           bind_run (quiet sentrycrashjson_endStringElement c) (\<lambda>c.
             Inr (c\<lparr>userData := os_close (os_beside (wr_os env)) fd (userData c)\<rparr>)))))"

text \<open>The lines of a file, each without its last byte. A buffer of 1024 bytes holds a line.\<close>

fun add_lines ::
    "nat \<Rightarrow> 'f os \<Rightarrow> buffered_reader \<Rightarrow> 'f report_context \<Rightarrow> (buffered_reader \<times> 'f report_context) run" where
  "add_lines 0 os reader c = Inl OutOfFuel"
| "add_lines (Suc fuel) os reader c =
     (let (writer, w) = userData c
      in bind_run (sentrycrashfu_readBufferedReaderUntilChar os CHR 0x0A 1024 (reader, w)) (\<lambda>(_, line, reader, w).
           let c = c\<lparr>userData := (writer, w)\<rparr>
           in if line = [] then Inr (reader, c)
              else bind_run
                (quiet (sentrycrashjson_addStringElement None (Some (butlast line)) SentryCrashJSON_SIZE_AUTOMATIC) c)
                (\<lambda>c. add_lines fuel os reader c)))"

definition addTextLinesFromFile ::
    "('d, 'f) writer_env \<Rightarrow> bytes option \<Rightarrow> bytes \<Rightarrow> 'f report_context \<Rightarrow> 'f report_context run" where
  "addTextLinesFromFile env key filePath c =
     (let (writer, w) = userData c
      in bind_run (sentrycrashfu_openBufferedReader (wr_os env) filePath (replicate 1024 NUL) w) (\<lambda>(opened, reader, w).
           let c = c\<lparr>userData := (writer, w)\<rparr>
           in if \<not> opened then Inr c
              else
                bind_run (quiet (sentrycrashjson_beginArray key) c) (\<lambda>c.
                bind_run (add_lines (wr_fuel env) (wr_os env) reader c) (\<lambda>(reader, c).
                bind_run (quiet sentrycrashjson_endContainer c) (\<lambda>c.
                  let (writer, w) = userData c; (_, w) = sentrycrashfu_closeBufferedReader (wr_os env) (reader, w)
                  in Inr (c\<lparr>userData := (writer, w)\<rparr>))))))"

text \<open>A UUID is 16 bytes in memory, or a null pointer.\<close>

definition addUUIDElement :: "bytes option \<Rightarrow> bytes option \<Rightarrow> 'f report_context \<Rightarrow> 'f report_context run" where
  "addUUIDElement key value c =
     (case value of
        None \<Rightarrow> quiet (sentrycrashjson_addNullElement key) c
      | Some src \<Rightarrow>
          bind_run (sentrycrashdl_convertBinaryImageUUID src) (\<lambda>uuidBuffer.
            quiet (sentrycrashjson_addStringElement key (Some uuidBuffer) 36) c))"

definition addJSONElement ::
    "('d, 'f) writer_env \<Rightarrow> bytes option \<Rightarrow> bytes \<Rightarrow> bool \<Rightarrow> 'f report_context \<Rightarrow> 'f report_context run" where
  "addJSONElement env key jsonElement close_last c =
     bind_run
       (sentrycrashjson_addJSONElement (wr_fp env) key (c_string jsonElement @ [NUL]) (strlen jsonElement) close_last c)
       (\<lambda>(jsonResult, c).
          if jsonResult = SentryCrashJSON_OK then Inr c
          else
            let errorBuff = take 99 (''Invalid JSON data: '' @ sentrycrashjson_stringForError jsonResult)
            in bind_run (quiet (sentrycrashjson_beginObject key) c) (\<lambda>c.
               bind_run (quiet (sentrycrashjson_addStringElement (Some SentryCrashField_Error) (Some errorBuff)
                 SentryCrashJSON_SIZE_AUTOMATIC) c) (\<lambda>c.
               bind_run (quiet (sentrycrashjson_addStringElement (Some SentryCrashField_JSONData) (Some jsonElement)
                 SentryCrashJSON_SIZE_AUTOMATIC) c) (\<lambda>c.
                 quiet sentrycrashjson_endContainer c))))"

fun perform_call :: "('d, 'f) writer_env \<Rightarrow> 'd writer_call \<Rightarrow> 'f report_context \<Rightarrow> 'f report_context run" where
  "perform_call env (AddBooleanElement key value) c = quiet (sentrycrashjson_addBooleanElement key value) c"
| "perform_call env (AddFloatingPointElement key value) c =
     quiet (sentrycrashjson_addFloatingPointElement (wr_fp env) key value) c"
| "perform_call env (AddIntegerElement key value) c = quiet (sentrycrashjson_addIntegerElement key value) c"
| "perform_call env (AddUIntegerElement key value) c = quiet (sentrycrashjson_addUIntegerElement key value) c"
| "perform_call env (AddStringElement key value) c =
     quiet (sentrycrashjson_addStringElement key value SentryCrashJSON_SIZE_AUTOMATIC) c"
| "perform_call env (AddTextFileElement key filePath) c = addTextFileElement env key filePath c"
| "perform_call env (AddTextFileLinesElement key filePath) c = addTextLinesFromFile env key filePath c"
| "perform_call env (AddJSONFileElement key filePath close_last) c =
     quiet (sentrycrashjson_addJSONFromFile (wr_fuel env) (wr_fp env) (os_beside (wr_os env)) key filePath close_last) c"
| "perform_call env (AddDataElement key value) c =
     quiet (sentrycrashjson_addDataElement key value (int (length value))) c"
| "perform_call env (BeginDataElement key) c = quiet (sentrycrashjson_beginDataElement key) c"
| "perform_call env (AppendDataElement value) c =
     quiet (sentrycrashjson_appendDataElement value (int (length value))) c"
| "perform_call env EndDataElement c = quiet sentrycrashjson_endDataElement c"
| "perform_call env (AddUUIDElement key value) c = addUUIDElement key value c"
| "perform_call env (AddJSONElement key jsonElement close_last) c = addJSONElement env key jsonElement close_last c"
| "perform_call env (BeginObject key) c = quiet (sentrycrashjson_beginObject key) c"
| "perform_call env (BeginArray key) c = quiet (sentrycrashjson_beginArray key) c"
| "perform_call env EndContainer c = quiet sentrycrashjson_endContainer c"

fun perform_calls ::
    "('d, 'f) writer_env \<Rightarrow> 'd writer_call list \<Rightarrow> 'f report_context \<Rightarrow> 'f report_context run" where
  "perform_calls env [] c = Inr c"
| "perform_calls env (call # calls) c = bind_run (perform_call env call c) (perform_calls env calls)"

end
