(* ===== verification/Report_Memory.thy ===== *)
theory Report_Memory
  imports Report_Writer Crash_Memory Crash_String
begin

text \<open>
  The part of \<open>Recording/SentryCrashReport.c\<close> that looks into the memory of the crashed process: strings,
  Objective-C objects and what they refer to, up to a limit. What the objects are is asked of
  \<open>SentryCrashObjC.c\<close>, whose operations are parameters here.
\<close>

section \<open>Objects\<close>

datatype objc_type = ObjCTypeUnknown | ObjCTypeClass | ObjCTypeObject | ObjCTypeBlock

datatype objc_class_type =
    ObjCClassTypeUnknown | ObjCClassTypeString | ObjCClassTypeDate | ObjCClassTypeURL | ObjCClassTypeArray
  | ObjCClassTypeDictionary | ObjCClassTypeNumber | ObjCClassTypeException

record objc_ivar =
  ivar_name :: "bytes option"
  ivar_type :: bytes
  ivar_index :: int

text \<open>
  \<open>objc_copyStringContents\<close> gives the status and the text, \<open>objc_arrayContents\<close> and \<open>objc_ivarList\<close> as many
  entries as there are, up to the number asked for, and \<open>objc_ivarValue\<close> that many bytes of a value, if
  it can be read. Floating point numbers are made of their bits.
\<close>

record 'd objc_ops =
  objc_isTaggedPointer :: "64 word \<Rightarrow> bool"
  objc_isValidTaggedPointer :: "64 word \<Rightarrow> bool"
  objc_taggedPointerPayload :: "64 word \<Rightarrow> 64 word"
  objc_objectType :: "64 word \<Rightarrow> objc_type"
  objc_objectClassType :: "64 word \<Rightarrow> objc_class_type"
  objc_className :: "64 word \<Rightarrow> bytes option"
  objc_objectClassName :: "64 word \<Rightarrow> bytes option"
  objc_copyStringContents :: "64 word \<Rightarrow> nat \<Rightarrow> int \<times> bytes"
  objc_dateContents :: "64 word \<Rightarrow> 'd"
  objc_numberAsFloat :: "64 word \<Rightarrow> 'd"
  objc_arrayContents :: "64 word \<Rightarrow> nat \<Rightarrow> 64 word list"
  objc_isaPointer :: "64 word \<Rightarrow> 64 word"
  objc_ivarList :: "64 word \<Rightarrow> nat \<Rightarrow> objc_ivar list"
  objc_ivarValue :: "64 word \<Rightarrow> int \<Rightarrow> nat \<Rightarrow> bytes option"
  float_of_bits :: "32 word \<Rightarrow> 'd"
  double_of_bits :: "64 word \<Rightarrow> 'd"

text \<open>A list of classes holds null pointers, too.\<close>

record introspection_rules =
  introspection_enabled :: bool
  restrictedClasses :: "bytes option list option"

record 'd memory_env =
  me_objc :: "'d objc_ops"
  me_vm :: vm
  me_rules :: introspection_rules

section \<open>Sequences of calls\<close>

fun in_order :: "'d writer_call list run list \<Rightarrow> 'd writer_call list run" where
  "in_order [] = Inr []"
| "in_order (r # rs) = bind_run r (\<lambda>a. bind_run (in_order rs) (\<lambda>b. Inr (a @ b)))"

section \<open>Strings\<close>

definition kMinStringLength :: int where "kMinStringLength = 4"

definition isValidString :: "vm \<Rightarrow> 64 word \<Rightarrow> bool run" where
  "isValidString vm address =
     (if address = 0 then Inr False
      else if address + 500 < address then Inr False
      else
        let (copied, buffer) = sentrycrashmem_copySafely vm address 500
        in if \<not> copied then Inr False
           else sentrycrashstring_isNullTerminatedUTF8String buffer kMinStringLength 500)"

text \<open>The string at an address: what \<open>isValidString\<close> has looked at.\<close>

definition string_at_address :: "vm \<Rightarrow> 64 word \<Rightarrow> bytes" where
  "string_at_address vm address = snd (sentrycrashmem_copySafely vm address 500)"

section \<open>The contents of objects\<close>

text \<open>
  Each function gives its calls of the writer and the limit that is left. \<open>recurse\<close> stands for
  \<open>writeMemoryContents\<close>, which these functions and it call in turn.
\<close>

type_synonym 'd memory_writer = "bytes option \<Rightarrow> 64 word \<Rightarrow> int \<Rightarrow> ('d writer_call list \<times> int) run"

definition writeNSStringContents :: "'d memory_env \<Rightarrow> bytes option \<Rightarrow> 64 word \<Rightarrow> 'd writer_call list" where
  "writeNSStringContents env key objectAddress =
     (let (copied, buffer) = objc_copyStringContents (me_objc env) objectAddress 200
      in if copied \<noteq> 0 then [AddStringElement key (Some buffer)] else [])"

definition writeURLContents :: "'d memory_env \<Rightarrow> bytes option \<Rightarrow> 64 word \<Rightarrow> 'd writer_call list" where
  "writeURLContents env key objectAddress =
     (let (copied, buffer) = objc_copyStringContents (me_objc env) objectAddress 200
      in if copied \<noteq> 0 then [AddStringElement key (Some buffer)] else [])"

definition writeDateContents :: "'d memory_env \<Rightarrow> bytes option \<Rightarrow> 64 word \<Rightarrow> 'd writer_call list" where
  "writeDateContents env key objectAddress =
     [AddFloatingPointElement key (objc_dateContents (me_objc env) objectAddress)]"

definition writeNumberContents :: "'d memory_env \<Rightarrow> bytes option \<Rightarrow> 64 word \<Rightarrow> 'd writer_call list" where
  "writeNumberContents env key objectAddress =
     [AddFloatingPointElement key (objc_numberAsFloat (me_objc env) objectAddress)]"

definition writeArrayContents :: "'d memory_env \<Rightarrow> 'd memory_writer \<Rightarrow> 'd memory_writer" where
  "writeArrayContents env recurse key objectAddress limit =
     (case objc_arrayContents (me_objc env) objectAddress 1 of
        [firstObject] \<Rightarrow> recurse key firstObject limit
      | _ \<Rightarrow> Inr ([], limit))"

text \<open>A value that is not delivered is a variable that was never set.\<close>

definition ivar_word :: "'d memory_env \<Rightarrow> 64 word \<Rightarrow> objc_ivar \<Rightarrow> nat \<Rightarrow> 64 word run" where
  "ivar_word env object ivar n =
     (case objc_ivarValue (me_objc env) object (ivar_index ivar) n of
        None \<Rightarrow> Inl UndefinedBehaviour | Some data \<Rightarrow> Inr (le_word (take n data)))"

definition ivar_signed :: "'d memory_env \<Rightarrow> 64 word \<Rightarrow> objc_ivar \<Rightarrow> nat \<Rightarrow> 'd writer_call list run" where
  "ivar_signed env object ivar n =
     bind_run (ivar_word env object ivar n) (\<lambda>v.
       Inr [AddIntegerElement (ivar_name ivar) (signed_take_bit (8 * n - 1) v)])"

definition ivar_unsigned :: "'d memory_env \<Rightarrow> 64 word \<Rightarrow> objc_ivar \<Rightarrow> nat \<Rightarrow> 'd writer_call list run" where
  "ivar_unsigned env object ivar n =
     bind_run (ivar_word env object ivar n) (\<lambda>v. Inr [AddUIntegerElement (ivar_name ivar) v])"

definition write_ivar :: "'d memory_env \<Rightarrow> 'd memory_writer \<Rightarrow> 64 word \<Rightarrow> objc_ivar \<Rightarrow> int \<Rightarrow>
    ('d writer_call list \<times> int) run" where
  "write_ivar env recurse object ivar limit =
     (let t = (case ivar_type ivar of [] \<Rightarrow> NUL | c # _ \<Rightarrow> c);
          keep = (\<lambda>r. bind_run r (\<lambda>calls. Inr (calls, limit)))
      in if t = CHR ''c'' then keep (ivar_signed env object ivar 1)
         else if t = CHR ''i'' then keep (ivar_signed env object ivar 4)
         else if t = CHR ''s'' then keep (ivar_signed env object ivar 2)
         else if t = CHR ''l'' then keep (ivar_signed env object ivar 4)
         else if t = CHR ''q'' then keep (ivar_signed env object ivar 8)
         else if t = CHR ''C'' then keep (ivar_unsigned env object ivar 1)
         else if t = CHR ''I'' then keep (ivar_unsigned env object ivar 4)
         else if t = CHR ''S'' then keep (ivar_unsigned env object ivar 2)
         else if t = CHR ''L'' then keep (ivar_unsigned env object ivar 4)
         else if t = CHR ''Q'' then keep (ivar_unsigned env object ivar 8)
         else if t = CHR ''f'' then keep (bind_run (ivar_word env object ivar 4) (\<lambda>v.
           Inr [AddFloatingPointElement (ivar_name ivar) (float_of_bits (me_objc env) (ucast v))]))
         else if t = CHR ''d'' then keep (bind_run (ivar_word env object ivar 8) (\<lambda>v.
           Inr [AddFloatingPointElement (ivar_name ivar) (double_of_bits (me_objc env) v)]))
         else if t = CHR ''B'' then keep (bind_run (ivar_word env object ivar 1) (\<lambda>v.
           Inr [AddBooleanElement (ivar_name ivar) (v \<noteq> 0)]))
         else if t = CHR ''*'' \<or> t = CHR ''@'' \<or> t = CHR ''#'' \<or> t = CHR '':'' then
           bind_run (ivar_word env object ivar 8) (\<lambda>pointer. recurse (ivar_name ivar) pointer limit)
         else Inr ([], limit))"

fun write_ivars :: "'d memory_env \<Rightarrow> 'd memory_writer \<Rightarrow> 64 word \<Rightarrow> objc_ivar list \<Rightarrow> int \<Rightarrow>
    ('d writer_call list \<times> int) run" where
  "write_ivars env recurse object [] limit = Inr ([], limit)"
| "write_ivars env recurse object (ivar # ivars) limit =
     bind_run (write_ivar env recurse object ivar limit) (\<lambda>(a, limit).
     bind_run (write_ivars env recurse object ivars limit) (\<lambda>(b, limit). Inr (a @ b, limit)))"

definition writeUnknownObjectContents :: "'d memory_env \<Rightarrow> 'd memory_writer \<Rightarrow> 'd memory_writer" where
  "writeUnknownObjectContents env recurse key objectAddress limit =
     (let limit = limit - 1; object = objectAddress
      in bind_run
           (if objc_isTaggedPointer (me_objc env) object then
              Inr ([AddIntegerElement (Some ''tagged_payload'') (objc_taggedPointerPayload (me_objc env) object)], limit)
            else
              let class = objc_isaPointer (me_objc env) object;
                  ivars = objc_ivarList (me_objc env) class 10
              in write_ivars env recurse object ivars (limit - int (length ivars)))
           (\<lambda>(calls, limit). Inr (BeginObject key # calls @ [EndContainer], limit)))"

text \<open>A class without a name is compared all the same.\<close>

definition isRestrictedClass :: "introspection_rules \<Rightarrow> bytes option \<Rightarrow> bool run" where
  "isRestrictedClass rules name =
     (case restrictedClasses rules of
        None \<Rightarrow> Inr False
      | Some classes \<Rightarrow>
          (case name of
             None \<Rightarrow> if list_all (\<lambda>c. c = None) classes then Inr False else Inl UndefinedBehaviour
           | Some n \<Rightarrow> Inr (list_ex (\<lambda>c. case c of None \<Rightarrow> False | Some cl \<Rightarrow> c_string n = c_string cl) classes)))"

definition write_class_contents ::
    "'d memory_env \<Rightarrow> 'd memory_writer \<Rightarrow> 64 word \<Rightarrow> int \<Rightarrow> ('d writer_call list \<times> int) run" where
  "write_class_contents env recurse address limit =
     (let unknown = (if limit > 0
            then writeUnknownObjectContents env recurse (Some SentryCrashField_Ivars) address limit
            else Inr ([], limit))
      in case objc_objectClassType (me_objc env) address of
           ObjCClassTypeString \<Rightarrow> Inr (writeNSStringContents env (Some SentryCrashField_Value) address, limit)
         | ObjCClassTypeURL \<Rightarrow> Inr (writeURLContents env (Some SentryCrashField_Value) address, limit)
         | ObjCClassTypeDate \<Rightarrow> Inr (writeDateContents env (Some SentryCrashField_Value) address, limit)
         | ObjCClassTypeArray \<Rightarrow>
             if limit > 0 then writeArrayContents env recurse (Some SentryCrashField_FirstObject) address limit
             else Inr ([], limit)
         | ObjCClassTypeNumber \<Rightarrow> Inr (writeNumberContents env (Some SentryCrashField_Value) address, limit)
         | ObjCClassTypeDictionary \<Rightarrow> unknown
         | ObjCClassTypeException \<Rightarrow> unknown
         | ObjCClassTypeUnknown \<Rightarrow> unknown)"

text \<open>
  The answer of \<open>writeObjCObject\<close> comes first: an object of a restricted class is written as an object,
  and then as what is no object, too.
\<close>

definition writeObjCObject ::
    "'d memory_env \<Rightarrow> 'd memory_writer \<Rightarrow> 64 word \<Rightarrow> int \<Rightarrow> (bool \<times> 'd writer_call list \<times> int) run" where
  "writeObjCObject env recurse address limit =
     (case objc_objectType (me_objc env) address of
        ObjCTypeClass \<Rightarrow>
          Inr (True, [AddStringElement (Some SentryCrashField_Type) (Some SentryCrashMemType_Class),
                      AddStringElement (Some SentryCrashField_Class) (objc_className (me_objc env) address)], limit)
      | ObjCTypeObject \<Rightarrow>
          let className = objc_objectClassName (me_objc env) address;
              start = [AddStringElement (Some SentryCrashField_Type) (Some SentryCrashMemType_Object),
                       AddStringElement (Some SentryCrashField_Class) className]
          in bind_run (isRestrictedClass (me_rules env) className) (\<lambda>restricted.
               if restricted then Inr (False, start, limit)
               else bind_run (write_class_contents env recurse address limit) (\<lambda>(calls, limit).
                      Inr (True, start @ calls, limit)))
      | ObjCTypeBlock \<Rightarrow>
          Inr (True, [AddStringElement (Some SentryCrashField_Type) (Some SentryCrashMemType_Block),
                      AddStringElement (Some SentryCrashField_Class) (objc_objectClassName (me_objc env) address)],
               limit)
      | ObjCTypeUnknown \<Rightarrow> Inr (False, [], limit))"

definition write_plain_memory :: "'d memory_env \<Rightarrow> 64 word \<Rightarrow> 'd writer_call list run" where
  "write_plain_memory env address =
     (if address = 0 then Inr [AddStringElement (Some SentryCrashField_Type) (Some SentryCrashMemType_NullPointer)]
      else bind_run (isValidString (me_vm env) address) (\<lambda>valid.
        Inr (if valid
             then [AddStringElement (Some SentryCrashField_Type) (Some SentryCrashMemType_String),
                   AddStringElement (Some SentryCrashField_Value) (Some (string_at_address (me_vm env) address))]
             else [AddStringElement (Some SentryCrashField_Type) (Some SentryCrashMemType_Unknown)])))"

primrec writeMemoryContents :: "nat \<Rightarrow> 'd memory_env \<Rightarrow> 'd memory_writer" where
  "writeMemoryContents 0 = (\<lambda>env key address limit. Inl OutOfFuel)"
| "writeMemoryContents (Suc fuel) = (\<lambda>env key address limit.
     let limit = limit - 1
     in bind_run (writeObjCObject env (writeMemoryContents fuel env) address limit) (\<lambda>(written, calls, limit).
        bind_run (if written then Inr [] else write_plain_memory env address) (\<lambda>more.
          Inr ([BeginObject key, AddUIntegerElement (Some SentryCrashField_Address) address] @ calls @ more @
               [EndContainer], limit))))"

section \<open>Notable addresses\<close>

definition kDefaultMemorySearchDepth :: int where "kDefaultMemorySearchDepth = 15"

text \<open>The depth of nested objects is bounded by the limit.\<close>

definition search_fuel :: nat where "search_fuel = nat kDefaultMemorySearchDepth + 1"

definition isValidPointer :: "'d memory_env \<Rightarrow> 64 word \<Rightarrow> bool" where
  "isValidPointer env address =
     (if address = 0 then False
      else if objc_isTaggedPointer (me_objc env) address \<and> \<not> objc_isValidTaggedPointer (me_objc env) address
      then False else True)"

definition isNotableAddress :: "'d memory_env \<Rightarrow> 64 word \<Rightarrow> bool run" where
  "isNotableAddress env address =
     (if \<not> isValidPointer env address then Inr False
      else if objc_objectType (me_objc env) address \<noteq> ObjCTypeUnknown then Inr True
      else isValidString (me_vm env) address)"

definition writeMemoryContentsIfNotable ::
    "'d memory_env \<Rightarrow> bytes option \<Rightarrow> 64 word \<Rightarrow> 'd writer_call list run" where
  "writeMemoryContentsIfNotable env key address =
     bind_run (isNotableAddress env address) (\<lambda>notable.
       if notable
       then bind_run (writeMemoryContents search_fuel env key address kDefaultMemorySearchDepth)
              (\<lambda>(calls, _). Inr calls)
       else Inr [])"

definition writeAddressReferencedByString ::
    "'d memory_env \<Rightarrow> bytes option \<Rightarrow> bytes option \<Rightarrow> 'd writer_call list run" where
  "writeAddressReferencedByString env key string =
     (case string of
        None \<Rightarrow> Inr []
      | Some s \<Rightarrow>
          bind_run (sentrycrashstring_extractHexValue (c_string s @ [NUL]) (int (strlen s))) (\<lambda>address.
            case address of
              None \<Rightarrow> Inr []
            | Some address \<Rightarrow>
                bind_run (writeMemoryContents search_fuel env key address kDefaultMemorySearchDepth)
                  (\<lambda>(calls, _). Inr calls)))"

end
