(* ===== verification/Objc_Class.thy ===== *)
theory Objc_Class
  imports Report_Memory
begin

text \<open>
  The first half of \<open>Recording/Tools/SentryCrashObjC.c\<close> and the layouts of
  \<open>SentryCrashObjCApple.h\<close> it needs: objects and classes of the crashed process in its memory, what
  makes them valid, and their instance variables. A field that is loaded straight from memory that is
  not there is undefined behaviour here; \<open>sentrycrashmem\<close> asks the kernel instead. The targets are
  those of 64 bits.
\<close>

unbundle bit_operations_syntax

section \<open>Memory\<close>

text \<open>
  \<open>om_msb\<close> is \<open>SUPPORT_MSB_TAGGED_POINTERS\<close>, which iOS has, and \<open>om_old\<close> tells a Core Foundation of
  iOS 8 or before. \<open>ObjcOther\<close> stands for processors without an \<open>ISA_TAG_MASK\<close>.
\<close>

datatype objc_arch = ObjcX86_64 | ObjcArm64 | ObjcOther

record objc_env =
  om_mem :: "64 word \<Rightarrow> byte option"
  om_vm :: vm
  om_msb :: bool
  om_arch :: objc_arch
  om_old :: bool

definition load :: "objc_env \<Rightarrow> 64 word \<Rightarrow> nat \<Rightarrow> 64 word run" where
  "load env a n =
     (if all_readable (om_mem env) a n then Inr (le_word (bytes_at (om_mem env) a n)) else Inl UndefinedBehaviour)"

text \<open>What is in memory up to a zero byte; memory does not go on past the last address.\<close>

function text_at :: "(64 word \<Rightarrow> byte option) \<Rightarrow> 64 word \<Rightarrow> bytes run" where
  "text_at mem a =
     (case mem a of
        None \<Rightarrow> Inl UndefinedBehaviour
      | Some b \<Rightarrow>
          if b = NUL then Inr []
          else if a = - 1 then Inl UndefinedBehaviour
          else bind_run (text_at mem (a + 1)) (\<lambda>s. Inr (b # s)))"
  by pat_completeness auto
termination
proof (relation "measure (\<lambda>(mem, a). unat (- 1 - a))")
  fix mem :: "64 word \<Rightarrow> byte option" and a :: "64 word" and b
  assume "a \<noteq> - 1"
  then have "- 1 - a \<noteq> 0" by simp
  then have "unat (- 1 - a - 1) < unat (- 1 - a)" by (rule measure_unat)
  moreover have "- 1 - (a + 1) = - 1 - a - 1" by (simp add: algebra_simps)
  ultimately show "((mem, a + 1), (mem, a)) \<in> measure (\<lambda>(mem, a). unat (- 1 - a))" by simp
qed simp

declare text_at.simps [simp del]

text \<open>\<open>strcmp(p, s) == 0\<close> for a text in memory: it is read up to the first difference.\<close>

fun same_text :: "(64 word \<Rightarrow> byte option) \<Rightarrow> 64 word \<Rightarrow> bytes \<Rightarrow> bool run" where
  "same_text mem a [] = (case mem a of None \<Rightarrow> Inl UndefinedBehaviour | Some b \<Rightarrow> Inr (b = NUL))"
| "same_text mem a (c # s) =
     (case mem a of
        None \<Rightarrow> Inl UndefinedBehaviour
      | Some b \<Rightarrow> if b = c then same_text mem (a + 1) s else Inr False)"

text \<open>The value of an \<open>int\<close> cast.\<close>

definition as_int :: "64 word \<Rightarrow> int" where
  "as_int w = sint (ucast w :: 32 word)"

section \<open>Tagged pointers\<close>

definition TAG_MASK :: "objc_env \<Rightarrow> 64 word" where
  "TAG_MASK env = (if om_msb env then push_bit 63 1 else 1)"

definition TAG_SLOT_SHIFT :: "objc_env \<Rightarrow> nat" where
  "TAG_SLOT_SHIFT env = (if om_msb env then 60 else 1)"

definition TAG_PAYLOAD_LSHIFT :: "objc_env \<Rightarrow> nat" where
  "TAG_PAYLOAD_LSHIFT env = (if om_msb env then 4 else 0)"

definition TAG_PAYLOAD_RSHIFT :: nat where "TAG_PAYLOAD_RSHIFT = 4"

definition TAG_SLOT_MASK :: "64 word" where "TAG_SLOT_MASK = 0x07"

definition OBJC_TAG_NSString :: nat where "OBJC_TAG_NSString = 2"
definition OBJC_TAG_NSNumber :: nat where "OBJC_TAG_NSNumber = 3"
definition OBJC_TAG_NSDate :: nat where "OBJC_TAG_NSDate = 6"

definition isTaggedPointer :: "objc_env \<Rightarrow> 64 word \<Rightarrow> bool" where
  "isTaggedPointer env pointer \<longleftrightarrow> (pointer AND TAG_MASK env) \<noteq> 0"

definition getTaggedSlot :: "objc_env \<Rightarrow> 64 word \<Rightarrow> nat" where
  "getTaggedSlot env pointer = unat (drop_bit (TAG_SLOT_SHIFT env) pointer AND TAG_SLOT_MASK)"

definition getTaggedPayload :: "objc_env \<Rightarrow> 64 word \<Rightarrow> 64 word" where
  "getTaggedPayload env pointer = drop_bit TAG_PAYLOAD_RSHIFT (push_bit (TAG_PAYLOAD_LSHIFT env) pointer)"

definition isTaggedPointerNSNumber :: "objc_env \<Rightarrow> 64 word \<Rightarrow> bool" where
  "isTaggedPointerNSNumber env object \<longleftrightarrow> getTaggedSlot env object = OBJC_TAG_NSNumber"

definition isTaggedPointerNSString :: "objc_env \<Rightarrow> 64 word \<Rightarrow> bool" where
  "isTaggedPointerNSString env object \<longleftrightarrow> getTaggedSlot env object = OBJC_TAG_NSString"

definition isTaggedPointerNSDate :: "objc_env \<Rightarrow> 64 word \<Rightarrow> bool" where
  "isTaggedPointerNSDate env object \<longleftrightarrow> getTaggedSlot env object = OBJC_TAG_NSDate"

text \<open>The shifts of signed numbers.\<close>

definition extractTaggedNSNumber :: "objc_env \<Rightarrow> 64 word \<Rightarrow> 64 word" where
  "extractTaggedNSNumber env object =
     signed_drop_bit 4 (signed_drop_bit TAG_PAYLOAD_RSHIFT (push_bit (TAG_PAYLOAD_LSHIFT env) object))"

text \<open>The bits of the time.\<close>

definition extractTaggedNSDate :: "objc_env \<Rightarrow> 64 word \<Rightarrow> 64 word" where
  "extractTaggedNSDate env object = push_bit 4 (getTaggedPayload env object)"

section \<open>The classes that are known\<close>

datatype class_subtype =
  ClassSubtypeNone | ClassSubtypeCFArray | ClassSubtypeNSArrayMutable | ClassSubtypeNSArrayImmutable | ClassSubtypeCFString

datatype validity =
    ObjectIsValid | TaggedObjectIsValid | StringIsValid | UrlIsValid | ArrayIsValid | DateIsValid | NumberIsValid
  | TaggedDateIsValid | TaggedNumberIsValid | TaggedStringIsValid

datatype describer =
    ObjectDescription | TaggedObjectDescription | StringDescription | UrlDescription | ArrayDescription
  | DateDescription | NumberDescription | TaggedDateDescription | TaggedNumberDescription | TaggedStringDescription

record class_data =
  cd_name :: "bytes option"
  cd_type :: objc_class_type
  cd_subtype :: class_subtype
  cd_isMutable :: bool
  cd_isValidObject :: validity
  cd_description :: describer
  cd_class :: "64 word"

definition class_entry :: "bytes option \<Rightarrow> objc_class_type \<Rightarrow> class_subtype \<Rightarrow> bool \<Rightarrow> validity \<Rightarrow> describer \<Rightarrow> class_data" where
  "class_entry name type subtype isMutable isValid description =
     \<lparr>cd_name = name, cd_type = type, cd_subtype = subtype, cd_isMutable = isMutable,
      cd_isValidObject = isValid, cd_description = description, cd_class = 0\<rparr>"

definition g_classData :: "class_data list" where
  "g_classData =
     [class_entry (Some ''__NSCFString'') ObjCClassTypeString ClassSubtypeNone True StringIsValid StringDescription,
      class_entry (Some ''NSCFString'') ObjCClassTypeString ClassSubtypeNone True StringIsValid StringDescription,
      class_entry (Some ''__NSCFConstantString'') ObjCClassTypeString ClassSubtypeNone True StringIsValid StringDescription,
      class_entry (Some ''NSCFConstantString'') ObjCClassTypeString ClassSubtypeNone True StringIsValid StringDescription,
      class_entry (Some ''__NSArray0'') ObjCClassTypeArray ClassSubtypeNSArrayImmutable False ArrayIsValid ArrayDescription,
      class_entry (Some ''__NSArrayI'') ObjCClassTypeArray ClassSubtypeNSArrayImmutable False ArrayIsValid ArrayDescription,
      class_entry (Some ''__NSArrayM'') ObjCClassTypeArray ClassSubtypeNSArrayMutable True ArrayIsValid ArrayDescription,
      class_entry (Some ''__NSCFArray'') ObjCClassTypeArray ClassSubtypeCFArray False ArrayIsValid ArrayDescription,
      class_entry (Some ''NSCFArray'') ObjCClassTypeArray ClassSubtypeCFArray False ArrayIsValid ArrayDescription,
      class_entry (Some ''__NSDate'') ObjCClassTypeDate ClassSubtypeNone False DateIsValid DateDescription,
      class_entry (Some ''NSDate'') ObjCClassTypeDate ClassSubtypeNone False DateIsValid DateDescription,
      class_entry (Some ''__NSCFNumber'') ObjCClassTypeNumber ClassSubtypeNone False NumberIsValid NumberDescription,
      class_entry (Some ''NSCFNumber'') ObjCClassTypeNumber ClassSubtypeNone False NumberIsValid NumberDescription,
      class_entry (Some ''NSNumber'') ObjCClassTypeNumber ClassSubtypeNone False NumberIsValid NumberDescription,
      class_entry (Some ''NSURL'') ObjCClassTypeURL ClassSubtypeNone False UrlIsValid UrlDescription,
      class_entry None ObjCClassTypeUnknown ClassSubtypeNone False ObjectIsValid ObjectDescription]"

definition g_taggedClassData :: "class_data list" where
  "g_taggedClassData =
     [class_entry (Some ''NSAtom'') ObjCClassTypeUnknown ClassSubtypeNone False TaggedObjectIsValid TaggedObjectDescription,
      class_entry None ObjCClassTypeUnknown ClassSubtypeNone False TaggedObjectIsValid TaggedObjectDescription,
      class_entry (Some ''NSString'') ObjCClassTypeString ClassSubtypeNone False TaggedStringIsValid TaggedStringDescription,
      class_entry (Some ''NSNumber'') ObjCClassTypeNumber ClassSubtypeNone False TaggedNumberIsValid TaggedNumberDescription,
      class_entry (Some ''NSIndexPath'') ObjCClassTypeUnknown ClassSubtypeNone False TaggedObjectIsValid TaggedObjectDescription,
      class_entry (Some ''NSManagedObjectID'') ObjCClassTypeUnknown ClassSubtypeNone False TaggedObjectIsValid
        TaggedObjectDescription,
      class_entry (Some ''NSDate'') ObjCClassTypeDate ClassSubtypeNone False TaggedDateIsValid TaggedDateDescription,
      class_entry None ObjCClassTypeUnknown ClassSubtypeNone False TaggedObjectIsValid TaggedObjectDescription]"

definition g_taggedClassDataCount :: nat where "g_taggedClassDataCount = length g_taggedClassData"

definition g_blockBaseClassName :: bytes where "g_blockBaseClassName = ''NSBlock''"

definition getClassDataFromTaggedPointer :: "objc_env \<Rightarrow> 64 word \<Rightarrow> class_data run" where
  "getClassDataFromTaggedPointer env object = read_at g_taggedClassData (getTaggedSlot env object)"

definition isValidTaggedPointer :: "objc_env \<Rightarrow> 64 word \<Rightarrow> bool run" where
  "isValidTaggedPointer env object =
     (if isTaggedPointer env object \<and> getTaggedSlot env object \<le> g_taggedClassDataCount then
        bind_run (getClassDataFromTaggedPointer env object) (\<lambda>data. Inr (cd_type data \<noteq> ObjCClassTypeUnknown))
      else Inr False)"

section \<open>Classes in memory\<close>

definition ISA_TAG_MASK :: "objc_env \<Rightarrow> 64 word" where
  "ISA_TAG_MASK env = (if om_arch env = ObjcOther then 0 else 1)"

definition ISA_MASK :: "objc_env \<Rightarrow> 64 word" where
  "ISA_MASK env =
     (case om_arch env of ObjcX86_64 \<Rightarrow> 0x00007ffffffffff8 | ObjcArm64 \<Rightarrow> 0x0000000ffffffff8 | ObjcOther \<Rightarrow> NOT 1)"

definition ISA_MASK_OLD :: "64 word" where "ISA_MASK_OLD = 0x00000001fffffff8"

text \<open>The test for the old Core Foundation is made on iOS only.\<close>

definition decodeIsaPointer :: "objc_env \<Rightarrow> 64 word \<Rightarrow> 64 word" where
  "decodeIsaPointer env isa =
     (if (isa AND ISA_TAG_MASK env) \<noteq> 0 then
        if om_msb env \<and> om_arch env = ObjcArm64 \<and> om_old env then isa AND ISA_MASK_OLD else isa AND ISA_MASK env
      else isa)"

definition FAST_DATA_MASK :: "64 word" where "FAST_DATA_MASK = 0x00007ffffffffff8"

text \<open>
  A \<open>class_t\<close> has 40 bytes: the isa pointer at 0, the superclass at 8 and the data at 32. A \<open>class_rw_t\<close>
  has 32, with \<open>ro_or_rw_ext\<close> at 8; a \<open>class_rw_ext_t\<close> 176, with \<open>ro\<close> at 0; a \<open>class_ro_t\<close> 72, with
  the flags at 0, the name at 24 and the instance variables at 48.
\<close>

definition getIsaPointer :: "objc_env \<Rightarrow> 64 word \<Rightarrow> 64 word run" where
  "getIsaPointer env objectOrClassPtr =
     bind_run (load env objectOrClassPtr 8) (\<lambda>isa. Inr (decodeIsaPointer env isa))"

definition getClassRW :: "objc_env \<Rightarrow> 64 word \<Rightarrow> 64 word run" where
  "getClassRW env class = bind_run (load env (class + 32) 8) (\<lambda>data. Inr (data AND FAST_DATA_MASK))"

definition getClassRO :: "objc_env \<Rightarrow> 64 word \<Rightarrow> 64 word run" where
  "getClassRO env class =
     bind_run (getClassRW env class) (\<lambda>rw.
     bind_run (load env (rw + 8) 8) (\<lambda>ext_ptr.
       if (ext_ptr AND 0x1) \<noteq> 0 then load env (ext_ptr AND NOT 0x1) 8 else Inr ext_ptr))"

definition getSuperClass :: "objc_env \<Rightarrow> 64 word \<Rightarrow> 64 word run" where
  "getSuperClass env classPtr = load env (classPtr + 8) 8"

definition ro_flags :: "objc_env \<Rightarrow> 64 word \<Rightarrow> 64 word run" where
  "ro_flags env classPtr = bind_run (getClassRO env classPtr) (\<lambda>ro. load env ro 4)"

definition isMetaClass :: "objc_env \<Rightarrow> 64 word \<Rightarrow> bool run" where
  "isMetaClass env classPtr = bind_run (ro_flags env classPtr) (\<lambda>flags. Inr ((flags AND 1) \<noteq> 0))"

definition isRootClass :: "objc_env \<Rightarrow> 64 word \<Rightarrow> bool run" where
  "isRootClass env classPtr = bind_run (ro_flags env classPtr) (\<lambda>flags. Inr ((flags AND 2) \<noteq> 0))"

definition getClassName :: "objc_env \<Rightarrow> 64 word \<Rightarrow> 64 word run" where
  "getClassName env classPtr = bind_run (getClassRO env classPtr) (\<lambda>ro. load env (ro + 24) 8)"

definition class_ivars :: "objc_env \<Rightarrow> 64 word \<Rightarrow> 64 word run" where
  "class_ivars env classPtr = bind_run (getClassRO env classPtr) (\<lambda>ro. load env (ro + 48) 8)"

section \<open>What is known of a class\<close>

text \<open>
  The entry and the table, in which the class is now kept. A table that has no last entry without a
  name would be read past its end.
\<close>

fun find_class :: "objc_env \<Rightarrow> 64 word \<Rightarrow> 64 word \<Rightarrow> class_data list \<Rightarrow> (class_data \<times> class_data list) run" where
  "find_class env class className [] = Inl UndefinedBehaviour"
| "find_class env class className (data # rest) =
     (case cd_name data of
        None \<Rightarrow> Inr (data, data # rest)
      | Some name \<Rightarrow>
          if class = cd_class data then Inr (data, data # rest)
          else
            bind_run (if cd_class data = 0 then same_text (om_mem env) className name else Inr False) (\<lambda>same.
              if same then let data = data\<lparr>cd_class := class\<rparr> in Inr (data, data # rest)
              else
                bind_run (find_class env class className rest) (\<lambda>(found, rest). Inr (found, data # rest))))"

definition getClassData :: "objc_env \<Rightarrow> 64 word \<Rightarrow> class_data list \<Rightarrow> (class_data \<times> class_data list) run" where
  "getClassData env class table =
     bind_run (getClassName env class) (\<lambda>className. find_class env class className table)"

definition getClassDataFromObject :: "objc_env \<Rightarrow> 64 word \<Rightarrow> class_data list \<Rightarrow> (class_data \<times> class_data list) run" where
  "getClassDataFromObject env object table =
     (if isTaggedPointer env object then
        bind_run (getClassDataFromTaggedPointer env object) (\<lambda>data. Inr (data, table))
      else bind_run (getIsaPointer env object) (\<lambda>isa. getClassData env isa table))"

section \<open>Validation\<close>

definition kMaxNameLength :: int where "kMaxNameLength = 128"

text \<open>What a byte is good for: 0 nothing, 5 all but the beginning of a name, 7 everything, 4 types only.\<close>

definition g_nameChars :: "nat list" where
  "g_nameChars =
     replicate 33 0 @ replicate 15 4 @ replicate 10 5 @ replicate 7 4 @ replicate 26 7 @ replicate 4 4 @ [7, 4] @
     replicate 26 7 @ replicate 4 4 @ replicate 129 0"

definition VALID_NAME_CHAR :: "byte \<Rightarrow> bool" where
  "VALID_NAME_CHAR b \<longleftrightarrow> (g_nameChars ! byte_val b) AND 1 \<noteq> 0"

definition VALID_NAME_START_CHAR :: "byte \<Rightarrow> bool" where
  "VALID_NAME_START_CHAR b \<longleftrightarrow> (g_nameChars ! byte_val b) AND 2 \<noteq> 0"

definition VALID_TYPE_CHAR :: "byte \<Rightarrow> bool" where
  "VALID_TYPE_CHAR b \<longleftrightarrow> (g_nameChars ! byte_val b) AND 7 \<noteq> 0"

definition load_byte :: "objc_env \<Rightarrow> 64 word \<Rightarrow> byte run" where
  "load_byte env a = (case om_mem env a of None \<Rightarrow> Inl UndefinedBehaviour | Some b \<Rightarrow> Inr b)"

text \<open>The loop over the \<open>n\<close> characters from an address on; the copy has shown how many there are.\<close>

fun name_goes_on :: "objc_env \<Rightarrow> 64 word \<Rightarrow> nat \<Rightarrow> bool run" where
  "name_goes_on env a 0 = Inr False"
| "name_goes_on env a (Suc n) =
     bind_run (load_byte env a) (\<lambda>c.
       if \<not> VALID_NAME_CHAR c then Inr (c = NUL) else name_goes_on env (a + 1) n)"

definition isValidName :: "objc_env \<Rightarrow> 64 word \<Rightarrow> int \<Rightarrow> bool run" where
  "isValidName env name maxLength =
     (if name + word_of_int maxLength < name then Inr False
      else
        let n = fst (sentrycrashmem_copyMaxPossible (om_vm env) name maxLength)
        in if n = 0 then Inr False
           else
             bind_run (load_byte env name) (\<lambda>c.
               if \<not> VALID_NAME_START_CHAR c then Inr False
               else name_goes_on env (name + 1) (nat (n - 1))))"

text \<open>A character that is not valid does not end the loop over a type, unless it is the zero byte.\<close>

fun type_goes_on :: "objc_env \<Rightarrow> 64 word \<Rightarrow> nat \<Rightarrow> bool run" where
  "type_goes_on env a 0 = Inr False"
| "type_goes_on env a (Suc n) =
     bind_run (load_byte env a) (\<lambda>c.
       if \<not> VALID_TYPE_CHAR c \<and> c = NUL then Inr True else type_goes_on env (a + 1) n)"

definition isValidIvarType :: "objc_env \<Rightarrow> 64 word \<Rightarrow> bool run" where
  "isValidIvarType env type =
     (if type + 100 < type then Inr False
      else
        let n = fst (sentrycrashmem_copyMaxPossible (om_vm env) type 100)
        in if n = 0 then Inr False
           else
             bind_run (load_byte env type) (\<lambda>c.
               if \<not> VALID_TYPE_CHAR c then Inr False else type_goes_on env type (nat n)))"

abbreviation readable :: "objc_env \<Rightarrow> 64 word \<Rightarrow> int \<Rightarrow> bool" where
  "readable env a n \<equiv> sentrycrashmem_isMemoryReadable (om_vm env) a n"

definition containsValidExtData :: "objc_env \<Rightarrow> 64 word \<Rightarrow> bool run" where
  "containsValidExtData env rw =
     bind_run (load env (rw + 8) 8) (\<lambda>ext_ptr.
       Inr ((ext_ptr AND 0x1) \<noteq> 0 \<longrightarrow> readable env (ext_ptr AND NOT 0x1) 176))"

text \<open>The checks of a function in their order: the first that fails ends it.\<close>

definition only_if :: "bool run \<Rightarrow> bool run \<Rightarrow> bool run" where
  "only_if r s = bind_run r (\<lambda>good. if good then s else Inr False)"

definition containsValidROData :: "objc_env \<Rightarrow> 64 word \<Rightarrow> bool run" where
  "containsValidROData env class =
     only_if (Inr (readable env class 40))
       (bind_run (getClassRW env class) (\<lambda>rw.
          only_if (Inr (readable env rw 32))
            (only_if (containsValidExtData env rw)
              (bind_run (getClassRO env class) (\<lambda>ro. Inr (readable env ro 72))))))"

text \<open>
  An \<open>ivar_list_t\<close> has the size of its entries at 0, their number at 4 and the entries from 8 on; 40
  bytes with the first entry. An \<open>ivar_t\<close> has 32 bytes: the pointer to the offset at 0, the name at 8,
  the type at 16 and the size at 28. The loop runs over \<open>n\<close> entries from an address on.
\<close>

fun valid_ivars :: "objc_env \<Rightarrow> 64 word \<Rightarrow> 64 word \<Rightarrow> nat \<Rightarrow> bool run" where
  "valid_ivars env entsize ivarPtr 0 = Inr True"
| "valid_ivars env entsize ivarPtr (Suc n) =
     (let (copied, ivar) = sentrycrashmem_copySafely (om_vm env) ivarPtr 32
      in only_if (Inr copied)
           (only_if (Inr (readable env ivarPtr (as_int entsize)))
             (only_if (Inr (readable env (le_word (take 8 ivar)) 4))
               (only_if (isValidName env (le_word (take 8 (drop 8 ivar))) kMaxNameLength)
                 (only_if (isValidIvarType env (le_word (take 8 (drop 16 ivar))))
                   (valid_ivars env entsize (ivarPtr + entsize) n))))))"

definition containsValidIvarData :: "objc_env \<Rightarrow> 64 word \<Rightarrow> bool run" where
  "containsValidIvarData env classPtr =
     bind_run (class_ivars env classPtr) (\<lambda>ivars.
       if ivars = 0 then Inr True
       else
         only_if (Inr (readable env ivars 40))
           (bind_run (load env (ivars + 4) 4) (\<lambda>n.
              if n > 0 then
                bind_run (load env ivars 4) (\<lambda>entsize. valid_ivars env entsize (ivars + 8 + entsize) (unat n - 1))
              else Inr True)))"

definition containsValidClassName :: "objc_env \<Rightarrow> 64 word \<Rightarrow> bool run" where
  "containsValidClassName env classPtr =
     bind_run (getClassName env classPtr) (\<lambda>name. isValidName env name kMaxNameLength)"

definition hasValidIsaPointer :: "objc_env \<Rightarrow> 64 word \<Rightarrow> bool run" where
  "hasValidIsaPointer env object = bind_run (getIsaPointer env object) (\<lambda>isa. Inr (readable env isa 40))"

definition isValidClass :: "objc_env \<Rightarrow> 64 word \<Rightarrow> bool run" where
  "isValidClass env class =
     only_if (Inr (readable env class 40))
       (only_if (containsValidROData env class)
         (only_if (containsValidClassName env class) (containsValidIvarData env class)))"

definition isValidObject :: "objc_env \<Rightarrow> 64 word \<Rightarrow> bool run" where
  "isValidObject env object =
     (if isTaggedPointer env object then isValidTaggedPointer env object
      else
        only_if (Inr (readable env object 40))
          (only_if (hasValidIsaPointer env object)
            (bind_run (getIsaPointer env object) (\<lambda>isa. isValidClass env isa))))"

section \<open>Queries\<close>

definition sentrycrashobjc_isaPointer :: "objc_env \<Rightarrow> 64 word \<Rightarrow> 64 word run" where
  "sentrycrashobjc_isaPointer env p = getIsaPointer env p"

definition sentrycrashobjc_superClass :: "objc_env \<Rightarrow> 64 word \<Rightarrow> 64 word run" where
  "sentrycrashobjc_superClass env classPtr = getSuperClass env classPtr"

definition sentrycrashobjc_isMetaClass :: "objc_env \<Rightarrow> 64 word \<Rightarrow> bool run" where
  "sentrycrashobjc_isMetaClass env classPtr = isMetaClass env classPtr"

definition sentrycrashobjc_isRootClass :: "objc_env \<Rightarrow> 64 word \<Rightarrow> bool run" where
  "sentrycrashobjc_isRootClass env classPtr = isRootClass env classPtr"

definition sentrycrashobjc_className :: "objc_env \<Rightarrow> 64 word \<Rightarrow> 64 word run" where
  "sentrycrashobjc_className env classPtr = getClassName env classPtr"

text \<open>The name is a pointer into memory or, of a tagged pointer, a constant or NULL.\<close>

definition sentrycrashobjc_objectClassName :: "objc_env \<Rightarrow> 64 word \<Rightarrow> (bytes option + 64 word) run" where
  "sentrycrashobjc_objectClassName env objectPtr =
     (if isTaggedPointer env objectPtr then
        bind_run (isValidTaggedPointer env objectPtr) (\<lambda>valid.
          if valid then
            bind_run (getClassDataFromTaggedPointer env objectPtr) (\<lambda>data. Inr (Inl (cd_name data)))
          else Inr (Inl None))
      else
        bind_run (getIsaPointer env objectPtr) (\<lambda>isa.
        bind_run (getClassName env isa) (\<lambda>name. Inr (Inr name))))"

definition sentrycrashobjc_isClassNamed :: "objc_env \<Rightarrow> 64 word \<Rightarrow> bytes option \<Rightarrow> bool run" where
  "sentrycrashobjc_isClassNamed env classPtr className =
     bind_run (getClassName env classPtr) (\<lambda>name.
       case className of
         None \<Rightarrow> Inr False
       | Some wanted \<Rightarrow> if name = 0 then Inr False else same_text (om_mem env) name (c_string wanted))"

text \<open>The loops go up twenty classes at most.\<close>

fun kind_loop :: "objc_env \<Rightarrow> bytes \<Rightarrow> nat \<Rightarrow> 64 word \<Rightarrow> bool run" where
  "kind_loop env className 0 class = Inr False"
| "kind_loop env className (Suc n) class =
     bind_run (getClassName env class) (\<lambda>name.
       if name = 0 then Inr False
       else
         bind_run (same_text (om_mem env) name (c_string className)) (\<lambda>same.
           if same then Inr True
           else
             bind_run (getSuperClass env class) (\<lambda>super.
               only_if (containsValidROData env super) (kind_loop env className n super))))"

definition sentrycrashobjc_isKindOfClass :: "objc_env \<Rightarrow> 64 word \<Rightarrow> bytes option \<Rightarrow> bool run" where
  "sentrycrashobjc_isKindOfClass env classPtr className =
     (case className of None \<Rightarrow> Inr False | Some name \<Rightarrow> kind_loop env name 20 classPtr)"

fun base_loop :: "objc_env \<Rightarrow> nat \<Rightarrow> 64 word \<Rightarrow> 64 word \<Rightarrow> 64 word run" where
  "base_loop env 0 subClass superClass = Inr 0"
| "base_loop env (Suc n) subClass superClass =
     bind_run (isRootClass env superClass) (\<lambda>root.
       if root then Inr subClass
       else
         bind_run (getSuperClass env superClass) (\<lambda>super.
         bind_run (containsValidROData env super) (\<lambda>valid.
           if valid then base_loop env n superClass super else Inr 0)))"

definition sentrycrashobjc_baseClass :: "objc_env \<Rightarrow> 64 word \<Rightarrow> 64 word run" where
  "sentrycrashobjc_baseClass env classPtr = base_loop env 20 classPtr classPtr"

definition isBlockClass :: "objc_env \<Rightarrow> 64 word \<Rightarrow> bool run" where
  "isBlockClass env class =
     bind_run (sentrycrashobjc_baseClass env class) (\<lambda>baseClass.
       if baseClass = 0 then Inr False
       else
         bind_run (getClassName env baseClass) (\<lambda>name.
           if name = 0 then Inr False else same_text (om_mem env) name g_blockBaseClassName))"

definition sentrycrashobjc_objectType :: "objc_env \<Rightarrow> 64 word \<Rightarrow> objc_type run" where
  "sentrycrashobjc_objectType env p =
     (if p = 0 then Inr ObjCTypeUnknown
      else if isTaggedPointer env p then Inr ObjCTypeObject
      else
        bind_run (only_if (isValidObject env p) (isValidClass env p)) (\<lambda>valid.
          if \<not> valid then Inr ObjCTypeUnknown
          else
            bind_run (getIsaPointer env p) (\<lambda>isa.
            bind_run (isBlockClass env isa) (\<lambda>block.
              if block then Inr ObjCTypeBlock
              else
                bind_run (isMetaClass env isa) (\<lambda>meta.
                  if \<not> meta then Inr ObjCTypeObject else Inr ObjCTypeClass)))))"

definition sentrycrashobjc_isTaggedPointer :: "objc_env \<Rightarrow> 64 word \<Rightarrow> bool" where
  "sentrycrashobjc_isTaggedPointer env pointer = isTaggedPointer env pointer"

definition sentrycrashobjc_isValidTaggedPointer :: "objc_env \<Rightarrow> 64 word \<Rightarrow> bool run" where
  "sentrycrashobjc_isValidTaggedPointer env pointer = isValidTaggedPointer env pointer"

definition sentrycrashobjc_taggedPointerPayload :: "objc_env \<Rightarrow> 64 word \<Rightarrow> 64 word" where
  "sentrycrashobjc_taggedPointerPayload env pointer = getTaggedPayload env pointer"

definition sentrycrashobjc_objectClassType ::
    "objc_env \<Rightarrow> 64 word \<Rightarrow> class_data list \<Rightarrow> (objc_class_type \<times> class_data list) run" where
  "sentrycrashobjc_objectClassType env object table =
     bind_run (getClassDataFromObject env object table) (\<lambda>(data, table). Inr (cd_type data, table))"

section \<open>Instance variables\<close>

text \<open>The names are pointers.\<close>

record ivar_found =
  found_name :: "64 word"
  found_type :: "64 word"
  found_index :: int

definition sentrycrashobjc_ivarCount :: "objc_env \<Rightarrow> 64 word \<Rightarrow> int run" where
  "sentrycrashobjc_ivarCount env classPtr =
     bind_run (class_ivars env classPtr) (\<lambda>ivars.
       if ivars = 0 then Inr 0 else bind_run (load env (ivars + 4) 4) (\<lambda>n. Inr (as_int n)))"

fun list_ivars :: "objc_env \<Rightarrow> 64 word \<Rightarrow> 64 word \<Rightarrow> int \<Rightarrow> nat \<Rightarrow> ivar_found list run" where
  "list_ivars env srcIvars src i 0 = Inr []"
| "list_ivars env srcIvars src i (Suc n) =
     bind_run (load env (src + 8) 8) (\<lambda>name.
     bind_run (load env (src + 16) 8) (\<lambda>type.
     bind_run (load env srcIvars 4) (\<lambda>entsize.
     bind_run (list_ivars env srcIvars (src + entsize) (i + 1) n) (\<lambda>rest.
       Inr (\<lparr>found_name = name, found_type = type, found_index = i\<rparr> # rest)))))"

text \<open>The number that is returned and what is written at \<open>dstIvars\<close>, which is there or NULL.\<close>

definition sentrycrashobjc_ivarList :: "objc_env \<Rightarrow> 64 word \<Rightarrow> bool \<Rightarrow> int \<Rightarrow> (int \<times> ivar_found list) run" where
  "sentrycrashobjc_ivarList env classPtr dstIvars ivarsCount =
     (if \<not> dstIvars then Inr (0, [])
      else
        bind_run (sentrycrashobjc_ivarCount env classPtr) (\<lambda>count.
          if count = 0 then Inr (0, [])
          else
            let count = (if ivarsCount < count then ivarsCount else count)
            in bind_run (class_ivars env classPtr) (\<lambda>srcIvars.
               bind_run (list_ivars env srcIvars (srcIvars + 8) 0 (nat count)) (\<lambda>found. Inr (count, found)))))"

fun find_ivar :: "objc_env \<Rightarrow> bytes \<Rightarrow> 64 word \<Rightarrow> 64 word \<Rightarrow> int \<Rightarrow> nat \<Rightarrow> ivar_found option run" where
  "find_ivar env name ivars ivarPtr i 0 = Inr None"
| "find_ivar env name ivars ivarPtr i (Suc n) =
     bind_run (load env (ivarPtr + 8) 8) (\<lambda>p.
     bind_run (if p \<noteq> 0 then same_text (om_mem env) p (c_string name) else Inr False) (\<lambda>same.
       if same then
         bind_run (load env (ivarPtr + 16) 8) (\<lambda>type.
           Inr (Some \<lparr>found_name = p, found_type = type, found_index = i\<rparr>))
       else
         bind_run (load env ivars 4) (\<lambda>entsize. find_ivar env name ivars (ivarPtr + entsize) (i + 1) n)))"

definition sentrycrashobjc_ivarNamed :: "objc_env \<Rightarrow> 64 word \<Rightarrow> bytes option \<Rightarrow> ivar_found option run" where
  "sentrycrashobjc_ivarNamed env classPtr name =
     (case name of
        None \<Rightarrow> Inr None
      | Some name \<Rightarrow>
          bind_run (class_ivars env classPtr) (\<lambda>ivars.
            if ivars = 0 then Inr None
            else bind_run (load env (ivars + 4) 4) (\<lambda>n. find_ivar env name ivars (ivars + 8) 0 (nat (as_int n)))))"

text \<open>
  The bytes that are written at \<open>dst\<close>, if it returns true. The index is not looked at for being
  negative, and a class without a list of variables is not expected.
\<close>

definition sentrycrashobjc_ivarValue :: "objc_env \<Rightarrow> 64 word \<Rightarrow> int \<Rightarrow> bytes option run" where
  "sentrycrashobjc_ivarValue env objectPtr ivarIndex =
     (if isTaggedPointer env objectPtr then
        if isTaggedPointerNSDate env objectPtr then Inr (Some (le_bytes 8 (extractTaggedNSDate env objectPtr)))
        else if isTaggedPointerNSNumber env objectPtr then
          Inr (Some (le_bytes 8 (extractTaggedNSNumber env objectPtr)))
        else Inr None
      else
        bind_run (getIsaPointer env objectPtr) (\<lambda>classPtr.
        bind_run (class_ivars env classPtr) (\<lambda>ivars.
        bind_run (load env (ivars + 4) 4) (\<lambda>n.
          if ivarIndex \<ge> as_int n then Inr None
          else
            bind_run (load env ivars 4) (\<lambda>entsize.
            let ivar = ivars + 8 + entsize * word_of_int ivarIndex
            in bind_run (load env ivar 8) (\<lambda>offset_ptr.
               bind_run (load env offset_ptr 4) (\<lambda>offset.
               bind_run (load env (ivar + 28) 4) (\<lambda>ivar_size.
                 let (copied, data) =
                       sentrycrashmem_copySafely (om_vm env) (objectPtr + word_of_int (as_int offset)) (as_int ivar_size)
                 in Inr (if copied then Some data else None))))))))
     )"

end
