(* ===== verification/Objc_Values.thy ===== *)
theory Objc_Values
  imports Objc_Class Crash_String_Spec
begin

text \<open>
  The second half of \<open>Recording/Tools/SentryCrashObjC.c\<close>: strings, URLs, dates, numbers, arrays and
  what is left of dictionaries, whether they are valid and how they are described. A buffer is its
  bytes, all of them; \<open>p\<close> is where in the buffer a function starts to write. A double is its 64 bits.
\<close>

unbundle bit_operations_syntax

section \<open>Buffers\<close>

definition put_at :: "bytes \<Rightarrow> int \<Rightarrow> byte \<Rightarrow> bytes run" where
  "put_at buf i b = (if 0 \<le> i \<and> i < int (length buf) then Inr (buf[nat i := b]) else Inl UndefinedBehaviour)"

definition put_all :: "bytes \<Rightarrow> nat \<Rightarrow> bytes \<Rightarrow> bytes run" where
  "put_all buf p s =
     (if s = [] then Inr buf
      else if p + length s \<le> length buf then Inr (take p buf @ s @ drop (p + length s) buf)
      else Inl UndefinedBehaviour)"

text \<open>\<open>s\<close> is the text that is printed, all of it; \<open>vsnprintf\<close> does not fail on these formats.\<close>

definition stringPrintf :: "bytes \<Rightarrow> nat \<Rightarrow> bytes \<Rightarrow> (nat \<times> bytes) run" where
  "stringPrintf buf p s =
     (let bufferLength = length buf - p
      in if bufferLength = 0 then Inr (0, buf)
         else
           bind_run (put_all buf p (take (bufferLength - 1) s @ [NUL])) (\<lambda>buf.
             Inr (if length s > bufferLength then bufferLength - 1 else length s, buf)))"

text \<open>What follows what has been written, as in \<open>pBuffer += ...\<close>: the counts add up.\<close>

definition then_write :: "(nat \<times> bytes) run \<Rightarrow> (nat \<Rightarrow> bytes \<Rightarrow> (nat \<times> bytes) run) \<Rightarrow> (nat \<times> bytes) run" where
  "then_write r f = bind_run r (\<lambda>(n, buf). bind_run (f n buf) (\<lambda>(m, buf). Inr (n + m, buf)))"

section \<open>Objects that are not known\<close>

text \<open>
  The address is an \<open>int\<close> to \<open>printf\<close>, which prints its lower half, with zeros before it. A name that is
  NULL is printed as \<open>(null)\<close>.
\<close>

definition address_text :: "bytes \<Rightarrow> 64 word \<Rightarrow> bytes" where
  "address_text name object =
     (let digits = show_hex (unat (take_bit 32 object))
      in ''<'' @ name @ '': 0x'' @ replicate (16 - length digits) (CHR ''0'') @ digits @ ''>'')"

definition objectDescription :: "objc_env \<Rightarrow> 64 word \<Rightarrow> bytes \<Rightarrow> nat \<Rightarrow> (nat \<times> bytes) run" where
  "objectDescription env object buf p =
     bind_run (getIsaPointer env object) (\<lambda>class.
     bind_run (getClassName env class) (\<lambda>name.
       if length buf - p = 0 then Inr (0, buf)
       else
         bind_run (if name = 0 then Inr ''(null)'' else text_at (om_mem env) name) (\<lambda>name.
           stringPrintf buf p (address_text name object))))"

definition taggedObjectDescription :: "objc_env \<Rightarrow> 64 word \<Rightarrow> bytes \<Rightarrow> nat \<Rightarrow> (nat \<times> bytes) run" where
  "taggedObjectDescription env object buf p =
     bind_run (getClassDataFromTaggedPointer env object) (\<lambda>data.
       stringPrintf buf p (address_text (case cd_name data of None \<Rightarrow> ''(null)'' | Some name \<Rightarrow> name) object))"

definition objectIsValid :: "64 word \<Rightarrow> bool" where "objectIsValid object = True"

definition taggedObjectIsValid :: "objc_env \<Rightarrow> 64 word \<Rightarrow> bool run" where
  "taggedObjectIsValid env object = isValidTaggedPointer env object"

section \<open>Strings\<close>

text \<open>
  A \<open>CFRuntimeBase\<close> has 16 bytes with the info byte at 8. The rest of a \<open>__CFString\<close> starts at 16: the
  length of an inline string, or a pointer to the buffer with the length at 24.
\<close>

definition cf_info :: "objc_env \<Rightarrow> 64 word \<Rightarrow> 64 word run" where
  "cf_info env str = load env (str + 8) 1"

definition CFStrIsMutable :: "64 word \<Rightarrow> bool" where "CFStrIsMutable info \<longleftrightarrow> info AND 0x01 = 0x01"
definition CFStrIsInline :: "64 word \<Rightarrow> bool" where "CFStrIsInline info \<longleftrightarrow> info AND 0x060 = 0"
definition CFStrIsUnicode :: "64 word \<Rightarrow> bool" where "CFStrIsUnicode info \<longleftrightarrow> info AND 0x10 = 0x10"
definition CFStrHasLengthByte :: "64 word \<Rightarrow> bool" where "CFStrHasLengthByte info \<longleftrightarrow> info AND 0x04 = 0x04"

definition CFStrHasExplicitLength :: "64 word \<Rightarrow> bool" where
  "CFStrHasExplicitLength info \<longleftrightarrow> info AND (0x01 OR 0x04) \<noteq> 0x04"

definition CFStrContents :: "objc_env \<Rightarrow> 64 word \<Rightarrow> 64 word run" where
  "CFStrContents env str =
     bind_run (cf_info env str) (\<lambda>info.
       if CFStrIsInline info then Inr (str + 16 + (if CFStrHasExplicitLength info then 8 else 0))
       else load env (str + 16) 8)"

definition stringStart :: "objc_env \<Rightarrow> 64 word \<Rightarrow> 64 word run" where
  "stringStart env str =
     bind_run (CFStrContents env str) (\<lambda>contents.
     bind_run (cf_info env str) (\<lambda>info. Inr (contents + (if CFStrHasLengthByte info then 1 else 0))))"

abbreviation copied :: "objc_env \<Rightarrow> 64 word \<Rightarrow> int \<Rightarrow> bool" where
  "copied env a n \<equiv> fst (sentrycrashmem_copySafely (om_vm env) a n)"

text \<open>The length of a string of each layout; NONE if a part of it cannot be read.\<close>

definition checked_length :: "objc_env \<Rightarrow> 64 word \<Rightarrow> 64 word option run" where
  "checked_length env str =
     bind_run (cf_info env str) (\<lambda>info.
       let long = (\<lambda>ok a. if ok then bind_run (load env a 8) (\<lambda>n. Inr (Some n)) else Inr None)
       in if CFStrIsInline info then long (copied env (str + 16) 8) (str + 16)
          else if CFStrIsMutable info then long (copied env (str + 16) 40) (str + 24)
          else if \<not> CFStrHasLengthByte info then long (copied env (str + 16) 24) (str + 24)
          else if \<not> copied env (str + 16) 16 then Inr None
          else
            bind_run (CFStrContents env str) (\<lambda>contents.
              let (good, oneByte) = sentrycrashmem_copySafely (om_vm env) contents 1
              in Inr (if good then Some (le_word oneByte) else None)))"

definition stringIsValid :: "objc_env \<Rightarrow> 64 word \<Rightarrow> bool run" where
  "stringIsValid env str =
     (if \<not> copied env str 16 then Inr False
      else
        bind_run (checked_length env str) (\<lambda>n.
          case n of
            None \<Rightarrow> Inr False
          | Some n \<Rightarrow>
              if sint n < 0 then Inr False
              else if sint n > 0 then bind_run (stringStart env str) (\<lambda>start. Inr (copied env start 1))
              else Inr True))"

definition getTaggedNSStringLength :: "objc_env \<Rightarrow> 64 word \<Rightarrow> nat" where
  "getTaggedNSStringLength env object = unat (getTaggedPayload env object AND 0xf)"

definition tagged_alphabet :: bytes where
  "tagged_alphabet = ''eilotrm.apdnsIc ufkMShjTRxgC4013bDNvwyUL2O856P-B79AFKEWV_zGJ/HYX''"

text \<open>The characters: seven bits of each byte, or numbers of six or five bits that stand for them.\<close>

fun ascii_chars :: "64 word \<Rightarrow> nat \<Rightarrow> bytes" where
  "ascii_chars v 0 = []"
| "ascii_chars v (Suc n) = char_of (unat (v AND 0x7f)) # ascii_chars (drop_bit 8 v) n"

definition coded_chars :: "nat \<Rightarrow> 64 word \<Rightarrow> nat \<Rightarrow> nat \<Rightarrow> bytes" where
  "coded_chars width v strlength n =
     map (\<lambda>i. tagged_alphabet ! unat (drop_bit ((strlength - 1 - i) * width) v AND Bit_Operations.mask width)) [0 ..< n]"

text \<open>
  The string is cut to the buffer, the zero byte that ends it is not. Where the length is 12 or more
  the buffer is made empty, and the length returned all the same.
\<close>

definition extractTaggedNSString :: "objc_env \<Rightarrow> 64 word \<Rightarrow> bytes \<Rightarrow> nat \<Rightarrow> (nat \<times> bytes) run" where
  "extractTaggedNSString env object buf p =
     (let n = getTaggedNSStringLength env object;
          bufferLength = length buf - p;
          copyLength = (if n + 1 > bufferLength then bufferLength - 1 else n);
          v = drop_bit 4 (getTaggedPayload env object)
      in bind_run
           (if n \<le> 7 then put_all buf p (ascii_chars v copyLength)
            else if n \<le> 9 then put_all buf p (coded_chars 6 v n copyLength)
            else if n \<le> 11 then put_all buf p (coded_chars 5 v n copyLength)
            else put_at buf (int p) NUL) (\<lambda>buf.
         bind_run (put_at buf (int (p + n)) NUL) (\<lambda>buf. Inr (n, buf))))"

definition sentrycrashobjc_stringLength :: "objc_env \<Rightarrow> 64 word \<Rightarrow> int run" where
  "sentrycrashobjc_stringLength env str =
     (if isTaggedPointer env str \<and> isTaggedPointerNSString env str then Inr (int (getTaggedNSStringLength env str))
      else
        bind_run (cf_info env str) (\<lambda>info.
          if CFStrHasExplicitLength info then
            bind_run (load env (if CFStrIsInline info then str + 16 else str + 24) 8) (\<lambda>n. Inr (as_int n))
          else
            bind_run (CFStrContents env str) (\<lambda>contents.
            bind_run (load env contents 1) (\<lambda>n. Inr (uint n)))))"

section \<open>UTF-16\<close>

definition utf8_bytes :: "32 word \<Rightarrow> bytes option" where
  "utf8_bytes character =
     (if character \<le> 0x7f then Some [char_cast character]
      else if character \<le> 0x7ff then
        Some [char_cast (0xc0 OR drop_bit 6 character), char_cast (0x80 OR (character AND 0x3f))]
      else if character \<le> 0xffff then
        Some [char_cast (0xe0 OR drop_bit 12 character), char_cast (0x80 OR (drop_bit 6 character AND 0x3f)),
          char_cast (0x80 OR (character AND 0x3f))]
      else if character \<le> 0x10ffff then
        Some [char_cast (0xf0 OR drop_bit 18 character), char_cast (0x80 OR (drop_bit 12 character AND 0x3f)),
          char_cast (0x80 OR (drop_bit 6 character AND 0x3f)), char_cast (0x80 OR (character AND 0x3f))]
      else None)"

text \<open>
  A character from the units at \<open>pSrc\<close>, and whether it takes two of them; none if they are no
  character. The second unit is read without a look at how many there are.
\<close>

definition utf16_character :: "objc_env \<Rightarrow> 64 word \<Rightarrow> (32 word \<times> bool) option run" where
  "utf16_character env pSrc =
     bind_run (load env pSrc 2) (\<lambda>leadSurrogate.
       if leadSurrogate < 0xd800 \<or> leadSurrogate > 0xdfff then Inr (Some (ucast leadSurrogate, False))
       else if leadSurrogate > 0xdbff then Inr None
       else
         bind_run (load env (pSrc + 2) 2) (\<lambda>tailSurrogate.
           if tailSurrogate < 0xdc00 \<or> tailSurrogate > 0xdfff then Inr None
           else
             Inr (Some (push_bit 10 (ucast leadSurrogate - 0xd800) + (ucast tailSurrogate - 0xdc00) + 0x10000, True))))"

text \<open>What is written, for which there are \<open>room\<close> bytes, and whether every unit was part of a character.\<close>

function utf16_loop :: "objc_env \<Rightarrow> 64 word \<Rightarrow> int \<Rightarrow> int \<Rightarrow> bytes \<Rightarrow> (bytes \<times> bool) run" where
  "utf16_loop env pSrc charsRemaining room got =
     (if charsRemaining \<le> 0 \<or> int (length got) \<ge> room then Inr (got, True)
      else
        bind_run (utf16_character env pSrc) (\<lambda>next_char.
          case next_char of
            None \<Rightarrow> Inr (got, False)
          | Some (character, pair) \<Rightarrow>
              (case utf8_bytes character of
                 None \<Rightarrow> Inr (got, False)
               | Some u \<Rightarrow>
                   if int (length got + length u) > room then Inr (got, True)
                   else
                     utf16_loop env (pSrc + (if pair then 4 else 2)) (charsRemaining - (if pair then 2 else 1)) room
                       (got @ u))))"
  by pat_completeness auto
termination
  by (relation "measure (\<lambda>(env, pSrc, charsRemaining, room, got). nat charsRemaining)") auto

declare utf16_loop.simps [simp del]

definition copyAndConvertUTF16StringToUTF8 :: "objc_env \<Rightarrow> 64 word \<Rightarrow> int \<Rightarrow> bytes \<Rightarrow> nat \<Rightarrow> (nat \<times> bytes) run" where
  "copyAndConvertUTF16StringToUTF8 env src charCount buf p =
     bind_run (utf16_loop env src charCount (int (length buf - p) - 1) []) (\<lambda>(got, good).
     bind_run (put_all buf p got) (\<lambda>buf.
       if good then bind_run (put_at buf (int (p + length got)) NUL) (\<lambda>buf. Inr (length got, buf))
       else bind_run (put_at buf (int p) NUL) (\<lambda>buf. Inr (0, buf))))"

definition copy8BitString :: "objc_env \<Rightarrow> 64 word \<Rightarrow> int \<Rightarrow> bytes \<Rightarrow> nat \<Rightarrow> (nat \<times> bytes) run" where
  "copy8BitString env src charCount buf p =
     (let maxByteCount = int (length buf - p);
          emptied = bind_run (put_at buf (int p) NUL) (\<lambda>buf. Inr (0, buf))
      in if maxByteCount = 0 then Inr (0, buf)
         else if charCount = 0 then emptied
         else
           let charCount = (if charCount \<ge> maxByteCount then maxByteCount - 1 else charCount);
               (good, data) = sentrycrashmem_copySafely (om_vm env) src charCount
           in if \<not> good then emptied
              else
                bind_run (put_all buf p data) (\<lambda>buf.
                bind_run (put_at buf (int p + charCount) NUL) (\<lambda>buf. Inr (nat charCount, buf))))"

definition sentrycrashobjc_copyStringContents :: "objc_env \<Rightarrow> 64 word \<Rightarrow> bytes \<Rightarrow> nat \<Rightarrow> (nat \<times> bytes) run" where
  "sentrycrashobjc_copyStringContents env str buf p =
     (if isTaggedPointer env str \<and> isTaggedPointerNSString env str then extractTaggedNSString env str buf p
      else
        bind_run (sentrycrashobjc_stringLength env str) (\<lambda>charCount.
        bind_run (stringStart env str) (\<lambda>src.
        bind_run (cf_info env str) (\<lambda>info.
          if CFStrIsUnicode info then copyAndConvertUTF16StringToUTF8 env src charCount buf p
          else copy8BitString env src charCount buf p))))"

definition stringDescription :: "objc_env \<Rightarrow> 64 word \<Rightarrow> bytes \<Rightarrow> nat \<Rightarrow> (nat \<times> bytes) run" where
  "stringDescription env object buf p =
     then_write (then_write (then_write (objectDescription env object buf p)
       (\<lambda>n buf. stringPrintf buf (p + n) '': \"''))
       (\<lambda>n buf. sentrycrashobjc_copyStringContents env object buf (p + n)))
       (\<lambda>n buf. stringPrintf buf (p + n) ''\"'')"

definition taggedStringIsValid :: "objc_env \<Rightarrow> 64 word \<Rightarrow> bool run" where
  "taggedStringIsValid env object =
     only_if (isValidTaggedPointer env object) (Inr (isTaggedPointerNSString env object))"

definition taggedStringDescription :: "objc_env \<Rightarrow> 64 word \<Rightarrow> bytes \<Rightarrow> nat \<Rightarrow> (nat \<times> bytes) run" where
  "taggedStringDescription env object buf p = extractTaggedNSString env object buf p"

section \<open>URLs\<close>

text \<open>A \<open>__CFURL\<close> has 72 bytes, with the pointer to its string at 24.\<close>

definition urlIsValid :: "objc_env \<Rightarrow> 64 word \<Rightarrow> bool run" where
  "urlIsValid env urlPtr =
     (let (good, url) = sentrycrashmem_copySafely (om_vm env) urlPtr 72
      in if \<not> good then Inr False else stringIsValid env (le_word (take 8 (drop 24 url))))"

definition sentrycrashobjc_copyURLContents :: "objc_env \<Rightarrow> 64 word \<Rightarrow> bytes \<Rightarrow> nat \<Rightarrow> (nat \<times> bytes) run" where
  "sentrycrashobjc_copyURLContents env urlPtr buf p =
     bind_run (load env (urlPtr + 24) 8) (\<lambda>str. sentrycrashobjc_copyStringContents env str buf p)"

definition urlDescription :: "objc_env \<Rightarrow> 64 word \<Rightarrow> bytes \<Rightarrow> nat \<Rightarrow> (nat \<times> bytes) run" where
  "urlDescription env object buf p =
     then_write (then_write (then_write (objectDescription env object buf p)
       (\<lambda>n buf. stringPrintf buf (p + n) '': \"''))
       (\<lambda>n buf. sentrycrashobjc_copyURLContents env object buf (p + n)))
       (\<lambda>n buf. stringPrintf buf (p + n) ''\"'')"

section \<open>Dates\<close>

text \<open>
  The arithmetic of doubles that the code uses is a parameter: conversions and what \<open>%f\<close> prints, all
  on their bits.
\<close>

record float_ops =
  fl_of_int :: "int \<Rightarrow> 64 word"
  fl_of_single :: "32 word \<Rightarrow> 64 word"
  fl_to_int64 :: "64 word \<Rightarrow> 64 word"
  single_to_int64 :: "32 word \<Rightarrow> 64 word"
  fl_text :: "64 word \<Rightarrow> bytes"
  fl_nan :: "64 word"

text \<open>A \<open>__CFDate\<close> has its time at 8.\<close>

definition dateIsValid :: "objc_env \<Rightarrow> 64 word \<Rightarrow> bool" where
  "dateIsValid env datePtr = copied env datePtr 16"

definition sentrycrashobjc_dateContents :: "objc_env \<Rightarrow> 64 word \<Rightarrow> 64 word run" where
  "sentrycrashobjc_dateContents env datePtr =
     bind_run (isValidTaggedPointer env datePtr) (\<lambda>tagged.
       if tagged then Inr (extractTaggedNSDate env datePtr) else load env (datePtr + 8) 8)"

definition dateDescription :: "objc_env \<Rightarrow> float_ops \<Rightarrow> 64 word \<Rightarrow> bytes \<Rightarrow> nat \<Rightarrow> (nat \<times> bytes) run" where
  "dateDescription env fl object buf p =
     bind_run (sentrycrashobjc_dateContents env object) (\<lambda>time.
       then_write (objectDescription env object buf p) (\<lambda>n buf. stringPrintf buf (p + n) ('': '' @ fl_text fl time)))"

definition taggedDateIsValid :: "objc_env \<Rightarrow> 64 word \<Rightarrow> bool run" where
  "taggedDateIsValid env datePtr = only_if (isValidTaggedPointer env datePtr) (Inr (isTaggedPointerNSDate env datePtr))"

definition taggedDateDescription :: "objc_env \<Rightarrow> float_ops \<Rightarrow> 64 word \<Rightarrow> bytes \<Rightarrow> nat \<Rightarrow> (nat \<times> bytes) run" where
  "taggedDateDescription env fl object buf p =
     (let time = extractTaggedNSDate env object
      in then_write (taggedObjectDescription env object buf p)
           (\<lambda>n buf. stringPrintf buf (p + n) ('': '' @ fl_text fl time)))"

section \<open>Numbers\<close>

text \<open>
  What Core Foundation says of a number is a parameter: its type, and whether that is one of floating
  point numbers.
\<close>

record cf_numbers =
  CFNumberGetType :: "64 word \<Rightarrow> nat"
  CFNumberIsFloatType :: "64 word \<Rightarrow> bool"

datatype number_kind = SignedBytes nat | SingleFloat | DoubleFloat

text \<open>The types by their numbers in Core Foundation, from \<open>kCFNumberSInt8Type\<close> to \<open>kCFNumberCGFloatType\<close>.\<close>

definition number_kind_of :: "nat \<Rightarrow> number_kind option" where
  "number_kind_of cftype =
     (if cftype = 1 \<or> cftype = 7 then Some (SignedBytes 1)
      else if cftype = 2 \<or> cftype = 8 then Some (SignedBytes 2)
      else if cftype = 3 \<or> cftype = 9 then Some (SignedBytes 4)
      else if cftype = 4 \<or> cftype = 10 \<or> cftype = 11 \<or> cftype = 14 \<or> cftype = 15 then Some (SignedBytes 8)
      else if cftype = 5 \<or> cftype = 12 then Some SingleFloat
      else if cftype = 6 \<or> cftype = 13 \<or> cftype = 16 then Some DoubleFloat
      else None)"

text \<open>
  The cases of \<open>EXTRACT_AND_RETURN_NSNUMBER\<close>: the casts from an integer, a \<open>float\<close> and a \<open>double\<close>. The
  number of a \<open>__CFNumber\<close> is at 16.
\<close>

definition extract_number ::
    "objc_env \<Rightarrow> cf_numbers \<Rightarrow> (int \<Rightarrow> 64 word) \<Rightarrow> (32 word \<Rightarrow> 64 word) \<Rightarrow> (64 word \<Rightarrow> 64 word) \<Rightarrow> 64 word \<Rightarrow> 64 word \<Rightarrow>
       64 word run" where
  "extract_number env cf of_signed of_single of_double otherwise object =
     bind_run (isValidTaggedPointer env object) (\<lambda>tagged.
       if tagged then Inr (of_signed (sint (extractTaggedNSNumber env object)))
       else
         (case number_kind_of (CFNumberGetType cf object) of
            None \<Rightarrow> Inr otherwise
          | Some (SignedBytes n) \<Rightarrow>
              bind_run (load env (object + 16) n) (\<lambda>w. Inr (of_signed (sint (signed_take_bit (8 * n - 1) w))))
          | Some SingleFloat \<Rightarrow> bind_run (load env (object + 16) 4) (\<lambda>w. Inr (of_single (ucast w)))
          | Some DoubleFloat \<Rightarrow> bind_run (load env (object + 16) 8) (\<lambda>w. Inr (of_double w))))"

definition sentrycrashobjc_numberAsFloat :: "objc_env \<Rightarrow> float_ops \<Rightarrow> cf_numbers \<Rightarrow> 64 word \<Rightarrow> 64 word run" where
  "sentrycrashobjc_numberAsFloat env fl cf object =
     extract_number env cf (fl_of_int fl) (fl_of_single fl) (\<lambda>w. w) (fl_nan fl) object"

definition sentrycrashobjc_numberAsInteger :: "objc_env \<Rightarrow> float_ops \<Rightarrow> cf_numbers \<Rightarrow> 64 word \<Rightarrow> 64 word run" where
  "sentrycrashobjc_numberAsInteger env fl cf object =
     extract_number env cf word_of_int (single_to_int64 fl) (fl_to_int64 fl) 0 object"

definition sentrycrashobjc_numberIsFloat :: "cf_numbers \<Rightarrow> 64 word \<Rightarrow> bool" where
  "sentrycrashobjc_numberIsFloat cf object = CFNumberIsFloatType cf object"

definition numberIsValid :: "objc_env \<Rightarrow> 64 word \<Rightarrow> bool" where
  "numberIsValid env datePtr = copied env datePtr 24"

definition numberDescription ::
    "objc_env \<Rightarrow> float_ops \<Rightarrow> cf_numbers \<Rightarrow> 64 word \<Rightarrow> bytes \<Rightarrow> nat \<Rightarrow> (nat \<times> bytes) run" where
  "numberDescription env fl cf object buf p =
     then_write (objectDescription env object buf p) (\<lambda>n buf.
       if sentrycrashobjc_numberIsFloat cf object then
         bind_run (sentrycrashobjc_numberAsFloat env fl cf object) (\<lambda>v.
           stringPrintf buf (p + n) ('': '' @ fl_text fl v))
       else
         bind_run (sentrycrashobjc_numberAsInteger env fl cf object) (\<lambda>v.
           stringPrintf buf (p + n) ('': '' @ show_int (sint v))))"

definition taggedNumberIsValid :: "objc_env \<Rightarrow> 64 word \<Rightarrow> bool run" where
  "taggedNumberIsValid env object =
     only_if (isValidTaggedPointer env object) (Inr (isTaggedPointerNSNumber env object))"

definition taggedNumberDescription :: "objc_env \<Rightarrow> 64 word \<Rightarrow> bytes \<Rightarrow> nat \<Rightarrow> (nat \<times> bytes) run" where
  "taggedNumberDescription env object buf p =
     (let v = extractTaggedNSNumber env object
      in then_write (taggedObjectDescription env object buf p)
           (\<lambda>n buf. stringPrintf buf (p + n) ('': '' @ show_int (sint v))))"

section \<open>Arrays\<close>

text \<open>An \<open>NSArray\<close> has its count at 8 and the first entry at 16, and 24 bytes with it.\<close>

definition nsarrayIsMutable :: "objc_env \<Rightarrow> 64 word \<Rightarrow> class_data list \<Rightarrow> (bool \<times> class_data list) run" where
  "nsarrayIsMutable env arrayPtr table =
     bind_run (getClassDataFromObject env arrayPtr table) (\<lambda>(data, table). Inr (cd_isMutable data, table))"

definition nsarrayIsValid :: "objc_env \<Rightarrow> 64 word \<Rightarrow> bool" where
  "nsarrayIsValid env arrayPtr = copied env arrayPtr 24"

definition nsarrayCount :: "objc_env \<Rightarrow> 64 word \<Rightarrow> int run" where
  "nsarrayCount env arrayPtr = bind_run (load env (arrayPtr + 8) 8) (\<lambda>n. Inr (if sint n < 0 then 0 else as_int n))"

text \<open>The entries that are copied, and their number.\<close>

definition copy_words :: "objc_env \<Rightarrow> 64 word \<Rightarrow> int \<Rightarrow> int \<times> 64 word list" where
  "copy_words env a count =
     (let (good, data) = sentrycrashmem_copySafely (om_vm env) a (8 * count)
      in if good then (count, map (\<lambda>i. le_word (take 8 (drop (8 * i) data))) [0 ..< nat count]) else (0, []))"

definition nsarrayContents ::
    "objc_env \<Rightarrow> 64 word \<Rightarrow> int \<Rightarrow> class_data list \<Rightarrow> ((int \<times> 64 word list) \<times> class_data list) run" where
  "nsarrayContents env arrayPtr count table =
     bind_run (load env (arrayPtr + 8) 8) (\<lambda>n.
       if sint n < count \<and> sint n \<le> 0 then Inr ((0, []), table)
       else
         let count = (if sint n < count then as_int n else count)
         in bind_run (nsarrayIsMutable env arrayPtr table) (\<lambda>(isMutable, table).
              Inr (if isMutable then (0, []) else copy_words env (arrayPtr + 16) count, table)))"

text \<open>
  A \<open>__CFArray\<close> has 48 bytes: the count at 16 and the pointer to its store at 40. The first two bits of
  the info byte tell an immutable array (0), whose entries follow, from a deque (2).
\<close>

definition CFArrayGetType :: "objc_env \<Rightarrow> 64 word \<Rightarrow> 64 word run" where
  "CFArrayGetType env arrayPtr = bind_run (cf_info env arrayPtr) (\<lambda>info. Inr (info AND 3))"

definition CFArrayGetSizeOfType :: "64 word \<Rightarrow> 64 word" where
  "CFArrayGetSizeOfType t = 48 + (if drop_bit 2 (t AND 0xc) = 3 then 40 else 0)"

definition CFArrayGetBucketsPtr :: "objc_env \<Rightarrow> 64 word \<Rightarrow> 64 word run" where
  "CFArrayGetBucketsPtr env arrayPtr =
     bind_run (CFArrayGetType env arrayPtr) (\<lambda>type.
       if type = 0 then bind_run (cf_info env arrayPtr) (\<lambda>info. Inr (arrayPtr + CFArrayGetSizeOfType info))
       else if type = 2 then
         bind_run (load env (arrayPtr + 40) 8) (\<lambda>deque.
         bind_run (load env deque 8) (\<lambda>leftIdx. Inr (deque + 16 + leftIdx * 8)))
       else Inr 0)"

definition cfarrayIsValid :: "objc_env \<Rightarrow> 64 word \<Rightarrow> bool run" where
  "cfarrayIsValid env arrayPtr =
     (if \<not> copied env arrayPtr 48 then Inr False
      else
        bind_run (CFArrayGetType env arrayPtr) (\<lambda>type.
          if type = 2 then
            bind_run (load env (arrayPtr + 40) 8) (\<lambda>store. Inr (store \<noteq> 0 \<longrightarrow> copied env store 16))
          else Inr True))"

definition cfarrayData :: "objc_env \<Rightarrow> 64 word \<Rightarrow> 64 word run" where
  "cfarrayData env arrayPtr = CFArrayGetBucketsPtr env arrayPtr"

definition cfarrayCount :: "objc_env \<Rightarrow> 64 word \<Rightarrow> int run" where
  "cfarrayCount env arrayPtr = bind_run (load env (arrayPtr + 16) 8) (\<lambda>n. Inr (if sint n < 0 then 0 else as_int n))"

definition cfarrayContents :: "objc_env \<Rightarrow> 64 word \<Rightarrow> int \<Rightarrow> (int \<times> 64 word list) run" where
  "cfarrayContents env arrayPtr count =
     bind_run (load env (arrayPtr + 16) 8) (\<lambda>n.
       if sint n < count \<and> sint n \<le> 0 then Inr (0, [])
       else
         let count = (if sint n < count then as_int n else count)
         in bind_run (cfarrayData env arrayPtr) (\<lambda>firstEntry. Inr (copy_words env firstEntry count)))"

definition isCFArray :: "objc_env \<Rightarrow> 64 word \<Rightarrow> class_data list \<Rightarrow> (bool \<times> class_data list) run" where
  "isCFArray env arrayPtr table =
     bind_run (getClassDataFromObject env arrayPtr table) (\<lambda>(data, table).
       Inr (cd_subtype data = ClassSubtypeCFArray, table))"

definition sentrycrashobjc_arrayCount :: "objc_env \<Rightarrow> 64 word \<Rightarrow> class_data list \<Rightarrow> (int \<times> class_data list) run" where
  "sentrycrashobjc_arrayCount env arrayPtr table =
     bind_run (isCFArray env arrayPtr table) (\<lambda>(cf, table).
     bind_run (if cf then cfarrayCount env arrayPtr else nsarrayCount env arrayPtr) (\<lambda>n. Inr (n, table)))"

definition sentrycrashobjc_arrayContents ::
    "objc_env \<Rightarrow> 64 word \<Rightarrow> int \<Rightarrow> class_data list \<Rightarrow> ((int \<times> 64 word list) \<times> class_data list) run" where
  "sentrycrashobjc_arrayContents env arrayPtr count table =
     bind_run (isCFArray env arrayPtr table) (\<lambda>(cf, table).
       if cf then bind_run (cfarrayContents env arrayPtr count) (\<lambda>found. Inr (found, table))
       else nsarrayContents env arrayPtr count table)"

definition arrayIsValid :: "objc_env \<Rightarrow> 64 word \<Rightarrow> class_data list \<Rightarrow> (bool \<times> class_data list) run" where
  "arrayIsValid env object table =
     bind_run (isCFArray env object table) (\<lambda>(cf, table).
     bind_run (if cf then cfarrayIsValid env object else Inr (nsarrayIsValid env object)) (\<lambda>valid. Inr (valid, table)))"

section \<open>Any object\<close>

definition is_valid_by :: "objc_env \<Rightarrow> validity \<Rightarrow> 64 word \<Rightarrow> class_data list \<Rightarrow> (bool \<times> class_data list) run" where
  "is_valid_by env f object table =
     (let keep = (\<lambda>r. bind_run r (\<lambda>valid. Inr (valid, table)))
      in case f of
           ObjectIsValid \<Rightarrow> Inr (objectIsValid object, table)
         | TaggedObjectIsValid \<Rightarrow> keep (taggedObjectIsValid env object)
         | StringIsValid \<Rightarrow> keep (stringIsValid env object)
         | UrlIsValid \<Rightarrow> keep (urlIsValid env object)
         | ArrayIsValid \<Rightarrow> arrayIsValid env object table
         | DateIsValid \<Rightarrow> Inr (dateIsValid env object, table)
         | NumberIsValid \<Rightarrow> Inr (numberIsValid env object, table)
         | TaggedDateIsValid \<Rightarrow> keep (taggedDateIsValid env object)
         | TaggedNumberIsValid \<Rightarrow> keep (taggedNumberIsValid env object)
         | TaggedStringIsValid \<Rightarrow> keep (taggedStringIsValid env object))"

definition sentrycrashobjc_isValidObject :: "objc_env \<Rightarrow> 64 word \<Rightarrow> class_data list \<Rightarrow> (bool \<times> class_data list) run" where
  "sentrycrashobjc_isValidObject env object table =
     bind_run (isValidObject env object) (\<lambda>valid.
       if \<not> valid then Inr (False, table)
       else
         bind_run (getClassDataFromObject env object table) (\<lambda>(data, table).
           is_valid_by env (cd_isValidObject data) object table))"

text \<open>The descriptions that do not describe other objects.\<close>

definition describe_alone ::
    "objc_env \<Rightarrow> float_ops \<Rightarrow> cf_numbers \<Rightarrow> describer \<Rightarrow> 64 word \<Rightarrow> bytes \<Rightarrow> nat \<Rightarrow> (nat \<times> bytes) run" where
  "describe_alone env fl cf d object buf p =
     (case d of
        TaggedObjectDescription \<Rightarrow> taggedObjectDescription env object buf p
      | StringDescription \<Rightarrow> stringDescription env object buf p
      | UrlDescription \<Rightarrow> urlDescription env object buf p
      | DateDescription \<Rightarrow> dateDescription env fl object buf p
      | NumberDescription \<Rightarrow> numberDescription env fl cf object buf p
      | TaggedDateDescription \<Rightarrow> taggedDateDescription env fl object buf p
      | TaggedNumberDescription \<Rightarrow> taggedNumberDescription env object buf p
      | TaggedStringDescription \<Rightarrow> taggedStringDescription env object buf p
      | _ \<Rightarrow> objectDescription env object buf p)"

text \<open>
  The number of bytes written, the buffer and the table of classes. \<open>inner\<close> is the description of the
  first entry.
\<close>

type_synonym described = "((nat \<times> bytes) \<times> class_data list) run"

definition then_describe ::
    "described \<Rightarrow> (nat \<Rightarrow> bytes \<Rightarrow> class_data list \<Rightarrow> described) \<Rightarrow> described" where
  "then_describe r f =
     bind_run r (\<lambda>((n, buf), table). bind_run (f n buf table) (\<lambda>((m, buf), table). Inr ((n + m, buf), table)))"

definition keep_table :: "class_data list \<Rightarrow> (nat \<times> bytes) run \<Rightarrow> described" where
  "keep_table table r = bind_run r (\<lambda>done. Inr (done, table))"

definition describe_entry ::
    "objc_env \<Rightarrow> (64 word \<Rightarrow> bytes \<Rightarrow> nat \<Rightarrow> class_data list \<Rightarrow> described) \<Rightarrow> 64 word \<Rightarrow> bytes \<Rightarrow> nat \<Rightarrow>
       class_data list \<Rightarrow> described" where
  "describe_entry env inner object buf p table =
     (if \<not> p + 1 < length buf then Inr ((0, buf), table)
      else
        bind_run (sentrycrashobjc_arrayCount env object table) (\<lambda>(count, table).
          if count \<le> 0 then Inr ((0, buf), table)
          else
            bind_run (sentrycrashobjc_arrayContents env object 1 table) (\<lambda>((got, contents), table).
              if got = 1 then inner (hd contents) buf p table else Inr ((0, buf), table))))"

definition arrayDescription ::
    "objc_env \<Rightarrow> (64 word \<Rightarrow> bytes \<Rightarrow> nat \<Rightarrow> class_data list \<Rightarrow> described) \<Rightarrow> 64 word \<Rightarrow> bytes \<Rightarrow> nat \<Rightarrow>
       class_data list \<Rightarrow> described" where
  "arrayDescription env inner object buf p table =
     then_describe (then_describe (then_describe (keep_table table (objectDescription env object buf p))
       (\<lambda>n buf table. keep_table table (stringPrintf buf (p + n) '': [''))) 
       (\<lambda>n buf table. describe_entry env inner object buf (p + n) table))
       (\<lambda>n buf table. keep_table table (stringPrintf buf (p + n) '']''))"

text \<open>An entry of an array may be an array. The fuel is for each level of them.\<close>

fun describe :: "nat \<Rightarrow> objc_env \<Rightarrow> float_ops \<Rightarrow> cf_numbers \<Rightarrow> 64 word \<Rightarrow> bytes \<Rightarrow> nat \<Rightarrow> class_data list \<Rightarrow> described" where
  "describe 0 env fl cf object buf p table = Inl OutOfFuel"
| "describe (Suc fuel) env fl cf object buf p table =
     bind_run (getClassDataFromObject env object table) (\<lambda>(data, table).
       case cd_description data of
         ArrayDescription \<Rightarrow> arrayDescription env (describe fuel env fl cf) object buf p table
       | d \<Rightarrow> keep_table table (describe_alone env fl cf d object buf p))"

text \<open>Every level writes, so that there are no more levels than there are bytes.\<close>

definition sentrycrashobjc_getDescription ::
    "objc_env \<Rightarrow> float_ops \<Rightarrow> cf_numbers \<Rightarrow> 64 word \<Rightarrow> bytes \<Rightarrow> class_data list \<Rightarrow> described" where
  "sentrycrashobjc_getDescription env fl cf object buf table =
     describe (length buf + 1) env fl cf object buf 0 table"

section \<open>Dictionaries\<close>

text \<open>
  A \<open>__CFBasicHash\<close> has 56 bytes: \<open>keys_offset\<close> is the third bit of the byte at 18, and the pointers
  are at 48. The key and the value, if it returns true.
\<close>

definition copy_word :: "objc_env \<Rightarrow> 64 word \<Rightarrow> 64 word option" where
  "copy_word env a =
     (let (good, data) = sentrycrashmem_copySafely (om_vm env) a 8 in if good then Some (le_word data) else None)"

definition sentrycrashobjc_dictionaryFirstEntry :: "objc_env \<Rightarrow> 64 word \<Rightarrow> (64 word \<times> 64 word) option run" where
  "sentrycrashobjc_dictionaryFirstEntry env dict =
     (if \<not> copied env dict 56 then Inr None
      else
        bind_run (load env (dict + 18) 1) (\<lambda>bits.
          let keys_offset = drop_bit 2 bits AND 1
          in Inr (case copy_word env (dict + 48 + 8 * keys_offset) of
               None \<Rightarrow> None
             | Some keys \<Rightarrow>
                 (case copy_word env (dict + 48) of
                    None \<Rightarrow> None
                  | Some vals \<Rightarrow>
                      (case copy_word env keys of
                         None \<Rightarrow> None
                       | Some key \<Rightarrow>
                           (case copy_word env vals of None \<Rightarrow> None | Some v \<Rightarrow> Some (key, v)))))))"

definition sentrycrashobjc_dictionaryCount :: "64 word \<Rightarrow> int" where
  "sentrycrashobjc_dictionaryCount dict = 0"

end
