(* ===== verification/Word_Memory.thy ===== *)
theory Word_Memory
  imports Crash_Memory
begin

unbundle bit_operations_syntax

text \<open>Memory that is given by its aligned words, least significant byte first.\<close>

definition word_memory :: "(64 word \<Rightarrow> 64 word option) \<Rightarrow> 64 word \<Rightarrow> byte option" where
  "word_memory f a = map_option (\<lambda>w. le_bytes 8 w ! unat (a AND 7)) (f (a AND NOT 7))"

lemma aligned_plus:
  assumes "(a :: 64 word) AND 7 = 0" "i < 8"
  shows "(a + of_nat i) AND 7 = of_nat i" "(a + of_nat i) AND NOT 7 = a"
proof -
  have "of_nat i AND (7 :: 64 word) = take_bit 3 (of_nat i)" by (simp add: take_bit_eq_mask mask_eq_exp_minus_1)
  also have "\<dots> = of_nat (take_bit 3 i)" by (simp add: take_bit_of_nat)
  also have "take_bit 3 i = i" using assms(2) by (simp add: take_bit_nat_eq_self_iff)
  finally have i: "of_nat i AND (7 :: 64 word) = of_nat i" .
  have "a AND of_nat i = a AND (of_nat i AND 7)" unfolding i by simp
  also have "\<dots> = (a AND 7) AND of_nat i" by (simp only: ac_simps)
  finally have sum: "a + of_nat i = a OR of_nat i" unfolding assms(1) by (simp add: disjunctive_add_eq_or)
  show "(a + of_nat i) AND 7 = of_nat i"
    unfolding sum using assms(1) i by (simp add: bit.conj_disj_distrib2)
  have "(a AND 7) OR (a AND NOT 7) = a" by (simp flip: bit.conj_disj_distrib)
  then have "a AND NOT 7 = a" unfolding assms(1) by simp
  moreover have "of_nat i AND NOT (7 :: 64 word) = 0"
    using arg_cong [OF i, of "\<lambda>w. w AND NOT 7"] by (simp add: and.assoc)
  ultimately show "(a + of_nat i) AND NOT 7 = a"
    unfolding sum by (simp only: bit.conj_disj_distrib2 or.right_neutral)
qed

lemma word_memory_at: "a AND 7 = 0 \<Longrightarrow> i < 8 \<Longrightarrow> word_memory f (a + of_nat i) = map_option (\<lambda>w. le_bytes 8 w ! i) (f a)"
  by (simp only: word_memory_def aligned_plus) (simp add: unat_of_nat)

lemma word_memory_word:
  assumes "f a = Some w" "a AND 7 = 0"
  shows "all_readable (word_memory f) a 8" "bytes_at (word_memory f) a 8 = le_bytes 8 w"
proof -
  show "all_readable (word_memory f) a 8" by (simp add: all_readable_def assms word_memory_at)
  show "bytes_at (word_memory f) a 8 = le_bytes 8 w"
    by (rule nth_equalityI) (simp_all add: bytes_at_def assms word_memory_at)
qed

text \<open>A kernel that delivers what is there.\<close>

definition vm_of :: "(64 word \<Rightarrow> byte option) \<Rightarrow> vm" where
  "vm_of mem a n = (if all_readable mem a n then Some (bytes_at mem a n) else None)"

lemma vm_of_reads: "vm_reads (vm_of mem) mem"
  by (simp add: vm_reads_def vm_of_def)

end
