(* ===== verification/Objc_Class_Spec.thy ===== *)
theory Objc_Class_Spec
  imports Objc_Class Crash_Memory_Spec Word_Memory
begin

text \<open>
  Objects and classes: looking whether an object is valid never faults, whatever is in memory, and a
  class that is valid has a name and its other parts to load.
\<close>

unbundle bit_operations_syntax

section \<open>Memory that stays as it is\<close>

text \<open>The other threads are stopped: the kernel delivers what a load would find.\<close>

definition frozen :: "objc_env \<Rightarrow> bool" where
  "frozen env \<longleftrightarrow> vm_reads (om_vm env) (om_mem env)"

definition returns :: "'a run \<Rightarrow> bool" where
  "returns r \<longleftrightarrow> (\<exists>x. r = Inr x)"

lemma returns_simps [simp]: "returns (Inr x)" "\<not> returns (Inl e)"
  by (simp_all add: returns_def)

lemma returns_bind: "returns r \<Longrightarrow> (\<And>x. r = Inr x \<Longrightarrow> returns (f x)) \<Longrightarrow> returns (bind_run r f)"
  by (auto simp: returns_def)

lemma returns_only_if: "returns r \<Longrightarrow> (r = Inr True \<Longrightarrow> returns s) \<Longrightarrow> returns (only_if r s)"
  unfolding only_if_def by (rule returns_bind) auto

lemma only_if_True [simp]: "only_if r s = Inr True \<longleftrightarrow> r = Inr True \<and> s = Inr True"
  by (cases r) (auto simp: only_if_def)

lemma returns_read_only_if: "(good \<Longrightarrow> returns s) \<Longrightarrow> returns (only_if (Inr good) s)"
  by (rule returns_only_if) simp_all

lemma returns_cases: "returns r \<Longrightarrow> (\<And>x. r = Inr x \<Longrightarrow> P) \<Longrightarrow> P"
  by (auto simp: returns_def)

abbreviation there :: "objc_env \<Rightarrow> 64 word \<Rightarrow> nat \<Rightarrow> bool" where
  "there env a n \<equiv> all_readable (om_mem env) a n"

lemma readable_there: "frozen env \<Longrightarrow> n \<le> 10240 \<Longrightarrow> readable env a (int n) \<longleftrightarrow> there env a n"
  using readable_loop_buffer [of "om_vm env" "om_mem env" "int n" a]
  by (simp add: frozen_def sentrycrashmem_isMemoryReadable_def isMemoryReadable_def min_absorb1)

lemma readable_numeral:
  "frozen env \<Longrightarrow> (numeral k :: nat) \<le> 10240 \<Longrightarrow> readable env a (numeral k) \<longleftrightarrow> there env a (numeral k)"
  using readable_there [of env "numeral k" a] by simp

lemma there_part: "there env a n \<Longrightarrow> k + m \<le> n \<Longrightarrow> there env (a + of_nat k) m"
  by (metis all_readable_add le_add_diff_inverse)

lemma returns_load: "there env a n \<Longrightarrow> returns (load env a n)"
  by (simp add: load_def)

lemma returns_load_part: "there env a n \<Longrightarrow> k + m \<le> n \<Longrightarrow> returns (load env (a + of_nat k) m)"
  by (rule returns_load) (rule there_part)

lemma returns_load_numeral: "there env a n \<Longrightarrow> numeral k + m \<le> n \<Longrightarrow> returns (load env (a + numeral k) m)"
  using returns_load_part [of env a n "numeral k" m] by simp

lemma returns_load_start: "there env a n \<Longrightarrow> m \<le> n \<Longrightarrow> returns (load env a m)"
  using returns_load_part [of env a n 0 m] by simp

section \<open>Names\<close>

text \<open>A text that ends after \<open>k\<close> bytes.\<close>

definition text_ends :: "(64 word \<Rightarrow> byte option) \<Rightarrow> 64 word \<Rightarrow> nat \<Rightarrow> bool" where
  "text_ends mem a k \<longleftrightarrow> all_readable mem a (Suc k) \<and> mem (a + of_nat k) = Some NUL"

lemma text_ends_Suc: "text_ends mem a (Suc k) \<longleftrightarrow> mem a \<noteq> None \<and> text_ends mem (a + 1) k"
  by (auto simp: text_ends_def all_readable_Suc add.assoc)

lemma text_ends_0: "text_ends mem a 0 \<longleftrightarrow> mem a = Some NUL"
  by (auto simp: text_ends_def all_readable_def)

lemma returns_same_text: "text_ends mem a k \<Longrightarrow> no_nul s \<Longrightarrow> returns (same_text mem a s)"
proof (induction s arbitrary: a k)
  case Nil
  then show ?case by (cases k) (auto simp: text_ends_0 text_ends_Suc)
next
  case (Cons c s)
  show ?case
  proof (cases k)
    case 0
    then show ?thesis using Cons.prems by (auto simp: text_ends_0)
  next
    case (Suc j)
    with Cons.prems obtain b where b: "mem a = Some b" "text_ends mem (a + 1) j" by (auto simp: text_ends_Suc)
    with Cons.IH [of "a + 1" j] Cons.prems show ?thesis by simp
  qed
qed

lemma returns_load_byte: "there env a (Suc n) \<Longrightarrow> returns (load_byte env a)"
  by (auto simp: load_byte_def all_readable_Suc)

lemma returns_name_goes_on: "there env a n \<Longrightarrow> returns (name_goes_on env a n)"
proof (induction n arbitrary: a)
  case (Suc n)
  then have "there env (a + 1) n" by (simp add: all_readable_Suc)
  with Suc show ?case by (auto intro!: returns_bind returns_load_byte)
qed simp

lemma name_goes_on_ends: "name_goes_on env a n = Inr True \<Longrightarrow> \<exists>k<n. text_ends (om_mem env) a k"
proof (induction n arbitrary: a)
  case (Suc n)
  then obtain c where c: "om_mem env a = Some c"
    and rest: "if \<not> VALID_NAME_CHAR c then c = NUL else name_goes_on env (a + 1) n = Inr True"
    by (auto simp: load_byte_def bind_run_eq_Inr split: option.splits if_splits)
  show ?case
  proof (cases "VALID_NAME_CHAR c")
    case True
    with rest Suc.IH [of "a + 1"] obtain k where "k < n" "text_ends (om_mem env) (a + 1) k" by auto
    then show ?thesis using c by (intro exI [of _ "Suc k"]) (simp add: text_ends_Suc)
  next
    case False
    then show ?thesis using c rest by (intro exI [of _ 0]) (simp add: text_ends_0)
  qed
qed simp

text \<open>How much of a name the copy has shown to be there.\<close>

lemma copied_there:
  assumes "frozen env" "1 \<le> n" "n < 2 ^ 31"
  obtains k where "fst (sentrycrashmem_copyMaxPossible (om_vm env) a (int n)) = int k" "k \<le> n" "there env a k"
proof
  let ?k = "readable_length (om_mem env) a n"
  show "fst (sentrycrashmem_copyMaxPossible (om_vm env) a (int n)) = int ?k"
    using copyMaxPossible_longest [of "om_vm env" "om_mem env" n a] assms
    by (simp add: frozen_def sentrycrashmem_copyMaxPossible_def)
  show "?k \<le> n" by (rule readable_length_le)
  then show "there env a ?k" using readable_length_ge [of ?k n "om_mem env" a] by simp
qed

lemma returns_isValidName:
  assumes "frozen env"
  shows "returns (isValidName env name kMaxNameLength)"
proof -
  obtain k where k: "fst (sentrycrashmem_copyMaxPossible (om_vm env) name (int 128)) = int k" "there env name k"
    using copied_there [OF assms, of 128 name] by auto
  show ?thesis
  proof (cases k)
    case 0
    then show ?thesis using k by (simp add: isValidName_def kMaxNameLength_def)
  next
    case (Suc j)
    with k have "there env (name + 1) j" by (simp add: all_readable_Suc)
    then have "returns (name_goes_on env (name + 1) (nat (int k - 1)))"
      using Suc by (simp add: returns_name_goes_on)
    then show ?thesis
      using k Suc by (auto simp: isValidName_def kMaxNameLength_def intro!: returns_bind returns_load_byte)
  qed
qed

lemma valid_name_ends:
  assumes "isValidName env name n = Inr True"
  obtains k where "text_ends (om_mem env) name (Suc k)"
proof -
  let ?n = "fst (sentrycrashmem_copyMaxPossible (om_vm env) name n)"
  from assms obtain c where c: "load_byte env name = Inr c" "name_goes_on env (name + 1) (nat (?n - 1)) = Inr True"
    by (auto simp: isValidName_def Let_def bind_run_eq_Inr split: if_splits)
  from name_goes_on_ends [OF c(2)] obtain k where "text_ends (om_mem env) (name + 1) k" by blast
  with c(1) have "text_ends (om_mem env) name (Suc k)"
    by (auto simp: text_ends_Suc load_byte_def split: option.splits)
  with that show ?thesis .
qed

section \<open>Classes\<close>

lemma returns_type_goes_on: "there env a n \<Longrightarrow> returns (type_goes_on env a n)"
proof (induction n arbitrary: a)
  case (Suc n)
  then have "there env (a + 1) n" by (simp add: all_readable_Suc)
  with Suc show ?case by (auto intro!: returns_bind returns_load_byte)
qed simp

lemma returns_isValidIvarType:
  assumes "frozen env"
  shows "returns (isValidIvarType env type)"
proof -
  obtain k where k: "fst (sentrycrashmem_copyMaxPossible (om_vm env) type (int 100)) = int k" "there env type k"
    using copied_there [OF assms, of 100 type] by auto
  show ?thesis
  proof (cases k)
    case 0
    then show ?thesis using k by (simp add: isValidIvarType_def)
  next
    case (Suc j)
    then have "returns (load_byte env type)" using k(2) returns_load_byte by blast
    moreover have "returns (type_goes_on env type (nat (1 + int j)))"
      using returns_type_goes_on [OF k(2)] Suc by (simp add: nat_add_distrib del: type_goes_on.simps)
    ultimately show ?thesis
      using k Suc by (auto simp: isValidIvarType_def intro!: returns_bind)
  qed
qed

text \<open>The parts of a class that has been found to have them.\<close>

definition has_ro :: "objc_env \<Rightarrow> 64 word \<Rightarrow> bool" where
  "has_ro env class \<longleftrightarrow> there env class 40 \<and> (\<exists>ro. getClassRO env class = Inr ro \<and> there env ro 72)"

lemma returns_getClassRW: "there env class 40 \<Longrightarrow> returns (getClassRW env class)"
  unfolding getClassRW_def by (intro returns_bind returns_load_numeral) auto

lemma returns_getClassRO:
  assumes "frozen env" "getClassRW env class = Inr rw" "there env rw 32" "containsValidExtData env rw = Inr True"
  shows "returns (getClassRO env class)"
proof -
  have "returns (load env (rw + 8) 8)" by (rule returns_load_numeral [OF assms(3)]) simp
  then obtain ext_ptr where ext: "load env (rw + 8) 8 = Inr ext_ptr" by (auto simp: returns_def)
  have "(ext_ptr AND 1) \<noteq> 0 \<Longrightarrow> there env (ext_ptr AND NOT 1) 176"
    using assms(1,4) by (simp add: containsValidExtData_def ext readable_numeral)
  then have "(ext_ptr AND 1) \<noteq> 0 \<Longrightarrow> returns (load env (ext_ptr AND NOT 1) 8)" by (rule returns_load_start) simp_all
  then show ?thesis using ext by (simp add: getClassRO_def assms(2))
qed

lemma containsValidROData_has: "frozen env \<Longrightarrow> containsValidROData env class = Inr True \<Longrightarrow> has_ro env class"
  unfolding containsValidROData_def has_ro_def
  by (auto simp: bind_run_eq_Inr readable_numeral)

lemma returns_containsValidROData:
  assumes "frozen env"
  shows "returns (containsValidROData env class)"
proof (cases "there env class 40")
  case True
  then obtain rw where rw: "getClassRW env class = Inr rw" using returns_getClassRW by (auto simp: returns_def)
  have "returns (containsValidExtData env rw)" if "there env rw 32"
    unfolding containsValidExtData_def using that by (intro returns_bind returns_load_numeral) auto
  moreover have "returns (bind_run (getClassRO env class) (\<lambda>ro. Inr (readable env ro 72)))"
    if "there env rw 32" "containsValidExtData env rw = Inr True"
    using returns_getClassRO [OF assms rw that] by (rule returns_bind) simp
  ultimately show ?thesis
    using True assms by (auto simp: containsValidROData_def rw readable_numeral intro!: returns_only_if)
next
  case False
  then show ?thesis using assms by (simp add: containsValidROData_def readable_numeral only_if_def)
qed

lemma has_ro_loads:
  assumes "has_ro env class"
  shows "returns (getClassName env class)" "returns (class_ivars env class)" "returns (ro_flags env class)"
    "returns (getSuperClass env class)" "returns (getIsaPointer env class)"
proof -
  obtain ro where ro: "getClassRO env class = Inr ro" "there env ro 72" and here: "there env class 40"
    using assms by (auto simp: has_ro_def)
  show "returns (getClassName env class)" "returns (class_ivars env class)" "returns (ro_flags env class)"
    using ro by (simp_all add: getClassName_def class_ivars_def ro_flags_def returns_load_numeral returns_load_start)
  show "returns (getSuperClass env class)" using here by (simp add: getSuperClass_def returns_load_numeral)
  show "returns (getIsaPointer env class)"
    unfolding getIsaPointer_def using here by (intro returns_bind returns_load_start) auto
qed

lemma returns_valid_ivars: "frozen env \<Longrightarrow> returns (valid_ivars env entsize ivarPtr n)"
  by (induction n arbitrary: ivarPtr)
     (auto simp: Let_def split: prod.splits intro!: returns_only_if returns_isValidName returns_isValidIvarType)

lemma returns_containsValidIvarData:
  assumes "frozen env" "has_ro env class"
  shows "returns (containsValidIvarData env class)"
  unfolding containsValidIvarData_def
proof (rule returns_bind [OF has_ro_loads(2) [OF assms(2)]])
  fix ivars
  have "returns (load env (ivars + 4) 4)" "returns (load env ivars 4)" if "there env ivars 40"
    using that by (simp_all add: returns_load_numeral returns_load_start)
  then show "returns (if ivars = 0 then Inr True
      else only_if (Inr (readable env ivars 40))
             (bind_run (load env (ivars + 4) 4) (\<lambda>n.
                if n > 0 then
                  bind_run (load env ivars 4) (\<lambda>entsize. valid_ivars env entsize (ivars + 8 + entsize) (unat n - 1))
                else Inr True)))"
    using assms(1)
    by (auto simp: readable_numeral intro!: returns_read_only_if returns_bind returns_valid_ivars)
qed

lemma returns_isValidClass:
  assumes "frozen env"
  shows "returns (isValidClass env class)"
proof -
  have "returns (containsValidClassName env class)" if "has_ro env class"
    unfolding containsValidClassName_def
    by (rule returns_bind [OF has_ro_loads(1) [OF that]]) (rule returns_isValidName [OF assms])
  then show ?thesis
    unfolding isValidClass_def
    by (intro returns_read_only_if returns_only_if)
       (auto intro: assms returns_containsValidROData returns_containsValidIvarData dest: containsValidROData_has [OF assms])
qed

text \<open>A class that is valid has a name that ends.\<close>

definition named_class :: "objc_env \<Rightarrow> 64 word \<Rightarrow> bool" where
  "named_class env class \<longleftrightarrow>
     has_ro env class \<and> (\<exists>name k. getClassName env class = Inr name \<and> text_ends (om_mem env) name (Suc k))"

lemma isValidClass_named:
  assumes "frozen env" "isValidClass env class = Inr True"
  shows "named_class env class"
proof -
  from assms(2) have ro: "has_ro env class" and "containsValidClassName env class = Inr True"
    by (auto simp: isValidClass_def intro: containsValidROData_has [OF assms(1)])
  then obtain name where name: "getClassName env class = Inr name" "isValidName env name kMaxNameLength = Inr True"
    by (auto simp: containsValidClassName_def bind_run_eq_Inr)
  with valid_name_ends [OF name(2)] ro show ?thesis by (auto simp: named_class_def)
qed

section \<open>Objects\<close>

lemma getTaggedSlot_less: "getTaggedSlot env object < 8"
proof -
  have "drop_bit (TAG_SLOT_SHIFT env) object AND 7 \<le> (7 :: 64 word)" by (rule word_and_le1)
  then have "unat (drop_bit (TAG_SLOT_SHIFT env) object AND 7) \<le> unat (7 :: 64 word)" by (simp add: word_le_nat_alt)
  then show ?thesis by (simp add: getTaggedSlot_def TAG_SLOT_MASK_def)
qed

lemma tagged_class_data: "getClassDataFromTaggedPointer env object = Inr (g_taggedClassData ! getTaggedSlot env object)"
  using getTaggedSlot_less [of env object] by (simp add: getClassDataFromTaggedPointer_def g_taggedClassData_def)

lemma returns_isValidTaggedPointer: "returns (isValidTaggedPointer env object)"
  by (simp add: isValidTaggedPointer_def tagged_class_data)

lemma returns_isValidObject:
  assumes "frozen env"
  shows "returns (isValidObject env object)"
proof -
  have isa: "returns (getIsaPointer env object)" if "there env object 40"
    unfolding getIsaPointer_def using that by (intro returns_bind returns_load_start) auto
  have "returns (hasValidIsaPointer env object)" if "there env object 40"
    unfolding hasValidIsaPointer_def using isa [OF that] by (rule returns_bind) simp
  moreover have "returns (bind_run (getIsaPointer env object) (isValidClass env))" if "there env object 40"
    using isa [OF that] by (rule returns_bind) (rule returns_isValidClass [OF assms])
  ultimately show ?thesis
    using assms
    by (auto simp: isValidObject_def returns_isValidTaggedPointer readable_numeral intro!: returns_read_only_if returns_only_if)
qed

lemma isValidObject_class:
  assumes "frozen env" "isValidObject env object = Inr True" "\<not> isTaggedPointer env object"
  obtains isa where "getIsaPointer env object = Inr isa" "named_class env isa"
  using assms(2,3) isValidClass_named [OF assms(1)] by (auto simp: isValidObject_def bind_run_eq_Inr)

section \<open>The table of classes\<close>

text \<open>A table ends with an entry for all other classes, and its names are texts.\<close>

definition wf_table :: "class_data list \<Rightarrow> bool" where
  "wf_table table \<longleftrightarrow>
     table \<noteq> [] \<and> cd_name (last table) = None \<and> (\<forall>d \<in> set table. \<forall>name. cd_name d = Some name \<longrightarrow> no_nul name)"

lemma wf_g_classData: "wf_table g_classData"
  by (simp add: wf_table_def g_classData_def class_entry_def)

lemma wf_table_Cons:
  "wf_table (d # table) \<longleftrightarrow>
     (\<forall>name. cd_name d = Some name \<longrightarrow> no_nul name) \<and> (if table = [] then cd_name d = None else wf_table table)"
  by (auto simp: wf_table_def)

definition forget :: "class_data \<Rightarrow> class_data" where
  "forget d = d\<lparr>cd_class := 0\<rparr>"

lemma cd_name_forget [simp]: "cd_name (forget d) = cd_name d"
  by (simp add: forget_def)

lemma forget_update [simp]: "forget (d\<lparr>cd_class := c\<rparr>) = forget d"
  by (simp add: forget_def)

lemma wf_table_forget: "map forget table' = map forget table \<Longrightarrow> wf_table table' = wf_table table"
proof (induction table arbitrary: table')
  case (Cons d table)
  then obtain d' rest where "table' = d' # rest" "forget d' = forget d" "map forget rest = map forget table"
    by (cases table') auto
  moreover from this(2) have "cd_name d' = cd_name d" by (metis cd_name_forget)
  ultimately show ?case using Cons.IH [of rest] by (auto simp: wf_table_Cons)
qed simp

lemma find_class_keeps:
  "find_class env class p table = Inr (d, table') \<Longrightarrow> map forget table' = map forget table"
  by (induction table arbitrary: d table')
     (auto simp: bind_run_eq_Inr Let_def split: option.splits if_splits prod.splits)

lemma returns_find_class:
  "text_ends (om_mem env) p k \<Longrightarrow> wf_table table \<Longrightarrow> returns (find_class env class p table)"
proof (induction table)
  case (Cons d table)
  show ?case
  proof (cases "cd_name d")
    case (Some name)
    with Cons.prems have "no_nul name" "wf_table table" by (auto simp: wf_table_Cons split: if_splits)
    with Cons have "returns (find_class env class p table)" "returns (same_text (om_mem env) p name)"
      by (auto intro: returns_same_text)
    then show ?thesis by (auto simp: Some Let_def intro!: returns_bind split: prod.splits)
  qed simp
qed (simp add: wf_table_def)

lemma returns_getClassData:
  assumes "named_class env class" "wf_table table"
  shows "returns (getClassData env class table)"
  using assms returns_find_class by (auto simp: named_class_def getClassData_def)

lemma getClassData_keeps:
  "getClassData env class table = Inr (d, table') \<Longrightarrow> map forget table' = map forget table"
  by (auto simp: getClassData_def bind_run_eq_Inr dest: find_class_keeps)

lemma getClassDataFromObject_keeps:
  "getClassDataFromObject env object table = Inr (d, table') \<Longrightarrow> map forget table' = map forget table"
  by (auto simp: getClassDataFromObject_def bind_run_eq_Inr split: if_splits dest: getClassData_keeps)

lemma returns_getClassDataFromObject:
  assumes "frozen env" "isValidObject env object = Inr True" "wf_table table"
  shows "returns (getClassDataFromObject env object table)"
proof (cases "isTaggedPointer env object")
  case True
  then show ?thesis by (simp add: getClassDataFromObject_def tagged_class_data)
next
  case False
  from isValidObject_class [OF assms(1,2) False] obtain isa
    where "getIsaPointer env object = Inr isa" "named_class env isa" .
  then show ?thesis using False assms(3) by (simp add: getClassDataFromObject_def returns_getClassData)
qed

section \<open>What is remembered of classes\<close>

lemma same_text_text_at: "text_at mem a = Inr t \<Longrightarrow> no_nul s \<Longrightarrow> same_text mem a s = Inr (t = s)"
proof (induction s arbitrary: a t)
  case Nil
  then show ?case by (subst (asm) text_at.simps) (auto simp: bind_run_eq_Inr split: option.splits if_splits)
next
  case (Cons c s)
  then obtain b where b: "mem a = Some b" by (subst (asm) text_at.simps) (auto split: option.splits)
  show ?case
  proof (cases "b = NUL")
    case True
    then show ?thesis using b Cons.prems by (subst (asm) text_at.simps) auto
  next
    case False
    with b Cons.prems(1) obtain t' where "t = b # t'" "text_at mem (a + 1) = Inr t'"
      by (subst (asm) text_at.simps) (auto simp: bind_run_eq_Inr split: if_splits)
    with Cons.IH [of "a + 1" t'] Cons.prems(2) b show ?thesis by auto
  qed
qed

definition name_of :: "objc_env \<Rightarrow> 64 word \<Rightarrow> bytes run" where
  "name_of env class = bind_run (getClassName env class) (text_at (om_mem env))"

text \<open>The entry for a name: the first that has it, or the one for all others.\<close>

fun entry_for :: "bytes \<Rightarrow> class_data list \<Rightarrow> class_data option" where
  "entry_for name [] = None"
| "entry_for name (d # table) = (if cd_name d = None \<or> cd_name d = Some name then Some (forget d) else entry_for name table)"

lemma entry_for_forget: "map forget table' = map forget table \<Longrightarrow> entry_for name table' = entry_for name table"
proof (induction table arbitrary: table')
  case (Cons d table)
  then obtain d' rest where *: "table' = d' # rest" "forget d' = forget d" "map forget rest = map forget table"
    by (cases table') auto
  from *(2) have "cd_name d' = cd_name d" by (metis cd_name_forget)
  with * Cons.IH [of rest] show ?case by simp
qed simp

text \<open>Every class that is kept has the name of its entry.\<close>

definition remembers :: "objc_env \<Rightarrow> class_data list \<Rightarrow> bool" where
  "remembers env table \<longleftrightarrow> (\<forall>d \<in> set table. cd_class d \<noteq> 0 \<longrightarrow> name_of env (cd_class d) = Inr (the (cd_name d)))"

lemma find_class_entry:
  assumes "text_at (om_mem env) p = Inr name" "name_of env class = Inr name" "class \<noteq> 0"
    "wf_table table" "remembers env table"
    "\<And>d. d \<in> set table \<Longrightarrow> cd_name d = Some name \<Longrightarrow> cd_class d = 0 \<or> cd_class d = class"
  shows "\<exists>d table'. find_class env class p table = Inr (d, table') \<and> entry_for name table = Some (forget d) \<and>
    remembers env table' \<and> (\<forall>d' \<in> set table'. d' \<in> set table \<or> cd_class d' = class)"
  using assms(4-6)
proof (induction table)
  case (Cons d table)
  show ?case
  proof (cases "cd_name d")
    case (Some s)
    with Cons.prems have wf: "no_nul s" "wf_table table" and rem: "remembers env table"
      by (auto simp: wf_table_Cons remembers_def split: if_splits)
    have same: "same_text (om_mem env) p s = Inr (name = s)" using assms(1) wf(1) by (rule same_text_text_at)
    have mine: "class = cd_class d \<Longrightarrow> name = s"
      using Cons.prems(2) assms(2,3) Some by (auto simp: remembers_def)
    show ?thesis
    proof (cases "name = s")
      case True
      with Cons.prems(3) [of d] Some have "cd_class d = 0 \<or> cd_class d = class" by simp
      then show ?thesis
        using Cons.prems(2) assms(2,3) same Some True by (auto simp: remembers_def Let_def)
    next
      case False
      from Cons.IH [OF wf(2) rem Cons.prems(3)] obtain e table'
        where "find_class env class p table = Inr (e, table')" "entry_for name table = Some (forget e)"
          "remembers env table'" "\<forall>d' \<in> set table'. d' \<in> set table \<or> cd_class d' = class" by auto
      with False mine same Some Cons.prems(2) show ?thesis by (auto simp: remembers_def Let_def)
    qed
  qed (use Cons.prems in auto)
qed (simp add: wf_table_def)

section \<open>The theorems\<close>

text \<open>Looking for one class after the other.\<close>

fun class_entries :: "objc_env \<Rightarrow> 64 word list \<Rightarrow> class_data list \<Rightarrow> (class_data list \<times> class_data list) run" where
  "class_entries env [] table = Inr ([], table)"
| "class_entries env (c # cs) table =
     bind_run (getClassData env c table) (\<lambda>(d, table).
     bind_run (class_entries env cs table) (\<lambda>(ds, table). Inr (d # ds, table)))"

lemma getClassData_entry:
  assumes "name_of env class = Inr name" "class \<noteq> 0" "wf_table table" "remembers env table"
    "\<And>d. d \<in> set table \<Longrightarrow> cd_name d = Some name \<Longrightarrow> cd_class d = 0 \<or> cd_class d = class"
  obtains d table' where "getClassData env class table = Inr (d, table')" "entry_for name table = Some (forget d)"
    "remembers env table'" "\<And>d'. d' \<in> set table' \<Longrightarrow> d' \<in> set table \<or> cd_class d' = class"
    "map forget table' = map forget table" "wf_table table'"
proof -
  from assms(1) obtain p where p: "getClassName env class = Inr p" "text_at (om_mem env) p = Inr name"
    by (auto simp: name_of_def bind_run_eq_Inr)
  from find_class_entry [OF p(2) assms] obtain d table'
    where "find_class env class p table = Inr (d, table')" "entry_for name table = Some (forget d)"
      "remembers env table'" "\<forall>d' \<in> set table'. d' \<in> set table \<or> cd_class d' = class" by auto
  with p(1) find_class_keeps [of env _ p table d table'] wf_table_forget [of table' table] assms(3) that
  show ?thesis by (auto simp: getClassData_def)
qed

lemma class_entries_right:
  assumes "\<And>c. c \<in> set cs \<union> known \<Longrightarrow> name_of env c = Inr (nm c)" "inj_on nm (set cs \<union> known)" "0 \<notin> set cs"
    "wf_table table" "remembers env table" "\<And>d. d \<in> set table \<Longrightarrow> cd_class d = 0 \<or> cd_class d \<in> known"
  shows "\<exists>ds table'. class_entries env cs table = Inr (ds, table') \<and>
    map Some (map forget ds) = map (\<lambda>c. entry_for (nm c) table) cs"
  using assms
proof (induction cs arbitrary: table known)
  case (Cons c cs)
  have named: "name_of env c = Inr (nm c)" using Cons.prems(1) by simp
  have mine: "cd_class d = 0 \<or> cd_class d = c" if d: "d \<in> set table" "cd_name d = Some (nm c)" for d
  proof (rule disjCI)
    assume "cd_class d \<noteq> c"
    show "cd_class d = 0"
    proof (rule ccontr)
      assume "cd_class d \<noteq> 0"
      with d Cons.prems(5,6) have "name_of env (cd_class d) = Inr (nm c)" "cd_class d \<in> known"
        by (auto simp: remembers_def)
      with Cons.prems(1,2) \<open>cd_class d \<noteq> c\<close> show False by (auto simp: inj_on_def)
    qed
  qed
  from getClassData_entry [OF named _ Cons.prems(4,5) mine] Cons.prems(3) obtain d table'
    where d: "getClassData env c table = Inr (d, table')" "entry_for (nm c) table = Some (forget d)"
      and table': "remembers env table'" "\<And>d'. d' \<in> set table' \<Longrightarrow> d' \<in> set table \<or> cd_class d' = c"
        "map forget table' = map forget table" "wf_table table'" by auto
  have "\<exists>ds table''. class_entries env cs table' = Inr (ds, table'') \<and>
      map Some (map forget ds) = map (\<lambda>c. entry_for (nm c) table') cs"
  proof (rule Cons.IH [of "insert c known"])
    show "name_of env x = Inr (nm x)" if "x \<in> set cs \<union> insert c known" for x using that Cons.prems(1) by auto
    have "set cs \<union> insert c known = set (c # cs) \<union> known" by auto
    with Cons.prems(2) show "inj_on nm (set cs \<union> insert c known)" by metis
    show "cd_class d' = 0 \<or> cd_class d' \<in> insert c known" if "d' \<in> set table'" for d'
      using table'(2) [OF that] Cons.prems(6) by auto
  qed (use Cons.prems(3) table' in auto)
  with d entry_for_forget [OF table'(3)] show ?case by auto
qed simp

text \<open>
  C28. The classes that have been found are kept in the table so that they are found without a look at their
  names. As long as no two classes have the same name that gives the same as looking for each name in
  the table anew, in whatever order the classes come and however often.
\<close>

theorem kept_classes_right:
  assumes "\<And>c. c \<in> set cs \<Longrightarrow> name_of env c = Inr (nm c)" "inj_on nm (set cs)" "0 \<notin> set cs"
  shows "\<exists>ds table. class_entries env cs g_classData = Inr (ds, table) \<and>
    map Some (map forget ds) = map (\<lambda>c. entry_for (nm c) g_classData) cs"
  by (rule class_entries_right [where known = "{}"])
     (use assms wf_g_classData in \<open>auto simp: remembers_def g_classData_def class_entry_def\<close>)

section \<open>Memory made of words\<close>

lemma load_word:
  assumes "om_mem env = word_memory f" "f a = Some w" "a AND 7 = 0"
  shows "load env a 8 = Inr w"
  using word_memory_word [of f a w] assms by (simp add: load_def)

text \<open>Two classes, \<open>NSDate\<close> and \<open>Other\<close>, and an object of the first.\<close>

definition class_words :: "64 word \<Rightarrow> 64 word \<Rightarrow> (64 word \<times> 64 word) list" where
  "class_words a name =
     map (\<lambda>(i, w). (a + 8 * word_of_nat i, w))
       (enumerate 0 ([a, 0, 0, 0, a + 40] @ [0, a + 72, 0, 0] @ [0, 0, 0, a + 144, 0, 0, 0, 0, 0] @ [name]))"

definition demo_words :: "(64 word \<times> 64 word) list" where
  "demo_words = (0x3000, 0x1000) # (0x3008, 42) # (0x3010, 0) # (0x3018, 0) # (0x3020, 0) #
     class_words 0x1000 0x65746144534E @ class_words 0x2000 0x726568744F"

definition demo_objc :: objc_env where
  "demo_objc = (let memory = word_memory (map_of demo_words)
     in \<lparr>om_mem = memory, om_vm = \<lambda>a n. if all_readable memory a n then Some (bytes_at memory a n) else None,
         om_msb = True, om_arch = ObjcX86_64, om_old = False\<rparr>)"

lemma demo_frozen: "frozen demo_objc"
  by (simp add: frozen_def vm_reads_def demo_objc_def Let_def)

lemmas demo_load = load_word [of demo_objc "map_of demo_words"]

lemma demo_mem: "om_mem demo_objc = word_memory (map_of demo_words)"
  by (simp add: demo_objc_def Let_def)

definition demo_name :: "64 word \<Rightarrow> bytes" where
  "demo_name c = (if c = 0x1000 then ''NSDate'' else ''Other'')"

lemma demo_class_names:
  "getClassName demo_objc 0x1000 = Inr 0x1090" "getClassName demo_objc 0x2000 = Inr 0x2090"
  by (simp_all add: getClassName_def getClassRO_def getClassRW_def demo_load demo_mem demo_words_def class_words_def
      FAST_DATA_MASK_def)

lemma demo_class_texts:
  "text_at (word_memory (map_of demo_words)) 0x1090 = Inr ''NSDate''"
  "text_at (word_memory (map_of demo_words)) 0x2090 = Inr ''Other''"
  by code_simp+

lemma demo_names: "name_of demo_objc 0x1000 = Inr ''NSDate''" "name_of demo_objc 0x2000 = Inr ''Other''"
  by (simp_all add: name_of_def demo_class_names demo_class_texts demo_mem)

theorem kept_classes_right_witness:
  "\<exists>ds table. class_entries demo_objc [0x1000, 0x2000, 0x1000] g_classData = Inr (ds, table) \<and>
    map Some (map forget ds) = map (\<lambda>c. entry_for (demo_name c) g_classData) [0x1000, 0x2000, 0x1000]"
  by (rule kept_classes_right) (auto simp: demo_names demo_name_def)

end
