(* ===== verification/Objc_Values_Spec.thy ===== *)
theory Objc_Values_Spec
  imports Objc_Values Objc_Class_Spec Json_Text
begin

text \<open>
  The values of objects: looking whether an object is valid never faults, whatever is in memory. What
  describing an object promises is in \<open>Objc_Describe_Spec\<close> and \<open>Objc_String_Spec\<close>.
\<close>

unbundle bit_operations_syntax

section \<open>Valid objects\<close>

lemma copied_there_iff: "frozen env \<Longrightarrow> 0 < n \<Longrightarrow> n < 2 ^ 31 \<Longrightarrow> copied env a (int n) \<longleftrightarrow> there env a n"
  using copySafely_reads [of "om_vm env" "om_mem env" n a]
  by (simp add: frozen_def sentrycrashmem_copySafely_def)

lemma copied_numeral:
  "frozen env \<Longrightarrow> (numeral k :: nat) < 2 ^ 31 \<Longrightarrow> copied env a (numeral k) \<longleftrightarrow> there env a (numeral k)"
  using copied_there_iff [of env "numeral k" a] by simp

lemma there_le: "there env a n \<Longrightarrow> m \<le> n \<Longrightarrow> there env a m"
  using there_part [of env a n 0 m] by simp

lemma returns_cf_info: "there env str 16 \<Longrightarrow> returns (cf_info env str)"
  unfolding cf_info_def by (rule returns_load_numeral, assumption) simp

text \<open>A string whose first parts are there.\<close>

lemma returns_loads_after:
  "there env (str + 16) n \<Longrightarrow> 8 \<le> n \<Longrightarrow> returns (load env (str + 16) 8)"
  "there env (str + 16) n \<Longrightarrow> 16 \<le> n \<Longrightarrow> returns (load env (str + 24) 8)"
proof -
  show "there env (str + 16) n \<Longrightarrow> 8 \<le> n \<Longrightarrow> returns (load env (str + 16) 8)" by (rule returns_load_start)
  assume "there env (str + 16) n" "16 \<le> n"
  then have "returns (load env (str + 16 + 8) 8)" by (intro returns_load_numeral) auto
  then show "returns (load env (str + 24) 8)" by (simp add: add.assoc)
qed

lemma returns_CFStrContents:
  "there env str 16 \<Longrightarrow> (\<And>info. cf_info env str = Inr info \<Longrightarrow> \<not> CFStrIsInline info \<Longrightarrow> there env (str + 16) 8) \<Longrightarrow>
    returns (CFStrContents env str)"
  unfolding CFStrContents_def by (rule returns_bind [OF returns_cf_info]) (auto intro: returns_load)

lemma returns_checked_length:
  assumes "frozen env" "there env str 16"
  shows "returns (checked_length env str)"
proof -
  obtain info where info: "cf_info env str = Inr info"
    using returns_cf_info [OF assms(2)] by (auto simp: returns_def)
  have "returns (CFStrContents env str)" if "\<not> CFStrIsInline info" "there env (str + 16) 16"
    using assms(2) by (rule returns_CFStrContents) (use that in \<open>auto intro: there_le\<close>)
  then show ?thesis
    using assms(1)
    by (auto simp: checked_length_def info Let_def copied_numeral split: prod.splits
        intro!: returns_bind returns_loads_after)
qed

lemma checked_length_buffer:
  assumes "frozen env" "checked_length env str = Inr (Some n)" "cf_info env str = Inr info" "\<not> CFStrIsInline info"
  shows "there env (str + 16) 8"
  using assms by (auto simp: checked_length_def Let_def copied_numeral intro: there_le split: if_splits)

lemma returns_stringIsValid:
  assumes "frozen env"
  shows "returns (stringIsValid env str)"
proof (cases "there env str 16")
  case True
  have "returns (stringStart env str)" if n: "checked_length env str = Inr (Some n)" for n
    unfolding stringStart_def
    using checked_length_buffer [OF assms n] True
    by (intro returns_bind returns_CFStrContents returns_cf_info) auto
  then show ?thesis
    using assms True returns_checked_length [OF assms True]
    by (auto simp: stringIsValid_def copied_numeral split: option.splits intro!: returns_bind)
next
  case False
  then show ?thesis using assms by (simp add: stringIsValid_def copied_numeral)
qed

lemma returns_cfarrayIsValid:
  assumes "frozen env"
  shows "returns (cfarrayIsValid env a)"
proof (cases "there env a 48")
  case True
  then have "there env a 16" by (rule there_le) simp
  then have "returns (CFArrayGetType env a)"
    unfolding CFArrayGetType_def by (intro returns_bind returns_cf_info) auto
  moreover have "returns (load env (a + 40) 8)" using True by (rule returns_load_numeral) simp
  ultimately show ?thesis
    using assms True by (auto simp: cfarrayIsValid_def copied_numeral intro!: returns_bind)
next
  case False
  then show ?thesis using assms by (simp add: cfarrayIsValid_def copied_numeral)
qed

lemma returns_is_valid_by:
  assumes "frozen env" "isValidObject env object = Inr True" "wf_table table"
  shows "returns (is_valid_by env f object table)"
proof -
  have "returns (isCFArray env object table)"
    unfolding isCFArray_def by (rule returns_bind [OF returns_getClassDataFromObject [OF assms]]) auto
  then have "returns (arrayIsValid env object table)"
    unfolding arrayIsValid_def
    by (rule returns_bind) (auto intro!: returns_bind returns_cfarrayIsValid [OF assms(1)])
  moreover have "returns (urlIsValid env object)"
    by (auto simp: urlIsValid_def returns_stringIsValid [OF assms(1)] split: prod.splits)
  ultimately show ?thesis
    using returns_stringIsValid [OF assms(1), of object] returns_isValidTaggedPointer [of env object]
    by (cases f)
       (auto simp: is_valid_by_def taggedObjectIsValid_def taggedDateIsValid_def taggedNumberIsValid_def
         taggedStringIsValid_def intro!: returns_bind returns_only_if)
qed

lemma is_valid_by_keeps:
  assumes "is_valid_by env f object table = Inr (b, table')"
  shows "map forget table' = map forget table"
proof -
  have "arrayIsValid env object table = Inr (b, table') \<Longrightarrow> map forget table' = map forget table"
    by (auto simp: arrayIsValid_def isCFArray_def bind_run_eq_Inr dest: getClassDataFromObject_keeps)
  with assms show ?thesis by (cases f) (auto simp: is_valid_by_def bind_run_eq_Inr)
qed

text \<open>
  C17. Looking whether an object is valid never touches memory that is not there: whatever the address and
  whatever is in memory, the answer is true or false.
\<close>

theorem validity_never_faults:
  assumes "frozen env" "wf_table table"
  shows "\<exists>valid table'. sentrycrashobjc_isValidObject env object table = Inr (valid, table') \<and> wf_table table'"
proof -
  obtain valid where valid: "isValidObject env object = Inr valid"
    using returns_isValidObject [OF assms(1)] by (auto simp: returns_def)
  show ?thesis
  proof (cases valid)
    case True
    with valid have v: "isValidObject env object = Inr True" by simp
    obtain d table' where d: "getClassDataFromObject env object table = Inr (d, table')"
      using returns_getClassDataFromObject [OF assms(1) v assms(2)] by (auto simp: returns_def)
    then have wf: "wf_table table'"
      using wf_table_forget [OF getClassDataFromObject_keeps] assms(2) by blast
    obtain b t where bt: "is_valid_by env (cd_isValidObject d) object table' = Inr (b, t)"
      using returns_is_valid_by [OF assms(1) v wf, of "cd_isValidObject d"] by (auto simp: returns_def)
    then have "wf_table t" using wf_table_forget [OF is_valid_by_keeps] wf by blast
    then show ?thesis using v d bt by (simp add: sentrycrashobjc_isValidObject_def)
  next
    case False
    then show ?thesis using valid assms(2) by (auto simp: sentrycrashobjc_isValidObject_def)
  qed
qed

theorem validity_never_faults_witness:
  "\<exists>valid table'. sentrycrashobjc_isValidObject demo_objc 0x3000 g_classData = Inr (valid, table') \<and> wf_table table'"
  by (rule validity_never_faults [OF demo_frozen wf_g_classData])

end
