(* ===== verification/Objc_Describe_Spec.thy ===== *)
theory Objc_Describe_Spec
  imports Objc_Values_Spec
begin

text \<open>
  Describing an object: every function writes inside the buffer, or writes outside it and so meets
  undefined behaviour; and a description ends even where an array is its own first entry.
\<close>

section \<open>What a function writes\<close>

text \<open>It meets a fault of the code, not of the model, or it stays in the buffer and says how much it has written.\<close>

definition stays_in :: "bytes \<Rightarrow> nat \<Rightarrow> (nat \<times> bytes) run \<Rightarrow> bool" where
  "stays_in buf p r \<longleftrightarrow>
     (case r of Inl e \<Rightarrow> e = UndefinedBehaviour | Inr (n, buf') \<Rightarrow> length buf' = length buf \<and> p + n \<le> length buf)"

text \<open>A result that is no fault of the model.\<close>

definition own_fault :: "'a run \<Rightarrow> bool" where
  "own_fault r \<longleftrightarrow> (case r of Inl e \<Rightarrow> e = UndefinedBehaviour | Inr _ \<Rightarrow> True)"

named_theorems stays

lemma own_fault_simps [simp]: "own_fault (Inr x)" "own_fault (Inl e) \<longleftrightarrow> e = UndefinedBehaviour"
  by (simp_all add: own_fault_def)

lemma own_fault_bind [stays]: "own_fault r \<Longrightarrow> (\<And>x. r = Inr x \<Longrightarrow> own_fault (f x)) \<Longrightarrow> own_fault (bind_run r f)"
  by (cases r) (auto simp: own_fault_def)

lemma own_fault_returns: "returns r \<Longrightarrow> own_fault r"
  by (auto simp: returns_def)

lemma stays_in_simps [simp]:
  "stays_in buf p (Inr (n, buf')) \<longleftrightarrow> length buf' = length buf \<and> p + n \<le> length buf"
  "stays_in buf p (Inl e) \<longleftrightarrow> e = UndefinedBehaviour"
  by (simp_all add: stays_in_def)

lemma stays_in_bind [stays]: "own_fault r \<Longrightarrow> (\<And>x. r = Inr x \<Longrightarrow> stays_in buf p (f x)) \<Longrightarrow> stays_in buf p (bind_run r f)"
  by (cases r) (auto simp: own_fault_def)

lemma stays_in_then:
  assumes "stays_in buf p r"
    "\<And>n buf'. r = Inr (n, buf') \<Longrightarrow> length buf' = length buf \<Longrightarrow> p + n \<le> length buf \<Longrightarrow> stays_in buf' (p + n) (f n buf')"
  shows "stays_in buf p (then_write r f)"
proof (cases r)
  case (Inr x)
  obtain n buf' where x: "x = (n, buf')" by (cases x) blast
  show ?thesis
    using assms Inr x by (cases "f n buf'") (auto simp: then_write_def stays_in_def)
qed (use assms in \<open>auto simp: then_write_def\<close>)

lemma own_fault_load [stays]: "own_fault (load env a n)"
  by (simp add: load_def)

lemma own_fault_put_at [stays]: "own_fault (put_at buf i b)"
  by (simp add: put_at_def)

lemma own_fault_put_all [stays]: "own_fault (put_all buf p s)"
  by (simp add: put_all_def)

lemma put_at_in: "put_at buf i b = Inr buf' \<Longrightarrow> length buf' = length buf \<and> 0 \<le> i \<and> i < int (length buf)"
  by (auto simp: put_at_def split: if_splits)

lemma put_all_in: "put_all buf p s = Inr buf' \<Longrightarrow> length buf' = length buf \<and> (s \<noteq> [] \<longrightarrow> p + length s \<le> length buf)"
  by (auto simp: put_all_def split: if_splits)

lemma own_fault_text_at [stays]: "own_fault (text_at mem a)"
  by (induction mem a rule: text_at.induct) (subst text_at.simps, auto split: option.splits intro!: own_fault_bind)

lemma own_fault_same_text [stays]: "own_fault (same_text mem a s)"
  by (induction s arbitrary: a) (auto split: option.splits)

lemma own_fault_tagged [stays]: "own_fault (isValidTaggedPointer env object)" "own_fault (getClassDataFromTaggedPointer env object)"
  by (simp_all add: own_fault_returns returns_isValidTaggedPointer tagged_class_data)

lemma own_fault_class [stays]:
  "own_fault (getIsaPointer env a)" "own_fault (getClassRO env a)" "own_fault (getClassName env a)"
  unfolding getIsaPointer_def getClassName_def getClassRO_def getClassRW_def by (auto intro!: stays)

lemma own_fault_find_class [stays]: "own_fault (find_class env c p table)"
  by (induction table) (auto split: option.splits prod.splits simp: Let_def intro!: stays)

lemma own_fault_class_data [stays]:
  "own_fault (getClassData env c table)" "own_fault (getClassDataFromObject env c table)"
  unfolding getClassDataFromObject_def getClassData_def by (auto intro!: stays)

section \<open>The single descriptions\<close>

lemma stringPrintf_stays [stays]: "p \<le> length buf \<Longrightarrow> stays_in buf p (stringPrintf buf p s)"
  by (auto simp: stringPrintf_def Let_def intro!: stays dest!: put_all_in)

text \<open>Where there is room for a character and the terminator, a text that is not empty is written in part at least.\<close>

lemma stringPrintf_writes: "stringPrintf buf p s = Inr (n, buf') \<Longrightarrow> p + 1 < length buf \<Longrightarrow> s \<noteq> [] \<Longrightarrow> 0 < n"
  by (auto simp: stringPrintf_def Let_def bind_run_eq_Inr split: if_splits)

lemma objectDescription_stays [stays]: "p \<le> length buf \<Longrightarrow> stays_in buf p (objectDescription env object buf p)"
  unfolding objectDescription_def by (auto intro!: stays)

lemma objectDescription_writes:
  "objectDescription env object buf p = Inr (n, buf') \<Longrightarrow> p + 1 < length buf \<Longrightarrow> 0 < n"
  by (auto simp: objectDescription_def bind_run_eq_Inr address_text_def Let_def split: if_splits dest!: stringPrintf_writes)

lemma taggedObjectDescription_stays [stays]: "p \<le> length buf \<Longrightarrow> stays_in buf p (taggedObjectDescription env object buf p)"
  unfolding taggedObjectDescription_def by (auto intro!: stays)

lemma extractTaggedNSString_stays [stays]: "p \<le> length buf \<Longrightarrow> stays_in buf p (extractTaggedNSString env object buf p)"
  unfolding extractTaggedNSString_def Let_def by (auto intro!: stays dest!: put_at_in put_all_in)

lemma own_fault_character [stays]: "own_fault (utf16_character env a)"
  unfolding utf16_character_def by (auto intro!: stays)

lemma own_fault_utf16_loop [stays]: "own_fault (utf16_loop env a n room got)"
proof (induction "nat n" arbitrary: a n got rule: less_induct)
  case less
  have rest: "own_fault (utf16_loop env a' m room got')" if "\<not> n \<le> 0" "m = n - 1 \<or> m = n - 2" for a' m got'
    using less [of m] that by auto
  show ?case by (subst utf16_loop.simps) (auto split: option.splits intro!: stays rest)
qed

lemma put_end_stays:
  "length buf' = length buf \<Longrightarrow> int (p + n) \<le> i \<Longrightarrow> stays_in buf p (bind_run (put_at buf' i b) (\<lambda>buf. Inr (n, buf)))"
  by (auto intro!: stays dest!: put_at_in)

lemma utf16_stays [stays]: "stays_in buf p (copyAndConvertUTF16StringToUTF8 env src n buf p)"
  unfolding copyAndConvertUTF16StringToUTF8_def by (auto split: if_split_asm intro!: stays put_end_stays dest!: put_all_in)

lemma copy8_stays [stays]: "p \<le> length buf \<Longrightarrow> stays_in buf p (copy8BitString env src n buf p)"
  unfolding copy8BitString_def Let_def
  by (auto split: prod.splits intro!: stays dest!: put_at_in put_all_in)

lemma own_fault_string [stays]:
  "own_fault (cf_info env a)" "own_fault (CFStrContents env a)" "own_fault (stringStart env a)"
  "own_fault (sentrycrashobjc_stringLength env a)"
  unfolding sentrycrashobjc_stringLength_def stringStart_def CFStrContents_def cf_info_def by (auto intro!: stays)

lemma copyStringContents_stays [stays]: "p \<le> length buf \<Longrightarrow> stays_in buf p (sentrycrashobjc_copyStringContents env a buf p)"
  unfolding sentrycrashobjc_copyStringContents_def by (auto intro!: stays)

lemma copyURLContents_stays [stays]: "p \<le> length buf \<Longrightarrow> stays_in buf p (sentrycrashobjc_copyURLContents env a buf p)"
  unfolding sentrycrashobjc_copyURLContents_def by (auto intro!: stays)

lemma own_fault_number [stays]:
  "own_fault (extract_number env cf f g h z object)" "own_fault (sentrycrashobjc_dateContents env object)"
  unfolding sentrycrashobjc_numberAsFloat_def sentrycrashobjc_numberAsInteger_def extract_number_def
    sentrycrashobjc_dateContents_def
  by (auto split: option.splits number_kind.splits intro!: stays)

lemma describe_alone_stays [stays]: "p \<le> length buf \<Longrightarrow> stays_in buf p (describe_alone env fl cf d object buf p)"
  by (cases d)
     (auto simp: describe_alone_def stringDescription_def urlDescription_def dateDescription_def numberDescription_def
       taggedDateDescription_def taggedNumberDescription_def taggedStringDescription_def
       sentrycrashobjc_numberAsFloat_def sentrycrashobjc_numberAsInteger_def Let_def
       intro!: stays stays_in_then)

section \<open>Arrays\<close>

text \<open>The same with the table of classes, at any position.\<close>

definition stays_described :: "bytes \<Rightarrow> nat \<Rightarrow> described \<Rightarrow> bool" where
  "stays_described buf p r \<longleftrightarrow>
     (case r of
        Inl e \<Rightarrow> e = UndefinedBehaviour
      | Inr ((n, buf'), _) \<Rightarrow> length buf' = length buf \<and> p + n \<le> length buf)"

lemma stays_described_simps [simp]:
  "stays_described buf p (Inr ((n, buf'), table)) \<longleftrightarrow> length buf' = length buf \<and> p + n \<le> length buf"
  "stays_described buf p (Inl e) \<longleftrightarrow> e = UndefinedBehaviour"
  by (simp_all add: stays_described_def)

lemma stays_described_bind [stays]:
  "own_fault r \<Longrightarrow> (\<And>x. r = Inr x \<Longrightarrow> stays_described buf p (f x)) \<Longrightarrow> stays_described buf p (bind_run r f)"
  by (cases r) (auto simp: own_fault_def)

lemma keep_table_stays [stays]: "stays_in buf p r \<Longrightarrow> stays_described buf p (keep_table table r)"
  by (cases r) (auto simp: keep_table_def)

lemma then_describe_stays:
  assumes "stays_described buf p r"
    "\<And>n buf' table. r = Inr ((n, buf'), table) \<Longrightarrow> length buf' = length buf \<Longrightarrow> p + n \<le> length buf \<Longrightarrow>
       stays_described buf' (p + n) (f n buf' table)"
  shows "stays_described buf p (then_describe r f)"
proof (cases r)
  case (Inr x)
  obtain n buf' table where x: "x = ((n, buf'), table)" by (cases x) auto
  show ?thesis
    using assms Inr x by (cases "f n buf' table") (auto simp: then_describe_def stays_described_def)
qed (use assms in \<open>auto simp: then_describe_def\<close>)

lemma own_fault_arrays [stays]:
  "own_fault (isCFArray env a table)" "own_fault (sentrycrashobjc_arrayCount env a table)"
  "own_fault (sentrycrashobjc_arrayContents env a n table)"
  unfolding sentrycrashobjc_arrayCount_def sentrycrashobjc_arrayContents_def isCFArray_def cfarrayCount_def
    nsarrayCount_def cfarrayContents_def nsarrayContents_def nsarrayIsMutable_def cfarrayData_def
    CFArrayGetBucketsPtr_def CFArrayGetType_def
  by (auto split: prod.splits intro!: stays)

lemma describe_entry_stays:
  assumes "p \<le> length buf"
    "\<And>a table. p + 1 < length buf \<Longrightarrow> stays_described buf p (inner a buf p table)"
  shows "stays_described buf p (describe_entry env inner object buf p table)"
  using assms unfolding describe_entry_def by (auto split: prod.splits intro!: stays)

text \<open>What the first two parts of the description of an array write comes before the entry.\<close>

lemma array_lead_writes:
  assumes "then_describe (keep_table table (objectDescription env object buf p))
      (\<lambda>n buf table. keep_table table (stringPrintf buf (p + n) s)) = Inr ((n, buf'), table')" "p + 1 < length buf"
  shows "0 < n"
proof -
  from assms(1) obtain k buf'' where "objectDescription env object buf p = Inr (k, buf'')" "k \<le> n"
    by (auto simp: then_describe_def keep_table_def bind_run_eq_Inr)
  with objectDescription_writes [OF this(1) assms(2)] show ?thesis by simp
qed

lemma arrayDescription_stays:
  assumes "p \<le> length buf"
    "\<And>q buf' a table. p < q \<Longrightarrow> q + 1 < length buf \<Longrightarrow> length buf' = length buf \<Longrightarrow>
       stays_described buf' q (inner a buf' q table)"
  shows "stays_described buf p (arrayDescription env inner object buf p table)"
  unfolding arrayDescription_def
proof (intro then_describe_stays)
  show "stays_described buf p (keep_table table (objectDescription env object buf p))"
    using assms(1) by (intro stays)
  fix n buf' table'
  assume n: "then_describe (keep_table table (objectDescription env object buf p))
      (\<lambda>n buf table. keep_table table (stringPrintf buf (p + n) '': ['')) = Inr ((n, buf'), table')"
    "length buf' = length buf" "p + n \<le> length buf"
  show "stays_described buf' (p + n) (describe_entry env inner object buf' (p + n) table')"
  proof (rule describe_entry_stays)
    fix a table
    assume "p + n + 1 < length buf'"
    then have "p < p + n" using array_lead_writes [OF n(1)] n(2) by simp
    then show "stays_described buf' (p + n) (inner a buf' (p + n) table)"
      using assms(2) n(2) \<open>p + n + 1 < length buf'\<close> by simp
  qed (use n in simp)
qed (auto intro!: stays)

lemma describe_stays:
  "p \<le> length buf \<Longrightarrow> length buf - p < fuel \<Longrightarrow> stays_described buf p (describe fuel env fl cf object buf p table)"
proof (induction fuel arbitrary: object buf p table)
  case (Suc fuel)
  have inner: "stays_described buf' q (describe fuel env fl cf a buf' q table)"
    if "p < q" "q + 1 < length buf" "length buf' = length buf" for q buf' a table
    using Suc.IH [of q buf'] Suc.prems that by simp
  show ?case
    using Suc.prems(1) by (auto split: describer.splits intro!: stays arrayDescription_stays inner)
qed simp

text \<open>
  C33. The description of any object ends, whatever is in memory, also that of an array that is its own first
  entry: it meets undefined behaviour in the code, or it has written at most as many bytes as the buffer
  holds, and the buffer has kept its size. There is no other outcome.
\<close>

theorem description_ends:
  "case sentrycrashobjc_getDescription env fl cf object buf table of
     Inl e \<Rightarrow> e = UndefinedBehaviour
   | Inr ((n, buf'), _) \<Rightarrow> n \<le> length buf \<and> length buf' = length buf"
  using describe_stays [of 0 buf "length buf + 1" env fl cf object table]
  by (auto simp: sentrycrashobjc_getDescription_def stays_described_def split: sum.splits prod.splits)

end
