(* ===== verification/Objc_String_Spec.thy ===== *)
theory Objc_String_Spec
  imports Objc_Values_Spec
begin

text \<open>
  Strings of Objective-C: the text of a string in UTF-16 is converted to UTF-8, as much of it as fits,
  and a short string that is packed into a tagged pointer is unpacked as it went in.
\<close>

unbundle bit_operations_syntax

section \<open>UTF-16\<close>

text \<open>The characters of Unicode, and the units that stand for one in UTF-16.\<close>

definition scalar :: "32 word \<Rightarrow> bool" where
  "scalar c \<longleftrightarrow> c \<le> 0x10ffff \<and> \<not> (0xd800 \<le> c \<and> c \<le> 0xdfff)"

definition utf16 :: "32 word \<Rightarrow> 64 word list" where
  "utf16 c =
     (if c \<le> 0xffff then [ucast c]
      else [0xd800 + ucast (drop_bit 10 (c - 0x10000)), 0xdc00 + ucast (take_bit 10 (c - 0x10000))])"

fun units_at :: "objc_env \<Rightarrow> 64 word \<Rightarrow> 64 word list \<Rightarrow> bool" where
  "units_at env a [] \<longleftrightarrow> True"
| "units_at env a (u # us) \<longleftrightarrow> load env a 2 = Inr u \<and> units_at env (a + 2) us"

text \<open>The UTF-8 of as many of the characters, from the first on, as fit.\<close>

fun fitting :: "int \<Rightarrow> 32 word list \<Rightarrow> bytes" where
  "fitting room [] = []"
| "fitting room (c # cs) =
     (if int (length (utf8 c)) \<le> room then utf8 c @ fitting (room - int (length (utf8 c))) cs else [])"

lemma utf8_bytes_utf8: "c \<le> 0x10ffff \<Longrightarrow> utf8_bytes c = Some (utf8 c)"
  by (simp add: utf8_bytes_def utf8_def writeUTF8_def)

lemma utf8_length: "c \<le> 0x10ffff \<Longrightarrow> 0 < length (utf8 c)"
  by (simp add: utf8_def writeUTF8_def)

lemma fitting_length: "0 \<le> room \<Longrightarrow> int (length (fitting room cs)) \<le> room"
proof (induction cs arbitrary: room)
  case (Cons c cs)
  from Cons.IH [of "room - int (length (utf8 c))"] Cons.prems show ?case by auto
qed simp

lemma fitting_none: "room \<le> 0 \<Longrightarrow> \<forall>c \<in> set cs. scalar c \<Longrightarrow> fitting room cs = []"
proof (cases cs)
  case (Cons c rest)
  moreover assume "room \<le> 0" "\<forall>c \<in> set cs. scalar c"
  ultimately have "0 < length (utf8 c)" "room \<le> 0" using utf8_length [of c] by (auto simp: scalar_def)
  then have "room < int (length (utf8 c))" by linarith
  then show ?thesis using Cons by simp
qed simp

lemma units_at_append: "units_at env a (us @ vs) \<longleftrightarrow> units_at env a us \<and> units_at env (a + 2 * of_nat (length us)) vs"
  by (induction us arbitrary: a) (auto simp: algebra_simps)

text \<open>The two units of a character outside the first plane, and back.\<close>

lemma pair_units:
  assumes "scalar c" "\<not> c \<le> 0xffff"
  defines "lead \<equiv> 0xd800 + ucast (drop_bit 10 (c - 0x10000)) :: 64 word"
    and "tail \<equiv> 0xdc00 + ucast (take_bit 10 (c - 0x10000)) :: 64 word"
  shows "0xd800 \<le> lead" "lead \<le> 0xdbff" "lead \<le> 0xdfff" "0xdc00 \<le> tail" "tail \<le> 0xdfff"
    "push_bit 10 (ucast lead - 0xd800) + (ucast tail - 0xdc00) + 0x10000 = c"
proof -
  let ?d = "c - 0x10000"
  have "unat ?d < 2 ^ 20"
    using assms(1,2) by (simp add: scalar_def word_le_nat_alt word_less_nat_alt unat_sub not_le)
  then have hi: "unat (drop_bit 10 ?d) < 2 ^ 10"
    by (simp add: unat_drop_bit_eq drop_bit_nat_def less_mult_imp_div_less)
  have lo: "unat (take_bit 10 ?d) < 2 ^ 10"
    by (simp add: unsigned_take_bit_eq take_bit_nat_def)
  have small: "unat (ucast w :: 64 word) = unat w" for w :: "32 word"
  proof -
    have "unat w < 2 ^ 32" using unsigned_less [of w] by simp
    then show ?thesis by (simp add: unsigned_ucast_eq take_bit_nat_eq_self_iff)
  qed
  have lead: "unat lead = 0xd800 + unat (drop_bit 10 ?d)"
    unfolding lead_def using hi by (simp add: unat_word_ariths small)
  have tail: "unat tail = 0xdc00 + unat (take_bit 10 ?d)"
    unfolding tail_def using lo by (simp add: unat_word_ariths small)
  show "0xd800 \<le> lead" "lead \<le> 0xdbff" "lead \<le> 0xdfff" "0xdc00 \<le> tail" "tail \<le> 0xdfff"
    using lead tail hi lo by (simp_all add: word_le_nat_alt)
  have "(ucast lead :: 32 word) = 0xd800 + drop_bit 10 ?d" "(ucast tail :: 32 word) = 0xdc00 + take_bit 10 ?d"
    using lead tail hi lo by (simp_all add: word_unat_eq_iff unsigned_ucast_eq take_bit_nat_eq_self unat_word_ariths)
  then have "ucast lead - 0xd800 = drop_bit 10 ?d" "ucast tail - 0xdc00 = take_bit 10 ?d" by simp_all
  then show "push_bit 10 (ucast lead - 0xd800) + (ucast tail - 0xdc00) + 0x10000 = c"
    by (simp add: bits_ident)
qed

lemma utf16_character_scalar:
  assumes "scalar c" "units_at env a (utf16 c)"
  shows "utf16_character env a = Inr (Some (c, \<not> c \<le> 0xffff))"
proof (cases "c \<le> 0xffff")
  case True
  have "unat c < 2 ^ 32" using unsigned_less [of c] by simp
  then have c: "unat (ucast c :: 64 word) = unat c" by (simp add: unsigned_ucast_eq take_bit_nat_eq_self_iff)
  have "(ucast c :: 64 word) < 0xd800 \<or> 0xdfff < (ucast c :: 64 word)"
    using assms(1) by (auto simp: scalar_def word_less_nat_alt word_le_nat_alt c)
  moreover have "(ucast (ucast c :: 64 word) :: 32 word) = c"
    using \<open>unat c < 2 ^ 32\<close> by (simp add: word_unat_eq_iff unsigned_ucast_eq c take_bit_nat_eq_self take_bit_word_eq_self)
  ultimately show ?thesis using assms(2) True by (auto simp: utf16_character_def utf16_def)
next
  case False
  note pair = pair_units [OF assms(1) False]
  have "load env a 2 = Inr (0xd800 + ucast (drop_bit 10 (c - 0x10000)))"
    "load env (a + 2) 2 = Inr (0xdc00 + ucast (take_bit 10 (c - 0x10000)))"
    using assms(2) False by (simp_all add: utf16_def)
  then show ?thesis
    using pair False by (simp add: utf16_character_def not_less)
qed

lemma utf16_loop_fitting:
  assumes "units_at env a (concat (map utf16 cs))" "\<forall>c \<in> set cs. scalar c" "int (length got) \<le> room"
  shows "utf16_loop env a (int (length (concat (map utf16 cs)))) room got =
    Inr (got @ fitting (room - int (length got)) cs, True)"
  using assms
proof (induction cs arbitrary: a got)
  case Nil
  then show ?case by (subst utf16_loop.simps) simp
next
  case (Cons c cs)
  let ?n = "length (concat (map utf16 cs))"
  have c: "scalar c" and max: "c \<le> 0x10ffff" using Cons.prems(2) by (simp_all add: scalar_def)
  have here: "utf16_character env a = Inr (Some (c, \<not> c \<le> 0xffff))"
    using Cons.prems(1) c by (intro utf16_character_scalar) (auto simp: units_at_append)
  have len: "length (utf16 c) = (if \<not> c \<le> 0xffff then 2 else 1)" by (simp add: utf16_def)
  have rest: "units_at env (a + (if \<not> c \<le> 0xffff then 4 else 2)) (concat (map utf16 cs))"
    using Cons.prems(1) by (simp add: units_at_append len split: if_splits)
  show ?case
  proof (cases "int (length got) < room")
    case True
    have step: "utf16_loop env a (int (length (utf16 c)) + int ?n) room got =
        (if int (length got + length (utf8 c)) > room then Inr (got, True)
         else utf16_loop env (a + (if \<not> c \<le> 0xffff then 4 else 2)) (int ?n) room (got @ utf8 c))"
      using True len by (subst utf16_loop.simps) (simp add: here utf8_bytes_utf8 [OF max])
    show ?thesis
      using step Cons.IH [OF rest, of "got @ utf8 c"] Cons.prems(2) by (auto simp: algebra_simps)
  next
    case False
    with Cons.prems(3) have "room - int (length got) \<le> 0" "room \<le> int (length got)" by simp_all
    with fitting_none [OF this(1) Cons.prems(2)] show ?thesis by (subst utf16_loop.simps) simp
  qed
qed

lemma put_all_put_at:
  assumes "p + length s < length buf"
  shows "bind_run (put_all buf p s) (\<lambda>buf. put_at buf (int (p + length s)) NUL) =
    Inr (take p buf @ s @ [NUL] @ drop (p + length s + 1) buf)"
proof -
  have "drop (p + length s) buf = buf ! (p + length s) # drop (p + length s + 1) buf"
    using assms by (simp add: Cons_nth_drop_Suc)
  moreover have "buf = take p buf @ drop p buf" by simp
  ultimately have "(take p buf @ s @ drop (p + length s) buf) [p + length s := NUL] =
      take p buf @ s @ [NUL] @ drop (p + length s + 1) buf"
    using assms by (simp add: list_update_append)
  then show ?thesis
    using assms by (cases "s = []") (auto simp: put_all_def put_at_def nat_add_distrib)
qed

text \<open>
  C31. The text of a string in UTF-16 is written to the buffer in UTF-8: of its characters as many as fit with
  the byte that ends them, none of them in part, and the rest of the buffer is as it was.
\<close>

theorem utf16_to_utf8:
  assumes "units_at env src (concat (map utf16 cs))" "\<forall>c \<in> set cs. scalar c" "p < length buf"
  defines "t \<equiv> fitting (int (length buf - p) - 1) cs"
  shows "copyAndConvertUTF16StringToUTF8 env src (int (length (concat (map utf16 cs)))) buf p =
    Inr (length t, take p buf @ t @ [NUL] @ drop (p + length t + 1) buf)"
proof -
  have "int (length t) \<le> int (length buf - p) - 1" unfolding t_def using assms(3) by (intro fitting_length) simp
  then have "p + length t < length buf" using assms(3) by linarith
  from put_all_put_at [OF this] show ?thesis
    using utf16_loop_fitting [OF assms(1,2), of "[]" "int (length buf - p) - 1"] assms(3)
    by (auto simp: copyAndConvertUTF16StringToUTF8_def t_def bind_run_eq_Inr)
qed

lemma load_word_part:
  assumes "om_mem env = word_memory f" "f a = Some w" "a AND 7 = 0" "k + n \<le> 8"
  shows "load env (a + of_nat k) n = Inr (le_word (take n (drop k (le_bytes 8 w))))"
proof -
  have byte: "om_mem env (a + of_nat k + of_nat i) = Some (le_bytes 8 w ! (k + i))" if "i < n" for i
    using word_memory_at [OF assms(3), of "k + i" f] assms that by (simp add: add.assoc)
  have "bytes_at (om_mem env) (a + of_nat k) n = take n (drop k (le_bytes 8 w))"
    by (rule nth_equalityI) (use assms(4) in \<open>simp_all add: bytes_at_def byte\<close>)
  moreover have "all_readable (om_mem env) (a + of_nat k) n" by (simp add: all_readable_def byte)
  ultimately show ?thesis by (simp add: load_def)
qed

definition one_word_env :: objc_env where
  "one_word_env = demo_objc\<lparr>om_mem := word_memory [0x100 \<mapsto> 0xde00d83d00e90061]\<rparr>"

lemma one_word_parts:
  "load one_word_env 0x100 2 = Inr 0x61" "load one_word_env 0x102 2 = Inr 0xe9"
  "load one_word_env 0x104 2 = Inr 0xd83d" "load one_word_env 0x106 2 = Inr 0xde00"
proof -
  have w: "le_word (take 2 (le_bytes 8 0xde00d83d00e90061)) = 0x61"
    "le_word (take 2 (drop 2 (le_bytes 8 0xde00d83d00e90061))) = 0xe9"
    "le_word (take 2 (drop 4 (le_bytes 8 0xde00d83d00e90061))) = 0xd83d"
    "le_word (take 2 (drop 6 (le_bytes 8 0xde00d83d00e90061))) = 0xde00"
    by code_simp+
  have part: "k + 2 \<le> 8 \<Longrightarrow> load one_word_env (0x100 + of_nat k) 2 = Inr (le_word (take 2 (drop k (le_bytes 8 0xde00d83d00e90061))))" for k
    by (rule load_word_part [where f = "[0x100 \<mapsto> 0xde00d83d00e90061]"]) (simp_all add: one_word_env_def)
  show "load one_word_env 0x100 2 = Inr 0x61" "load one_word_env 0x102 2 = Inr 0xe9"
    "load one_word_env 0x104 2 = Inr 0xd83d" "load one_word_env 0x106 2 = Inr 0xde00"
    using part [of 0] part [of 2] part [of 4] part [of 6] w by simp_all
qed

lemma one_word_units: "units_at one_word_env 0x100 (concat (map utf16 [0x61, 0xe9, 0x1f600]))"
  by (simp add: utf16_def one_word_parts)

lemma one_word_text: "fitting 6 [0x61, 0xe9, 0x1f600] = [CHR 0x61, CHR 0xC3, CHR 0xA9]"
  by code_simp

lemma one_word_scalars: "\<forall>c \<in> set [0x61, 0xe9, 0x1f600]. scalar c"
  by (simp add: scalar_def)

lemma one_word_length: "length (concat (map utf16 [0x61, 0xe9, 0x1f600])) = 4"
  by (simp add: utf16_def)

theorem utf16_to_utf8_witness:
  "copyAndConvertUTF16StringToUTF8 one_word_env 0x100 4 [NUL, NUL, NUL, NUL, NUL, NUL, NUL] 0 =
    Inr (3, [CHR 0x61, CHR 0xC3, CHR 0xA9, NUL, NUL, NUL, NUL])"
proof -
  have "int (length [NUL, NUL, NUL, NUL, NUL, NUL, NUL] - 0) - 1 = 6" by simp
  then show ?thesis
    using utf16_to_utf8 [OF one_word_units one_word_scalars, of 0 "[NUL, NUL, NUL, NUL, NUL, NUL, NUL]",
        unfolded one_word_length] by (simp add: one_word_text del: fitting.simps)
qed

section \<open>Strings inside pointers\<close>

text \<open>
  How a short text is packed: up to seven characters as they are, up to nine by their numbers in the
  alphabet, and up to eleven if these are less than 32.
\<close>

definition code_of :: "byte \<Rightarrow> nat" where
  "code_of c = length (takeWhile (\<lambda>b. b \<noteq> c) tagged_alphabet)"

definition code_value :: "nat \<Rightarrow> nat list \<Rightarrow> 64 word" where
  "code_value width codes = foldl (\<lambda>v i. push_bit width v OR of_nat i) 0 codes"

definition packed_text :: "bytes \<Rightarrow> 64 word" where
  "packed_text t =
     (if length t \<le> 7 then le_word t
      else if length t \<le> 9 then code_value 6 (map code_of t) else code_value 5 (map code_of t))"

definition packable :: "bytes \<Rightarrow> bool" where
  "packable t \<longleftrightarrow>
     (if length t \<le> 7 then \<forall>b \<in> set t. byte_val b < 128
      else if length t \<le> 9 then set t \<subseteq> set tagged_alphabet
      else length t \<le> 11 \<and> set t \<subseteq> set (take 32 tagged_alphabet))"

definition tagged_string :: "objc_env \<Rightarrow> bytes \<Rightarrow> 64 word" where
  "tagged_string env t =
     (let payload = push_bit 4 (packed_text t) OR of_nat (length t)
      in if om_msb env then 0xA000000000000000 OR payload else push_bit 4 payload OR 0x5)"

lemma le_word_bits: "take_bit (8 * length t) (le_word t) = le_word t"
proof (induction t)
  case (Cons b t)
  have "take_bit (8 * length (b # t)) (of_nat (byte_val b)) = (of_nat (byte_val b) :: 64 word)"
  proof -
    have "byte_val b < 2 ^ (8 * length (b # t))"
      by (rule less_le_trans [OF byte_val_less]) (use power_increasing [of 8 "8 * length (b # t)" "2 :: nat"] in simp)
    then show ?thesis by (simp only: take_bit_of_nat take_bit_nat_eq_self)
  qed
  then show ?case using Cons.IH by (simp add: take_bit_or take_bit_push_bit)
qed simp

lemma le_word_bit_less: "bit (le_word t) n \<Longrightarrow> n < 8 * length t"
  by (metis bit_take_bit_iff le_word_bits)

lemma ascii_chars_le_word: "\<forall>b \<in> set t. byte_val b < 128 \<Longrightarrow> length t \<le> 8 \<Longrightarrow> ascii_chars (le_word t) (length t) = t"
proof (induction t)
  case (Cons b t)
  have b: "byte_val b < 128" using Cons.prems by simp
  have "unat (le_word (b # t) AND 0x7f) = byte_val b"
  proof -
    have "le_word (b # t) AND 0x7f = take_bit 7 (le_word (b # t))" by (simp add: take_bit_eq_mask mask_eq_exp_minus_1)
    also have "\<dots> = take_bit 7 (of_nat (byte_val b))" by (simp add: take_bit_or take_bit_push_bit)
    also have "\<dots> = of_nat (byte_val b)" using b by (simp add: take_bit_of_nat take_bit_nat_eq_self)
    finally show ?thesis using b by (simp add: unat_of_nat)
  qed
  moreover have "drop_bit 8 (le_word (b # t)) = le_word t"
  proof (rule bit_word_eqI)
    fix n
    have "byte_val b < 2 ^ (8 + n)"
      by (rule less_le_trans [OF byte_val_less]) (use power_increasing [of 8 "8 + n" "2 :: nat"] in simp)
    then have "\<not> bit (byte_val b) (8 + n)" by (simp add: bit_iff_odd)
    then show "bit (drop_bit 8 (le_word (b # t))) n = bit (le_word t) n" if "n < LENGTH(64)"
      using that le_word_bit_less [of t n] Cons.prems(2) by (auto simp: bit_simps)
  qed
  ultimately show ?case using Cons by (simp add: byte_val_def del: le_word.simps)
qed simp

text \<open>The numbers of the characters.\<close>

lemma nth_takeWhile_differs: "c \<in> set xs \<Longrightarrow> xs ! length (takeWhile (\<lambda>b. b \<noteq> c) xs) = c"
  by (induction xs) auto

lemma code_of_char: "c \<in> set tagged_alphabet \<Longrightarrow> tagged_alphabet ! code_of c = c"
  unfolding code_of_def by (rule nth_takeWhile_differs)

lemma takeWhile_stops_in: "c \<in> set (take n xs) \<Longrightarrow> length (takeWhile (\<lambda>b. b \<noteq> c) xs) < n"
proof (induction xs arbitrary: n)
  case (Cons x xs)
  then show ?case by (cases n) auto
qed simp

lemma code_of_less: "c \<in> set (take n tagged_alphabet) \<Longrightarrow> code_of c < n"
  unfolding code_of_def by (rule takeWhile_stops_in)

lemma code_value_snoc: "code_value width (codes @ [i]) = push_bit width (code_value width codes) OR of_nat i"
  by (simp add: code_value_def)

lemma code_less_bit: "i < 2 ^ width \<Longrightarrow> bit (of_nat i :: 64 word) n \<Longrightarrow> n < width"
proof -
  assume i: "i < 2 ^ width" and "bit (of_nat i :: 64 word) n"
  then have "bit i n" by (simp add: bit_of_nat_iff)
  moreover have "take_bit width i = i" using i by (simp add: take_bit_nat_eq_self)
  ultimately show "n < width" by (metis bit_take_bit_iff)
qed

lemma code_value_bit_less:
  "\<forall>i \<in> set codes. i < 2 ^ width \<Longrightarrow> bit (code_value width codes) n \<Longrightarrow> n < width * length codes"
proof (induction codes arbitrary: n rule: rev_induct)
  case (snoc i codes)
  from snoc.prems(2) consider "width \<le> n" "bit (code_value width codes) (n - width)" | "bit (of_nat i :: 64 word) n"
    by (auto simp: code_value_snoc bit_simps)
  then show ?case
  proof cases
    case 1
    then have "n - width < width * length codes" using snoc by simp
    with 1 show ?thesis by simp
  next
    case 2
    then have "n < width" using code_less_bit [of i width n] snoc.prems(1) by simp
    then show ?thesis by simp
  qed
qed (simp add: code_value_def)

text \<open>The last number is in the lowest bits.\<close>

lemma code_value_nth:
  assumes "\<forall>i \<in> set codes. i < 2 ^ width" "width * length codes \<le> 64" "k < length codes"
  shows "drop_bit ((length codes - 1 - k) * width) (code_value width codes) AND Bit_Operations.mask width = of_nat (codes ! k)"
  using assms
proof (induction codes rule: rev_induct)
  case (snoc i codes)
  have i: "i < 2 ^ width" using snoc.prems(1) by simp
  have low: "take_bit width (of_nat i :: 64 word) = of_nat i"
    using i by (simp add: take_bit_of_nat take_bit_nat_eq_self)
  show ?case
  proof (cases "k = length codes")
    case True
    then show ?thesis
      using low by (simp add: code_value_snoc flip: take_bit_eq_mask) (simp add: take_bit_or take_bit_push_bit)
  next
    case False
    with snoc.prems(3) have k: "k < length codes" by simp
    have "drop_bit width (code_value width (codes @ [i])) = code_value width codes"
    proof (rule bit_word_eqI)
      fix n
      assume "n < LENGTH(64)"
      have "\<not> bit (of_nat i :: 64 word) (width + n)" using code_less_bit [OF i] by force
      moreover have "bit (code_value width codes) n \<Longrightarrow> width + n < 64"
        using code_value_bit_less [of codes width n] snoc.prems(1,2) by simp
      ultimately show "bit (drop_bit width (code_value width (codes @ [i]))) n = bit (code_value width codes) n"
        by (auto simp: code_value_snoc bit_simps)
    qed
    moreover obtain m where m: "length codes - k = Suc m" "length codes - 1 - k = m"
      using k by (cases "length codes - k") auto
    ultimately have "drop_bit (Suc m * width) (code_value width (codes @ [i])) = drop_bit (m * width) (code_value width codes)"
      by (metis add.commute drop_bit_drop_bit mult_Suc)
    then have "drop_bit ((length codes - k) * width) (code_value width (codes @ [i])) =
        drop_bit ((length codes - 1 - k) * width) (code_value width codes)"
      by (simp only: m)
    then show ?thesis using snoc.IH snoc.prems k by (simp add: nth_append)
  qed
qed simp

lemma coded_chars_codes:
  assumes "set t \<subseteq> set (take (2 ^ width) tagged_alphabet)" "width * length t \<le> 64"
  shows "coded_chars width (code_value width (map code_of t)) (length t) (length t) = t"
proof (rule nth_equalityI)
  fix i
  assume "i < length (coded_chars width (code_value width (map code_of t)) (length t) (length t))"
  then have i: "i < length t" by (simp add: coded_chars_def)
  have less: "code_of c < 2 ^ width" if "c \<in> set t" for c using assms(1) that by (auto intro: code_of_less)
  have c: "t ! i \<in> set tagged_alphabet" using assms(1) i by (meson in_set_takeD nth_mem subsetD)
  have "take 64 tagged_alphabet = tagged_alphabet" by (simp add: tagged_alphabet_def)
  then have "code_of (t ! i) < 64" using c code_of_less [of "t ! i" 64] by simp
  then have "unat (of_nat (code_of (t ! i)) :: 64 word) = code_of (t ! i)" by (simp add: unat_of_nat)
  moreover have "drop_bit ((length t - 1 - i) * width) (code_value width (map code_of t)) AND Bit_Operations.mask width =
      of_nat (code_of (t ! i))"
    using code_value_nth [of "map code_of t" width i] assms(2) i less by simp
  ultimately show "coded_chars width (code_value width (map code_of t)) (length t) (length t) ! i = t ! i"
    using i by (simp add: coded_chars_def code_of_char [OF c])
qed (simp add: coded_chars_def)

text \<open>A packed text leaves room for the length in the pointer.\<close>

lemma packed_text_bits:
  assumes "packable t" "bit (packed_text t) n"
  shows "n < 56"
proof (cases "length t \<le> 7")
  case True
  then show ?thesis using assms(2) le_word_bit_less [of t n] by (simp add: packed_text_def)
next
  case False
  define width where "width = (if length t \<le> 9 then 6 else 5 :: nat)"
  have sub: "set t \<subseteq> set (take (2 ^ width) tagged_alphabet)" "width * length t \<le> 56"
    using assms(1) False by (auto simp: packable_def width_def tagged_alphabet_def)
  have "packed_text t = code_value width (map code_of t)" using False by (simp add: packed_text_def width_def)
  moreover have "\<forall>i \<in> set (map code_of t). i < 2 ^ width" using sub(1) by (auto intro: code_of_less)
  ultimately have "n < width * length (map code_of t)" using assms(2) by (metis code_value_bit_less)
  then show ?thesis using sub(2) by simp
qed

section \<open>The pointer\<close>

lemma tagged_string_fields:
  assumes "packable t"
  shows "isTaggedPointer env (tagged_string env t)" "isTaggedPointerNSString env (tagged_string env t)"
    "getTaggedPayload env (tagged_string env t) = push_bit 4 (packed_text t) OR of_nat (length t)"
    "getTaggedNSStringLength env (tagged_string env t) = length t"
    "drop_bit 4 (getTaggedPayload env (tagged_string env t)) = packed_text t"
proof -
  let ?v = "packed_text t" and ?n = "of_nat (length t) :: 64 word"
  define payload where "payload = push_bit 4 ?v OR ?n"
  have len: "length t < 16" using assms by (auto simp: packable_def split: if_splits)
  have v: "n < 56" if "bit ?v n" for n using packed_text_bits [OF assms that] .
  have n: "i < 4" if "bit ?n i" for i using code_less_bit [of "length t" 4 i] len that by simp
  have bits: "i < 60" if "bit payload i" for i
    using that v [of "i - 4"] n [of i] by (auto simp: payload_def bit_simps)
  have pointer: "tagged_string env t =
      (if om_msb env then 0xA000000000000000 OR payload else push_bit 4 payload OR 0x5)"
    by (simp add: tagged_string_def payload_def Let_def)
  have "take_bit 60 payload = payload" using bits by (auto intro!: bit_word_eqI simp: bit_take_bit_iff)
  then have up: "drop_bit 4 (push_bit 4 payload) = payload" and high: "drop_bit 60 payload = 0"
    by (auto intro!: bit_word_eqI simp: bit_simps dest: bits)
  show payload: "getTaggedPayload env (tagged_string env t) = push_bit 4 ?v OR ?n"
    unfolding payload_def [symmetric]
    using up by (simp add: getTaggedPayload_def TAG_PAYLOAD_LSHIFT_def TAG_PAYLOAD_RSHIFT_def pointer push_bit_or drop_bit_or)
  show "isTaggedPointer env (tagged_string env t)"
    by (simp add: isTaggedPointer_def TAG_MASK_def pointer bit.conj_disj_distrib2)
  have "drop_bit (Suc 0) (push_bit 4 payload) AND 7 = take_bit 3 (drop_bit (Suc 0) (push_bit 4 payload))"
    by (simp add: take_bit_eq_mask mask_eq_exp_minus_1)
  also have "\<dots> = 0" by (rule bit_word_eqI) (auto simp: bit_simps)
  finally have low: "drop_bit (Suc 0) (push_bit 4 payload) AND 7 = 0" .
  show "isTaggedPointerNSString env (tagged_string env t)"
    using high low
    by (simp add: isTaggedPointerNSString_def getTaggedSlot_def TAG_SLOT_SHIFT_def TAG_SLOT_MASK_def OBJC_TAG_NSString_def
        pointer drop_bit_or bit.conj_disj_distrib2)
  show "getTaggedNSStringLength env (tagged_string env t) = length t"
  proof -
    have "(push_bit 4 ?v OR ?n) AND 0xf = take_bit 4 (push_bit 4 ?v OR ?n)"
      by (simp add: take_bit_eq_mask mask_eq_exp_minus_1)
    also have "\<dots> = ?n" using len by (simp add: take_bit_or take_bit_push_bit take_bit_of_nat take_bit_nat_eq_self)
    finally show ?thesis using len by (simp add: getTaggedNSStringLength_def payload unat_of_nat)
  qed
  show "drop_bit 4 (getTaggedPayload env (tagged_string env t)) = ?v"
  proof -
    have "take_bit 4 (length t) = length t" using len by (simp add: take_bit_nat_eq_self)
    then have "i < 4" if "bit (length t) i" for i using that by (metis bit_take_bit_iff)
    then show ?thesis unfolding payload by (intro bit_word_eqI) (auto simp: bit_simps dest: v)
  qed
qed

text \<open>
  C32. A short text that is packed into a tagged pointer, in any of the three ways, is copied out of it as it
  was, with the byte that ends it, if there is room for both.
\<close>

theorem tagged_string_roundtrip:
  assumes "packable t" "p + length t < length buf"
  shows "sentrycrashobjc_copyStringContents env (tagged_string env t) buf p =
    Inr (length t, take p buf @ t @ [NUL] @ drop (p + length t + 1) buf)"
proof -
  note fields = tagged_string_fields [OF assms(1), of env]
  have "extractTaggedNSString env (tagged_string env t) buf p =
      bind_run (bind_run (put_all buf p t) (\<lambda>buf. put_at buf (int (p + length t)) NUL)) (\<lambda>buf. Inr (length t, buf))"
  proof -
    have room: "\<not> length t + 1 > length buf - p" using assms(2) by simp
    have "length t \<le> 7 \<Longrightarrow> ascii_chars (packed_text t) (length t) = t"
      using assms(1) ascii_chars_le_word [of t] by (simp add: packed_text_def packable_def)
    moreover have "\<not> length t \<le> 7 \<Longrightarrow> length t \<le> 9 \<Longrightarrow> coded_chars 6 (packed_text t) (length t) (length t) = t"
      using assms(1) coded_chars_codes [of t 6] by (simp add: packed_text_def packable_def tagged_alphabet_def)
    moreover have "\<not> length t \<le> 9 \<Longrightarrow> length t \<le> 11 \<and> coded_chars 5 (packed_text t) (length t) (length t) = t"
      using assms(1) coded_chars_codes [of t 5] by (simp add: packed_text_def packable_def)
    ultimately show ?thesis
      using room by (auto simp: extractTaggedNSString_def Let_def fields(4,5) bind_run_assoc)
  qed
  then show ?thesis
    by (simp only: sentrycrashobjc_copyStringContents_def fields put_all_put_at [OF assms(2)] bind_run_simps simp_thms if_True)
qed

theorem tagged_string_roundtrip_witness:
  "sentrycrashobjc_copyStringContents demo_objc (tagged_string demo_objc ''localhost'')
     [NUL, NUL, NUL, NUL, NUL, NUL, NUL, NUL, NUL, NUL, NUL, NUL] 0 =
   Inr (9, ''localhost'' @ [NUL, NUL, NUL])"
  using tagged_string_roundtrip [of "''localhost''" 0 "[NUL, NUL, NUL, NUL, NUL, NUL, NUL, NUL, NUL, NUL, NUL, NUL]" demo_objc]
  by (simp add: packable_def tagged_alphabet_def)

end
