(* ===== verification/Profile_Backtrace.thy ===== *)
theory Profile_Backtrace
  imports Crash_Memory
begin

unbundle bit_operations_syntax

text \<open>
  How the profiler reads stacks: \<open>Sentry/SentryThreadHandle.cpp\<close>, \<open>SentryThreadMetadataCache.cpp\<close> and
  \<open>SentryBacktrace.cpp\<close>, with the headers \<open>SentryStackBounds.hpp\<close>, \<open>SentryStackFrame.hpp\<close> and
  \<open>SentryThreadState.hpp\<close>. Unlike the crash reporter, the profiler stops one thread at a time while the
  others run. The targets are those of 64 bits; log lines are left out.
\<close>

section \<open>Registers\<close>

datatype profile_cpu = ProfileX86_64 | ProfileArm64

text \<open>\<open>ss_pc\<close> is \<open>rip\<close> and \<open>ss_fp\<close> is \<open>rbp\<close> on \<open>x86_64\<close>, which has no link register.\<close>

record machine_registers =
  ss_pc :: "64 word"
  ss_lr :: "64 word"
  ss_fp :: "64 word"

definition getFrameAddress :: "machine_registers \<Rightarrow> 64 word" where
  "getFrameAddress r = ss_fp r"

definition getLinkRegister :: "profile_cpu \<Rightarrow> machine_registers \<Rightarrow> 64 word" where
  "getLinkRegister cpu r = (case cpu of ProfileArm64 \<Rightarrow> ss_lr r | ProfileX86_64 \<Rightarrow> 0)"

definition getProgramCounter :: "machine_registers \<Rightarrow> 64 word" where
  "getProgramCounter r = ss_pc r"

definition getPreviousInstructionAddress :: "profile_cpu \<Rightarrow> 64 word \<Rightarrow> 64 word" where
  "getPreviousInstructionAddress cpu a = (case cpu of ProfileArm64 \<Rightarrow> a - 4 | ProfileX86_64 \<Rightarrow> a - 1)"

section \<open>Stacks\<close>

text \<open>A stack grows down from its start to its end.\<close>

record stack_bounds =
  sb_start :: "64 word"
  sb_end :: "64 word"

definition no_bounds :: stack_bounds where "no_bounds = \<lparr>sb_start = 0, sb_end = 0\<rparr>"

definition sizeof_StackFrame :: nat where "sizeof_StackFrame = 16"

definition bounds_contain :: "stack_bounds \<Rightarrow> 64 word \<Rightarrow> bool" where
  "bounds_contain b framePtr \<longleftrightarrow> sb_end b < framePtr \<and> framePtr < sb_start b - of_nat sizeof_StackFrame"

definition bounds_valid :: "stack_bounds \<Rightarrow> bool" where
  "bounds_valid b \<longleftrightarrow> sb_start b \<noteq> 0 \<and> sb_end b \<noteq> 0 \<and> sb_end b < sb_start b"

definition isAligned :: "64 word \<Rightarrow> bool" where
  "isAligned framePtr \<longleftrightarrow> framePtr AND 0xf = 0"

definition isValidFrame :: "64 word \<Rightarrow> stack_bounds \<Rightarrow> bool" where
  "isValidFrame frame bounds \<longleftrightarrow> bounds_contain bounds frame \<and> isAligned frame"

section \<open>The system\<close>

text \<open>\<open>bi_run_state\<close> and \<open>bi_flags\<close> hold the values of \<open>mach/thread_info.h\<close>.\<close>

record basic_info =
  bi_user_seconds :: int
  bi_user_microseconds :: int
  bi_system_seconds :: int
  bi_system_microseconds :: int
  bi_cpu_usage :: int
  bi_run_state :: int
  bi_flags :: "32 word"

definition TH_STATE_RUNNING :: int where "TH_STATE_RUNNING = 1"
definition TH_FLAGS_IDLE :: "32 word" where "TH_FLAGS_IDLE = 2"
definition THREAD_NULL :: "32 word" where "THREAD_NULL = 0"

text \<open>
  The calls of the kernel and of pthread, each of which may change the world; a failure is \<open>None\<close>, and
  the null pointer a \<open>pthread_t\<close> of 0. \<open>po_self\<close> is \<open>pthread_mach_thread_np(pthread_self())\<close>, and
  \<open>po_frame_address\<close> is \<open>__builtin_frame_address(0)\<close>.
\<close>

record 'w profile_os =
  po_cpu :: profile_cpu
  po_self :: "'w \<Rightarrow> 32 word \<times> 'w"
  po_task_threads :: "'w \<Rightarrow> 32 word list option \<times> 'w"
  po_deallocate :: "32 word \<Rightarrow> 'w \<Rightarrow> unit \<times> 'w"
  po_from_mach_thread :: "32 word \<Rightarrow> 'w \<Rightarrow> 64 word \<times> 'w"
  po_getname :: "64 word \<Rightarrow> 'w \<Rightarrow> bytes option \<times> 'w"
  po_getschedparam :: "64 word \<Rightarrow> 'w \<Rightarrow> int option \<times> 'w"
  po_thread_info :: "32 word \<Rightarrow> 'w \<Rightarrow> basic_info option \<times> 'w"
  po_stackaddr :: "64 word \<Rightarrow> 'w \<Rightarrow> 64 word \<times> 'w"
  po_stacksize :: "64 word \<Rightarrow> 'w \<Rightarrow> 64 word \<times> 'w"
  po_suspend :: "32 word \<Rightarrow> 'w \<Rightarrow> bool \<times> 'w"
  po_resume :: "32 word \<Rightarrow> 'w \<Rightarrow> bool \<times> 'w"
  po_get_state :: "32 word \<Rightarrow> 'w \<Rightarrow> machine_registers option \<times> 'w"
  po_frame_address :: "'w \<Rightarrow> 64 word"
  po_vm :: "'w \<Rightarrow> vm"
  po_mem :: "'w \<Rightarrow> 64 word \<Rightarrow> byte option"

section \<open>Thread handles\<close>

record thread_handle =
  th_handle :: "32 word"
  th_isOwnedPort :: bool
  th_pthread :: "64 word"

definition ThreadHandle :: "32 word \<Rightarrow> bool \<Rightarrow> thread_handle" where
  "ThreadHandle handle isOwnedPort = \<lparr>th_handle = handle, th_isOwnedPort = isOwnedPort, th_pthread = 0\<rparr>"

text \<open>The destructor.\<close>

definition destroy_handle :: "'w profile_os \<Rightarrow> thread_handle \<Rightarrow> 'w \<Rightarrow> 'w" where
  "destroy_handle os th w = (if th_isOwnedPort th then snd (po_deallocate os (th_handle th) w) else w)"

definition current_thread :: "'w profile_os \<Rightarrow> 'w \<Rightarrow> thread_handle \<times> 'w" where
  "current_thread os w = (let (thread, w) = po_self os w in (ThreadHandle thread False, w))"

text \<open>
  When \<open>task_threads\<close> fails, \<open>list\<close> and \<open>count\<close> have no value, but they are used to free the list. Freeing
  a list that was delivered is left out.
\<close>

definition all_threads :: "'w profile_os \<Rightarrow> 'w \<Rightarrow> (thread_handle list \<times> 'w) run" where
  "all_threads os w =
     (case po_task_threads os w of
        (None, w) \<Rightarrow> Inl UndefinedBehaviour
      | (Some list, w) \<Rightarrow> Inr (map (\<lambda>thread. ThreadHandle thread True) list, w))"

fun handles_except :: "'w profile_os \<Rightarrow> 32 word \<Rightarrow> 32 word list \<Rightarrow> 'w \<Rightarrow> thread_handle list \<times> 'w" where
  "handles_except os self [] w = ([], w)"
| "handles_except os self (thread # list) w =
     (if thread \<noteq> self
      then let (threads, w) = handles_except os self list w in (ThreadHandle thread True # threads, w)
      else handles_except os self list (snd (po_deallocate os thread w)))"

definition allExcludingCurrent :: "'w profile_os \<Rightarrow> 'w \<Rightarrow> ((thread_handle list \<times> thread_handle) \<times> 'w) run" where
  "allExcludingCurrent os w =
     (let (self, w) = current_thread os w
      in case po_task_threads os w of
           (None, w) \<Rightarrow> Inl UndefinedBehaviour
         | (Some list, w) \<Rightarrow>
             let (threads, w) = handles_except os (th_handle self) list w in Inr ((threads, self), w))"

definition tidFromNativeHandle :: "32 word \<Rightarrow> 64 word" where
  "tidFromNativeHandle handle = ucast handle"

definition tid :: "thread_handle \<Rightarrow> 64 word" where
  "tid th = tidFromNativeHandle (th_handle th)"

definition same_thread :: "thread_handle \<Rightarrow> thread_handle \<Rightarrow> bool" where
  "same_thread th other \<longleftrightarrow> th_handle th = th_handle other"

text \<open>The pthread is asked for once and kept in the handle, unless there is none.\<close>

definition pthreadHandle :: "'w profile_os \<Rightarrow> thread_handle \<Rightarrow> 'w \<Rightarrow> 64 word \<times> thread_handle \<times> 'w" where
  "pthreadHandle os th w =
     (if th_pthread th = 0
      then let (p, w) = po_from_mach_thread os (th_handle th) w in (p, th\<lparr>th_pthread := p\<rparr>, w)
      else (th_pthread th, th, w))"

definition thread_name :: "'w profile_os \<Rightarrow> thread_handle \<Rightarrow> 'w \<Rightarrow> bytes \<times> thread_handle \<times> 'w" where
  "thread_name os th w =
     (let (handle, th, w) = pthreadHandle os th w
      in if handle = 0 then ([], th, w)
         else case po_getname os handle w of
                (Some buffer, w) \<Rightarrow> (c_string buffer, th, w)
              | (None, w) \<Rightarrow> ([], th, w))"

definition thread_priority :: "'w profile_os \<Rightarrow> thread_handle \<Rightarrow> 'w \<Rightarrow> int \<times> thread_handle \<times> 'w" where
  "thread_priority os th w =
     (let (handle, th, w) = pthreadHandle os th w
      in if handle = 0 then (- 1, th, w)
         else case po_getschedparam os handle w of
                (Some p, w) \<Rightarrow> (p, th, w)
              | (None, w) \<Rightarrow> (- 1, th, w))"

datatype thread_run_state = Undefined | Running | Stopped | Waiting | Uninterruptible | Halted

definition runStateFromRawValue :: "int \<Rightarrow> thread_run_state" where
  "runStateFromRawValue state =
     (if state = TH_STATE_RUNNING then Running else if state = 2 then Stopped else if state = 3 then Waiting
      else if state = 4 then Uninterruptible else if state = 5 then Halted else Undefined)"

text \<open>
  Times in microseconds; the usage is in thousandths, where the code divides to a \<open>float\<close>. When the
  kernel does not answer, the code returns a structure whose fields were never set: \<open>None\<close>.
\<close>

record thread_cpu_info =
  userTimeMicros :: int
  systemTimeMicros :: int
  usageThousandths :: int
  runState :: thread_run_state
  cpu_idle :: bool

definition cpuInfo :: "'w profile_os \<Rightarrow> thread_handle \<Rightarrow> 'w \<Rightarrow> thread_cpu_info option \<times> 'w" where
  "cpuInfo os th w =
     (if th_handle th = THREAD_NULL then
        (Some \<lparr>userTimeMicros = 0, systemTimeMicros = 0, usageThousandths = 0, runState = Undefined, cpu_idle = False\<rparr>, w)
      else case po_thread_info os (th_handle th) w of
             (None, w) \<Rightarrow> (None, w)
           | (Some i, w) \<Rightarrow>
               (Some \<lparr>userTimeMicros = bi_user_seconds i * 1000000 + bi_user_microseconds i,
                  systemTimeMicros = bi_system_seconds i * 1000000 + bi_system_microseconds i,
                  usageThousandths = bi_cpu_usage i, runState = runStateFromRawValue (bi_run_state i),
                  cpu_idle = (bi_flags i AND TH_FLAGS_IDLE = TH_FLAGS_IDLE)\<rparr>, w))"

definition isIdle :: "'w profile_os \<Rightarrow> thread_handle \<Rightarrow> 'w \<Rightarrow> bool \<times> 'w" where
  "isIdle os th w =
     (if th_handle th = THREAD_NULL then (True, w)
      else case po_thread_info os (th_handle th) w of
             (None, w) \<Rightarrow> (True, w)
           | (Some i, w) \<Rightarrow>
               (bi_flags i AND TH_FLAGS_IDLE = TH_FLAGS_IDLE \<or> bi_run_state i \<noteq> TH_STATE_RUNNING, w))"

definition stackBounds :: "'w profile_os \<Rightarrow> thread_handle \<Rightarrow> 'w \<Rightarrow> stack_bounds \<times> thread_handle \<times> 'w" where
  "stackBounds os th w =
     (let (handle, th, w) = pthreadHandle os th w
      in if handle = 0 then (no_bounds, th, w)
         else
           let (start, w) = po_stackaddr os handle w;
               (size, w) = po_stacksize os handle w
           in (\<lparr>sb_start = start, sb_end = start - size\<rparr>, th, w))"

definition suspend_thread :: "'w profile_os \<Rightarrow> thread_handle \<Rightarrow> 'w \<Rightarrow> bool \<times> 'w" where
  "suspend_thread os th w = (if th_handle th = THREAD_NULL then (False, w) else po_suspend os (th_handle th) w)"

definition resume_thread :: "'w profile_os \<Rightarrow> thread_handle \<Rightarrow> 'w \<Rightarrow> bool \<times> 'w" where
  "resume_thread os th w = (if th_handle th = THREAD_NULL then (False, w) else po_resume os (th_handle th) w)"

section \<open>Metadata of threads\<close>

record thread_metadata =
  threadID :: "64 word"
  md_name :: bytes
  md_priority :: int

type_synonym metadata_cache = "(32 word \<times> thread_metadata) list"

definition isSentryOwnedThreadName :: "bytes \<Rightarrow> bool" where
  "isSentryOwnedThreadName s \<longleftrightarrow> take 9 s = ''io.sentry''"

definition kMaxThreadNameLength :: nat where "kMaxThreadNameLength = 100"

definition metadataForThread ::
    "'w profile_os \<Rightarrow> metadata_cache \<Rightarrow> thread_handle \<Rightarrow> 'w \<Rightarrow> thread_metadata \<times> metadata_cache \<times> thread_handle \<times> 'w" where
  "metadataForThread os cache th w =
     (let handle = th_handle th
      in case map_of cache handle of
           Some metadata \<Rightarrow> (metadata, cache, th, w)
         | None \<Rightarrow>
             let (priority, th, w) = thread_priority os th w;
                 metadata = \<lparr>threadID = tidFromNativeHandle handle, md_name = [], md_priority = priority\<rparr>
             in if priority = - 1 then (metadata, cache, th, w)
                else
                  let (name, th, w) = thread_name os th w
                  in if isSentryOwnedThreadName name then
                       let metadata = metadata\<lparr>md_priority := 0, threadID := 0\<rparr>
                       in (metadata, cache @ [(handle, metadata)], th, w)
                     else
                       let metadata = metadata\<lparr>md_name := take kMaxThreadNameLength name\<rparr>
                       in (metadata, cache @ [(handle, metadata)], th, w))"

section \<open>Walking a stack\<close>

definition kMaxBacktraceDepth :: nat where "kMaxBacktraceDepth = 128"

text \<open>A word that the code loads straight from memory.\<close>

definition frame_word :: "(64 word \<Rightarrow> byte option) \<Rightarrow> 64 word \<Rightarrow> 64 word run" where
  "frame_word mem a = (if all_readable mem a 8 then Inr (le_word (bytes_at mem a 8)) else Inl UndefinedBehaviour)"

text \<open>
  The loop over frames; \<open>addresses\<close> is what the buffer holds so far. Each frame lies above the last, so it
  ends.
\<close>

function walk_frames ::
    "profile_cpu \<Rightarrow> vm \<Rightarrow> (64 word \<Rightarrow> byte option) \<Rightarrow> stack_bounds \<Rightarrow> nat \<Rightarrow> 64 word \<Rightarrow> nat \<Rightarrow> 64 word list
      \<Rightarrow> (64 word list \<times> bool) run" where
  "walk_frames cpu vm mem bounds maxDepth current_frame skip addresses =
     (if \<not> length addresses < maxDepth \<or> \<not> sentrycrashmem_isMemoryReadable vm current_frame (int sizeof_StackFrame)
      then Inr (addresses, False)
      else
        bind_run
          (if skip = 0
           then bind_run (frame_word mem (current_frame + 8)) (\<lambda>returnAddress.
                  Inr (addresses @ [getPreviousInstructionAddress cpu returnAddress], 0))
           else Inr (addresses, skip - 1)) (\<lambda>(addresses, skip).
        bind_run (frame_word mem current_frame) (\<lambda>next_frame.
          if current_frame < next_frame \<and> isValidFrame next_frame bounds
          then walk_frames cpu vm mem bounds maxDepth next_frame skip addresses
          else Inr (addresses, True))))"
  by pat_completeness auto
termination
proof (relation "measure (\<lambda>(cpu, vm, mem, bounds, maxDepth, current_frame, skip, addresses). unat (- 1 - current_frame))")
  fix cpu vm mem bounds maxDepth skip' addresses' x xa ya and skip :: nat and addresses :: "64 word list"
    and a b :: "64 word"
  assume "a < b \<and> isValidFrame b bounds"
  then have "a < b" by simp
  moreover have "unat (- 1 - c) = unat (- 1 :: 64 word) - unat c" "unat c \<le> unat (- 1 :: 64 word)" for c :: "64 word"
    by (simp_all add: unat_sub flip: word_le_nat_alt)
  ultimately have "unat (- 1 - b) < unat (- 1 - a)"
    by (simp only: word_less_nat_alt) (meson diff_less_mono2 order_less_le_trans)
  then show "((cpu, vm, mem, bounds, maxDepth, b, ya, xa), cpu, vm, mem, bounds, maxDepth, a, skip, addresses)
      \<in> measure (\<lambda>(cpu, vm, mem, bounds, maxDepth, current_frame, skip, addresses). unat (- 1 - current_frame))"
    by simp
qed auto

declare walk_frames.simps [simp del]

text \<open>
  The addresses that count, and whether the end of the stack was reached, which is \<open>None\<close> where the code
  returns before it sets it. When the frame pointer is not good, 0 is returned although addresses were
  stored.
\<close>

definition backtrace ::
    "'w profile_os \<Rightarrow> thread_handle \<Rightarrow> thread_handle \<Rightarrow> stack_bounds \<Rightarrow> nat \<Rightarrow> nat \<Rightarrow> 'w
      \<Rightarrow> ((64 word list \<times> bool option) \<times> 'w) run" where
  "backtrace os targetThread callingThread bounds maxDepth skip w =
     (if maxDepth = 0 \<or> \<not> bounds_valid bounds then Inr (([], None), w)
      else case po_get_state os (th_handle targetThread) w of
        (None, w) \<Rightarrow> Inr (([], None), w)
      | (Some machineContext, w) \<Rightarrow>
          let previous = getPreviousInstructionAddress (po_cpu os);
              (addresses, skip) =
                (if skip = 0 then ([previous (getProgramCounter machineContext)], 0) else ([], skip - 1));
              lr = getLinkRegister (po_cpu os) machineContext;
              (addresses, skip) =
                (if length addresses < maxDepth \<and> isValidFrame lr bounds
                 then if skip = 0 then (addresses @ [previous lr], 0) else (addresses, skip - 1)
                 else (addresses, skip));
              current_frame =
                (if same_thread callingThread targetThread then po_frame_address os w
                 else getFrameAddress machineContext)
          in if \<not> isValidFrame current_frame bounds then Inr (([], None), w)
             else bind_run
               (walk_frames (po_cpu os) (po_vm os w) (po_mem os w) bounds maxDepth current_frame skip addresses)
               (\<lambda>(addresses, reachedEndOfStack). Inr ((addresses, Some reachedEndOfStack), w)))"

section \<open>All threads\<close>

text \<open>The code does not set \<open>absoluteTimestamp\<close>; that is left to the callback.\<close>

record backtrace_entry =
  threadMetadata :: thread_metadata
  bt_addresses :: "64 word list"

text \<open>One round of the loop, with the handle of the profiler's own thread.\<close>

definition sample_thread ::
    "'w profile_os \<Rightarrow> thread_handle \<Rightarrow> (backtrace_entry \<Rightarrow> 'w \<Rightarrow> 'w) \<Rightarrow> thread_handle \<Rightarrow> metadata_cache \<times> 'w
      \<Rightarrow> (metadata_cache \<times> 'w) run" where
  "sample_thread os self f th s =
     (let (cache, w) = s;
          (idle, w) = isIdle os th w
      in if idle then
           Inr (cache, f \<lparr>threadMetadata = \<lparr>threadID = tid th, md_name = [], md_priority = - 1\<rparr>, bt_addresses = []\<rparr> w)
         else
           let (metadata, cache, th, w) = metadataForThread os cache th w
           in if threadID metadata = 0 then Inr (cache, w)
              else
                let (bounds, th, w) = stackBounds os th w;
                    (suspended, w) = suspend_thread os th w
                in if \<not> suspended then Inr (cache, w)
                   else bind_run (backtrace os th self bounds kMaxBacktraceDepth 0 w) (\<lambda>((addresses, reached), w).
                     let (_, w) = resume_thread os th w
                     in Inr (cache,
                          if reached = Some True
                          then f \<lparr>threadMetadata = metadata, bt_addresses = addresses\<rparr> w else w)))"

fun sample_threads ::
    "'w profile_os \<Rightarrow> thread_handle \<Rightarrow> (backtrace_entry \<Rightarrow> 'w \<Rightarrow> 'w) \<Rightarrow> thread_handle list \<Rightarrow> metadata_cache \<times> 'w
      \<Rightarrow> (metadata_cache \<times> 'w) run" where
  "sample_threads os self f [] s = Inr s"
| "sample_threads os self f (th # threads) s =
     bind_run (sample_thread os self f th s) (sample_threads os self f threads)"

text \<open>The handles are destroyed at the end, the last one first.\<close>

definition enumerateBacktracesForAllThreads ::
    "'w profile_os \<Rightarrow> (backtrace_entry \<Rightarrow> 'w \<Rightarrow> 'w) \<Rightarrow> metadata_cache \<times> 'w \<Rightarrow> (metadata_cache \<times> 'w) run" where
  "enumerateBacktracesForAllThreads os f s =
     bind_run (allExcludingCurrent os (snd s)) (\<lambda>((threads, self), w).
     bind_run (sample_threads os self f threads (fst s, w)) (\<lambda>(cache, w).
       Inr (cache, fold (destroy_handle os) (rev threads) w)))"

end
