(* ===== verification/Profile_Sampler.thy ===== *)
theory Profile_Sampler
  imports Profile_Backtrace
begin

text \<open>
  \<open>Sentry/SentrySamplingProfiler.cpp\<close>: a thread that samples the stacks of all others whenever an alarm of
  the clock comes in at its port, and the object that starts and stops it. The thread goes on while the
  object is used, so what it does is cut into steps. The priority of the thread and its name are left out.
\<close>

section \<open>The object and its thread\<close>

text \<open>
  Where the thread is: about to call \<open>onThreadStart\<close>, at \<open>pthread_testcancel\<close>, waiting in \<open>mach_msg\<close>, about to
  set the next alarm, about to sample, or at its end. \<open>NoThread\<close> and \<open>Joined\<close> are a \<open>thread_\<close> that was never
  set and one that names no thread any more.
\<close>

datatype sampling_thread =
  NoThread | Starting | AtTestCancel | Receiving | Arming | TakingSample | AtEnd | Joined

text \<open>
  \<open>sp_alarms\<close> counts the alarms that were set and whose message was not received yet; \<open>sp_stopping\<close> tells
  that a call of \<open>stopSampling\<close> has the lock and waits for the thread to end.
\<close>

record 'w sampler =
  sp_isInitialized :: bool
  sp_isSampling :: bool
  sp_numSamples :: "64 word"
  sp_delaySpec :: "32 word \<times> 32 word"
  sp_cache :: metadata_cache
  sp_thread :: sampling_thread
  sp_cancelled :: bool
  sp_alarms :: nat
  sp_stopping :: bool
  sp_world :: 'w

text \<open>
  The constructor; \<open>interval_of\<close> gives the nanoseconds between samples, which the code finds by the
  arithmetic of \<open>float\<close>. The port is \<open>sp_alarms\<close>.
\<close>

definition SamplingProfiler :: "(32 word \<Rightarrow> 64 word) \<Rightarrow> bool \<Rightarrow> bool \<Rightarrow> 32 word \<Rightarrow> 'w \<Rightarrow> 'w sampler" where
  "SamplingProfiler interval_of has_clock has_port samplingRateHz w =
     (let s = \<lparr>sp_isInitialized = False, sp_isSampling = False, sp_numSamples = 0, sp_delaySpec = (0, 0),
            sp_cache = [], sp_thread = NoThread, sp_cancelled = False, sp_alarms = 0, sp_stopping = False, sp_world = w\<rparr>
      in if \<not> has_clock \<or> \<not> has_port then s
         else
           let intervalNs = interval_of samplingRateHz
           in s\<lparr>sp_delaySpec := (ucast (intervalNs div 1000000000), ucast (intervalNs mod 1000000000)),
                sp_isInitialized := True\<rparr>)"

section \<open>Starting and stopping\<close>

text \<open>The answers of \<open>pthread_attr_init\<close>, \<open>pthread_create\<close> and \<open>clock_alarm\<close>.\<close>

record start_answers =
  attr_made :: bool
  thread_created :: bool
  alarm_set :: bool

definition startSampling :: "start_answers \<Rightarrow> 'w sampler \<Rightarrow> 'w sampler" where
  "startSampling ans s =
     (if \<not> sp_isInitialized s \<or> sp_isSampling s then s
      else
        let s = s\<lparr>sp_isSampling := True, sp_numSamples := 0\<rparr>
        in if \<not> attr_made ans \<or> \<not> thread_created ans then s
           else s\<lparr>sp_thread := Starting, sp_cancelled := False,
                  sp_alarms := sp_alarms s + (if alarm_set ans then 1 else 0)\<rparr>)"

text \<open>
  \<open>stopSampling\<close> up to the point where it waits in \<open>pthread_join\<close>, and what it does after that. Cancelling
  and joining a \<open>thread_\<close> that was never set, or was joined, is undefined.
\<close>

definition stop_cancels :: "'w sampler \<Rightarrow> 'w sampler run" where
  "stop_cancels s =
     (if \<not> sp_isInitialized s \<or> \<not> sp_isSampling s then Inr s
      else if sp_thread s \<in> {NoThread, Joined} then Inl UndefinedBehaviour
      else Inr (s\<lparr>sp_cancelled := True, sp_stopping := True\<rparr>))"

definition stop_joined :: "'w sampler \<Rightarrow> 'w sampler" where
  "stop_joined s = s\<lparr>sp_thread := Joined, sp_isSampling := False, sp_stopping := False\<rparr>"

text \<open>
  The destructor stops the object in the same way, and then gives the port up, so that no alarm comes in any
  more.
\<close>

definition destructor_cancels :: "'w sampler \<Rightarrow> 'w sampler run" where
  "destructor_cancels s = (if \<not> sp_isInitialized s then Inr s else stop_cancels s)"

definition destructor_ends :: "'w sampler \<Rightarrow> 'w sampler" where
  "destructor_ends s = (if \<not> sp_isInitialized s then s else (if sp_stopping s then stop_joined s else s)\<lparr>sp_alarms := 0\<rparr>)"

definition sampler_isSampling :: "'w sampler \<Rightarrow> bool" where "sampler_isSampling s = sp_isSampling s"

definition sampler_numSamples :: "'w sampler \<Rightarrow> 64 word" where "sampler_numSamples s = sp_numSamples s"

section \<open>The sampling thread\<close>

text \<open>
  One step of \<open>samplingThreadMain\<close>; \<open>answer\<close> is whether the call of the kernel in it succeeds. Without a
  message, \<open>mach_msg\<close> waits: there is no step.
\<close>

definition thread_step ::
    "'w profile_os \<Rightarrow> (backtrace_entry \<Rightarrow> 'w \<Rightarrow> 'w) \<Rightarrow> ('w \<Rightarrow> 'w) option \<Rightarrow> bool \<Rightarrow> 'w sampler \<Rightarrow> 'w sampler option run" where
  "thread_step os callback onThreadStart answer s =
     (case sp_thread s of
        Starting \<Rightarrow>
          Inr (Some (s\<lparr>sp_thread := AtTestCancel,
            sp_world := (case onThreadStart of None \<Rightarrow> sp_world s | Some f \<Rightarrow> f (sp_world s))\<rparr>))
      | AtTestCancel \<Rightarrow> Inr (Some (s\<lparr>sp_thread := if sp_cancelled s then AtEnd else Receiving\<rparr>))
      | Receiving \<Rightarrow>
          Inr (if \<not> answer then Some (s\<lparr>sp_thread := AtEnd\<rparr>)
               else if sp_alarms s = 0 then None
               else Some (s\<lparr>sp_thread := Arming, sp_alarms := sp_alarms s - 1\<rparr>))
      | Arming \<Rightarrow>
          Inr (Some (if answer then s\<lparr>sp_thread := TakingSample, sp_alarms := sp_alarms s + 1\<rparr>
                     else s\<lparr>sp_thread := AtEnd\<rparr>))
      | TakingSample \<Rightarrow>
          bind_run (enumerateBacktracesForAllThreads os callback (sp_cache s, sp_world s)) (\<lambda>(cache, w).
            Inr (Some (s\<lparr>sp_thread := AtTestCancel, sp_numSamples := sp_numSamples s + 1, sp_cache := cache,
              sp_world := w\<rparr>)))
      | _ \<Rightarrow> Inr None)"

text \<open>
  The steps of the object and its thread, in any order the lock allows, with the number of sessions
  started; \<open>fails\<close> tells whether calls of the system may fail.
\<close>

inductive sessions ::
    "'w profile_os \<Rightarrow> (backtrace_entry \<Rightarrow> 'w \<Rightarrow> 'w) \<Rightarrow> ('w \<Rightarrow> 'w) option \<Rightarrow> bool \<Rightarrow> 'w sampler \<Rightarrow> nat \<Rightarrow> 'w sampler \<Rightarrow> bool"
  for os callback onThreadStart fails s0 where
  created: "sessions os callback onThreadStart fails s0 0 s0"
| started: "sessions os callback onThreadStart fails s0 n s \<Longrightarrow> \<not> sp_stopping s \<Longrightarrow>
    fails \<or> (attr_made ans \<and> thread_created ans \<and> alarm_set ans) \<Longrightarrow>
    sessions os callback onThreadStart fails s0 (if sp_isSampling s then n else Suc n) (startSampling ans s)"
| stops: "sessions os callback onThreadStart fails s0 n s \<Longrightarrow> \<not> sp_stopping s \<Longrightarrow> stop_cancels s = Inr s' \<Longrightarrow>
    sessions os callback onThreadStart fails s0 n s'"
| stopped: "sessions os callback onThreadStart fails s0 n s \<Longrightarrow> sp_stopping s \<Longrightarrow> sp_thread s = AtEnd \<Longrightarrow>
    sessions os callback onThreadStart fails s0 n (stop_joined s)"
| runs: "sessions os callback onThreadStart fails s0 n s \<Longrightarrow> fails \<or> answer \<Longrightarrow>
    thread_step os callback onThreadStart answer s = Inr (Some s') \<Longrightarrow>
    sessions os callback onThreadStart fails s0 n s'"

end
