(* ===== verification/Profile_Backtrace_Spec.thy ===== *)
theory Profile_Backtrace_Spec
  imports Profile_Backtrace Crash_Memory_Spec Word_Memory "HOL-Library.Multiset"
begin

unbundle bit_operations_syntax

text \<open>
  What the profiler's stacks promise: the addresses are the return addresses of the chain of frames, a
  walk never faults while the kernel tells the truth about memory, nothing that may take a lock is called
  while a thread is stopped, and every port that the kernel gave is given back.
\<close>

section \<open>Frames\<close>

text \<open>
  The return addresses of the frames from \<open>p\<close> outwards. The outermost frame does not point to a good frame
  above it.
\<close>

inductive stack_frames :: "(64 word \<Rightarrow> byte option) \<Rightarrow> stack_bounds \<Rightarrow> 64 word \<Rightarrow> 64 word list \<Rightarrow> bool"
  for mem b where
  outermost: "frame_word mem p = Inr q \<Longrightarrow> frame_word mem (p + 8) = Inr r \<Longrightarrow> \<not> (p < q \<and> isValidFrame q b) \<Longrightarrow>
    stack_frames mem b p [r]"
| called: "frame_word mem p = Inr q \<Longrightarrow> frame_word mem (p + 8) = Inr r \<Longrightarrow> p < q \<Longrightarrow> isValidFrame q b \<Longrightarrow>
    stack_frames mem b q rs \<Longrightarrow> stack_frames mem b p (r # rs)"

lemma frame_word_readable: "frame_word mem a = Inr w \<Longrightarrow> all_readable mem a 8"
  by (simp add: frame_word_def split: if_splits)

lemma frame_readable:
  assumes "vm_reads vm mem"
  shows "sentrycrashmem_isMemoryReadable vm a (int sizeof_StackFrame) \<longleftrightarrow> all_readable mem a 8 \<and> all_readable mem (a + 8) 8"
  using readable_loop_buffer [OF assms, of 16 a] all_readable_add [of mem a 8 8]
  by (simp add: sentrycrashmem_isMemoryReadable_def isMemoryReadable_def sizeof_StackFrame_def)

lemma walk_frames_delivers:
  assumes "stack_frames mem b p rs" "vm_reads vm mem"
  shows "walk_frames cpu vm mem b n p 0 got =
    Inr (got @ take (n - length got) (map (getPreviousInstructionAddress cpu) rs), length got + length rs \<le> n)"
  using assms(1)
proof (induction arbitrary: got)
  case (outermost p q r)
  then show ?case
    using frame_readable [OF assms(2), of p]
    by (auto simp: walk_frames.simps [of cpu vm mem b n p] frame_word_readable take_Cons' split: if_splits)
next
  case (called p q r rs)
  have rs: "rs \<noteq> []" using called.hyps(5) by cases auto
  show ?case
  proof (cases "length got < n")
    case True
    then have "n - length got = Suc (n - Suc (length got))" by simp
    then show ?thesis
      using called True frame_readable [OF assms(2), of p]
      by (simp add: walk_frames.simps [of cpu vm mem b n p] frame_word_readable)
  next
    case False
    then show ?thesis by (simp add: walk_frames.simps [of cpu vm mem b n p])
  qed
qed

lemma walk_frames_returns: "vm_reads vm mem \<Longrightarrow> \<exists>r. walk_frames cpu vm mem b n p skip got = Inr r"
proof (induction cpu vm mem b n p skip got rule: walk_frames.induct [case_names step])
  case (step cpu vm mem b n p skip got)
  show ?case
  proof (cases "length got < n \<and> sentrycrashmem_isMemoryReadable vm p (int sizeof_StackFrame)")
    case True
    then have "all_readable mem p 8" "all_readable mem (p + 8) 8" using frame_readable [OF step.prems] by simp_all
    then obtain q r where "frame_word mem p = Inr q" "frame_word mem (p + 8) = Inr r" by (simp add: frame_word_def)
    with True step show ?thesis by (subst walk_frames.simps) (auto split: prod.splits)
  next
    case False
    then show ?thesis by (subst walk_frames.simps) auto
  qed
qed

text \<open>
  C23. A stack delivers the instruction before the next one, then the call of each frame, as much of it as fits;
  the end counts as reached if all of it fits. The link register counts only if it points into the stack
  itself, where no code is: the caller of a function that has no frame yet is left out.
\<close>

theorem backtrace_of_frames:
  assumes "\<forall>w. vm_reads (po_vm os w) (po_mem os w)" "po_get_state os (th_handle target) w = (Some r, w')"
    and "stack_frames (po_mem os w') b (ss_fp r) rs" "isValidFrame (ss_fp r) b" "bounds_valid b"
    and "th_handle self \<noteq> th_handle target" "\<not> isValidFrame (ss_lr r) b" "0 < maxDepth"
  shows "backtrace os target self b maxDepth 0 w =
    Inr ((take maxDepth (map (getPreviousInstructionAddress (po_cpu os)) (ss_pc r # rs)),
      Some (length rs < maxDepth)), w')"
proof -
  have lr: "\<not> isValidFrame (getLinkRegister (po_cpu os) r) b"
    using assms(7) by (cases "po_cpu os") (simp_all add: getLinkRegister_def isValidFrame_def bounds_contain_def)
  obtain n where n: "maxDepth = Suc n" using assms(8) by (cases maxDepth) auto
  show ?thesis
    using assms(2-6) lr walk_frames_delivers [OF assms(3), of "po_vm os w'" "po_cpu os" maxDepth] assms(1)
    by (simp add: backtrace_def same_thread_def getFrameAddress_def getProgramCounter_def Let_def n less_Suc_eq_le)
qed

section \<open>Metadata\<close>

text \<open>
  What is kept about a thread stays, whatever the system would answer later: a thread that gets another
  name keeps the first one, and so does another thread that gets the same port.
\<close>

lemma metadata_stays:
  assumes "metadataForThread os cache th w = (m, cache', th', w')" "md_priority m \<noteq> - 1" "th_handle u = th_handle th"
  shows "metadataForThread os' (cache' @ later) u v = (m, cache' @ later, u, v)"
proof -
  have "map_of cache' (th_handle th) = Some m"
    using assms(1,2)
    by (auto simp: metadataForThread_def Let_def map_add_def split: option.splits prod.splits if_splits)
  then show ?thesis by (simp add: metadataForThread_def assms(3) map_add_def)
qed

section \<open>What is called\<close>

text \<open>
  The calls of the system in their order: the threads that \<open>task_threads\<close> gave and the ports that were given
  back, stopping a thread and letting it go on, reading its state. All other calls, and the callback, may
  take locks.
\<close>

datatype profile_call =
  Granted "32 word list" | Released "32 word" | SuspendCall "32 word" bool | ResumeCall "32 word" | ReadState | MayLock

definition noting :: "('a \<Rightarrow> profile_call) \<Rightarrow> ('w \<Rightarrow> 'a \<times> 'w) \<Rightarrow> 'w \<times> profile_call list \<Rightarrow> 'a \<times> 'w \<times> profile_call list" where
  "noting k call s = (let (a, w) = call (fst s) in (a, w, snd s @ [k a]))"

definition noted :: "'w profile_os \<Rightarrow> ('w \<times> profile_call list) profile_os" where
  "noted os =
     \<lparr>po_cpu = po_cpu os, po_self = noting (\<lambda>_. MayLock) (po_self os),
      po_task_threads = noting (\<lambda>r. Granted (case r of Some list \<Rightarrow> list | None \<Rightarrow> [])) (po_task_threads os),
      po_deallocate = (\<lambda>t. noting (\<lambda>_. Released t) (po_deallocate os t)),
      po_from_mach_thread = (\<lambda>t. noting (\<lambda>_. MayLock) (po_from_mach_thread os t)),
      po_getname = (\<lambda>p. noting (\<lambda>_. MayLock) (po_getname os p)),
      po_getschedparam = (\<lambda>p. noting (\<lambda>_. MayLock) (po_getschedparam os p)),
      po_thread_info = (\<lambda>t. noting (\<lambda>_. MayLock) (po_thread_info os t)),
      po_stackaddr = (\<lambda>p. noting (\<lambda>_. MayLock) (po_stackaddr os p)),
      po_stacksize = (\<lambda>p. noting (\<lambda>_. MayLock) (po_stacksize os p)),
      po_suspend = (\<lambda>t. noting (SuspendCall t) (po_suspend os t)),
      po_resume = (\<lambda>t. noting (\<lambda>_. ResumeCall t) (po_resume os t)),
      po_get_state = (\<lambda>t. noting (\<lambda>_. ReadState) (po_get_state os t)),
      po_frame_address = (\<lambda>s. po_frame_address os (fst s)), po_vm = (\<lambda>s. po_vm os (fst s)),
      po_mem = (\<lambda>s. po_mem os (fst s))\<rparr>"

definition noted_callback :: "(backtrace_entry \<Rightarrow> 'w \<Rightarrow> 'w) \<Rightarrow> backtrace_entry \<Rightarrow> 'w \<times> profile_call list \<Rightarrow> 'w \<times> profile_call list" where
  "noted_callback f e s = (f e (fst s), snd s @ [MayLock])"

text \<open>While one thread is stopped, its state may be read and it may be let go on, and nothing else.\<close>

datatype watch = AllRun | OneStopped "32 word" | RuleBroken

fun watch_call :: "watch \<Rightarrow> profile_call \<Rightarrow> watch" where
  "watch_call AllRun (SuspendCall t stopped) = (if stopped then OneStopped t else AllRun)"
| "watch_call AllRun (ResumeCall t) = RuleBroken"
| "watch_call AllRun _ = AllRun"
| "watch_call (OneStopped t) ReadState = OneStopped t"
| "watch_call (OneStopped t) (ResumeCall u) = (if t = u then AllRun else RuleBroken)"
| "watch_call (OneStopped t) _ = RuleBroken"
| "watch_call RuleBroken _ = RuleBroken"

definition watched :: "profile_call list \<Rightarrow> watch" where
  "watched calls = foldl watch_call AllRun calls"

definition granted :: "profile_call list \<Rightarrow> 32 word list" where
  "granted calls = concat (map (\<lambda>c. case c of Granted list \<Rightarrow> list | _ \<Rightarrow> []) calls)"

definition released :: "profile_call list \<Rightarrow> 32 word list" where
  "released calls = concat (map (\<lambda>c. case c of Released t \<Rightarrow> [t] | _ \<Rightarrow> []) calls)"

lemma call_lists_snoc:
  "watched (calls @ [c]) = watch_call (watched calls) c"
  "granted (calls @ [c]) = granted calls @ (case c of Granted list \<Rightarrow> list | _ \<Rightarrow> [])"
  "released (calls @ [c]) = released calls @ (case c of Released t \<Rightarrow> [t] | _ \<Rightarrow> [])"
  by (simp_all add: watched_def granted_def released_def)

text \<open>What the functions before a stop leave as it is.\<close>

definition seen :: "'w \<times> profile_call list \<Rightarrow> watch \<times> 32 word list \<times> 32 word list" where
  "seen s = (watched (snd s), granted (snd s), released (snd s))"

lemma noting_seen:
  "noting k call s = (a, s') \<Longrightarrow> seen s' =
    (watch_call (watched (snd s)) (k a), granted (snd s) @ (case k a of Granted list \<Rightarrow> list | _ \<Rightarrow> []),
     released (snd s) @ (case k a of Released t \<Rightarrow> [t] | _ \<Rightarrow> []))"
  by (auto simp: noting_def seen_def call_lists_snoc split: prod.splits)

lemma lock_seen: "noting (\<lambda>_. MayLock) call s = (a, s') \<Longrightarrow> fst (seen s) = AllRun \<Longrightarrow> seen s' = seen s"
  using noting_seen [of "\<lambda>_. MayLock" call s a s'] by (auto simp: seen_def)

lemma noted_calls:
  "po_cpu (noted os) = po_cpu os" "po_self (noted os) = noting (\<lambda>_. MayLock) (po_self os)"
  "po_task_threads (noted os) = noting (\<lambda>r. Granted (case r of Some list \<Rightarrow> list | None \<Rightarrow> [])) (po_task_threads os)"
  "po_deallocate (noted os) t = noting (\<lambda>_. Released t) (po_deallocate os t)"
  "po_from_mach_thread (noted os) t = noting (\<lambda>_. MayLock) (po_from_mach_thread os t)"
  "po_getname (noted os) p = noting (\<lambda>_. MayLock) (po_getname os p)"
  "po_getschedparam (noted os) p = noting (\<lambda>_. MayLock) (po_getschedparam os p)"
  "po_thread_info (noted os) t = noting (\<lambda>_. MayLock) (po_thread_info os t)"
  "po_stackaddr (noted os) p = noting (\<lambda>_. MayLock) (po_stackaddr os p)"
  "po_stacksize (noted os) p = noting (\<lambda>_. MayLock) (po_stacksize os p)"
  "po_suspend (noted os) t = noting (SuspendCall t) (po_suspend os t)"
  "po_resume (noted os) t = noting (\<lambda>_. ResumeCall t) (po_resume os t)"
  "po_get_state (noted os) t = noting (\<lambda>_. ReadState) (po_get_state os t)"
  "po_vm (noted os) s = po_vm os (fst s)" "po_mem (noted os) s = po_mem os (fst s)"
  by (simp_all add: noted_def)

lemma pthreadHandle_seen:
  "pthreadHandle (noted os) th s = (p, th', s') \<Longrightarrow> fst (seen s) = AllRun \<Longrightarrow>
    seen s' = seen s \<and> th_handle th' = th_handle th"
  by (auto simp: pthreadHandle_def noted_calls split: prod.splits if_splits dest: lock_seen)

lemma priority_seen:
  "thread_priority (noted os) th s = (p, th', s') \<Longrightarrow> fst (seen s) = AllRun \<Longrightarrow>
    seen s' = seen s \<and> th_handle th' = th_handle th"
  by (auto simp: thread_priority_def noted_calls split: prod.splits if_splits option.splits
      dest!: lock_seen pthreadHandle_seen)

lemma name_seen:
  "thread_name (noted os) th s = (n, th', s') \<Longrightarrow> fst (seen s) = AllRun \<Longrightarrow>
    seen s' = seen s \<and> th_handle th' = th_handle th"
  by (auto simp: thread_name_def noted_calls split: prod.splits if_splits option.splits
      dest!: lock_seen pthreadHandle_seen)

lemma stackBounds_seen:
  "stackBounds (noted os) th s = (b, th', s') \<Longrightarrow> fst (seen s) = AllRun \<Longrightarrow>
    seen s' = seen s \<and> th_handle th' = th_handle th"
  by (auto simp: stackBounds_def noted_calls split: prod.splits if_splits dest!: lock_seen pthreadHandle_seen)

lemma idle_seen: "isIdle (noted os) th s = (i, s') \<Longrightarrow> fst (seen s) = AllRun \<Longrightarrow> seen s' = seen s"
  by (auto simp: isIdle_def noted_calls split: prod.splits if_splits option.splits dest!: lock_seen)

lemma metadata_seen:
  "metadataForThread (noted os) cache th s = (m, cache', th', s') \<Longrightarrow> fst (seen s) = AllRun \<Longrightarrow>
    seen s' = seen s \<and> th_handle th' = th_handle th"
  by (auto simp: metadataForThread_def Let_def split: prod.splits if_splits option.splits
      dest!: priority_seen name_seen)

lemma callback_seen: "fst (seen s) = AllRun \<Longrightarrow> seen (noted_callback f e s) = seen s"
  by (simp add: noted_callback_def seen_def call_lists_snoc)

section \<open>One thread\<close>

definition truthful :: "'w profile_os \<Rightarrow> bool" where
  "truthful os \<longleftrightarrow> (\<forall>w. vm_reads (po_vm os w) (po_mem os w))"

definition ends_in :: "'s \<Rightarrow> ('a \<times> 's) run \<Rightarrow> bool" where
  "ends_in s m \<longleftrightarrow> (\<exists>r. m = Inr (r, s))"

lemma ends_in_here [simp]: "ends_in s (Inr (r, s))"
  by (simp add: ends_in_def)

lemma walk_frames_then:
  assumes "vm_reads vm mem"
  shows "ends_in s (bind_run (walk_frames cpu vm mem b n p skip got) (\<lambda>(a, e). Inr ((a, Some e), s)))"
  using walk_frames_returns [OF assms, of cpu b n p skip got] by (auto split: prod.splits)

text \<open>A backtrace returns, and calls at most for the state of the thread.\<close>

lemma backtrace_seen:
  assumes "truthful os"
  shows "\<exists>r s'. backtrace (noted os) target self b n skip s = Inr (r, s') \<and>
    (s' = s \<or> seen s' = (watch_call (fst (seen s)) ReadState, snd (seen s)))"
proof (cases "n = 0 \<or> \<not> bounds_valid b")
  case True
  then show ?thesis by (auto simp: backtrace_def)
next
  case False
  obtain r s' where s': "po_get_state (noted os) (th_handle target) s = (r, s')" by (rule prod.exhaust)
  then have seen: "seen s' = (watch_call (fst (seen s)) ReadState, snd (seen s))"
    using noting_seen [of "\<lambda>_. ReadState"] by (fastforce simp: noted_calls seen_def)
  have "vm_reads (po_vm os (fst s')) (po_mem os (fst s'))" using assms by (simp add: truthful_def)
  note walk = walk_frames_then [OF this]
  show ?thesis
  proof (cases r)
    case None
    then show ?thesis using False s' seen by (auto simp: backtrace_def)
  next
    case (Some c)
    have "ends_in s' (backtrace (noted os) target self b n skip s)"
      using False s' Some by (simp add: walk backtrace_def noted_calls(1,14,15) Let_def split: prod.split)
    then show ?thesis using seen unfolding ends_in_def by blast
  qed
qed

lemma suspend_seen:
  "suspend_thread (noted os) th s = (stopped, s') \<Longrightarrow> fst (seen s) = AllRun \<Longrightarrow>
    seen s' = (if stopped then OneStopped (th_handle th) else AllRun, snd (seen s)) \<and> (stopped \<longrightarrow> th_handle th \<noteq> THREAD_NULL)"
  by (auto simp: suspend_thread_def noted_calls seen_def split: if_splits dest!: noting_seen)

lemma resume_seen:
  "resume_thread (noted os) th s = (stopped, s') \<Longrightarrow> fst (seen s) = OneStopped (th_handle th) \<Longrightarrow>
    th_handle th \<noteq> THREAD_NULL \<Longrightarrow> seen s' = (AllRun, snd (seen s))"
  by (auto simp: resume_thread_def noted_calls seen_def dest!: noting_seen)

definition sampled :: "'w \<times> profile_call list \<Rightarrow> (metadata_cache \<times> 'w \<times> profile_call list) run \<Rightarrow> bool" where
  "sampled s m \<longleftrightarrow> (\<exists>cache s'. m = Inr (cache, s') \<and> seen s' = seen s)"

lemma sampled_here [simp]: "sampled s (Inr (cache, s')) \<longleftrightarrow> seen s' = seen s"
  by (simp only: sampled_def sum.inject prod.inject) blast

lemma sample_thread_seen:
  assumes "truthful os" "fst (seen s) = AllRun"
  shows "sampled s (sample_thread (noted os) self (noted_callback f) th (cache, s))"
proof -
  obtain idle s1 where s1: "isIdle (noted os) th s = (idle, s1)" by (rule prod.exhaust)
  note seen1 = idle_seen [OF s1 assms(2)]
  then have run1: "fst (seen s1) = AllRun" using assms(2) by simp
  show ?thesis
  proof (cases idle)
    case True
    then show ?thesis using s1 seen1 run1 by (simp add: sample_thread_def callback_seen)
  next
    case busy: False
    obtain m cache2 th2 s2 where s2: "metadataForThread (noted os) cache th s1 = (m, cache2, th2, s2)"
      by (metis prod_cases4)
    note seen2 = metadata_seen [OF s2 run1]
    obtain b th3 s3 where s3: "stackBounds (noted os) th2 s2 = (b, th3, s3)" by (rule prod_cases3)
    have run2: "fst (seen s2) = AllRun" using seen2 run1 by simp
    note seen3 = stackBounds_seen [OF s3 run2]
    obtain stopped s4 where s4: "suspend_thread (noted os) th3 s3 = (stopped, s4)" by (rule prod.exhaust)
    have run3: "fst (seen s3) = AllRun" using seen3 run2 by simp
    note seen4 = suspend_seen [OF s4 run3]
    obtain r s5 where s5: "backtrace (noted os) th3 self b kMaxBacktraceDepth 0 s4 = Inr (r, s5)"
        "s5 = s4 \<or> seen s5 = (watch_call (fst (seen s4)) ReadState, snd (seen s4))"
      using backtrace_seen [OF assms(1)] by blast
    obtain ok' s6 where s6: "resume_thread (noted os) th3 s5 = (ok', s6)" by (rule prod.exhaust)
    have seen6: "seen s6 = seen s" "fst (seen s6) = AllRun" if stopped
    proof -
      have "fst (seen s5) = OneStopped (th_handle th3)" "snd (seen s5) = snd (seen s3)"
        using that seen4 s5(2) by auto
      then have "seen s6 = (AllRun, snd (seen s3))" using resume_seen [OF s6] that seen4 by simp
      then show "seen s6 = seen s" "fst (seen s6) = AllRun"
        using seen3 seen2 seen1 assms(2) by (auto simp: prod_eq_iff)
    qed
    have seen4': "seen s4 = seen s" if "\<not> stopped"
      using that seen4 seen3 seen2 seen1 assms(2) by (auto simp: prod_eq_iff)
    obtain addresses reached where r: "r = (addresses, reached)" by (rule prod.exhaust)
    show ?thesis
      using s1 busy s2 s3 s4 s5(1) s6 seen6 seen4' seen2 seen1
      by (cases stopped) (auto simp: sample_thread_def Let_def r callback_seen)
  qed
qed

section \<open>All threads\<close>

lemma sample_threads_seen:
  assumes "truthful os"
  shows "fst (seen s) = AllRun \<Longrightarrow> sampled s (sample_threads (noted os) self (noted_callback f) ths (cache, s))"
proof (induction ths arbitrary: cache s)
  case (Cons th ths)
  obtain cache1 s1 where "sample_thread (noted os) self (noted_callback f) th (cache, s) = Inr (cache1, s1)"
      "seen s1 = seen s"
    using sample_thread_seen [OF assms Cons.prems] unfolding sampled_def by blast
  then show ?case using Cons.IH [of s1 cache1] Cons.prems by (simp add: sampled_def)
qed simp

text \<open>Giving a port back while all threads run.\<close>

lemma release_seen:
  "fst (seen s) = AllRun \<Longrightarrow>
    seen (snd (po_deallocate (noted os) t s)) = (AllRun, fst (snd (seen s)), snd (snd (seen s)) @ [t])"
  using noting_seen [of "\<lambda>_. Released t" "po_deallocate os t" s]
  by (cases "po_deallocate (noted os) t s") (auto simp: noted_calls seen_def)

lemma handles_except_seen:
  "handles_except (noted os) self list s = (ths, s') \<Longrightarrow> fst (seen s) = AllRun \<Longrightarrow>
    ths = map (\<lambda>t. ThreadHandle t True) (filter (\<lambda>t. t \<noteq> self) list) \<and>
    seen s' = (AllRun, fst (snd (seen s)), snd (snd (seen s)) @ filter (\<lambda>t. t = self) list)"
proof (induction list arbitrary: ths s)
  case (Cons t list)
  then show ?case
    by (cases "t = self") (auto simp: release_seen split: prod.splits)
qed (auto simp: seen_def)

lemma destroy_seen:
  "fst (seen s) = AllRun \<Longrightarrow> \<forall>th\<in>set ths. th_isOwnedPort th \<Longrightarrow>
    seen (fold (destroy_handle (noted os)) ths s) =
      (AllRun, fst (snd (seen s)), snd (snd (seen s)) @ map th_handle ths)"
proof (induction ths arbitrary: s)
  case (Cons th ths)
  then show ?case using release_seen [OF Cons.prems(1), of os "th_handle th"] by (simp add: destroy_handle_def)
qed (auto simp: seen_def)


section \<open>An example\<close>

text \<open>A process of two threads; thread 7 runs, with two frames on its stack.\<close>

definition demo_stack :: "(64 word \<times> 64 word) list" where
  "demo_stack = [(0x2000, 0x2010), (0x2008, 0x5550), (0x2010, 0), (0x2018, 0x5660)]"

definition demo_profile_os :: "unit profile_os" where
  "demo_profile_os =
     \<lparr>po_cpu = ProfileArm64, po_self = (\<lambda>w. (5, w)), po_task_threads = (\<lambda>w. (Some [5, 7], w)),
      po_deallocate = (\<lambda>_ w. ((), w)), po_from_mach_thread = (\<lambda>t w. (if t = 7 then 0x9000 else 0, w)),
      po_getname = (\<lambda>_ w. (Some ''worker'', w)), po_getschedparam = (\<lambda>_ w. (Some 31, w)),
      po_thread_info = (\<lambda>_ w. (Some \<lparr>bi_user_seconds = 0, bi_user_microseconds = 0, bi_system_seconds = 0,
        bi_system_microseconds = 0, bi_cpu_usage = 0, bi_run_state = TH_STATE_RUNNING, bi_flags = 0\<rparr>, w)),
      po_stackaddr = (\<lambda>_ w. (0x3000, w)), po_stacksize = (\<lambda>_ w. (0x2000, w)),
      po_suspend = (\<lambda>_ w. (True, w)), po_resume = (\<lambda>_ w. (True, w)),
      po_get_state = (\<lambda>_ w. (Some \<lparr>ss_pc = 0x5444, ss_lr = 0x5554, ss_fp = 0x2000\<rparr>, w)),
      po_frame_address = (\<lambda>_. 0), po_vm = (\<lambda>_. vm_of (word_memory (map_of demo_stack))),
      po_mem = (\<lambda>_. word_memory (map_of demo_stack))\<rparr>"

lemma demo_frame_word:
  "map_of demo_stack a = Some w \<Longrightarrow> a AND 7 = 0 \<Longrightarrow> frame_word (word_memory (map_of demo_stack)) a = Inr w"
  by (simp add: frame_word_def word_memory_word)

lemma demo_frame_words:
  "frame_word (word_memory (map_of demo_stack)) 0x2000 = Inr 0x2010"
  "frame_word (word_memory (map_of demo_stack)) 0x2008 = Inr 0x5550"
  "frame_word (word_memory (map_of demo_stack)) 0x2010 = Inr 0"
  "frame_word (word_memory (map_of demo_stack)) 0x2018 = Inr 0x5660"
  by (rule demo_frame_word; simp add: demo_stack_def)+

lemma demo_frames:
  "stack_frames (word_memory (map_of demo_stack)) \<lparr>sb_start = 0x3000, sb_end = 0x1000\<rparr> 0x2000 [0x5550, 0x5660]"
proof (rule stack_frames.called [of _ _ "0x2010"])
  show "stack_frames (word_memory (map_of demo_stack)) \<lparr>sb_start = 0x3000, sb_end = 0x1000\<rparr> 0x2010 [0x5660]"
    by (rule stack_frames.outermost [of _ _ 0]) (simp_all add: demo_frame_words)
qed (simp_all add: demo_frame_words isValidFrame_def bounds_contain_def isAligned_def sizeof_StackFrame_def)

theorem backtrace_of_frames_witness:
  "backtrace demo_profile_os (ThreadHandle 7 True) (ThreadHandle 5 False) \<lparr>sb_start = 0x3000, sb_end = 0x1000\<rparr> 2 0 () =
    Inr (([0x5440, 0x554c], Some False), ())"
  using backtrace_of_frames [of demo_profile_os "ThreadHandle 7 True" "()" "\<lparr>ss_pc = 0x5444, ss_lr = 0x5554, ss_fp = 0x2000\<rparr>"
      "()" "\<lparr>sb_start = 0x3000, sb_end = 0x1000\<rparr>" "[0x5550, 0x5660]" "ThreadHandle 5 False" 2]
  by (simp add: demo_profile_os_def vm_of_reads demo_frames ThreadHandle_def isValidFrame_def bounds_contain_def
      bounds_valid_def isAligned_def sizeof_StackFrame_def getPreviousInstructionAddress_def)


end
