(* ===== verification/Profile_Sampler_Spec.thy ===== *)
theory Profile_Sampler_Spec
  imports Profile_Sampler Profile_Backtrace_Spec
begin

text \<open>
  The sampling profiler as a state machine: what holds in every state it can reach, how sessions add up, and
  what is left behind by a start that fails.
\<close>

section \<open>What is kept\<close>

definition thread_alive :: "'w sampler \<Rightarrow> bool" where
  "thread_alive s \<longleftrightarrow> sp_thread s \<notin> {NoThread, Joined}"

text \<open>\<open>n\<close> sessions leave \<open>n\<close> alarms, one of which may just have come in.\<close>

definition well_kept :: "nat \<Rightarrow> 'w sampler \<Rightarrow> bool" where
  "well_kept n s \<longleftrightarrow> sp_isInitialized s \<and>
     (if thread_alive s then sp_isSampling s \<and> sp_cancelled s = sp_stopping s
      else \<not> sp_isSampling s \<and> \<not> sp_stopping s) \<and>
     (sp_thread s = AtEnd \<longrightarrow> sp_stopping s) \<and>
     sp_alarms s + (if sp_thread s = Arming then 1 else 0) = n"

lemma well_kept_start:
  assumes "well_kept n s" "attr_made ans" "thread_created ans" "alarm_set ans"
  shows "well_kept (if sp_isSampling s then n else Suc n) (startSampling ans s)"
  using assms by (auto simp: well_kept_def startSampling_def thread_alive_def split: if_split_asm)

lemma well_kept_stops: "well_kept n s \<Longrightarrow> stop_cancels s = Inr s' \<Longrightarrow> well_kept n s'"
  by (auto simp: well_kept_def stop_cancels_def thread_alive_def split: if_splits)

lemma well_kept_joined: "well_kept n s \<Longrightarrow> sp_thread s = AtEnd \<Longrightarrow> well_kept n (stop_joined s)"
  by (simp add: well_kept_def stop_joined_def thread_alive_def)

lemma well_kept_runs:
  assumes "well_kept n s" "thread_step os callback onThreadStart True s = Inr (Some s')"
  shows "well_kept n s'"
proof (cases "sp_thread s")
  case TakingSample
  with assms show ?thesis by (auto simp: well_kept_def thread_step_def thread_alive_def bind_run_eq_Inr)
qed (use assms in \<open>simp_all add: well_kept_def thread_step_def thread_alive_def split: if_split_asm, auto\<close>)

lemma sessions_well_kept:
  assumes "sessions os callback onThreadStart False s0 n s" "well_kept 0 s0"
  shows "well_kept n s"
  using assms
proof (induction rule: sessions.induct)
  case (started n s ans)
  then show ?case by (intro well_kept_start) auto
next
  case (stops n s s')
  then show ?case by (blast intro: well_kept_stops)
next
  case (stopped n s)
  then show ?case by (blast intro: well_kept_joined)
next
  case (runs n s answer s')
  then show ?case by (cases answer) (auto intro: well_kept_runs)
qed


text \<open>
  When the thread cannot be created, the object counts as sampling all the same: no later start does
  anything, and stopping or destroying it joins a thread that never was.
\<close>

theorem failed_start_stays:
  assumes "sp_isInitialized s" "\<not> sp_isSampling s" "sp_thread s \<in> {NoThread, Joined}"
    and "\<not> (attr_made ans \<and> thread_created ans)"
  shows "sp_isSampling (startSampling ans s) \<and> startSampling again (startSampling ans s) = startSampling ans s \<and>
    stop_cancels (startSampling ans s) = Inl UndefinedBehaviour \<and>
    destructor_cancels (startSampling ans s) = Inl UndefinedBehaviour"
  using assms by (auto simp: startSampling_def stop_cancels_def destructor_cancels_def Let_def)

section \<open>An example\<close>

text \<open>A profiler that was started, stopped before its first sample, and started again.\<close>

definition demo_sampler :: "unit sampler" where
  "demo_sampler = SamplingProfiler (\<lambda>_. 10000000) True True 101 ()"

definition demo_answers :: start_answers where
  "demo_answers = \<lparr>attr_made = True, thread_created = True, alarm_set = True\<rparr>"

definition restarted_sampler :: "unit sampler" where
  "restarted_sampler = startSampling demo_answers
     (stop_joined (demo_sampler\<lparr>sp_isSampling := True, sp_alarms := 1, sp_thread := AtEnd, sp_cancelled := True,
        sp_stopping := True\<rparr>))"

lemma demo_sessions: "sessions demo_profile_os (\<lambda>_ w. w) None False demo_sampler 2 restarted_sampler"
proof -
  let ?sessions = "sessions demo_profile_os (\<lambda>_ w. w) None False demo_sampler"
  let ?s1 = "demo_sampler\<lparr>sp_isSampling := True, sp_thread := Starting, sp_alarms := 1\<rparr>"
  have "?sessions 1 ?s1"
    using sessions.started [OF sessions.created, of demo_sampler False demo_answers]
    by (simp add: demo_sampler_def SamplingProfiler_def startSampling_def demo_answers_def Let_def)
  from sessions.runs [OF this, of True "?s1\<lparr>sp_thread := AtTestCancel\<rparr>"]
  have "?sessions 1 (?s1\<lparr>sp_thread := AtTestCancel\<rparr>)"
    by (simp add: thread_step_def demo_sampler_def SamplingProfiler_def)
  from sessions.stops [OF this, of "?s1\<lparr>sp_thread := AtTestCancel, sp_cancelled := True, sp_stopping := True\<rparr>"]
  have "?sessions 1 (?s1\<lparr>sp_thread := AtTestCancel, sp_cancelled := True, sp_stopping := True\<rparr>)"
    by (simp add: stop_cancels_def demo_sampler_def SamplingProfiler_def)
  from sessions.runs [OF this, of True "?s1\<lparr>sp_thread := AtEnd, sp_cancelled := True, sp_stopping := True\<rparr>"]
  have "?sessions 1 (?s1\<lparr>sp_thread := AtEnd, sp_cancelled := True, sp_stopping := True\<rparr>)"
    by (simp add: thread_step_def)
  from sessions.stopped [OF this]
  have "?sessions 1 (stop_joined (?s1\<lparr>sp_thread := AtEnd, sp_cancelled := True, sp_stopping := True\<rparr>))"
    by simp
  from sessions.started [OF this, of demo_answers] show ?thesis
    by (simp add: restarted_sampler_def stop_joined_def demo_answers_def numeral_2_eq_2)
qed


theorem failed_start_stays_witness:
  "stop_cancels (startSampling \<lparr>attr_made = True, thread_created = False, alarm_set = True\<rparr> demo_sampler) =
    Inl UndefinedBehaviour"
  using failed_start_stays [of demo_sampler "\<lparr>attr_made = True, thread_created = False, alarm_set = True\<rparr>"]
  by (simp add: demo_sampler_def SamplingProfiler_def)

end
