(* ===== verification/Crash_Monitor.thy ===== *)
theory Crash_Monitor
  imports App_State_Spec
begin

unbundle bit_operations_syntax

text \<open>
  \<open>Recording/Monitors/SentryCrashMonitor.c\<close> and \<open>SentryCrashMonitorType.c\<close>: the table of monitors, which
  of them are active, and what is done with a captured exception, a crash while handling a crash
  included. The monitors' own functions are parameters; the application state monitor of this
  development is one of them.
\<close>

section \<open>The kinds of monitors\<close>

type_synonym monitor_types = "32 word"

definition SentryCrashMonitorTypeMachException :: monitor_types where "SentryCrashMonitorTypeMachException = 0x01"
definition SentryCrashMonitorTypeSignal :: monitor_types where "SentryCrashMonitorTypeSignal = 0x02"
definition SentryCrashMonitorTypeCPPException :: monitor_types where "SentryCrashMonitorTypeCPPException = 0x04"
definition SentryCrashMonitorTypeNSException :: monitor_types where "SentryCrashMonitorTypeNSException = 0x08"
definition SentryCrashMonitorTypeSystem :: monitor_types where "SentryCrashMonitorTypeSystem = 0x40"
definition SentryCrashMonitorTypeApplicationState :: monitor_types where
  "SentryCrashMonitorTypeApplicationState = 0x80"
definition SentryCrashMonitorTypeNone :: monitor_types where "SentryCrashMonitorTypeNone = 0"

lemmas monitor_type_defs = SentryCrashMonitorTypeMachException_def SentryCrashMonitorTypeSignal_def
  SentryCrashMonitorTypeCPPException_def SentryCrashMonitorTypeNSException_def
  SentryCrashMonitorTypeSystem_def SentryCrashMonitorTypeApplicationState_def
  SentryCrashMonitorTypeNone_def

definition SentryCrashMonitorTypeAll :: monitor_types where
  "SentryCrashMonitorTypeAll = SentryCrashMonitorTypeMachException OR SentryCrashMonitorTypeSignal OR
     SentryCrashMonitorTypeCPPException OR SentryCrashMonitorTypeNSException OR
     SentryCrashMonitorTypeApplicationState"

definition SentryCrashMonitorTypeDebuggerUnsafe :: monitor_types where
  "SentryCrashMonitorTypeDebuggerUnsafe = SentryCrashMonitorTypeMachException OR
     SentryCrashMonitorTypeSignal OR SentryCrashMonitorTypeCPPException OR
     SentryCrashMonitorTypeNSException"

definition SentryCrashMonitorTypeAsyncSafe :: monitor_types where
  "SentryCrashMonitorTypeAsyncSafe = SentryCrashMonitorTypeMachException OR SentryCrashMonitorTypeSignal"

definition SentryCrashMonitorTypeAsyncUnsafe :: monitor_types where
  "SentryCrashMonitorTypeAsyncUnsafe = SentryCrashMonitorTypeAll AND NOT SentryCrashMonitorTypeAsyncSafe"

definition SentryCrashMonitorTypeDebuggerSafe :: monitor_types where
  "SentryCrashMonitorTypeDebuggerSafe = SentryCrashMonitorTypeAll AND NOT SentryCrashMonitorTypeDebuggerUnsafe"

definition g_monitorTypes :: "(monitor_types \<times> bytes) list" where
  "g_monitorTypes =
     [(SentryCrashMonitorTypeMachException, ''SentryCrashMonitorTypeMachException''),
      (SentryCrashMonitorTypeSignal, ''SentryCrashMonitorTypeSignal''),
      (SentryCrashMonitorTypeCPPException, ''SentryCrashMonitorTypeCPPException''),
      (SentryCrashMonitorTypeNSException, ''SentryCrashMonitorTypeNSException''),
      (SentryCrashMonitorTypeSystem, ''SentryCrashMonitorTypeSystem''),
      (SentryCrashMonitorTypeApplicationState, ''SentryCrashMonitorTypeApplicationState'')]"

definition sentrycrashmonitortype_name :: "monitor_types \<Rightarrow> bytes option" where
  "sentrycrashmonitortype_name monitorType = map_of g_monitorTypes monitorType"

section \<open>The table\<close>

text \<open>The functions of a monitor may be missing. They act on the world \<open>'w\<close> and on an event's data \<open>'e\<close>.\<close>

record ('w, 'e) monitor_api =
  api_setEnabled :: "(bool \<Rightarrow> 'w \<Rightarrow> 'w run) option"
  api_isEnabled :: "('w \<Rightarrow> bool) option"
  api_addContextualInfoToEvent :: "('w \<Rightarrow> 'e \<Rightarrow> 'e) option"

record ('w, 'e) monitor =
  monitorType :: monitor_types
  getAPI :: "('w, 'e) monitor_api option"

text \<open>What the build has decides on the first two entries.\<close>

definition g_monitors ::
    "bool \<Rightarrow> bool \<Rightarrow> (monitor_types \<Rightarrow> ('w, 'e) monitor_api option) \<Rightarrow> ('w, 'e) monitor list" where
  "g_monitors has_mach has_signal api =
     map (\<lambda>t. \<lparr>monitorType = t, getAPI = api t\<rparr>)
       ((if has_mach then [SentryCrashMonitorTypeMachException] else []) @
        (if has_signal then [SentryCrashMonitorTypeSignal] else []) @
        [SentryCrashMonitorTypeNSException, SentryCrashMonitorTypeCPPException,
         SentryCrashMonitorTypeApplicationState])"

definition setMonitorEnabled :: "('w, 'e) monitor \<Rightarrow> bool \<Rightarrow> 'w \<Rightarrow> 'w run" where
  "setMonitorEnabled monitor isEnabled w =
     (case getAPI monitor of
        None \<Rightarrow> Inr w
      | Some api \<Rightarrow> (case api_setEnabled api of None \<Rightarrow> Inr w | Some f \<Rightarrow> f isEnabled w))"

definition isMonitorEnabled :: "('w, 'e) monitor \<Rightarrow> 'w \<Rightarrow> bool" where
  "isMonitorEnabled monitor w =
     (case getAPI monitor of
        None \<Rightarrow> False
      | Some api \<Rightarrow> (case api_isEnabled api of None \<Rightarrow> False | Some f \<Rightarrow> f w))"

definition monitor_addContextualInfo :: "('w, 'e) monitor \<Rightarrow> 'w \<Rightarrow> 'e \<Rightarrow> 'e" where
  "monitor_addContextualInfo monitor w event =
     (case getAPI monitor of
        None \<Rightarrow> event
      | Some api \<Rightarrow>
          (case api_addContextualInfoToEvent api of None \<Rightarrow> event | Some f \<Rightarrow> f w event))"

section \<open>The state\<close>

record 'w monitoring =
  g_activeMonitors :: monitor_types
  g_handlingFatalException :: bool
  g_crashedDuringExceptionHandling :: bool
  g_requiresAsyncSafety :: bool
  monitor_world :: 'w

definition initial_monitoring :: "'w \<Rightarrow> 'w monitoring" where
  "initial_monitoring w =
     \<lparr>g_activeMonitors = SentryCrashMonitorTypeNone, g_handlingFatalException = False,
      g_crashedDuringExceptionHandling = False, g_requiresAsyncSafety = False, monitor_world = w\<rparr>"

record 'e event_context =
  requiresAsyncSafety :: bool
  crashedDuringCrashHandling :: bool
  event_data :: 'e

text \<open>
  What surrounds the monitors: the table, whether a debugger traces the process, and the callback
  for events. The callback may do anything, a crash of its own included.
\<close>

record ('w, 'e) monitor_env =
  env_monitors :: "('w, 'e) monitor list"
  isBeingTraced :: "'w \<Rightarrow> bool"
  g_onExceptionEvent :: "'e event_context \<Rightarrow> 'w monitoring \<Rightarrow> 'w monitoring run"

section \<open>The operations\<close>

definition allowed_types :: "bool \<Rightarrow> bool \<Rightarrow> monitor_types \<Rightarrow> monitor_types" where
  "allowed_types traced asyncSafety monitorTypes =
     (let monitorTypes =
            (if traced \<and> monitorTypes AND SentryCrashMonitorTypeDebuggerUnsafe \<noteq> 0
             then monitorTypes AND SentryCrashMonitorTypeDebuggerSafe else monitorTypes)
      in if asyncSafety \<and> monitorTypes AND SentryCrashMonitorTypeAsyncUnsafe \<noteq> 0
         then monitorTypes AND SentryCrashMonitorTypeAsyncSafe else monitorTypes)"

fun set_monitors ::
    "('w, 'e) monitor list \<Rightarrow> monitor_types \<Rightarrow> monitor_types \<Rightarrow> 'w \<Rightarrow> (monitor_types \<times> 'w) run" where
  "set_monitors [] monitorTypes activeMonitors w = Inr (activeMonitors, w)"
| "set_monitors (m # ms) monitorTypes activeMonitors w =
     bind_run (setMonitorEnabled m (monitorType m AND monitorTypes \<noteq> 0) w) (\<lambda>w.
       set_monitors ms monitorTypes
         (if isMonitorEnabled m w then activeMonitors OR monitorType m
          else activeMonitors AND NOT (monitorType m)) w)"

definition sentrycrashcm_setActiveMonitors ::
    "('w, 'e) monitor_env \<Rightarrow> monitor_types \<Rightarrow> 'w monitoring \<Rightarrow> 'w monitoring run" where
  "sentrycrashcm_setActiveMonitors env monitorTypes s =
     bind_run
       (set_monitors (env_monitors env)
          (allowed_types (isBeingTraced env (monitor_world s)) (g_requiresAsyncSafety s) monitorTypes)
          SentryCrashMonitorTypeNone (monitor_world s))
       (\<lambda>(activeMonitors, w). Inr (s\<lparr>g_activeMonitors := activeMonitors, monitor_world := w\<rparr>))"

definition sentrycrashcm_getActiveMonitors :: "'w monitoring \<Rightarrow> monitor_types" where
  "sentrycrashcm_getActiveMonitors s = g_activeMonitors s"

definition sentrycrashcm_setEventCallback ::
    "('e event_context \<Rightarrow> 'w monitoring \<Rightarrow> 'w monitoring run) \<Rightarrow> ('w, 'e) monitor_env \<Rightarrow> ('w, 'e) monitor_env" where
  "sentrycrashcm_setEventCallback onEvent env = env\<lparr>g_onExceptionEvent := onEvent\<rparr>"

definition sentrycrashcm_notifyFatalExceptionCaptured ::
    "('w, 'e) monitor_env \<Rightarrow> bool \<Rightarrow> 'w monitoring \<Rightarrow> (bool \<times> 'w monitoring) run" where
  "sentrycrashcm_notifyFatalExceptionCaptured env isAsyncSafeEnvironment s =
     (let s = s\<lparr>g_requiresAsyncSafety := g_requiresAsyncSafety s \<or> isAsyncSafeEnvironment\<rparr>;
          s = (if g_handlingFatalException s then s\<lparr>g_crashedDuringExceptionHandling := True\<rparr> else s);
          s = s\<lparr>g_handlingFatalException := True\<rparr>
      in bind_run
           (if g_crashedDuringExceptionHandling s
            then sentrycrashcm_setActiveMonitors env SentryCrashMonitorTypeNone s else Inr s)
           (\<lambda>s. Inr (g_crashedDuringExceptionHandling s, s)))"

definition add_context_of ::
    "('w, 'e) monitor list \<Rightarrow> 'w \<Rightarrow> 'e \<Rightarrow> 'e" where
  "add_context_of monitors w event =
     fold (\<lambda>m event. if isMonitorEnabled m w then monitor_addContextualInfo m w event else event)
       monitors event"

text \<open>What an event is given before it is reported, from \<open>requiresAsyncSafety\<close> to the monitors' information.\<close>

definition complete_event ::
    "('w, 'e) monitor_env \<Rightarrow> 'w monitoring \<Rightarrow> 'e event_context \<Rightarrow> 'e event_context" where
  "complete_event env s c =
     (let c = c\<lparr>requiresAsyncSafety := g_requiresAsyncSafety s\<rparr>;
          c = (if g_crashedDuringExceptionHandling s then c\<lparr>crashedDuringCrashHandling := True\<rparr> else c)
      in c\<lparr>event_data := add_context_of (env_monitors env) (monitor_world s) (event_data c)\<rparr>)"

definition sentrycrashcm_handleException ::
    "('w, 'e) monitor_env \<Rightarrow> 'e event_context \<Rightarrow> 'w monitoring \<Rightarrow> 'w monitoring run" where
  "sentrycrashcm_handleException env c s =
     bind_run (g_onExceptionEvent env (complete_event env s c) s) (\<lambda>s.
       if g_handlingFatalException s \<and> \<not> g_crashedDuringExceptionHandling s
       then sentrycrashcm_setActiveMonitors env SentryCrashMonitorTypeNone s
       else Inr s)"

text \<open>The application state monitor's entry of the table.\<close>

definition sentrycrashcm_appstate_getAPI ::
    "('d, 'f) platform \<Rightarrow> (('d, 'f) app, 'd app_state) monitor_api" where
  "sentrycrashcm_appstate_getAPI pl =
     \<lparr>api_setEnabled = Some (appstate_setEnabled pl), api_isEnabled = Some appstate_isEnabled,
      api_addContextualInfoToEvent = Some appstate_addContextualInfoToEvent\<rparr>"

end
