(* ===== verification/Crash_Monitor_Spec.thy ===== *)
theory Crash_Monitor_Spec
  imports Crash_Monitor
begin

unbundle bit_operations_syntax

text \<open>
  What the table of monitors promises: only monitors that the environment allows become active, a
  second fatal exception is recognised as a crash of the crash reporter whatever happened before,
  and after a fatal exception no monitor is left active. A monitor is an \<open>off_switch\<close> to the table.
\<close>

section \<open>Switches\<close>

locale off_switch =
  fixes set_on :: "bool \<Rightarrow> 'w \<Rightarrow> 'w run"
    and is_on :: "'w \<Rightarrow> bool"
  assumes off_after_off: "set_on False w = Inr w' \<Longrightarrow> \<not> is_on w'"
begin

lemma off_after_sequence: "bind_run (set_on b w) (set_on False) = Inr w' \<Longrightarrow> \<not> is_on w'"
  by (auto simp: bind_run_eq_Inr dest: off_after_off)

end

text \<open>Some can always be turned on.\<close>

locale switch = off_switch +
  assumes on_after_on: "set_on True w = Inr w' \<Longrightarrow> is_on w'"
begin

lemma set_on: "set_on b w = Inr w' \<Longrightarrow> is_on w' = b"
  using off_after_off on_after_on by (cases b) auto

end

lemma appstate_saved_enabled:
  "saveState pl path a = Inr (r, a') \<Longrightarrow> g_isEnabled a' = g_isEnabled a"
  by (auto dest: saveState_keeps)

interpretation appstate: switch "appstate_setEnabled pl" appstate_isEnabled
  for pl :: "('d, 'f) platform"
  by unfold_locales
     (auto simp: appstate_setEnabled_def appstate_isEnabled_def Let_def bind_run_eq_Inr
        sentrycrashstate_reset_def dest!: appstate_saved_enabled split: if_splits)

text \<open>
  What the table relies on: a monitor that was told to be off says it is off, and (for those that
  cannot fail to start) one that was told to be on says it is on.
\<close>

definition turns_off :: "('w, 'e) monitor_api option \<Rightarrow> bool" where
  "turns_off api \<longleftrightarrow> (\<forall>a f w w'. api = Some a \<longrightarrow> api_isEnabled a = Some f \<longrightarrow>
     (\<exists>g. api_setEnabled a = Some g \<and> (g False w = Inr w' \<longrightarrow> \<not> f w')))"

definition turns_on :: "('w, 'e) monitor_api option \<Rightarrow> bool" where
  "turns_on api \<longleftrightarrow> (\<exists>a f g. api = Some a \<and> api_isEnabled a = Some f \<and> api_setEnabled a = Some g \<and>
     (\<forall>w w'. g True w = Inr w' \<longrightarrow> f w'))"

lemma turns_off_appstate: "turns_off (Some (sentrycrashcm_appstate_getAPI pl))"
  by (auto simp: turns_off_def sentrycrashcm_appstate_getAPI_def dest: appstate.off_after_off)

lemma turns_on_appstate: "turns_on (Some (sentrycrashcm_appstate_getAPI pl))"
  by (auto simp: turns_on_def sentrycrashcm_appstate_getAPI_def dest: appstate.on_after_on)

lemma off_when_told:
  "turns_off (getAPI m) \<Longrightarrow> setMonitorEnabled m False w = Inr w' \<Longrightarrow> \<not> isMonitorEnabled m w'"
  by (auto simp: turns_off_def setMonitorEnabled_def isMonitorEnabled_def split: option.splits)

lemma on_when_told:
  "turns_on (getAPI m) \<Longrightarrow> setMonitorEnabled m True w = Inr w' \<Longrightarrow> isMonitorEnabled m w'"
  by (auto simp: turns_on_def setMonitorEnabled_def isMonitorEnabled_def split: option.splits)

section \<open>Which monitors become active\<close>

definition one_bit :: "monitor_types \<Rightarrow> bool" where
  "one_bit t \<longleftrightarrow> (\<exists>k. t = push_bit k 1)"

lemma one_bit_types [simp]:
  "one_bit SentryCrashMonitorTypeMachException" "one_bit SentryCrashMonitorTypeSignal"
  "one_bit SentryCrashMonitorTypeCPPException" "one_bit SentryCrashMonitorTypeNSException"
  "one_bit SentryCrashMonitorTypeApplicationState"
  unfolding one_bit_def monitor_type_defs
  by (rule exI [of _ 0], simp, rule exI [of _ 1], simp, rule exI [of _ 2], simp,
      rule exI [of _ 3], simp, rule exI [of _ 7], simp)

lemma one_bit_and:
  assumes "one_bit t" "t AND s \<noteq> 0"
  shows "t AND s = t"
proof -
  obtain k where t: "t = push_bit k 1" using assms(1) by (auto simp: one_bit_def)
  have "bit s k" using assms(2) unfolding t by (rule contrapos_np) (rule bit_word_eqI, auto simp: bit_simps)
  then show ?thesis unfolding t by (intro bit_word_eqI) (auto simp: bit_simps)
qed

lemma bitwise: "(\<And>n. bit a n = bit b n) \<Longrightarrow> a = (b :: monitor_types)"
  by (rule bit_word_eqI) simp

lemma or_within:
  assumes "a AND NOT s = 0" "t AND s = t"
  shows "(a OR t) AND NOT s = (0 :: monitor_types)"
proof (rule bit_word_eqI)
  fix n :: nat
  assume "n < LENGTH(32)"
  then show "bit ((a OR t) AND NOT s) n = bit (0 :: monitor_types) n"
    using arg_cong [OF assms(1), of "\<lambda>w. bit w n"] arg_cong [OF assms(2), of "\<lambda>w. bit w n"]
    by (auto simp: bit_simps)
qed

lemma and_within: "a AND NOT s = 0 \<Longrightarrow> (a AND b) AND NOT s = (0 :: monitor_types)"
  by (metis and.assoc and.commute zero_and_eq)

lemma set_monitors_within:
  assumes "set_monitors ms types active w = Inr (active', w')" "active AND NOT types = 0"
    "\<forall>m \<in> set ms. turns_off (getAPI m) \<and> one_bit (monitorType m)"
  shows "active' AND NOT types = 0"
  using assms
proof (induction ms arbitrary: active w)
  case (Cons m ms)
  let ?t = "monitorType m"
  from Cons.prems(1) obtain u where
    u: "setMonitorEnabled m (?t AND types \<noteq> 0) w = Inr u" and
    rest: "set_monitors ms types (if isMonitorEnabled m u then active OR ?t else active AND NOT ?t) u =
      Inr (active', w')"
    by (auto simp: bind_run_eq_Inr)
  have "(if isMonitorEnabled m u then active OR ?t else active AND NOT ?t) AND NOT types = 0"
  proof (cases "isMonitorEnabled m u")
    case True
    then have "?t AND types \<noteq> 0" using off_when_told [of m w u] u Cons.prems(3) by auto
    then show ?thesis using True Cons.prems(2,3) by (simp add: or_within one_bit_and)
  next
    case False
    then show ?thesis using Cons.prems(2) by (simp add: and_within)
  qed
  then show ?case using Cons.IH [OF rest] Cons.prems(3) by simp
qed simp

definition table_types :: "('w, 'e) monitor list \<Rightarrow> monitor_types" where
  "table_types ms = fold (\<lambda>m types. types OR monitorType m) ms 0"

lemma table_types_from:
  "fold (\<lambda>m types. types OR monitorType m) ms a = a OR table_types ms"
proof (induction ms arbitrary: a)
  case (Cons m ms)
  show ?case
    by (simp add: table_types_def Cons.IH [of "a OR monitorType m"] Cons.IH [of "monitorType m"] or.assoc)
qed (simp add: table_types_def)

lemma table_types_Cons: "table_types (m # ms) = monitorType m OR table_types ms"
  using table_types_from [of ms "monitorType m"] by (simp add: table_types_def)

lemma or_absorbs: "a OR t = (a AND NOT t) OR (t :: monitor_types)"
  by (rule bit_word_eqI) (auto simp: bit_simps)

lemma step_bits:
  assumes "one_bit t"
  shows "(if t AND types \<noteq> 0 then a OR t else a AND NOT t) = (a AND NOT t) OR (types AND t)"
proof (cases "t AND types = 0")
  case True
  have "types AND t = t AND types" by (rule and.commute)
  then show ?thesis by (simp only: True if_False or.right_neutral simp_thms refl)
next
  case False
  have "types AND t = t AND types" by (rule and.commute)
  also have "\<dots> = t" using assms False by (rule one_bit_and)
  finally show ?thesis using False by (simp only: if_True simp_thms or_absorbs [symmetric])
qed

lemma join_bits:
  "(((a AND NOT t) OR (types AND t)) AND NOT r) OR (types AND r) =
     (a AND NOT (t OR r)) OR (types AND (t OR r) :: monitor_types)"
  by (rule bit_word_eqI) (auto simp: bit_simps)

lemma set_monitors_exact:
  assumes "set_monitors ms types active w = Inr (active', w')"
    "\<forall>m \<in> set ms. turns_off (getAPI m) \<and> turns_on (getAPI m) \<and> one_bit (monitorType m)"
  shows "active' = (active AND NOT (table_types ms)) OR (types AND table_types ms)"
  using assms
proof (induction ms arbitrary: active w)
  case (Cons m ms)
  let ?t = "monitorType m"
  from Cons.prems(1) obtain u where
    u: "setMonitorEnabled m (?t AND types \<noteq> 0) w = Inr u" and
    rest: "set_monitors ms types (if isMonitorEnabled m u then active OR ?t else active AND NOT ?t) u =
      Inr (active', w')"
    by (auto simp: bind_run_eq_Inr)
  have "isMonitorEnabled m u = (?t AND types \<noteq> 0)"
    using off_when_told [of m w u] on_when_told [of m w u] u Cons.prems(2)
    by (cases "?t AND types \<noteq> 0") auto
  then have "active' = (((active AND NOT ?t) OR (types AND ?t)) AND NOT (table_types ms)) OR
      (types AND table_types ms)"
    using Cons.IH [OF rest] Cons.prems(2) by (simp add: step_bits)
  then show ?case by (simp only: join_bits table_types_Cons)
qed (simp add: table_types_def)


section \<open>The fatal path\<close>

text \<open>
  One thing that can happen to the monitors: someone chooses which are active, a fatal exception is
  notified, or an exception is handled. Whatever the event callback does, it is here made of such
  steps only if it keeps the flags of \<open>SentryCrashMonitor.c\<close> the way they do; \<open>flags_kept\<close> says that.
\<close>

definition flags_kept :: "'w monitoring \<Rightarrow> 'w monitoring \<Rightarrow> bool" where
  "flags_kept s s' \<longleftrightarrow>
     (g_handlingFatalException s \<longrightarrow> g_handlingFatalException s') \<and>
     (g_crashedDuringExceptionHandling s \<longrightarrow> g_crashedDuringExceptionHandling s') \<and>
     (g_requiresAsyncSafety s \<longrightarrow> g_requiresAsyncSafety s') \<and>
     (g_crashedDuringExceptionHandling s' \<longrightarrow> g_crashedDuringExceptionHandling s \<or> g_handlingFatalException s')"

inductive monitor_step ::
    "('w, 'e) monitor_env \<Rightarrow> 'w monitoring \<Rightarrow> 'w monitoring \<Rightarrow> bool" for env where
  activated: "sentrycrashcm_setActiveMonitors env types s = Inr s' \<Longrightarrow> monitor_step env s s'"
| notified: "sentrycrashcm_notifyFatalExceptionCaptured env async s = Inr (r, s') \<Longrightarrow> monitor_step env s s'"
| handled: "sentrycrashcm_handleException env c s = Inr s' \<Longrightarrow> monitor_step env s s'"

inductive_cases monitor_stepE: "monitor_step env s s'"

lemma setActive_flags:
  "sentrycrashcm_setActiveMonitors env types s = Inr s' \<Longrightarrow>
     g_handlingFatalException s' = g_handlingFatalException s \<and>
     g_crashedDuringExceptionHandling s' = g_crashedDuringExceptionHandling s \<and>
     g_requiresAsyncSafety s' = g_requiresAsyncSafety s"
  by (auto simp: sentrycrashcm_setActiveMonitors_def bind_run_eq_Inr)

lemma notify_flags:
  "sentrycrashcm_notifyFatalExceptionCaptured env async s = Inr (r, s') \<Longrightarrow>
     g_handlingFatalException s' \<and>
     g_crashedDuringExceptionHandling s' =
       (g_crashedDuringExceptionHandling s \<or> g_handlingFatalException s) \<and>
     g_requiresAsyncSafety s' = (g_requiresAsyncSafety s \<or> async) \<and>
     r = g_crashedDuringExceptionHandling s'"
  by (auto simp: sentrycrashcm_notifyFatalExceptionCaptured_def bind_run_eq_Inr Let_def
    dest!: setActive_flags split: if_splits)

definition callback_keeps_flags :: "('w, 'e) monitor_env \<Rightarrow> bool" where
  "callback_keeps_flags env \<longleftrightarrow> (\<forall>c s s'. g_onExceptionEvent env c s = Inr s' \<longrightarrow> flags_kept s s')"

lemma handle_flags:
  "callback_keeps_flags env \<Longrightarrow> sentrycrashcm_handleException env c s = Inr s' \<Longrightarrow> flags_kept s s'"
  by (auto simp: sentrycrashcm_handleException_def complete_event_def callback_keeps_flags_def bind_run_eq_Inr Let_def flags_kept_def
    dest!: setActive_flags split: if_splits)

lemma step_flags: "callback_keeps_flags env \<Longrightarrow> monitor_step env s s' \<Longrightarrow> flags_kept s s'"
  by (erule monitor_stepE) (auto dest: setActive_flags notify_flags handle_flags simp: flags_kept_def)

lemma flags_kept_trans: "flags_kept s t \<Longrightarrow> flags_kept t u \<Longrightarrow> flags_kept s u"
  by (auto simp: flags_kept_def)

lemma steps_flags:
  assumes "callback_keeps_flags env" "(monitor_step env)\<^sup>*\<^sup>* s s'"
  shows "flags_kept s s'"
  using assms(2)
proof induction
  case base
  show ?case by (simp add: flags_kept_def)
next
  case (step t u)
  then show ?case by (blast intro: flags_kept_trans step_flags [OF assms(1)])
qed

definition obedient :: "('w, 'e) monitor_env \<Rightarrow> bool" where
  "obedient env \<longleftrightarrow> (\<forall>m \<in> set (env_monitors env). turns_off (getAPI m) \<and> one_bit (monitorType m))"

lemma none_allowed [simp]: "allowed_types traced async 0 = 0"
  by (simp add: allowed_types_def Let_def)

lemma setActive_none:
  assumes "obedient env" "sentrycrashcm_setActiveMonitors env SentryCrashMonitorTypeNone s = Inr s'"
  shows "g_activeMonitors s' = 0"
proof -
  from assms(2) obtain active w where
    set: "set_monitors (env_monitors env) 0 0 (monitor_world s) = Inr (active, w)" and
    s': "s' = s\<lparr>g_activeMonitors := active, monitor_world := w\<rparr>"
    by (auto simp: sentrycrashcm_setActiveMonitors_def bind_run_eq_Inr SentryCrashMonitorTypeNone_def)
  have "active AND NOT 0 = 0"
    using assms(1) by (intro set_monitors_within [OF set]) (simp_all add: obedient_def)
  then show ?thesis by (simp add: s')
qed

lemma notify_turns_all_off:
  "obedient env \<Longrightarrow> sentrycrashcm_notifyFatalExceptionCaptured env async s = Inr (True, s') \<Longrightarrow>
     g_activeMonitors s' = 0"
  by (auto simp: sentrycrashcm_notifyFatalExceptionCaptured_def bind_run_eq_Inr Let_def
    dest: setActive_none split: if_splits)

lemma handle_turns_all_off:
  "obedient env \<Longrightarrow> sentrycrashcm_handleException env c s = Inr s' \<Longrightarrow>
     g_handlingFatalException s' \<Longrightarrow> \<not> g_crashedDuringExceptionHandling s' \<Longrightarrow> g_activeMonitors s' = 0"
  by (auto simp: sentrycrashcm_handleException_def complete_event_def bind_run_eq_Inr Let_def
    dest: setActive_none setActive_flags split: if_splits)

section \<open>Properties\<close>

text \<open>A table whose monitors all have the application state monitor's functions, and a callback that does nothing.\<close>

definition app_env :: "bool \<Rightarrow> ((int, bytes \<times> bytes) app, int app_state) monitor_env" where
  "app_env traced =
     \<lparr>env_monitors = g_monitors True True (\<lambda>_. Some (sentrycrashcm_appstate_getAPI five_platform)),
      isBeingTraced = (\<lambda>_. traced), g_onExceptionEvent = (\<lambda>_. Inr)\<rparr>"

lemma g_monitors_obedient:
  "env_monitors env = g_monitors has_mach has_signal api \<Longrightarrow> (\<And>t. turns_off (api t)) \<Longrightarrow> obedient env"
  by (auto simp: obedient_def g_monitors_def)

lemma app_env_obedient: "obedient (app_env traced)"
  unfolding app_env_def
  by (rule g_monitors_obedient, simp) (simp add: turns_off_appstate)

lemma app_env_callback: "callback_keeps_flags (app_env traced)"
  by (auto simp: callback_keeps_flags_def app_env_def flags_kept_def)

lemma and_zero1: "a AND u = 0 \<Longrightarrow> (a AND b) AND u = (0 :: monitor_types)"
  by (metis and.assoc and.commute zero_and_eq)

lemma and_zero2: "b AND u = 0 \<Longrightarrow> (a AND b) AND u = (0 :: monitor_types)"
  by (simp add: and.assoc)

lemma masks:
  "SentryCrashMonitorTypeDebuggerSafe AND SentryCrashMonitorTypeDebuggerUnsafe = 0"
  "SentryCrashMonitorTypeAsyncSafe AND SentryCrashMonitorTypeAsyncUnsafe = 0"
  by code_simp+

lemma allowed_asked: "allowed_types traced async types AND NOT types = 0"
  by (simp add: allowed_types_def Let_def and_within)

lemma allowed_traced: "allowed_types True async types AND SentryCrashMonitorTypeDebuggerUnsafe = 0"
  by (auto simp: allowed_types_def Let_def and_zero1 and_zero2 masks)

lemma allowed_async: "allowed_types traced True types AND SentryCrashMonitorTypeAsyncUnsafe = 0"
  by (auto simp: allowed_types_def Let_def and_zero1 and_zero2 masks)

lemma within_zero: "a AND NOT s = 0 \<Longrightarrow> s AND u = 0 \<Longrightarrow> a AND u = (0 :: monitor_types)"
proof -
  assume a: "a AND NOT s = 0" and s: "s AND u = 0"
  have "a AND u = (a AND NOT s AND u) OR (a AND (s AND u))"
    by (rule bit_word_eqI) (auto simp: bit_simps)
  also have "\<dots> = 0" by (simp only: a s and.assoc [symmetric] zero_and_eq and_zero_eq or.left_neutral)
  finally show "a AND u = 0" .
qed

text \<open>
  C26. Choosing monitors respects the environment: every monitor that is active afterwards was asked
  for, none that a debugger would disturb is active while one is attached, and none that needs more
  than async-safe functions is active once an async-safe environment was announced. If none of the
  monitors fails to start, the active ones are exactly those of the table that are allowed.
\<close>

theorem active_monitors_allowed:
  assumes "obedient env" "sentrycrashcm_setActiveMonitors env types s = Inr s'"
  shows "sentrycrashcm_getActiveMonitors s' AND NOT types = 0 \<and>
    (isBeingTraced env (monitor_world s) \<longrightarrow>
      sentrycrashcm_getActiveMonitors s' AND SentryCrashMonitorTypeDebuggerUnsafe = 0) \<and>
    (g_requiresAsyncSafety s \<longrightarrow>
      sentrycrashcm_getActiveMonitors s' AND SentryCrashMonitorTypeAsyncUnsafe = 0) \<and>
    ((\<forall>m \<in> set (env_monitors env). turns_on (getAPI m)) \<longrightarrow>
      sentrycrashcm_getActiveMonitors s' =
        allowed_types (isBeingTraced env (monitor_world s)) (g_requiresAsyncSafety s) types
          AND table_types (env_monitors env))"
proof -
  let ?allowed = "allowed_types (isBeingTraced env (monitor_world s)) (g_requiresAsyncSafety s) types"
  from assms(2) obtain active w where
    set: "set_monitors (env_monitors env) ?allowed 0 (monitor_world s) = Inr (active, w)" and
    s': "sentrycrashcm_getActiveMonitors s' = active"
    by (auto simp: sentrycrashcm_setActiveMonitors_def sentrycrashcm_getActiveMonitors_def bind_run_eq_Inr
      SentryCrashMonitorTypeNone_def)
  have within: "active AND NOT ?allowed = 0"
    using assms(1) by (intro set_monitors_within [OF set]) (simp_all add: obedient_def)
  have "active = ?allowed AND table_types (env_monitors env)"
    if "\<forall>m \<in> set (env_monitors env). turns_on (getAPI m)"
    using set_monitors_exact [OF set] assms(1) that by (simp add: obedient_def)
  moreover have "active AND NOT types = 0" by (rule within_zero [OF within allowed_asked])
  moreover have "active AND SentryCrashMonitorTypeDebuggerUnsafe = 0" if "isBeingTraced env (monitor_world s)"
    by (rule within_zero [OF within]) (simp add: that allowed_traced)
  moreover have "active AND SentryCrashMonitorTypeAsyncUnsafe = 0" if "g_requiresAsyncSafety s"
    by (rule within_zero [OF within]) (simp add: that allowed_async)
  ultimately show ?thesis unfolding s' by blast
qed

text \<open>
  C10. A crash of the crash reporter is recognised and silences it: after any history of choosing
  monitors, notifying and handling exceptions, a notification of a fatal exception answers that the
  reporter crashed exactly if a fatal exception was being handled, and then no monitor is active;
  otherwise no monitor is active once the exception has been handled without such a crash.
\<close>

theorem second_fatal_exception:
  assumes "obedient env" "callback_keeps_flags env" "(monitor_step env)\<^sup>*\<^sup>* (initial_monitoring w) s"
    "sentrycrashcm_notifyFatalExceptionCaptured env async s = Inr (r, s')"
  shows "r = g_handlingFatalException s \<and> g_handlingFatalException s' \<and>
    (r \<longrightarrow> sentrycrashcm_getActiveMonitors s' = SentryCrashMonitorTypeNone) \<and>
    (\<forall>c t. sentrycrashcm_handleException env c s' = Inr t \<longrightarrow> \<not> g_crashedDuringExceptionHandling t \<longrightarrow>
       sentrycrashcm_getActiveMonitors t = SentryCrashMonitorTypeNone)"
proof -
  have "flags_kept (initial_monitoring w) s" using assms(2,3) by (rule steps_flags)
  then have "g_crashedDuringExceptionHandling s \<longrightarrow> g_handlingFatalException s"
    by (simp add: flags_kept_def initial_monitoring_def)
  moreover have "g_handlingFatalException t" if "sentrycrashcm_handleException env c s' = Inr t" for c t
    using handle_flags [OF assms(2) that] notify_flags [OF assms(4)] by (simp add: flags_kept_def)
  ultimately show ?thesis
    using notify_flags [OF assms(4)] notify_turns_all_off [OF assms(1)] handle_turns_all_off [OF assms(1)] assms(4)
    by (auto simp: sentrycrashcm_getActiveMonitors_def SentryCrashMonitorTypeNone_def)
qed

lemma started_on:
  "\<exists>a. appstate_setEnabled five_platform True (started False) = Inr a"
proof -
  obtain st where st: "reset_counters (p_arith five_platform) (g_state (started False)) = Inr st"
    using reset_counters_counts [of "g_state (started False)"] by auto
  let ?a = "(started False)\<lparr>g_isEnabled := True\<rparr>"
  obtain w where "saveState five_platform ''/s'' (?a\<lparr>g_state := st\<rparr>) =
      Inr (True, ?a\<lparr>g_state := st\<rparr>\<lparr>app_world := w\<rparr>)"
    using saveState_writes [OF one_byte_file five_platform_simps(1,3), of "''/s''" "?a\<lparr>g_state := st\<rparr>"] by blast
  then show ?thesis
    by (simp add: appstate_setEnabled_def sentrycrashstate_reset_def st)
qed

lemma started_off: "appstate_setEnabled five_platform False (started False) = Inr (started False)"
  by (simp add: appstate_setEnabled_def)

lemmas app_env_runs = sentrycrashcm_setActiveMonitors_def app_env_def initial_monitoring_def g_monitors_def
  setMonitorEnabled_def isMonitorEnabled_def sentrycrashcm_appstate_getAPI_def appstate_isEnabled_def started_off

lemma app_env_activates:
  "\<exists>s'. sentrycrashcm_setActiveMonitors (app_env True) SentryCrashMonitorTypeAll
     (initial_monitoring (started False)) = Inr s'"
proof -
  have "allowed_types True False SentryCrashMonitorTypeAll = SentryCrashMonitorTypeApplicationState"
    by code_simp
  moreover have "SentryCrashMonitorTypeMachException AND SentryCrashMonitorTypeApplicationState = 0"
      "SentryCrashMonitorTypeSignal AND SentryCrashMonitorTypeApplicationState = 0"
      "SentryCrashMonitorTypeNSException AND SentryCrashMonitorTypeApplicationState = 0"
      "SentryCrashMonitorTypeCPPException AND SentryCrashMonitorTypeApplicationState = 0"
      "SentryCrashMonitorTypeApplicationState \<noteq> 0"
    by code_simp+
  moreover obtain a where "appstate_setEnabled five_platform True (started False) = Inr a"
    using started_on by blast
  ultimately show ?thesis by (simp add: app_env_runs)
qed

theorem active_monitors_allowed_witness:
  "\<exists>s'. sentrycrashcm_setActiveMonitors (app_env True) SentryCrashMonitorTypeAll
      (initial_monitoring (started False)) = Inr s' \<and>
    sentrycrashcm_getActiveMonitors s' = SentryCrashMonitorTypeApplicationState"
proof -
  obtain s' where s': "sentrycrashcm_setActiveMonitors (app_env True) SentryCrashMonitorTypeAll
      (initial_monitoring (started False)) = Inr s'" using app_env_activates by blast
  have "\<forall>m \<in> set (env_monitors (app_env True)). turns_on (getAPI m)"
    by (auto simp: app_env_def g_monitors_def turns_on_appstate)
  with active_monitors_allowed [OF app_env_obedient s']
  have "sentrycrashcm_getActiveMonitors s' = allowed_types True False SentryCrashMonitorTypeAll
      AND table_types (env_monitors (app_env True))"
    by (simp add: app_env_def initial_monitoring_def)
  also have "table_types (env_monitors (app_env True)) = SentryCrashMonitorTypeAll"
    by (simp add: table_types_def app_env_def g_monitors_def monitor_type_defs SentryCrashMonitorTypeAll_def)
  also have "allowed_types True False SentryCrashMonitorTypeAll AND SentryCrashMonitorTypeAll =
      SentryCrashMonitorTypeApplicationState"
    by code_simp
  finally show ?thesis using s' by blast
qed

theorem second_fatal_exception_witness:
  "\<exists>s r s'. sentrycrashcm_notifyFatalExceptionCaptured (app_env False) True
      (initial_monitoring (started False)) = Inr (False, s) \<and>
    sentrycrashcm_notifyFatalExceptionCaptured (app_env False) False s = Inr (r, s') \<and>
    r \<and> sentrycrashcm_getActiveMonitors s' = SentryCrashMonitorTypeNone"
proof -
  let ?s = "(initial_monitoring (started False))\<lparr>g_handlingFatalException := True, g_requiresAsyncSafety := True\<rparr>"
  have first: "sentrycrashcm_notifyFatalExceptionCaptured (app_env False) True
      (initial_monitoring (started False)) = Inr (False, ?s)"
    by (simp add: sentrycrashcm_notifyFatalExceptionCaptured_def initial_monitoring_def)
  then have reach: "(monitor_step (app_env False))\<^sup>*\<^sup>* (initial_monitoring (started False)) ?s"
    by (blast intro: monitor_step.notified)
  obtain r s' where second: "sentrycrashcm_notifyFatalExceptionCaptured (app_env False) False ?s = Inr (r, s')"
    by (simp add: sentrycrashcm_notifyFatalExceptionCaptured_def SentryCrashMonitorTypeNone_def app_env_runs)
  from second_fatal_exception [OF app_env_obedient app_env_callback reach second]
  have "r \<and> sentrycrashcm_getActiveMonitors s' = SentryCrashMonitorTypeNone" by simp
  with first second show ?thesis by blast
qed

end
