(* ===== verification/Report_Content.thy ===== *)
theory Report_Content
  imports Report_Memory Machine_Context Cached_Data Error_Names Binary_Image_Cache Scope_Sync Crash_Monitor Crash_String_Spec
begin

text \<open>
  The parts of a report in \<open>Recording/SentryCrashReport.c\<close>: the calls of the writer that each function
  makes, in their order. None of them looks at what it has written, so a function is the list of
  its calls, unless reading the state of the process is undefined. The crash itself is described by
  a monitor context (\<open>SentryCrashMonitorContext.h\<close>).
\<close>

section \<open>What is reported\<close>

text \<open>The fields of \<open>System\<close>; texts may be missing.\<close>

record system_info =
  systemName :: "bytes option"
  systemVersion :: "bytes option"
  machine :: "bytes option"
  model :: "bytes option"
  kernelVersion :: "bytes option"
  osVersion :: "bytes option"
  isJailbroken :: bool
  bootTime :: "bytes option"
  appStartTime :: "bytes option"
  executablePath :: "bytes option"
  executableName :: "bytes option"
  bundleID :: "bytes option"
  bundleName :: "bytes option"
  bundleVersion :: "bytes option"
  bundleShortVersion :: "bytes option"
  appID :: "bytes option"
  cpuArchitecture :: "bytes option"
  cpuType :: "32 word"
  cpuSubType :: "32 word"
  binaryCPUType :: "32 word"
  binaryCPUSubType :: "32 word"
  processName :: "bytes option"
  processID :: "32 word"
  parentProcessID :: "32 word"
  deviceAppHash :: "bytes option"
  buildType :: "bytes option"
  memorySize :: "64 word"
  freeMemorySize :: "64 word"
  usableMemorySize :: "64 word"

text \<open>
  The nested structures of a context are flattened: \<open>mach_type\<close> is \<open>mach.type\<close>. The flags
  \<open>requiresAsyncSafety\<close> and \<open>crashedDuringCrashHandling\<close> are in the monitors' event around it.
\<close>

record ('c, 'd) monitor_context =
  eventID :: "bytes option"
  handlingCrash :: bool
  registersAreValid :: bool
  crash_isStackOverflow :: bool
  offendingMachineContext :: "'c crash_machine_context option"
  faultAddress :: "64 word"
  crashType :: monitor_types
  exceptionName :: "bytes option"
  crashReason :: "bytes option"
  stackCursor :: "'c stack_cursor option"
  mach_type :: "32 word"
  mach_code :: "64 word"
  mach_subcode :: "64 word"
  NSException_name :: "bytes option"
  NSException_userInfo :: "bytes option"
  CPPException_name :: "bytes option"
  signal_userContext :: "'c option"
  signal_signum :: "32 word"
  signal_sigcode :: "32 word"
  userException_name :: "bytes option"
  userException_language :: "bytes option"
  userException_lineOfCode :: "bytes option"
  userException_customStackTrace :: "bytes option"
  AppState :: "'d app_state"
  System :: system_info
  ZombieException_address :: "64 word"
  ZombieException_name :: "bytes option"
  ZombieException_reason :: "bytes option"

text \<open>
  Everything else that a report is about: the machine, the state of its kernel, symbols, memory,
  the caches, the scope, the globals of the file and the time.
\<close>

record ('c, 'd, 'v, 'w) report_env =
  re_machine :: "('c, 'w) machine_env"
  re_kernel :: 'w
  re_symbols :: symbol_env
  re_uuid_at :: "addr \<Rightarrow> bytes"
  re_memory :: "'d memory_env"
  re_cached :: cached_data
  re_images :: "'v image_cache"
  re_images_fuel :: nat
  re_scope :: crash_scope
  g_userInfoJSON :: "bytes option"
  g_logFilename :: bytes
  re_time :: "64 word"

abbreviation re_cpu :: "('c, 'd, 'v, 'w) report_env \<Rightarrow> 'c cpu_ops" where
  "re_cpu env \<equiv> env_cpu (re_machine env)"

abbreviation re_vm :: "('c, 'd, 'v, 'w) report_env \<Rightarrow> vm" where
  "re_vm env \<equiv> env_vm (re_machine env)"

text \<open>A text is added only if it is there.\<close>

definition add_if_there :: "bytes \<Rightarrow> bytes option \<Rightarrow> 'd writer_call list" where
  "add_if_there key string = (case string of None \<Rightarrow> [] | Some s \<Rightarrow> [AddStringElement (Some key) (Some s)])"

section \<open>Backtraces\<close>

text \<open>The cursor of the crash is for the thread that crashed only.\<close>

definition getStackCursor ::
    "('c, 'd) monitor_context \<Rightarrow> 'c crash_machine_context \<Rightarrow> 'c stack_cursor run" where
  "getStackCursor crash crash_context =
     (case offendingMachineContext crash of
        None \<Rightarrow> Inl UndefinedBehaviour
      | Some offending \<Rightarrow>
          if sentrycrashmc_getThreadFromContext crash_context = sentrycrashmc_getThreadFromContext offending
          then case stackCursor crash of None \<Rightarrow> Inl UndefinedBehaviour | Some cursor \<Rightarrow> Inr cursor
          else Inr (sentrycrashsc_initWithMachineContext SentryCrashSC_STACK_OVERFLOW_THRESHOLD
                      (mcontext crash_context) no_cursor))"

definition write_stack_entry :: "bool \<Rightarrow> stack_entry \<Rightarrow> 'd writer_call list" where
  "write_stack_entry symbolicated entry =
     [BeginObject None] @
     (if symbolicated then
        add_if_there SentryCrashField_ObjectName (sentrycrashfu_lastPathEntry (imageName entry)) @
        [AddUIntegerElement (Some SentryCrashField_ObjectAddr) (imageAddress entry)] @
        add_if_there SentryCrashField_SymbolName (symbolName entry) @
        [AddUIntegerElement (Some SentryCrashField_SymbolAddr) (symbolAddress entry)]
      else []) @
     [AddUIntegerElement (Some SentryCrashField_InstructionAddr) (address entry), EndContainer]"

text \<open>Every cursor is symbolicated by \<open>sentrycrashsymbolicator_symbolicate\<close>, which \<open>initCursor\<close> sets.\<close>

fun write_entries :: "('c, 'd, 'v, 'w) report_env \<Rightarrow> nat \<Rightarrow> 'c stack_cursor \<Rightarrow>
    ('d writer_call list \<times> 'c stack_cursor) run" where
  "write_entries env 0 cursor = Inl OutOfFuel"
| "write_entries env (Suc fuel) cursor =
     bind_run (run_advance (re_cpu env) (re_vm env) cursor) (\<lambda>(found, cursor).
       if \<not> found then Inr ([], cursor)
       else
         bind_run (sentrycrashsymbolicator_symbolicate (re_symbols env) cursor) (\<lambda>(symbolicated, cursor).
         bind_run (write_entries env fuel cursor) (\<lambda>(calls, cursor').
           Inr (write_stack_entry symbolicated (stackEntry cursor) @ calls, cursor'))))"

definition writeBacktrace :: "('c, 'd, 'v, 'w) report_env \<Rightarrow> bytes option \<Rightarrow> 'c stack_cursor \<Rightarrow>
    ('d writer_call list \<times> 'c stack_cursor) run" where
  "writeBacktrace env key cursor =
     bind_run (write_entries env (Suc (cursor_room cursor)) cursor) (\<lambda>(calls, cursor).
       Inr ([BeginObject key, BeginArray (Some SentryCrashField_Contents)] @ calls @
            [EndContainer, AddIntegerElement (Some SentryCrashField_Skipped) 0, EndContainer], cursor))"

section \<open>The stack\<close>

definition kStackContentsPushedDistance :: int where "kStackContentsPushedDistance = 20"
definition kStackContentsPoppedDistance :: int where "kStackContentsPoppedDistance = 10"
definition kStackNotableSearchBackDistance :: int where "kStackNotableSearchBackDistance = 20"
definition kStackNotableSearchForwardDistance :: int where "kStackNotableSearchForwardDistance = 10"

text \<open>The low and the high end of the range around the stack pointer, distances in pointers.\<close>

definition stack_range :: "'c cpu_ops \<Rightarrow> 64 word \<Rightarrow> int \<Rightarrow> int \<Rightarrow> 64 word \<times> 64 word" where
  "stack_range cpu sp back forward =
     (let lowAddress = sp + word_of_int (back * 8 * op_stackGrowDirection cpu * -1);
          highAddress = sp + word_of_int (forward * 8 * op_stackGrowDirection cpu)
      in if highAddress < lowAddress then (highAddress, lowAddress) else (lowAddress, highAddress))"

definition writeStackContents ::
    "('c, 'd, 'v, 'w) report_env \<Rightarrow> bytes option \<Rightarrow> 'c crash_machine_context \<Rightarrow> bool \<Rightarrow> 'd writer_call list" where
  "writeStackContents env key crash_context overflowed =
     (let sp = op_stackPointer (re_cpu env) (mcontext crash_context)
      in if sp = 0 then []
         else
           let (lowAddress, highAddress) =
                 stack_range (re_cpu env) sp kStackContentsPushedDistance kStackContentsPoppedDistance;
               copyLength = sint (ucast (highAddress - lowAddress) :: 32 word);
               (copied, stackBuffer) = sentrycrashmem_copySafely (re_vm env) lowAddress copyLength
           in [BeginObject key,
               AddStringElement (Some SentryCrashField_GrowDirection)
                 (Some (if op_stackGrowDirection (re_cpu env) > 0 then ''+'' else ''-'')),
               AddUIntegerElement (Some SentryCrashField_DumpStart) lowAddress,
               AddUIntegerElement (Some SentryCrashField_DumpEnd) highAddress,
               AddUIntegerElement (Some SentryCrashField_StackPtr) sp,
               AddBooleanElement (Some SentryCrashField_Overflow) overflowed,
               (if copied then AddDataElement (Some SentryCrashField_Contents) stackBuffer
                else AddStringElement (Some SentryCrashField_Error) (Some ''Stack contents not accessible'')),
               EndContainer])"

text \<open>
  \<open>%p\<close> writes a pointer to the base 16. The loop over the addresses of the range ends before it wraps
  around; the fuel is one more than the number of its rounds.
\<close>

definition stack_name :: "64 word \<Rightarrow> bytes" where
  "stack_name a = snprintf 40 (''stack@0x'' @ show_hex (unat a))"

fun notable_stack ::
    "('c, 'd, 'v, 'w) report_env \<Rightarrow> nat \<Rightarrow> 64 word \<Rightarrow> 64 word \<Rightarrow> 'd writer_call list run" where
  "notable_stack env 0 a highAddress = Inl OutOfFuel"
| "notable_stack env (Suc fuel) a highAddress =
     (if a < highAddress then
        let (copied, contents) = sentrycrashmem_copySafely (re_vm env) a 8
        in bind_run
             (if copied
              then writeMemoryContentsIfNotable (re_memory env) (Some (stack_name a)) (le_word (take 8 contents))
              else Inr [])
             (\<lambda>calls. bind_run (notable_stack env fuel (a + 8) highAddress) (\<lambda>rest. Inr (calls @ rest)))
      else Inr [])"

definition writeNotableStackContents ::
    "('c, 'd, 'v, 'w) report_env \<Rightarrow> 'c crash_machine_context \<Rightarrow> int \<Rightarrow> int \<Rightarrow> 'd writer_call list run" where
  "writeNotableStackContents env crash_context backDistance forwardDistance =
     (let sp = op_stackPointer (re_cpu env) (mcontext crash_context)
      in if sp = 0 then Inr []
         else
           let (lowAddress, highAddress) = stack_range (re_cpu env) sp backDistance forwardDistance
           in notable_stack env ((unat (highAddress - lowAddress) + 7) div 8 + 1) lowAddress highAddress)"

section \<open>Registers\<close>

definition register_name :: "bytes option \<Rightarrow> int \<Rightarrow> bytes" where
  "register_name name reg = (case name of None \<Rightarrow> snprintf 30 (''r'' @ show_int reg) | Some n \<Rightarrow> n)"

definition writeBasicRegisters ::
    "'c cpu_ops \<Rightarrow> bytes option \<Rightarrow> 'c crash_machine_context \<Rightarrow> 'd writer_call list run" where
  "writeBasicRegisters cpu key crash_context =
     bind_run
       (in_order (map (\<lambda>reg.
          bind_run (op_registerName cpu reg) (\<lambda>name.
          bind_run (op_registerValue cpu (mcontext crash_context) reg) (\<lambda>v.
            Inr [AddUIntegerElement (Some (register_name name reg)) v])))
          [0 .. op_numRegisters cpu - 1]))
       (\<lambda>calls. Inr ([BeginObject key] @ calls @ [EndContainer]))"

definition writeExceptionRegisters ::
    "'c cpu_ops \<Rightarrow> bytes option \<Rightarrow> 'c crash_machine_context \<Rightarrow> 'd writer_call list run" where
  "writeExceptionRegisters cpu key crash_context =
     bind_run
       (in_order (map (\<lambda>reg.
          bind_run (op_exceptionRegisterName cpu reg) (\<lambda>name.
            Inr [AddUIntegerElement (Some (register_name name reg))
                   (op_exceptionRegisterValue cpu (mcontext crash_context) reg)]))
          [0 .. op_numExceptionRegisters cpu - 1]))
       (\<lambda>calls. Inr ([BeginObject key] @ calls @ [EndContainer]))"

definition writeRegisters ::
    "'c cpu_ops \<Rightarrow> bytes option \<Rightarrow> 'c crash_machine_context \<Rightarrow> 'd writer_call list run" where
  "writeRegisters cpu key crash_context =
     in_order
       [Inr [BeginObject key],
        writeBasicRegisters cpu (Some SentryCrashField_Basic) crash_context,
        (if sentrycrashmc_hasValidExceptionRegisters crash_context
         then writeExceptionRegisters cpu (Some SentryCrashField_Exception) crash_context else Inr []),
        Inr [EndContainer]]"

definition writeNotableRegisters ::
    "('c, 'd, 'v, 'w) report_env \<Rightarrow> 'c crash_machine_context \<Rightarrow> 'd writer_call list run" where
  "writeNotableRegisters env crash_context =
     in_order (map (\<lambda>reg.
       bind_run (op_registerName (re_cpu env) reg) (\<lambda>name.
       bind_run (op_registerValue (re_cpu env) (mcontext crash_context) reg) (\<lambda>v.
         writeMemoryContentsIfNotable (re_memory env) (Some (register_name name reg)) v)))
       [0 .. op_numRegisters (re_cpu env) - 1])"

section \<open>Threads\<close>

definition writeNotableAddresses ::
    "('c, 'd, 'v, 'w) report_env \<Rightarrow> bytes option \<Rightarrow> 'c crash_machine_context \<Rightarrow> 'd writer_call list run" where
  "writeNotableAddresses env key crash_context =
     in_order
       [Inr [BeginObject key],
        writeNotableRegisters env crash_context,
        writeNotableStackContents env crash_context kStackNotableSearchBackDistance
          kStackNotableSearchForwardDistance,
        Inr [EndContainer]]"

definition writeThread ::
    "('c, 'd, 'v, 'w) report_env \<Rightarrow> bytes option \<Rightarrow> ('c, 'd) monitor_context \<Rightarrow> 'c crash_machine_context \<Rightarrow> int \<Rightarrow>
     bool \<Rightarrow> 'd writer_call list run" where
  "writeThread env key crash crash_context threadIndex shouldWriteNotableAddresses =
     (let isCrashedThread = sentrycrashmc_isCrashedContext crash_context;
          thread = sentrycrashmc_getThreadFromContext crash_context
      in bind_run (getStackCursor crash crash_context) (\<lambda>cursor.
         bind_run (writeBacktrace env (Some SentryCrashField_Backtrace) cursor) (\<lambda>(backtrace_calls, cursor).
           in_order
             [Inr [BeginObject key],
              Inr backtrace_calls,
              (if sentrycrashmc_canHaveCPUState crash_context
               then writeRegisters (re_cpu env) (Some SentryCrashField_Registers) crash_context else Inr []),
              Inr [AddIntegerElement (Some SentryCrashField_Index) (word_of_int threadIndex)],
              bind_run (sentrycrashccd_getThreadName (re_cached env) thread)
                (\<lambda>name. Inr (add_if_there SentryCrashField_Name name)),
              bind_run (sentrycrashccd_getQueueName (re_cached env) thread)
                (\<lambda>name. Inr (add_if_there SentryCrashField_DispatchQueue name)),
              Inr [AddBooleanElement (Some SentryCrashField_Crashed) isCrashedThread,
                   AddBooleanElement (Some SentryCrashField_CurrentThread)
                     (thread = sentrycrashthread_self (re_machine env))],
              (if isCrashedThread
               then Inr (writeStackContents env (Some SentryCrashField_Stack) crash_context (hasGivenUp cursor))
               else Inr []),
              (if isCrashedThread \<and> shouldWriteNotableAddresses
               then writeNotableAddresses env (Some SentryCrashField_NotableAddresses) crash_context
               else Inr []),
              Inr [EndContainer]])))"

text \<open>The context of a thread that has not crashed is filled without changing the kernel's state.\<close>

definition write_thread_at ::
    "('c, 'd, 'v, 'w) report_env \<Rightarrow> ('c, 'd) monitor_context \<Rightarrow> 'c crash_machine_context \<Rightarrow> bool \<Rightarrow> nat \<Rightarrow>
     'd writer_call list run" where
  "write_thread_at env crash context notable i =
     bind_run (sentrycrashmc_getThreadAtIndex context i) (\<lambda>thread.
       if thread = sentrycrashmc_getThreadFromContext context
       then writeThread env None crash context (int i) notable
       else
         bind_run (sentrycrashmc_getContextForThread (re_machine env) thread False (re_kernel env))
           (\<lambda>(crash_context, _). writeThread env None crash crash_context (int i) notable))"

definition writeAllThreads ::
    "('c, 'd, 'v, 'w) report_env \<Rightarrow> bytes option \<Rightarrow> ('c, 'd) monitor_context \<Rightarrow> bool \<Rightarrow> 'd writer_call list run" where
  "writeAllThreads env key crash notable =
     (case offendingMachineContext crash of
        None \<Rightarrow> Inr []
      | Some context \<Rightarrow>
          let threadCount = sentrycrashmc_getThreadCount context
          in in_order
               ([Inr [BeginArray key]] @
                map (write_thread_at env crash context notable) [0 ..< nat threadCount] @
                [Inr [EndContainer]]))"

section \<open>Images and memory\<close>

text \<open>A pointer to a UUID or to a message may be null.\<close>

definition at_pointer :: "(addr \<Rightarrow> 'a) \<Rightarrow> addr \<Rightarrow> 'a option" where
  "at_pointer f a = (if a = 0 then None else Some (f a))"

definition writeBinaryImage ::
    "('c, 'd, 'v, 'w) report_env \<Rightarrow> bytes option \<Rightarrow> binary_image \<Rightarrow> 'd writer_call list" where
  "writeBinaryImage env key img =
     [BeginObject key,
      AddUIntegerElement (Some SentryCrashField_ImageAddress) (bi_address img),
      AddUIntegerElement (Some SentryCrashField_ImageVmAddress) (bi_vmAddress img),
      AddUIntegerElement (Some SentryCrashField_ImageSize) (bi_size img),
      AddStringElement (Some SentryCrashField_Name) (bi_name img),
      AddUUIDElement (Some SentryCrashField_UUID) (at_pointer (re_uuid_at env) (bi_uuid img)),
      AddIntegerElement (Some SentryCrashField_CPUType) (scast (bi_cpuType img)),
      AddIntegerElement (Some SentryCrashField_CPUSubType) (scast (bi_cpuSubType img)),
      AddUIntegerElement (Some SentryCrashField_ImageMajorVersion) (bi_majorVersion img),
      AddUIntegerElement (Some SentryCrashField_ImageMinorVersion) (bi_minorVersion img),
      AddUIntegerElement (Some SentryCrashField_ImageRevisionVersion) (bi_revisionVersion img)] @
     add_if_there SentryCrashField_ImageCrashInfoMessage
       (at_pointer (string_at (re_symbols env)) (bi_crashInfoMessage img)) @
     add_if_there SentryCrashField_ImageCrashInfoMessage2
       (at_pointer (string_at (re_symbols env)) (bi_crashInfoMessage2 img)) @
     [EndContainer]"

definition writeBinaryImages :: "('c, 'd, 'v, 'w) report_env \<Rightarrow> bytes option \<Rightarrow> 'd writer_call list run" where
  "writeBinaryImages env key =
     bind_run (sentrycrashbic_iterateOverImages (re_images_fuel env) (re_images env)) (\<lambda>imgs.
       Inr ([BeginArray key] @ concat (map (writeBinaryImage env None) imgs) @ [EndContainer]))"

definition writeMemoryInfo :: "bytes option \<Rightarrow> ('c, 'd) monitor_context \<Rightarrow> 'd writer_call list" where
  "writeMemoryInfo key monitorContext =
     [BeginObject key,
      AddUIntegerElement (Some SentryCrashField_Size) (memorySize (System monitorContext)),
      AddUIntegerElement (Some SentryCrashField_Usable) (usableMemorySize (System monitorContext)),
      AddUIntegerElement (Some SentryCrashField_Free) (freeMemorySize (System monitorContext)),
      EndContainer]"

section \<open>The error\<close>

text \<open>Codes are cut to 32 bits by the conversion to \<open>unsigned\<close>.\<close>

definition write_mach_error ::
    "('c, 'd, 'v, 'w) report_env \<Rightarrow> ('c, 'd) monitor_context \<Rightarrow> 'd writer_call list" where
  "write_mach_error env crash =
     [BeginObject (Some SentryCrashField_Mach),
      AddUIntegerElement (Some SentryCrashField_Exception) (ucast (mach_type crash))] @
     add_if_there SentryCrashField_ExceptionName (sentrycrashmach_exceptionName (sint (mach_type crash))) @
     [AddUIntegerElement (Some SentryCrashField_Code) (ucast (ucast (mach_code crash) :: 32 word))] @
     add_if_there SentryCrashField_CodeName
       (if mach_code crash = 0 then None
        else sentrycrashmach_kernelReturnCodeName (sym_isa (re_symbols env)) (sint (mach_code crash))) @
     [AddUIntegerElement (Some SentryCrashField_Subcode) (mach_subcode crash), EndContainer]"

definition write_signal_error :: "('c, 'd) monitor_context \<Rightarrow> 'd writer_call list" where
  "write_signal_error crash =
     [BeginObject (Some SentryCrashField_Signal),
      AddUIntegerElement (Some SentryCrashField_Signal) (ucast (signal_signum crash))] @
     add_if_there SentryCrashField_Name (sentrycrashsignal_signalName (sint (signal_signum crash))) @
     [AddUIntegerElement (Some SentryCrashField_Code) (ucast (signal_sigcode crash))] @
     add_if_there SentryCrashField_CodeName
       (sentrycrashsignal_signalCodeName (sint (signal_signum crash)) (sint (signal_sigcode crash))) @
     [EndContainer]"

definition write_specific_error :: "('c, 'd) monitor_context \<Rightarrow> 'd writer_call list" where
  "write_specific_error crash =
     (if crashType crash = SentryCrashMonitorTypeMachException then
        [AddStringElement (Some SentryCrashField_Type) (Some SentryCrashExcType_Mach)]
      else if crashType crash = SentryCrashMonitorTypeCPPException then
        [AddStringElement (Some SentryCrashField_Type) (Some SentryCrashExcType_CPPException),
         BeginObject (Some SentryCrashField_CPPException),
         AddStringElement (Some SentryCrashField_Name) (CPPException_name crash),
         EndContainer]
      else if crashType crash = SentryCrashMonitorTypeNSException then
        [AddStringElement (Some SentryCrashField_Type) (Some SentryCrashExcType_NSException),
         BeginObject (Some SentryCrashField_NSException),
         AddStringElement (Some SentryCrashField_Name) (NSException_name crash),
         AddStringElement (Some SentryCrashField_UserInfo) (NSException_userInfo crash)] @
        add_if_there SentryCrashField_Reason (crashReason crash) @
        [EndContainer]
      else if crashType crash = SentryCrashMonitorTypeSignal then
        [AddStringElement (Some SentryCrashField_Type) (Some SentryCrashExcType_Signal)]
      else [])"

definition writeError ::
    "('c, 'd, 'v, 'w) report_env \<Rightarrow> bytes option \<Rightarrow> ('c, 'd) monitor_context \<Rightarrow> 'd writer_call list" where
  "writeError env key crash =
     [BeginObject key] @
     write_mach_error env crash @
     write_signal_error crash @
     [AddUIntegerElement (Some SentryCrashField_Address) (faultAddress crash)] @
     add_if_there SentryCrashField_Reason (crashReason crash) @
     write_specific_error crash @
     [EndContainer]"

section \<open>The application and the system\<close>

definition writeAppStats :: "bytes option \<Rightarrow> ('c, 'd) monitor_context \<Rightarrow> 'd writer_call list" where
  "writeAppStats key monitorContext =
     (let st = AppState monitorContext
      in [BeginObject key,
          AddBooleanElement (Some SentryCrashField_AppActive) (applicationIsActive st),
          AddBooleanElement (Some SentryCrashField_AppInFG) (applicationIsInForeground st),
          AddIntegerElement (Some SentryCrashField_LaunchesSinceCrash) (scast (launchesSinceLastCrash st)),
          AddIntegerElement (Some SentryCrashField_SessionsSinceCrash) (scast (sessionsSinceLastCrash st)),
          AddFloatingPointElement (Some SentryCrashField_ActiveTimeSinceCrash) (activeDurationSinceLastCrash st),
          AddFloatingPointElement (Some SentryCrashField_BGTimeSinceCrash) (backgroundDurationSinceLastCrash st),
          AddIntegerElement (Some SentryCrashField_SessionsSinceLaunch) (scast (sessionsSinceLaunch st)),
          AddFloatingPointElement (Some SentryCrashField_ActiveTimeSinceLaunch) (activeDurationSinceLaunch st),
          AddFloatingPointElement (Some SentryCrashField_BGTimeSinceLaunch) (backgroundDurationSinceLaunch st),
          EndContainer])"

definition writeProcessState ::
    "('c, 'd, 'v, 'w) report_env \<Rightarrow> bytes option \<Rightarrow> ('c, 'd) monitor_context \<Rightarrow> 'd writer_call list run" where
  "writeProcessState env key monitorContext =
     in_order
       [Inr [BeginObject key],
        (if ZombieException_address monitorContext \<noteq> 0 then
           in_order
             [Inr [BeginObject (Some SentryCrashField_LastDeallocedNSException),
                   AddUIntegerElement (Some SentryCrashField_Address) (ZombieException_address monitorContext),
                   AddStringElement (Some SentryCrashField_Name) (ZombieException_name monitorContext),
                   AddStringElement (Some SentryCrashField_Reason) (ZombieException_reason monitorContext)],
              writeAddressReferencedByString (re_memory env) (Some SentryCrashField_ReferencedObject)
                (ZombieException_reason monitorContext),
              Inr [EndContainer]]
         else Inr []),
        Inr [EndContainer]]"

definition writeReportInfo :: "('c, 'd, 'v, 'w) report_env \<Rightarrow> bytes option \<Rightarrow> bytes \<Rightarrow> bytes option \<Rightarrow> bytes option \<Rightarrow>
    'd writer_call list" where
  "writeReportInfo env key type reportID process_name =
     [BeginObject key,
      AddStringElement (Some SentryCrashField_Version) (Some SENTRY_REPORT_VERSION),
      AddStringElement (Some SentryCrashField_ID) reportID,
      AddStringElement (Some SentryCrashField_ProcessName) process_name,
      AddIntegerElement (Some SentryCrashField_Timestamp) (re_time env),
      AddStringElement (Some SentryCrashField_Type) (Some type),
      EndContainer]"

definition writeRecrash :: "bytes option \<Rightarrow> bytes \<Rightarrow> 'd writer_call list" where
  "writeRecrash key crashReportPath = [AddJSONFileElement key crashReportPath True]"

definition writeSystemInfo :: "bytes option \<Rightarrow> ('c, 'd) monitor_context \<Rightarrow> 'd writer_call list" where
  "writeSystemInfo key monitorContext =
     (let sys = System monitorContext
      in [BeginObject key,
          AddStringElement (Some SentryCrashField_SystemName) (systemName sys),
          AddStringElement (Some SentryCrashField_SystemVersion) (systemVersion sys),
          AddStringElement (Some SentryCrashField_Machine) (machine sys),
          AddStringElement (Some SentryCrashField_Model) (model sys),
          AddStringElement (Some SentryCrashField_KernelVersion) (kernelVersion sys),
          AddStringElement (Some SentryCrashField_OSVersion) (osVersion sys),
          AddBooleanElement (Some SentryCrashField_Jailbroken) (isJailbroken sys),
          AddStringElement (Some SentryCrashField_AppStartTime) (appStartTime sys),
          AddStringElement (Some SentryCrashField_ExecutablePath) (executablePath sys),
          AddStringElement (Some SentryCrashField_Executable) (executableName sys),
          AddStringElement (Some SentryCrashField_BundleID) (bundleID sys),
          AddStringElement (Some SentryCrashField_BundleName) (bundleName sys),
          AddStringElement (Some SentryCrashField_BundleVersion) (bundleVersion sys),
          AddStringElement (Some SentryCrashField_BundleShortVersion) (bundleShortVersion sys),
          AddStringElement (Some SentryCrashField_AppUUID) (appID sys),
          AddStringElement (Some SentryCrashField_CPUArch) (cpuArchitecture sys),
          AddIntegerElement (Some SentryCrashField_CPUType) (scast (cpuType sys)),
          AddIntegerElement (Some SentryCrashField_CPUSubType) (scast (cpuSubType sys)),
          AddIntegerElement (Some SentryCrashField_BinaryCPUType) (scast (binaryCPUType sys)),
          AddIntegerElement (Some SentryCrashField_BinaryCPUSubType) (scast (binaryCPUSubType sys)),
          AddStringElement (Some SentryCrashField_ProcessName) (processName sys),
          AddIntegerElement (Some SentryCrashField_ProcessID) (scast (processID sys)),
          AddIntegerElement (Some SentryCrashField_ParentProcessID) (scast (parentProcessID sys)),
          AddStringElement (Some SentryCrashField_DeviceAppHash) (deviceAppHash sys),
          AddStringElement (Some SentryCrashField_BuildType) (buildType sys)] @
         writeMemoryInfo (Some SentryCrashField_Memory) monitorContext @
         writeAppStats (Some SentryCrashField_AppStats) monitorContext @
         [EndContainer])"

definition writeDebugInfo :: "('c, 'd, 'v, 'w) report_env \<Rightarrow> bytes option \<Rightarrow> 'd writer_call list" where
  "writeDebugInfo env key =
     [BeginObject key, AddTextFileLinesElement (Some SentryCrashField_ConsoleLog) (g_logFilename env), EndContainer]"

section \<open>The scope\<close>

definition add_json_if_there :: "bytes \<Rightarrow> bytes option \<Rightarrow> 'd writer_call list" where
  "add_json_if_there key json = (case json of None \<Rightarrow> [] | Some j \<Rightarrow> [AddJSONElement (Some key) j False])"

text \<open>The array of breadcrumbs is begun only if one of the slots is filled.\<close>

definition writeScopeJson :: "crash_scope \<Rightarrow> 'd writer_call list run" where
  "writeScopeJson scope =
     bind_run (crumbs_in_order scope) (\<lambda>crumbs.
       Inr ([BeginObject (Some SentryCrashField_Scope)] @
            add_json_if_there ''user'' (user scope) @
            add_json_if_there ''dist'' (dist scope) @
            add_json_if_there ''context'' (scope_context scope) @
            add_json_if_there ''traceContext'' (traceContext scope) @
            add_json_if_there ''environment'' (environment scope) @
            add_json_if_there ''tags'' (tags scope) @
            add_json_if_there ''extra'' (extras scope) @
            add_json_if_there ''fingerprint'' (fingerprint scope) @
            add_json_if_there ''level'' (level scope) @
            (if crumbs = [] then []
             else [BeginArray (Some ''breadcrumbs'')] @ map (\<lambda>crumb. AddJSONElement (Some ''crumb'') crumb False) crumbs @
                  [EndContainer]) @
            [EndContainer]))"

end
