(* ===== verification/Monitor_Signal.thy ===== *)
theory Monitor_Signal
  imports Report_Content Uuid_Text
begin

unbundle bit_operations_syntax

text \<open>
  \<open>Recording/Monitors/SentryCrashMonitor_Signal.c\<close>: the handlers that are installed for fatal signals
  and put back, and what the handler does with a signal.
\<close>

section \<open>The system\<close>

text \<open>Handlers of the process: the two of the system, the one of this file, and others.\<close>

datatype sig_handler = SIG_DFL | SIG_IGN | HandleSignal | OtherHandler nat

record sig_action =
  sa_handler :: sig_handler
  sa_flags :: "32 word"
  sa_mask :: "32 word"

definition SA_ONSTACK :: "32 word" where "SA_ONSTACK = 0x0001"
definition SA_SIGINFO :: "32 word" where "SA_SIGINFO = 0x0040"
definition SA_64REGSET :: "32 word" where "SA_64REGSET = 0x0200"
definition SIGSTKSZ :: nat where "SIGSTKSZ = 131072"

text \<open>
  What the build and the system decide: which signals \<open>sigaction\<close> accepts, whether there is memory,
  whether a stack can be set, and the random bytes of an identifier.
\<close>

record signal_env =
  has_signal_stack :: bool
  lp64 :: bool
  sigaction_accepts :: "int \<Rightarrow> bool"
  sigaltstack_accepts :: bool
  stack_memory :: bool
  handlers_memory :: bool
  random_uuid :: bytes

type_synonym sig_actions = "int \<Rightarrow> sig_action"

text \<open>\<open>sigaction\<close> replaces the action of a signal that it accepts, and tells the old one.\<close>

definition sigaction :: "signal_env \<Rightarrow> int \<Rightarrow> sig_action \<Rightarrow> sig_actions \<Rightarrow> bool \<times> sig_actions" where
  "sigaction env n action k = (if sigaction_accepts env n then (True, k(n := action)) else (False, k))"

section \<open>The globals\<close>

text \<open>
  \<open>ss_size\<close> is that of \<open>g_signalStack\<close>. The memory for previous handlers has no values at first.
\<close>

record signal_monitor =
  signal_isEnabled :: bool
  g_isSigtermReportingEnabled :: bool
  ss_size :: nat
  g_previousSignalHandlers :: "sig_action option list option"
  g_eventID :: bytes

definition initial_signal_monitor :: signal_monitor where
  "initial_signal_monitor =
     \<lparr>signal_isEnabled = False, g_isSigtermReportingEnabled = False, ss_size = 0,
      g_previousSignalHandlers = None, g_eventID = replicate 37 NUL\<rparr>"

definition sentrycrashcm_setEnableSigtermReporting :: "bool \<Rightarrow> signal_monitor \<Rightarrow> signal_monitor" where
  "sentrycrashcm_setEnableSigtermReporting enabled s = s\<lparr>g_isSigtermReportingEnabled := enabled\<rparr>"

section \<open>Installing\<close>

definition previous_handler :: "sig_action option list option \<Rightarrow> nat \<Rightarrow> sig_action run" where
  "previous_handler handlers i =
     (case handlers of
        None \<Rightarrow> Inl UndefinedBehaviour
      | Some hs \<Rightarrow> bind_run (read_at hs i) (\<lambda>h.
          case h of None \<Rightarrow> Inl UndefinedBehaviour | Some action \<Rightarrow> Inr action))"

definition our_action :: "signal_env \<Rightarrow> sig_action" where
  "our_action env =
     \<lparr>sa_handler = HandleSignal,
      sa_flags = SA_SIGINFO OR SA_ONSTACK OR (if lp64 env then SA_64REGSET else 0), sa_mask = 0\<rparr>"

text \<open>The signals below the \<open>i\<close>-th get their previous handlers back, the last first.\<close>

fun reverse_damage ::
    "signal_env \<Rightarrow> sig_action option list option \<Rightarrow> nat \<Rightarrow> sig_actions \<Rightarrow> sig_actions run" where
  "reverse_damage env handlers 0 k = Inr k"
| "reverse_damage env handlers (Suc i) k =
     bind_run (previous_handler handlers i) (\<lambda>action.
       reverse_damage env handlers i (snd (sigaction env (sentrycrashsignal_fatalSignals ! i) action k)))"

definition skipped :: "bool \<Rightarrow> int \<Rightarrow> bool" where
  "skipped sigterm n \<longleftrightarrow> n = SIGTERM \<and> \<not> sigterm"

text \<open>The loop over the fatal signals from the \<open>i\<close>-th on. A handler that ignored the signal is put back.\<close>

fun install_handlers ::
    "signal_env \<Rightarrow> bool \<Rightarrow> int list \<Rightarrow> nat \<Rightarrow> sig_action option list option \<Rightarrow> sig_actions \<Rightarrow>
       (bool \<times> sig_action option list option \<times> sig_actions) run" where
  "install_handlers env sigterm [] i handlers k = Inr (True, handlers, k)"
| "install_handlers env sigterm (n # ns) i handlers k =
     (if skipped sigterm n then install_handlers env sigterm ns (i + 1) handlers k
      else
        let (accepted, k') = sigaction env n (our_action env) k
        in if \<not> accepted then
             bind_run (reverse_damage env handlers i k') (\<lambda>k. Inr (False, handlers, k))
           else
             case handlers of
               None \<Rightarrow> Inl UndefinedBehaviour
             | Some hs \<Rightarrow>
                 if length hs \<le> i then Inl UndefinedBehaviour
                 else
                   let hs = hs[i := Some (k n)];
                       k' = (if sa_handler (k n) = SIG_IGN then snd (sigaction env n (k n) k') else k')
                   in install_handlers env sigterm ns (i + 1) (Some hs) k')"

definition set_signal_stack :: "signal_env \<Rightarrow> signal_monitor \<Rightarrow> bool \<times> signal_monitor" where
  "set_signal_stack env s =
     (if \<not> has_signal_stack env then (True, s)
      else
        let fresh = (ss_size s = 0); s = (if fresh then s\<lparr>ss_size := SIGSTKSZ\<rparr> else s)
        in if fresh \<and> \<not> stack_memory env then (False, s) else (sigaltstack_accepts env, s))"

definition installSignalHandler ::
    "signal_env \<Rightarrow> signal_monitor \<times> sig_actions \<Rightarrow> (bool \<times> signal_monitor \<times> sig_actions) run" where
  "installSignalHandler env = (\<lambda>(s, k).
     let (stack, s) = set_signal_stack env s
     in if \<not> stack then Inr (False, s, k)
        else
          let handlers =
                (if g_previousSignalHandlers s = None \<and> handlers_memory env
                 then Some (replicate sentrycrashsignal_numFatalSignals None) else g_previousSignalHandlers s)
          in bind_run
               (install_handlers env (g_isSigtermReportingEnabled s) sentrycrashsignal_fatalSignals 0 handlers k)
               (\<lambda>(good, handlers, k). Inr (good, s\<lparr>g_previousSignalHandlers := handlers\<rparr>, k)))"

fun restore_handlers ::
    "signal_env \<Rightarrow> bool \<Rightarrow> int list \<Rightarrow> nat \<Rightarrow> sig_action option list option \<Rightarrow> sig_actions \<Rightarrow> sig_actions run" where
  "restore_handlers env sigterm [] i handlers k = Inr k"
| "restore_handlers env sigterm (n # ns) i handlers k =
     (if skipped sigterm n then restore_handlers env sigterm ns (i + 1) handlers k
      else bind_run (previous_handler handlers i) (\<lambda>action.
             restore_handlers env sigterm ns (i + 1) handlers (snd (sigaction env n action k))))"

definition uninstallSignalHandler ::
    "signal_env \<Rightarrow> signal_monitor \<times> sig_actions \<Rightarrow> (signal_monitor \<times> sig_actions) run" where
  "uninstallSignalHandler env = (\<lambda>(s, k).
     bind_run
       (restore_handlers env (g_isSigtermReportingEnabled s) sentrycrashsignal_fatalSignals 0
         (g_previousSignalHandlers s) k)
       (\<lambda>k. Inr (if has_signal_stack env then s\<lparr>ss_size := 0\<rparr> else s, k)))"

text \<open>The flag is set before the handlers are, and stays when they cannot be.\<close>

definition signal_setEnabled ::
    "signal_env \<Rightarrow> bool \<Rightarrow> signal_monitor \<times> sig_actions \<Rightarrow> (signal_monitor \<times> sig_actions) run" where
  "signal_setEnabled env isEnabled = (\<lambda>(s, k).
     if isEnabled = signal_isEnabled s then Inr (s, k)
     else
       let s = s\<lparr>signal_isEnabled := isEnabled\<rparr>
       in if isEnabled then
            bind_run (installSignalHandler env (s\<lparr>g_eventID := sentrycrashid_generate (random_uuid env)\<rparr>, k))
              (\<lambda>(_, s, k). Inr (s, k))
          else uninstallSignalHandler env (s, k))"

definition signal_isEnabled_fn :: "signal_monitor \<times> sig_actions \<Rightarrow> bool" where
  "signal_isEnabled_fn = (\<lambda>(s, k). signal_isEnabled s)"

section \<open>A signal\<close>

definition signal_addContextualInfoToEvent :: "('c, 'd) monitor_context \<Rightarrow> ('c, 'd) monitor_context" where
  "signal_addContextualInfoToEvent eventContext =
     (if crashType eventContext AND (SentryCrashMonitorTypeSignal OR SentryCrashMonitorTypeMachException) = 0
      then eventContext\<lparr>signal_signum := word_of_int SIGABRT\<rparr> else eventContext)"

definition sentrycrashcm_signal_getAPI ::
    "signal_env \<Rightarrow> (signal_monitor \<times> sig_actions, ('c, 'd) monitor_context) monitor_api" where
  "sentrycrashcm_signal_getAPI env =
     \<lparr>api_setEnabled = Some (signal_setEnabled env), api_isEnabled = Some signal_isEnabled_fn,
      api_addContextualInfoToEvent = Some (\<lambda>_. signal_addContextualInfoToEvent)\<rparr>"

record siginfo =
  si_signo :: "32 word"
  si_code :: "32 word"
  si_addr :: "64 word"

text \<open>A context of zeros; \<open>z\<close> is the zero of \<open>double\<close>.\<close>

definition zero_context :: "'d \<Rightarrow> ('c, 'd) monitor_context" where
  "zero_context z =
     \<lparr>eventID = None, handlingCrash = False, registersAreValid = False, crash_isStackOverflow = False,
      offendingMachineContext = None, faultAddress = 0, crashType = 0, exceptionName = None, crashReason = None,
      stackCursor = None, mach_type = 0, mach_code = 0, mach_subcode = 0, NSException_name = None,
      NSException_userInfo = None, CPPException_name = None, signal_userContext = None, signal_signum = 0,
      signal_sigcode = 0, userException_name = None, userException_language = None,
      userException_lineOfCode = None, userException_customStackTrace = None,
      AppState =
        \<lparr>activeDurationSinceLastCrash = z, backgroundDurationSinceLastCrash = z, launchesSinceLastCrash = 0,
         sessionsSinceLastCrash = 0, activeDurationSinceLaunch = z, backgroundDurationSinceLaunch = z,
         sessionsSinceLaunch = 0, crashedLastLaunch = False, durationFromCrashStateInitToLastCrash = z,
         crashedThisLaunch = False, appStateTransitionTime = z, applicationIsActive = False,
         applicationIsInForeground = False\<rparr>,
      System =
        \<lparr>systemName = None, systemVersion = None, machine = None, model = None, kernelVersion = None,
         osVersion = None, isJailbroken = False, bootTime = None, appStartTime = None, executablePath = None,
         executableName = None, bundleID = None, bundleName = None, bundleVersion = None,
         bundleShortVersion = None, appID = None, cpuArchitecture = None, cpuType = 0, cpuSubType = 0,
         binaryCPUType = 0, binaryCPUSubType = 0, processName = None, processID = 0, parentProcessID = 0,
         deviceAppHash = None, buildType = None, memorySize = 0, freeMemorySize = 0, usableMemorySize = 0\<rparr>,
      ZombieException_address = 0, ZombieException_name = None, ZombieException_reason = None\<rparr>"

definition MAX_STACKTRACE_LENGTH :: int where "MAX_STACKTRACE_LENGTH = 100"

text \<open>What is filled in about a signal, in a context whose memory held \<open>garbage\<close> before.\<close>

definition signal_event ::
    "'d \<Rightarrow> bytes \<Rightarrow> siginfo \<Rightarrow> 'c \<Rightarrow> 'c crash_machine_context \<Rightarrow> ('c, 'd) monitor_context" where
  "signal_event z event_id signalInfo userContext machine_context =
     (zero_context z)\<lparr>crashType := SentryCrashMonitorTypeSignal, eventID := Some event_id,
        offendingMachineContext := Some machine_context, registersAreValid := True,
        faultAddress := si_addr signalInfo, signal_userContext := Some userContext,
        signal_signum := si_signo signalInfo, signal_sigcode := si_code signalInfo,
        stackCursor := Some (sentrycrashsc_initWithMachineContext MAX_STACKTRACE_LENGTH (mcontext machine_context)
          no_cursor)\<rparr>"

text \<open>
  The handler. \<open>signals\<close> finds the globals of this file in the world, which the machine and the
  monitors share; \<open>raise\<close> is the system's.
\<close>

definition handleSignal ::
    "('c, 'w) machine_env \<Rightarrow> ('w, ('c, 'd) monitor_context) monitor_env \<Rightarrow> ('w \<Rightarrow> signal_monitor) \<Rightarrow>
     (int \<Rightarrow> 'w \<Rightarrow> 'w) \<Rightarrow> 'd \<Rightarrow> 'c crash_machine_context \<Rightarrow> int \<Rightarrow> siginfo \<Rightarrow> 'c \<Rightarrow> 'w monitoring \<Rightarrow>
       'w monitoring run" where
  "handleSignal env monitors signals raise z garbage signum signalInfo userContext s =
     bind_run
       (if signal_isEnabled (signals (monitor_world s)) then
          let (threads, numThreads, w) = sentrycrashmc_suspendEnvironment env (monitor_world s)
          in bind_run (sentrycrashcm_notifyFatalExceptionCaptured monitors False (s\<lparr>monitor_world := w\<rparr>)) (\<lambda>(_, s).
             bind_run (sentrycrashmc_getContextForSignal env userContext garbage (monitor_world s))
               (\<lambda>(machine_context, w).
                  let s = s\<lparr>monitor_world := w\<rparr>;
                      crashContext = signal_event z (g_eventID (signals w)) signalInfo userContext machine_context
                  in bind_run
                       (sentrycrashcm_handleException monitors
                         \<lparr>requiresAsyncSafety = False, crashedDuringCrashHandling = False,
                          event_data = crashContext\<rparr> s)
                       (\<lambda>s. bind_run (sentrycrashmc_resumeEnvironment env threads numThreads (monitor_world s))
                          (\<lambda>w. Inr (s\<lparr>monitor_world := w\<rparr>)))))
        else Inr s)
       (\<lambda>s. Inr (s\<lparr>monitor_world := raise signum (monitor_world s)\<rparr>))"

end
