(* ===== verification/Monitor_Views.thy ===== *)
theory Monitor_Views
  imports Crash_Monitor_Spec Machine_Context_Spec
begin

text \<open>
  What monitors, the machine and the callback for events leave alone: a view of the world, which may be
  any function of it. The monitors for signals and for Mach exceptions share the lemmas.
\<close>

section \<open>Monitors\<close>

text \<open>Turning the monitor on or off always returns and leaves the view as it is.\<close>

definition leaves :: "('w \<Rightarrow> 'v) \<Rightarrow> ('w, 'e) monitor \<Rightarrow> bool" where
  "leaves view m \<longleftrightarrow> (\<forall>b w. \<exists>w'. setMonitorEnabled m b w = Inr w' \<and> view w' = view w)"

lemma leaves_pass:
  "\<forall>m\<in>set ms. leaves view m \<Longrightarrow>
    \<exists>active' w'. set_monitors ms types active w = Inr (active', w') \<and> view w' = view w"
proof (induction ms arbitrary: active w)
  case (Cons m ms)
  obtain u where u: "setMonitorEnabled m (monitorType m AND types \<noteq> 0) w = Inr u" "view u = view w"
    using Cons.prems unfolding leaves_def by (meson list.set_intros(1))
  let ?active = "if isMonitorEnabled m u then active OR monitorType m else active AND NOT (monitorType m)"
  obtain active' w' where "set_monitors ms types ?active u = Inr (active', w')" "view w' = view u"
    using Cons.IH [of ?active u] Cons.prems by (meson list.set_intros(2))
  with u show ?case by simp
qed simp

lemma set_monitors_append:
  "set_monitors (as @ bs) types active w =
    bind_run (set_monitors as types active w) (\<lambda>(active, w). set_monitors bs types active w)"
  by (induction as arbitrary: active w) (simp_all add: bind_run_assoc)

lemma leavesE:
  assumes "\<forall>m\<in>set ms. leaves view m"
  obtains active' w' where "set_monitors ms types active w = Inr (active', w')" "view w' = view w"
  using leaves_pass [OF assms] by blast

text \<open>When all monitors but one are such, the view changes as that one changes it.\<close>

lemma set_monitors_one:
  assumes "\<forall>m\<in>set as \<union> set bs. leaves view m"
    and "\<And>u. view u = view w \<Longrightarrow> \<exists>u'. setMonitorEnabled m (monitorType m AND types \<noteq> 0) u = Inr u' \<and> P (view u')"
  shows "\<exists>active' w'. set_monitors (as @ m # bs) types active w = Inr (active', w') \<and> P (view w')"
proof -
  have others: "\<forall>m\<in>set as. leaves view m" "\<forall>m\<in>set bs. leaves view m" using assms(1) by simp_all
  obtain a1 w1 where w1: "set_monitors as types active w = Inr (a1, w1)" "view w1 = view w"
    using others(1) by (rule leavesE)
  obtain w2 where w2: "setMonitorEnabled m (monitorType m AND types \<noteq> 0) w1 = Inr w2" "P (view w2)"
    using assms(2) [OF w1(2)] by blast
  define a2 where "a2 = (if isMonitorEnabled m w2 then a1 OR monitorType m else a1 AND NOT (monitorType m))"
  obtain a3 w3 where "set_monitors bs types a2 w2 = Inr (a3, w3)" "view w3 = view w2"
    using others(2) by (rule leavesE)
  then show ?thesis using w1(1) w2 by (simp add: set_monitors_append a2_def)
qed

lemma setActive_none_one:
  assumes "env_monitors monitors = as @ m # bs" "\<forall>m\<in>set as \<union> set bs. leaves view m"
    and "\<And>u. view u = view (monitor_world s) \<Longrightarrow> \<exists>u'. setMonitorEnabled m False u = Inr u' \<and> P (view u')"
  shows "\<exists>s'. sentrycrashcm_setActiveMonitors monitors SentryCrashMonitorTypeNone s = Inr s' \<and>
    P (view (monitor_world s'))"
proof -
  have none: "allowed_types traced safe SentryCrashMonitorTypeNone = 0" for traced safe
    by (simp add: allowed_types_def SentryCrashMonitorTypeNone_def)
  have "\<exists>active' w'. set_monitors (as @ m # bs) 0 SentryCrashMonitorTypeNone (monitor_world s) = Inr (active', w') \<and>
      P (view w')"
    by (rule set_monitors_one [OF assms(2)]) (use assms(3) in simp)
  then obtain active' w' where
      "set_monitors (as @ m # bs) 0 SentryCrashMonitorTypeNone (monitor_world s) = Inr (active', w')" "P (view w')"
    by blast
  then show ?thesis using assms(1) none by (simp add: sentrycrashcm_setActiveMonitors_def)
qed

section \<open>The callback for events\<close>

text \<open>Called in a world with \<open>P\<close>, the callback returns and leaves the view and the flags of a crash as they are.\<close>

definition quiet_callback :: "('w \<Rightarrow> bool) \<Rightarrow> ('w \<Rightarrow> 'v) \<Rightarrow> ('w, 'e) monitor_env \<Rightarrow> bool" where
  "quiet_callback P view monitors \<longleftrightarrow>
     (\<forall>c s. P (monitor_world s) \<longrightarrow> (\<exists>s'. g_onExceptionEvent monitors c s = Inr s' \<and>
        view (monitor_world s') = view (monitor_world s) \<and>
        g_handlingFatalException s' = g_handlingFatalException s \<and>
        g_crashedDuringExceptionHandling s' = g_crashedDuringExceptionHandling s))"

lemma handle_quiet:
  assumes "quiet_callback P view monitors" "P (monitor_world s)"
  shows "\<exists>s1. sentrycrashcm_handleException monitors c s =
      (if g_handlingFatalException s \<and> \<not> g_crashedDuringExceptionHandling s
       then sentrycrashcm_setActiveMonitors monitors SentryCrashMonitorTypeNone s1 else Inr s1) \<and>
    view (monitor_world s1) = view (monitor_world s)"
proof -
  obtain s1 where "g_onExceptionEvent monitors (complete_event monitors s c) s = Inr s1"
      "view (monitor_world s1) = view (monitor_world s)"
      "g_handlingFatalException s1 = g_handlingFatalException s"
      "g_crashedDuringExceptionHandling s1 = g_crashedDuringExceptionHandling s"
    using assms unfolding quiet_callback_def by meson
  then show ?thesis
    by (intro exI [of _ s1]) (simp add: sentrycrashcm_handleException_def)
qed

text \<open>
  Telling that a fatal exception was captured turns all monitors off when there was one before, and
  does nothing else otherwise.
\<close>

lemma notify_one:
  assumes "env_monitors monitors = as @ m # bs" "\<forall>m\<in>set as \<union> set bs. leaves view m"
    and "\<And>u. view u = view (monitor_world s) \<Longrightarrow> \<exists>u'. setMonitorEnabled m False u = Inr u' \<and> P (view u')"
  shows "\<exists>s1. sentrycrashcm_notifyFatalExceptionCaptured monitors async s =
      Inr (g_crashedDuringExceptionHandling s1, s1) \<and> g_handlingFatalException s1 \<and>
    (if g_crashedDuringExceptionHandling s1 then P (view (monitor_world s1))
     else monitor_world s1 = monitor_world s)"
proof -
  let ?s0 = "s\<lparr>g_requiresAsyncSafety := g_requiresAsyncSafety s \<or> async\<rparr>"
  let ?s = "(if g_handlingFatalException s then ?s0\<lparr>g_crashedDuringExceptionHandling := True\<rparr> else ?s0)
    \<lparr>g_handlingFatalException := True\<rparr>"
  have run: "sentrycrashcm_notifyFatalExceptionCaptured monitors async s =
      bind_run (if g_crashedDuringExceptionHandling ?s
            then sentrycrashcm_setActiveMonitors monitors SentryCrashMonitorTypeNone ?s else Inr ?s)
           (\<lambda>s. Inr (g_crashedDuringExceptionHandling s, s))"
    by (simp add: sentrycrashcm_notifyFatalExceptionCaptured_def Let_def)
  show ?thesis
  proof (cases "g_crashedDuringExceptionHandling ?s")
    case True
    have "monitor_world ?s = monitor_world s" by simp
    then obtain s1 where
        s1: "sentrycrashcm_setActiveMonitors monitors SentryCrashMonitorTypeNone ?s = Inr s1"
          "P (view (monitor_world s1))"
      using setActive_none_one [OF assms(1,2), of ?s P] assms(3) by auto
    with True setActive_flags [OF s1(1)] show ?thesis
      unfolding run by (intro exI [of _ s1]) auto
  next
    case False
    then show ?thesis unfolding run by (intro exI [of _ ?s]) auto
  qed
qed

text \<open>So after the exception has been handled, the view is as turning the monitor off makes it.\<close>

lemma exception_one:
  assumes table: "env_monitors monitors = as @ m # bs" "\<forall>m\<in>set as \<union> set bs. leaves view m"
    and callback: "quiet_callback C view monitors" "C (monitor_world s)" and fatal: "g_handlingFatalException s"
    and off: "\<And>u. Q (view u) \<Longrightarrow> \<exists>u'. setMonitorEnabled m False u = Inr u' \<and> P (view u')"
    and now: "if g_crashedDuringExceptionHandling s then P (view (monitor_world s)) else Q (view (monitor_world s))"
  shows "\<exists>s'. sentrycrashcm_handleException monitors c s = Inr s' \<and> P (view (monitor_world s'))"
proof -
  obtain s1 where s1: "sentrycrashcm_handleException monitors c s =
      (if g_handlingFatalException s \<and> \<not> g_crashedDuringExceptionHandling s
       then sentrycrashcm_setActiveMonitors monitors SentryCrashMonitorTypeNone s1 else Inr s1)"
      "view (monitor_world s1) = view (monitor_world s)"
    using handle_quiet [OF callback] by blast
  show ?thesis
  proof (cases "g_crashedDuringExceptionHandling s")
    case True
    with s1 now show ?thesis by simp
  next
    case False
    then have "\<And>u. view u = view (monitor_world s1) \<Longrightarrow> \<exists>u'. setMonitorEnabled m False u = Inr u' \<and> P (view u')"
      using off now s1(2) by simp
    from setActive_none_one [OF table this] False fatal s1(1) show ?thesis by simp
  qed
qed

section \<open>The machine\<close>

text \<open>Stopping and resuming threads leaves the view alone, and there are not more threads than a context has room for.\<close>

definition quiet_machine :: "('w \<Rightarrow> 'v) \<Rightarrow> ('c, 'w) machine_env \<Rightarrow> bool" where
  "quiet_machine view env \<longleftrightarrow>
     (\<forall>t w. view (thread_suspend env t w) = view w) \<and> (\<forall>t w. view (thread_resume env t w) = view w) \<and>
     (\<forall>t w. view (port_deallocate env t w) = view w) \<and>
     (\<forall>w threads. task_threads env w = Some threads \<longrightarrow> length threads \<le> maxThreads)"

lemma quiet_machineD:
  "quiet_machine view env \<Longrightarrow> view (thread_suspend env t w) = view w"
  "quiet_machine view env \<Longrightarrow> view (thread_resume env t w) = view w"
  "quiet_machine view env \<Longrightarrow> view (port_deallocate env t w) = view w"
  "quiet_machine view env \<Longrightarrow> task_threads env w = Some threads \<Longrightarrow> length threads \<le> maxThreads"
  unfolding quiet_machine_def by blast+

lemma quiet_reserved [simp]: "quiet_machine view (env\<lparr>reserved := r\<rparr>) = quiet_machine view env"
  unfolding quiet_machine_def by simp

lemma quiet_folds:
  assumes "quiet_machine view env"
  shows "view (fold (thread_suspend env) ts w) = view w" "view (fold (thread_resume env) ts w) = view w"
    "view (fold (port_deallocate env) ts w) = view w"
  by (rule fold_same, rule quiet_machineD [OF assms])+

lemma suspend_quiet:
  assumes "quiet_machine view env" "sentrycrashmc_suspendEnvironment env w = (threads, n, w')"
  shows "view w' = view w" "n \<le> length (case threads of None \<Rightarrow> [] | Some ts \<Rightarrow> ts)"
  using assms
  by (auto simp: sentrycrashmc_suspendEnvironment_def sentrycrashmc_suspendEnvironment_upToMaxSupportedThreads_def
    quiet_folds split: option.splits if_splits)

lemma resume_quiet:
  assumes "quiet_machine view env" "n \<le> length (case threads of None \<Rightarrow> [] | Some ts \<Rightarrow> ts)"
  shows "\<exists>w'. sentrycrashmc_resumeEnvironment env threads n w = Inr w' \<and> view w' = view w"
  using assms(2)
  by (cases threads)
     (simp_all add: sentrycrashmc_resumeEnvironment_def Let_def quiet_folds [OF assms(1)] del: split_paired_Ex)

text \<open>Collecting the facts of a crash returns, whatever the registers are.\<close>

lemma crash_facts_quiet:
  assumes "quiet_machine view env" "length (allThreads context) = maxThreads"
  shows "\<exists>context' w'. add_crash_facts env context w = Inr (context', w') \<and> view w' = view w"
proof (cases "task_threads env w")
  case None
  obtain b where "isStackOverflow env context = Inr b" using isStackOverflow_returns by blast
  with None show ?thesis by (simp add: add_crash_facts_def getThreadList_def)
next
  case (Some threads)
  obtain c where "add_crash_facts env context w = Inr (c, fold (port_deallocate env) threads w)"
    using crash_facts_fit [OF Some quiet_machineD(4) [OF assms(1) Some] assms(2)] by auto
  then show ?thesis by (simp add: quiet_folds [OF assms(1)] del: split_paired_Ex)
qed

lemma signal_context_quiet:
  assumes "quiet_machine view env" "length (allThreads garbage) = maxThreads"
  shows "\<exists>context w'. sentrycrashmc_getContextForSignal env source garbage w = Inr (context, w') \<and> view w' = view w"
  using crash_facts_quiet [OF assms(1)] assms(2)
  by (simp add: sentrycrashmc_getContextForSignal_def Let_def del: split_paired_Ex)

lemma thread_context_quiet:
  assumes "quiet_machine view env"
  shows "\<exists>context w'. sentrycrashmc_getContextForThread env thread isCrashed w = Inr (context, w') \<and> view w' = view w"
  using crash_facts_quiet [OF assms filled_context(1)]
  by (cases "sentrycrashmc_isCrashedContext (fill_context env thread isCrashed)")
     (simp_all add: sentrycrashmc_getContextForThread_def del: split_paired_Ex)

end
