(* ===== verification/Monitor_Signal_Spec.thy ===== *)
theory Monitor_Signal_Spec
  imports Monitor_Signal Monitor_Views
begin

unbundle bit_operations_syntax

text \<open>
  What the signal monitor promises: the handlers it installs are put back as they were, by turning it
  off and when it cannot be turned on. It is a \<open>switch\<close> for the table of monitors.
\<close>

interpretation signals: switch "signal_setEnabled env" signal_isEnabled_fn
  for env :: signal_env
  by unfold_locales
     (auto simp: signal_setEnabled_def signal_isEnabled_fn_def installSignalHandler_def uninstallSignalHandler_def
        set_signal_stack_def Let_def bind_run_eq_Inr split: if_splits prod.splits)

lemma turns_off_signals: "turns_off (Some (sentrycrashcm_signal_getAPI env))"
  by (auto simp: turns_off_def sentrycrashcm_signal_getAPI_def dest: signals.off_after_off)

section \<open>The fatal signals\<close>

abbreviation fatals :: "int list" where "fatals \<equiv> sentrycrashsignal_fatalSignals"

lemma fatals_distinct: "distinct fatals"
  by code_simp

lemma fatals_length [simp]: "length fatals = sentrycrashsignal_numFatalSignals"
  by code_simp

lemma fatals_unskipped: "Suc i < sentrycrashsignal_numFatalSignals \<Longrightarrow> \<not> skipped sigterm (fatals ! i)"
proof -
  assume "Suc i < sentrycrashsignal_numFatalSignals"
  then have "i < 8" by (simp add: sentrycrashsignal_numFatalSignals_def g_fatalSignalData_def)
  moreover have "\<forall>i<8. fatals ! i \<noteq> SIGTERM" by code_simp
  ultimately show ?thesis by (simp add: skipped_def)
qed

lemma fatals_at: "i < sentrycrashsignal_numFatalSignals \<Longrightarrow> drop i fatals = fatals ! i # drop (Suc i) fatals"
  by (simp add: Cons_nth_drop_Suc)

lemma fatals_taken: "i < sentrycrashsignal_numFatalSignals \<Longrightarrow> fatals ! i \<notin> set (take i fatals)"
  using fatals_distinct by (auto simp: in_set_conv_nth nth_eq_iff_index_eq)

lemma set_take_Suc: "i < length xs \<Longrightarrow> set (take (Suc i) xs) = insert (xs ! i) (set (take i xs))"
  by (simp add: take_Suc_conv_app_nth)

section \<open>Installing and putting back\<close>

text \<open>The actions when the first \<open>i\<close> signals are done, and the handlers that were saved of them.\<close>

definition installed :: "signal_env \<Rightarrow> bool \<Rightarrow> sig_actions \<Rightarrow> nat \<Rightarrow> sig_actions" where
  "installed env sigterm k i = (\<lambda>n.
     if n \<in> set (take i fatals) \<and> \<not> skipped sigterm n \<and> sa_handler (k n) \<noteq> SIG_IGN
     then our_action env else k n)"

definition saved :: "bool \<Rightarrow> sig_actions \<Rightarrow> nat \<Rightarrow> sig_action option list \<Rightarrow> bool" where
  "saved sigterm k i hs \<longleftrightarrow> length hs = sentrycrashsignal_numFatalSignals \<and>
     (\<forall>j<i. \<not> skipped sigterm (fatals ! j) \<longrightarrow> hs ! j = Some (k (fatals ! j)))"

lemma installed_start: "installed env sigterm k 0 = k"
  by (simp add: installed_def)

lemma installed_at: "i < sentrycrashsignal_numFatalSignals \<Longrightarrow> installed env sigterm k i (fatals ! i) = k (fatals ! i)"
  by (simp add: installed_def fatals_taken)

lemma installed_next:
  assumes "i < sentrycrashsignal_numFatalSignals"
  shows "skipped sigterm (fatals ! i) \<Longrightarrow> installed env sigterm k (Suc i) = installed env sigterm k i"
    and "\<not> skipped sigterm (fatals ! i) \<Longrightarrow> installed env sigterm k (Suc i) =
      (if sa_handler (k (fatals ! i)) = SIG_IGN then installed env sigterm k i
       else (installed env sigterm k i)(fatals ! i := our_action env))"
  using assms by (auto simp: installed_def set_take_Suc fatals_taken fun_eq_iff)

lemma saved_next:
  "saved sigterm k i hs \<Longrightarrow> i < sentrycrashsignal_numFatalSignals \<Longrightarrow>
    saved sigterm k (Suc i) (hs[i := Some (k (fatals ! i))])"
  by (auto simp: saved_def nth_list_update less_Suc_eq)

lemma saved_skip: "saved sigterm k i hs \<Longrightarrow> skipped sigterm (fatals ! i) \<Longrightarrow> saved sigterm k (Suc i) hs"
  by (auto simp: saved_def less_Suc_eq)

lemma install_all:
  assumes "\<And>n. n \<in> set fatals \<Longrightarrow> sigaction_accepts env n"
  shows "i \<le> sentrycrashsignal_numFatalSignals \<Longrightarrow> saved sigterm k i hs \<Longrightarrow>
    \<exists>hs'. install_handlers env sigterm (drop i fatals) i (Some hs) (installed env sigterm k i) =
        Inr (True, Some hs', installed env sigterm k sentrycrashsignal_numFatalSignals) \<and>
      saved sigterm k sentrycrashsignal_numFatalSignals hs'"
proof (induction "sentrycrashsignal_numFatalSignals - i" arbitrary: i hs)
  case 0
  then show ?case by simp
next
  case (Suc d)
  then have i: "i < sentrycrashsignal_numFatalSignals" "d = sentrycrashsignal_numFatalSignals - Suc i"
      "Suc i \<le> sentrycrashsignal_numFatalSignals" by simp_all
  let ?n = "fatals ! i"
  show ?case
  proof (cases "skipped sigterm ?n")
    case True
    with Suc.hyps(1) [OF i(2,3) saved_skip [OF Suc.prems(2) True]] i(1) show ?thesis
      by (simp add: fatals_at installed_next(1))
  next
    case False
    have accepted: "sigaction_accepts env ?n" using assms i(1) by simp
    have "length hs = sentrycrashsignal_numFatalSignals" using Suc.prems(2) by (simp add: saved_def)
    then have "install_handlers env sigterm (drop i fatals) i (Some hs) (installed env sigterm k i) =
        install_handlers env sigterm (drop (Suc i) fatals) (Suc i) (Some (hs[i := Some (k ?n)]))
          (installed env sigterm k (Suc i))"
      using False accepted i(1)
      by (simp add: fatals_at sigaction_def installed_at installed_next(2) Let_def fun_upd_idem)
    with Suc.hyps(1) [OF i(2,3) saved_next [OF Suc.prems(2) i(1)]] show ?thesis by simp
  qed
qed

lemma restore_all:
  assumes "\<And>n. n \<in> set fatals \<Longrightarrow> sigaction_accepts env n"
    and "saved sigterm k sentrycrashsignal_numFatalSignals hs"
  shows "i \<le> sentrycrashsignal_numFatalSignals \<Longrightarrow>
    restore_handlers env sigterm (drop i fatals) i (Some hs) k' =
      Inr (\<lambda>n. if n \<in> set (drop i fatals) \<and> \<not> skipped sigterm n then k n else k' n)"
proof (induction "sentrycrashsignal_numFatalSignals - i" arbitrary: i k')
  case 0
  then show ?case by simp
next
  case (Suc d)
  then have i: "i < sentrycrashsignal_numFatalSignals" "d = sentrycrashsignal_numFatalSignals - Suc i"
      "Suc i \<le> sentrycrashsignal_numFatalSignals" by simp_all
  let ?n = "fatals ! i"
  have accepted: "sigaction_accepts env ?n" using assms(1) i(1) by simp
  have hs: "length hs = sentrycrashsignal_numFatalSignals"
      "\<not> skipped sigterm ?n \<Longrightarrow> hs ! i = Some (k ?n)"
    using assms(2) i(1) by (simp_all add: saved_def)
  show ?case
    using i(1) hs accepted Suc.hyps(1) [OF i(2,3)]
    by (auto simp: fatals_at previous_handler_def sigaction_def fun_eq_iff)
qed

lemma reverse_all:
  assumes "saved sigterm k i hs" "i < sentrycrashsignal_numFatalSignals"
    and "\<And>j. j < i \<Longrightarrow> sigaction_accepts env (fatals ! j)"
  shows "j \<le> i \<Longrightarrow> reverse_damage env (Some hs) j k' = Inr (\<lambda>n. if n \<in> set (take j fatals) then k n else k' n)"
proof (induction j arbitrary: k')
  case (Suc j)
  then have j: "j < i" "Suc j < sentrycrashsignal_numFatalSignals" using assms(2) by simp_all
  then have "hs ! j = Some (k (fatals ! j))" "length hs = sentrycrashsignal_numFatalSignals"
    using assms(1) fatals_unskipped [of j sigterm] by (simp_all add: saved_def)
  with Suc j assms(3) [OF j(1)] show ?case
    by (auto simp: previous_handler_def sigaction_def set_take_Suc fun_eq_iff)
qed simp

text \<open>When the \<open>m\<close>-th signal is the first that is not accepted, everything is as it was.\<close>

lemma install_rejected:
  assumes "m < sentrycrashsignal_numFatalSignals" "\<not> sigaction_accepts env (fatals ! m)" "\<not> skipped sigterm (fatals ! m)"
    and "\<And>j. j < m \<Longrightarrow> sigaction_accepts env (fatals ! j)"
  shows "i \<le> m \<Longrightarrow> saved sigterm k i hs \<Longrightarrow>
    \<exists>hs'. install_handlers env sigterm (drop i fatals) i (Some hs) (installed env sigterm k i) =
        Inr (False, Some hs', k) \<and> saved sigterm k m hs'"
proof (induction "m - i" arbitrary: i hs)
  case 0
  then have i: "i = m" by simp
  have undone: "reverse_damage env (Some hs) m (installed env sigterm k m) = Inr k"
    using reverse_all [of sigterm k m hs env m "installed env sigterm k m"] 0 assms(1,4) i
    by (auto simp: installed_def fun_eq_iff)
  with assms(1-3) 0 show ?case by (simp add: i fatals_at sigaction_def)
next
  case (Suc d)
  then have i: "i < sentrycrashsignal_numFatalSignals" "d = m - Suc i" "Suc i \<le> m" "i < m"
    using assms(1) by simp_all
  let ?n = "fatals ! i"
  have n: "\<not> skipped sigterm ?n" "sigaction_accepts env ?n"
    using fatals_unskipped [of i sigterm] assms(1,4) i by simp_all
  have "length hs = sentrycrashsignal_numFatalSignals" using Suc.prems(2) by (simp add: saved_def)
  then have "install_handlers env sigterm (drop i fatals) i (Some hs) (installed env sigterm k i) =
      install_handlers env sigterm (drop (Suc i) fatals) (Suc i) (Some (hs[i := Some (k ?n)]))
        (installed env sigterm k (Suc i))"
    using n i(1)
    by (simp add: fatals_at sigaction_def installed_at installed_next(2) Let_def fun_upd_idem)
  with Suc.hyps(1) [OF i(2,3) saved_next [OF Suc.prems(2) i(1)]] show ?case by simp
qed


section \<open>The properties\<close>

text \<open>A monitor that is off, with all the memory it needs.\<close>

definition can_install :: "signal_env \<Rightarrow> signal_monitor \<Rightarrow> bool" where
  "can_install env s \<longleftrightarrow> \<not> signal_isEnabled s \<and>
     (has_signal_stack env \<longrightarrow> stack_memory env \<and> sigaltstack_accepts env) \<and>
     (case g_previousSignalHandlers s of
        None \<Rightarrow> handlers_memory env
      | Some hs \<Rightarrow> length hs = sentrycrashsignal_numFatalSignals)"

lemma can_install_runs:
  assumes "can_install env s"
  obtains hs s1 where "length hs = sentrycrashsignal_numFatalSignals"
    "\<And>k. signal_setEnabled env True (s, k) =
       bind_run (install_handlers env (g_isSigtermReportingEnabled s) fatals 0 (Some hs) k)
         (\<lambda>(_, handlers, k). Inr (s1\<lparr>g_previousSignalHandlers := handlers\<rparr>, k))"
    "signal_isEnabled s1" "g_isSigtermReportingEnabled s1 = g_isSigtermReportingEnabled s"
proof
  let ?hs = "case g_previousSignalHandlers s of
      None \<Rightarrow> replicate sentrycrashsignal_numFatalSignals None | Some hs \<Rightarrow> hs"
  let ?s1 = "snd (set_signal_stack env (s\<lparr>signal_isEnabled := True, g_eventID := sentrycrashid_generate (random_uuid env)\<rparr>))"
  show "length ?hs = sentrycrashsignal_numFatalSignals"
    using assms by (simp add: can_install_def split: option.splits)
  show "signal_isEnabled ?s1" "g_isSigtermReportingEnabled ?s1 = g_isSigtermReportingEnabled s"
    by (simp_all add: set_signal_stack_def Let_def)
  show "signal_setEnabled env True (s, k) =
       bind_run (install_handlers env (g_isSigtermReportingEnabled s) fatals 0 (Some ?hs) k)
         (\<lambda>(_, handlers, k). Inr (?s1\<lparr>g_previousSignalHandlers := handlers\<rparr>, k))" for k
    using assms
    by (auto simp: can_install_def signal_setEnabled_def installSignalHandler_def set_signal_stack_def Let_def
      bind_run_assoc case_prod_beta split: option.splits intro!: arg_cong2 [where f = bind_run])
qed

text \<open>The state of a monitor that is on: the handlers it has replaced are saved.\<close>

definition armed :: "signal_env \<Rightarrow> sig_actions \<Rightarrow> signal_monitor \<times> sig_actions \<Rightarrow> bool" where
  "armed env k = (\<lambda>(s, k'). signal_isEnabled s \<and>
     k' = installed env (g_isSigtermReportingEnabled s) k sentrycrashsignal_numFatalSignals \<and>
     (\<exists>hs. g_previousSignalHandlers s = Some hs \<and>
        saved (g_isSigtermReportingEnabled s) k sentrycrashsignal_numFatalSignals hs))"

lemma enabling_arms:
  assumes "can_install env s" "\<forall>n\<in>set fatals. sigaction_accepts env n"
  shows "\<exists>s'. signal_setEnabled env True (s, k) =
      Inr (s', installed env (g_isSigtermReportingEnabled s) k sentrycrashsignal_numFatalSignals) \<and>
    armed env k (s', installed env (g_isSigtermReportingEnabled s) k sentrycrashsignal_numFatalSignals)"
proof -
  let ?st = "g_isSigtermReportingEnabled s"
  obtain hs s1 where hs: "length hs = sentrycrashsignal_numFatalSignals" and on: "signal_setEnabled env True (s, k) =
       bind_run (install_handlers env ?st fatals 0 (Some hs) k)
         (\<lambda>(_, handlers, k). Inr (s1\<lparr>g_previousSignalHandlers := handlers\<rparr>, k))"
      and s1: "signal_isEnabled s1" "g_isSigtermReportingEnabled s1 = ?st"
    using can_install_runs [OF assms(1)] by metis
  have "saved ?st k 0 hs" using hs by (simp add: saved_def)
  with assms(2) install_all [of env 0 ?st k hs] obtain hs' where
      "install_handlers env ?st fatals 0 (Some hs) k =
        Inr (True, Some hs', installed env ?st k sentrycrashsignal_numFatalSignals)"
      "saved ?st k sentrycrashsignal_numFatalSignals hs'"
    by (auto simp: installed_start)
  with on s1 show ?thesis by (simp add: armed_def)
qed

lemma disabling_restores:
  assumes "armed env k (s, k')" "\<forall>n\<in>set fatals. sigaction_accepts env n"
  shows "\<exists>s'. signal_setEnabled env False (s, k') = Inr (s', k)"
proof -
  let ?st = "g_isSigtermReportingEnabled s"
  obtain hs where hs: "g_previousSignalHandlers s = Some hs" "saved ?st k sentrycrashsignal_numFatalSignals hs"
      and s: "signal_isEnabled s" "k' = installed env ?st k sentrycrashsignal_numFatalSignals"
    using assms(1) by (auto simp: armed_def)
  have "(\<lambda>n. if n \<in> set fatals \<and> \<not> skipped ?st n then k n else k' n) = k"
    by (auto simp: s(2) installed_def fun_eq_iff)
  with restore_all [of env ?st k hs 0 k'] assms(2) hs s(1) show ?thesis
    by (simp add: signal_setEnabled_def uninstallSignalHandler_def Let_def)
qed

text \<open>
  C12. Turning the signal monitor on installs its handler for the fatal signals, SIGTERM only if that was
  asked for and none that the process ignores, and for no other; turning it off puts all handlers back
  as they were.
\<close>

theorem signal_handlers_restored:
  assumes "can_install env s" "\<forall>n\<in>set fatals. sigaction_accepts env n"
  shows "\<exists>s' k' s''. signal_setEnabled env True (s, k) = Inr (s', k') \<and>
    k' = (\<lambda>n. if n \<in> set fatals \<and> (n = SIGTERM \<longrightarrow> g_isSigtermReportingEnabled s) \<and> sa_handler (k n) \<noteq> SIG_IGN
              then our_action env else k n) \<and>
    signal_setEnabled env False (s', k') = Inr (s'', k)"
  using enabling_arms [OF assms, of k] disabling_restores [OF _ assms(2), of k]
  by (fastforce simp: installed_def skipped_def fun_eq_iff)

definition demo_signals :: signal_env where
  "demo_signals =
     \<lparr>has_signal_stack = True, lp64 = True, sigaction_accepts = (\<lambda>n. 0 < n \<and> n < 32 \<and> n \<noteq> 9), sigaltstack_accepts = True,
      stack_memory = True, handlers_memory = True, random_uuid = replicate 16 NUL\<rparr>"

definition demo_actions :: sig_actions where
  "demo_actions = (\<lambda>n. \<lparr>sa_handler = if n = SIGPIPE then SIG_IGN else if n = SIGABRT then OtherHandler 1 else SIG_DFL,
     sa_flags = 0, sa_mask = 0\<rparr>)"

lemma demo_signals_ok: "can_install demo_signals initial_signal_monitor" "\<forall>n\<in>set fatals. sigaction_accepts demo_signals n"
  by (simp add: can_install_def demo_signals_def initial_signal_monitor_def) code_simp

theorem signal_handlers_restored_witness:
  "\<exists>s' k' s''. signal_setEnabled demo_signals True (initial_signal_monitor, demo_actions) = Inr (s', k') \<and>
    sa_handler (k' SIGSEGV) = HandleSignal \<and> sa_handler (k' SIGTERM) = SIG_DFL \<and> sa_handler (k' SIGPIPE) = SIG_IGN \<and>
    signal_setEnabled demo_signals False (s', k') = Inr (s'', demo_actions)"
proof -
  have "SIGSEGV \<in> set fatals" by code_simp
  with signal_handlers_restored [OF demo_signals_ok, of demo_actions] show ?thesis
    by (auto simp: demo_actions_def our_action_def initial_signal_monitor_def SIGSEGV_def SIGTERM_def SIGPIPE_def SIGABRT_def)
qed

text \<open>
  When the system refuses a handler for one of the fatal signals, those that were installed already
  are taken back and no action has changed; but the monitor says that it is on.
\<close>

theorem refused_handlers_undone:
  assumes "can_install env s" "m < sentrycrashsignal_numFatalSignals" "\<not> sigaction_accepts env (fatals ! m)"
    and "\<forall>j<m. sigaction_accepts env (fatals ! j)" "fatals ! m = SIGTERM \<longrightarrow> g_isSigtermReportingEnabled s"
  shows "\<exists>s'. signal_setEnabled env True (s, k) = Inr (s', k) \<and> signal_isEnabled_fn (s', k)"
proof -
  let ?st = "g_isSigtermReportingEnabled s"
  obtain hs s1 where hs: "length hs = sentrycrashsignal_numFatalSignals" and on: "signal_setEnabled env True (s, k) =
       bind_run (install_handlers env ?st fatals 0 (Some hs) k)
         (\<lambda>(_, handlers, k). Inr (s1\<lparr>g_previousSignalHandlers := handlers\<rparr>, k))"
      and s1: "signal_isEnabled s1"
    using can_install_runs [OF assms(1)] by metis
  have "saved ?st k 0 hs" using hs by (simp add: saved_def)
  with install_rejected [of m env ?st 0 k hs] assms(2-5) obtain hs' where
      "install_handlers env ?st fatals 0 (Some hs) k = Inr (False, Some hs', k)"
    by (auto simp: installed_start skipped_def)
  with on s1 show ?thesis by (simp add: signal_isEnabled_fn_def)
qed

theorem refused_handlers_undone_witness:
  "\<exists>s'. signal_setEnabled (demo_signals\<lparr>sigaction_accepts := (\<lambda>n. n \<noteq> SIGSEGV)\<rparr>) True
      (initial_signal_monitor, demo_actions) = Inr (s', demo_actions) \<and> signal_isEnabled_fn (s', demo_actions)"
proof -
  let ?env = "demo_signals\<lparr>sigaction_accepts := (\<lambda>n. n \<noteq> SIGSEGV)\<rparr>"
  have env: "can_install ?env initial_signal_monitor" using demo_signals_ok(1) by (simp add: can_install_def initial_signal_monitor_def demo_signals_def)
  have "fatals ! 5 = SIGSEGV" "\<forall>j<5. fatals ! j \<noteq> SIGSEGV" "5 < sentrycrashsignal_numFatalSignals" "SIGSEGV \<noteq> SIGTERM"
    by code_simp+
  then show ?thesis by (intro refused_handlers_undone [OF env, of 5]) simp_all
qed


section \<open>A signal meets its old handler\<close>

text \<open>
  The world of the composition: the globals of the signal monitor with the actions of the process,
  beside everything else.
\<close>

type_synonym 'x signal_world = "(signal_monitor \<times> sig_actions) \<times> 'x"

definition on_signals :: "(signal_monitor \<times> sig_actions \<Rightarrow> (signal_monitor \<times> sig_actions) run) \<Rightarrow>
    'x signal_world \<Rightarrow> 'x signal_world run" where
  "on_signals f = (\<lambda>(a, x). bind_run (f a) (\<lambda>a. Inr (a, x)))"

definition signal_entry :: "signal_env \<Rightarrow> ('x signal_world, ('c, 'd) monitor_context) monitor" where
  "signal_entry env =
     \<lparr>monitorType = SentryCrashMonitorTypeSignal,
      getAPI = Some
        \<lparr>api_setEnabled = Some (\<lambda>b. on_signals (signal_setEnabled env b)),
         api_isEnabled = Some (\<lambda>w. signal_isEnabled_fn (fst w)),
         api_addContextualInfoToEvent = Some (\<lambda>_. signal_addContextualInfoToEvent)\<rparr>\<rparr>"

lemma entry_restores:
  assumes "armed env k (fst w)" "\<forall>n\<in>set fatals. sigaction_accepts env n"
  shows "\<exists>w'. setMonitorEnabled (signal_entry env :: ('x signal_world, ('c, 'd) monitor_context) monitor) False w =
    Inr w' \<and> snd (fst w') = k"
proof -
  obtain s k' where s: "fst w = (s, k')" by fastforce
  then obtain s' where "signal_setEnabled env False (s, k') = Inr (s', k)"
    using disabling_restores [OF _ assms(2), of k s k'] assms(1) by auto
  with s show ?thesis
    by (intro exI [of _ "((s', k), snd w)"])
       (simp add: setMonitorEnabled_def signal_entry_def on_signals_def case_prod_beta)
qed

text \<open>
  C11. Whatever signal arrives while the signal monitor is on, and whether or not it is a crash of the crash
  reporter itself: the handler returns, and when it raises the signal again, every signal has the action
  that the process had set before the monitor was turned on.
\<close>

theorem signal_meets_old_handler:
  fixes monitors :: "('x signal_world, ('c, 'd) monitor_context) monitor_env"
  assumes armed: "armed env k (fst (monitor_world s))" and accepts: "\<forall>n\<in>set fatals. sigaction_accepts env n"
    and table: "env_monitors monitors = as @ signal_entry env # bs" "\<forall>m\<in>set as \<union> set bs. leaves fst m"
    and quiet: "quiet_machine fst machine_env" "quiet_callback (\<lambda>_. True) fst monitors"
    and garbage: "length (allThreads garbage) = maxThreads"
  shows "\<exists>s' w. handleSignal machine_env monitors (\<lambda>w. fst (fst w)) raise z garbage signum info source s = Inr s' \<and>
    monitor_world s' = raise signum w \<and> snd (fst w) = k"
proof -
  have on: "signal_isEnabled (fst (fst (monitor_world s)))" using armed by (auto simp: armed_def split: prod.splits)
  have off: "\<exists>u'. setMonitorEnabled (signal_entry env :: ('x signal_world, ('c, 'd) monitor_context) monitor) False u =
      Inr u' \<and> snd (fst u') = k" if "armed env k (fst u)" for u
    using entry_restores [OF that accepts] .
  obtain threads n w1 where w1: "sentrycrashmc_suspendEnvironment machine_env (monitor_world s) = (threads, n, w1)"
    by (rule prod_cases3)
  note w1_quiet = suspend_quiet [OF quiet(1) w1]
  obtain s2 where s2: "sentrycrashcm_notifyFatalExceptionCaptured monitors False (s\<lparr>monitor_world := w1\<rparr>) =
        Inr (g_crashedDuringExceptionHandling s2, s2)" "g_handlingFatalException s2"
      "if g_crashedDuringExceptionHandling s2 then snd (fst (monitor_world s2)) = k else monitor_world s2 = w1"
    using notify_one [OF table, of "s\<lparr>monitor_world := w1\<rparr>" "\<lambda>v. snd v = k" False] off armed w1_quiet(1) by auto
  obtain mc w3 where w3: "sentrycrashmc_getContextForSignal machine_env source garbage (monitor_world s2) =
      Inr (mc, w3)" "fst w3 = fst (monitor_world s2)"
    using signal_context_quiet [OF quiet(1) garbage] by blast
  let ?s3 = "s2\<lparr>monitor_world := w3\<rparr>"
  define event where "event = \<lparr>requiresAsyncSafety = False, crashedDuringCrashHandling = False,
      event_data = signal_event z (g_eventID (fst (fst w3))) info source mc\<rparr>"
  have "if g_crashedDuringExceptionHandling ?s3 then snd (fst (monitor_world ?s3)) = k
      else armed env k (fst (monitor_world ?s3))"
    using s2(3) w3(2) armed w1_quiet(1) by (simp split: if_splits)
  from exception_one [where P = "\<lambda>v. snd v = k" and Q = "armed env k", OF table quiet(2) _ _ off this] s2(2)
  obtain s5 where
      s5: "sentrycrashcm_handleException monitors event ?s3 = Inr s5" "snd (fst (monitor_world s5)) = k"
    by auto
  obtain w6 where w6: "sentrycrashmc_resumeEnvironment machine_env threads n (monitor_world s5) = Inr w6"
      "fst w6 = fst (monitor_world s5)"
    using resume_quiet [OF quiet(1) w1_quiet(2)] by blast
  have "handleSignal machine_env monitors (\<lambda>w. fst (fst w)) raise z garbage signum info source s =
      Inr (s5\<lparr>monitor_world := raise signum w6\<rparr>)"
    using on w1 s2(1) w3(1) s5(1) w6(1) by (simp add: handleSignal_def Let_def event_def)
  with w6(2) s5(2) show ?thesis by (intro exI) auto
qed

text \<open>A process of two threads that logs the signals it raises, with no other monitor.\<close>

definition demo_machine :: "(arm64_context, int list signal_world) machine_env" where
  "demo_machine =
     \<lparr>env_cpu = arm64_cpu, env_vm = (\<lambda>_ _. None), cpu_getState = (\<lambda>_ c. c),
      zero_regs = \<lparr>thisThread = 0, cpu_ss = (\<lambda>_. 0), cpu_es = (\<lambda>_. 0)\<rparr>, thread_self = 5, reserved = (\<lambda>_. False),
      task_threads = (\<lambda>_. Some [5, 7]), thread_suspend = (\<lambda>_ w. w), thread_resume = (\<lambda>_ w. w),
      port_deallocate = (\<lambda>_ w. w)\<rparr>"

definition demo_monitors :: "(int list signal_world, (arm64_context, unit) monitor_context) monitor_env" where
  "demo_monitors =
     \<lparr>env_monitors = [signal_entry demo_signals], isBeingTraced = (\<lambda>_. False), g_onExceptionEvent = (\<lambda>c s. Inr s)\<rparr>"

lemma demo_quiet: "quiet_machine fst demo_machine" "quiet_callback (\<lambda>_. True) fst demo_monitors"
  by (simp_all add: quiet_machine_def quiet_callback_def demo_machine_def demo_monitors_def maxThreads_def)

theorem signal_meets_old_handler_witness:
  "\<exists>s s' w. signal_isEnabled (fst (fst (monitor_world s))) \<and>
    handleSignal demo_machine demo_monitors (\<lambda>w. fst (fst w)) (\<lambda>n (a, log). (a, log @ [n])) ()
      (fill_context demo_machine 5 True) SIGSEGV \<lparr>si_signo = 11, si_code = 1, si_addr = 16\<rparr> (zero_regs demo_machine) s =
      Inr s' \<and>
    monitor_world s' = (\<lambda>(a, log). (a, log @ [SIGSEGV])) w \<and> snd (fst w) = demo_actions"
proof -
  obtain m k where m: "armed demo_signals demo_actions (m, k)"
    using enabling_arms [OF demo_signals_ok, of demo_actions] by blast
  let ?s = "initial_monitoring ((m, k), []) :: int list signal_world monitoring"
  have armed: "armed demo_signals demo_actions (fst (monitor_world ?s))" using m by (simp add: initial_monitoring_def)
  have table: "env_monitors demo_monitors = [] @ signal_entry demo_signals # []" by (simp add: demo_monitors_def)
  have garbage: "length (allThreads (fill_context demo_machine 5 True)) = maxThreads" by (rule filled_context)
  have on: "signal_isEnabled (fst (fst (monitor_world ?s)))"
    using m by (simp add: initial_monitoring_def armed_def)
  have none: "\<forall>m\<in>set [] \<union> set []. leaves fst (m :: (int list signal_world, (arm64_context, unit) monitor_context) monitor)"
    by simp
  show ?thesis
    by (rule exI [of _ ?s]) (use on signal_meets_old_handler [OF armed demo_signals_ok(2) table none demo_quiet garbage]
      in \<open>simp only: simp_thms ex_simps\<close>)
qed

end
