(* ===== verification/Monitor_Mach.thy ===== *)
theory Monitor_Mach
  imports Monitor_Signal
begin

unbundle bit_operations_syntax

text \<open>
  \<open>Recording/Monitors/SentryCrashMonitor_MachException.c\<close>: the monitor for Mach exceptions, which installs
  an exception port for the process, and the two threads that wait for messages on it. The numbers are
  those of Darwin's headers; ports and threads are numbers, 0 is none.
\<close>

section \<open>Exceptions and signals\<close>

definition EXC_BAD_ACCESS :: "32 word" where "EXC_BAD_ACCESS = 1"
definition EXC_BAD_INSTRUCTION :: "32 word" where "EXC_BAD_INSTRUCTION = 2"
definition EXC_ARITHMETIC :: "32 word" where "EXC_ARITHMETIC = 3"
definition EXC_EMULATION :: "32 word" where "EXC_EMULATION = 4"
definition EXC_SOFTWARE :: "32 word" where "EXC_SOFTWARE = 5"
definition EXC_BREAKPOINT :: "32 word" where "EXC_BREAKPOINT = 6"
definition EXC_CRASH :: "32 word" where "EXC_CRASH = 10"

lemmas exception_numbers = EXC_BAD_ACCESS_def EXC_BAD_INSTRUCTION_def EXC_ARITHMETIC_def EXC_EMULATION_def
  EXC_SOFTWARE_def EXC_BREAKPOINT_def EXC_CRASH_def

definition EXC_UNIX_BAD_SYSCALL :: "64 word" where "EXC_UNIX_BAD_SYSCALL = 0x10000"
definition EXC_UNIX_BAD_PIPE :: "64 word" where "EXC_UNIX_BAD_PIPE = 0x10001"
definition EXC_UNIX_ABORT :: "64 word" where "EXC_UNIX_ABORT = 0x10002"
definition EXC_SOFT_SIGNAL :: "64 word" where "EXC_SOFT_SIGNAL = 0x10003"
definition KERN_INVALID_ADDRESS :: "64 word" where "KERN_INVALID_ADDRESS = 1"
definition KERN_PROTECTION_FAILURE :: "64 word" where "KERN_PROTECTION_FAILURE = 2"
definition KERN_FAILURE :: "32 word" where "KERN_FAILURE = 5"

lemmas exception_codes = EXC_UNIX_BAD_SYSCALL_def EXC_UNIX_BAD_PIPE_def EXC_UNIX_ABORT_def EXC_SOFT_SIGNAL_def
  KERN_INVALID_ADDRESS_def KERN_PROTECTION_FAILURE_def

definition SIGEMT :: int where "SIGEMT = 7"
definition SIGKILL :: int where "SIGKILL = 9"

definition signalForMachException :: "32 word \<Rightarrow> 64 word \<Rightarrow> int" where
  "signalForMachException exception code =
     (if exception = EXC_ARITHMETIC then SIGFPE
      else if exception = EXC_BAD_ACCESS then (if code = KERN_INVALID_ADDRESS then SIGSEGV else SIGBUS)
      else if exception = EXC_BAD_INSTRUCTION then SIGILL
      else if exception = EXC_BREAKPOINT then SIGTRAP
      else if exception = EXC_EMULATION then SIGEMT
      else if exception = EXC_SOFTWARE then
        (if code = EXC_UNIX_BAD_SYSCALL then SIGSYS
         else if code = EXC_UNIX_BAD_PIPE then SIGPIPE
         else if code = EXC_UNIX_ABORT then SIGABRT
         else if code = EXC_SOFT_SIGNAL then SIGKILL
         else 0)
      else 0)"

definition machExceptionForSignal :: "int \<Rightarrow> 32 word" where
  "machExceptionForSignal n =
     (if n = SIGFPE then EXC_ARITHMETIC
      else if n = SIGSEGV then EXC_BAD_ACCESS
      else if n = SIGBUS then EXC_BAD_ACCESS
      else if n = SIGILL then EXC_BAD_INSTRUCTION
      else if n = SIGTRAP then EXC_BREAKPOINT
      else if n = SIGEMT then EXC_EMULATION
      else if n = SIGSYS then ucast EXC_UNIX_BAD_SYSCALL
      else if n = SIGPIPE then ucast EXC_UNIX_BAD_PIPE
      else if n = SIGABRT then EXC_CRASH
      else if n = SIGKILL then ucast EXC_SOFT_SIGNAL
      else 0)"

section \<open>The kernel\<close>

text \<open>The handler of a set of exceptions: the bits of the mask are the numbers of exceptions.\<close>

record port_info =
  pi_mask :: "32 word"
  pi_port :: nat
  pi_behavior :: "32 word"
  pi_flavor :: "32 word"

record mach_message =
  msg_thread :: nat
  msg_exception :: "32 word"
  msg_code :: "64 word"
  msg_subcode :: "64 word"

text \<open>
  The calls of the kernel and of \<open>pthread\<close>, on the kernel's state \<open>'x\<close>; a thread that is created is a pair
  of its two numbers, and a call that fails leaves what it should set unchanged.
\<close>

record 'x mach_kernel =
  task_get_exception_ports :: "32 word \<Rightarrow> 'x \<Rightarrow> port_info list option"
  task_set_exception_ports :: "port_info \<Rightarrow> 'x \<Rightarrow> bool \<times> 'x"
  mach_port_allocate :: "'x \<Rightarrow> nat option \<times> 'x"
  mach_port_insert_right :: "nat \<Rightarrow> 'x \<Rightarrow> bool \<times> 'x"
  pthread_create :: "bytes \<Rightarrow> 'x \<Rightarrow> (nat \<times> nat) option \<times> 'x"
  thread_terminate :: "nat \<Rightarrow> 'x \<Rightarrow> 'x"
  pthread_cancel :: "nat \<Rightarrow> 'x \<Rightarrow> 'x"
  uuid_generate :: "'x \<Rightarrow> bytes \<times> 'x"
  reply_message :: "mach_message \<Rightarrow> 32 word \<Rightarrow> 'x \<Rightarrow> 'x"

section \<open>The globals\<close>

record ('c, 'd) mach_monitor =
  mach_isEnabled :: bool
  g_isInstalled :: bool
  g_monitorContext :: "('c, 'd) monitor_context event_context"
  g_stackCursor :: "'c stack_cursor"
  g_isHandlingCrash :: bool
  g_previousExceptionPorts :: "port_info list"
  g_exceptionPort :: nat
  g_primaryPThread :: nat
  g_primaryMachThread :: nat
  g_secondaryPThread :: nat
  g_secondaryMachThread :: nat
  g_primaryEventID :: bytes
  g_secondaryEventID :: bytes

definition initial_mach_monitor :: "'d \<Rightarrow> ('c, 'd) mach_monitor" where
  "initial_mach_monitor z =
     \<lparr>mach_isEnabled = False, g_isInstalled = False,
      g_monitorContext = \<lparr>requiresAsyncSafety = False, crashedDuringCrashHandling = False,
        event_data = zero_context z\<rparr>,
      g_stackCursor = no_cursor, g_isHandlingCrash = False, g_previousExceptionPorts = [], g_exceptionPort = 0,
      g_primaryPThread = 0, g_primaryMachThread = 0, g_secondaryPThread = 0, g_secondaryMachThread = 0,
      g_primaryEventID = replicate 37 NUL, g_secondaryEventID = replicate 37 NUL\<rparr>"

type_synonym ('c, 'd, 'x) mach_world = "('c, 'd) mach_monitor \<times> 'x"

definition sentrycrashcm_isReservedThread :: "('c, 'd) mach_monitor \<Rightarrow> nat \<Rightarrow> bool" where
  "sentrycrashcm_isReservedThread m thread \<longleftrightarrow> thread = g_primaryMachThread m \<or> thread = g_secondaryMachThread m"

definition sentrycrashcm_hasReservedThreads :: "('c, 'd) mach_monitor \<Rightarrow> bool" where
  "sentrycrashcm_hasReservedThreads m \<longleftrightarrow> g_primaryMachThread m \<noteq> 0 \<and> g_secondaryMachThread m \<noteq> 0"

section \<open>Installing\<close>

text \<open>Errors of single ports are only logged. The count becomes 0.\<close>

definition restoreExceptionPorts ::
    "'x mach_kernel \<Rightarrow> ('c, 'd, 'x) mach_world \<Rightarrow> ('c, 'd, 'x) mach_world" where
  "restoreExceptionPorts k = (\<lambda>(m, x).
     (m\<lparr>g_previousExceptionPorts := []\<rparr>,
      fold (\<lambda>ports x. snd (task_set_exception_ports k ports x)) (g_previousExceptionPorts m) x))"

definition end_thread :: "'x mach_kernel \<Rightarrow> ('c, 'd) mach_monitor \<Rightarrow> nat \<Rightarrow> nat \<Rightarrow> 'x \<Rightarrow> 'x" where
  "end_thread k m machThread pthread x =
     (if g_isHandlingCrash m then thread_terminate k machThread x else pthread_cancel k pthread x)"

definition uninstallExceptionHandler ::
    "nat \<Rightarrow> 'x mach_kernel \<Rightarrow> ('c, 'd, 'x) mach_world \<Rightarrow> ('c, 'd, 'x) mach_world" where
  "uninstallExceptionHandler self k w =
     (let (m, x) = restoreExceptionPorts k w;
          (m, x) = (if g_primaryPThread m \<noteq> 0 \<and> g_primaryMachThread m \<noteq> self
            then (m\<lparr>g_primaryMachThread := 0, g_primaryPThread := 0\<rparr>,
                  end_thread k m (g_primaryMachThread m) (g_primaryPThread m) x)
            else (m, x));
          (m, x) = (if g_secondaryPThread m \<noteq> 0 \<and> g_secondaryMachThread m \<noteq> self
            then (m\<lparr>g_secondaryMachThread := 0, g_secondaryPThread := 0\<rparr>,
                  end_thread k m (g_secondaryMachThread m) (g_secondaryPThread m) x)
            else (m, x))
      in (m\<lparr>g_exceptionPort := 0\<rparr>, x))"

definition kThreadPrimary :: bytes where "kThreadPrimary = ''SentryCrash Exception Handler (Primary)''"
definition kThreadSecondary :: bytes where "kThreadSecondary = ''SentryCrash Exception Handler (Secondary)''"

text \<open>The bits 1, 2, 3, 5 and 6, for the exceptions of these numbers.\<close>

definition exception_mask :: "32 word" where
  "exception_mask = 0x02 OR 0x04 OR 0x08 OR 0x20 OR 0x40"

definition EXCEPTION_DEFAULT_CODES :: "32 word" where "EXCEPTION_DEFAULT_CODES = 0x80000001"

definition our_ports :: "nat \<Rightarrow> port_info" where
  "our_ports port =
     \<lparr>pi_mask = exception_mask, pi_port = port, pi_behavior = EXCEPTION_DEFAULT_CODES, pi_flavor = 0\<rparr>"

text \<open>A port with the right to send to it; whether there is one.\<close>

definition have_exception_port ::
    "'x mach_kernel \<Rightarrow> ('c, 'd, 'x) mach_world \<Rightarrow> bool \<times> ('c, 'd, 'x) mach_world" where
  "have_exception_port k = (\<lambda>(m, x).
     if g_exceptionPort m \<noteq> 0 then (True, m, x)
     else
       case mach_port_allocate k x of
         (None, x) \<Rightarrow> (False, m, x)
       | (Some port, x) \<Rightarrow>
           let (inserted, x) = mach_port_insert_right k port x
           in (inserted, m\<lparr>g_exceptionPort := port\<rparr>, x))"

definition create_threads ::
    "'x mach_kernel \<Rightarrow> ('c, 'd, 'x) mach_world \<Rightarrow> bool \<times> ('c, 'd, 'x) mach_world" where
  "create_threads k = (\<lambda>(m, x).
     case pthread_create k kThreadSecondary x of
       (None, x) \<Rightarrow> (False, m, x)
     | (Some (p, t), x) \<Rightarrow>
         let m = m\<lparr>g_secondaryPThread := p, g_secondaryMachThread := t\<rparr>
         in case pthread_create k kThreadPrimary x of
              (None, x) \<Rightarrow> (False, m, x)
            | (Some (p, t), x) \<Rightarrow> (True, m\<lparr>g_primaryPThread := p, g_primaryMachThread := t\<rparr>, x))"

definition installExceptionHandler ::
    "nat \<Rightarrow> 'x mach_kernel \<Rightarrow> ('c, 'd, 'x) mach_world \<Rightarrow> bool \<times> ('c, 'd, 'x) mach_world" where
  "installExceptionHandler self k = (\<lambda>(m, x).
     case task_get_exception_ports k exception_mask x of
       None \<Rightarrow> (False, uninstallExceptionHandler self k (m, x))
     | Some ports \<Rightarrow>
         let (have_port, m, x) = have_exception_port k (m\<lparr>g_previousExceptionPorts := ports\<rparr>, x)
         in if \<not> have_port then (False, uninstallExceptionHandler self k (m, x))
            else
              let (accepted, x) = task_set_exception_ports k (our_ports (g_exceptionPort m)) x
              in if \<not> accepted then (False, uninstallExceptionHandler self k (m, x))
                 else
                   let (created, m, x) = create_threads k (m, x)
                   in if \<not> created then (False, uninstallExceptionHandler self k (m, x))
                      else (True, m\<lparr>g_isInstalled := True\<rparr>, x))"

text \<open>Turning the monitor off uninstalls nothing.\<close>

definition mach_setEnabled ::
    "nat \<Rightarrow> 'x mach_kernel \<Rightarrow> bool \<Rightarrow> ('c, 'd, 'x) mach_world \<Rightarrow> ('c, 'd, 'x) mach_world" where
  "mach_setEnabled self k isEnabled = (\<lambda>(m, x).
     let m = m\<lparr>mach_isEnabled := isEnabled\<rparr>
     in if mach_isEnabled m \<and> \<not> g_isInstalled m then
          let (primary, x) = uuid_generate k x; (secondary, x) = uuid_generate k x;
              (installed, m, x) = installExceptionHandler self k
                (m\<lparr>g_primaryEventID := sentrycrashid_generate primary,
                   g_secondaryEventID := sentrycrashid_generate secondary\<rparr>, x)
          in (m\<lparr>mach_isEnabled := installed\<rparr>, x)
        else (m, x))"

definition mach_isEnabled_fn :: "('c, 'd, 'x) mach_world \<Rightarrow> bool" where
  "mach_isEnabled_fn = (\<lambda>(m, x). mach_isEnabled m)"

definition mach_addContextualInfoToEvent :: "('c, 'd) monitor_context \<Rightarrow> ('c, 'd) monitor_context" where
  "mach_addContextualInfoToEvent eventContext =
     (if crashType eventContext = SentryCrashMonitorTypeSignal
      then eventContext\<lparr>mach_type := machExceptionForSignal (sint (signal_signum eventContext))\<rparr>
      else if crashType eventContext \<noteq> SentryCrashMonitorTypeMachException
      then eventContext\<lparr>mach_type := EXC_CRASH\<rparr> else eventContext)"

definition sentrycrashcm_machexception_getAPI ::
    "nat \<Rightarrow> 'x mach_kernel \<Rightarrow> (('c, 'd, 'x) mach_world, ('c, 'd) monitor_context) monitor_api" where
  "sentrycrashcm_machexception_getAPI self k =
     \<lparr>api_setEnabled = Some (\<lambda>b w. Inr (mach_setEnabled self k b w)), api_isEnabled = Some mach_isEnabled_fn,
      api_addContextualInfoToEvent = Some (\<lambda>_. mach_addContextualInfoToEvent)\<rparr>"

section \<open>The threads that handle exceptions\<close>

text \<open>What is filled in about an exception. The context is not cleared before.\<close>

definition MACH_ERROR_CODE_MASK :: "bool \<Rightarrow> 64 word" where
  "MACH_ERROR_CODE_MASK is_lp64 = (if is_lp64 then 0xFFFFFFFFFFFFFFFF else 0xFFFFFFFF)"

definition mach_event ::
    "'c cpu_ops \<Rightarrow> bool \<Rightarrow> bytes \<Rightarrow> mach_message \<Rightarrow> 'c crash_machine_context \<Rightarrow> 'c stack_cursor \<Rightarrow>
     ('c, 'd) monitor_context \<Rightarrow> ('c, 'd) monitor_context" where
  "mach_event cpu is_lp64 event_id message context cursor crash =
     (let code = msg_code message AND MACH_ERROR_CODE_MASK is_lp64;
          code = (if code = KERN_PROTECTION_FAILURE \<and> crash_isStackOverflow crash then KERN_INVALID_ADDRESS else code)
      in crash\<lparr>offendingMachineContext := Some context,
           faultAddress :=
             (if msg_exception message = EXC_BAD_ACCESS then op_faultAddress cpu (mcontext context)
              else op_instructionAddress cpu (mcontext context)),
           crashType := SentryCrashMonitorTypeMachException, eventID := Some event_id, registersAreValid := True,
           mach_type := msg_exception message, mach_code := code,
           mach_subcode := msg_subcode message AND MACH_ERROR_CODE_MASK is_lp64,
           signal_signum := word_of_int (signalForMachException (msg_exception message) code),
           stackCursor := Some cursor\<rparr>)"

text \<open>The threads of the monitor are not stopped while an exception is handled.\<close>

definition with_reserved ::
    "('c, ('c, 'd, 'x) mach_world) machine_env \<Rightarrow> ('c, 'd, 'x) mach_world \<Rightarrow>
       ('c, ('c, 'd, 'x) mach_world) machine_env" where
  "with_reserved env w = env\<lparr>reserved := sentrycrashcm_isReservedThread (fst w)\<rparr>"

definition activate_secondary ::
    "('c, ('c, 'd, 'x) mach_world) machine_env \<Rightarrow> 'x mach_kernel \<Rightarrow> ('c, 'd, 'x) mach_world \<Rightarrow>
       ('c, 'd, 'x) mach_world" where
  "activate_secondary env k w =
     (if sentrycrashthread_self env = g_primaryMachThread (fst w) then
        let w = restoreExceptionPorts k w in thread_resume env (g_secondaryMachThread (fst w)) w
      else w)"

definition describe_exception ::
    "('c, ('c, 'd, 'x) mach_world) machine_env \<Rightarrow> bool \<Rightarrow> bool \<Rightarrow> mach_message \<Rightarrow> ('c, 'd, 'x) mach_world \<Rightarrow>
       ('c, 'd, 'x) mach_world run" where
  "describe_exception env is_lp64 secondary message w =
     bind_run (sentrycrashmc_getContextForThread env (msg_thread message) True w) (\<lambda>(context, m, x).
       let cursor = sentrycrashsc_initWithMachineContext MAX_STACKTRACE_LENGTH (mcontext context)
             (sentrycrashsc_initCursor None None (g_stackCursor m));
           event_id = (if secondary then g_secondaryEventID m else g_primaryEventID m);
           c = g_monitorContext m
       in Inr (m\<lparr>g_stackCursor := cursor,
            g_monitorContext := c\<lparr>event_data := mach_event (env_cpu env) is_lp64 event_id message context cursor
              (event_data c)\<rparr>\<rparr>, x))"

definition report_exception ::
    "(('c, 'd, 'x) mach_world, ('c, 'd) monitor_context) monitor_env \<Rightarrow> ('c, 'd, 'x) mach_world monitoring \<Rightarrow>
       ('c, 'd, 'x) mach_world monitoring run" where
  "report_exception monitors s =
     (let (m, x) = monitor_world s; c = g_monitorContext m
      in sentrycrashcm_handleException monitors c
           (s\<lparr>monitor_world := (m\<lparr>g_monitorContext := complete_event monitors s c\<rparr>, x)\<rparr>))"

definition handle_message ::
    "('c, ('c, 'd, 'x) mach_world) machine_env \<Rightarrow> 'x mach_kernel \<Rightarrow>
     (('c, 'd, 'x) mach_world, ('c, 'd) monitor_context) monitor_env \<Rightarrow> bool \<Rightarrow> bool \<Rightarrow> mach_message \<Rightarrow>
     ('c, 'd, 'x) mach_world monitoring \<Rightarrow> ('c, 'd, 'x) mach_world monitoring run" where
  "handle_message env k monitors is_lp64 secondary message s =
     (let (threads, numThreads, m, x) =
            sentrycrashmc_suspendEnvironment (with_reserved env (monitor_world s)) (monitor_world s);
          s = s\<lparr>monitor_world := (m\<lparr>g_isHandlingCrash := True\<rparr>, x)\<rparr>
      in bind_run (sentrycrashcm_notifyFatalExceptionCaptured monitors True s) (\<lambda>(_, s).
         bind_run (describe_exception env is_lp64 secondary message (activate_secondary env k (monitor_world s))) (\<lambda>w.
         bind_run (report_exception monitors (s\<lparr>monitor_world := w\<rparr>)) (\<lambda>s.
           let (m, x) = monitor_world s; w = (m\<lparr>g_isHandlingCrash := False\<rparr>, x)
           in bind_run (sentrycrashmc_resumeEnvironment (with_reserved env w) threads numThreads w) (\<lambda>w.
                Inr (s\<lparr>monitor_world := w\<rparr>))))))"

text \<open>
  The loop that waits; while it waits, the other threads of the process run, so that everything may
  change. \<open>receive\<close> tries once, on the port that is the monitor's then.
\<close>

fun wait_message ::
    "(nat \<Rightarrow> ('c, 'd, 'x) mach_world monitoring \<Rightarrow> mach_message option \<times> ('c, 'd, 'x) mach_world monitoring) \<Rightarrow> nat \<Rightarrow>
     ('c, 'd, 'x) mach_world monitoring \<Rightarrow> (mach_message \<times> ('c, 'd, 'x) mach_world monitoring) run" where
  "wait_message receive 0 s = Inl OutOfFuel"
| "wait_message receive (Suc fuel) s =
     (case receive (g_exceptionPort (fst (monitor_world s))) s of
        (Some message, s) \<Rightarrow> Inr (message, s)
      | (None, s) \<Rightarrow> wait_message receive fuel s)"

definition handleExceptions ::
    "nat \<Rightarrow> (nat \<Rightarrow> ('c, 'd, 'x) mach_world monitoring \<Rightarrow> mach_message option \<times> ('c, 'd, 'x) mach_world monitoring) \<Rightarrow>
     ('c, ('c, 'd, 'x) mach_world) machine_env \<Rightarrow> 'x mach_kernel \<Rightarrow>
     (('c, 'd, 'x) mach_world, ('c, 'd) monitor_context) monitor_env \<Rightarrow> bool \<Rightarrow> bytes \<Rightarrow>
     ('c, 'd, 'x) mach_world monitoring \<Rightarrow> ('c, 'd, 'x) mach_world monitoring run" where
  "handleExceptions fuel receive env k monitors is_lp64 threadName s =
     (let secondary = (threadName = kThreadSecondary);
          s = (if secondary
               then s\<lparr>monitor_world := thread_suspend env (sentrycrashthread_self env) (monitor_world s)\<rparr> else s)
      in bind_run (wait_message receive fuel s) (\<lambda>(message, s).
         bind_run
           (if mach_isEnabled (fst (monitor_world s))
            then handle_message env k monitors is_lp64 secondary message s else Inr s) (\<lambda>s.
           let (m, x) = monitor_world s
           in Inr (s\<lparr>monitor_world := (m, reply_message k message KERN_FAILURE x)\<rparr>))))"

end
