(* ===== verification/Monitor_Mach_Spec.thy ===== *)
theory Monitor_Mach_Spec
  imports Monitor_Mach Monitor_Views
begin

unbundle bit_operations_syntax

text \<open>
  What the monitor for Mach exceptions promises: when it cannot be installed nothing has changed, an
  exception is handled with the process's own exception ports in place, and afterwards the monitor is
  off. It is an \<open>off_switch\<close> for the table of monitors.
\<close>


interpretation machs: off_switch "\<lambda>b w. Inr (mach_setEnabled self k b w)" mach_isEnabled_fn
  for self :: nat and k :: "'x mach_kernel"
  by unfold_locales (simp add: mach_setEnabled_def mach_isEnabled_fn_def Let_def case_prod_beta)

lemma turns_off_mach: "turns_off (Some (sentrycrashcm_machexception_getAPI self k))"
  by (simp add: turns_off_def sentrycrashcm_machexception_getAPI_def machs.off_after_off [OF refl] del: split_paired_All)

section \<open>The kernel's exception ports\<close>

type_synonym exception_handlers = "nat \<Rightarrow> nat \<times> 32 word \<times> 32 word"

definition port_handler :: "port_info \<Rightarrow> nat \<times> 32 word \<times> 32 word" where
  "port_handler i = (pi_port i, pi_behavior i, pi_flavor i)"

text \<open>The infos tell the handlers \<open>h\<close> of the exceptions of a mask, and of no others.\<close>

definition lists_handlers :: "exception_handlers \<Rightarrow> 32 word \<Rightarrow> port_info list \<Rightarrow> bool" where
  "lists_handlers h bits infos \<longleftrightarrow>
     (\<forall>e. bit bits e \<longleftrightarrow> (\<exists>i\<in>set infos. bit (pi_mask i) e)) \<and>
     (\<forall>i\<in>set infos. \<forall>e. bit (pi_mask i) e \<longrightarrow> h e = port_handler i)"

text \<open>
  The kernel has one handler for each exception. It tells them, sets them when it accepts them, and
  accepts those it has told; no other call changes them. New ports and threads have numbers, those of
  threads are not that of the thread \<open>self\<close> that creates them.
\<close>

definition exception_kernel :: "nat \<Rightarrow> 'x mach_kernel \<Rightarrow> ('x \<Rightarrow> exception_handlers) \<Rightarrow> bool" where
  "exception_kernel self k handlers \<longleftrightarrow>
     (\<forall>bits x infos. task_get_exception_ports k bits x = Some infos \<longrightarrow>
        lists_handlers (handlers x) bits infos \<and> (\<forall>i\<in>set infos. \<forall>x. fst (task_set_exception_ports k i x))) \<and>
     (\<forall>i x. handlers (snd (task_set_exception_ports k i x)) =
        (if fst (task_set_exception_ports k i x)
         then (\<lambda>e. if bit (pi_mask i) e then port_handler i else handlers x e) else handlers x)) \<and>
     (\<forall>x. handlers (snd (mach_port_allocate k x)) = handlers x) \<and>
     (\<forall>x port. fst (mach_port_allocate k x) = Some port \<longrightarrow> port \<noteq> 0) \<and>
     (\<forall>port x. handlers (snd (mach_port_insert_right k port x)) = handlers x) \<and>
     (\<forall>name x. handlers (snd (pthread_create k name x)) = handlers x) \<and>
     (\<forall>name x p t. fst (pthread_create k name x) = Some (p, t) \<longrightarrow> p \<noteq> 0 \<and> t \<noteq> 0 \<and> t \<noteq> self) \<and>
     (\<forall>t x. handlers (thread_terminate k t x) = handlers x) \<and>
     (\<forall>p x. handlers (pthread_cancel k p x) = handlers x) \<and>
     (\<forall>x. handlers (snd (uuid_generate k x)) = handlers x)"

lemma exception_kernelD:
  assumes "exception_kernel self k handlers"
  shows "task_get_exception_ports k bits x = Some infos \<Longrightarrow> lists_handlers (handlers x) bits infos"
    and "task_get_exception_ports k bits x = Some infos \<Longrightarrow> i \<in> set infos \<Longrightarrow> fst (task_set_exception_ports k i y)"
    and "task_set_exception_ports k i x = (True, x') \<Longrightarrow>
      handlers x' = (\<lambda>e. if bit (pi_mask i) e then port_handler i else handlers x e)"
    and "task_set_exception_ports k i x = (False, x') \<Longrightarrow> handlers x' = handlers x"
    and "mach_port_allocate k x = (r, x') \<Longrightarrow> handlers x' = handlers x"
    and "mach_port_allocate k x = (Some port, x') \<Longrightarrow> port \<noteq> 0"
    and "mach_port_insert_right k port x = (b, x') \<Longrightarrow> handlers x' = handlers x"
    and "pthread_create k name x = (p, x') \<Longrightarrow> handlers x' = handlers x"
    and "pthread_create k name x = (Some (p', t), x') \<Longrightarrow> p' \<noteq> 0 \<and> t \<noteq> 0 \<and> t \<noteq> self"
    and "handlers (thread_terminate k t' x) = handlers x"
    and "handlers (pthread_cancel k t' x) = handlers x"
    and "uuid_generate k x = (u, x') \<Longrightarrow> handlers x' = handlers x"
proof -
  note laws = assms [unfolded exception_kernel_def]
  show "task_get_exception_ports k bits x = Some infos \<Longrightarrow> lists_handlers (handlers x) bits infos"
    "task_get_exception_ports k bits x = Some infos \<Longrightarrow> i \<in> set infos \<Longrightarrow> fst (task_set_exception_ports k i y)"
    "handlers (thread_terminate k t' x) = handlers x" "handlers (pthread_cancel k t' x) = handlers x"
    using laws by simp_all
  have set_ports: "handlers (snd (task_set_exception_ports k i x)) =
      (if fst (task_set_exception_ports k i x)
       then (\<lambda>e. if bit (pi_mask i) e then port_handler i else handlers x e) else handlers x)"
    using laws by simp
  show "task_set_exception_ports k i x = (True, x') \<Longrightarrow>
      handlers x' = (\<lambda>e. if bit (pi_mask i) e then port_handler i else handlers x e)"
    "task_set_exception_ports k i x = (False, x') \<Longrightarrow> handlers x' = handlers x"
    using set_ports by simp_all
  have others: "handlers (snd (mach_port_allocate k x)) = handlers x"
      "handlers (snd (mach_port_insert_right k port x)) = handlers x"
      "handlers (snd (pthread_create k name x)) = handlers x" "handlers (snd (uuid_generate k x)) = handlers x"
      "fst (mach_port_allocate k x) = Some port \<Longrightarrow> port \<noteq> 0"
      "fst (pthread_create k name x) = Some (p', t) \<Longrightarrow> p' \<noteq> 0 \<and> t \<noteq> 0 \<and> t \<noteq> self"
    using laws by simp_all
  show "mach_port_allocate k x = (r, x') \<Longrightarrow> handlers x' = handlers x"
    "mach_port_allocate k x = (Some port, x') \<Longrightarrow> port \<noteq> 0"
    "mach_port_insert_right k port x = (b, x') \<Longrightarrow> handlers x' = handlers x"
    "pthread_create k name x = (p, x') \<Longrightarrow> handlers x' = handlers x"
    "pthread_create k name x = (Some (p', t), x') \<Longrightarrow> p' \<noteq> 0 \<and> t \<noteq> 0 \<and> t \<noteq> self"
    "uuid_generate k x = (u, x') \<Longrightarrow> handlers x' = handlers x"
    using others by simp_all
qed

text \<open>The mask is that of five exceptions.\<close>

lemma exception_mask_bits: "bit exception_mask e \<longleftrightarrow> e \<in> {1, 2, 3, 5, 6}"
proof -
  have "exception_mask = 2 ^ 1 OR 2 ^ 2 OR 2 ^ 3 OR 2 ^ 5 OR 2 ^ 6" by (simp add: exception_mask_def)
  then show ?thesis unfolding \<open>exception_mask = _\<close> bit_or_iff bit_exp_iff by auto
qed

section \<open>Restoring\<close>

text \<open>The saved ports describe the handlers \<open>h\<close>, and the kernel takes them back.\<close>

definition saves_handlers :: "'x mach_kernel \<Rightarrow> exception_handlers \<Rightarrow> port_info list \<Rightarrow> bool" where
  "saves_handlers k h infos \<longleftrightarrow> lists_handlers h exception_mask infos \<and>
     (\<forall>i\<in>set infos. \<forall>x. fst (task_set_exception_ports k i x))"

lemma restore_fold:
  assumes "exception_kernel self k handlers"
  shows "\<forall>i\<in>set infos. (\<forall>x. fst (task_set_exception_ports k i x)) \<and> (\<forall>e. bit (pi_mask i) e \<longrightarrow> h e = port_handler i) \<Longrightarrow>
    handlers (fold (\<lambda>ports x. snd (task_set_exception_ports k ports x)) infos x) =
      (\<lambda>e. if \<exists>i\<in>set infos. bit (pi_mask i) e then h e else handlers x e)"
proof (induction infos arbitrary: x)
  case (Cons i infos)
  obtain x' where x': "task_set_exception_ports k i x = (True, x')"
    using Cons.prems by (metis list.set_intros(1) prod.collapse)
  show ?case
    using Cons exception_kernelD(3) [OF assms x'] x' by (auto simp: fun_eq_iff)
qed simp

lemma restore_saved:
  assumes "exception_kernel self k handlers" "saves_handlers k h (g_previousExceptionPorts m)"
  shows "handlers (snd (restoreExceptionPorts k (m, x))) =
    (\<lambda>e. if bit exception_mask e then h e else handlers x e)"
  using restore_fold [OF assms(1), of "g_previousExceptionPorts m" h x] assms(2)
  by (simp add: restoreExceptionPorts_def saves_handlers_def lists_handlers_def)

section \<open>Installing\<close>

text \<open>A monitor that has nothing installed, and one that has its port and its threads.\<close>

definition idle :: "('c, 'd) mach_monitor \<Rightarrow> bool" where
  "idle m \<longleftrightarrow> \<not> g_isInstalled m \<and> g_previousExceptionPorts m = [] \<and> g_exceptionPort m = 0 \<and>
     g_primaryPThread m = 0 \<and> g_primaryMachThread m = 0 \<and> g_secondaryPThread m = 0 \<and> g_secondaryMachThread m = 0"

text \<open>The handlers of a process with \<open>h\<close> when the monitor's port is installed.\<close>

definition taken_over :: "nat \<Rightarrow> exception_handlers \<Rightarrow> exception_handlers" where
  "taken_over port h = (\<lambda>e. if e \<in> {1, 2, 3, 5, 6} then (port, EXCEPTION_DEFAULT_CODES, 0) else h e)"

lemma uninstall_idle:
  assumes "exception_kernel self k handlers" "\<not> g_isInstalled m"
    and "g_primaryPThread m = 0" "g_primaryMachThread m = 0"
    and "g_secondaryPThread m = 0 \<and> g_secondaryMachThread m = 0 \<or> g_secondaryPThread m \<noteq> 0 \<and> g_secondaryMachThread m \<noteq> self"
  shows "\<exists>m' x'. uninstallExceptionHandler self k (m, x) = (m', x') \<and> idle m' \<and>
    mach_isEnabled m' = mach_isEnabled m \<and> handlers x' = handlers (snd (restoreExceptionPorts k (m, x)))"
  using assms(2-5)
  by (auto simp: uninstallExceptionHandler_def restoreExceptionPorts_def idle_def end_thread_def Let_def
    exception_kernelD(10,11) [OF assms(1)])

text \<open>The two ways that installing ends.\<close>

definition install_outcome ::
    "'x mach_kernel \<Rightarrow> ('x \<Rightarrow> exception_handlers) \<Rightarrow> exception_handlers \<Rightarrow> bool \<Rightarrow> ('c, 'd, 'x) mach_world \<Rightarrow> bool" where
  "install_outcome k handlers h installed = (\<lambda>(m, x).
     if installed then
       g_isInstalled m \<and> sentrycrashcm_hasReservedThreads m \<and> g_exceptionPort m \<noteq> 0 \<and>
       saves_handlers k h (g_previousExceptionPorts m) \<and> handlers x = taken_over (g_exceptionPort m) h
     else idle m \<and> handlers x = h)"

lemma have_port_keeps:
  assumes "exception_kernel self k handlers"
  shows "handlers (snd (snd (have_exception_port k (m, x)))) = handlers x"
proof (cases "mach_port_allocate k x")
  case (Pair r y)
  then have y: "handlers y = handlers x" by (rule exception_kernelD(5) [OF assms])
  show ?thesis
  proof (cases r)
    case (Some port)
    obtain b z where z: "mach_port_insert_right k port y = (b, z)" by (metis prod.collapse)
    from exception_kernelD(7) [OF assms z] Some Pair y z show ?thesis by (simp add: have_exception_port_def)
  qed (simp add: have_exception_port_def Pair y)
qed

lemma have_port_monitor:
  assumes "exception_kernel self k handlers" "have_exception_port k (m, x) = (b, m', x')"
  shows "\<exists>p. m' = m\<lparr>g_exceptionPort := p\<rparr> \<and> (b \<longrightarrow> p \<noteq> 0)"
proof (cases "g_exceptionPort m = 0")
  case True
  show ?thesis
  proof (cases "mach_port_allocate k x")
    case (Pair r y)
    show ?thesis
    proof (cases r)
      case None
      with Pair True assms(2) show ?thesis by (intro exI [of _ 0]) (simp add: have_exception_port_def)
    next
      case (Some port)
      have "port \<noteq> 0" using exception_kernelD(6) [OF assms(1)] Pair Some by simp
      moreover have "m' = m\<lparr>g_exceptionPort := port\<rparr>"
        using assms(2) Pair Some True by (simp add: have_exception_port_def case_prod_beta)
      ultimately show ?thesis by blast
    qed
  qed
next
  case False
  with assms(2) show ?thesis by (intro exI [of _ "g_exceptionPort m"]) (simp add: have_exception_port_def)
qed

text \<open>What creating the threads has set when it is done, or when it has failed.\<close>

definition threads_set :: "nat \<Rightarrow> bool \<Rightarrow> ('c, 'd) mach_monitor \<Rightarrow> ('c, 'd) mach_monitor \<Rightarrow> bool" where
  "threads_set self created m m' \<longleftrightarrow>
     (if created then \<exists>p t p' t'. t \<noteq> 0 \<and> t' \<noteq> 0 \<and> m' = m\<lparr>g_secondaryPThread := p, g_secondaryMachThread := t,
        g_primaryPThread := p', g_primaryMachThread := t'\<rparr>
      else m' = m \<or> (\<exists>p t. p \<noteq> 0 \<and> t \<noteq> self \<and> m' = m\<lparr>g_secondaryPThread := p, g_secondaryMachThread := t\<rparr>))"

lemma create_threads_result:
  assumes k: "exception_kernel self k handlers"
  shows "\<exists>created m' x'. create_threads k (m, x) = (created, m', x') \<and> handlers x' = handlers x \<and>
    threads_set self created m m'"
proof -
  obtain r y where r: "pthread_create k kThreadSecondary x = (r, y)" by (metis prod.collapse)
  note y = exception_kernelD(8) [OF k r]
  show ?thesis
  proof (cases r)
    case None
    with r y show ?thesis by (auto simp: create_threads_def threads_set_def)
  next
    case (Some a)
    then obtain p t where a: "r = Some (p, t)" by (cases a) simp
    then have pt: "p \<noteq> 0" "t \<noteq> 0" "t \<noteq> self" using exception_kernelD(9) [OF k] r by auto
    obtain r' z where r': "pthread_create k kThreadPrimary y = (r', z)" by (metis prod.collapse)
    note z = exception_kernelD(8) [OF k r']
    show ?thesis
    proof (cases r')
      case None
      with r r' y z a pt show ?thesis by (auto simp: create_threads_def threads_set_def)
    next
      case (Some b)
      then obtain p' t' where b: "r' = Some (p', t')" by (cases b) simp
      then have "t' \<noteq> 0" using exception_kernelD(9) [OF k] r' by auto
      with r r' y z a b pt show ?thesis by (auto simp: create_threads_def threads_set_def)
    qed
  qed
qed

text \<open>A failed attempt that has saved the ports is undone.\<close>

lemma uninstall_outcome:
  assumes k: "exception_kernel self k handlers" and saves: "saves_handlers k h infos"
    and m: "\<not> g_isInstalled m" "g_previousExceptionPorts m = infos" "g_primaryPThread m = 0" "g_primaryMachThread m = 0"
      "g_secondaryPThread m = 0 \<and> g_secondaryMachThread m = 0 \<or> g_secondaryPThread m \<noteq> 0 \<and> g_secondaryMachThread m \<noteq> self"
    and x: "\<forall>e. \<not> bit exception_mask e \<longrightarrow> handlers x e = h e"
  shows "install_outcome k handlers h False (uninstallExceptionHandler self k (m, x))"
proof -
  obtain m' x' where "uninstallExceptionHandler self k (m, x) = (m', x')" "idle m'"
      "handlers x' = handlers (snd (restoreExceptionPorts k (m, x)))"
    using uninstall_idle [OF k m(1,3,4,5), of x] by blast
  moreover have "handlers (snd (restoreExceptionPorts k (m, x))) = h"
    using restore_saved [OF k, of h m x] saves m(2) x by (auto simp: fun_eq_iff)
  ultimately show ?thesis by (simp add: install_outcome_def)
qed

lemma install_runs:
  assumes k: "exception_kernel self k handlers" and idle: "idle m"
  shows "case installExceptionHandler self k (m, x) of (installed, w) \<Rightarrow> install_outcome k handlers (handlers x) installed w"
proof (cases "task_get_exception_ports k exception_mask x")
  case None
  obtain m' x' where "uninstallExceptionHandler self k (m, x) = (m', x')" "idle m'"
      "handlers x' = handlers (snd (restoreExceptionPorts k (m, x)))"
    using uninstall_idle [OF k, of m x] idle by (auto simp: idle_def)
  with None idle show ?thesis
    by (simp add: installExceptionHandler_def install_outcome_def restoreExceptionPorts_def idle_def)
next
  case (Some infos)
  have saves: "saves_handlers k (handlers x) infos"
    using exception_kernelD(1,2) [OF k Some] by (simp add: saves_handlers_def)
  let ?m = "m\<lparr>g_previousExceptionPorts := infos\<rparr>"
  note failing = uninstall_outcome [OF k saves]
  obtain have_port m1 x1 where port: "have_exception_port k (?m, x) = (have_port, m1, x1)"
    by (metis prod.collapse)
  have x1: "handlers x1 = handlers x" using have_port_keeps [OF k, of ?m x] port by simp
  obtain p where m1: "m1 = ?m\<lparr>g_exceptionPort := p\<rparr>" and p1: "have_port \<Longrightarrow> g_exceptionPort m1 \<noteq> 0"
    using have_port_monitor [OF k port] by auto
  have idle1: "\<not> g_isInstalled m1" "g_previousExceptionPorts m1 = infos" "g_primaryPThread m1 = 0"
      "g_primaryMachThread m1 = 0" "g_secondaryPThread m1 = 0 \<and> g_secondaryMachThread m1 = 0"
    using m1 idle by (simp_all add: idle_def)
  obtain accepted x2 where ports: "task_set_exception_ports k (our_ports (g_exceptionPort m1)) x1 = (accepted, x2)"
    by (metis prod.collapse)
  have x2: "\<not> accepted \<Longrightarrow> handlers x2 = handlers x" "accepted \<Longrightarrow> handlers x2 = taken_over (g_exceptionPort m1) (handlers x)"
    using exception_kernelD(3,4) [OF k, of "our_ports (g_exceptionPort m1)" x1 x2] ports x1
    by (cases accepted; simp add: taken_over_def our_ports_def port_handler_def fun_eq_iff exception_mask_bits)+
  obtain created m3 x3 where threads: "create_threads k (m1, x2) = (created, m3, x3)"
      and x3: "handlers x3 = handlers x2" and set: "threads_set self created m1 m3"
    using create_threads_result [OF k, of m1 x2] by blast
  have run: "installExceptionHandler self k (m, x) =
      (if have_port then if accepted then if created then (True, m3\<lparr>g_isInstalled := True\<rparr>, x3)
        else (False, uninstallExceptionHandler self k (m3, x3))
        else (False, uninstallExceptionHandler self k (m1, x2))
        else (False, uninstallExceptionHandler self k (m1, x1)))"
    by (simp add: installExceptionHandler_def Some port ports threads)
  consider "\<not> have_port" | "have_port" "\<not> accepted" | "have_port" "accepted" "created" | "have_port" "accepted" "\<not> created"
    by blast
  then show ?thesis
  proof cases
    case 1
    have "install_outcome k handlers (handlers x) False (uninstallExceptionHandler self k (m1, x1))"
      by (rule failing) (simp_all add: idle1 x1)
    with run 1 show ?thesis by simp
  next
    case 2
    have "install_outcome k handlers (handlers x) False (uninstallExceptionHandler self k (m1, x2))"
      by (rule failing) (simp_all add: idle1 x2 2)
    with run 2 show ?thesis by simp
  next
    case 3
    then have "install_outcome k handlers (handlers x) True (m3\<lparr>g_isInstalled := True\<rparr>, x3)"
      using set idle1 saves x2(2) x3 p1
      by (auto simp: threads_set_def install_outcome_def sentrycrashcm_hasReservedThreads_def)
    with run 3 show ?thesis by simp
  next
    case 4
    have "install_outcome k handlers (handlers x) False (uninstallExceptionHandler self k (m3, x3))"
      by (rule failing) (use set 4 idle1 in \<open>auto simp: threads_set_def x3 x2(2) taken_over_def exception_mask_bits\<close>)
    with run 4 show ?thesis by simp
  qed
qed

lemma enable_outcome:
  assumes "exception_kernel self k handlers" "idle m"
  shows "case mach_setEnabled self k True (m, x) of (m', x') \<Rightarrow>
    install_outcome k handlers (handlers x) (mach_isEnabled m') (m', x')"
proof -
  obtain u1 x1 where x1: "uuid_generate k x = (u1, x1)" by (metis prod.collapse)
  obtain u2 x2 where x2: "uuid_generate k x1 = (u2, x2)" by (metis prod.collapse)
  have hx: "handlers x2 = handlers x" using exception_kernelD(12) [OF assms(1)] x1 x2 by metis
  let ?m = "m\<lparr>mach_isEnabled := True, g_primaryEventID := sentrycrashid_generate u1,
      g_secondaryEventID := sentrycrashid_generate u2\<rparr>"
  obtain installed m3 x3 where install: "installExceptionHandler self k (?m, x2) = (installed, m3, x3)"
    by (metis prod.collapse)
  have "idle ?m" using assms(2) by (simp add: idle_def)
  from install_runs [OF assms(1) this, of x2] have "install_outcome k handlers (handlers x) installed (m3, x3)"
    by (simp add: install hx)
  moreover have "mach_setEnabled self k True (m, x) = (m3\<lparr>mach_isEnabled := installed\<rparr>, x3)"
    using assms(2) install x1 x2 by (simp add: mach_setEnabled_def idle_def)
  ultimately show ?thesis
    by (cases installed; simp add: install_outcome_def sentrycrashcm_hasReservedThreads_def idle_def)
qed

text \<open>
  C14. Turning the monitor for Mach exceptions on either works: then the five exceptions that are crashes
  go to its port, and what it has saved puts the ports of all exceptions back as they were. Or it does
  not, whatever call of the kernel fails: then the monitor is off, it has no threads and no port, and
  all ports are as they were.
\<close>

theorem exception_ports_kept:
  assumes "exception_kernel self k handlers" "idle m"
  shows "case mach_setEnabled self k True (m, x) of (m', x') \<Rightarrow>
    if mach_isEnabled_fn (m', x')
    then sentrycrashcm_hasReservedThreads m' \<and> handlers x' = taken_over (g_exceptionPort m') (handlers x) \<and>
      handlers (snd (restoreExceptionPorts k (m', x'))) = handlers x
    else idle m' \<and> handlers x' = handlers x"
proof -
  obtain m' x' where on: "mach_setEnabled self k True (m, x) = (m', x')" by (metis prod.collapse)
  with enable_outcome [OF assms, of x]
  have out: "install_outcome k handlers (handlers x) (mach_isEnabled m') (m', x')" by simp
  show ?thesis
  proof (cases "mach_isEnabled m'")
    case True
    with out restore_saved [OF assms(1), of "handlers x" m' x'] show ?thesis
      by (auto simp: on install_outcome_def mach_isEnabled_fn_def taken_over_def exception_mask_bits fun_eq_iff)
  next
    case False
    with out show ?thesis by (simp add: on install_outcome_def mach_isEnabled_fn_def)
  qed
qed

text \<open>A kernel whose state is the handlers; creating threads works or does not.\<close>

definition demo_kernel :: "bool \<Rightarrow> exception_handlers mach_kernel" where
  "demo_kernel threads =
     \<lparr>task_get_exception_ports = (\<lambda>bits h. Some (map (\<lambda>e.
          \<lparr>pi_mask = 2 ^ e, pi_port = fst (h e), pi_behavior = fst (snd (h e)), pi_flavor = snd (snd (h e))\<rparr>) (filter (bit bits) [0 ..< 32]))),
      task_set_exception_ports = (\<lambda>i h. (True, \<lambda>e. if bit (pi_mask i) e then port_handler i else h e)),
      mach_port_allocate = (\<lambda>h. (Some 9, h)), mach_port_insert_right = (\<lambda>_ h. (True, h)),
      pthread_create = (\<lambda>name h. (if threads then Some (1, if name = kThreadPrimary then 20 else 21) else None, h)),
      thread_terminate = (\<lambda>_ h. h), pthread_cancel = (\<lambda>_ h. h), uuid_generate = (\<lambda>h. (replicate 16 NUL, h)),
      reply_message = (\<lambda>_ _ h. h)\<rparr>"

lemma demo_kernel_ok: "exception_kernel 5 (demo_kernel threads) (\<lambda>h. h)"
proof -
  have "lists_handlers h bits (map (\<lambda>e.
      \<lparr>pi_mask = 2 ^ e, pi_port = fst (h e), pi_behavior = fst (snd (h e)), pi_flavor = snd (snd (h e))\<rparr>) (filter (bit bits) [0 ..< 32]))"
    for h :: exception_handlers and bits :: "32 word"
    by (auto simp: lists_handlers_def bit_exp_iff port_handler_def dest: bit_imp_le_length)
  then show ?thesis by (simp add: exception_kernel_def demo_kernel_def)
qed

lemma initial_idle: "idle (initial_mach_monitor z)"
  by (simp add: idle_def initial_mach_monitor_def)

definition debugged :: exception_handlers where
  "debugged e = (if e = 6 then (77, 1, 0) else (0, 0, 0))"

definition demo_mach :: "(arm64_context, unit) mach_monitor" where
  "demo_mach = initial_mach_monitor ()"

lemma demo_idle: "idle demo_mach"
  by (simp add: demo_mach_def initial_idle)

lemma demo_enables:
  "mach_isEnabled_fn (mach_setEnabled 5 (demo_kernel threads) True (demo_mach, h)) = threads"
  "threads \<Longrightarrow> g_exceptionPort (fst (mach_setEnabled 5 (demo_kernel threads) True (demo_mach, h))) = 9"
  "threads \<Longrightarrow> g_primaryMachThread (fst (mach_setEnabled 5 (demo_kernel threads) True (demo_mach, h))) = 20"
  by (simp_all add: mach_setEnabled_def mach_isEnabled_fn_def installExceptionHandler_def have_exception_port_def
    create_threads_def demo_kernel_def demo_mach_def initial_mach_monitor_def case_prod_beta del: upt_Suc upt_rec_numeral)

theorem exception_ports_kept_witness:
  "(case mach_setEnabled 5 (demo_kernel True) True (demo_mach, debugged) of (m', h') \<Rightarrow>
      mach_isEnabled_fn (m', h') \<and> h' = taken_over 9 debugged \<and>
      snd (restoreExceptionPorts (demo_kernel True) (m', h')) = debugged) \<and>
   (case mach_setEnabled 5 (demo_kernel False) True (demo_mach, debugged) of (m', h') \<Rightarrow>
      \<not> mach_isEnabled_fn (m', h') \<and> h' = debugged)"
proof (rule conjI)
  let ?w = "\<lambda>threads. mach_setEnabled 5 (demo_kernel threads) True (demo_mach, debugged)"
  obtain m h where t: "?w True = (m, h)" by (metis prod.collapse)
  with demo_enables [of True debugged] have "mach_isEnabled_fn (m, h)" "g_exceptionPort m = 9" by simp_all
  with t exception_ports_kept [OF demo_kernel_ok [of True] demo_idle, of debugged]
  show "case ?w True of (m', h') \<Rightarrow> mach_isEnabled_fn (m', h') \<and> h' = taken_over 9 debugged \<and>
      snd (restoreExceptionPorts (demo_kernel True) (m', h')) = debugged" by auto
  obtain m h where f: "?w False = (m, h)" by (metis prod.collapse)
  with demo_enables(1) [of False debugged] have "\<not> mach_isEnabled_fn (m, h)" by simp
  with f exception_ports_kept [OF demo_kernel_ok [of False] demo_idle, of debugged]
  show "case ?w False of (m', h') \<Rightarrow> \<not> mach_isEnabled_fn (m', h') \<and> h' = debugged" by simp
qed

section \<open>Handling an exception\<close>

text \<open>The first \<open>n\<close> tries to receive a message fail, the next one receives it.\<close>

primrec arrives ::
    "(nat \<Rightarrow> ('c, 'd, 'x) mach_world monitoring \<Rightarrow> mach_message option \<times> ('c, 'd, 'x) mach_world monitoring) \<Rightarrow> nat \<Rightarrow>
     ('c, 'd, 'x) mach_world monitoring \<Rightarrow> mach_message \<Rightarrow> ('c, 'd, 'x) mach_world monitoring \<Rightarrow> bool" where
  "arrives receive 0 s message s' \<longleftrightarrow> receive (g_exceptionPort (fst (monitor_world s))) s = (Some message, s')"
| "arrives receive (Suc n) s message s' \<longleftrightarrow>
     (\<exists>s1. receive (g_exceptionPort (fst (monitor_world s))) s = (None, s1) \<and> arrives receive n s1 message s')"

lemma wait_arrives: "arrives receive n s message s' \<Longrightarrow> n < fuel \<Longrightarrow> wait_message receive fuel s = Inr (message, s')"
proof (induction n arbitrary: s fuel)
  case 0
  then show ?case by (cases fuel) auto
next
  case (Suc n)
  then show ?case by (cases fuel) auto
qed

definition mach_entry :: "nat \<Rightarrow> 'x mach_kernel \<Rightarrow> (('c, 'd, 'x) mach_world, ('c, 'd) monitor_context) monitor" where
  "mach_entry self k =
     \<lparr>monitorType = SentryCrashMonitorTypeMachException, getAPI = Some (sentrycrashcm_machexception_getAPI self k)\<rparr>"

text \<open>What the other parts leave alone: the globals of this monitor, and the handlers of exceptions.\<close>

definition mach_view :: "('x \<Rightarrow> exception_handlers) \<Rightarrow> ('c, 'd, 'x) mach_world \<Rightarrow> ('c, 'd) mach_monitor \<times> exception_handlers" where
  "mach_view handlers w = (fst w, handlers (snd w))"

lemma mach_view_simps [simp]:
  "mach_view handlers (m, x) = (m, handlers x)" "fst (mach_view handlers w) = fst w"
  "snd (mach_view handlers w) = handlers (snd w)"
  by (simp_all add: mach_view_def)

lemma mach_entry_off:
  "\<exists>u'. setMonitorEnabled (mach_entry self k) False u = Inr u' \<and>
    mach_view handlers u' = ((fst u)\<lparr>mach_isEnabled := False\<rparr>, handlers (snd u))"
  by (cases u) (simp add: setMonitorEnabled_def mach_entry_def sentrycrashcm_machexception_getAPI_def mach_setEnabled_def)

text \<open>The monitor that is on when a message arrives on its primary thread, in a process whose own handlers are \<open>h\<close>.\<close>

definition mach_armed :: "'x mach_kernel \<Rightarrow> ('x \<Rightarrow> exception_handlers) \<Rightarrow> exception_handlers \<Rightarrow> nat \<Rightarrow> ('c, 'd, 'x) mach_world \<Rightarrow> bool" where
  "mach_armed k handlers h self w \<longleftrightarrow> mach_isEnabled (fst w) \<and> g_primaryMachThread (fst w) = self \<and>
     saves_handlers k h (g_previousExceptionPorts (fst w)) \<and>
     handlers (snd w) = taken_over (g_exceptionPort (fst w)) h"

lemma activate_restores:
  assumes k: "exception_kernel self k handlers" and m: "saves_handlers k h (g_previousExceptionPorts (fst w))"
    and h: "handlers (snd w) = taken_over port h"
    and quiet: "quiet_machine (mach_view handlers) env" "sentrycrashthread_self env = g_primaryMachThread (fst w)"
  shows "mach_view handlers (activate_secondary env k w) = ((fst w)\<lparr>g_previousExceptionPorts := []\<rparr>, h)"
proof -
  have "handlers (snd (restoreExceptionPorts k w)) = h"
    using restore_saved [OF k, of h "fst w" "snd w"] m h
    by (auto simp: taken_over_def exception_mask_bits fun_eq_iff)
  moreover have "fst (restoreExceptionPorts k w) = (fst w)\<lparr>g_previousExceptionPorts := []\<rparr>"
    by (simp add: restoreExceptionPorts_def case_prod_beta)
  ultimately show ?thesis
    using quiet_machineD(2) [OF quiet(1)] quiet(2) by (simp add: activate_secondary_def Let_def mach_view_def)
qed

lemma describe_quiet:
  assumes "quiet_machine (mach_view handlers) env"
  shows "\<exists>w'. describe_exception env is_lp64 secondary message w = Inr w' \<and>
    mach_isEnabled (fst w') = mach_isEnabled (fst w) \<and> handlers (snd w') = handlers (snd w)"
proof -
  obtain mc m x where "sentrycrashmc_getContextForThread env (msg_thread message) True w = Inr (mc, m, x)"
      "mach_view handlers (m, x) = mach_view handlers w"
    using thread_context_quiet [OF assms] by (metis prod.collapse)
  then show ?thesis by (auto simp: describe_exception_def mach_view_def Let_def)
qed

text \<open>What the parts around the monitor are to leave alone while it handles an exception of a process with the handlers \<open>h\<close>.\<close>

definition quiet_parts ::
    "nat \<Rightarrow> 'x mach_kernel \<Rightarrow> ('x \<Rightarrow> exception_handlers) \<Rightarrow> exception_handlers \<Rightarrow>
     ('c, ('c, 'd, 'x) mach_world) machine_env \<Rightarrow>
     (('c, 'd, 'x) mach_world, ('c, 'd) monitor_context) monitor_env \<Rightarrow> bool" where
  "quiet_parts self k handlers h env monitors \<longleftrightarrow>
     (\<exists>as bs. env_monitors monitors = as @ mach_entry self k # bs \<and>
        (\<forall>m\<in>set as \<union> set bs. leaves (mach_view handlers) m)) \<and>
     quiet_machine (mach_view handlers) env \<and>
     quiet_callback (\<lambda>w. handlers (snd w) = h) (mach_view handlers) monitors"

lemma mach_entry_off_view:
  "mach_view handlers u = (m, h) \<Longrightarrow> \<exists>u'. setMonitorEnabled (mach_entry self k) False u = Inr u' \<and>
    mach_view handlers u' = (m\<lparr>mach_isEnabled := False\<rparr>, h)"
  using mach_entry_off [of self k u handlers] by (cases u) simp

text \<open>Until the exception is described: the handlers are the process's own, a second crash has turned the monitor off.\<close>

lemma exception_described:
  assumes k: "exception_kernel installer k handlers" and parts: "quiet_parts self k handlers h env monitors"
    and armed: "mach_armed k handlers h self (monitor_world s)" "sentrycrashthread_self env = self"
  shows "\<exists>s3 w5. sentrycrashcm_notifyFatalExceptionCaptured monitors True s = Inr (g_crashedDuringExceptionHandling s3, s3) \<and>
    g_handlingFatalException s3 \<and>
    describe_exception env is_lp64 False message (activate_secondary env k (monitor_world s3)) = Inr w5 \<and>
    handlers (snd w5) = h \<and> (g_crashedDuringExceptionHandling s3 \<longrightarrow> \<not> mach_isEnabled (fst w5))"
proof -
  let ?view = "mach_view handlers"
  obtain as bs where table: "env_monitors monitors = as @ mach_entry self k # bs" "\<forall>m\<in>set as \<union> set bs. leaves ?view m"
      and quiet: "quiet_machine ?view env"
    using parts by (auto simp: quiet_parts_def)
  obtain m x where s: "monitor_world s = (m, x)" by fastforce
  obtain s3 where s3: "sentrycrashcm_notifyFatalExceptionCaptured monitors True s =
        Inr (g_crashedDuringExceptionHandling s3, s3)" "g_handlingFatalException s3"
      "if g_crashedDuringExceptionHandling s3
       then ?view (monitor_world s3) = (m\<lparr>mach_isEnabled := False\<rparr>, handlers x) else monitor_world s3 = monitor_world s"
  proof -
    have "\<exists>u'. setMonitorEnabled (mach_entry self k) False u = Inr u' \<and>
        ?view u' = (m\<lparr>mach_isEnabled := False\<rparr>, handlers x)" if "?view u = ?view (monitor_world s)" for u
      using that by (intro mach_entry_off_view) (simp add: s)
    from notify_one [where P = "\<lambda>v. v = (m\<lparr>mach_isEnabled := False\<rparr>, handlers x)" and async = True, OF table this]
    show thesis using that by blast
  qed
  let ?w3 = "monitor_world s3"
  have "fst ?w3 = (if g_crashedDuringExceptionHandling s3 then m\<lparr>mach_isEnabled := False\<rparr> else m)"
      "handlers (snd ?w3) = handlers x"
    using s3(3) s by (simp_all add: mach_view_def split: if_splits)
  with armed s have saves: "saves_handlers k h (g_previousExceptionPorts (fst ?w3))"
      "handlers (snd ?w3) = taken_over (g_exceptionPort m) h" "g_primaryMachThread (fst ?w3) = self"
      "g_crashedDuringExceptionHandling s3 \<longrightarrow> \<not> mach_isEnabled (fst ?w3)"
    by (simp_all add: mach_armed_def split: if_splits)
  obtain w5 where w5: "describe_exception env is_lp64 False message (activate_secondary env k ?w3) = Inr w5"
      "mach_isEnabled (fst w5) = mach_isEnabled (fst ?w3)" "handlers (snd w5) = h"
    using describe_quiet [OF quiet, of is_lp64 False message "activate_secondary env k ?w3"]
      activate_restores [OF k saves(1,2) quiet] saves(3) armed(2) by (auto simp: mach_view_def)
  with s3(1,2) saves(4) show ?thesis by metis
qed

text \<open>From then on: the callback runs, and all monitors are turned off.\<close>

lemma exception_reported:
  assumes parts: "quiet_parts self k handlers h env monitors" and fatal: "g_handlingFatalException s"
    and w: "monitor_world s = (m, x)" "handlers x = h"
    and second: "g_crashedDuringExceptionHandling s \<longrightarrow> \<not> mach_isEnabled m"
  shows "\<exists>s' m' x'. report_exception monitors s = Inr s' \<and> monitor_world s' = (m', x') \<and> \<not> mach_isEnabled m' \<and>
    handlers x' = h"
proof -
  let ?view = "mach_view handlers"
  obtain as bs where table: "env_monitors monitors = as @ mach_entry self k # bs" "\<forall>m\<in>set as \<union> set bs. leaves ?view m"
      and quiet: "quiet_callback (\<lambda>w. handlers (snd w) = h) ?view monitors"
    using parts by (auto simp: quiet_parts_def)
  define s5 where "s5 = s\<lparr>monitor_world := (m\<lparr>g_monitorContext := complete_event monitors s (g_monitorContext m)\<rparr>, x)\<rparr>"
  have now: "if g_crashedDuringExceptionHandling s5 then \<not> mach_isEnabled (fst (?view (monitor_world s5))) \<and>
      snd (?view (monitor_world s5)) = h else snd (?view (monitor_world s5)) = h"
    using w second by (simp add: s5_def)
  have off: "snd (?view u) = h \<Longrightarrow> \<exists>u'. setMonitorEnabled (mach_entry self k) False u = Inr u' \<and>
      \<not> mach_isEnabled (fst (?view u')) \<and> snd (?view u') = h" for u
    using mach_entry_off_view [of handlers u _ h self k] by (cases "?view u") fastforce
  have "\<exists>s6. sentrycrashcm_handleException monitors (g_monitorContext m) s5 = Inr s6 \<and>
      \<not> mach_isEnabled (fst (?view (monitor_world s6))) \<and> snd (?view (monitor_world s6)) = h"
    by (rule exception_one [where Q = "\<lambda>v. snd v = h" and P = "\<lambda>v. \<not> mach_isEnabled (fst v) \<and> snd v = h" and
        C = "\<lambda>w. handlers (snd w) = h", OF table quiet _ _ off now])
       (use w fatal in \<open>simp_all add: s5_def\<close>)
  then obtain s6 where s6: "report_exception monitors s = Inr s6"
      "\<not> mach_isEnabled (fst (monitor_world s6))" "handlers (snd (monitor_world s6)) = h"
    by (auto simp: report_exception_def s5_def w(1))
  then show ?thesis by (metis prod.collapse)
qed

text \<open>
  C13. An exception whose message arrives after any number of failed tries, while the monitor is on: the
  primary thread handles it and answers that it has not handled it, so that the kernel goes on. The
  callback for events is only called when the exceptions of the process go to its own handlers again,
  so a crash of the crash reporter cannot come back to this monitor; and the monitor is then off.
\<close>

theorem mach_exception_handled:
  assumes k: "exception_kernel installer k handlers" and parts: "quiet_parts self k handlers h env monitors"
    and arrives: "arrives receive n s message s1" "n < fuel"
    and armed: "mach_armed k handlers h self (monitor_world s1)" "sentrycrashthread_self env = self"
  shows "\<exists>s' m' x'. handleExceptions fuel receive env k monitors is_lp64 kThreadPrimary s = Inr s' \<and>
    monitor_world s' = (m', reply_message k message KERN_FAILURE x') \<and> handlers x' = h \<and>
    \<not> mach_isEnabled m' \<and> \<not> g_isHandlingCrash m'"
proof -
  have on: "mach_isEnabled (fst (monitor_world s1))" using armed(1) by (simp add: mach_armed_def)
  have wait: "wait_message receive fuel s = Inr (message, s1)" using wait_arrives [OF arrives] .
  obtain threads n m2 x2 where suspend: "sentrycrashmc_suspendEnvironment (with_reserved env (monitor_world s1)) (monitor_world s1) =
      (threads, n, m2, x2)" by (metis prod.collapse)
  have quiet: "quiet_machine (mach_view handlers) (with_reserved env w)" for w
    using parts by (simp add: with_reserved_def quiet_parts_def)
  note v2 = suspend_quiet [OF quiet suspend]
  let ?s2 = "s1\<lparr>monitor_world := (m2\<lparr>g_isHandlingCrash := True\<rparr>, x2)\<rparr>"
  have "mach_armed k handlers h self (monitor_world ?s2)"
    using armed(1) v2(1) by (cases "monitor_world s1") (simp add: mach_armed_def)
  from exception_described [OF k parts this armed(2)] obtain s3 w5 where
      s3: "sentrycrashcm_notifyFatalExceptionCaptured monitors True ?s2 = Inr (g_crashedDuringExceptionHandling s3, s3)"
      "g_handlingFatalException s3"
      and w5: "describe_exception env is_lp64 False message (activate_secondary env k (monitor_world s3)) = Inr w5"
      "handlers (snd w5) = h" "g_crashedDuringExceptionHandling s3 \<longrightarrow> \<not> mach_isEnabled (fst w5)" by blast
  obtain m5 x5 where w5': "w5 = (m5, x5)" by fastforce
  obtain s6 m6 x6 where s6: "report_exception monitors (s3\<lparr>monitor_world := w5\<rparr>) = Inr s6"
      "monitor_world s6 = (m6, x6)" "\<not> mach_isEnabled m6" "handlers x6 = h"
    using exception_reported [OF parts, of "s3\<lparr>monitor_world := w5\<rparr>" m5 x5] s3(2) w5(2,3) w5' by auto
  let ?w6 = "(m6\<lparr>g_isHandlingCrash := False\<rparr>, x6)"
  obtain m7 x7 where w7: "sentrycrashmc_resumeEnvironment (with_reserved env ?w6) threads n ?w6 = Inr (m7, x7)"
      "mach_view handlers (m7, x7) = mach_view handlers ?w6"
    using resume_quiet [OF quiet v2(2)] by (metis prod.collapse)
  have "handle_message env k monitors is_lp64 False message s1 = Inr (s6\<lparr>monitor_world := (m7, x7)\<rparr>)"
    using suspend s3(1) w5(1) s6(1,2) w7(1) by (simp add: handle_message_def)
  then have "handleExceptions fuel receive env k monitors is_lp64 kThreadPrimary s =
      Inr (s6\<lparr>monitor_world := (m7, reply_message k message KERN_FAILURE x7)\<rparr>)"
    using wait on by (simp add: handleExceptions_def kThreadPrimary_def kThreadSecondary_def)
  with w7(2) s6(3,4) show ?thesis by auto
qed

text \<open>A process of one thread beside those of the monitor; the first try to receive a message fails.\<close>

definition demo_mach_machine :: "(arm64_context, (arm64_context, unit, exception_handlers) mach_world) machine_env" where
  "demo_mach_machine =
     \<lparr>env_cpu = arm64_cpu, env_vm = (\<lambda>_ _. None), cpu_getState = (\<lambda>_ c. c),
      zero_regs = \<lparr>thisThread = 0, cpu_ss = (\<lambda>_. 0), cpu_es = (\<lambda>_. 0)\<rparr>, thread_self = 20, reserved = (\<lambda>_. False),
      task_threads = (\<lambda>_. Some [5, 20, 21]), thread_suspend = (\<lambda>_ w. w), thread_resume = (\<lambda>_ w. w),
      port_deallocate = (\<lambda>_ w. w)\<rparr>"

definition demo_mach_monitors ::
    "((arm64_context, unit, exception_handlers) mach_world, (arm64_context, unit) monitor_context) monitor_env" where
  "demo_mach_monitors =
     \<lparr>env_monitors = [mach_entry 20 (demo_kernel True)], isBeingTraced = (\<lambda>_. False),
      g_onExceptionEvent = (\<lambda>c s. Inr s)\<rparr>"

definition demo_message :: mach_message where
  "demo_message = \<lparr>msg_thread = 5, msg_exception = EXC_BAD_ACCESS, msg_code = KERN_INVALID_ADDRESS, msg_subcode = 16\<rparr>"

definition demo_receive :: "nat \<Rightarrow> 'w monitoring \<Rightarrow> mach_message option \<times> 'w monitoring" where
  "demo_receive port s =
     (if g_activeMonitors s = 1 then (Some demo_message, s) else (None, s\<lparr>g_activeMonitors := 1\<rparr>))"

lemma demo_quiet_parts: "quiet_parts 20 (demo_kernel True) (\<lambda>h. h) h demo_mach_machine demo_mach_monitors"
  by (auto simp: quiet_parts_def demo_mach_monitors_def demo_mach_machine_def quiet_machine_def quiet_callback_def
    maxThreads_def intro: exI [of _ "[]"])

theorem mach_exception_handled_witness:
  "\<exists>m h s' m'. mach_setEnabled 5 (demo_kernel True) True (demo_mach, debugged) = (m, h) \<and>
    handleExceptions 2 demo_receive demo_mach_machine (demo_kernel True) demo_mach_monitors True kThreadPrimary
      (initial_monitoring (m, h)) = Inr s' \<and>
    monitor_world s' = (m', debugged) \<and> \<not> mach_isEnabled m'"
proof -
  obtain m h where on: "mach_setEnabled 5 (demo_kernel True) True (demo_mach, debugged) = (m, h)"
    by (metis prod.collapse)
  let ?s = "initial_monitoring (m, h)"
  have armed: "mach_armed (demo_kernel True) (\<lambda>h. h) debugged 20 (monitor_world (?s\<lparr>g_activeMonitors := 1\<rparr>))"
    using enable_outcome [OF demo_kernel_ok [of True] demo_idle, of debugged] demo_enables [of True debugged] on
    by (simp add: mach_armed_def install_outcome_def initial_monitoring_def mach_isEnabled_fn_def)
  have "arrives demo_receive 1 ?s demo_message (?s\<lparr>g_activeMonitors := 1\<rparr>)"
    by (simp add: demo_receive_def initial_monitoring_def SentryCrashMonitorTypeNone_def)
  from mach_exception_handled [OF demo_kernel_ok demo_quiet_parts this _ armed, of 2 True] on show ?thesis
    by (auto simp: demo_mach_machine_def sentrycrashthread_self_def demo_kernel_def)
qed

section \<open>Signals and exceptions\<close>

text \<open>
  For the signals that have an exception of their own, the signal of the exception of a signal is the
  signal. The signals of software exceptions are given the code for a type, which has no name.
\<close>

lemma signal_of_exception:
  "n \<in> {SIGFPE, SIGILL, SIGTRAP, SIGEMT, SIGSEGV, SIGBUS} \<Longrightarrow>
    signalForMachException (machExceptionForSignal n) (if n = SIGSEGV then KERN_INVALID_ADDRESS else KERN_PROTECTION_FAILURE) = n"
  by (auto simp: signalForMachException_def machExceptionForSignal_def signal_numbers SIGEMT_def SIGKILL_def
    exception_numbers exception_codes)

lemma software_exception_unnamed:
  "n \<in> {SIGSYS, SIGPIPE, SIGKILL} \<Longrightarrow>
    sentrycrashmach_exceptionName (sint (machExceptionForSignal n)) = None \<and>
    signalForMachException (machExceptionForSignal n) code = 0"
  by (auto simp: signalForMachException_def machExceptionForSignal_def signal_numbers SIGEMT_def SIGKILL_def
    exception_numbers exception_codes sentrycrashmach_exceptionName_def exception_names_def)

text \<open>
  An exception is described as the code says: a stack overflow is never corrected to an invalid
  address, since the flag of the context that is asked is not the one that is set.
\<close>

lemma mach_event_overflow: "crash_isStackOverflow (mach_event cpu is_lp64 i message mc cursor crash) = crash_isStackOverflow crash"
  by (simp add: mach_event_def Let_def)

lemma stack_overflow_is_bus_error:
  assumes "\<not> crash_isStackOverflow crash" "msg_exception message = EXC_BAD_ACCESS"
    "msg_code message = KERN_PROTECTION_FAILURE"
  shows "mach_code (mach_event cpu is_lp64 i message mc cursor crash) = KERN_PROTECTION_FAILURE \<and>
    signal_signum (mach_event cpu is_lp64 i message mc cursor crash) = word_of_int SIGBUS"
  using assms
  by (simp add: mach_event_def Let_def signalForMachException_def exception_numbers exception_codes MACH_ERROR_CODE_MASK_def)

section \<open>The states of the monitor\<close>

text \<open>
  What can happen to the monitor, by the operations of the monitors' table, by its threads while they
  handle an exception, and by everything else, which acts on the kernel only.
\<close>

inductive mach_reached :: "nat \<Rightarrow> 'x mach_kernel \<Rightarrow> ('c, 'd, 'x) mach_world \<Rightarrow> bool" for self k where
  started: "mach_reached self k (initial_mach_monitor z, x)"
| toggled: "mach_reached self k w \<Longrightarrow> mach_reached self k (mach_setEnabled self k b w)"
| restored: "mach_reached self k w \<Longrightarrow> mach_reached self k (restoreExceptionPorts k w)"
| described: "mach_reached self k (m, x) \<Longrightarrow>
    mach_reached self k (m\<lparr>g_isHandlingCrash := b, g_monitorContext := c, g_stackCursor := cursor\<rparr>, x)"
| elsewhere: "mach_reached self k (m, x) \<Longrightarrow> mach_reached self k (m, x')"

definition wf_mach :: "('c, 'd) mach_monitor \<Rightarrow> bool" where
  "wf_mach m \<longleftrightarrow> (mach_isEnabled m \<longrightarrow> g_isInstalled m) \<and>
     (if g_isInstalled m then sentrycrashcm_hasReservedThreads m \<and> g_exceptionPort m \<noteq> 0 else idle m)"

lemma wf_restored: "wf_mach (fst w) \<Longrightarrow> wf_mach (fst (restoreExceptionPorts k w))"
  by (cases w) (auto simp: wf_mach_def restoreExceptionPorts_def idle_def sentrycrashcm_hasReservedThreads_def)

lemma wf_toggled:
  assumes "exception_kernel self k handlers" "wf_mach (fst w)"
  shows "wf_mach (fst (mach_setEnabled self k b w))"
proof (cases "b \<and> \<not> g_isInstalled (fst w)")
  case True
  obtain m x where w: "w = (m, x)" by fastforce
  obtain m' x' where on: "mach_setEnabled self k True (m, x) = (m', x')" by (metis prod.collapse)
  have "idle m" using True assms(2) by (simp add: wf_mach_def w)
  from enable_outcome [OF assms(1) this, of x] show ?thesis
    using True by (cases "mach_isEnabled m'"; simp add: on w install_outcome_def wf_mach_def idle_def)
next
  case False
  with assms(2) show ?thesis
    by (cases w) (auto simp: mach_setEnabled_def wf_mach_def idle_def sentrycrashcm_hasReservedThreads_def)
qed

text \<open>
  C40. In every state that the monitor can reach it is well-formed: it is on only if it is installed; and
  either it is installed, with an exception port and two threads that are never stopped, or it has
  nothing: no port, no threads and no saved ports.
\<close>

theorem mach_monitor_wellformed:
  assumes "mach_reached self k w" "exception_kernel self k handlers"
  shows "wf_mach (fst w)"
  using assms(1)
proof (induction rule: mach_reached.induct)
  case (started z x)
  then show ?case by (simp add: wf_mach_def initial_mach_monitor_def idle_def)
next
  case (described m x b c cursor)
  then show ?case by (simp add: wf_mach_def idle_def sentrycrashcm_hasReservedThreads_def split: if_splits)
qed (simp_all add: wf_toggled [OF assms(2)] wf_restored)

theorem mach_monitor_wellformed_witness:
  "wf_mach (fst (restoreExceptionPorts (demo_kernel True)
    (mach_setEnabled 5 (demo_kernel True) True (demo_mach, debugged))))"
proof -
  have "mach_reached 5 (demo_kernel True) (demo_mach, debugged)"
    unfolding demo_mach_def by (rule started)
  then have "mach_reached 5 (demo_kernel True) (restoreExceptionPorts (demo_kernel True)
      (mach_setEnabled 5 (demo_kernel True) True (demo_mach, debugged)))"
    by (intro restored toggled)
  then show ?thesis by (rule mach_monitor_wellformed [OF _ demo_kernel_ok])
qed

end
