(* ===== verification/Monitor_Cpp.thy ===== *)
theory Monitor_Cpp
  imports Monitor_Signal
begin

unbundle bit_operations_syntax

text \<open>
  \<open>Recording/Monitors/SentryCrashMonitor_CPPException.cpp\<close>: the monitor for C++ exceptions that nobody
  catches. It takes the place of the handler that C++ calls to terminate a process, and keeps the stack
  of the last exception that was thrown.
\<close>

section \<open>The globals\<close>

text \<open>The handlers of the process that \<open>std::set_terminate\<close> sets: that of this file, and others.\<close>

datatype terminate_handler = CPPExceptionTerminateHandler | OtherTerminate nat

record 'c cpp_monitor =
  cpp_isEnabled :: bool
  g_captureNextStackTrace :: bool
  g_originalTerminateHandler :: "terminate_handler option"
  cpp_eventID :: bytes
  cpp_stackCursor :: "'c stack_cursor"
  cpp_isInitialized :: bool

definition initial_cpp_monitor :: "'c cpp_monitor" where
  "initial_cpp_monitor =
     \<lparr>cpp_isEnabled = False, g_captureNextStackTrace = False, g_originalTerminateHandler = None,
      cpp_eventID = replicate 37 NUL, cpp_stackCursor = no_cursor, cpp_isInitialized = False\<rparr>"

text \<open>The globals, the handler that is set, and everything else.\<close>

type_synonym ('c, 'x) cpp_world = "('c cpp_monitor \<times> terminate_handler option) \<times> 'x"

section \<open>The stack of the own thread\<close>

text \<open>
  \<open>sentrycrashsc_initSelfThread\<close>; \<open>backtrace\<close> is the system's, which delivers so many addresses at most.
  The caller is one entry of them.
\<close>

definition MAX_BACKTRACE_LENGTH :: nat where "MAX_BACKTRACE_LENGTH = 100 - 2 - 1"

definition sentrycrashsc_initSelfThread :: "(nat \<Rightarrow> 64 word list) \<Rightarrow> 'c stack_cursor \<Rightarrow> int \<Rightarrow> 'c stack_cursor" where
  "sentrycrashsc_initSelfThread sys_backtrace cursor skipEntries =
     (let addresses = sys_backtrace MAX_BACKTRACE_LENGTH
      in sentrycrashsc_initWithBacktrace addresses (int (length addresses)) (skipEntries + 1) cursor)"

section \<open>Throwing\<close>

text \<open>What the two hooks do before they call the function of the C++ library, which does not return.\<close>

definition cxa_throw :: "(nat \<Rightarrow> 64 word list) \<Rightarrow> 'c cpp_monitor \<Rightarrow> 'c cpp_monitor" where
  "cxa_throw sys_backtrace m =
     (if g_captureNextStackTrace m
      then m\<lparr>cpp_stackCursor := sentrycrashsc_initSelfThread sys_backtrace (cpp_stackCursor m) 1\<rparr> else m)"

definition sentry_cxa_throw :: "(nat \<Rightarrow> 64 word list) \<Rightarrow> 'c cpp_monitor \<Rightarrow> 'c cpp_monitor" where
  "sentry_cxa_throw sys_backtrace m = cxa_throw sys_backtrace m"

definition sentry_cxa_rethrow :: "(nat \<Rightarrow> 64 word list) \<Rightarrow> 'c cpp_monitor \<Rightarrow> 'c cpp_monitor" where
  "sentry_cxa_rethrow sys_backtrace m =
     (if g_captureNextStackTrace m
      then m\<lparr>cpp_stackCursor := sentrycrashsc_initSelfThread sys_backtrace (cpp_stackCursor m) 1\<rparr> else m)"

section \<open>Terminating\<close>

text \<open>
  What was thrown, as the handler tells it apart: an exception of the library with its text, an integer
  of any type, a floating point number with what \<open>printf\<close> makes of it, a string, or something else.
\<close>

datatype thrown = ThrownException bytes | ThrownInteger int | ThrownFloat bytes | ThrownString bytes | ThrownOther

definition DESCRIPTION_BUFFER_LENGTH :: nat where "DESCRIPTION_BUFFER_LENGTH = 1000"

definition strncpy_safe :: "bytes \<Rightarrow> nat \<Rightarrow> bytes" where
  "strncpy_safe src n = take (n - 1) (c_string src)"

text \<open>The text in the buffer, or NULL in its place.\<close>

fun thrown_description :: "thrown \<Rightarrow> bytes option" where
  "thrown_description (ThrownException what) = Some (strncpy_safe what DESCRIPTION_BUFFER_LENGTH)"
| "thrown_description (ThrownInteger i) = Some (snprintf DESCRIPTION_BUFFER_LENGTH (show_int i))"
| "thrown_description (ThrownFloat s) = Some (snprintf DESCRIPTION_BUFFER_LENGTH s)"
| "thrown_description (ThrownString s) = Some (snprintf DESCRIPTION_BUFFER_LENGTH (c_string s))"
| "thrown_description ThrownOther = None"

text \<open>
  Without an exception the stack is that of the handler. Otherwise it is thrown again, and caught, while
  stacks are not captured.
\<close>

definition cpp_description ::
    "(nat \<Rightarrow> 64 word list) \<Rightarrow> thrown option \<Rightarrow> 'c cpp_monitor \<Rightarrow> bytes option \<times> 'c cpp_monitor" where
  "cpp_description sys_backtrace currException m =
     (case currException of
        None \<Rightarrow> (Some [], m\<lparr>cpp_stackCursor := sentrycrashsc_initSelfThread sys_backtrace (cpp_stackCursor m) 0\<rparr>)
      | Some e \<Rightarrow> (thrown_description e, m\<lparr>g_captureNextStackTrace := cpp_isEnabled m\<rparr>))"

definition cpp_event ::
    "'d \<Rightarrow> 'c cpp_monitor \<Rightarrow> bytes option \<Rightarrow> bytes option \<Rightarrow> 'c crash_machine_context \<Rightarrow> ('c, 'd) monitor_context" where
  "cpp_event z m name description machine_context =
     (zero_context z)\<lparr>crashType := SentryCrashMonitorTypeCPPException, eventID := Some (cpp_eventID m),
        registersAreValid := False, stackCursor := Some (cpp_stackCursor m), CPPException_name := name,
        exceptionName := name, crashReason := description, offendingMachineContext := Some machine_context\<rparr>"

text \<open>\<open>call_handler\<close> is the call of a handler, which should not return.\<close>

definition sentrycrashcm_cppexception_callOriginalTerminationHandler ::
    "(terminate_handler \<Rightarrow> ('c, 'x) cpp_world \<Rightarrow> ('c, 'x) cpp_world) \<Rightarrow> ('c, 'x) cpp_world \<Rightarrow> ('c, 'x) cpp_world" where
  "sentrycrashcm_cppexception_callOriginalTerminationHandler call_handler w =
     (case g_originalTerminateHandler (fst (fst w)) of None \<Rightarrow> w | Some f \<Rightarrow> call_handler f w)"

text \<open>
  The handler. \<open>name\<close> is the name of the type of the current exception, and \<open>currException\<close> what was
  thrown.
\<close>

definition CPPExceptionTerminate ::
    "('c, ('c, 'x) cpp_world) machine_env \<Rightarrow> (('c, 'x) cpp_world, ('c, 'd) monitor_context) monitor_env \<Rightarrow>
     (nat \<Rightarrow> 64 word list) \<Rightarrow> (terminate_handler \<Rightarrow> ('c, 'x) cpp_world \<Rightarrow> ('c, 'x) cpp_world) \<Rightarrow> 'd \<Rightarrow>
     bytes option \<Rightarrow> thrown option \<Rightarrow> ('c, 'x) cpp_world monitoring \<Rightarrow> ('c, 'x) cpp_world monitoring run" where
  "CPPExceptionTerminate env monitors sys_backtrace call_handler z name currException s =
     (let (threads, numThreads, w) = sentrycrashmc_suspendEnvironment env (monitor_world s);
          s = s\<lparr>monitor_world := w\<rparr>
      in bind_run
           (if name = None \<or> c_string (the name) \<noteq> ''NSException'' then
              bind_run (sentrycrashcm_notifyFatalExceptionCaptured monitors False s) (\<lambda>(_, s).
                let ((m, handler), x) = monitor_world s;
                    (description, m) = cpp_description sys_backtrace currException m
                in bind_run (sentrycrashmc_getContextForThread env (sentrycrashthread_self env) True ((m, handler), x))
                     (\<lambda>(machine_context, w).
                        sentrycrashcm_handleException monitors
                          \<lparr>requiresAsyncSafety = False, crashedDuringCrashHandling = False,
                           event_data = cpp_event z (fst (fst w)) name description machine_context\<rparr>
                          (s\<lparr>monitor_world := w\<rparr>)))
            else Inr s)
           (\<lambda>s. bind_run (sentrycrashmc_resumeEnvironment env threads numThreads (monitor_world s)) (\<lambda>w.
              Inr (s\<lparr>monitor_world :=
                sentrycrashcm_cppexception_callOriginalTerminationHandler call_handler w\<rparr>))))"

section \<open>Turning the monitor on and off\<close>

text \<open>\<open>std::set_terminate\<close>: the handler that was set before, and the new one in its place.\<close>

definition set_terminate :: "terminate_handler option \<Rightarrow> terminate_handler option \<Rightarrow> terminate_handler option \<times> terminate_handler option" where
  "set_terminate f handler = (handler, f)"

definition cpp_initialize :: "'c cpp_monitor \<Rightarrow> 'c cpp_monitor" where
  "cpp_initialize m =
     (if cpp_isInitialized m then m
      else m\<lparr>cpp_isInitialized := True, cpp_stackCursor := sentrycrashsc_initCursor None None (cpp_stackCursor m)\<rparr>)"

text \<open>\<open>uuid\<close> is the 16 random bytes of the identifier.\<close>

definition cpp_setEnabled ::
    "bytes \<Rightarrow> bool \<Rightarrow> 'c cpp_monitor \<times> terminate_handler option \<Rightarrow> 'c cpp_monitor \<times> terminate_handler option" where
  "cpp_setEnabled uuid isEnabled = (\<lambda>(m, handler).
     if isEnabled = cpp_isEnabled m then (m, handler)
     else
       let m = m\<lparr>cpp_isEnabled := isEnabled\<rparr>;
           (m, handler) =
             (if isEnabled then
                let m = (cpp_initialize m)\<lparr>cpp_eventID := sentrycrashid_generate uuid\<rparr>;
                    (old, handler) = set_terminate (Some CPPExceptionTerminateHandler) handler
                in (m\<lparr>g_originalTerminateHandler := old\<rparr>, handler)
              else
                let (_, handler) = set_terminate (g_originalTerminateHandler m) handler
                in (m\<lparr>g_originalTerminateHandler := None\<rparr>, handler))
       in (m\<lparr>g_captureNextStackTrace := isEnabled\<rparr>, handler))"

definition cpp_isEnabled_fn :: "'c cpp_monitor \<times> terminate_handler option \<Rightarrow> bool" where
  "cpp_isEnabled_fn = (\<lambda>(m, handler). cpp_isEnabled m)"

definition sentrycrashcm_cppexception_getAPI ::
    "bytes \<Rightarrow> ('c cpp_monitor \<times> terminate_handler option, 'e) monitor_api" where
  "sentrycrashcm_cppexception_getAPI uuid =
     \<lparr>api_setEnabled = Some (\<lambda>b w. Inr (cpp_setEnabled uuid b w)), api_isEnabled = Some cpp_isEnabled_fn,
      api_addContextualInfoToEvent = None\<rparr>"

end
