(* ===== verification/Monitor_Cpp_Spec.thy ===== *)
theory Monitor_Cpp_Spec
  imports Monitor_Cpp Monitor_Views
begin

text \<open>
  What the monitor for C++ exceptions does: the handler of the process is back after the monitor has been
  turned off, an exception that nobody caught is reported with the process's handler back in its place,
  and that handler is then not called. The monitor is a \<open>switch\<close> for the table of monitors.
\<close>

interpretation cpps: switch "\<lambda>b w. Inr (cpp_setEnabled uuid b w)" cpp_isEnabled_fn
  for uuid :: bytes
  by unfold_locales
     (auto simp: cpp_setEnabled_def cpp_isEnabled_fn_def set_terminate_def cpp_initialize_def Let_def split: if_splits)

section \<open>On and off\<close>

text \<open>The monitor is on and keeps the handler of the process; or it is off and that handler is set.\<close>

definition cpp_armed :: "terminate_handler option \<Rightarrow> 'c cpp_monitor \<times> terminate_handler option \<Rightarrow> bool" where
  "cpp_armed f v \<longleftrightarrow> cpp_isEnabled (fst v) \<and> g_originalTerminateHandler (fst v) = f \<and>
     snd v = Some CPPExceptionTerminateHandler"

definition cpp_disarmed :: "terminate_handler option \<Rightarrow> 'c cpp_monitor \<times> terminate_handler option \<Rightarrow> bool" where
  "cpp_disarmed f v \<longleftrightarrow> \<not> cpp_isEnabled (fst v) \<and> g_originalTerminateHandler (fst v) = None \<and> snd v = f"

lemma cpp_enabling: "\<not> cpp_isEnabled m \<Longrightarrow> cpp_armed f (cpp_setEnabled uuid True (m, f))"
  by (simp add: cpp_setEnabled_def cpp_armed_def set_terminate_def cpp_initialize_def Let_def)

lemma cpp_disabling: "cpp_armed f v \<Longrightarrow> cpp_disarmed f (cpp_setEnabled uuid False v)"
  by (cases v) (simp add: cpp_setEnabled_def cpp_armed_def cpp_disarmed_def set_terminate_def Let_def)

lemma cpp_description_keeps:
  "cpp_armed f (snd (cpp_description bt e m), h) = cpp_armed f (m, h)"
  "cpp_disarmed f (snd (cpp_description bt e m), h) = cpp_disarmed f (m, h)"
  by (cases e; simp add: cpp_description_def cpp_armed_def cpp_disarmed_def)+

section \<open>An exception that nobody caught\<close>

definition cpp_entry :: "bytes \<Rightarrow> (('c, 'x) cpp_world, ('c, 'd) monitor_context) monitor" where
  "cpp_entry uuid =
     \<lparr>monitorType = SentryCrashMonitorTypeCPPException,
      getAPI = Some
        \<lparr>api_setEnabled = Some (\<lambda>b (v, x). Inr (cpp_setEnabled uuid b v, x)),
         api_isEnabled = Some (\<lambda>w. cpp_isEnabled_fn (fst w)), api_addContextualInfoToEvent = None\<rparr>\<rparr>"

lemma cpp_entry_off:
  "cpp_armed f (fst w) \<Longrightarrow> \<exists>w'. setMonitorEnabled (cpp_entry uuid) False w = Inr w' \<and> cpp_disarmed f (fst w')"
  by (cases w) (auto simp: setMonitorEnabled_def cpp_entry_def cpp_disabling)

text \<open>
  C36. A C++ exception that is not an \<open>NSException\<close> and that nobody catches while the monitor is on is handled
  to its end, also when it is a crash of the crash reporter itself: the handler of the process is set
  again and the monitor is off. But turning it off has dropped the handler that was kept, so that the
  handler of the process, which should be called next, is never called, whatever it does.
\<close>

theorem original_handler_not_called:
  fixes monitors :: "(('c, 'x) cpp_world, ('c, 'd) monitor_context) monitor_env"
  assumes armed: "cpp_armed f (fst (monitor_world s))" and name: "name = None \<or> c_string (the name) \<noteq> ''NSException''"
    and table: "env_monitors monitors = as @ cpp_entry uuid # bs" "\<forall>m\<in>set as \<union> set bs. leaves fst m"
    and quiet: "quiet_machine fst machine_env" "quiet_callback (\<lambda>_. True) fst monitors"
  shows "\<exists>s'. (\<forall>call_handler.
      CPPExceptionTerminate machine_env monitors sys_backtrace call_handler z name currException s = Inr s') \<and>
    cpp_disarmed f (fst (monitor_world s'))"
proof -
  have off: "\<exists>u'. setMonitorEnabled (cpp_entry uuid :: (('c, 'x) cpp_world, ('c, 'd) monitor_context) monitor) False u =
      Inr u' \<and> cpp_disarmed f (fst u')" if "cpp_armed f (fst u)" for u
    using cpp_entry_off [OF that] .
  obtain threads n w1 where w1: "sentrycrashmc_suspendEnvironment machine_env (monitor_world s) = (threads, n, w1)"
    by (rule prod_cases3)
  note w1_quiet = suspend_quiet [OF quiet(1) w1]
  obtain s2 where s2: "sentrycrashcm_notifyFatalExceptionCaptured monitors False (s\<lparr>monitor_world := w1\<rparr>) =
        Inr (g_crashedDuringExceptionHandling s2, s2)" "g_handlingFatalException s2"
      "if g_crashedDuringExceptionHandling s2 then cpp_disarmed f (fst (monitor_world s2)) else monitor_world s2 = w1"
    using notify_one [OF table, of "s\<lparr>monitor_world := w1\<rparr>" "cpp_disarmed f" False] off armed w1_quiet(1) by auto
  obtain m h x where world: "monitor_world s2 = ((m, h), x)" by (metis prod.collapse)
  obtain description m' where m': "cpp_description sys_backtrace currException m = (description, m')" by fastforce
  note keeps = cpp_description_keeps [of f sys_backtrace currException m h, unfolded m' snd_conv]
  obtain mc w3 where w3: "sentrycrashmc_getContextForThread machine_env (sentrycrashthread_self machine_env) True
      ((m', h), x) = Inr (mc, w3)" "fst w3 = (m', h)"
    using thread_context_quiet [OF quiet(1)] by fastforce
  let ?s3 = "s2\<lparr>monitor_world := w3\<rparr>"
  define event where "event = \<lparr>requiresAsyncSafety = False, crashedDuringCrashHandling = False,
      event_data = cpp_event z (fst (fst w3)) name description mc\<rparr>"
  have "if g_crashedDuringExceptionHandling ?s3 then cpp_disarmed f (fst (monitor_world ?s3))
      else cpp_armed f (fst (monitor_world ?s3))"
    using s2(3) w3(2) armed w1_quiet(1) keeps world by (auto split: if_splits)
  from exception_one [where P = "cpp_disarmed f" and Q = "cpp_armed f", OF table quiet(2) _ _ off this] s2(2)
  obtain s5 where
      s5: "sentrycrashcm_handleException monitors event ?s3 = Inr s5" "cpp_disarmed f (fst (monitor_world s5))"
    by auto
  obtain w6 where w6: "sentrycrashmc_resumeEnvironment machine_env threads n (monitor_world s5) = Inr w6"
      "fst w6 = fst (monitor_world s5)"
    using resume_quiet [OF quiet(1) w1_quiet(2)] by blast
  have "g_originalTerminateHandler (fst (fst w6)) = None" using w6(2) s5(2) by (simp add: cpp_disarmed_def)
  then have "CPPExceptionTerminate machine_env monitors sys_backtrace call_handler z name currException s =
      Inr (s5\<lparr>monitor_world := w6\<rparr>)" for call_handler
    using name w1 s2(1) world m' w3(1) s5(1) w6(1)
    by (simp add: CPPExceptionTerminate_def Let_def event_def
        sentrycrashcm_cppexception_callOriginalTerminationHandler_def)
  with w6(2) s5(2) show ?thesis by (intro exI [of _ "s5\<lparr>monitor_world := w6\<rparr>"]) simp
qed

text \<open>An \<open>NSException\<close> is left to its own handler: the monitor stays on, and the handler of the process is called.\<close>

lemma ns_exception_passed_on:
  assumes "cpp_armed (Some f) (fst (monitor_world s))" "quiet_machine fst machine_env"
  shows "\<exists>w. CPPExceptionTerminate machine_env monitors sys_backtrace call_handler z (Some ''NSException'') currException s =
      Inr (s\<lparr>monitor_world := call_handler f w\<rparr>) \<and> fst w = fst (monitor_world s)"
proof -
  obtain threads n w1 where w1: "sentrycrashmc_suspendEnvironment machine_env (monitor_world s) = (threads, n, w1)"
    by (rule prod_cases3)
  note w1_quiet = suspend_quiet [OF assms(2) w1]
  obtain w2 where w2: "sentrycrashmc_resumeEnvironment machine_env threads n w1 = Inr w2" "fst w2 = fst w1"
    using resume_quiet [OF assms(2) w1_quiet(2)] by blast
  have "g_originalTerminateHandler (fst (fst w2)) = Some f" using assms(1) w2(2) w1_quiet(1) by (simp add: cpp_armed_def)
  then show ?thesis
    using w1 w2 w1_quiet(1)
    by (intro exI [of _ w2])
       (simp add: CPPExceptionTerminate_def sentrycrashcm_cppexception_callOriginalTerminationHandler_def)
qed

text \<open>A process of two threads with no other monitor.\<close>

definition demo_cpp_machine :: "(arm64_context, (arm64_context, nat list) cpp_world) machine_env" where
  "demo_cpp_machine =
     \<lparr>env_cpu = arm64_cpu, env_vm = (\<lambda>_ _. None), cpu_getState = (\<lambda>_ c. c),
      zero_regs = \<lparr>thisThread = 0, cpu_ss = (\<lambda>_. 0), cpu_es = (\<lambda>_. 0)\<rparr>, thread_self = 5, reserved = (\<lambda>_. False),
      task_threads = (\<lambda>_. Some [5, 7]), thread_suspend = (\<lambda>_ w. w), thread_resume = (\<lambda>_ w. w),
      port_deallocate = (\<lambda>_ w. w)\<rparr>"

definition demo_cpp_monitors ::
    "((arm64_context, nat list) cpp_world, (arm64_context, unit) monitor_context) monitor_env" where
  "demo_cpp_monitors =
     \<lparr>env_monitors = [cpp_entry (replicate 16 NUL)], isBeingTraced = (\<lambda>_. False), g_onExceptionEvent = (\<lambda>c s. Inr s)\<rparr>"

lemma demo_cpp_quiet: "quiet_machine fst demo_cpp_machine" "quiet_callback (\<lambda>_. True) fst demo_cpp_monitors"
  by (simp_all add: quiet_machine_def quiet_callback_def demo_cpp_machine_def demo_cpp_monitors_def maxThreads_def)

definition demo_cpp_state :: "(arm64_context, nat list) cpp_world monitoring" where
  "demo_cpp_state =
     initial_monitoring (cpp_setEnabled (replicate 16 NUL) True (initial_cpp_monitor, Some (OtherTerminate 3)), [])"

theorem original_handler_not_called_witness:
  "\<exists>s'. (\<forall>call_handler. CPPExceptionTerminate demo_cpp_machine demo_cpp_monitors (\<lambda>_. [4096]) call_handler ()
      (Some ''St13runtime_error'') (Some (ThrownException ''no'')) demo_cpp_state = Inr s') \<and>
    cpp_disarmed (Some (OtherTerminate 3)) (fst (monitor_world s'))"
proof (rule original_handler_not_called)
  show "cpp_armed (Some (OtherTerminate 3)) (fst (monitor_world demo_cpp_state))"
    unfolding demo_cpp_state_def initial_monitoring_def
    by (simp add: cpp_enabling initial_cpp_monitor_def)
  show "env_monitors demo_cpp_monitors = [] @ cpp_entry (replicate 16 NUL) # []"
    by (simp add: demo_cpp_monitors_def)
qed (simp_all add: demo_cpp_quiet c_string_def)

end
