(* ===== verification/Report_Write.thy ===== *)
theory Report_Write
  imports Report_Content
begin

text \<open>
  The entry points of \<open>Recording/SentryCrashReport.c\<close>: a report of a crash, a report of a crash while
  reporting a crash, and what can be set beforehand.
\<close>

section \<open>Writing in parts\<close>

text \<open>A part of a report is its calls of the writer; the buffered writer is flushed behind most parts.\<close>

fun run_all :: "('s \<Rightarrow> 's run) list \<Rightarrow> 's \<Rightarrow> 's run" where
  "run_all [] s = Inr s"
| "run_all (f # fs) s = bind_run (f s) (run_all fs)"

definition write_calls :: "('d, 'f) writer_env \<Rightarrow> 'd writer_call list run \<Rightarrow> 'f report_context \<Rightarrow>
    'f report_context run" where
  "write_calls wenv r c = bind_run r (\<lambda>calls. perform_calls wenv calls c)"

definition flush_report :: "'f os \<Rightarrow> 'f report_context \<Rightarrow> 'f report_context run" where
  "flush_report os c =
     bind_run (sentrycrashfu_flushBufferedWriter os (userData c)) (\<lambda>(_, u). Inr (c\<lparr>userData := u\<rparr>))"

definition write_part :: "('d, 'f) writer_env \<Rightarrow> 'd writer_call list run \<Rightarrow> 'f report_context \<Rightarrow>
    'f report_context run" where
  "write_part wenv r c = bind_run (write_calls wenv r c) (flush_report (wr_os wenv))"

section \<open>The standard report\<close>

definition user_calls :: "bytes option \<Rightarrow> 'd writer_call list" where
  "user_calls json =
     (case json of
        None \<Rightarrow> [BeginObject (Some SentryCrashField_User)]
      | Some j \<Rightarrow> [AddJSONElement (Some SentryCrashField_User) j False])"

definition standard_parts :: "('d, 'f) writer_env \<Rightarrow> ('c, 'd, 'v, 'w) report_env \<Rightarrow> ('c, 'd) monitor_context \<Rightarrow>
    ('f report_context \<Rightarrow> 'f report_context run) list" where
  "standard_parts wenv env crash =
     [write_calls wenv (Inr [BeginObject (Some SentryCrashField_Report)]),
      write_part wenv (Inr (writeReportInfo env (Some SentryCrashField_Report) SentryCrashReportType_Standard
        (eventID crash) (processName (System crash)))),
      write_part wenv (writeBinaryImages env (Some SentryCrashField_BinaryImages)),
      write_part wenv (writeProcessState env (Some SentryCrashField_ProcessState) crash),
      write_part wenv (Inr (writeSystemInfo (Some SentryCrashField_System) crash)),
      write_calls wenv (Inr [BeginObject (Some SentryCrashField_Crash)]),
      write_part wenv (Inr (writeError env (Some SentryCrashField_Error) crash)),
      write_part wenv (writeAllThreads env (Some SentryCrashField_Threads) crash
        (introspection_enabled (me_rules (re_memory env)))),
      write_calls wenv (Inr [EndContainer]),
      write_part wenv (writeScopeJson (re_scope env)),
      (case g_userInfoJSON env of
         None \<Rightarrow> write_calls wenv (Inr (user_calls None))
       | Some j \<Rightarrow> write_part wenv (Inr (user_calls (Some j)))),
      write_part wenv (Inr [EndContainer]),
      write_calls wenv (Inr (writeDebugInfo env (Some SentryCrashField_Debug))),
      write_calls wenv (Inr [EndContainer])]"

text \<open>The end of every report: the encoder and the writer are closed, the cached data freed for updates.\<close>

definition finish_report :: "'f os \<Rightarrow> cached_data \<Rightarrow> 'f report_context \<Rightarrow> (cached_data \<times> 'f) run" where
  "finish_report os cached c =
     bind_run (quiet sentrycrashjson_endEncode c) (\<lambda>c.
     bind_run (sentrycrashfu_closeBufferedWriter os (userData c)) (\<lambda>(_, w).
       Inr (sentrycrashccd_unfreeze cached, w)))"

definition sentrycrashreport_writeStandardReport ::
    "('d, 'f) writer_env \<Rightarrow> ('c, 'd, 'v, 'w) report_env \<Rightarrow> ('c, 'd) monitor_context \<Rightarrow> bytes \<Rightarrow> 'f \<Rightarrow>
       (cached_data \<times> 'f) run" where
  "sentrycrashreport_writeStandardReport wenv env crash path w =
     (let os = wr_os wenv;
          (opened, writer, w) = sentrycrashfu_openBufferedWriter os path (replicate 1024 NUL) w
      in if \<not> opened then Inr (re_cached env, w)
         else
           let (_, cached) = sentrycrashccd_freeze (re_cached env);
               env = env\<lparr>re_cached := cached\<rparr>
           in bind_run
                (run_all (standard_parts wenv env crash)
                  (sentrycrashjson_beginEncode True (report_addJSONData os) (writer, w)))
                (finish_report os cached))"

section \<open>A crash while reporting a crash\<close>

text \<open>
  The first report is renamed, its last five bytes replaced. It becomes a part of the second report,
  which then has only the thread that crashed.
\<close>

definition old_report_path :: "bytes \<Rightarrow> bytes run" where
  "old_report_path path =
     (let tempPath = take (SentryCrashFU_MAX_PATH_LENGTH - 10) (c_string path)
      in if length tempPath < 5 then Inl UndefinedBehaviour
         else Inr (take (length tempPath - 5) tempPath @ ''.old''))"

definition remove_old_report :: "'f os \<Rightarrow> bytes \<Rightarrow> 'f report_context \<Rightarrow> 'f report_context run" where
  "remove_old_report os tempPath c =
     (let (_, u) = os_remove (os_beside os) tempPath (userData c) in Inr (c\<lparr>userData := u\<rparr>))"

definition write_crashed_thread ::
    "('c, 'd, 'v, 'w) report_env \<Rightarrow> ('c, 'd) monitor_context \<Rightarrow> 'd writer_call list run" where
  "write_crashed_thread env crash =
     (case offendingMachineContext crash of
        None \<Rightarrow> Inl UndefinedBehaviour
      | Some context \<Rightarrow>
          bind_run (sentrycrashmc_indexOfThread context (sentrycrashmc_getThreadFromContext context))
            (\<lambda>threadIndex.
               writeThread env (Some SentryCrashField_CrashedThread) crash context threadIndex False))"

definition recrash_parts :: "('d, 'f) writer_env \<Rightarrow> ('c, 'd, 'v, 'w) report_env \<Rightarrow> ('c, 'd) monitor_context \<Rightarrow>
    bytes \<Rightarrow> ('f report_context \<Rightarrow> 'f report_context run) list" where
  "recrash_parts wenv env crash tempPath =
     [write_calls wenv (Inr [BeginObject (Some SentryCrashField_Report)]),
      write_part wenv (Inr (writeRecrash (Some SentryCrashField_RecrashReport) tempPath)),
      remove_old_report (wr_os wenv) tempPath,
      write_part wenv (Inr (writeReportInfo env (Some SentryCrashField_Report) SentryCrashReportType_Minimal
        (eventID crash) (processName (System crash)))),
      write_calls wenv (Inr [BeginObject (Some SentryCrashField_Crash)]),
      write_part wenv (Inr (writeError env (Some SentryCrashField_Error) crash)),
      write_part wenv (write_crashed_thread env crash),
      write_calls wenv (Inr [EndContainer]),
      write_calls wenv (Inr [EndContainer])]"

text \<open>\<open>rename\<close> is the system's; whether it has renamed is only logged.\<close>

definition sentrycrashreport_writeRecrashReport ::
    "(bytes \<Rightarrow> bytes \<Rightarrow> 'f \<Rightarrow> bool \<times> 'f) \<Rightarrow> ('d, 'f) writer_env \<Rightarrow> ('c, 'd, 'v, 'w) report_env \<Rightarrow>
       ('c, 'd) monitor_context \<Rightarrow> bytes \<Rightarrow> 'f \<Rightarrow> (cached_data \<times> 'f) run" where
  "sentrycrashreport_writeRecrashReport rename wenv env crash path w =
     bind_run (old_report_path path) (\<lambda>tempPath.
       let os = wr_os wenv;
           (_, w) = rename path tempPath w;
           (opened, writer, w) = sentrycrashfu_openBufferedWriter os path (replicate 1024 NUL) w
       in if \<not> opened then Inr (re_cached env, w)
          else
            let (_, cached) = sentrycrashccd_freeze (re_cached env);
                env = env\<lparr>re_cached := cached\<rparr>
            in bind_run
                 (run_all (recrash_parts wenv env crash tempPath)
                   (sentrycrashjson_beginEncode True (report_addJSONData os) (writer, w)))
                 (finish_report os cached))"

section \<open>Settings\<close>

definition sentrycrashreport_setUserInfoJSON ::
    "bytes option \<Rightarrow> ('c, 'd, 'v, 'w) report_env \<Rightarrow> ('c, 'd, 'v, 'w) report_env" where
  "sentrycrashreport_setUserInfoJSON userInfoJSON env = env\<lparr>g_userInfoJSON := map_option c_string userInfoJSON\<rparr>"

definition sentrycrashreport_setIntrospectMemory :: "bool \<Rightarrow> introspection_rules \<Rightarrow> introspection_rules" where
  "sentrycrashreport_setIntrospectMemory shouldIntrospectMemory rules =
     rules\<lparr>introspection_enabled := shouldIntrospectMemory\<rparr>"

text \<open>Whether \<open>malloc\<close> has memory for a number of pointers and what \<open>strdup\<close> gives are the system's.\<close>

definition sentrycrashreport_setDoNotIntrospectClasses ::
    "(nat \<Rightarrow> bool) \<Rightarrow> (bytes \<Rightarrow> bytes option) \<Rightarrow> bytes list option \<Rightarrow> int \<Rightarrow> introspection_rules \<Rightarrow>
       introspection_rules run" where
  "sentrycrashreport_setDoNotIntrospectClasses malloc strdup doNotIntrospectClasses len rules =
     (case doNotIntrospectClasses of
        None \<Rightarrow> Inr (rules\<lparr>restrictedClasses := None\<rparr>)
      | Some classes \<Rightarrow>
          if len \<le> 0 then Inr (rules\<lparr>restrictedClasses := None\<rparr>)
          else if \<not> malloc (nat len) then Inr rules
          else if int (length classes) < len then Inl UndefinedBehaviour
          else Inr (rules\<lparr>restrictedClasses :=
            Some (map (\<lambda>name. strdup (c_string name)) (take (nat len) classes))\<rparr>))"

end
