(* ===== verification/Report_Writer_Spec.thy ===== *)
theory Report_Writer_Spec
  imports Report_Writer Json_File_Spec File_Spec
begin

text \<open>
  What the report writer's calls make of a file. The calls are interpreted as building a JSON value;
  on a kernel whose writes do not fail, the file gets the text of that value. This holds for any
  strings: what the encoder cannot escape cuts a string short, and the text stays well-formed.
\<close>

section \<open>The writer as the encoder's sink\<close>

definition writes_to :: "int \<Rightarrow> 'f writing \<Rightarrow> bool" where
  "writes_to fd s \<longleftrightarrow> wf_writer s \<and> w_fd (fst s) = fd"

text \<open>
  \<open>puts os contents fd f sh t sh'\<close>: from any context of the shape \<open>sh\<close> that writes to \<open>fd\<close>, \<open>f\<close> appends
  exactly \<open>t\<close> to the stream and leaves a context of the shape \<open>sh'\<close>.
\<close>

definition puts :: "'f os \<Rightarrow> (int \<Rightarrow> 'f \<Rightarrow> bytes) \<Rightarrow> int \<Rightarrow> ('f report_context \<Rightarrow> 'f report_context run) \<Rightarrow>
    shape \<Rightarrow> bytes \<Rightarrow> shape \<Rightarrow> bool" where
  "puts os contents fd f sh t sh' \<longleftrightarrow>
     (\<forall>c. has_shape (report_addJSONData os) sh c \<longrightarrow> writes_to fd (userData c) \<longrightarrow>
       (\<exists>c'. f c = Inr c' \<and> has_shape (report_addJSONData os) sh' c' \<and> writes_to fd (userData c') \<and>
          written_stream contents (userData c') = written_stream contents (userData c) @ t))"

lemma putsE:
  assumes "puts os contents fd f sh t sh'" "has_shape (report_addJSONData os) sh c" "writes_to fd (userData c)"
  obtains c' where "f c = Inr c'" "has_shape (report_addJSONData os) sh' c'" "writes_to fd (userData c')"
    "written_stream contents (userData c') = written_stream contents (userData c) @ t"
  using assms unfolding puts_def by blast

lemma puts_cong:
  assumes "puts os contents fd g sh t sh'" "\<And>c. has_shape (report_addJSONData os) sh c \<Longrightarrow> f c = g c"
  shows "puts os contents fd f sh t sh'"
  using assms by (simp add: puts_def)

lemma puts_nothing: "puts os contents fd Inr sh [] sh"
  by (simp add: puts_def)

lemma puts_seq:
  assumes f: "puts os contents fd f sh t sh1" and g: "puts os contents fd g sh1 t' sh2"
  shows "puts os contents fd (\<lambda>c. bind_run (f c) g) sh (t @ t') sh2"
  unfolding puts_def
proof (intro allI impI)
  fix c assume c: "has_shape (report_addJSONData os) sh c" "writes_to fd (userData c)"
  from f c obtain c1 where c1: "f c = Inr c1" "has_shape (report_addJSONData os) sh1 c1"
      "writes_to fd (userData c1)" "written_stream contents (userData c1) = written_stream contents (userData c) @ t"
    by (rule putsE)
  from g c1(2,3) obtain c2 where "g c1 = Inr c2" "has_shape (report_addJSONData os) sh2 c2"
      "writes_to fd (userData c2)"
      "written_stream contents (userData c2) = written_stream contents (userData c1) @ t'"
    by (rule putsE)
  with c1 show "\<exists>c'. bind_run (f c) g = Inr c' \<and> has_shape (report_addJSONData os) sh2 c' \<and>
      writes_to fd (userData c') \<and>
      written_stream contents (userData c') = written_stream contents (userData c) @ t @ t'" by simp
qed

lemma report_sink:
  fixes os :: "'f os"
  assumes "reliable os contents"
  shows "json_sink (report_addJSONData os) (writes_to fd) (written_stream contents) (\<lambda>_. n)"
proof
  fix u :: "'f writing" and data
  assume "writes_to fd u"
  then have wf: "wf_writer u" "w_fd (fst u) = fd" by (simp_all add: writes_to_def)
  obtain s where s: "sentrycrashfu_writeBufferedWriter os data u = Inr (True, s)" "wf_writer s"
      "w_fd (fst s) = fd" "written_stream contents s = written_stream contents u @ data"
    using write_reliable [OF assms wf(1), of data] wf(2) by auto
  then have run: "report_addJSONData os data u = Inr (0, s)" by (simp add: report_addJSONData_def json_codes)
  then show "\<exists>r u'. report_addJSONData os data u = Inr (r, u') \<and> writes_to fd u'"
    using s by (auto simp: writes_to_def)
  show "\<exists>u'. report_addJSONData os data u = Inr (0, u') \<and> n \<le> n + length data" using run by simp
  show "written_stream contents u' = written_stream contents u @ data"
    if "report_addJSONData os data u = Inr (0, u')" for u'
    using that run s(4) by simp
qed

section \<open>Calls whose status is ignored\<close>

text \<open>What the encoder emits to any sink, it puts to this one.\<close>

lemma puts_emits:
  assumes "reliable os contents"
    and "\<And>n. emits (report_addJSONData os) (writes_to fd) (written_stream contents) (\<lambda>_. n) f sh t sh'"
  shows "puts os contents fd (quiet f) sh t sh'"
  unfolding puts_def
proof (intro allI impI)
  fix c assume c: "has_shape (report_addJSONData os) sh c" "writes_to fd (userData c)"
  then show "\<exists>c'. quiet f c = Inr c' \<and> has_shape (report_addJSONData os) sh' c' \<and> writes_to fd (userData c') \<and>
      written_stream contents (userData c') = written_stream contents (userData c) @ t"
    using emits_succeeds [OF assms(2) [of "length t"] c] by (auto simp: quiet_def)
qed

lemma puts_after:
  assumes "\<And>n. emits (report_addJSONData os) (writes_to fd) (written_stream contents) (\<lambda>_. n) f sh t sh1"
    and g: "puts os contents fd (quiet (steps gs)) sh1 t' sh2"
  shows "puts os contents fd (quiet (steps (f # gs))) sh (t @ t') sh2"
  unfolding puts_def
proof (intro allI impI)
  fix c assume c: "has_shape (report_addJSONData os) sh c" "writes_to fd (userData c)"
  obtain c1 where c1: "f c = Inr (0, c1)" "has_shape (report_addJSONData os) sh1 c1" "writes_to fd (userData c1)"
      "written_stream contents (userData c1) = written_stream contents (userData c) @ t"
    using emits_succeeds [OF assms(1) [of "length t"] c] by auto
  from g c1(2,3) obtain c2 where "quiet (steps gs) c1 = Inr c2" "has_shape (report_addJSONData os) sh2 c2"
      "writes_to fd (userData c2)"
      "written_stream contents (userData c2) = written_stream contents (userData c1) @ t'"
    by (rule putsE)
  with c1 show "\<exists>c'. quiet (steps (f # gs)) c = Inr c' \<and> has_shape (report_addJSONData os) sh2 c' \<and>
      writes_to fd (userData c') \<and>
      written_stream contents (userData c') = written_stream contents (userData c) @ t @ t'"
    by (simp add: quiet_def)
qed

lemma quiet_steps_one: "quiet (steps [f]) = quiet f"
  by (rule ext) (simp add: quiet_def bind_run_def split: sum.split)

section \<open>Strings\<close>

text \<open>Portions of 256 bytes are written up to the first that has a byte without an escape.\<close>

function kept :: "bytes \<Rightarrow> bytes" where
  "kept s = (if s = [] \<or> \<not> escapable_string (take 256 s) then [] else take 256 s @ kept (drop 256 s))"
  by pat_completeness auto
termination by (relation "measure length") auto

declare kept.simps [simp del]

lemma kept_id [simp]: "escapable_string s \<Longrightarrow> kept s = s"
proof (induction s rule: kept.induct)
  case (1 s)
  have esc: "escapable_string (take 256 s)" "escapable_string (drop 256 s)"
    using 1(2) by (metis append_take_drop_id escapable_string_simps(3))+
  show ?case
  proof (cases "s = []")
    case False
    with 1(1) esc have "kept (drop 256 s) = drop 256 s" by simp
    with False esc show ?thesis by (simp add: kept.simps [of s])
  qed (simp add: kept.simps)
qed

lemma escapable_kept [simp]: "escapable_string (kept s)"
proof (induction s rule: kept.induct)
  case (1 s)
  then show ?case by (simp add: kept.simps [of s])
qed

lemma set_kept: "set (kept s) \<subseteq> set s"
proof (induction s rule: kept.induct)
  case (1 s)
  then show ?case
    by (simp add: kept.simps [of s]) (meson order_trans set_drop_subset set_take_subset)
qed

lemma no_nul_kept [simp]: "no_nul s \<Longrightarrow> no_nul (kept s)"
  using set_kept [of s] by (auto simp: no_nul_def)

lemma puts_escaped:
  assumes r: "reliable os contents"
  shows "puts os contents fd (quiet (addEscapedString s)) sh (escape_string (kept s)) sh"
proof (induction s rule: kept.induct)
  case (1 s)
  have add: "emits (report_addJSONData os) (writes_to fd) (written_stream contents) (\<lambda>_. n) (addJSONData t) sh t sh" for n t
    by (rule json_sink.emits_addJSONData [OF report_sink [OF r]])
  show ?case
  proof (cases "s = [] \<or> \<not> escapable_string (take 256 s)")
    case True
    then have "kept s = []" by (simp add: kept.simps)
    moreover have "quiet (addEscapedString s) c = Inr c" for c
      using True by (auto simp: quiet_def addEscapedString_eq [of s])
    ultimately show ?thesis by (simp only: escape_string_simps) (rule puts_cong [OF puts_nothing])
  next
    case False
    then have "kept s = take 256 s @ kept (drop 256 s)" by (simp add: kept.simps [of s])
    moreover have "puts os contents fd (quiet (steps [addJSONData (escape_string (take 256 s)),
        addEscapedString (drop 256 s)])) sh (escape_string (take 256 s) @ escape_string (kept (drop 256 s))) sh"
      using 1 False by (intro puts_after [OF add]) (simp add: quiet_steps_one)
    ultimately show ?thesis
      using False by (auto intro: puts_cong simp: quiet_def addEscapedString_eq [of s])
  qed
qed

lemma puts_quoted:
  assumes r: "reliable os contents"
  shows "puts os contents fd (quiet (addQuotedEscapedString s)) sh (quoted (kept s)) sh"
proof -
  have add: "emits (report_addJSONData os) (writes_to fd) (written_stream contents) (\<lambda>_. n) (addJSONData t) sh t sh" for n t
    by (rule json_sink.emits_addJSONData [OF report_sink [OF r]])
  let ?body = "\<lambda>c. bind_run (addEscapedString s c) (\<lambda>(r, c).
      bind_run (addJSONData ''\"'' c) (\<lambda>(q, c). Inr (if r \<noteq> 0 \<or> q \<noteq> 0 then 1 else 0, c)))"
  have "puts os contents fd (\<lambda>c. bind_run (quiet (addEscapedString s) c) (quiet (addJSONData ''\"''))) sh
      (escape_string (kept s) @ ''\"'') sh"
    by (rule puts_seq [OF puts_escaped [OF r] puts_emits [OF r add]])
  then have "puts os contents fd (quiet ?body) sh (escape_string (kept s) @ ''\"'') sh"
    by (rule puts_cong) (auto simp: quiet_def bind_run_def split: sum.splits prod.splits)
  then have "puts os contents fd (quiet (steps [addJSONData ''\"'', ?body])) sh
      (''\"'' @ escape_string (kept s) @ ''\"'') sh"
    by (intro puts_after [OF add]) (simp only: quiet_steps_one)
  then have "puts os contents fd (quiet (steps [addJSONData ''\"'', ?body])) sh (quoted (kept s)) sh"
    by (simp add: quoted_def del: steps.simps)
  then show ?thesis
  proof (rule puts_cong)
    have "addQuotedEscapedString s = steps [addJSONData ''\"'', ?body]"
      by (rule ext) (auto simp: addQuotedEscapedString_def json_codes bind_run_def split: sum.splits prod.splits)
    then show "quiet (addQuotedEscapedString s) c = quiet (steps [addJSONData ''\"'', ?body]) c" for c
      by (rule arg_cong)
  qed
qed

section \<open>Calls as a value\<close>

text \<open>
  What the texts of JSON that are added stand for, and which files cannot be opened: the calls that
  add the contents of a file are interpreted only if there is none.
\<close>

record 'd meaning =
  json_value :: "bytes \<Rightarrow> 'd json"
  no_file :: "bytes \<Rightarrow> bool"

text \<open>The open containers, the innermost first: whether it is an object, its name, and its elements.\<close>

type_synonym 'd frame = "bool \<times> bytes option \<times> (bytes \<times> 'd json) list"

definition name_ok :: "bool \<Rightarrow> bytes option \<Rightarrow> bool" where
  "name_ok object k \<longleftrightarrow> (object \<longrightarrow> (case k of None \<Rightarrow> False | Some n \<Rightarrow> escapable_string (c_string n)))"

definition member_name :: "bool \<Rightarrow> bytes option \<Rightarrow> bytes" where
  "member_name object k = (if object then c_string (the k) else [])"

definition element_name :: "bool \<Rightarrow> bytes \<Rightarrow> bytes option" where
  "element_name object n = (if object then Some (c_string n) else None)"

definition frame_name :: "bytes option \<Rightarrow> bytes" where
  "frame_name k = (case k of None \<Rightarrow> [] | Some n \<Rightarrow> n)"

definition frame_value :: "bool \<Rightarrow> (bytes \<times> 'd json) list \<Rightarrow> 'd json" where
  "frame_value object es = (if object then JObject es else JArray (map snd es))"

fun add_element :: "bytes option \<Rightarrow> 'd json \<Rightarrow> 'd frame list \<Rightarrow> 'd frame list option" where
  "add_element k v [] = None"
| "add_element k v ((object, key, es) # st) =
     (if name_ok object k then Some ((object, key, es @ [(member_name object k, v)]) # st) else None)"

fun open_frame :: "bool \<Rightarrow> bytes option \<Rightarrow> (bytes \<times> 'd json) list \<Rightarrow> 'd frame list \<Rightarrow> 'd frame list option" where
  "open_frame b k es [] = None"
| "open_frame b k es ((object, key, es') # st) =
     (if name_ok object k \<and> Suc (length st) < 200
      then Some ((b, element_name object (member_name object k), es) # (object, key, es') # st) else None)"

fun close_frame :: "'d frame list \<Rightarrow> 'd frame list option" where
  "close_frame ((b, k, es) # (object, key, es') # st) =
     Some ((object, key, es' @ [(frame_name k, frame_value b es)]) # st)"
| "close_frame _ = None"

definition text_value :: "bytes \<Rightarrow> 'd json" where
  "text_value s = JString (kept (c_string s))"

fun scalar_call :: "'d writer_call \<Rightarrow> (bytes option \<times> 'd json) option" where
  "scalar_call (AddBooleanElement k b) = Some (k, JBool b)"
| "scalar_call (AddFloatingPointElement k x) = Some (k, JFloat x)"
| "scalar_call (AddIntegerElement k w) = Some (k, JInt w)"
| "scalar_call (AddUIntegerElement k w) = Some (k, JUInt w)"
| "scalar_call (AddStringElement k s) = Some (k, case s of None \<Rightarrow> JNull | Some v \<Rightarrow> text_value v)"
| "scalar_call (AddDataElement k d) = Some (k, JString (concat (map hex_byte d)))"
| "scalar_call (AddUUIDElement k u) =
     (case u of
        None \<Rightarrow> Some (k, JNull)
      | Some src \<Rightarrow> if length src = 16 then Some (k, JString (pairs_text src)) else None)"
| "scalar_call _ = None"

text \<open>
  JSON that is added: below the second level its outermost container is left open
  (\<open>addJSONFromFile_onEndContainer\<close>), for the caller to close.
\<close>

definition json_step :: "bytes option \<Rightarrow> 'd json \<Rightarrow> 'd frame list \<Rightarrow> 'd frame list option" where
  "json_step k t st =
     (if \<not> encodable (length st - 1) t then None
      else if length st \<ge> 3 then add_element k t st
      else if length st = 2 then
        (case t of
           JObject ms \<Rightarrow> open_frame True k ms st
         | JArray ts \<Rightarrow> open_frame False k (map (Pair []) ts) st
         | _ \<Rightarrow> add_element k t st)
      else None)"

fun interpret_call :: "'d meaning \<Rightarrow> 'd writer_call \<Rightarrow> 'd frame list \<Rightarrow> 'd frame list option" where
  "interpret_call m (BeginObject k) st = open_frame True k [] st"
| "interpret_call m (BeginArray k) st = open_frame False k [] st"
| "interpret_call m EndContainer st = close_frame st"
| "interpret_call m (AddJSONElement k j close_last) st =
     (if close_last then None else json_step k (json_value m j) st)"
| "interpret_call m (AddTextFileLinesElement k path) st = (if no_file m path then Some st else None)"
| "interpret_call m call st = (case scalar_call call of None \<Rightarrow> None | Some (k, v) \<Rightarrow> add_element k v st)"

fun interpret_calls :: "'d meaning \<Rightarrow> 'd writer_call list \<Rightarrow> 'd frame list \<Rightarrow> 'd frame list option" where
  "interpret_calls m [] st = Some st"
| "interpret_calls m (call # calls) st =
     (case interpret_call m call st of None \<Rightarrow> None | Some st \<Rightarrow> interpret_calls m calls st)"

lemma interpret_append:
  "interpret_calls m (a @ b) st =
    (case interpret_calls m a st of None \<Rightarrow> None | Some st \<Rightarrow> interpret_calls m b st)"
  by (induction a arbitrary: st) (simp_all split: option.split)

section \<open>The events of a stack\<close>

definition container_event :: "bool \<Rightarrow> bytes option \<Rightarrow> 'd event" where
  "container_event b k = (if b then EvBeginObject k else EvBeginArray k)"

fun frames_events :: "'d frame list \<Rightarrow> 'd event list" where
  "frames_events [] = []"
| "frames_events ((b, k, es) # st) =
     frames_events st @ (if st = [] then [] else [container_event b k]) @
     concat (map (\<lambda>(n, t). events (element_name b n) t) es)"

definition frames_shape :: "'d frame list \<Rightarrow> shape" where
  "frames_shape st =
     \<lparr>sh_pretty = True, sh_stack = map fst st, sh_first = (case st of [] \<Rightarrow> True | (_, _, es) # _ \<Rightarrow> es = [])\<rparr>"

text \<open>
  The outermost frame is the top level. A frame has a name exactly if it is in an object.
\<close>

fun wf_frames :: "'d frame list \<Rightarrow> bool" where
  "wf_frames [] \<longleftrightarrow> False"
| "wf_frames [(b, k, es)] \<longleftrightarrow> \<not> b"
| "wf_frames ((b, k, es) # (b', k', es') # st) \<longleftrightarrow>
     k = element_name b' (frame_name k) \<and> wf_frames ((b', k', es') # st)"

lemma wf_frames_top: "wf_frames ((b, k, es) # st) \<Longrightarrow> wf_frames ((b, k, es') # st)"
  by (cases st) auto

lemma wf_frames_rest: "wf_frames ((b, k, es) # st) \<Longrightarrow> st \<noteq> [] \<Longrightarrow> wf_frames st"
  by (cases st) auto

lemma wf_frames_push:
  "wf_frames st \<Longrightarrow> st = (b', k', es') # st0 \<Longrightarrow> wf_frames ((b, element_name b' n, es) # st)"
  by (simp add: element_name_def frame_name_def)

definition no_frames :: "'d frame list" where
  "no_frames = [(False, None, [])]"

definition start_shape :: shape where
  "start_shape = \<lparr>sh_pretty = True, sh_stack = [False], sh_first = True\<rparr>"

lemma frames_shape_simps [simp]:
  "sh_pretty (frames_shape st) = True"
  "sh_stack (frames_shape st) = map fst st"
  "sh_first (frames_shape ((b, k, es) # st)) = (es = [])"
  by (simp_all add: frames_shape_def)

lemma frames_shape_start: "frames_shape no_frames = start_shape" "frames_events no_frames = []"
  by (simp_all add: frames_shape_def no_frames_def start_shape_def)

lemma element_events_shape:
  "events_shape (concat (map (\<lambda>(n, t). events (element_name b n) t) es)) sh =
    sh\<lparr>sh_first := sh_first sh \<and> es = []\<rparr>"
  by (rule events_shape_concat) (auto simp: events_shape_value split: prod.splits)

lemma frame_value_events:
  "events k (frame_value b es) =
    container_event b k # concat (map (\<lambda>(n, t). events (element_name b n) t) es) @ [EvEnd]"
proof -
  have items: "concat (map (\<lambda>(n, t). events None t) es) = concat (map (events None \<circ> snd) es)"
    by (induction es) auto
  show ?thesis by (simp add: frame_value_def container_event_def element_name_def items)
qed

section \<open>What a call adds\<close>

lemma name_ok_fits: "name_ok object k \<Longrightarrow> hd (sh_stack sh) = object \<Longrightarrow> name_fits sh k"
  by (auto simp: name_ok_def name_fits_def split: option.splits)

lemma begin_text_name:
  assumes "name_ok object k" "hd (sh_stack sh) = object"
  shows "begin_text sh (element_name object (member_name object k)) = begin_text sh k"
  using assms
  by (auto simp: begin_text_def name_text_def element_name_def member_name_def name_ok_def split: option.splits)

lemma element_name_idem: "element_name object (member_name object k) =
    (if object then Some (c_string (the k)) else None)"
  by (simp add: element_name_def member_name_def)

lemma hex_digits_plain: "d < 16 \<Longrightarrow> plain_char (g_hexNybbles ! d)"
  by (rule all_less_nat [of "\<lambda>d. plain_char (g_hexNybbles ! d)" 16]) (code_simp, assumption)

lemma hex_byte_plain: "list_all plain_char (hex_byte b)"
  by (simp add: hex_byte_def hex_digits_plain)

lemma nybble_pair_plain: "list_all plain_char (nybble_pair b)"
proof -
  have "d < 16 \<Longrightarrow> plain_char (uuid_nybbles ! d)" for d
    by (rule all_less_nat [of "\<lambda>d. plain_char (uuid_nybbles ! d)" 16]) (code_simp, assumption)
  then show ?thesis by (simp add: nybble_pair_def)
qed

lemma plain_no_nul: "list_all plain_char s \<Longrightarrow> no_nul s"
  by (induction s) (auto simp: plain_char_def)

lemma hex_text_plain: "list_all plain_char (concat (map hex_byte d))"
  by (induction d) (simp_all add: hex_byte_plain)

lemma uuid_text_plain: "list_all plain_char (pairs_text u)"
  by (simp add: pairs_text_def nybble_pair_plain Let_def) (simp add: plain_char_def)

lemma puts_string:
  assumes r: "reliable os contents" and "name_fits sh k" and p: "portion s n' = Inr p"
    and n': "n' = (if n = SentryCrashJSON_SIZE_AUTOMATIC then int (strlen s) else n)"
  shows "puts os contents fd (quiet (sentrycrashjson_addStringElement k (Some s) n)) sh
    (begin_text sh k @ quoted (kept p)) (after_element sh)"
proof -
  have "puts os contents fd (quiet (steps [\<lambda>c. bind_run (portion s n') (\<lambda>s. addQuotedEscapedString s c)]))
      (after_element sh) (quoted (kept p)) (after_element sh)"
    by (simp only: quiet_steps_one p bind_run_simps) (rule puts_quoted [OF r])
  then show ?thesis
    unfolding sentrycrashjson_addStringElement_def option.case n'
    by (intro puts_after [OF json_sink.emits_beginElement [OF report_sink [OF r]]] assms(2))
qed

lemma portion_all: "portion s (int (length s)) = Inr s"
  by (simp add: portion_def)

lemma c_string_prefix: "take (strlen s) s = c_string s"
  unfolding strlen_def c_string_def by (rule takeWhile_eq_take [symmetric])

lemma portion_strlen: "portion s (int (strlen s)) = Inr (c_string s)"
  using strlen_le [of s] by (simp add: portion_def c_string_prefix)

lemma puts_data:
  assumes r: "reliable os contents" and k: "name_fits sh k"
  shows "puts os contents fd (quiet (sentrycrashjson_addDataElement k d (int (length d)))) sh
    (begin_text sh k @ quoted (concat (map hex_byte d))) (after_element sh)"
proof (rule puts_emits [OF r])
  fix n
  note sink = report_sink [OF r, of fd n]
  let ?em = "emits (report_addJSONData os) (writes_to fd) (written_stream contents) (\<lambda>_. n)"
  have add: "?em (addJSONData t) sh t sh" for t sh by (rule json_sink.emits_addJSONData [OF sink])
  have start: "?em (sentrycrashjson_beginDataElement k) sh (begin_text sh k @ ''\"'') (after_element sh)"
    unfolding sentrycrashjson_beginDataElement_def sentrycrashjson_beginStringElement_def
    by (rule json_sink.emits_value [OF sink k add])
  have bytes: "?em (steps (map (\<lambda>b. addJSONData (hex_byte b)) d)) (after_element sh) (concat (map hex_byte d))
      (after_element sh)"
  proof (induction d)
    case (Cons b d)
    then show ?case by (simp only: list.map concat.simps) (rule emits_Cons [OF add Cons refl])
  qed (simp only: list.map concat.simps, rule emits_Nil)
  have rest: "?em (steps [sentrycrashjson_appendDataElement d (int (length d)), sentrycrashjson_endDataElement])
      (after_element sh) (concat (map hex_byte d) @ ''\"'') (after_element sh)"
    unfolding sentrycrashjson_endDataElement_def sentrycrashjson_endStringElement_def
    by (rule emits_steps2 [OF emits_cong [OF bytes] add])
       (simp add: sentrycrashjson_appendDataElement_def portion_all del: steps.simps)
  show "?em (sentrycrashjson_addDataElement k d (int (length d))) sh
      (begin_text sh k @ quoted (concat (map hex_byte d))) (after_element sh)"
    unfolding sentrycrashjson_addDataElement_def
    by (rule emits_Cons [OF start rest])
       (simp add: quoted_def escape_string_plain [OF hex_text_plain])
qed

lemma puts_scalar:
  assumes r: "reliable (wr_os env) contents" and s: "scalar_call call = Some (k, v)"
    and k: "name_fits sh k"
  shows "puts (wr_os env) contents fd (perform_call env call) sh
    (begin_text sh k @ render (wr_fp env) True l v) (after_element sh)"
proof -
  note sink = report_sink [OF r]
  have q: "puts (wr_os env) contents fd (perform_call env call) sh t sh'"
    if "puts (wr_os env) contents fd (quiet f) sh t sh'" "\<And>c. perform_call env call c = quiet f c" for f t sh'
    using that by (auto intro: puts_cong)
  show ?thesis
  proof (cases call)
    case (AddBooleanElement k' b)
    with s show ?thesis
      using puts_emits [OF r json_sink.emits_boolean [OF sink k]] by (intro q) auto
  next
    case (AddFloatingPointElement k' x)
    with s show ?thesis
      using puts_emits [OF r json_sink.emits_floating [OF sink k, of _ _ "wr_fp env" x]] by (intro q) (auto simp: float_text_def)
  next
    case (AddIntegerElement k' x)
    with s show ?thesis
      using puts_emits [OF r json_sink.emits_integer [OF sink k]] by (intro q) auto
  next
    case (AddUIntegerElement k' x)
    with s show ?thesis
      using puts_emits [OF r json_sink.emits_uinteger [OF sink k]] by (intro q) auto
  next
    case (AddStringElement k' x)
    show ?thesis
    proof (cases x)
      case None
      with s AddStringElement show ?thesis
        using puts_emits [OF r json_sink.emits_no_string [OF sink k]] by (intro q) auto
    next
      case (Some y)
      have "puts (wr_os env) contents fd
          (quiet (sentrycrashjson_addStringElement k (Some y) SentryCrashJSON_SIZE_AUTOMATIC)) sh
          (begin_text sh k @ quoted (kept (c_string y))) (after_element sh)"
        by (rule puts_string [OF r k portion_strlen]) simp
      with s AddStringElement Some show ?thesis by (intro q) (auto simp: text_value_def)
    qed
  next
    case (AddDataElement k' d)
    with s show ?thesis
      using puts_data [OF r k, of fd d] by (intro q) (auto simp: plain_no_nul hex_text_plain)
  next
    case (AddUUIDElement k' u)
    show ?thesis
    proof (cases u)
      case None
      with s AddUUIDElement show ?thesis
        using puts_emits [OF r json_sink.emits_null [OF sink k]]
        by (intro q [where f = "sentrycrashjson_addNullElement k"]) (auto simp: addUUIDElement_def)
    next
      case (Some src)
      with s AddUUIDElement have src: "length src = 16" "k' = k" "v = JString (pairs_text src)"
        by (auto split: if_splits)
      have "puts (wr_os env) contents fd
          (quiet (sentrycrashjson_addStringElement k (Some (pairs_text src @ [NUL])) 36)) sh
          (begin_text sh k @ quoted (kept (pairs_text src))) (after_element sh)"
        by (rule puts_string [OF r k, where n' = 36])
           (simp_all add: portion_def SentryCrashJSON_SIZE_AUTOMATIC_def)
      with AddUUIDElement Some src show ?thesis
        by (intro q) (auto simp: addUUIDElement_def convert_pairs plain_no_nul uuid_text_plain
          escape_string_plain [OF uuid_text_plain])
    qed
  qed (use s in simp_all)
qed

section \<open>JSON that is added\<close>

text \<open>The ends of containers are left out unless they are above the second level.\<close>

fun ends_deep :: "shape \<Rightarrow> 'd event list \<Rightarrow> bool" where
  "ends_deep sh [] \<longleftrightarrow> True"
| "ends_deep sh (ev # evs) \<longleftrightarrow> (ev = EvEnd \<longrightarrow> 3 < length (sh_stack sh)) \<and> ends_deep (event_shape ev sh) evs"

lemma ends_deep_append: "ends_deep sh (a @ b) \<longleftrightarrow> ends_deep sh a \<and> ends_deep (events_shape a sh) b"
  by (induction a arbitrary: sh) simp_all

lemma ends_deep_concat:
  assumes "\<And>x sh. x \<in> set xs \<Longrightarrow> sh_stack sh = st \<Longrightarrow> ends_deep sh (g x)"
    and "\<And>x sh. x \<in> set xs \<Longrightarrow> events_shape (g x) sh = after_element sh"
    and "sh_stack sh = st"
  shows "ends_deep sh (concat (map g xs))"
  using assms
proof (induction xs arbitrary: sh)
  case (Cons x xs)
  then show ?case by (simp add: ends_deep_append)
qed simp

lemma ends_deep_value:
  assumes "3 \<le> length (sh_stack sh)"
  shows "ends_deep sh (events n t)"
  using assms
proof (induction n t arbitrary: sh rule: events.induct)
  case (7 n ts)
  have "ends_deep (push_container False sh) (concat (map (events None) ts))"
    using 7 by (intro ends_deep_concat [where st = "False # sh_stack sh"]) (auto simp: events_shape_value)
  with 7 show ?case by (auto simp: ends_deep_append events_shape_concat events_shape_value)
next
  case (8 n ms)
  have "ends_deep (push_container True sh) (concat (map (\<lambda>(k, t). events (Some (c_string k)) t) ms))"
    using 8 by (intro ends_deep_concat [where st = "True # sh_stack sh"])
      (auto simp: events_shape_value split: prod.splits)
  moreover have "events_shape (concat (map (\<lambda>(k, t). events (Some (c_string k)) t) ms)) sh' =
      sh'\<lparr>sh_first := sh_first sh' \<and> ms = []\<rparr>" for sh'
    by (rule events_shape_concat) (auto simp: events_shape_value split: prod.splits)
  ultimately show ?case using 8 by (auto simp: ends_deep_append)
qed simp_all

lemma emits_file_events:
  assumes r: "reliable os contents" and "events_fit sh evs" "ends_deep sh evs"
  shows "emits (report_addJSONData os) (writes_to fd) (written_stream contents) (\<lambda>_. n)
    (steps (map (file_event fp) evs)) sh (events_text fp sh evs) (events_shape evs sh)"
  using assms(2,3)
proof (induction evs arbitrary: sh)
  case Nil
  show ?case by (simp add: emits_Nil del: steps.simps)
next
  case (Cons ev evs)
  have "emits (report_addJSONData os) (writes_to fd) (written_stream contents) (\<lambda>_. n) (file_event fp ev) sh
      (event_text fp sh ev) (event_shape ev sh)"
  proof (rule emits_cong [OF json_sink.emits_event [OF report_sink [OF r]]])
    show "event_fits sh ev" using Cons.prems by simp
    show "file_event fp ev c = encode_event fp ev c" if "has_shape (report_addJSONData os) sh c" for c
      using that Cons.prems(2) by (cases ev) (simp_all add: has_shape_level(2))
  qed
  from emits_Cons [OF this Cons.IH] Cons.prems show ?case by (simp del: steps.simps)
qed

lemma emits_file_open:
  assumes "reliable os contents" "events_fit sh evs" "ends_deep sh evs" "length (sh_stack (events_shape evs sh)) = 3"
  shows "emits (report_addJSONData os) (writes_to fd) (written_stream contents) (\<lambda>_. n)
    (steps (map (file_event fp) (evs @ [EvEnd]))) sh (events_text fp sh evs) (events_shape evs sh)"
proof -
  let ?sh' = "events_shape evs sh"
  have "emits (report_addJSONData os) (writes_to fd) (written_stream contents) (\<lambda>_. n) (file_event fp EvEnd)
      ?sh' [] ?sh'"
    by (rule emits_cong [OF emits_ok]) (use assms(4) in \<open>simp add: has_shape_level(2) ok_def json_codes\<close>)
  from emits_append [OF emits_file_events [OF assms(1-3)] emits_one [OF this]] show ?thesis
    by (simp del: steps.simps)
qed

lemma puts_json:
  assumes h: "holds_json (wr_fp env) (c_string j @ [NUL]) (strlen j) t"
    and e: "\<And>n. emits (report_addJSONData (wr_os env)) (writes_to fd) (written_stream contents) (\<lambda>_. n)
      (steps (map (file_event (wr_fp env)) (events k t))) sh tx sh'"
  shows "puts (wr_os env) contents fd (addJSONElement env k j False) sh tx sh'"
  unfolding puts_def
proof (intro allI impI)
  fix c assume c: "has_shape (report_addJSONData (wr_os env)) sh c" "writes_to fd (userData c)"
  then show "\<exists>c'. addJSONElement env k j False c = Inr c' \<and> has_shape (report_addJSONData (wr_os env)) sh' c' \<and>
      writes_to fd (userData c') \<and>
      written_stream contents (userData c') = written_stream contents (userData c) @ tx"
    using emits_succeeds [OF e [of "length tx"] c]
    by (auto simp: addJSONElement_def add_element_runs [OF h] json_codes simp del: steps.simps)
qed

section \<open>Calls write what they are interpreted as\<close>

lemma frames_shape_events:
  "wf_frames st \<Longrightarrow> events_shape (frames_events st) start_shape = frames_shape st"
proof (induction st rule: frames_events.induct)
  case (2 b k es st)
  show ?case
  proof (cases "st = []")
    case True
    with 2(2) show ?thesis by (simp add: element_events_shape start_shape_def frames_shape_def)
  next
    case False
    with 2 have "events_shape (frames_events st) start_shape = frames_shape st"
      by (auto dest: wf_frames_rest)
    with False show ?thesis
      by (simp add: events_shape_append element_events_shape container_event_def frames_shape_def push_container_def)
  qed
qed simp

text \<open>
  What \<open>m\<close> says of the texts and files that the calls mention is so: a text of JSON stands for its
  value, and a file that is not there cannot be opened.
\<close>

definition meant ::
    "('d, 'f) writer_env \<Rightarrow> (int \<Rightarrow> 'f \<Rightarrow> bytes) \<Rightarrow> 'd meaning \<Rightarrow> 'd writer_call \<Rightarrow> bool" where
  "meant env contents m call \<longleftrightarrow>
     (case call of
        AddJSONElement k j close_last \<Rightarrow> holds_json (wr_fp env) (c_string j @ [NUL]) (strlen j) (json_value m j)
      | AddTextFileLinesElement k path \<Rightarrow> no_file m path \<longrightarrow>
          (\<forall>w. fst (os_open_read (wr_os env) path w) < 0 \<and>
             (\<forall>fd. contents fd (snd (os_open_read (wr_os env) path w)) = contents fd w))
      | _ \<Rightarrow> True)"

text \<open>\<open>step_puts\<close>: the call turns the events of one stack into those of the other.\<close>

definition step_puts :: "('d, 'f) writer_env \<Rightarrow> (int \<Rightarrow> 'f \<Rightarrow> bytes) \<Rightarrow> int \<Rightarrow>
    ('f report_context \<Rightarrow> 'f report_context run) \<Rightarrow> 'd frame list \<Rightarrow> 'd frame list \<Rightarrow> bool" where
  "step_puts env contents fd f st st' \<longleftrightarrow> wf_frames st' \<and>
     (\<exists>evs. frames_events st' = frames_events st @ evs \<and>
        puts (wr_os env) contents fd f (frames_shape st) (events_text (wr_fp env) (frames_shape st) evs)
          (frames_shape st'))"

lemma step_puts_refl: "wf_frames st \<Longrightarrow> puts (wr_os env) contents fd f (frames_shape st) [] (frames_shape st) \<Longrightarrow>
    step_puts env contents fd f st st"
  by (auto simp: step_puts_def)

lemma step_puts_seq:
  assumes f: "step_puts env contents fd f st st1" and g: "step_puts env contents fd g st1 st2"
    and wf: "wf_frames st"
  shows "step_puts env contents fd (\<lambda>c. bind_run (f c) g) st st2"
proof -
  obtain e1 where e1: "frames_events st1 = frames_events st @ e1" "wf_frames st1"
      "puts (wr_os env) contents fd f (frames_shape st) (events_text (wr_fp env) (frames_shape st) e1)
        (frames_shape st1)"
    using f by (auto simp: step_puts_def)
  obtain e2 where e2: "frames_events st2 = frames_events st1 @ e2" "wf_frames st2"
      "puts (wr_os env) contents fd g (frames_shape st1) (events_text (wr_fp env) (frames_shape st1) e2)
        (frames_shape st2)"
    using g by (auto simp: step_puts_def)
  have "frames_shape st1 = events_shape e1 (frames_shape st)"
    using frames_shape_events [OF wf] frames_shape_events [OF e1(2)] e1(1) by (simp add: events_shape_append)
  then show ?thesis
    using puts_seq [OF e1(3) e2(3)] e1(1) e2(1,2)
    by (auto simp: step_puts_def events_text_append intro!: exI [of _ "e1 @ e2"])
qed

text \<open>An element is added, in the text that its value has at this level.\<close>

lemma add_element_puts:
  assumes "add_element k v st = Some st'" "wf_frames st"
    and f: "name_fits (frames_shape st) k \<Longrightarrow> puts (wr_os env) contents fd f (frames_shape st)
      (begin_text (frames_shape st) k @ render (wr_fp env) True (length st - 1) v)
      (after_element (frames_shape st))"
  shows "step_puts env contents fd f st st'"
proof -
  obtain b key es st0 where st: "st = (b, key, es) # st0" using assms(2) by (cases st) auto
  with assms(1) have k: "name_ok b k" and st': "st' = (b, key, es @ [(member_name b k, v)]) # st0"
    by (auto split: if_splits)
  have hd: "hd (sh_stack (frames_shape st)) = b" by (simp add: st)
  note fits = name_ok_fits [OF k hd]
  let ?n = "element_name b (member_name b k)"
  have "events_text (wr_fp env) (frames_shape st) (events ?n v) =
      begin_text (frames_shape st) k @ render (wr_fp env) True (length st - 1) v"
    unfolding begin_text_name [OF k hd, symmetric] by (rule events_render(1)) (simp_all add: st)
  moreover have "frames_events st' = frames_events st @ events ?n v"
    by (simp add: st st')
  moreover have "frames_shape st' = after_element (frames_shape st)"
    by (simp add: st st' frames_shape_def)
  moreover have "wf_frames st'" using assms(2) wf_frames_top by (auto simp: st st')
  ultimately show ?thesis using f [OF fits] by (auto simp: step_puts_def)
qed

text \<open>A container is opened, empty or with elements that are written at once.\<close>

lemma open_frame_puts:
  assumes "open_frame b k es st = Some st'" "wf_frames st"
    and f: "name_fits (frames_shape st) k \<Longrightarrow> length st < 200 \<Longrightarrow>
      puts (wr_os env) contents fd f (frames_shape st)
        (events_text (wr_fp env) (frames_shape st)
          (container_event b k # concat (map (\<lambda>(n, t). events (element_name b n) t) es)))
        ((push_container b (frames_shape st))\<lparr>sh_first := es = []\<rparr>)"
  shows "step_puts env contents fd f st st'"
proof -
  obtain b' key es' st0 where st: "st = (b', key, es') # st0"
    using assms(2) by (cases st) auto
  let ?n = "element_name b' (member_name b' k)"
  have k: "name_ok b' k" and l: "length st < 200" and st': "st' = (b, ?n, es) # st"
    using assms(1) by (auto simp: st split: if_splits)
  have hd: "hd (sh_stack (frames_shape st)) = b'" by (simp add: st)
  note fits = name_ok_fits [OF k hd]
  let ?evs = "\<lambda>k. container_event b k # concat (map (\<lambda>(n, t). events (element_name b n) t) es)"
  have "event_text (wr_fp env) (frames_shape st) (container_event b ?n) =
      event_text (wr_fp env) (frames_shape st) (container_event b k)"
    using begin_text_name [OF k hd] by (simp add: container_event_def)
  then have "events_text (wr_fp env) (frames_shape st) (?evs ?n) = events_text (wr_fp env) (frames_shape st) (?evs k)"
    by (simp add: container_event_def)
  moreover have "frames_events st' = frames_events st @ ?evs ?n" using st by (simp add: st')
  moreover have "frames_shape st' = (push_container b (frames_shape st))\<lparr>sh_first := es = []\<rparr>"
    by (simp add: st' frames_shape_def push_container_def)
  moreover have "wf_frames st'" using wf_frames_push [OF assms(2) st] by (simp add: st')
  ultimately show ?thesis using f [OF fits l] by (auto simp: step_puts_def)
qed

lemma close_frame_puts:
  assumes r: "reliable (wr_os env) contents" and "close_frame st = Some st'" "wf_frames st"
  shows "step_puts env contents fd (quiet sentrycrashjson_endContainer) st st'"
proof -
  obtain b k es b' key es' st0 where st: "st = (b, k, es) # (b', key, es') # st0"
      and st': "st' = (b', key, es' @ [(frame_name k, frame_value b es)]) # st0"
    using assms(2) by (cases st rule: close_frame.cases) auto
  have len: "1 < length (sh_stack (frames_shape st))" by (simp add: st)
  have "puts (wr_os env) contents fd (quiet sentrycrashjson_endContainer) (frames_shape st)
      (end_text (frames_shape st)) (pop_container (frames_shape st))"
    by (rule puts_emits [OF r json_sink.emits_endContainer [OF report_sink [OF r] len]])
  moreover have "pop_container (frames_shape st) = frames_shape st'"
    by (simp add: st st' frames_shape_def pop_container_def)
  moreover have "wf_frames st'" using assms(3) wf_frames_top by (auto simp: st st')
  moreover have "frames_events st' = frames_events st @ [EvEnd]"
  proof -
    have "k = element_name b' (frame_name k)" using assms(3) by (simp add: st)
    then have "events (element_name b' (frame_name k)) (frame_value b es) =
        container_event b k # concat (map (\<lambda>(n, t). events (element_name b n) t) es) @ [EvEnd]"
      using frame_value_events [of k b es] by simp
    then show ?thesis by (simp add: st st')
  qed
  ultimately show ?thesis by (auto simp: step_puts_def)
qed


section \<open>Every call\<close>

lemma json_step_puts:
  assumes r: "reliable (wr_os env) contents" and h: "holds_json (wr_fp env) (c_string j @ [NUL]) (strlen j) t"
    and "json_step k t st = Some st'" and wf: "wf_frames st"
  shows "step_puts env contents fd (addJSONElement env k j False) st st'"
proof -
  let ?sh = "frames_shape st" and ?l = "length st - 1" and ?fp = "wr_fp env"
  have enc: "encodable ?l t" and len: "length (sh_stack ?sh) = Suc ?l"
    using assms(3) by (auto simp: json_step_def split: if_splits)
  have fit: "events_fit ?sh (events k t)" if "name_fits ?sh k"
    by (rule events_fit_value [OF enc len that])
  have add: "step_puts env contents fd (addJSONElement env k j False) st st'"
    if "add_element k t st = Some st'" and deep: "ends_deep ?sh (events k t)"
  proof (rule add_element_puts [OF that(1) wf])
    assume k: "name_fits ?sh k"
    have "puts (wr_os env) contents fd (addJSONElement env k j False) ?sh
        (events_text ?fp ?sh (events k t)) (events_shape (events k t) ?sh)"
      by (rule puts_json [OF h emits_file_events [OF r fit [OF k] deep]])
    then show "puts (wr_os env) contents fd (addJSONElement env k j False) ?sh
        (begin_text ?sh k @ render ?fp True ?l t) (after_element ?sh)"
      using events_render(1) [of ?sh True ?l ?fp k t] len by (simp add: events_shape_value)
  qed
  have left_open: "step_puts env contents fd (addJSONElement env k j False) st st'"
    if o: "open_frame b k es st = Some st'" and t: "t = frame_value b es" and l: "length st = 2" for b es
  proof (rule open_frame_puts [OF o wf])
    assume k: "name_fits ?sh k"
    let ?evs = "container_event b k # concat (map (\<lambda>(n, t). events (element_name b n) t) es)"
    have evs: "events k t = ?evs @ [EvEnd]" by (simp add: t frame_value_events)
    have shape: "events_shape ?evs ?sh = (push_container b ?sh)\<lparr>sh_first := es = []\<rparr>"
      by (simp add: container_event_def element_events_shape)
    have "ends_deep ?sh ?evs"
    proof -
      have "ends_deep (push_container b ?sh) (concat (map (\<lambda>(n, t). events (element_name b n) t) es))"
        by (rule ends_deep_concat [where st = "b # sh_stack ?sh"])
           (auto simp: l events_shape_value intro!: ends_deep_value)
      then show ?thesis by (cases b) (simp_all add: container_event_def)
    qed
    moreover have "events_fit ?sh ?evs" using fit [OF k] by (simp add: evs events_fit_append)
    ultimately have "emits (report_addJSONData (wr_os env)) (writes_to fd) (written_stream contents) (\<lambda>_. n)
        (steps (map (file_event ?fp) (events k t))) ?sh (events_text ?fp ?sh ?evs) (events_shape ?evs ?sh)" for n
      unfolding evs by (intro emits_file_open [OF r]) (assumption, assumption, simp only: shape, simp add: l)
    from puts_json [OF h this] show "puts (wr_os env) contents fd (addJSONElement env k j False) ?sh
        (events_text ?fp ?sh ?evs) ((push_container b ?sh)\<lparr>sh_first := es = []\<rparr>)"
      by (simp only: shape)
  qed
  show ?thesis
  proof (cases "length st = 2")
    case True
    with assms(3) show ?thesis
      using left_open [of True] left_open [of False] add
      by (cases t) (auto simp: json_step_def frame_value_def comp_def split: if_splits)
  next
    case False
    then show ?thesis
      using assms(3) add ends_deep_value [of ?sh k t] by (auto simp: json_step_def split: if_splits)
  qed
qed

text \<open>A log file that is not there adds nothing.\<close>

lemma missing_file_puts:
  fixes env :: "('d, 'f) writer_env"
  assumes "\<And>w. fst (os_open_read (wr_os env) path w) < 0"
    and "\<And>w. contents fd (snd (os_open_read (wr_os env) path w)) = contents fd w"
  shows "puts (wr_os env) contents fd (addTextLinesFromFile env k path) sh [] sh"
  unfolding puts_def
proof (intro allI impI)
  fix c :: "'f report_context"
  assume c: "has_shape (report_addJSONData (wr_os env)) sh c" "writes_to fd (userData c)"
  obtain wr w where u: "userData c = (wr, w)" by fastforce
  obtain fd' w' where o: "os_open_read (wr_os env) path w = (fd', w')" by fastforce
  have "fd' < 0" "contents fd w' = contents fd w" using assms [of w] by (simp_all add: o)
  then show "\<exists>c'. addTextLinesFromFile env k path c = Inr c' \<and> has_shape (report_addJSONData (wr_os env)) sh c' \<and>
      writes_to fd (userData c') \<and> written_stream contents (userData c') = written_stream contents (userData c) @ []"
    using c by (auto simp: addTextLinesFromFile_def u sentrycrashfu_openBufferedReader_def o writes_to_def
      wf_writer_def written_stream_def)
qed

lemma push_container_empty [simp]: "(push_container b sh)\<lparr>sh_first := True\<rparr> = push_container b sh"
  by (simp add: push_container_def)

lemma interpret_call_puts:
  assumes r: "reliable (wr_os env) contents" and m: "meant env contents m call"
    and i: "interpret_call m call st = Some st'" and wf: "wf_frames st"
  shows "step_puts env contents fd (perform_call env call) st st'"
proof -
  note sink = report_sink [OF r]
  have container: "step_puts env contents fd (quiet (begin_container b (if b then ''{'' else ''['') k)) st st'"
    if "open_frame b k [] st = Some st'" for b k
  proof (rule open_frame_puts [OF that wf])
    assume k: "name_fits (frames_shape st) k" and l: "length st < 200"
    have "puts (wr_os env) contents fd (quiet (begin_container b (if b then ''{'' else ''['') k)) (frames_shape st)
        (begin_text (frames_shape st) k @ (if b then ''{'' else ''['')) (push_container b (frames_shape st))"
      by (rule puts_emits [OF r json_sink.emits_begin_container [OF sink k]]) (simp add: l)
    then show "puts (wr_os env) contents fd (quiet (begin_container b (if b then ''{'' else ''['') k))
        (frames_shape st) (events_text (wr_fp env) (frames_shape st)
          (container_event b k # concat (map (\<lambda>(n, t). events (element_name b n) t) [])))
        ((push_container b (frames_shape st))\<lparr>sh_first := [] = []\<rparr>)"
      by (cases b) (simp_all add: container_event_def)
  qed
  have scalar: "step_puts env contents fd (perform_call env call) st st'"
    if "scalar_call call = Some (k, v)" "add_element k v st = Some st'" for k v
    by (rule add_element_puts [OF that(2) wf puts_scalar [OF r that(1)]])
  show ?thesis
  proof (cases call)
    case (BeginObject k)
    have "perform_call env call = quiet (begin_container True ''{'' k)"
      by (rule ext) (simp add: BeginObject sentrycrashjson_beginObject_def quiet_def)
    with i container [of True k] show ?thesis by (simp add: BeginObject)
  next
    case (BeginArray k)
    have "perform_call env call = quiet (begin_container False ''['' k)"
      by (rule ext) (simp add: BeginArray sentrycrashjson_beginArray_def quiet_def)
    with i container [of False k] show ?thesis by (simp add: BeginArray)
  next
    case EndContainer
    have "perform_call env call = quiet sentrycrashjson_endContainer" by (rule ext) (simp add: EndContainer)
    with i close_frame_puts [OF r _ wf] show ?thesis by (simp add: EndContainer)
  next
    case (AddJSONElement k j close_last)
    with i have j: "\<not> close_last" "json_step k (json_value m j) st = Some st'" by (auto split: if_splits)
    then have "perform_call env call = addJSONElement env k j False" by (intro ext) (simp add: AddJSONElement)
    with m json_step_puts [OF r _ j(2) wf] show ?thesis by (simp add: AddJSONElement meant_def)
  next
    case (AddTextFileLinesElement k path)
    with i have j: "no_file m path" "st' = st" by (auto split: if_splits)
    have "perform_call env call = addTextLinesFromFile env k path" by (rule ext) (simp add: AddTextFileLinesElement)
    with j m missing_file_puts [of env path contents fd k "frames_shape st"] wf show ?thesis
      by (simp add: AddTextFileLinesElement meant_def step_puts_refl)
  qed (use i scalar in \<open>auto split: option.splits\<close>)
qed

lemma interpret_calls_puts:
  assumes r: "reliable (wr_os env) contents" and "\<forall>call\<in>set calls. meant env contents m call"
    and "interpret_calls m calls st = Some st'" "wf_frames st"
  shows "step_puts env contents fd (perform_calls env calls) st st'"
  using assms(2-4)
proof (induction calls arbitrary: st)
  case Nil
  then show ?case
    by (auto intro!: step_puts_refl puts_cong [OF puts_nothing])
next
  case (Cons call calls)
  then obtain st1 where st1: "interpret_call m call st = Some st1" "interpret_calls m calls st1 = Some st'"
    by (auto split: option.splits)
  have call: "step_puts env contents fd (perform_call env call) st st1"
    using Cons.prems by (intro interpret_call_puts [OF r _ st1(1)]) simp_all
  then have "wf_frames st1" by (simp add: step_puts_def)
  with Cons st1 have "step_puts env contents fd (perform_calls env calls) st1 st'" by simp
  from step_puts_seq [OF call this Cons.prems(3)] show ?case by simp
qed

end
