(* ===== verification/Report_Nesting.thy ===== *)
theory Report_Nesting
  imports Report_Write Report_Writer_Spec
begin

text \<open>
  The reports that \<open>SentryCrashReport.c\<close> writes: each of its functions makes calls that nest as they
  should, so a report is one JSON object with its parts as members, whatever the process looked like.
\<close>

section \<open>Sequences of calls that denote elements\<close>

text \<open>
  \<open>denotes\<close>: inside a container at a level of nesting, the calls add the elements \<open>es\<close>, and what \<open>m\<close> says
  of the texts and files among them is so.
\<close>

definition denotes :: "('d, 'f) writer_env \<Rightarrow> (int \<Rightarrow> 'f \<Rightarrow> bytes) \<Rightarrow> 'd meaning \<Rightarrow> bool \<Rightarrow> nat \<Rightarrow>
    'd writer_call list \<Rightarrow> (bytes \<times> 'd json) list \<Rightarrow> bool" where
  "denotes wenv contents m object l calls es \<longleftrightarrow>
     (\<forall>key es0 st. length st = l \<longrightarrow>
        interpret_calls m calls ((object, key, es0) # st) = Some ((object, key, es0 @ es) # st)) \<and>
     (\<forall>call\<in>set calls. meant wenv contents m call)"

definition nests :: "('d, 'f) writer_env \<Rightarrow> (int \<Rightarrow> 'f \<Rightarrow> bytes) \<Rightarrow> 'd meaning \<Rightarrow> bool \<Rightarrow> nat \<Rightarrow>
    'd writer_call list \<Rightarrow> bool" where
  "nests wenv contents m object l calls \<longleftrightarrow> (\<exists>es. denotes wenv contents m object l calls es)"

text \<open>The calls add one element of a name.\<close>

definition one_element :: "('d, 'f) writer_env \<Rightarrow> (int \<Rightarrow> 'f \<Rightarrow> bytes) \<Rightarrow> 'd meaning \<Rightarrow> bool \<Rightarrow> nat \<Rightarrow>
    bytes option \<Rightarrow> 'd writer_call list \<Rightarrow> bool" where
  "one_element wenv contents m object l k calls \<longleftrightarrow>
     (\<exists>v. denotes wenv contents m object l calls [(member_name object k, v)])"

lemma denotes_Nil: "denotes wenv contents m object l [] []"
  by (simp add: denotes_def)

lemma denotes_append:
  "denotes wenv contents m object l a es \<Longrightarrow> denotes wenv contents m object l b es' \<Longrightarrow>
    denotes wenv contents m object l (a @ b) (es @ es')"
  by (auto simp: denotes_def interpret_append)

lemma meant_scalar: "scalar_call call = Some (k, v) \<Longrightarrow> meant wenv contents m call"
  by (cases call) (simp_all add: meant_def)

lemma interpret_scalar: "scalar_call call = Some (k, v) \<Longrightarrow> interpret_call m call st = add_element k v st"
  by (cases call) auto

lemma denotes_scalar:
  assumes "scalar_call call = Some (k, v)" "name_ok object k"
  shows "denotes wenv contents m object l [call] [(member_name object k, v)]"
  using assms by (simp add: denotes_def meant_scalar interpret_scalar)

lemma frame_name_element [simp]: "frame_name (element_name object (member_name object k)) = member_name object k"
  by (simp add: frame_name_def element_name_def member_name_def)

lemma denotes_container:
  assumes inner: "denotes wenv contents m b (Suc l) calls es" and "name_ok object k" "Suc l < 200"
    and "start = (if b then BeginObject k else BeginArray k)"
  shows "denotes wenv contents m object l (start # calls @ [EndContainer]) [(member_name object k, frame_value b es)]"
  using assms by (auto simp: denotes_def interpret_append meant_def)

lemma nests_Nil: "nests wenv contents m object l []"
  unfolding nests_def by (rule exI, rule denotes_Nil)

lemma nests_append:
  "nests wenv contents m object l a \<Longrightarrow> nests wenv contents m object l b \<Longrightarrow> nests wenv contents m object l (a @ b)"
  using denotes_append by (fastforce simp: nests_def)

lemma nests_scalar:
  assumes "scalar_call call = Some (k, v)" "name_ok object k" "nests wenv contents m object l calls"
  shows "nests wenv contents m object l (call # calls)"
proof -
  have "nests wenv contents m object l [call]"
    unfolding nests_def by (rule exI, rule denotes_scalar [OF assms(1,2)])
  from nests_append [OF this assms(3)] show ?thesis by simp
qed

lemma one_element_nests: "one_element wenv contents m object l k calls \<Longrightarrow> nests wenv contents m object l calls"
  by (auto simp: one_element_def nests_def)

lemma one_element_scalar:
  "scalar_call call = Some (k, v) \<Longrightarrow> name_ok object k \<Longrightarrow> one_element wenv contents m object l k [call]"
  using denotes_scalar by (fastforce simp: one_element_def)

lemma nests_one_append:
  "one_element wenv contents m object l k a \<Longrightarrow> nests wenv contents m object l b \<Longrightarrow>
    nests wenv contents m object l (a @ b)"
  using one_element_nests nests_append by blast

text \<open>A container is what is between its first and its last call.\<close>

lemma one_element_container:
  assumes "name_ok object k" "Suc l < 200" "nests wenv contents m b (Suc l) inner"
    and "calls = (if b then BeginObject k else BeginArray k) # inner @ [EndContainer]"
  shows "one_element wenv contents m object l k calls"
  using assms denotes_container [of wenv contents m b l inner _ object k] by (fastforce simp: nests_def one_element_def)

lemma begin_to_end: "2 \<le> length calls \<Longrightarrow> hd calls = a \<Longrightarrow> last calls = b \<Longrightarrow> calls = a # butlast (tl calls) @ [b]"
  by (cases calls) auto

lemma one_element_object:
  assumes "name_ok object k" "Suc l < 200" "2 \<le> length calls" "hd calls = BeginObject k" "last calls = EndContainer"
    "nests wenv contents m True (Suc l) (butlast (tl calls))"
  shows "one_element wenv contents m object l k calls"
  using one_element_container [OF assms(1,2,6), of calls] begin_to_end [OF assms(3-5)] by simp

lemma one_element_array:
  assumes "name_ok object k" "Suc l < 200" "2 \<le> length calls" "hd calls = BeginArray k" "last calls = EndContainer"
    "nests wenv contents m False (Suc l) (butlast (tl calls))"
  shows "one_element wenv contents m object l k calls"
  using one_element_container [OF assms(1,2,6), of calls] begin_to_end [OF assms(3-5)] by simp

text \<open>Calls of the writer, one rule for each kind, used as rewrite rules.\<close>

lemma name_ok_simps [simp]:
  "name_ok False k" "plain_key n \<Longrightarrow> name_ok object (Some n)"
  by (simp_all add: name_ok_def plain_key_escapable)

lemma nests_simps [simp]:
  "nests wenv contents m object l []"
  "name_ok object k \<Longrightarrow> nests wenv contents m object l calls \<Longrightarrow>
    nests wenv contents m object l (AddBooleanElement k b # calls)"
  "name_ok object k \<Longrightarrow> nests wenv contents m object l calls \<Longrightarrow>
    nests wenv contents m object l (AddFloatingPointElement k x # calls)"
  "name_ok object k \<Longrightarrow> nests wenv contents m object l calls \<Longrightarrow>
    nests wenv contents m object l (AddIntegerElement k i # calls)"
  "name_ok object k \<Longrightarrow> nests wenv contents m object l calls \<Longrightarrow>
    nests wenv contents m object l (AddUIntegerElement k i # calls)"
  "name_ok object k \<Longrightarrow> nests wenv contents m object l calls \<Longrightarrow>
    nests wenv contents m object l (AddStringElement k s # calls)"
  "name_ok object k \<Longrightarrow> nests wenv contents m object l calls \<Longrightarrow>
    nests wenv contents m object l (AddDataElement k d # calls)"
  by (rule nests_Nil) (rule nests_scalar, auto)+

lemma nests_if: "(P \<Longrightarrow> nests wenv contents m object l a) \<Longrightarrow> (\<not> P \<Longrightarrow> nests wenv contents m object l b) \<Longrightarrow>
    nests wenv contents m object l (if P then a else b)"
  by simp

lemma nests_concat: "(\<And>c. c \<in> set cs \<Longrightarrow> nests wenv contents m object l c) \<Longrightarrow>
    nests wenv contents m object l (concat cs)"
  by (induction cs) (simp_all add: nests_append)

lemma nests_in_order:
  assumes "in_order rs = Inr calls" "\<And>a. Inr a \<in> set rs \<Longrightarrow> nests wenv contents m object l a"
  shows "nests wenv contents m object l calls"
  using assms by (induction rs arbitrary: calls) (auto simp: bind_run_eq_Inr intro: nests_append)

lemma Inr_eq_bind_run: "Inr y = bind_run r f \<longleftrightarrow> (\<exists>x. r = Inr x \<and> f x = Inr y)"
  by (cases r) auto

lemma nests_if_there [simp]: "plain_key k \<Longrightarrow> nests wenv contents m object l (add_if_there k s)"
  by (simp add: add_if_there_def split: option.split)

section \<open>Backtraces and registers\<close>

lemma stack_entry_element:
  assumes "Suc l < 200"
  shows "one_element wenv contents m False l None (write_stack_entry s entry)"
  by (rule one_element_object)
     (use assms in \<open>simp_all add: write_stack_entry_def butlast_append nests_append\<close>)

lemma entries_nest:
  "write_entries env fuel cursor = Inr (calls, cursor') \<Longrightarrow> Suc l < 200 \<Longrightarrow> nests wenv contents m False l calls"
proof (induction fuel arbitrary: cursor calls cursor')
  case (Suc fuel)
  then show ?case
    by (auto simp: bind_run_eq_Inr split: if_splits prod.splits
      intro!: nests_one_append [OF stack_entry_element])
qed simp

lemma backtrace_element:
  assumes w: "writeBacktrace env k cursor = Inr (calls, cursor')" and "name_ok object k" "Suc (Suc (Suc l)) < 200"
  shows "one_element wenv contents m object l k calls"
proof -
  obtain inner where inner: "write_entries env (Suc (cursor_room cursor)) cursor = Inr (inner, cursor')"
      "calls = [BeginObject k, BeginArray (Some SentryCrashField_Contents)] @ inner @
            [EndContainer, AddIntegerElement (Some SentryCrashField_Skipped) 0, EndContainer]"
    using w by (auto simp: writeBacktrace_def bind_run_eq_Inr simp del: write_entries.simps)
  have "one_element wenv contents m True (Suc l) (Some SentryCrashField_Contents)
      (BeginArray (Some SentryCrashField_Contents) # inner @ [EndContainer])"
    by (rule one_element_container [where b = False and inner = inner, OF _ _ entries_nest [OF inner(1)]])
       (use assms(3) in simp_all)
  from nests_one_append [OF this, of "[AddIntegerElement (Some SentryCrashField_Skipped) 0]"]
  show ?thesis
    by (intro one_element_object) (use assms inner in \<open>simp_all add: butlast_append\<close>)
qed

text \<open>Names of registers that can be written.\<close>

definition cpu_named :: "'c cpu_ops \<Rightarrow> bool" where
  "cpu_named cpu \<longleftrightarrow>
     (\<forall>reg n. op_registerName cpu reg = Inr (Some n) \<longrightarrow> escapable_string (c_string n)) \<and>
     (\<forall>reg n. op_exceptionRegisterName cpu reg = Inr (Some n) \<longrightarrow> escapable_string (c_string n))"

lemma escapable_subset: "escapable_string s \<Longrightarrow> set t \<subseteq> set s \<Longrightarrow> escapable_string t"
  by (auto simp: escapable_string_def list_all_iff)

lemma set_c_string: "set (c_string s) \<subseteq> set s"
  by (auto simp: c_string_def dest: set_takeWhileD)

lemma escapable_cut: "escapable_string s \<Longrightarrow> escapable_string (c_string (snprintf n s))"
  by (rule escapable_subset, assumption)
     (use set_c_string [of "snprintf n s"] set_take_subset [of "n - 1" s] in \<open>auto simp: snprintf_def\<close>)

lemma digits_escapable: "list_all is_digit s \<Longrightarrow> escapable_string s"
  by (auto simp: escapable_string_def list_all_iff is_digit_def escapable_def)

lemma show_int_escapable: "escapable_string (show_int i)"
  by (simp add: show_int_def digits_escapable show_nat_digits) (simp add: escapable_def)

lemma register_name_ok:
  assumes "cpu_named cpu" "op_registerName cpu reg = Inr name \<or> op_exceptionRegisterName cpu reg = Inr name"
  shows "name_ok object (Some (register_name name reg))"
proof (cases name)
  case None
  then show ?thesis
    using escapable_cut [of "''r'' @ show_int reg" 30] show_int_escapable [of reg]
    by (simp add: name_ok_def register_name_def) (simp add: escapable_def)
qed (use assms in \<open>auto simp: name_ok_def register_name_def cpu_named_def\<close>)

lemma basic_registers_element:
  assumes "writeBasicRegisters cpu k context = Inr calls" "cpu_named cpu" "name_ok object k" "Suc l < 200"
  shows "one_element wenv contents m object l k calls"
proof -
  obtain inner where inner: "calls = [BeginObject k] @ inner @ [EndContainer]"
    "in_order (map (\<lambda>reg. bind_run (op_registerName cpu reg) (\<lambda>name.
          bind_run (op_registerValue cpu (mcontext context) reg) (\<lambda>v.
            Inr [AddUIntegerElement (Some (register_name name reg)) v]))) [0 .. op_numRegisters cpu - 1]) = Inr inner"
    using assms(1) by (auto simp: writeBasicRegisters_def bind_run_eq_Inr)
  have "nests wenv contents m True (Suc l) inner"
    by (rule nests_in_order [OF inner(2)])
       (auto simp: Inr_eq_bind_run bind_run_eq_Inr intro!: nests_simps(5) register_name_ok assms(2))
  from one_element_container [where b = True, OF assms(3,4) this] inner(1) show ?thesis by simp
qed

lemma exception_registers_element:
  assumes "writeExceptionRegisters cpu k context = Inr calls" "cpu_named cpu" "name_ok object k" "Suc l < 200"
  shows "one_element wenv contents m object l k calls"
proof -
  obtain inner where inner: "calls = [BeginObject k] @ inner @ [EndContainer]"
    "in_order (map (\<lambda>reg. bind_run (op_exceptionRegisterName cpu reg) (\<lambda>name.
            Inr [AddUIntegerElement (Some (register_name name reg))
                   (op_exceptionRegisterValue cpu (mcontext context) reg)])) [0 .. op_numExceptionRegisters cpu - 1]) =
      Inr inner"
    using assms(1) by (auto simp: writeExceptionRegisters_def bind_run_eq_Inr)
  have "nests wenv contents m True (Suc l) inner"
    by (rule nests_in_order [OF inner(2)])
       (auto simp: Inr_eq_bind_run bind_run_eq_Inr intro!: nests_simps(5) register_name_ok assms(2))
  from one_element_container [where b = True, OF assms(3,4) this] inner(1) show ?thesis by simp
qed

text \<open>An object put together by \<open>in_order\<close>.\<close>

lemma one_element_in_order:
  assumes "in_order ([Inr [BeginObject k]] @ rs @ [Inr [EndContainer]]) = Inr calls" "name_ok object k" "Suc l < 200"
    "\<And>a. Inr a \<in> set rs \<Longrightarrow> nests wenv contents m True (Suc l) a"
  shows "one_element wenv contents m object l k calls"
proof -
  have split: "in_order (rs @ [Inr [EndContainer]]) = bind_run (in_order rs) (\<lambda>a. Inr (a @ [EndContainer]))" for rs
    by (induction rs) (auto simp: bind_run_assoc)
  obtain inner where inner: "in_order rs = Inr inner" "calls = BeginObject k # inner @ [EndContainer]"
    using assms(1) by (auto simp: split bind_run_eq_Inr)
  have "nests wenv contents m True (Suc l) inner" using inner(1) assms(4) by (rule nests_in_order)
  from one_element_container [where b = True, OF assms(2,3) this] inner(2) show ?thesis by simp
qed

lemma registers_element:
  fixes calls :: "'d writer_call list"
  assumes "writeRegisters cpu k context = Inr calls" "cpu_named cpu" "name_ok object k" "Suc (Suc l) < 200"
  shows "one_element wenv contents m object l k calls"
proof -
  let ?rs = "[writeBasicRegisters cpu (Some SentryCrashField_Basic) context,
        (if sentrycrashmc_hasValidExceptionRegisters context
         then writeExceptionRegisters cpu (Some SentryCrashField_Exception) context else Inr [])] :: 'd writer_call list run list"
  have "in_order ([Inr [BeginObject k]] @ ?rs @ [Inr [EndContainer]]) = Inr calls"
    using assms(1) by (simp add: writeRegisters_def)
  then show ?thesis
  proof (rule one_element_in_order)
    fix a :: "'d writer_call list"
    assume "Inr a \<in> set ?rs"
    then have "writeBasicRegisters cpu (Some SentryCrashField_Basic) context = Inr a \<or>
        writeExceptionRegisters cpu (Some SentryCrashField_Exception) context = Inr a \<or> a = []"
      by (auto split: if_splits)
    then show "nests wenv contents m True (Suc l) a"
      using assms(2,4)
      by (elim disjE) (auto intro: one_element_nests [OF basic_registers_element]
        one_element_nests [OF exception_registers_element])
  qed (use assms in simp_all)
qed

section \<open>The stack\<close>

lemma stack_contents_nest:
  assumes "Suc l < 200" "name_ok object k"
  shows "nests wenv contents m object l (writeStackContents env k context overflowed)"
proof -
  obtain lo hi where range: "stack_range (re_cpu env) (op_stackPointer (re_cpu env) (mcontext context))
      kStackContentsPushedDistance kStackContentsPoppedDistance = (lo, hi)" by fastforce
  obtain copied buffer where copy: "sentrycrashmem_copySafely (re_vm env) lo (sint (ucast (hi - lo) :: 32 word)) =
      (copied, buffer)" by fastforce
  show ?thesis
  proof (cases "op_stackPointer (re_cpu env) (mcontext context) = 0")
    case True
    then show ?thesis by (simp add: writeStackContents_def)
  next
    case False
    show ?thesis
      unfolding writeStackContents_def Let_def range prod.case copy
      by (simp only: False if_False, rule one_element_nests, rule one_element_object)
         (use assms in \<open>simp_all split del: if_split\<close>, simp)
  qed
qed

section \<open>Memory\<close>

text \<open>Names of instance variables that can be written.\<close>

definition ivars_named :: "'d objc_ops \<Rightarrow> bool" where
  "ivars_named ops \<longleftrightarrow> (\<forall>class n. \<forall>ivar\<in>set (objc_ivarList ops class n). name_ok True (ivar_name ivar))"

text \<open>\<open>recursion_nests\<close>: what \<open>writeMemoryContents\<close> is for its callees.\<close>

definition recursion_nests :: "('d, 'f) writer_env \<Rightarrow> (int \<Rightarrow> 'f \<Rightarrow> bytes) \<Rightarrow> 'd meaning \<Rightarrow> nat \<Rightarrow>
    'd memory_writer \<Rightarrow> bool" where
  "recursion_nests wenv contents m l recurse \<longleftrightarrow>
     (\<forall>k a limit calls limit'. recurse k a limit = Inr (calls, limit') \<longrightarrow> name_ok True k \<longrightarrow>
        nests wenv contents m True l calls)"

lemma recursion_nestsD:
  "recursion_nests wenv contents m l recurse \<Longrightarrow> recurse k a limit = Inr (calls, limit') \<Longrightarrow> name_ok True k \<Longrightarrow>
    nests wenv contents m True l calls"
  unfolding recursion_nests_def by blast

lemma ivar_nests:
  assumes "write_ivar env recurse object ivar limit = Inr (calls, limit')" "name_ok True (ivar_name ivar)"
    "recursion_nests wenv contents m l recurse"
  shows "nests wenv contents m True l calls"
  using assms(1,2) recursion_nestsD [OF assms(3)]
  by (auto simp: write_ivar_def Let_def ivar_signed_def ivar_unsigned_def bind_run_eq_Inr split: if_splits)

lemma ivars_nest:
  assumes "recursion_nests wenv contents m l recurse"
  shows "write_ivars env recurse object ivars limit = Inr (calls, limit') \<Longrightarrow>
    \<forall>ivar\<in>set ivars. name_ok True (ivar_name ivar) \<Longrightarrow> nests wenv contents m True l calls"
proof (induction ivars arbitrary: limit calls limit')
  case (Cons ivar ivars)
  obtain a lim b lim' where ab: "write_ivar env recurse object ivar limit = Inr (a, lim)"
      "write_ivars env recurse object ivars lim = Inr (b, lim')" "calls = a @ b"
    using Cons.prems(1) by (auto simp: bind_run_eq_Inr)
  have "nests wenv contents m True l a" by (rule ivar_nests [OF ab(1) _ assms]) (use Cons.prems(2) in simp)
  moreover have "nests wenv contents m True l b" using Cons.IH [OF ab(2)] Cons.prems(2) by simp
  ultimately show ?case by (simp add: ab(3) nests_append)
qed simp

lemma unknown_object_nests:
  assumes w: "writeUnknownObjectContents env recurse k a limit = Inr (calls, limit')" and "ivars_named (me_objc env)"
    and "recursion_nests wenv contents m (Suc l) recurse" "name_ok True k" "Suc l < 200"
  shows "nests wenv contents m True l calls"
proof -
  let ?obj = "me_objc env"
  obtain inner lim where inner: "calls = BeginObject k # inner @ [EndContainer]"
    "(if objc_isTaggedPointer ?obj a then
              Inr ([AddIntegerElement (Some ''tagged_payload'') (objc_taggedPointerPayload ?obj a)], limit - 1)
            else write_ivars env recurse a (objc_ivarList ?obj (objc_isaPointer ?obj a) 10)
                   (limit - 1 - int (length (objc_ivarList ?obj (objc_isaPointer ?obj a) 10)))) = Inr (inner, lim)"
    using w unfolding writeUnknownObjectContents_def Let_def bind_run_eq_Inr by auto
  have tag: "plain_key ''tagged_payload''" by (simp add: plain_key_def)
  have "nests wenv contents m True (Suc l) inner"
    using inner(2) assms(2) ivars_nest [OF assms(3)] by (auto simp: tag ivars_named_def split: if_splits)
  from one_element_container [where b = True, OF assms(4,5) this] inner(1) show ?thesis
    by (auto intro: one_element_nests)
qed

lemma string_contents_nest:
  "name_ok True k \<Longrightarrow> nests wenv contents m True l (writeNSStringContents env k a)"
  "name_ok True k \<Longrightarrow> nests wenv contents m True l (writeURLContents env k a)"
  by (auto simp: writeNSStringContents_def writeURLContents_def split: prod.splits)

lemma class_contents_nest:
  assumes "write_class_contents env recurse a limit = Inr (calls, limit')" "ivars_named (me_objc env)"
    "recursion_nests wenv contents m l recurse" "recursion_nests wenv contents m (Suc l) recurse" "Suc l < 200"
  shows "nests wenv contents m True l calls"
proof -
  have unknown: "nests wenv contents m True l calls"
    if "(if limit > 0 then writeUnknownObjectContents env recurse (Some SentryCrashField_Ivars) a limit
         else Inr ([], limit)) = Inr (calls, limit')"
    using that unknown_object_nests [OF _ assms(2,4) _ assms(5)] by (auto split: if_splits)
  have array: "nests wenv contents m True l calls"
    if "writeArrayContents env recurse (Some SentryCrashField_FirstObject) a limit = Inr (calls, limit')"
    using that recursion_nestsD [OF assms(3)]
    by (auto simp: writeArrayContents_def split: list.splits)
  show ?thesis
    using assms(1) unknown array string_contents_nest [of "Some SentryCrashField_Value"]
    by (auto simp: write_class_contents_def Let_def writeDateContents_def writeNumberContents_def
      split: objc_class_type.splits if_splits)
qed

lemma objc_object_nests:
  assumes "writeObjCObject env recurse a limit = Inr (written, calls, limit')" "ivars_named (me_objc env)"
    "recursion_nests wenv contents m l recurse" "recursion_nests wenv contents m (Suc l) recurse" "Suc l < 200"
  shows "nests wenv contents m True l calls"
  using assms(1) class_contents_nest [OF _ assms(2-5)]
  by (auto simp: writeObjCObject_def Let_def bind_run_eq_Inr split: objc_type.splits if_splits)

lemma plain_memory_nests:
  "write_plain_memory env a = Inr calls \<Longrightarrow> nests wenv contents m True l calls"
  by (auto simp: write_plain_memory_def bind_run_eq_Inr split: if_splits)

text \<open>Two levels of nesting per unit of fuel.\<close>

lemma memory_contents_element:
  assumes "writeMemoryContents fuel env k a limit = Inr (calls, limit')" "ivars_named (me_objc env)"
    "name_ok object k" "l + 2 * fuel < 199"
  shows "one_element wenv contents m object l k calls"
  using assms(1,3,4)
proof (induction fuel arbitrary: k a limit calls limit' l object)
  case (Suc fuel)
  have rec: "recursion_nests wenv contents m l' (writeMemoryContents fuel env)" if "l' \<le> Suc (Suc l)" for l'
    unfolding recursion_nests_def
    using Suc.IH [of _ _ _ _ _ True l'] Suc.prems(3) that by (auto intro!: one_element_nests)
  obtain w inner lim more where w: "writeObjCObject env (writeMemoryContents fuel env) a (limit - 1) = Inr (w, inner, lim)"
      "(if w then Inr [] else write_plain_memory env a) = Inr more"
      "calls = [BeginObject k, AddUIntegerElement (Some SentryCrashField_Address) a] @ inner @ more @ [EndContainer]"
    using Suc.prems(1) by (auto simp: Let_def bind_run_eq_Inr)
  have "nests wenv contents m True (Suc l) inner"
    by (rule objc_object_nests [OF w(1) assms(2) rec rec]) (use Suc.prems(3) in simp_all)
  moreover have "nests wenv contents m True (Suc l) more"
    using w(2) plain_memory_nests by (auto split: if_splits)
  ultimately have "nests wenv contents m True (Suc l)
      ([AddUIntegerElement (Some SentryCrashField_Address) a] @ inner @ more)"
    by (simp add: nests_append)
  from one_element_container [where b = True, OF Suc.prems(2) _ this] Suc.prems(3) w(3) show ?case by simp
qed simp

lemma if_notable_nests:
  assumes "writeMemoryContentsIfNotable env k a = Inr calls" "ivars_named (me_objc env)" "name_ok object k" "l < 167"
  shows "nests wenv contents m object l calls"
  using assms(1,4)
  by (auto simp: writeMemoryContentsIfNotable_def bind_run_eq_Inr search_fuel_def kDefaultMemorySearchDepth_def
    split: if_splits intro: one_element_nests [OF memory_contents_element [OF _ assms(2,3)]])

lemma referenced_nests:
  assumes "writeAddressReferencedByString env k s = Inr calls" "ivars_named (me_objc env)" "name_ok object k" "l < 167"
  shows "nests wenv contents m object l calls"
proof (cases "calls = []")
  case False
  then obtain a limit where "writeMemoryContents search_fuel env k a kDefaultMemorySearchDepth = Inr (calls, limit)"
    using assms(1) by (auto simp: writeAddressReferencedByString_def bind_run_eq_Inr split: option.splits)
  from one_element_nests [OF memory_contents_element [OF this assms(2,3)]] assms(4) show ?thesis
    by (simp add: search_fuel_def kDefaultMemorySearchDepth_def)
qed simp

section \<open>Threads\<close>

text \<open>What the parameters have to keep: names that can be written, and sixteen bytes of a UUID.\<close>

definition report_named :: "('c, 'd, 'v, 'w) report_env \<Rightarrow> bool" where
  "report_named env \<longleftrightarrow> cpu_named (re_cpu env) \<and> ivars_named (me_objc (re_memory env)) \<and>
     (\<forall>a. length (re_uuid_at env a) = 16)"

lemma show_hex_escapable: "escapable_string (show_hex n)"
proof (induction n rule: show_hex.induct)
  case (1 n)
  have digit: "d < 16 \<Longrightarrow> escapable (hex_char d)" for d
    by (rule all_less_nat [of "\<lambda>d. escapable (hex_char d)" 16]) (code_simp, assumption)
  with 1 show ?case by (simp add: show_hex.simps [of n])
qed

lemma stack_name_ok: "name_ok object (Some (stack_name a))"
proof -
  have "escapable_string (''stack@0x'' @ show_hex (unat a))"
    using show_hex_escapable [of "unat a"] by (simp add: escapable_def)
  then show ?thesis by (simp add: name_ok_def stack_name_def escapable_cut del: append_Cons)
qed

lemma notable_stack_nests:
  assumes "report_named env" "l < 167"
  shows "notable_stack env fuel a hi = Inr calls \<Longrightarrow> nests wenv contents m object l calls"
proof (induction fuel arbitrary: a calls)
  case (Suc fuel)
  show ?case
  proof (cases "a < hi")
    case True
    obtain copied data where c: "sentrycrashmem_copySafely (re_vm env) a 8 = (copied, data)" by fastforce
    then obtain x rest where x: "(if copied
        then writeMemoryContentsIfNotable (re_memory env) (Some (stack_name a)) (le_word (take 8 data)) else Inr []) = Inr x"
        "notable_stack env fuel (a + 8) hi = Inr rest" "calls = x @ rest"
      using Suc.prems True by (auto simp: bind_run_eq_Inr)
    have "nests wenv contents m object l x"
      using x(1) if_notable_nests [OF _ _ stack_name_ok assms(2)] assms(1)
      by (auto simp: report_named_def split: if_splits)
    with Suc.IH [OF x(2)] show ?thesis by (simp add: x(3) nests_append)
  qed (use Suc.prems in simp)
qed simp

lemma notable_registers_nest:
  assumes "writeNotableRegisters env context = Inr calls" "report_named env" "l < 167"
  shows "nests wenv contents m object l calls"
  using assms(1) unfolding writeNotableRegisters_def
proof (rule nests_in_order)
  fix a
  assume "Inr a \<in> set (map (\<lambda>reg. bind_run (op_registerName (re_cpu env) reg) (\<lambda>name.
       bind_run (op_registerValue (re_cpu env) (mcontext context) reg) (\<lambda>v.
         writeMemoryContentsIfNotable (re_memory env) (Some (register_name name reg)) v)))
       [0 .. op_numRegisters (re_cpu env) - 1])"
  then obtain reg name v where "op_registerName (re_cpu env) reg = Inr name"
      "writeMemoryContentsIfNotable (re_memory env) (Some (register_name name reg)) v = Inr a"
    by (auto simp: Inr_eq_bind_run bind_run_eq_Inr)
  with assms(2,3) show "nests wenv contents m object l a"
    by (intro if_notable_nests) (auto simp: report_named_def intro: register_name_ok)
qed

lemma notable_addresses_nest:
  assumes "writeNotableAddresses env k context = Inr calls" "report_named env" "l < 166" "name_ok object k"
  shows "one_element wenv contents m object l k calls"
proof (rule one_element_in_order [where rs = "[writeNotableRegisters env context,
    writeNotableStackContents env context kStackNotableSearchBackDistance kStackNotableSearchForwardDistance]"])
  show "in_order ([Inr [BeginObject k]] @ [writeNotableRegisters env context,
      writeNotableStackContents env context kStackNotableSearchBackDistance kStackNotableSearchForwardDistance] @
      [Inr [EndContainer]]) = Inr calls"
    using assms(1) by (simp add: writeNotableAddresses_def)
  fix a
  assume "Inr a \<in> set [writeNotableRegisters env context,
    writeNotableStackContents env context kStackNotableSearchBackDistance kStackNotableSearchForwardDistance]"
  then consider "writeNotableRegisters env context = Inr a"
    | "writeNotableStackContents env context kStackNotableSearchBackDistance kStackNotableSearchForwardDistance = Inr a"
    by auto
  then show "nests wenv contents m True (Suc l) a"
  proof cases
    case 1
    then show ?thesis by (rule notable_registers_nest [OF _ assms(2)]) (use assms(3) in simp)
  next
    case 2
    then show ?thesis
      using assms(3)
      by (auto simp: writeNotableStackContents_def Let_def simp del: notable_stack.simps
        split: if_splits prod.splits intro!: notable_stack_nests [OF assms(2)])
  qed
qed (use assms in simp_all)

lemma thread_element:
  fixes calls :: "'d writer_call list"
  assumes "writeThread env k crash context i notable = Inr calls" "report_named env" "l < 100" "name_ok object k"
  shows "one_element wenv contents m object l k calls"
proof -
  let ?thread = "sentrycrashmc_getThreadFromContext context" and ?crashed = "sentrycrashmc_isCrashedContext context"
  obtain cursor0 bt cursor where b: "writeBacktrace env (Some SentryCrashField_Backtrace) cursor0 = Inr (bt, cursor)"
    and w: "in_order ([Inr [BeginObject k]] @
             [Inr bt,
              (if sentrycrashmc_canHaveCPUState context
               then writeRegisters (re_cpu env) (Some SentryCrashField_Registers) context else Inr []),
              Inr [AddIntegerElement (Some SentryCrashField_Index) (word_of_int i)],
              bind_run (sentrycrashccd_getThreadName (re_cached env) ?thread)
                (\<lambda>name. Inr (add_if_there SentryCrashField_Name name)),
              bind_run (sentrycrashccd_getQueueName (re_cached env) ?thread)
                (\<lambda>name. Inr (add_if_there SentryCrashField_DispatchQueue name)),
              Inr [AddBooleanElement (Some SentryCrashField_Crashed) ?crashed,
                   AddBooleanElement (Some SentryCrashField_CurrentThread)
                     (?thread = sentrycrashthread_self (re_machine env))],
              (if ?crashed
               then Inr (writeStackContents env (Some SentryCrashField_Stack) context (hasGivenUp cursor))
               else Inr []),
              (if ?crashed \<and> notable
               then writeNotableAddresses env (Some SentryCrashField_NotableAddresses) context
               else Inr [])] @ [Inr [EndContainer]]) = Inr calls" (is "in_order (_ @ ?rs @ _) = _")
    using assms(1) unfolding writeThread_def Let_def bind_run_eq_Inr by auto
  from w show ?thesis
  proof (rule one_element_in_order)
    fix a :: "'d writer_call list"
    assume "Inr a \<in> set ?rs"
    then consider "a = bt" | "writeRegisters (re_cpu env) (Some SentryCrashField_Registers) context = Inr a"
      | "writeNotableAddresses env (Some SentryCrashField_NotableAddresses) context = Inr a"
      | "a = writeStackContents env (Some SentryCrashField_Stack) context (hasGivenUp cursor)"
      | name where "a = add_if_there SentryCrashField_Name name"
      | name where "a = add_if_there SentryCrashField_DispatchQueue name"
      | "a = [AddIntegerElement (Some SentryCrashField_Index) (word_of_int i)]" | "a = []"
      | "a = [AddBooleanElement (Some SentryCrashField_Crashed) ?crashed,
                   AddBooleanElement (Some SentryCrashField_CurrentThread)
                     (?thread = sentrycrashthread_self (re_machine env))]"
      by (auto simp: Inr_eq_bind_run split: if_splits)
    then show "nests wenv contents m True (Suc l) a"
    proof cases
      case 1
      with b show ?thesis
        by (auto intro!: one_element_nests [OF backtrace_element]) (use assms(3) in simp)
    next
      case 2
      with assms(2,3) show ?thesis
        by (auto simp: report_named_def intro!: one_element_nests [OF registers_element])
    next
      case 3
      with assms(2,3) show ?thesis by (auto intro!: one_element_nests [OF notable_addresses_nest])
    next
      case 4
      with assms(3) show ?thesis by (auto intro!: stack_contents_nest)
    qed simp_all
  qed (use assms in simp_all)
qed

lemma all_threads_nest:
  fixes calls :: "'d writer_call list"
  assumes "writeAllThreads env k crash notable = Inr calls" "report_named env" "l < 99" "name_ok object k"
    "offendingMachineContext crash = Some context"
  shows "one_element wenv contents m object l k calls"
proof -
  have split: "in_order (rs @ [Inr [EndContainer]]) = bind_run (in_order rs) (\<lambda>a. Inr (a @ [EndContainer]))"
    for rs :: "'d writer_call list run list"
    by (induction rs) (auto simp: bind_run_assoc)
  obtain inner where inner: "calls = BeginArray k # inner @ [EndContainer]"
      "in_order (map (write_thread_at env crash context notable) [0 ..< nat (sentrycrashmc_getThreadCount context)]) =
         Inr inner"
    using assms(1,5) by (auto simp: writeAllThreads_def split bind_run_eq_Inr)
  have "nests wenv contents m False (Suc l) inner"
  proof (rule nests_in_order [OF inner(2)])
    fix a
    assume "Inr a \<in> set (map (write_thread_at env crash context notable) [0 ..< nat (sentrycrashmc_getThreadCount context)])"
    then obtain i where "write_thread_at env crash context notable i = Inr a" by auto
    then obtain context' where "writeThread env None crash context' (int i) notable = Inr a"
      by (auto simp: write_thread_at_def bind_run_eq_Inr split: if_splits prod.splits)
    then show "nests wenv contents m False (Suc l) a"
      by (rule one_element_nests [OF thread_element [OF _ assms(2)]]) (use assms(3) in simp_all)
  qed
  from one_element_container [where b = False, OF assms(4) _ this] inner(1) assms(3) show ?thesis by simp
qed

section \<open>Images, memory and the error\<close>

lemma uuid_nests [simp]:
  "name_ok object k \<Longrightarrow> \<forall>src. u = Some src \<longrightarrow> length src = 16 \<Longrightarrow> nests wenv contents m object l calls \<Longrightarrow>
    nests wenv contents m object l (AddUUIDElement k u # calls)"
  by (cases u) (auto intro: nests_scalar [where v = JNull] nests_scalar [where v = "JString x" for x])

lemma at_pointer_Some [simp]: "at_pointer f a = Some x \<longleftrightarrow> a \<noteq> 0 \<and> x = f a"
  by (auto simp: at_pointer_def)

lemma binary_image_element:
  assumes "report_named env" "Suc l < 200"
  shows "one_element wenv contents m False l None (writeBinaryImage env None img)"
  by (rule one_element_object)
     (use assms in \<open>simp_all add: writeBinaryImage_def butlast_append nests_append report_named_def\<close>)

lemma binary_images_element:
  assumes "writeBinaryImages env k = Inr calls" "report_named env" "name_ok object k" "Suc (Suc l) < 200"
  shows "one_element wenv contents m object l k calls"
proof -
  obtain imgs where "calls = [BeginArray k] @ concat (map (writeBinaryImage env None) imgs) @ [EndContainer]"
    using assms(1) by (auto simp: writeBinaryImages_def bind_run_eq_Inr)
  moreover have "nests wenv contents m False (Suc l) (concat (map (writeBinaryImage env None) imgs))"
    by (rule nests_concat) (use assms(2,4) in \<open>auto intro: one_element_nests [OF binary_image_element]\<close>)
  ultimately show ?thesis
    by (intro one_element_container [where b = False, OF assms(3)]) (use assms(4) in simp_all)
qed

lemma memory_info_element:
  "name_ok object k \<Longrightarrow> Suc l < 200 \<Longrightarrow> one_element wenv contents m object l k (writeMemoryInfo k crash)"
  by (rule one_element_object) (simp_all add: writeMemoryInfo_def)

lemma app_stats_element:
  "name_ok object k \<Longrightarrow> Suc l < 200 \<Longrightarrow> one_element wenv contents m object l k (writeAppStats k crash)"
  by (rule one_element_object) (simp_all add: writeAppStats_def Let_def)

lemma mach_error_element:
  "Suc l < 200 \<Longrightarrow> one_element wenv contents m object l (Some SentryCrashField_Mach) (write_mach_error env crash)"
  by (rule one_element_object) (simp_all add: write_mach_error_def butlast_append nests_append)

lemma signal_error_element:
  "Suc l < 200 \<Longrightarrow> one_element wenv contents m object l (Some SentryCrashField_Signal) (write_signal_error crash)"
  by (rule one_element_object) (simp_all add: write_signal_error_def butlast_append nests_append)

lemma specific_error_nests:
  assumes "Suc l < 200"
  shows "nests wenv contents m True l (write_specific_error crash)"
proof -
  have cpp: "nests wenv contents m True l
     [BeginObject (Some SentryCrashField_CPPException),
         AddStringElement (Some SentryCrashField_Name) (CPPException_name crash), EndContainer]"
    by (rule one_element_nests [where k = "Some SentryCrashField_CPPException"], rule one_element_object)
       (use assms in simp_all)
  have ns: "nests wenv contents m True l
     ([BeginObject (Some SentryCrashField_NSException),
         AddStringElement (Some SentryCrashField_Name) (NSException_name crash),
         AddStringElement (Some SentryCrashField_UserInfo) (NSException_userInfo crash)] @
        add_if_there SentryCrashField_Reason (crashReason crash) @ [EndContainer])"
    by (rule one_element_nests [where k = "Some SentryCrashField_NSException"], rule one_element_object)
       (use assms in \<open>simp_all add: butlast_append\<close>)
  show ?thesis using cpp ns by (simp add: write_specific_error_def)
qed

lemma error_element:
  assumes "name_ok object k" "Suc (Suc l) < 200"
  shows "one_element wenv contents m object l k (writeError env k crash)"
  by (rule one_element_object)
     (use assms in \<open>simp_all add: writeError_def butlast_append nests_append specific_error_nests
        one_element_nests [OF mach_error_element] one_element_nests [OF signal_error_element]\<close>)

section \<open>The system, the scope and the rest\<close>

lemma system_info_element:
  assumes "name_ok object k" "Suc (Suc l) < 200"
  shows "one_element wenv contents m object l k (writeSystemInfo k crash)"
  by (rule one_element_object)
     (use assms in \<open>simp_all add: writeSystemInfo_def Let_def butlast_append nests_append
        one_element_nests [OF memory_info_element] one_element_nests [OF app_stats_element]\<close>)

lemma report_info_element:
  "name_ok object k \<Longrightarrow> Suc l < 200 \<Longrightarrow> one_element wenv contents m object l k (writeReportInfo env k type i p)"
  by (rule one_element_object) (simp_all add: writeReportInfo_def)

lemma process_state_element:
  fixes calls :: "'d writer_call list"
  assumes "writeProcessState env k crash = Inr calls" "report_named env" "name_ok object k" "l < 100"
  shows "one_element wenv contents m object l k calls"
proof -
  obtain inner where inner: "calls = BeginObject k # inner @ [EndContainer]"
    "inner = [] \<or> (\<exists>x. writeAddressReferencedByString (re_memory env) (Some SentryCrashField_ReferencedObject)
        (ZombieException_reason crash) = Inr x \<and>
      inner = BeginObject (Some SentryCrashField_LastDeallocedNSException) #
        ([AddUIntegerElement (Some SentryCrashField_Address) (ZombieException_address crash),
          AddStringElement (Some SentryCrashField_Name) (ZombieException_name crash),
          AddStringElement (Some SentryCrashField_Reason) (ZombieException_reason crash)] @ x) @ [EndContainer])"
    using assms(1) by (auto simp: writeProcessState_def bind_run_eq_Inr split: if_splits)
  have ref: "nests wenv contents m True (Suc (Suc l)) x"
    if "writeAddressReferencedByString (re_memory env) (Some SentryCrashField_ReferencedObject)
        (ZombieException_reason crash) = Inr x" for x
    by (rule referenced_nests [OF that]) (use assms(2,4) in \<open>simp_all add: report_named_def\<close>)
  have "nests wenv contents m True (Suc l) inner"
    using inner(2)
  proof (elim disjE exE conjE)
    fix x
    assume x: "writeAddressReferencedByString (re_memory env) (Some SentryCrashField_ReferencedObject)
        (ZombieException_reason crash) = Inr x"
      and i: "inner = BeginObject (Some SentryCrashField_LastDeallocedNSException) #
        ([AddUIntegerElement (Some SentryCrashField_Address) (ZombieException_address crash),
          AddStringElement (Some SentryCrashField_Name) (ZombieException_name crash),
          AddStringElement (Some SentryCrashField_Reason) (ZombieException_reason crash)] @ x) @ [EndContainer]"
    show ?thesis
      unfolding i
      by (rule one_element_nests [where k = "Some SentryCrashField_LastDeallocedNSException"],
          rule one_element_container [where b = True]) (use assms(4) ref [OF x] in simp_all)
  qed simp
  from one_element_container [where b = True, OF assms(3) _ this] inner(1) assms(4) show ?thesis by simp
qed

text \<open>The texts of JSON in a scope and in the user information: each stands for a value the encoder takes.\<close>

definition json_ready :: "('d, 'f) writer_env \<Rightarrow> 'd meaning \<Rightarrow> nat \<Rightarrow> bytes \<Rightarrow> bool" where
  "json_ready wenv m l j \<longleftrightarrow>
     holds_json (wr_fp wenv) (c_string j @ [NUL]) (strlen j) (json_value m j) \<and> encodable l (json_value m j)"

definition scope_texts :: "crash_scope \<Rightarrow> bytes list" where
  "scope_texts scope =
     concat (map (\<lambda>t. case t of None \<Rightarrow> [] | Some j \<Rightarrow> [j])
       [user scope, dist scope, scope_context scope, traceContext scope, environment scope, tags scope,
        extras scope, fingerprint scope, level scope])"

lemma json_nests:
  assumes "json_ready wenv m l j" "name_ok object k" "2 \<le> l"
  shows "nests wenv contents m object l [AddJSONElement k j False]"
  unfolding nests_def
proof (rule exI)
  show "denotes wenv contents m object l [AddJSONElement k j False] [(member_name object k, json_value m j)]"
    using assms by (auto simp: denotes_def json_ready_def meant_def json_step_def)
qed

lemma json_if_there_nests:
  assumes "\<And>j. t = Some j \<Longrightarrow> json_ready wenv m l j" "plain_key k" "2 \<le> l"
  shows "nests wenv contents m object l (add_json_if_there k t)"
  using assms json_nests [of wenv m l _ object "Some k" contents] by (auto simp: add_json_if_there_def split: option.split)

lemma scope_element:
  assumes w: "writeScopeJson scope = Inr calls" and "crumbs_in_order scope = Inr crumbs"
    and "\<forall>j\<in>set (scope_texts scope). json_ready wenv m (Suc l) j"
    and "\<forall>j\<in>set crumbs. json_ready wenv m (Suc (Suc l)) j" and l: "1 \<le> l" "l < 190"
  shows "one_element wenv contents m True l (Some SentryCrashField_Scope) calls"
proof -
  have keys: "plain_key ''user''" "plain_key ''dist''" "plain_key ''context''" "plain_key ''traceContext''"
    "plain_key ''environment''" "plain_key ''tags''" "plain_key ''extra''" "plain_key ''fingerprint''"
    "plain_key ''level''" "plain_key ''breadcrumbs''"
    by (simp_all add: plain_key_def)
  have texts: "nests wenv contents m True (Suc l) (add_json_if_there k t)"
    if "plain_key k" "t \<in> {user scope, dist scope, scope_context scope, traceContext scope, environment scope,
      tags scope, extras scope, fingerprint scope, level scope}" for k t
    using that assms(3) l by (intro json_if_there_nests) (auto simp: scope_texts_def)
  have "nests wenv contents m False (Suc (Suc l)) (map (\<lambda>crumb. AddJSONElement (Some ''crumb'') crumb False) crumbs)"
  proof -
    have "nests wenv contents m False (Suc (Suc l)) (concat (map (\<lambda>crumb. [AddJSONElement (Some ''crumb'') crumb False]) crumbs))"
      by (rule nests_concat) (use assms(4) l in \<open>auto intro!: json_nests\<close>)
    then show ?thesis by (simp add: concat_map_singleton)
  qed
  then have crumbs: "nests wenv contents m True (Suc l) ([BeginArray (Some ''breadcrumbs'')] @
      map (\<lambda>crumb. AddJSONElement (Some ''crumb'') crumb False) crumbs @ [EndContainer])"
    by (rule one_element_nests [OF one_element_container [where b = False and k = "Some ''breadcrumbs''"], rotated 2])
       (use l in \<open>simp_all add: keys\<close>)
  have inner: "nests wenv contents m True (Suc l)
      (add_json_if_there ''user'' (user scope) @ add_json_if_there ''dist'' (dist scope) @
       add_json_if_there ''context'' (scope_context scope) @ add_json_if_there ''traceContext'' (traceContext scope) @
       add_json_if_there ''environment'' (environment scope) @ add_json_if_there ''tags'' (tags scope) @
       add_json_if_there ''extra'' (extras scope) @ add_json_if_there ''fingerprint'' (fingerprint scope) @
       add_json_if_there ''level'' (level scope) @
       (if crumbs = [] then []
        else [BeginArray (Some ''breadcrumbs'')] @ map (\<lambda>crumb. AddJSONElement (Some ''crumb'') crumb False) crumbs @
               [EndContainer]))"
    by (intro nests_append texts nests_if crumbs keys nests_Nil) simp_all
  show ?thesis
    by (rule one_element_container [where b = True, OF _ _ inner])
       (use w assms(2) l in \<open>simp_all add: writeScopeJson_def\<close>)
qed

end
