(* ===== verification/Report_Spec.thy ===== *)
theory Report_Spec
  imports Report_Nesting Report_Fixer_Spec Machine_Context_Spec Json_Props
begin

text \<open>
  The standard report of \<open>SentryCrashReport.c\<close> as a whole: the calls that write it, the members it has,
  and the text that the report file holds when they have run.
\<close>

section \<open>The whole report\<close>

text \<open>All calls of a standard report, in their order.\<close>

definition standard_runs :: "('c, 'd, 'v, 'w) report_env \<Rightarrow> ('c, 'd) monitor_context \<Rightarrow>
    'd writer_call list run list" where
  "standard_runs env crash =
     [Inr [BeginObject (Some SentryCrashField_Report)],
      Inr (writeReportInfo env (Some SentryCrashField_Report) SentryCrashReportType_Standard
        (eventID crash) (processName (System crash))),
      writeBinaryImages env (Some SentryCrashField_BinaryImages),
      writeProcessState env (Some SentryCrashField_ProcessState) crash,
      Inr (writeSystemInfo (Some SentryCrashField_System) crash),
      Inr [BeginObject (Some SentryCrashField_Crash)],
      Inr (writeError env (Some SentryCrashField_Error) crash),
      writeAllThreads env (Some SentryCrashField_Threads) crash (introspection_enabled (me_rules (re_memory env))),
      Inr [EndContainer],
      writeScopeJson (re_scope env),
      Inr (user_calls (g_userInfoJSON env)),
      Inr [EndContainer],
      Inr (writeDebugInfo env (Some SentryCrashField_Debug)),
      Inr [EndContainer]]"

definition standard_calls :: "('c, 'd, 'v, 'w) report_env \<Rightarrow> ('c, 'd) monitor_context \<Rightarrow>
    'd writer_call list run" where
  "standard_calls env crash = in_order (standard_runs env crash)"

text \<open>Flushing writes nothing new, so parts are written like calls.\<close>

lemma flush_puts:
  assumes "reliable os contents"
  shows "puts os contents fd (flush_report os) sh [] sh"
  unfolding puts_def
proof (intro allI impI)
  fix c :: "'a report_context"
  assume c: "has_shape (report_addJSONData os) sh c" "writes_to fd (userData c)"
  then obtain s where "sentrycrashfu_flushBufferedWriter os (userData c) = Inr (True, s)" "wf_writer s"
      "w_fd (fst s) = fd" "written_stream contents s = written_stream contents (userData c)"
    using flush_reliable [OF assms, of "userData c"] by (auto simp: writes_to_def)
  with c show "\<exists>c'. flush_report os c = Inr c' \<and> has_shape (report_addJSONData os) sh c' \<and>
      writes_to fd (userData c') \<and> written_stream contents (userData c') = written_stream contents (userData c) @ []"
    by (simp add: flush_report_def writes_to_def)
qed

definition writes_run :: "('d, 'f) writer_env \<Rightarrow> ('f report_context \<Rightarrow> 'f report_context run) \<Rightarrow>
    'd writer_call list run \<Rightarrow> bool" where
  "writes_run wenv f r \<longleftrightarrow> f = write_calls wenv r \<or> f = write_part wenv r"

lemma parts_put:
  assumes r: "reliable (wr_os wenv) contents"
  shows "list_all2 (writes_run wenv) fs rs \<Longrightarrow> in_order rs = Inr calls \<Longrightarrow>
    \<forall>call\<in>set calls. meant wenv contents m call \<Longrightarrow> interpret_calls m calls st = Some st' \<Longrightarrow> wf_frames st \<Longrightarrow>
    step_puts wenv contents fd (run_all fs) st st'"
proof (induction fs rs arbitrary: calls st rule: list_all2_induct)
  case Nil
  then show ?case by (auto intro!: step_puts_refl puts_cong [OF puts_nothing])
next
  case (Cons f fs x rs)
  obtain a b where ab: "x = Inr a" "in_order rs = Inr b" "calls = a @ b"
    using Cons.prems(1) by (auto simp: bind_run_eq_Inr)
  obtain st1 where st1: "interpret_calls m a st = Some st1" "interpret_calls m b st1 = Some st'"
    using Cons.prems(3) by (auto simp: ab(3) interpret_append split: option.splits)
  have calls: "step_puts wenv contents fd (perform_calls wenv a) st st1"
    by (rule interpret_calls_puts [OF r _ st1(1) Cons.prems(4)]) (use Cons.prems(2) ab(3) in auto)
  then have wf1: "wf_frames st1" by (simp add: step_puts_def)
  have f: "step_puts wenv contents fd f st st1"
  proof (cases "f = write_calls wenv x")
    case True
    then have "f = perform_calls wenv a" by (intro ext) (simp add: write_calls_def ab(1))
    with calls show ?thesis by simp
  next
    case False
    then have "f = write_part wenv x" using Cons.hyps(1) by (simp add: writes_run_def)
    then have "f = (\<lambda>c. bind_run (perform_calls wenv a c) (flush_report (wr_os wenv)))"
      by (intro ext) (simp add: write_part_def write_calls_def ab(1))
    with step_puts_seq [OF calls step_puts_refl [OF wf1 flush_puts [OF r]] Cons.prems(4)] show ?thesis by simp
  qed
  have rest: "step_puts wenv contents fd (run_all fs) st1 st'"
    by (rule Cons.IH [OF ab(2) _ st1(2) wf1]) (use Cons.prems(2) ab(3) in auto)
  from step_puts_seq [OF f rest Cons.prems(4)] show ?case by simp
qed

lemma standard_parts_runs: "list_all2 (writes_run wenv) (standard_parts wenv env crash) (standard_runs env crash)"
  by (auto simp: standard_parts_def standard_runs_def writes_run_def split: option.split)

text \<open>
  What a report needs of the texts it is given: those of the scope stand for values, the user
  information for an object or an array, and the log file cannot be opened.
\<close>

definition texts_ready :: "('d, 'f) writer_env \<Rightarrow> (int \<Rightarrow> 'f \<Rightarrow> bytes) \<Rightarrow> 'd meaning \<Rightarrow>
    ('c, 'd, 'v, 'w) report_env \<Rightarrow> bool" where
  "texts_ready wenv contents m env \<longleftrightarrow>
     (\<forall>j\<in>set (scope_texts (re_scope env)). json_ready wenv m 2 j) \<and>
     (\<forall>crumbs. crumbs_in_order (re_scope env) = Inr crumbs \<longrightarrow> (\<forall>j\<in>set crumbs. json_ready wenv m 3 j)) \<and>
     (\<forall>j. g_userInfoJSON env = Some j \<longrightarrow> json_ready wenv m 1 j \<and>
        (\<exists>b es. json_value m j = frame_value b es)) \<and>
     no_file m (g_logFilename env) \<and>
     meant wenv contents m (AddTextFileLinesElement None (g_logFilename env))"

lemma threads_nest:
  assumes "writeAllThreads env (Some k) crash notable = Inr calls" "report_named env" "l < 99" "plain_key k"
  shows "nests wenv contents m object l calls"
proof (cases "offendingMachineContext crash")
  case None
  with assms(1) show ?thesis by (simp add: writeAllThreads_def)
next
  case (Some c)
  show ?thesis
    by (rule one_element_nests [OF all_threads_nest [OF assms(1,2) _ _ Some]]) (use assms(3,4) in simp_all)
qed

lemma user_element:
  assumes "texts_ready wenv contents m env"
  shows "one_element wenv contents m True 1 (Some SentryCrashField_User) (user_calls (g_userInfoJSON env) @ [EndContainer])"
proof (cases "g_userInfoJSON env")
  case None
  then show ?thesis by (intro one_element_object) (simp_all add: user_calls_def)
next
  case (Some j)
  then obtain b es where j: "json_ready wenv m 1 j" "json_value m j = frame_value b es"
    using assms by (auto simp: texts_ready_def)
  have "denotes wenv contents m True 1 [AddJSONElement (Some SentryCrashField_User) j False, EndContainer]
      [(member_name True (Some SentryCrashField_User), json_value m j)]"
    using j by (cases b) (auto simp: denotes_def json_ready_def meant_def json_step_def frame_value_def comp_def)
  with Some show ?thesis by (auto simp: one_element_def user_calls_def)
qed

lemma debug_element:
  assumes "texts_ready wenv contents m env"
  shows "one_element wenv contents m True 1 (Some SentryCrashField_Debug) (writeDebugInfo env (Some SentryCrashField_Debug))"
proof -
  have "denotes wenv contents m True 2
      [AddTextFileLinesElement (Some SentryCrashField_ConsoleLog) (g_logFilename env)] []"
    using assms by (simp add: denotes_def texts_ready_def meant_def)
  then have "nests wenv contents m True (Suc 1)
      [AddTextFileLinesElement (Some SentryCrashField_ConsoleLog) (g_logFilename env)]"
    by (auto simp: nests_def numeral_2_eq_2)
  from one_element_container [where b = True, OF _ _ this] show ?thesis by (simp add: writeDebugInfo_def)
qed

definition report_members :: "bytes list" where
  "report_members = [SentryCrashField_Report, SentryCrashField_BinaryImages, SentryCrashField_ProcessState,
     SentryCrashField_System, SentryCrashField_Crash, SentryCrashField_Scope, SentryCrashField_User,
     SentryCrashField_Debug]"

lemma standard_calls_denote:
  assumes calls: "standard_calls env crash = Inr calls" and named: "report_named env"
    and texts: "texts_ready wenv contents m env"
  shows "\<exists>ms. denotes wenv contents m False 0 calls [([], JObject ms)] \<and> map fst ms = report_members"
proof -
  obtain images process threads scope where parts:
      "writeBinaryImages env (Some SentryCrashField_BinaryImages) = Inr images"
      "writeProcessState env (Some SentryCrashField_ProcessState) crash = Inr process"
      "writeAllThreads env (Some SentryCrashField_Threads) crash (introspection_enabled (me_rules (re_memory env))) =
         Inr threads"
      "writeScopeJson (re_scope env) = Inr scope"
    and whole: "calls = BeginObject (Some SentryCrashField_Report) #
       (writeReportInfo env (Some SentryCrashField_Report) SentryCrashReportType_Standard
          (eventID crash) (processName (System crash)) @ images @ process @
        writeSystemInfo (Some SentryCrashField_System) crash @
        (BeginObject (Some SentryCrashField_Crash) #
           (writeError env (Some SentryCrashField_Error) crash @ threads) @ [EndContainer]) @
        scope @ (user_calls (g_userInfoJSON env) @ [EndContainer]) @
        writeDebugInfo env (Some SentryCrashField_Debug)) @ [EndContainer]"
    using calls by (auto simp: standard_calls_def standard_runs_def bind_run_eq_Inr)
  let ?one = "one_element wenv contents m True 1"
  have info: "?one (Some SentryCrashField_Report) (writeReportInfo env (Some SentryCrashField_Report)
      SentryCrashReportType_Standard (eventID crash) (processName (System crash)))"
    by (rule report_info_element) simp_all
  have images: "?one (Some SentryCrashField_BinaryImages) images"
    by (rule binary_images_element [OF parts(1) named]) simp_all
  have process: "?one (Some SentryCrashField_ProcessState) process"
    by (rule process_state_element [OF parts(2) named]) simp_all
  have system: "?one (Some SentryCrashField_System) (writeSystemInfo (Some SentryCrashField_System) crash)"
    by (rule system_info_element) simp_all
  have "nests wenv contents m True 2 (writeError env (Some SentryCrashField_Error) crash @ threads)"
    by (intro nests_append one_element_nests [OF error_element] threads_nest [OF parts(3) named]) simp_all
  then have crash: "?one (Some SentryCrashField_Crash) (BeginObject (Some SentryCrashField_Crash) #
      (writeError env (Some SentryCrashField_Error) crash @ threads) @ [EndContainer])"
    by (intro one_element_container [where b = True]) (simp_all add: numeral_2_eq_2)
  obtain crumbs where crumbs: "crumbs_in_order (re_scope env) = Inr crumbs"
    using parts(4) by (auto simp: writeScopeJson_def bind_run_eq_Inr)
  have scope: "?one (Some SentryCrashField_Scope) scope"
    by (rule scope_element [OF parts(4) crumbs])
       (use texts crumbs in \<open>auto simp: texts_ready_def numeral_2_eq_2 numeral_3_eq_3\<close>)
  have keys: "member_name True (Some k) = k" if "plain_key k" for k
    using that by (simp add: member_name_def plain_key_c_string)
  from info images process system crash scope user_element [OF texts] debug_element [OF texts]
  obtain v1 v2 v3 v4 v5 v6 v7 v8 where "denotes wenv contents m True 1
      (writeReportInfo env (Some SentryCrashField_Report) SentryCrashReportType_Standard
          (eventID crash) (processName (System crash)) @ images @ process @
        writeSystemInfo (Some SentryCrashField_System) crash @
        (BeginObject (Some SentryCrashField_Crash) #
           (writeError env (Some SentryCrashField_Error) crash @ threads) @ [EndContainer]) @
        scope @ (user_calls (g_userInfoJSON env) @ [EndContainer]) @
        writeDebugInfo env (Some SentryCrashField_Debug))
      ([(SentryCrashField_Report, v1)] @ [(SentryCrashField_BinaryImages, v2)] @
       [(SentryCrashField_ProcessState, v3)] @ [(SentryCrashField_System, v4)] @ [(SentryCrashField_Crash, v5)] @
       [(SentryCrashField_Scope, v6)] @ [(SentryCrashField_User, v7)] @ [(SentryCrashField_Debug, v8)])"
    unfolding one_element_def by (simp only: keys report_keys) (blast intro: denotes_append)
  from denotes_container [where object = False and l = 0 and b = True and k = "Some SentryCrashField_Report",
      OF this [unfolded One_nat_def] _ _ refl] whole
  show ?thesis by (auto simp: member_name_def frame_value_def report_members_def)
qed


section \<open>The text of the file\<close>

text \<open>A file descriptor that is closed keeps what was written to it.\<close>

definition close_keeps :: "'f os \<Rightarrow> (int \<Rightarrow> 'f \<Rightarrow> bytes) \<Rightarrow> bool" where
  "close_keeps os contents \<longleftrightarrow> (\<forall>fd fd' w. contents fd (os_close os fd' w) = contents fd w)"

definition fresh_writer :: "int \<Rightarrow> buffered_writer" where
  "fresh_writer fd = \<lparr>w_buffer = replicate 1024 NUL, w_position = 0, w_fd = fd\<rparr>"

definition fresh_encoder :: "'f os \<Rightarrow> int \<Rightarrow> 'f \<Rightarrow> 'f report_context" where
  "fresh_encoder os fd w = sentrycrashjson_beginEncode True (report_addJSONData os) (fresh_writer fd, w)"

lemma step_puts_value:
  assumes "step_puts wenv contents fd f no_frames [(False, None, [(n, v)])]" "0 < fd"
  obtains c where "f (fresh_encoder (wr_os wenv) fd w) = Inr c" "writes_to fd (userData c)"
    "written_stream contents (userData c) = contents fd w @ render (wr_fp wenv) True 0 v"
    "has_shape (report_addJSONData (wr_os wenv)) (frames_shape [(False, None, [(n, v)])]) c"
proof -
  let ?st = "[(False, None, [(n, v)])]"
  have rendered: "events_text (wr_fp wenv) start_shape (events (element_name False n) v) =
      render (wr_fp wenv) True 0 v"
    using events_render(1) [of start_shape True 0 "wr_fp wenv" None v]
    by (simp add: start_shape_def begin_text_def name_text_def element_name_def)
  have shape: "has_shape (report_addJSONData (wr_os wenv)) start_shape (fresh_encoder (wr_os wenv) fd w)"
    unfolding start_shape_def fresh_encoder_def by (rule has_shape_beginEncode)
  have u: "userData (fresh_encoder (wr_os wenv) fd w) = (fresh_writer fd, w)"
    by (simp add: fresh_encoder_def sentrycrashjson_beginEncode_def)
  have writes: "writes_to fd (userData (fresh_encoder (wr_os wenv) fd w))"
    using assms(2) by (simp add: u writes_to_def wf_writer_def fresh_writer_def)
  from assms(1) have p: "puts (wr_os wenv) contents fd f start_shape (render (wr_fp wenv) True 0 v) (frames_shape ?st)"
    by (auto simp: step_puts_def frames_shape_start rendered)
  show thesis
    by (rule putsE [OF p shape writes], rule that) (simp_all add: u written_stream_def fresh_writer_def)
qed

text \<open>The end: the encoder has nothing to close, the writer writes what is in its buffer.\<close>

lemma finish_writes:
  assumes r: "reliable os contents" and k: "close_keeps os contents"
    and c: "writes_to fd (userData c)" "has_shape (report_addJSONData os) (frames_shape [(False, None, es)]) c"
  shows "\<exists>w'. finish_report os cached c = Inr (sentrycrashccd_unfreeze cached, w') \<and>
    contents fd w' = written_stream contents (userData c)"
proof -
  have e: "quiet sentrycrashjson_endEncode c = Inr c"
    using endEncode_outside [OF c(2)] by (simp add: quiet_def)
  obtain wr w where u: "userData c = (wr, w)" by fastforce
  obtain s where s: "sentrycrashfu_flushBufferedWriter os (wr, w) = Inr (True, s)" "w_fd (fst s) = w_fd wr"
      "w_position (fst s) = 0" "written_stream contents s = written_stream contents (wr, w)"
    using flush_reliable [OF r, of "userData c"] c(1) by (auto simp: writes_to_def u)
  with c(1) k e show ?thesis
    by (cases s) (auto simp: finish_report_def u writes_to_def wf_writer_def sentrycrashfu_closeBufferedWriter_def
      close_keeps_def written_stream_def)
qed


section \<open>The properties\<close>

text \<open>
  C8. Whatever sequence of calls of the report writer nests as calls should, on a kernel whose writes do
  not fail the file gets exactly the text of the value that the calls describe, in its buffer or on disk:
  strings are cut where they cannot be escaped, and the text is well-formed whatever they hold.
\<close>

theorem calls_write_value:
  assumes "reliable (wr_os wenv) contents" "\<forall>call\<in>set calls. meant wenv contents m call"
    and "interpret_calls m calls no_frames = Some [(False, None, [(n, v)])]" "0 < fd"
  shows "\<exists>c. perform_calls wenv calls (fresh_encoder (wr_os wenv) fd w) = Inr c \<and>
    written_stream contents (userData c) = contents fd w @ render (wr_fp wenv) True 0 v"
proof -
  have "wf_frames no_frames" by (simp add: no_frames_def)
  from interpret_calls_puts [OF assms(1,2,3) this, of fd] show ?thesis
    using assms(4) by (rule step_puts_value) blast
qed

lemma standard_report_runs:
  fixes wenv :: "('d, 'f) writer_env"
  assumes "reliable (wr_os wenv) contents" "close_keeps (wr_os wenv) contents"
    and "os_open_new (wr_os wenv) path w = (fd, w0)" "0 < fd"
    and "standard_calls (env\<lparr>re_cached := snd (sentrycrashccd_freeze (re_cached env))\<rparr>) crash = Inr calls"
    and "report_named env" "texts_ready wenv contents m env"
  shows "\<exists>members cached w'.
    sentrycrashreport_writeStandardReport wenv env crash path w = Inr (cached, w') \<and>
    contents fd w' = contents fd w0 @ render (wr_fp wenv) True 0 (JObject members) \<and>
    map fst members = report_members \<and>
    (0 \<le> g_semaphoreCount (re_cached env) \<longrightarrow> cached = re_cached env)"
proof -
  define frozen where "frozen = snd (sentrycrashccd_freeze (re_cached env))"
  let ?env = "env\<lparr>re_cached := frozen\<rparr>"
  have calls: "standard_calls ?env crash = Inr calls" using assms(5) by (simp add: frozen_def)
  have env: "report_named ?env" "texts_ready wenv contents m ?env"
    using assms(6,7) by (simp_all add: report_named_def texts_ready_def)
  obtain ms where d: "denotes wenv contents m False 0 calls [([], JObject ms)]" and ms: "map fst ms = report_members"
    using standard_calls_denote [OF calls env] by blast
  have i: "interpret_calls m calls no_frames = Some [(False, None, [([], JObject ms)])]"
    using d by (simp add: denotes_def no_frames_def)
  have meant: "\<forall>call\<in>set calls. meant wenv contents m call" using d by (simp add: denotes_def)
  have wf: "wf_frames (no_frames :: 'd frame list)" by (simp add: no_frames_def)
  have "step_puts wenv contents fd (run_all (standard_parts wenv ?env crash)) no_frames [(False, None, [([], JObject ms)])]"
    by (rule parts_put [OF assms(1) standard_parts_runs _ meant i wf]) (use calls in \<open>simp add: standard_calls_def\<close>)
  then obtain c where c: "run_all (standard_parts wenv ?env crash) (fresh_encoder (wr_os wenv) fd w0) = Inr c"
      "writes_to fd (userData c)"
      "written_stream contents (userData c) = contents fd w0 @ render (wr_fp wenv) True 0 (JObject ms)"
      "has_shape (report_addJSONData (wr_os wenv)) (frames_shape [(False, None, [([], JObject ms)])]) c"
    using assms(4) by (rule step_puts_value)
  obtain w' where w': "finish_report (wr_os wenv) frozen c = Inr (sentrycrashccd_unfreeze frozen, w')"
      "contents fd w' = written_stream contents (userData c)"
    using finish_writes [OF assms(1,2) c(2,4)] by blast
  have "sentrycrashreport_writeStandardReport wenv env crash path w = Inr (sentrycrashccd_unfreeze frozen, w')"
    using assms(3,4) c(1) w'(1)
    by (simp add: sentrycrashreport_writeStandardReport_def sentrycrashfu_openBufferedWriter_def fresh_encoder_def
      fresh_writer_def frozen_def case_prod_beta Let_def)
  moreover have "sentrycrashccd_unfreeze frozen = re_cached env" if "0 \<le> g_semaphoreCount (re_cached env)"
    using that
    by (simp add: frozen_def sentrycrashccd_freeze_def sentrycrashccd_unfreeze_def)
  ultimately show ?thesis using w'(2) c(3) ms by auto
qed



section \<open>A concrete report\<close>

text \<open>All four architectures have names of registers that can be written.\<close>

lemma table_name_plain:
  "list_all plain_key names \<Longrightarrow> table_name names reg = Inr (Some n) \<Longrightarrow> escapable_string (c_string n)"
  by (auto simp: table_name_def list_all_iff intro!: plain_key_escapable split: if_splits)

lemma register_tables_plain:
  "list_all plain_key g_registerNames_arm64" "list_all plain_key g_exceptionRegisterNames_arm64"
  "list_all plain_key g_registerNames_arm" "list_all plain_key g_exceptionRegisterNames_arm"
  "list_all plain_key g_registerNames_x86_64" "list_all plain_key g_exceptionRegisterNames_x86_64"
  "list_all plain_key g_registerNames_x86_32" "list_all plain_key g_exceptionRegisterNames_x86_32"
  by code_simp+

lemma cpus_named: "cpu_named arm64_cpu" "cpu_named arm_cpu" "cpu_named x86_64_cpu" "cpu_named x86_32_cpu"
  by (auto simp: cpu_named_def arm64_cpu_def arm_cpu_def x86_64_cpu_def x86_32_cpu_def
    sentrycrashcpu_registerName_arm64_def sentrycrashcpu_exceptionRegisterName_arm64_def
    sentrycrashcpu_registerName_arm_def sentrycrashcpu_exceptionRegisterName_arm_def
    sentrycrashcpu_registerName_x86_64_def sentrycrashcpu_exceptionRegisterName_x86_64_def
    sentrycrashcpu_registerName_x86_32_def sentrycrashcpu_exceptionRegisterName_x86_32_def
    intro: table_name_plain [OF register_tables_plain(1)] table_name_plain [OF register_tables_plain(2)]
      table_name_plain [OF register_tables_plain(3)] table_name_plain [OF register_tables_plain(4)]
      table_name_plain [OF register_tables_plain(5)] table_name_plain [OF register_tables_plain(6)]
      table_name_plain [OF register_tables_plain(7)] table_name_plain [OF register_tables_plain(8)])


text \<open>A process with one thread that has crashed, at address 0 and with an empty backtrace, and a user in its scope.\<close>

definition demo_memory :: macho_memory where
  "demo_memory =
     \<lparr>header_at = (\<lambda>_. None), load_command_at = (\<lambda>_. None), segment_at = (\<lambda>_. None), segment64_at = (\<lambda>_. None),
      dylib_version_at = (\<lambda>_. None), symtab_at = (\<lambda>_. None), nlist_at = (\<lambda>_. None), char_at = (\<lambda>_. None),
      crash_info_at = (\<lambda>_. None), mem_vm = (\<lambda>_ _. None)\<rparr>"

definition demo_objc :: "unit objc_ops" where
  "demo_objc =
     \<lparr>objc_isTaggedPointer = (\<lambda>_. False), objc_isValidTaggedPointer = (\<lambda>_. False), objc_taggedPointerPayload = (\<lambda>_. 0),
      objc_objectType = (\<lambda>_. ObjCTypeUnknown), objc_objectClassType = (\<lambda>_. ObjCClassTypeUnknown),
      objc_className = (\<lambda>_. None), objc_objectClassName = (\<lambda>_. None), objc_copyStringContents = (\<lambda>_ _. (0, [])),
      objc_dateContents = (\<lambda>_. ()), objc_numberAsFloat = (\<lambda>_. ()), objc_arrayContents = (\<lambda>_ _. []),
      objc_isaPointer = (\<lambda>_. 0), objc_ivarList = (\<lambda>_ _. []), objc_ivarValue = (\<lambda>_ _ _. None),
      float_of_bits = (\<lambda>_. ()), double_of_bits = (\<lambda>_. ())\<rparr>"

definition demo_env :: "(arm64_context, unit, unit, nat list) report_env" where
  "demo_env =
     \<lparr>re_machine = threads_env [5], re_kernel = [],
      re_symbols = \<lparr>sym_isa = Arm64, sym_memory = demo_memory, sym_images = [], string_at = (\<lambda>_. []),
        system_dladdr = (\<lambda>_. None)\<rparr>,
      re_uuid_at = (\<lambda>_. replicate 16 NUL),
      re_memory = \<lparr>me_objc = demo_objc, me_vm = (\<lambda>_ _. None),
        me_rules = \<lparr>introspection_enabled = True, restrictedClasses = None\<rparr>\<rparr>,
      re_cached = initial_cached_data, re_images = initial_cache (), re_images_fuel = 1,
      re_scope = initial_scope\<lparr>user := Some ''{}''\<rparr>, g_userInfoJSON = None, g_logFilename = ''/log'', re_time = 1\<rparr>"

definition demo_system :: system_info where
  "demo_system =
     \<lparr>systemName = Some ''iOS'', systemVersion = None, machine = None, model = None, kernelVersion = None,
      osVersion = None, isJailbroken = False, bootTime = None, appStartTime = None, executablePath = None,
      executableName = None, bundleID = None, bundleName = None, bundleVersion = None, bundleShortVersion = None,
      appID = None, cpuArchitecture = None, cpuType = 0, cpuSubType = 0, binaryCPUType = 0, binaryCPUSubType = 0,
      processName = None, processID = 7, parentProcessID = 1, deviceAppHash = None, buildType = None,
      memorySize = 0, freeMemorySize = 0, usableMemorySize = 0\<rparr>"

definition demo_crash :: "(arm64_context, unit) monitor_context" where
  "demo_crash =
     \<lparr>eventID = None, handlingCrash = False, registersAreValid = True, crash_isStackOverflow = False,
      offendingMachineContext = Some
        \<lparr>mc_thisThread = 5, allThreads = [5], threadCount = 1, isCrashedContext = True, isCurrentThread = False,
         isStackOverflow_flag = False, isSignalContext_flag = True, mcontext = zero_regs (threads_env [5])\<rparr>,
      faultAddress = 0, crashType = SentryCrashMonitorTypeSignal, exceptionName = None, crashReason = None,
      stackCursor = Some no_cursor, mach_type = 1, mach_code = 0, mach_subcode = 0, NSException_name = None,
      NSException_userInfo = None, CPPException_name = None, signal_userContext = None, signal_signum = 11, signal_sigcode = 0,
      userException_name = None, userException_language = None, userException_lineOfCode = None,
      userException_customStackTrace = None,
      AppState =
        \<lparr>activeDurationSinceLastCrash = (), backgroundDurationSinceLastCrash = (), launchesSinceLastCrash = 1,
         sessionsSinceLastCrash = 1, activeDurationSinceLaunch = (), backgroundDurationSinceLaunch = (),
         sessionsSinceLaunch = 1, crashedLastLaunch = False, durationFromCrashStateInitToLastCrash = (),
         crashedThisLaunch = False, appStateTransitionTime = (), applicationIsActive = True,
         applicationIsInForeground = True\<rparr>,
      System = demo_system, ZombieException_address = 0, ZombieException_name = None, ZombieException_reason = None\<rparr>"

definition demo_calls :: "unit writer_call list run" where
  "demo_calls =
     standard_calls (demo_env\<lparr>re_cached := snd (sentrycrashccd_freeze (re_cached demo_env))\<rparr>) demo_crash"

lemma demo_runs: "\<exists>calls. demo_calls = Inr calls"
proof -
  have "case demo_calls of Inl _ \<Rightarrow> False | Inr _ \<Rightarrow> True" by code_simp
  then show ?thesis by (auto split: sum.splits)
qed


definition demo_os :: "(bytes \<times> bytes) os" where
  "demo_os = one_byte_os\<lparr>os_open_read := (\<lambda>_ w. (-1, w))\<rparr>"

definition demo_writer :: "(unit, bytes \<times> bytes) writer_env" where
  "demo_writer = \<lparr>wr_os = demo_os, wr_fp = no_floats, wr_fuel = 10\<rparr>"

definition demo_meaning :: "unit meaning" where
  "demo_meaning = \<lparr>json_value = (\<lambda>_. JObject []), no_file = (\<lambda>_. True)\<rparr>"

lemma demo_os_ok: "reliable demo_os (\<lambda>_. fst)" "close_keeps demo_os (\<lambda>_. fst)"
  using one_byte_reliable by (simp_all add: reliable_def close_keeps_def demo_os_def) (simp add: one_byte_os_def)

lemma demo_writer_simps [simp]: "wr_os demo_writer = demo_os" "wr_fp demo_writer = no_floats"
  by (simp_all add: demo_writer_def)

lemma demo_named: "report_named demo_env"
  by (simp add: report_named_def demo_env_def threads_env_def cpus_named ivars_named_def demo_objc_def)

lemma demo_texts: "texts_ready demo_writer (\<lambda>_. fst) demo_meaning demo_env"
proof -
  have "object_text no_floats 100 5000 [] ''}''"
    using ot_Nil [of "[]" no_floats 100 5000] by simp
  then have "json_text no_floats 100 5000 (JObject []) ''{}''"
    using jt_object by fastforce
  then have "holds_json no_floats (''{}'' @ [NUL]) 2 (JObject [])"
    unfolding holds_json_def by (intro conjI exI [of _ "[]"] exI [of _ "''{}''"]) (simp_all add: is_number_def)
  then show ?thesis
    by (simp add: texts_ready_def demo_env_def scope_texts_def initial_scope_def crumbs_in_order_def json_ready_def
      demo_meaning_def meant_def demo_os_def c_string_def strlen_def numeral_2_eq_2)
qed

theorem calls_write_value_witness:
  "\<exists>c. perform_calls demo_writer
      [BeginArray None, AddStringElement None (Some ''a''), AddIntegerElement None 7, EndContainer]
      (fresh_encoder demo_os 3 ([], [])) = Inr c \<and>
    written_stream (\<lambda>_. fst) (userData c) = [] @ render no_floats True 0 (JArray [JString ''a'', JInt 7])"
  using calls_write_value [of demo_writer "\<lambda>_. fst"
      "[BeginArray None, AddStringElement None (Some ''a''), AddIntegerElement None 7, EndContainer]"
      demo_meaning "[]" "JArray [JString ''a'', JInt 7]" 3 "([], [])"]
  by (simp add: demo_os_ok meant_def no_frames_def frame_value_def element_name_def member_name_def frame_name_def
    text_value_def c_string_def escapable_def)


end
