(* ===== verification/Crash_Reporter.thy ===== *)
theory Crash_Reporter
  imports Report_Write Report_Store Session_Replay Report_Fixer
begin

text \<open>
  \<open>Recording/SentryCrashC.c\<close>: the crash reporter as the SDK sees it. It installs the parts, is called by
  the monitors when something has crashed, and passes everything else on. The state of all parts is
  one record here, and their world, the file system, is that of the application state.
\<close>

section \<open>The state\<close>

record ('c, 'd, 'v, 'w, 'f) crash_reporter =
  g_installed :: bool
  g_monitoring :: monitor_types
  g_lastCrashReportFilePath :: bytes
  g_saveScreenShot :: "(bytes \<Rightarrow> 'f \<Rightarrow> 'f) option"
  g_saveViewHierarchy :: "(bytes \<Rightarrow> 'f \<Rightarrow> 'f) option"
  g_saveTransaction :: "('f \<Rightarrow> 'f) option"
  cr_app :: "('d, 'f) app"
  cr_store :: report_store
  cr_replay :: crash_replay
  cr_report :: "('c, 'd, 'v, 'w) report_env"

text \<open>What does not change: the system, memory, \<open>rename\<close>, and the fuel for reading files.\<close>

record ('d, 'f) reporter_env =
  rp_platform :: "('d, 'f) platform"
  rp_store :: "'f store_env"
  rp_writer :: "('d, 'f) writer_env"
  rp_rename :: "bytes \<Rightarrow> bytes \<Rightarrow> 'f \<Rightarrow> bool \<times> 'f"
  rp_garbage :: "nat \<Rightarrow> 64 word list"
  rp_fuel :: nat

abbreviation cr_world :: "('c, 'd, 'v, 'w, 'f) crash_reporter \<Rightarrow> 'f" where
  "cr_world s \<equiv> app_world (cr_app s)"

abbreviation rp_os :: "('d, 'f) reporter_env \<Rightarrow> 'f os" where
  "rp_os env \<equiv> wr_os (rp_writer env)"

definition set_world :: "'f \<Rightarrow> ('c, 'd, 'v, 'w, 'f) crash_reporter \<Rightarrow> ('c, 'd, 'v, 'w, 'f) crash_reporter" where
  "set_world w s = s\<lparr>cr_app := (cr_app s)\<lparr>app_world := w\<rparr>\<rparr>"

definition set_report :: "(('c, 'd, 'v, 'w) report_env \<Rightarrow> ('c, 'd, 'v, 'w) report_env) \<Rightarrow>
    ('c, 'd, 'v, 'w, 'f) crash_reporter \<Rightarrow> ('c, 'd, 'v, 'w, 'f) crash_reporter" where
  "set_report f s = s\<lparr>cr_report := f (cr_report s)\<rparr>"

section \<open>A crash\<close>

definition write_first_report ::
    "('d, 'f) reporter_env \<Rightarrow> ('c, 'd) monitor_context \<Rightarrow> ('c, 'd, 'v, 'w, 'f) crash_reporter \<Rightarrow>
       ('c, 'd, 'v, 'w, 'f) crash_reporter run" where
  "write_first_report env crash s =
     (let (crashReportFilePath, store) = sentrycrashcrs_getNextCrashReportPath (cr_store s);
          s = s\<lparr>cr_store := store, g_lastCrashReportFilePath := c_string crashReportFilePath\<rparr>
      in bind_run
           (sentrycrashreport_writeStandardReport (rp_writer env) (cr_report s) crash crashReportFilePath (cr_world s))
           (\<lambda>(cached, w).
              let s = set_world w (set_report (\<lambda>r. r\<lparr>re_cached := cached\<rparr>) s)
              in bind_run (sentrySessionReplaySync_writeInfo (rp_os env) (cr_replay s) (cr_world s)) (\<lambda>w.
                   Inr (set_world w s))))"

definition write_second_report ::
    "('d, 'f) reporter_env \<Rightarrow> ('c, 'd) monitor_context \<Rightarrow> ('c, 'd, 'v, 'w, 'f) crash_reporter \<Rightarrow>
       ('c, 'd, 'v, 'w, 'f) crash_reporter run" where
  "write_second_report env crash s =
     bind_run
       (sentrycrashreport_writeRecrashReport (rp_rename env) (rp_writer env) (cr_report s) crash
         (g_lastCrashReportFilePath s) (cr_world s))
       (\<lambda>(cached, w). Inr (set_world w (set_report (\<lambda>r. r\<lparr>re_cached := cached\<rparr>) s)))"

definition call_saver :: "(bytes \<Rightarrow> 'f \<Rightarrow> 'f) option \<Rightarrow> bytes \<Rightarrow> 'f \<Rightarrow> 'f" where
  "call_saver saver path w = (case saver of None \<Rightarrow> w | Some f \<Rightarrow> f path w)"

definition save_attachments ::
    "('d, 'f) reporter_env \<Rightarrow> ('c, 'd, 'v, 'w, 'f) crash_reporter \<Rightarrow> ('c, 'd, 'v, 'w, 'f) crash_reporter run" where
  "save_attachments env s =
     (if g_saveScreenShot s = None \<and> g_saveViewHierarchy s = None then Inr s
      else
        bind_run (sentrycrashcrs_getAttachmentsPath_forReport (cr_store s) (g_lastCrashReportFilePath s)) (\<lambda>path.
        bind_run (sentrycrashfu_makePath (rp_os env) path (cr_world s)) (\<lambda>(made, w).
          Inr (set_world
            (if made then call_saver (g_saveViewHierarchy s) path (call_saver (g_saveScreenShot s) path w) else w)
            s))))"

definition sentrycrash_invokeSaveTransaction ::
    "('c, 'd, 'v, 'w, 'f) crash_reporter \<Rightarrow> ('c, 'd, 'v, 'w, 'f) crash_reporter" where
  "sentrycrash_invokeSaveTransaction s =
     (case g_saveTransaction s of None \<Rightarrow> s | Some f \<Rightarrow> set_world (f (cr_world s)) s)"

definition crash_in ::
    "('d, 'f) reporter_env \<Rightarrow> ('c, 'd) monitor_context event_context \<Rightarrow> ('c, 'd, 'v, 'w, 'f) crash_reporter \<Rightarrow>
       ('c, 'd, 'v, 'w, 'f) crash_reporter run" where
  "crash_in env event s =
     bind_run (sentrycrashstate_notifyAppCrash (rp_platform env) (cr_app s)) (\<lambda>a.
     bind_run
       ((if crashedDuringCrashHandling event then write_second_report else write_first_report)
         env (event_data event) (s\<lparr>cr_app := a\<rparr>)) (\<lambda>s.
     bind_run (save_attachments env s) (\<lambda>s. Inr (sentrycrash_invokeSaveTransaction s))))"

text \<open>The callback for events, in the monitors' world.\<close>

type_synonym ('c, 'd, 'v, 'w, 'f) crash_monitors =
  "(('c, 'd, 'v, 'w, 'f) crash_reporter, ('c, 'd) monitor_context) monitor_env"

type_synonym ('c, 'd, 'v, 'w, 'f) crash_monitoring = "('c, 'd, 'v, 'w, 'f) crash_reporter monitoring"

definition onCrash ::
    "('d, 'f) reporter_env \<Rightarrow> ('c, 'd) monitor_context event_context \<Rightarrow> ('c, 'd, 'v, 'w, 'f) crash_monitoring \<Rightarrow>
       ('c, 'd, 'v, 'w, 'f) crash_monitoring run" where
  "onCrash env event s =
     bind_run (crash_in env event (monitor_world s)) (\<lambda>w. Inr (s\<lparr>monitor_world := w\<rparr>))"

section \<open>Installing\<close>

definition sentrycrash_setMonitoring ::
    "monitor_types \<Rightarrow> ('c, 'd, 'v, 'w, 'f) crash_monitors \<Rightarrow> ('c, 'd, 'v, 'w, 'f) crash_monitoring \<Rightarrow>
       (monitor_types \<times> ('c, 'd, 'v, 'w, 'f) crash_monitoring) run" where
  "sentrycrash_setMonitoring monitors table s =
     (let s = s\<lparr>monitor_world := (monitor_world s)\<lparr>g_monitoring := monitors\<rparr>\<rparr>
      in if g_installed (monitor_world s) then
           bind_run (sentrycrashcm_setActiveMonitors table monitors s) (\<lambda>s.
             Inr (sentrycrashcm_getActiveMonitors s, s))
         else Inr (monitors, s))"

definition install_parts ::
    "('d, 'f) reporter_env \<Rightarrow> bytes \<Rightarrow> bytes \<Rightarrow> ('c, 'd, 'v, 'w, 'f) crash_reporter \<Rightarrow>
       ('c, 'd, 'v, 'w, 'f) crash_reporter run" where
  "install_parts env appName installPath s =
     (let within = (\<lambda>sub. snprintf SentryCrashFU_MAX_PATH_LENGTH (c_string installPath @ sub))
      in bind_run (sentrycrashfu_makePath (rp_os env) (within ''/Reports'') (cr_world s)) (\<lambda>(_, w).
         bind_run
           (sentrycrashcrs_initialize (rp_garbage env) (rp_store env) appName (within ''/Reports'') (cr_store s) w)
           (\<lambda>(store, w).
         bind_run (sentrycrashfu_makePath (rp_os env) (within ''/Data'') w) (\<lambda>(_, w).
         bind_run
           (sentrycrashstate_initialize (rp_fuel env) (rp_platform env) (within ''/Data/CrashState.json'')
             ((cr_app s)\<lparr>app_world := w\<rparr>)) (\<lambda>a.
           Inr (set_report (\<lambda>r. r\<lparr>re_cached := snd (sentrycrashccd_init 60 (re_cached r))\<rparr>)
             (s\<lparr>cr_store := store, cr_app := a\<rparr>)))))))"

definition sentrycrash_install ::
    "('d, 'f) reporter_env \<Rightarrow> bytes \<Rightarrow> bytes \<Rightarrow> ('c, 'd, 'v, 'w, 'f) crash_monitors \<Rightarrow>
     ('c, 'd, 'v, 'w, 'f) crash_monitoring \<Rightarrow>
       (monitor_types \<times> ('c, 'd, 'v, 'w, 'f) crash_monitors \<times> ('c, 'd, 'v, 'w, 'f) crash_monitoring) run" where
  "sentrycrash_install env appName installPath table s =
     (if g_installed (monitor_world s) then Inr (g_monitoring (monitor_world s), table, s)
      else
        bind_run (install_parts env appName installPath ((monitor_world s)\<lparr>g_installed := True\<rparr>)) (\<lambda>w.
          let table = sentrycrashcm_setEventCallback (onCrash env) table;
              s = s\<lparr>monitor_world := w\<rparr>
          in bind_run (sentrycrash_setMonitoring (g_monitoring w) table s) (\<lambda>(monitors, s).
               Inr (monitors, table, s))))"

text \<open>The callback becomes a null pointer, which must not be called.\<close>

definition sentrycrash_uninstall ::
    "('c, 'd, 'v, 'w, 'f) crash_monitors \<Rightarrow> ('c, 'd, 'v, 'w, 'f) crash_monitoring \<Rightarrow>
       ('c, 'd, 'v, 'w, 'f) crash_monitors \<times> ('c, 'd, 'v, 'w, 'f) crash_monitoring" where
  "sentrycrash_uninstall table s =
     (let table = sentrycrashcm_setEventCallback (\<lambda>_ _. Inl UndefinedBehaviour) table;
          w = (monitor_world s)\<lparr>g_installed := False\<rparr>;
          w = set_report (\<lambda>r. r\<lparr>re_cached := snd (sentrycrashccd_close (re_cached r))\<rparr>) w
      in (table, s\<lparr>monitor_world := w\<rparr>))"

section \<open>Settings\<close>

definition sentrycrash_setUserInfoJSON ::
    "bytes option \<Rightarrow> ('c, 'd, 'v, 'w, 'f) crash_reporter \<Rightarrow> ('c, 'd, 'v, 'w, 'f) crash_reporter" where
  "sentrycrash_setUserInfoJSON userInfoJSON s = set_report (sentrycrashreport_setUserInfoJSON userInfoJSON) s"

definition set_rules :: "introspection_rules \<Rightarrow> ('c, 'd, 'v, 'w) report_env \<Rightarrow> ('c, 'd, 'v, 'w) report_env" where
  "set_rules rules r = r\<lparr>re_memory := (re_memory r)\<lparr>me_rules := rules\<rparr>\<rparr>"

definition sentrycrash_setIntrospectMemory ::
    "bool \<Rightarrow> ('c, 'd, 'v, 'w, 'f) crash_reporter \<Rightarrow> ('c, 'd, 'v, 'w, 'f) crash_reporter" where
  "sentrycrash_setIntrospectMemory introspectMemory s =
     set_report (\<lambda>r. set_rules (sentrycrashreport_setIntrospectMemory introspectMemory (me_rules (re_memory r))) r) s"

definition sentrycrash_setDoNotIntrospectClasses ::
    "(nat \<Rightarrow> bool) \<Rightarrow> (bytes \<Rightarrow> bytes option) \<Rightarrow> bytes list option \<Rightarrow> int \<Rightarrow>
     ('c, 'd, 'v, 'w, 'f) crash_reporter \<Rightarrow> ('c, 'd, 'v, 'w, 'f) crash_reporter run" where
  "sentrycrash_setDoNotIntrospectClasses malloc strdup doNotIntrospectClasses len s =
     bind_run
       (sentrycrashreport_setDoNotIntrospectClasses malloc strdup doNotIntrospectClasses len
         (me_rules (re_memory (cr_report s))))
       (\<lambda>rules. Inr (set_report (set_rules rules) s))"

definition sentrycrash_setMaxReportCount ::
    "int \<Rightarrow> ('c, 'd, 'v, 'w, 'f) crash_reporter \<Rightarrow> ('c, 'd, 'v, 'w, 'f) crash_reporter" where
  "sentrycrash_setMaxReportCount maxReportCount s =
     s\<lparr>cr_store := sentrycrashcrs_setMaxReportCount maxReportCount (cr_store s)\<rparr>"

definition sentrycrash_setSaveScreenshots ::
    "(bytes \<Rightarrow> 'f \<Rightarrow> 'f) option \<Rightarrow> ('c, 'd, 'v, 'w, 'f) crash_reporter \<Rightarrow> ('c, 'd, 'v, 'w, 'f) crash_reporter" where
  "sentrycrash_setSaveScreenshots callback s = s\<lparr>g_saveScreenShot := callback\<rparr>"

definition sentrycrash_setSaveViewHierarchy ::
    "(bytes \<Rightarrow> 'f \<Rightarrow> 'f) option \<Rightarrow> ('c, 'd, 'v, 'w, 'f) crash_reporter \<Rightarrow> ('c, 'd, 'v, 'w, 'f) crash_reporter" where
  "sentrycrash_setSaveViewHierarchy callback s = s\<lparr>g_saveViewHierarchy := callback\<rparr>"

definition sentrycrash_setSaveTransaction ::
    "('f \<Rightarrow> 'f) option \<Rightarrow> ('c, 'd, 'v, 'w, 'f) crash_reporter \<Rightarrow> ('c, 'd, 'v, 'w, 'f) crash_reporter" where
  "sentrycrash_setSaveTransaction callback s = s\<lparr>g_saveTransaction := callback\<rparr>"

definition sentrycrash_hasSaveScreenshotCallback :: "('c, 'd, 'v, 'w, 'f) crash_reporter \<Rightarrow> bool" where
  "sentrycrash_hasSaveScreenshotCallback s \<longleftrightarrow> g_saveScreenShot s \<noteq> None"

definition sentrycrash_hasSaveViewHierarchyCallback :: "('c, 'd, 'v, 'w, 'f) crash_reporter \<Rightarrow> bool" where
  "sentrycrash_hasSaveViewHierarchyCallback s \<longleftrightarrow> g_saveViewHierarchy s \<noteq> None"

definition sentrycrash_hasSaveTransaction :: "('c, 'd, 'v, 'w, 'f) crash_reporter \<Rightarrow> bool" where
  "sentrycrash_hasSaveTransaction s \<longleftrightarrow> g_saveTransaction s \<noteq> None"

section \<open>Notifications\<close>

definition on_app ::
    "(('d, 'f) app \<Rightarrow> ('d, 'f) app run) \<Rightarrow> ('c, 'd, 'v, 'w, 'f) crash_reporter \<Rightarrow>
       ('c, 'd, 'v, 'w, 'f) crash_reporter run" where
  "on_app f s = bind_run (f (cr_app s)) (\<lambda>a. Inr (s\<lparr>cr_app := a\<rparr>))"

definition sentrycrash_notifyAppActive ::
    "('d, 'f) reporter_env \<Rightarrow> bool \<Rightarrow> ('c, 'd, 'v, 'w, 'f) crash_reporter \<Rightarrow> ('c, 'd, 'v, 'w, 'f) crash_reporter run" where
  "sentrycrash_notifyAppActive env isActive = on_app (sentrycrashstate_notifyAppActive (rp_platform env) isActive)"

definition sentrycrash_notifyAppInForeground ::
    "('d, 'f) reporter_env \<Rightarrow> bool \<Rightarrow> ('c, 'd, 'v, 'w, 'f) crash_reporter \<Rightarrow> ('c, 'd, 'v, 'w, 'f) crash_reporter run" where
  "sentrycrash_notifyAppInForeground env isInForeground =
     on_app (sentrycrashstate_notifyAppInForeground (rp_platform env) isInForeground)"

definition sentrycrash_notifyAppTerminate ::
    "('d, 'f) reporter_env \<Rightarrow> ('c, 'd, 'v, 'w, 'f) crash_reporter \<Rightarrow> ('c, 'd, 'v, 'w, 'f) crash_reporter run" where
  "sentrycrash_notifyAppTerminate env = on_app (sentrycrashstate_notifyAppTerminate (rp_platform env))"

definition sentrycrash_notifyAppCrash ::
    "('d, 'f) reporter_env \<Rightarrow> ('c, 'd, 'v, 'w, 'f) crash_reporter \<Rightarrow> ('c, 'd, 'v, 'w, 'f) crash_reporter run" where
  "sentrycrash_notifyAppCrash env = on_app (sentrycrashstate_notifyAppCrash (rp_platform env))"

section \<open>Reports\<close>

definition sentrycrash_getReportCount ::
    "('d, 'f) reporter_env \<Rightarrow> ('c, 'd, 'v, 'w, 'f) crash_reporter \<Rightarrow>
       (int \<times> ('c, 'd, 'v, 'w, 'f) crash_reporter) run" where
  "sentrycrash_getReportCount env s =
     bind_run (sentrycrashcrs_getReportCount (rp_store env) (cr_store s) (cr_world s)) (\<lambda>(n, w).
       Inr (n, set_world w s))"

definition sentrycrash_getReportIDs ::
    "('d, 'f) reporter_env \<Rightarrow> 64 word list \<Rightarrow> ('c, 'd, 'v, 'w, 'f) crash_reporter \<Rightarrow>
       (int \<times> 64 word list \<times> ('c, 'd, 'v, 'w, 'f) crash_reporter) run" where
  "sentrycrash_getReportIDs env reportIDs s =
     bind_run (sentrycrashcrs_getReportIDs (rp_store env) (cr_store s) reportIDs (cr_world s)) (\<lambda>(n, ids, w).
       Inr (n, ids, set_world w s))"

definition sentrycrash_readReport ::
    "('d, 'f) reporter_env \<Rightarrow> 64 word \<Rightarrow> ('c, 'd, 'v, 'w, 'f) crash_reporter \<Rightarrow>
       (bytes option \<times> ('c, 'd, 'v, 'w, 'f) crash_reporter) run" where
  "sentrycrash_readReport env reportID s =
     (if sint reportID \<le> 0 then Inr (None, s)
      else
        bind_run (sentrycrashcrs_readReport (rp_fuel env) (rp_store env) (cr_store s) reportID (cr_world s))
          (\<lambda>(rawReport, w).
             let s = set_world w s
             in if rawReport = None then Inr (None, s)
                else bind_run
                       (sentrycrashcrf_fixupCrashReport (wr_fp (rp_writer env)) (\<lambda>n. s_alloc (rp_store env) (nat n))
                         rawReport)
                       (\<lambda>fixedReport. Inr (fixedReport, s))))"

definition sentrycrash_addUserReport ::
    "('d, 'f) reporter_env \<Rightarrow> bytes \<Rightarrow> ('c, 'd, 'v, 'w, 'f) crash_reporter \<Rightarrow>
       64 word \<times> ('c, 'd, 'v, 'w, 'f) crash_reporter" where
  "sentrycrash_addUserReport env report s =
     (let (i, store, w) = sentrycrashcrs_addUserReport (rp_store env) report (cr_store s) (cr_world s)
      in (i, set_world w (s\<lparr>cr_store := store\<rparr>)))"

definition sentrycrash_deleteAllReports ::
    "('d, 'f) reporter_env \<Rightarrow> ('c, 'd, 'v, 'w, 'f) crash_reporter \<Rightarrow> ('c, 'd, 'v, 'w, 'f) crash_reporter run" where
  "sentrycrash_deleteAllReports env s =
     bind_run (sentrycrashcrs_deleteAllReports (rp_fuel env) (rp_store env) (cr_store s) (cr_world s)) (\<lambda>w.
       Inr (set_world w s))"

definition sentrycrash_deleteReportWithID ::
    "('d, 'f) reporter_env \<Rightarrow> 64 word \<Rightarrow> ('c, 'd, 'v, 'w, 'f) crash_reporter \<Rightarrow> ('c, 'd, 'v, 'w, 'f) crash_reporter" where
  "sentrycrash_deleteReportWithID env reportID s =
     set_world (sentrycrashcrs_deleteReportWithID (rp_store env) (cr_store s) reportID (cr_world s)) s"

end
