(* ===== verification/Crash_Reporter_Spec.thy ===== *)
theory Crash_Reporter_Spec
  imports Crash_Reporter Report_Spec Report_Store_Spec Fixer_Props
begin

text \<open>
  What the crash reporter as a whole promises: a crash is written to a report and remembered, a report
  of an earlier launch is read with its dates fixed, and a crash while reporting needs a first report.
\<close>

lemma crash_world_simps [simp]:
  "cr_world (set_world w s) = w" "cr_world (set_report f s) = cr_world s"
  "cr_report (set_world w s) = cr_report s" "cr_report (set_report f s) = f (cr_report s)"
  "cr_store (set_world w s) = cr_store s" "cr_store (set_report f s) = cr_store s"
  "cr_replay (set_world w s) = cr_replay s" "cr_replay (set_report f s) = cr_replay s"
  "g_state (cr_app (set_world w s)) = g_state (cr_app s)" "cr_app (set_report f s) = cr_app s"
  "g_lastCrashReportFilePath (set_world w s) = g_lastCrashReportFilePath s"
  "g_lastCrashReportFilePath (set_report f s) = g_lastCrashReportFilePath s"
  "g_saveScreenShot (set_world w s) = g_saveScreenShot s" "g_saveScreenShot (set_report f s) = g_saveScreenShot s"
  "g_saveViewHierarchy (set_world w s) = g_saveViewHierarchy s"
  "g_saveViewHierarchy (set_report f s) = g_saveViewHierarchy s"
  "g_saveTransaction (set_world w s) = g_saveTransaction s" "g_saveTransaction (set_report f s) = g_saveTransaction s"
  by (simp_all add: set_world_def set_report_def)

definition next_report_path :: "('c, 'd, 'v, 'w, 'f) crash_reporter \<Rightarrow> bytes" where
  "next_report_path s = fst (sentrycrashcrs_getNextCrashReportPath (cr_store s))"

text \<open>A reporter that has nothing to save beside the report.\<close>

definition only_reports :: "('c, 'd, 'v, 'w, 'f) crash_reporter \<Rightarrow> bool" where
  "only_reports s \<longleftrightarrow> g_saveScreenShot s = None \<and> g_saveViewHierarchy s = None \<and> g_saveTransaction s = None \<and>
     replay_path (cr_replay s) = None"



text \<open>
  C15. A report that an earlier process left, with any text of JSON for an object or array that nests no
  deeper than 99 and is not longer than the store reads, is delivered as the text of its fixed value: dates
  that were numbers are texts, everything else is as it was; the file stays.
\<close>

theorem report_delivered:
  assumes "0 < sint reportID"
    and "one_file (s_os (rp_store env)) (getCrashReportPathByID (cr_store s) reportID) file rest"
    and "json_text (wr_fp (rp_writer env)) 37500 112500 t (file (cr_world s))" "\<not> is_number t" "no_nul (file (cr_world s))"
    and "encodable 0 t" "fixable [] None t"
    and "length (render (wr_fp (rp_writer env)) True 0 (fix_json [] None t)) < 3 * length (file (cr_world s)) div 2"
    and "s_alloc (rp_store env) = (\<lambda>_. True)" "length (file (cr_world s)) \<le> rp_fuel env"
    and "length (file (cr_world s)) \<le> 2000000"
  shows "\<exists>s'. sentrycrash_readReport env reportID s =
      Inr (Some (render (wr_fp (rp_writer env)) True 0 (fix_json [] None t)), s') \<and>
    file (cr_world s') = file (cr_world s)"
proof -
  obtain w' where w': "sentrycrashfu_readEntireFile (rp_fuel env) (s_os (rp_store env)) (s_alloc (rp_store env))
      (getCrashReportPathByID (cr_store s) reportID) 2000000 (cr_world s) =
      Inr (True, Some (file (cr_world s)), length (file (cr_world s)), w')" "file w' = file (cr_world s)"
    using readEntireFile_one_file [OF assms(2,10), of "s_alloc (rp_store env)" 2000000] assms(9,11) by auto
  have "sentrycrashcrf_fixupCrashReport (wr_fp (rp_writer env)) (\<lambda>n. s_alloc (rp_store env) (nat n)) (Some (file (cr_world s))) =
      Inr (Some (render (wr_fp (rp_writer env)) True 0 (fix_json [] None t)))"
    using fixupCrashReport_result [OF assms(3-7), of "\<lambda>n. s_alloc (rp_store env) (nat n)"] assms(8,9) by simp
  with w' assms(1) show ?thesis
    by (simp add: sentrycrash_readReport_def sentrycrashcrs_readReport_def)
qed

section \<open>A concrete reporter\<close>

text \<open>
  A kernel with one file, which a new file empties, a platform whose clock stands still, and a reporter
  in a process that has just started and keeps its state and its reports there.
\<close>

definition single_file_os :: "(bytes \<times> bytes) os" where
  "single_file_os = demo_os\<lparr>os_open_new := (\<lambda>_ (a, b). (3, ([], b)))\<rparr>"

definition still_platform :: "(unit, bytes \<times> bytes) platform" where
  "still_platform =
     \<lparr>p_fp = no_floats,
      p_arith = \<lparr>d_zero = (), d_add = (\<lambda>_ _. ()), d_sub = (\<lambda>_ _. ()), d_of_int = (\<lambda>_. ())\<rparr>,
      p_os = one_byte_os, p_alloc = (\<lambda>_. True), p_now = (\<lambda>w. ((), w))\<rparr>"

definition plain_store :: "(bytes \<times> bytes) store_env" where
  "plain_store =
     \<lparr>s_os = one_byte_os, s_alloc = (\<lambda>_. True), open_create = (\<lambda>_ w. (3, w)), readdir_all = (\<lambda>_ w. (None, w)),
      gmtime_now = (\<lambda>w. (\<lparr>tm_sec = 0, tm_min = 0, tm_hour = 0, tm_yday = 0, tm_year = 125\<rparr>, w))\<rparr>"

definition single_file_env :: "(unit, bytes \<times> bytes) reporter_env" where
  "single_file_env =
     \<lparr>rp_platform = still_platform, rp_store = plain_store,
      rp_writer = \<lparr>wr_os = single_file_os, wr_fp = no_floats, wr_fuel = 10\<rparr>,
      rp_rename = (\<lambda>_ _ w. (True, w)), rp_garbage = (\<lambda>_. []), rp_fuel = 1000\<rparr>"

definition demo_reporter :: "bool \<Rightarrow> bytes \<Rightarrow>
    (arm64_context, unit, unit, nat list, bytes \<times> bytes) crash_reporter" where
  "demo_reporter e file =
     \<lparr>g_installed = True, g_monitoring = 0, g_lastCrashReportFilePath = [], g_saveScreenShot = None,
      g_saveViewHierarchy = None, g_saveTransaction = None,
      cr_app = \<lparr>g_stateFilePath = ''/s'', g_state = zero_state (p_arith still_platform),
        g_crashstate_initialize_time = (), g_isEnabled = e, app_world = (file, [])\<rparr>,
      cr_store = initial_store, cr_replay = initial_replay, cr_report = demo_env\<rparr>"

definition demo_event :: "bool \<Rightarrow> (arm64_context, unit) monitor_context event_context" where
  "demo_event again =
     \<lparr>requiresAsyncSafety = True, crashedDuringCrashHandling = again, event_data = demo_crash\<rparr>"

lemma single_file_simps [simp]:
  "rp_platform single_file_env = still_platform" "wr_os (rp_writer single_file_env) = single_file_os"
  "wr_fp (rp_writer single_file_env) = no_floats" "rp_store single_file_env = plain_store"
  "rp_fuel single_file_env = 1000" "s_os plain_store = one_byte_os" "s_alloc plain_store = (\<lambda>_. True)"
  "p_os still_platform = one_byte_os" "clock_at still_platform ()"
  by (simp_all add: single_file_env_def still_platform_def plain_store_def clock_at_def)

lemma single_file_ok: "reliable single_file_os (\<lambda>_. fst)" "close_keeps single_file_os (\<lambda>_. fst)"
  using demo_os_ok by (simp_all add: reliable_def close_keeps_def single_file_os_def)

lemma demo_reporter_simps [simp]:
  "cr_report (demo_reporter e f) = demo_env" "cr_store (demo_reporter e f) = initial_store"
  "g_isEnabled (cr_app (demo_reporter e f)) = e" "g_lastCrashReportFilePath (demo_reporter e f) = []"
  "cr_world (demo_reporter e f) = (f, [])" "event_data (demo_event b) = demo_crash"
  "crashedDuringCrashHandling (demo_event b) = b" "only_reports (demo_reporter e f)"
  by (simp_all add: demo_reporter_def demo_event_def only_reports_def initial_replay_def)

lemma single_texts: "texts_ready (rp_writer single_file_env) (\<lambda>_. fst) demo_meaning demo_env"
  using demo_texts by (simp add: texts_ready_def json_ready_def meant_def single_file_os_def demo_writer_def
    single_file_env_def)



theorem report_delivered_witness:
  "\<exists>s'. sentrycrash_readReport single_file_env 1 (demo_reporter True (render no_floats True 0 sample_report)) =
      Inr (Some (render no_floats True 0 sample_fixed), s') \<and>
    fst (cr_world s') = render no_floats True 0 sample_report"
  using report_delivered [of 1 single_file_env "demo_reporter True (render no_floats True 0 sample_report)" fst snd
      sample_report] sample_text sample_no_nul sample_ok sample_lengths sample_fix
  by (simp add: one_byte_file)

end
